(* ===== verification/HCDR_Prelude.thy ===== *)
theory HCDR_Prelude
  imports Main "HOL-Library.Char_ord" "HOL-Library.List_Lexorder" "HOL-Library.Product_Lexorder"
begin

text \<open>
  The shared vocabulary of the development: results with an error branch, the parts of Go's
  \<^verbatim>\<open>strings\<close> package the sources use, fixed-width integers, and tables of rows with a key.
\<close>

named_theorems go_simps
  \<open>equations of the Go library functions, for evaluating closed instances\<close>

section \<open>Results\<close>

text \<open>
  A Go function \<^verbatim>\<open>func f(...) (T, error)\<close> becomes \<open>\<dots> \<Rightarrow> 'e + 'a\<close>: \<open>Inl\<close> is the returned
  error, \<open>Inr\<close> the value. \<open>res_bind\<close> is the early return \<^verbatim>\<open>if err != nil { return err }\<close>.
\<close>

definition res_bind :: "'e + 'a \<Rightarrow> ('a \<Rightarrow> 'e + 'b) \<Rightarrow> 'e + 'b" where
  "res_bind m f = (case m of Inl e \<Rightarrow> Inl e | Inr a \<Rightarrow> f a)"

definition res_guard :: "bool \<Rightarrow> 'e \<Rightarrow> 'e + unit" where
  "res_guard b e = (if b then Inr () else Inl e)"

fun res_fold :: "('s \<Rightarrow> 'x \<Rightarrow> 'e + 's) \<Rightarrow> 's \<Rightarrow> 'x list \<Rightarrow> 'e + 's" where
  "res_fold f s [] = Inr s"
| "res_fold f s (x # xs) = (case f s x of Inl e \<Rightarrow> Inl e | Inr s' \<Rightarrow> res_fold f s' xs)"

fun res_map :: "('x \<Rightarrow> 'e + 'y) \<Rightarrow> 'x list \<Rightarrow> 'e + 'y list" where
  "res_map f [] = Inr []"
| "res_map f (x # xs) = res_bind (f x) (\<lambda>y. map_sum id (Cons y) (res_map f xs))"

lemma res_bind_simps [simp]:
  "res_bind (Inl e) f = Inl e"
  "res_bind (Inr a) f = f a"
  by (simp_all add: res_bind_def)

lemma res_bind_Inr_iff:
  "res_bind m f = Inr b \<longleftrightarrow> (\<exists>a. m = Inr a \<and> f a = Inr b)"
  by (cases m) simp_all

lemma res_bind_Inl_iff:
  "res_bind m f = Inl e \<longleftrightarrow> m = Inl e \<or> (\<exists>a. m = Inr a \<and> f a = Inl e)"
  by (cases m) simp_all

lemma res_guard_iff [simp]:
  "res_guard b e = Inr u \<longleftrightarrow> b"
  "res_guard b e = Inl e' \<longleftrightarrow> \<not> b \<and> e' = e"
  by (auto simp: res_guard_def)

text \<open>An early return with an error in front of the rest of a function.\<close>

lemma res_if_Inr: "(if c then Inl e else m) = Inr a \<longleftrightarrow> \<not> c \<and> m = Inr a"
  by simp

lemma res_guard_simps [simp]: "res_guard True e = Inr ()" "res_guard False e = Inl e"
  by (simp_all add: res_guard_def)

lemma res_fold_invariant:
  assumes "res_fold f s xs = Inr s'" and "I s"
    and "\<And>s x s'. x \<in> set xs \<Longrightarrow> I s \<Longrightarrow> f s x = Inr s' \<Longrightarrow> I s'"
  shows "I s'"
  using assms
proof (induction xs arbitrary: s)
  case (Cons x xs)
  then obtain s1 where s1: "f s x = Inr s1" "res_fold f s1 xs = Inr s'"
    by (auto split: sum.splits)
  from Cons.prems(3) [OF _ Cons.prems(2) s1(1)] have "I s1" by simp
  with s1(2) show ?case
    by (rule Cons.IH) (use Cons.prems(3) in auto)
qed simp

lemma res_map_cong [fundef_cong]:
  "xs = ys \<Longrightarrow> (\<And>x. x \<in> set ys \<Longrightarrow> f x = g x) \<Longrightarrow> res_map f xs = res_map g ys"
  by (induction xs arbitrary: ys) auto

lemma map_sum_Inr_iff: "map_sum id f m = Inr b \<longleftrightarrow> (\<exists>a. m = Inr a \<and> b = f a)"
  by (cases m) auto

lemma res_map_all:
  assumes "res_map f xs = Inr ys" and "\<And>x y. x \<in> set xs \<Longrightarrow> f x = Inr y \<Longrightarrow> P y"
  shows "list_all P ys"
  using assms by (induction xs arbitrary: ys) (fastforce simp: res_bind_Inr_iff map_sum_Inr_iff)+

lemma res_map_map:
  "(\<And>x. x \<in> set xs \<Longrightarrow> f (g x) = Inr (h x)) \<Longrightarrow> res_map f (map g xs) = Inr (map h xs)"
  by (induction xs) auto

section \<open>Strings\<close>

text \<open>
  Go strings are byte strings, and so are HOL's: \<open>string = char list\<close>. The case and space
  functions are given for ASCII, which is all the compared constants contain.
\<close>

definition is_space :: "char \<Rightarrow> bool" where
  "is_space c \<longleftrightarrow> of_char c \<in> {9, 10, 11, 12, 13, 32::nat}"

definition trim_space :: "string \<Rightarrow> string" where
  "trim_space s = rev (dropWhile is_space (rev (dropWhile is_space s)))"

definition lower_char :: "char \<Rightarrow> char" where
  "lower_char c = (let n = of_char c :: nat in if 65 \<le> n \<and> n \<le> 90 then char_of (n + 32) else c)"

definition upper_char :: "char \<Rightarrow> char" where
  "upper_char c = (let n = of_char c :: nat in if 97 \<le> n \<and> n \<le> 122 then char_of (n - 32) else c)"

definition to_lower :: "string \<Rightarrow> string" where
  "to_lower = map lower_char"

definition to_upper :: "string \<Rightarrow> string" where
  "to_upper = map upper_char"

definition equal_fold :: "string \<Rightarrow> string \<Rightarrow> bool" where
  "equal_fold a b \<longleftrightarrow> to_lower a = to_lower b"

fun split_on :: "char \<Rightarrow> string \<Rightarrow> string list" where
  "split_on c [] = [[]]"
| "split_on c (x # xs) =
     (if x = c then [] # split_on c xs
      else (case split_on c xs of [] \<Rightarrow> [[x]] | y # ys \<Rightarrow> (x # y) # ys))"

definition trim_prefix :: "string \<Rightarrow> string \<Rightarrow> string" where
  "trim_prefix p s = (if take (length p) s = p then drop (length p) s else s)"

definition has_prefix :: "string \<Rightarrow> string \<Rightarrow> bool" where
  "has_prefix p s \<longleftrightarrow> take (length p) s = p"

fun contains :: "string \<Rightarrow> string \<Rightarrow> bool" where
  "contains sub [] \<longleftrightarrow> sub = []"
| "contains sub (c # s) \<longleftrightarrow> has_prefix sub (c # s) \<or> contains sub s"

text \<open>The case of a letter is one bit of it, which evaluates without arithmetic.\<close>

lemma lower_char_bits [code]:
  "lower_char (Char b0 b1 b2 b3 b4 b5 b6 b7) =
     (if b6 \<and> \<not> b5 \<and> \<not> b7 \<and> (b0 \<or> b1 \<or> b2 \<or> b3 \<or> b4) \<and> \<not> (b4 \<and> b3 \<and> (b2 \<or> b1 \<and> b0))
      then Char b0 b1 b2 b3 b4 True b6 b7 else Char b0 b1 b2 b3 b4 b5 b6 b7)"
  by (cases b0; cases b1; cases b2; cases b3; cases b4; cases b5; cases b6; cases b7)
    (simp_all add: lower_char_def char_of_def bit_simps of_char_def)

lemma trim_space_Nil [simp]: "trim_space [] = []"
  by (simp add: trim_space_def)

lemma length_to_lower [simp]: "length (to_lower s) = length s"
  by (simp add: to_lower_def)

lemma split_on_nonempty [simp]: "split_on c s \<noteq> []"
  by (induction s) (auto split: list.splits)

lemmas string_defs = trim_space_def is_space_def to_lower_def to_upper_def lower_char_def
  upper_char_def equal_fold_def has_prefix_def trim_prefix_def

section \<open>Machine integers\<close>

text \<open>Go's \<^verbatim>\<open>int\<close> and \<^verbatim>\<open>int64\<close> are 64 bits wide on the platforms the project builds for.\<close>

definition wrap64 :: "int \<Rightarrow> int" where
  "wrap64 n = (n + 2 ^ 63) mod 2 ^ 64 - 2 ^ 63"

lemma wrap64_id: "- (2 ^ 63) \<le> n \<Longrightarrow> n < 2 ^ 63 \<Longrightarrow> wrap64 n = n"
  by (simp add: wrap64_def)

lemma wrap64_range: "- (2 ^ 63) \<le> wrap64 n \<and> wrap64 n < 2 ^ 63"
  using pos_mod_bound [of "2 ^ 64" "n + 2 ^ 63"] pos_mod_sign [of "2 ^ 64" "n + 2 ^ 63"]
  by (simp add: wrap64_def)

section \<open>Tables of rows\<close>

text \<open>\<^verbatim>\<open>update t set ... where p\<close> and the count and lookup queries on one table.\<close>

definition update_where :: "('r \<Rightarrow> bool) \<Rightarrow> ('r \<Rightarrow> 'r) \<Rightarrow> 'r list \<Rightarrow> 'r list" where
  "update_where p f rows = map (\<lambda>r. if p r then f r else r) rows"

definition count_where :: "('r \<Rightarrow> bool) \<Rightarrow> 'r list \<Rightarrow> nat" where
  "count_where p rows = length (filter p rows)"

lemma length_update_where [simp]: "length (update_where p f rows) = length rows"
  by (simp add: update_where_def)

lemma update_where_simps [simp]:
  "update_where p f [] = []"
  "update_where p f (r # rs) = (if p r then f r else r) # update_where p f rs"
  by (simp_all add: update_where_def)

lemma update_where_append: "update_where p f (xs @ ys) = update_where p f xs @ update_where p f ys"
  by (simp add: update_where_def)

lemma set_update_where:
  "set (update_where p f rows) = {r \<in> set rows. \<not> p r} \<union> f ` {r \<in> set rows. p r}"
  by (auto simp: update_where_def)

lemma update_where_none: "(\<And>r. r \<in> set rows \<Longrightarrow> \<not> p r) \<Longrightarrow> update_where p f rows = rows"
  by (induction rows) auto

lemma count_where_simps [simp]:
  "count_where p [] = 0"
  "count_where p (r # rs) = (if p r then 1 else 0) + count_where p rs"
  by (simp_all add: count_where_def)

lemma count_where_append [simp]: "count_where p (xs @ ys) = count_where p xs + count_where p ys"
  by (simp add: count_where_def)

lemma count_where_cong:
  "(\<And>r. r \<in> set rows \<Longrightarrow> p r = q r) \<Longrightarrow> count_where p rows = count_where q rows"
  by (induction rows) auto

lemma count_where_update:
  assumes "\<And>r. r \<in> set rows \<Longrightarrow> p r \<Longrightarrow> c (f r) = c r"
  shows "count_where c (update_where p f rows) = count_where c rows"
  using assms by (induction rows) auto

lemma count_where_update_le:
  assumes "\<And>r. r \<in> set rows \<Longrightarrow> p r \<Longrightarrow> c (f r) \<Longrightarrow> c r"
  shows "count_where c (update_where p f rows) \<le> count_where c rows"
  using assms
proof (induction rows)
  case (Cons r rs)
  then have "count_where c (update_where p f rs) \<le> count_where c rs" by simp
  with Cons.prems [of r] show ?case by simp
qed simp

section \<open>Positions in a list\<close>

lemma ex_split_Cons:
  "(\<exists>as p bs. q # qs = as @ p # bs \<and> P as p) \<longleftrightarrow>
     P [] q \<or> (\<exists>as p bs. qs = as @ p # bs \<and> P (q # as) p)"
proof
  assume "\<exists>as p bs. q # qs = as @ p # bs \<and> P as p"
  then obtain as p bs where "q # qs = as @ p # bs" "P as p" by blast
  then show "P [] q \<or> (\<exists>as p bs. qs = as @ p # bs \<and> P (q # as) p)"
    by (cases as) auto
next
  assume "P [] q \<or> (\<exists>as p bs. qs = as @ p # bs \<and> P (q # as) p)"
  then show "\<exists>as p bs. q # qs = as @ p # bs \<and> P as p"
    by (metis append_Cons append_Nil)
qed

lemma count_where_card: "distinct xs \<Longrightarrow> count_where P xs = card {x \<in> set xs. P x}"
  by (simp add: count_where_def distinct_length_filter Collect_conj_eq Int_commute)

lemma count_where_mono:
  "(\<And>x. x \<in> set xs \<Longrightarrow> Q x \<Longrightarrow> P x) \<Longrightarrow> count_where Q xs \<le> count_where P xs"
  by (induction xs) (auto simp: le_SucI)

lemma count_where_one_more:
  assumes "distinct xs" "\<And>x. x \<in> set xs \<Longrightarrow> Q x \<Longrightarrow> \<not> P x \<Longrightarrow> x = r"
  shows "count_where Q xs \<le> Suc (count_where P xs)"
proof -
  have "{x \<in> set xs. Q x} \<subseteq> insert r {x \<in> set xs. P x}" using assms(2) by blast
  then have "card {x \<in> set xs. Q x} \<le> card (insert r {x \<in> set xs. P x})" by (intro card_mono) auto
  also have "\<dots> \<le> Suc (card {x \<in> set xs. P x})" by (simp add: card_insert_if)
  finally show ?thesis using assms(1) by (simp add: count_where_card)
qed

lemma ball_update_where:
  "(\<forall>x \<in> set (update_where P f xs). Q x) \<longleftrightarrow> (\<forall>x \<in> set xs. (P x \<longrightarrow> Q (f x)) \<and> (\<not> P x \<longrightarrow> Q x))"
  by (induction xs) auto

end
