(* ===== verification/Go_Time.thy ===== *)
theory Go_Time
  imports HCDR_Prelude
begin

text \<open>
  Go's \<^verbatim>\<open>time\<close> package, as far as the scheduler and the retention rules use it: the proleptic
  Gregorian calendar, \<^verbatim>\<open>Date\<close> with its normalisation of out-of-range months and days,
  \<^verbatim>\<open>AddDate\<close>, \<^verbatim>\<open>Weekday\<close>, \<^verbatim>\<open>Truncate\<close> and \<^verbatim>\<open>In\<close>. An instant is the number of nanoseconds
  since January 1 of year 1 UTC, so Go's zero time is \<open>0\<close>. The time zone database is outside
  the repository: a location is its \<^verbatim>\<open>lookup\<close> function, from seconds to the zone offset in
  force and the interval on which it is.
\<close>

type_synonym gtime = int
type_synonym duration = int
type_synonym location = "int \<Rightarrow> int \<times> int \<times> int"

abbreviation nsPerSec :: int where "nsPerSec \<equiv> 1000000000"

definition time_IsZero :: "gtime \<Rightarrow> bool" where
  "time_IsZero t \<longleftrightarrow> t = 0"

definition time_UTC :: location where
  "time_UTC s = (0, - (2 ^ 63), 2 ^ 63 - 1)"

section \<open>Calendar\<close>

definition leap_year :: "int \<Rightarrow> bool" where
  "leap_year y \<longleftrightarrow> 4 dvd y \<and> (\<not> 100 dvd y \<or> 400 dvd y)"

definition days_before_year :: "int \<Rightarrow> int" where
  "days_before_year y = 365 * (y - 1) + (y - 1) div 4 - (y - 1) div 100 + (y - 1) div 400"

definition year_len :: "int \<Rightarrow> int" where
  "year_len y = (if leap_year y then 366 else 365)"

definition month_len :: "int \<Rightarrow> int \<Rightarrow> int" where
  "month_len y m = (if m = 2 then (if leap_year y then 29 else 28)
     else if m \<in> {4, 6, 9, 11} then 30 else 31)"

definition days_before_month :: "int \<Rightarrow> int \<Rightarrow> int" where
  "days_before_month y m =
     (if m \<le> 1 then 0 else if m = 2 then 31
      else (if leap_year y then 1 else 0) +
        (if m = 3 then 59 else if m = 4 then 90 else if m = 5 then 120 else if m = 6 then 151
         else if m = 7 then 181 else if m = 8 then 212 else if m = 9 then 243
         else if m = 10 then 273 else if m = 11 then 304 else if m = 12 then 334 else 365))"

text \<open>The day number of a date; the month and the day may be out of range, as in \<^verbatim>\<open>time.Date\<close>.\<close>

definition date_days :: "int \<Rightarrow> int \<Rightarrow> int \<Rightarrow> int" where
  "date_days y m d =
     (let y' = y + (m - 1) div 12; m' = (m - 1) mod 12 + 1
      in days_before_year y' + days_before_month y' m' + (d - 1))"

text \<open>The year of a day number: whole 400-, 100-, 4- and 1-year cycles, the last two of them capped.\<close>

definition year_of_days :: "int \<Rightarrow> int" where
  "year_of_days n =
     (let a = n div 146097; r = n mod 146097; b = min 3 (r div 36524); s = r - 36524 * b;
          c = s div 1461; t = s mod 1461; e = min 3 (t div 365)
      in 400 * a + 100 * b + 4 * c + e + 1)"

definition month_of_yday :: "int \<Rightarrow> int \<Rightarrow> int" where
  "month_of_yday y k =
     (if k < days_before_month y 2 then 1 else if k < days_before_month y 3 then 2
      else if k < days_before_month y 4 then 3 else if k < days_before_month y 5 then 4
      else if k < days_before_month y 6 then 5 else if k < days_before_month y 7 then 6
      else if k < days_before_month y 8 then 7 else if k < days_before_month y 9 then 8
      else if k < days_before_month y 10 then 9 else if k < days_before_month y 11 then 10
      else if k < days_before_month y 12 then 11 else 12)"

definition civil_of_days :: "int \<Rightarrow> int \<times> int \<times> int" where
  "civil_of_days n =
     (let y = year_of_days n; k = n - days_before_year y; m = month_of_yday y k
      in (y, m, k - days_before_month y m + 1))"

definition valid_date :: "int \<Rightarrow> int \<Rightarrow> int \<Rightarrow> bool" where
  "valid_date y m d \<longleftrightarrow> 1 \<le> m \<and> m \<le> 12 \<and> 1 \<le> d \<and> d \<le> month_len y m"

section \<open>Instants and locations\<close>

definition local_secs :: "location \<Rightarrow> gtime \<Rightarrow> int" where
  "local_secs loc t = t div nsPerSec + fst (loc (t div nsPerSec))"

definition local_days :: "location \<Rightarrow> gtime \<Rightarrow> int" where
  "local_days loc t = local_secs loc t div 86400"

definition time_Date :: "location \<Rightarrow> gtime \<Rightarrow> int \<times> int \<times> int" where
  "time_Date loc t = civil_of_days (local_days loc t)"

definition time_Year :: "location \<Rightarrow> gtime \<Rightarrow> int" where
  "time_Year loc t = fst (time_Date loc t)"

definition time_Month :: "location \<Rightarrow> gtime \<Rightarrow> int" where
  "time_Month loc t = fst (snd (time_Date loc t))"

definition time_Day :: "location \<Rightarrow> gtime \<Rightarrow> int" where
  "time_Day loc t = snd (snd (time_Date loc t))"

definition time_Hour :: "location \<Rightarrow> gtime \<Rightarrow> int" where
  "time_Hour loc t = local_secs loc t mod 86400 div 3600"

definition time_Minute :: "location \<Rightarrow> gtime \<Rightarrow> int" where
  "time_Minute loc t = local_secs loc t mod 3600 div 60"

definition time_Second :: "location \<Rightarrow> gtime \<Rightarrow> int" where
  "time_Second loc t = local_secs loc t mod 60"

text \<open>Sunday is 0; January 1 of year 1 was a Monday.\<close>

definition time_Weekday :: "location \<Rightarrow> gtime \<Rightarrow> int" where
  "time_Weekday loc t = (local_days loc t + 1) mod 7"

text \<open>
  \<^verbatim>\<open>time.Date\<close> turns a wall clock into an instant: it looks the offset up at the wall clock
  taken as UTC, and once more where the corrected instant leaves that zone interval.
\<close>

definition unlocal_secs :: "location \<Rightarrow> int \<Rightarrow> int" where
  "unlocal_secs loc u =
     (case loc u of (off, start, end) \<Rightarrow>
        if off = 0 then u
        else if u - off < start \<or> end \<le> u - off then u - fst (loc (u - off))
        else u - off)"

definition go_Date ::
  "int \<Rightarrow> int \<Rightarrow> int \<Rightarrow> int \<Rightarrow> int \<Rightarrow> int \<Rightarrow> int \<Rightarrow> location \<Rightarrow> gtime" where
  "go_Date y m d h mi s ns loc =
     (let total = s + ns div nsPerSec
      in unlocal_secs loc (date_days y m d * 86400 + h * 3600 + mi * 60 + total) * nsPerSec
         + ns mod nsPerSec)"

definition time_AddDate :: "location \<Rightarrow> gtime \<Rightarrow> int \<Rightarrow> int \<Rightarrow> int \<Rightarrow> gtime" where
  "time_AddDate loc t years months days =
     (case time_Date loc t of (y, m, d) \<Rightarrow>
        go_Date (y + years) (m + months) (d + days) (time_Hour loc t) (time_Minute loc t)
          (time_Second loc t) (t mod nsPerSec) loc)"

definition time_Truncate :: "gtime \<Rightarrow> duration \<Rightarrow> gtime" where
  "time_Truncate t d = (if d \<le> 0 then t else t - t mod d)"

text \<open>Multiplication of durations is \<^verbatim>\<open>int64\<close> arithmetic and wraps.\<close>

definition dur_mult :: "int \<Rightarrow> duration \<Rightarrow> duration" where
  "dur_mult n d = wrap64 (n * d)"

abbreviation durSecond :: duration where "durSecond \<equiv> nsPerSec"
abbreviation durMinute :: duration where "durMinute \<equiv> 60 * nsPerSec"
abbreviation durHour :: duration where "durHour \<equiv> 3600 * nsPerSec"

section \<open>The calendar is a bijection\<close>

lemma div_step: "0 < k \<Longrightarrow> (y::int) div k - (y - 1) div k = (if k dvd y then 1 else 0)"
proof -
  assume k: "0 < k"
  show ?thesis
  proof (cases "k dvd y")
    case True
    then obtain q where y: "y = k * q" by blast
    have "(k * q - 1) div k = q - 1"
    proof (rule int_div_pos_eq)
      show "k * q - 1 = k * (q - 1) + (k - 1)" by (simp add: algebra_simps)
    qed (use k in auto)
    with True k y show ?thesis by simp
  next
    case False
    define q r where "q = y div k" and "r = y mod k"
    from False k have r: "0 < r" "r < k"
      using pos_mod_sign [OF k, of y] pos_mod_bound [OF k, of y]
      by (auto simp: r_def dvd_eq_mod_eq_0)
    have "(y - 1) div k = q"
    proof (rule int_div_pos_eq)
      show "y - 1 = k * q + (r - 1)" by (simp add: q_def r_def)
    qed (use r in auto)
    with False show ?thesis by (simp add: q_def)
  qed
qed

lemma leap_steps:
  "(if 4 dvd y then 1 else 0) - (if 100 dvd y then 1 else 0) + (if 400 dvd y then 1 else 0) =
    (if leap_year y then 1 else 0 :: int)"
proof -
  have "100 dvd y \<Longrightarrow> 4 dvd y" "400 dvd y \<Longrightarrow> 100 dvd y"
    by (erule dvd_trans [rotated], simp)+
  then show ?thesis
    unfolding leap_year_def by (cases "4 dvd y"; cases "100 dvd y"; cases "400 dvd y") simp_all
qed

lemma days_before_year_step: "days_before_year (y + 1) = days_before_year y + year_len y"
proof -
  have sum: "a - a' = i \<Longrightarrow> b - b' = j \<Longrightarrow> c - c' = k \<Longrightarrow> i - j + k = l \<Longrightarrow> a - b + c = a' - b' + c' + l"
    for a a' b b' c c' i j k l :: int by simp
  have "y div 4 - y div 100 + y div 400 =
      (y - 1) div 4 - (y - 1) div 100 + (y - 1) div 400 + (if leap_year y then 1 else 0)"
    by (rule sum [OF div_step div_step div_step leap_steps]) simp_all
  moreover have "year_len y = 365 + (if leap_year y then 1 else 0)" by (simp add: year_len_def)
  ultimately show ?thesis unfolding days_before_year_def by simp
qed

lemma year_len_pos: "365 \<le> year_len y" "year_len y \<le> 366"
  by (simp_all add: year_len_def)

lemma days_before_year_add: "0 \<le> n \<Longrightarrow> days_before_year y \<le> days_before_year (y + n)"
proof (induction n rule: int_ge_induct)
  case (step n)
  with days_before_year_step [of "y + n"] year_len_pos(1) [of "y + n"] show ?case
    by (simp add: add.assoc)
qed simp

lemma days_before_year_mono: "y \<le> z \<Longrightarrow> days_before_year y \<le> days_before_year z"
  using days_before_year_add [of "z - y" y] by simp

lemma days_before_year_cycles:
  assumes "0 \<le> b" "b \<le> 3" "0 \<le> c" "c \<le> 24" "0 \<le> e" "e \<le> 3"
  shows "days_before_year (400 * a + 100 * b + 4 * c + e + 1) =
    146097 * a + 36524 * b + 1461 * c + 365 * e"
proof -
  let ?z = "400 * a + 100 * b + 4 * c + e"
  have "?z div 4 = 100 * a + 25 * b + c"
    by (rule int_div_pos_eq [where r = e]) (use assms in auto)
  moreover have "?z div 100 = 4 * a + b"
    by (rule int_div_pos_eq [where r = "4 * c + e"]) (use assms in auto)
  moreover have "?z div 400 = a"
    by (rule int_div_pos_eq [where r = "100 * b + 4 * c + e"]) (use assms in auto)
  ultimately show ?thesis by (simp add: days_before_year_def)
qed

lemma year_of_days_bounds:
  "days_before_year (year_of_days n) \<le> n \<and> n < days_before_year (year_of_days n + 1)"
proof -
  define a r where "a = n div 146097" and "r = n mod 146097"
  define b where "b = min 3 (r div 36524)"
  define s where "s = r - 36524 * b"
  define c t where "c = s div 1461" and "t = s mod 1461"
  define e where "e = min 3 (t div 365)"
  have n: "n = 146097 * a + r" and r: "0 \<le> r" "r < 146097"
    by (auto simp: a_def r_def)
  have b: "0 \<le> b" "b \<le> 3" "0 \<le> s" "s < 36525" "b < 3 \<Longrightarrow> s < 36524"
    using r by (auto simp: b_def s_def min_def)
  have c: "s = 1461 * c + t" "0 \<le> t" "t < 1461" "0 \<le> c" "c \<le> 24"
    using b(3,4) by (auto simp: c_def t_def)
  have e: "0 \<le> e" "e \<le> 3" "365 * e \<le> t" "t \<le> 365 * e + 365" "e < 3 \<Longrightarrow> t < 365 * e + 365"
    using c(2,3) by (auto simp: e_def min_def)
  let ?y = "400 * a + 100 * b + 4 * c + e + 1"
  have y: "year_of_days n = ?y"
    by (simp only: year_of_days_def Let_def a_def r_def b_def s_def c_def t_def e_def)
  have lo: "days_before_year ?y = 146097 * a + 36524 * b + 1461 * c + 365 * e"
    by (rule days_before_year_cycles [OF b(1,2) c(4,5) e(1,2)])
  have n': "n = 146097 * a + 36524 * b + 1461 * c + t"
    using n c(1) by (simp add: s_def)
  have "t < 365 * e + year_len ?y"
  proof (cases "e < 3")
    case True
    with e(5) year_len_pos(1) [of ?y] show ?thesis by linarith
  next
    case False
    with e have e3: "e = 3" by simp
    show ?thesis
    proof (cases "c = 24 \<and> b < 3")
      case True
      with b(5) c(1) e3 year_len_pos(1) [of ?y] show ?thesis by linarith
    next
      case False
      have "?y = 4 * (100 * a + 25 * b + c + 1)" using e3 by simp
      then have d4: "4 dvd ?y" by simp
      have "400 dvd ?y \<or> \<not> 100 dvd ?y"
      proof (cases "c = 24")
        case True
        with False b have "b = 3" by simp
        with True e3 have "?y = 400 * (a + 1)" by simp
        then show ?thesis by (metis dvd_triv_left)
      next
        case c24: False
        have "?y = 100 * (4 * a + b) + (4 * c + 4)" using e3 by simp
        moreover have "\<not> 100 dvd 4 * c + 4"
          using c24 c by presburger
        ultimately have "\<not> 100 dvd ?y" by (metis dvd_add_right_iff dvd_triv_left)
        then show ?thesis by blast
      qed
      with d4 have "leap_year ?y" unfolding leap_year_def by blast
      with e e3 show ?thesis by (simp add: year_len_def)
    qed
  qed
  with n' lo e(3) days_before_year_step [of ?y] show ?thesis
    unfolding y by linarith
qed

lemma year_of_days_unique:
  assumes "days_before_year y \<le> n" "n < days_before_year (y + 1)"
  shows "year_of_days n = y"
proof -
  note b = year_of_days_bounds [of n]
  have "\<not> year_of_days n < y"
    using days_before_year_mono [of "year_of_days n + 1" y] b assms by linarith
  moreover have "\<not> y < year_of_days n"
    using days_before_year_mono [of "y + 1" "year_of_days n"] b assms by linarith
  ultimately show ?thesis by simp
qed

lemma month_cases:
  assumes "(1::int) \<le> m" "m \<le> 12"
  shows "m \<in> {1, 2, 3, 4, 5, 6, 7, 8, 9, 10, 11, 12}"
proof -
  from assms have "m \<in> set [1..12]" by simp
  also have "[1..12::int] = [1, 2, 3, 4, 5, 6, 7, 8, 9, 10, 11, 12]"
    by (simp add: upto.simps)
  finally show ?thesis by simp
qed

lemma days_before_month_bounds:
  assumes "1 \<le> m" "m \<le> 12"
  shows "0 \<le> days_before_month y m" and "days_before_month y m + month_len y m \<le> year_len y"
proof -
  from month_cases [OF assms]
  show "0 \<le> days_before_month y m" "days_before_month y m + month_len y m \<le> year_len y"
    by (auto simp: days_before_month_def month_len_def year_len_def)
qed

lemma month_of_yday_date:
  assumes "valid_date y m d"
  shows "month_of_yday y (days_before_month y m + (d - 1)) = m"
proof -
  from assms have d: "1 \<le> d" "d \<le> month_len y m" and m: "1 \<le> m" "m \<le> 12"
    by (auto simp: valid_date_def)
  from month_cases [OF m] d show ?thesis
    unfolding insert_iff empty_iff
    by (cases "leap_year y"; elim disjE FalseE)
      (simp_all add: month_of_yday_def days_before_month_def month_len_def)
qed

lemma month_starts:
  "days_before_month y 1 = 0" "days_before_month y 2 = 31"
  "days_before_month y 3 = 59 + (if leap_year y then 1 else 0)" "days_before_month y 4 = 90 + (if leap_year y then 1 else 0)"
  "days_before_month y 5 = 120 + (if leap_year y then 1 else 0)" "days_before_month y 6 = 151 + (if leap_year y then 1 else 0)"
  "days_before_month y 7 = 181 + (if leap_year y then 1 else 0)" "days_before_month y 8 = 212 + (if leap_year y then 1 else 0)"
  "days_before_month y 9 = 243 + (if leap_year y then 1 else 0)" "days_before_month y 10 = 273 + (if leap_year y then 1 else 0)"
  "days_before_month y 11 = 304 + (if leap_year y then 1 else 0)" "days_before_month y 12 = 334 + (if leap_year y then 1 else 0)"
  "year_len y = 365 + (if leap_year y then 1 else 0)"
  by (simp_all add: days_before_month_def year_len_def)

lemma month_ends:
  "days_before_month y 1 + month_len y 1 = days_before_month y 2" "days_before_month y 2 + month_len y 2 = days_before_month y 3"
  "days_before_month y 3 + month_len y 3 = days_before_month y 4" "days_before_month y 4 + month_len y 4 = days_before_month y 5"
  "days_before_month y 5 + month_len y 5 = days_before_month y 6" "days_before_month y 6 + month_len y 6 = days_before_month y 7"
  "days_before_month y 7 + month_len y 7 = days_before_month y 8" "days_before_month y 8 + month_len y 8 = days_before_month y 9"
  "days_before_month y 9 + month_len y 9 = days_before_month y 10" "days_before_month y 10 + month_len y 10 = days_before_month y 11"
  "days_before_month y 11 + month_len y 11 = days_before_month y 12" "days_before_month y 12 + month_len y 12 = year_len y"
  by (simp_all add: month_starts month_len_def)

lemma month_of_yday_valid:
  assumes "0 \<le> k" "k < year_len y"
  shows "1 \<le> month_of_yday y k" "month_of_yday y k \<le> 12"
    "days_before_month y (month_of_yday y k) \<le> k"
    "k < days_before_month y (month_of_yday y k) + month_len y (month_of_yday y k)"
proof -
  show "1 \<le> month_of_yday y k" "month_of_yday y k \<le> 12" by (simp_all add: month_of_yday_def)
  show "days_before_month y (month_of_yday y k) \<le> k"
    using assms(1) month_starts(1) [of y] unfolding month_of_yday_def by (simp split: if_split)
  show "k < days_before_month y (month_of_yday y k) + month_len y (month_of_yday y k)"
    using assms(2) unfolding month_of_yday_def by (simp add: month_ends split: if_split)
qed

lemma date_days_valid:
  "valid_date y m d \<Longrightarrow>
    date_days y m d = days_before_year y + days_before_month y m + (d - 1)"
  by (simp add: date_days_def valid_date_def)

theorem civil_of_date_days:
  assumes "valid_date y m d"
  shows "civil_of_days (date_days y m d) = (y, m, d)"
proof -
  let ?k = "days_before_month y m + (d - 1)"
  from assms have m: "1 \<le> m" "m \<le> 12" and d: "1 \<le> d" "d \<le> month_len y m"
    by (auto simp: valid_date_def)
  from days_before_month_bounds [OF m, of y] d have "0 \<le> ?k" "?k < year_len y"
    by linarith+
  then have y: "year_of_days (days_before_year y + ?k) = y"
    by (intro year_of_days_unique) (auto simp: days_before_year_step)
  with assms month_of_yday_date [OF assms] show ?thesis
    by (simp add: date_days_valid civil_of_days_def Let_def add.assoc)
qed

lemma civil_of_days_valid:
  assumes "civil_of_days n = (y, m, d)"
  shows "valid_date y m d" and "date_days y m d = n"
proof -
  let ?y = "year_of_days n" and ?k = "n - days_before_year (year_of_days n)"
  from year_of_days_bounds [of n] days_before_year_step [of ?y]
  have k: "0 \<le> ?k" "?k < year_len ?y" by linarith+
  from assms have eq: "y = ?y" "m = month_of_yday ?y ?k" "d = ?k - days_before_month ?y m + 1"
    by (auto simp: civil_of_days_def Let_def)
  from month_of_yday_valid [OF k] eq show v: "valid_date y m d"
    by (simp add: valid_date_def)
  from date_days_valid [OF v] eq show "date_days y m d = n" by simp
qed

lemma civil_of_days_add:
  assumes "civil_of_days n = (y, m, d)" and "1 \<le> d + k" and "d + k \<le> month_len y m"
  shows "civil_of_days (n + k) = (y, m, d + k)"
proof -
  from civil_of_days_valid [OF assms(1)]
  have v: "valid_date y m d" and n: "date_days y m d = n" by auto
  from v assms(2,3) have v': "valid_date y m (d + k)" by (simp add: valid_date_def)
  from date_days_valid [OF v] date_days_valid [OF v'] n have "date_days y m (d + k) = n + k"
    by simp
  with civil_of_date_days [OF v'] show ?thesis by simp
qed

lemma date_days_add: "date_days y m (d + k) = date_days y m d + k"
  by (simp add: date_days_def Let_def)

lemma month_len_bounds: "28 \<le> month_len y m" "month_len y m \<le> 31"
  by (simp_all add: month_len_def)

text \<open>Day 0 of the following month is the last day of the month, which \<^verbatim>\<open>time.Date\<close> is used for.\<close>

lemma date_days_month_end:
  assumes "1 \<le> m" "m \<le> 12"
  shows "date_days y (m + 1) 0 = date_days y m (month_len y m)"
proof (cases "m = 12")
  case True
  then show ?thesis
    using days_before_year_step [of y]
    by (simp add: date_days_def days_before_month_def month_len_def year_len_def)
next
  case False
  with month_cases [OF assms] show ?thesis
    unfolding insert_iff empty_iff
    by (elim disjE FalseE)
      (simp_all add: date_days_def days_before_month_def month_len_def)
qed

lemma date_days_next_month:
  assumes "1 \<le> m" "m \<le> 12"
  shows "date_days y (m + 1) 1 = date_days y m 1 + month_len y m"
  using date_days_month_end [OF assms, of y] date_days_add [of y "m + 1" 0 1]
    date_days_add [of y m 1 "month_len y m - 1"] by simp

section \<open>Wall clocks in UTC\<close>

lemma local_secs_UTC [simp]: "local_secs time_UTC t = t div nsPerSec"
  by (simp add: local_secs_def time_UTC_def)

lemma unlocal_secs_UTC [simp]: "unlocal_secs time_UTC u = u"
  by (simp add: unlocal_secs_def time_UTC_def)

lemma go_Date_UTC:
  "0 \<le> ns \<Longrightarrow> ns < nsPerSec \<Longrightarrow>
    go_Date y m d h mi s ns time_UTC =
      (date_days y m d * 86400 + h * 3600 + mi * 60 + s) * nsPerSec + ns"
  by (simp add: go_Date_def Let_def)

lemma local_days_go_Date_UTC:
  assumes "0 \<le> h" "h \<le> 23" "0 \<le> mi" "mi \<le> 59"
  shows "local_days time_UTC (go_Date y m d h mi 0 0 time_UTC) = date_days y m d"
    and "time_Hour time_UTC (go_Date y m d h mi 0 0 time_UTC) = h"
    and "time_Minute time_UTC (go_Date y m d h mi 0 0 time_UTC) = mi"
proof -
  let ?t = "go_Date y m d h mi 0 0 time_UTC"
  let ?s = "date_days y m d * 86400 + h * 3600 + mi * 60"
  have s: "local_secs time_UTC ?t = ?s" by (simp add: go_Date_UTC)
  have "?s div 86400 = date_days y m d"
    by (rule int_div_pos_eq [where r = "h * 3600 + mi * 60"]) (use assms in auto)
  with s show "local_days time_UTC ?t = date_days y m d" by (simp only: local_days_def)
  have "?s mod 86400 = h * 3600 + mi * 60"
    by (rule int_mod_pos_eq [where q = "date_days y m d"]) (use assms in auto)
  moreover have "(h * 3600 + mi * 60) div 3600 = h"
    by (rule int_div_pos_eq [where r = "mi * 60"]) (use assms in auto)
  ultimately show "time_Hour time_UTC ?t = h" by (simp only: time_Hour_def s)
  have "?s mod 3600 = mi * 60"
    by (rule int_mod_pos_eq [where q = "date_days y m d * 24 + h"]) (use assms in auto)
  moreover have "mi * 60 div 60 = mi" by simp
  ultimately show "time_Minute time_UTC ?t = mi" by (simp only: time_Minute_def s)
qed

lemma time_AddDate_UTC_days:
  assumes "time_Date time_UTC t = (y, m, d)"
  shows "local_days time_UTC (time_AddDate time_UTC t years months days) =
    date_days (y + years) (m + months) (d + days)"
proof -
  let ?s = "t div nsPerSec"
  have "time_Hour time_UTC t * 3600 + time_Minute time_UTC t * 60 + time_Second time_UTC t
      = ?s mod 86400"
  proof -
    have "?s mod 86400 mod 3600 = ?s mod 3600" "?s mod 3600 mod 60 = ?s mod 60"
      by (simp_all add: mod_mod_cancel)
    with div_mult_mod_eq [of "?s mod 86400" 3600] div_mult_mod_eq [of "?s mod 3600" 60]
    show ?thesis unfolding time_Hour_def time_Minute_def time_Second_def local_secs_UTC
      by linarith
  qed
  then have "time_AddDate time_UTC t years months days div nsPerSec =
      date_days (y + years) (m + months) (d + days) * 86400 + ?s mod 86400"
    using assms by (simp add: time_AddDate_def go_Date_UTC algebra_simps)
  then show ?thesis by (simp add: local_days_def)
qed

section \<open>Midnights in UTC\<close>

definition midnight :: "int \<Rightarrow> gtime" where
  "midnight n = n * 86400 * nsPerSec"

lemma midnight_less [simp]: "midnight i < midnight j \<longleftrightarrow> i < j"
  by (simp add: midnight_def)

lemma midnight_le [simp]: "midnight i \<le> midnight j \<longleftrightarrow> i \<le> j"
  by (simp add: midnight_def)

lemma go_Date_midnight: "go_Date y m d 0 0 0 0 time_UTC = midnight (date_days y m d)"
  by (simp add: go_Date_UTC midnight_def)

lemma midnight_secs: "midnight n div nsPerSec = n * 86400" "midnight n mod nsPerSec = 0"
  by (simp_all only: midnight_def nonzero_mult_div_cancel_right mod_mult_self2_is_0)

lemma local_days_midnight [simp]: "local_days time_UTC (midnight n) = n"
  by (simp add: local_days_def midnight_secs)

lemma midnight_bracket:
  "midnight (local_days time_UTC t) \<le> t \<and> t < midnight (local_days time_UTC t + 1)"
proof -
  have s: "t div nsPerSec * nsPerSec \<le> t" "t < (t div nsPerSec + 1) * nsPerSec"
    unfolding distrib_right
    using div_mult_mod_eq [of t nsPerSec] pos_mod_sign [of nsPerSec t] pos_mod_bound [of nsPerSec t]
    by linarith+
  define u where "u = t div nsPerSec"
  have d: "u div 86400 * 86400 \<le> u" "u + 1 \<le> (u div 86400 + 1) * 86400"
    unfolding distrib_right
    using div_mult_mod_eq [of u 86400] pos_mod_sign [of 86400 u] pos_mod_bound [of 86400 u]
    by linarith+
  have l: "local_days time_UTC t = u div 86400" by (simp add: local_days_def u_def)
  from mult_right_mono [OF d(1), of nsPerSec] mult_right_mono [OF d(2), of nsPerSec] s
  show ?thesis unfolding l midnight_def u_def [symmetric] by simp
qed

lemma time_AddDate_midnight:
  assumes "civil_of_days n = (y, m, d)"
  shows "time_AddDate time_UTC (midnight n) years months days =
    midnight (date_days (y + years) (m + months) (d + days))"
proof -
  have "time_Hour time_UTC (midnight n) = 0" "time_Minute time_UTC (midnight n) = 0"
      "time_Second time_UTC (midnight n) = 0"
    by (simp_all add: time_Hour_def time_Minute_def time_Second_def midnight_secs mult_dvd_mono mod_eq_0_iff_dvd)
  moreover have "time_Date time_UTC (midnight n) = (y, m, d)" using assms by (simp add: time_Date_def)
  ultimately show ?thesis by (simp add: time_AddDate_def midnight_secs go_Date_midnight)
qed

lemma date_days_norm: "date_days y m d = date_days 0 (12 * y + m) d"
proof -
  have e: "12 * y + m - 1 = (m - 1) + y * 12" by simp
  have "(12 * y + m - 1) div 12 = y + (m - 1) div 12" "(12 * y + m - 1) mod 12 = (m - 1) mod 12"
    unfolding e by (simp, simp only: mod_mult_self1)
  then show ?thesis by (simp add: date_days_def)
qed

lemma month_start_step: "date_days 0 m 1 + 28 \<le> date_days 0 (m + 1) 1"
proof -
  define y k where "y = (m - 1) div 12" and "k = (m - 1) mod 12 + 1"
  have m: "m = 12 * y + k" using div_mult_mod_eq [of "m - 1" 12] by (simp add: y_def k_def)
  have k: "1 \<le> k" "k \<le> 12" by (simp_all add: k_def)
  have "date_days 0 (m + 1) 1 = date_days y (k + 1) 1" "date_days 0 m 1 = date_days y k 1"
    unfolding m by (simp_all add: date_days_norm [of y] add.assoc)
  with date_days_next_month [OF k, of y] month_len_bounds(1) [of y k] show ?thesis by simp
qed

lemma month_start_less: "i < j \<Longrightarrow> date_days 0 i 1 < date_days 0 j 1"
proof (induction j rule: int_gr_induct [of i])
  case base
  then show ?case using month_start_step [of i] by simp
next
  case (step j)
  then show ?case using month_start_step [of j] by simp
qed

lemma month_bracket:
  assumes "civil_of_days n = (y, m, d)"
  shows "date_days 0 (12 * y + m) 1 \<le> n \<and> n < date_days 0 (12 * y + m + 1) 1"
proof -
  from civil_of_days_valid [OF assms] have v: "valid_date y m d" and n: "date_days y m d = n" by auto
  then have m: "1 \<le> m" "m \<le> 12" "1 \<le> d" "d \<le> month_len y m" by (auto simp: valid_date_def)
  have "n = date_days y m 1 + (d - 1)" using n date_days_add [of y m 1 "d - 1"] by simp
  with date_days_next_month [OF m(1,2), of y] m(3,4)
  have "date_days y m 1 \<le> n \<and> n < date_days y (m + 1) 1" by linarith
  then show ?thesis by (simp add: date_days_norm [of y] add.assoc)
qed

end
