(* ===== verification/Store_Policies.thy ===== *)
theory Store_Policies
  imports Go_Time
begin

text \<open>
  Policies and retention rules as the store keeps them
  (\<^verbatim>\<open>backend/internal/store/types.go\<close> and \<^verbatim>\<open>retention_rules.go\<close>).
\<close>

record RetentionRule =
  rr_Period :: string
  rr_Ordinal :: int
  rr_Keep :: int

record RetentionReason =
  rs_Period :: string
  rs_Ordinal :: int
  rs_Until :: gtime

record Policy =
  p_RetentionRules :: "RetentionRule list"
  p_RetentionTimezone :: string
  p_ID :: string
  p_TenantID :: string
  p_Name :: string
  p_Composition :: string
  p_ScheduleType :: string
  p_IntervalValue :: int
  p_IntervalUnit :: string
  p_Hour :: int
  p_Minute :: int
  p_WeekDay :: int
  p_MonthDay :: int
  p_RetentionCount :: int
  p_RetentionDays :: int
  p_Status :: string
  p_BoundCount :: int
  p_CreatedAt :: gtime
  p_UpdatedAt :: gtime

end
