(* ===== verification/Policy_Schedule.thy ===== *)
theory Policy_Schedule
  imports Store_Policies
begin

text \<open>
  \<^verbatim>\<open>backend/internal/service/scheduling/policy.go\<close>: when a policy fires next, and whether a
  stored fire time still belongs to the policy. The scheduler calls both with UTC.
\<close>

section \<open>Definitions\<close>

definition clampMinute :: "int \<Rightarrow> int" where
  "clampMinute v = (if v < 0 \<or> v > 59 then 0 else v)"

definition clampHour :: "int \<Rightarrow> int" where
  "clampHour v = (if v < 0 \<or> v > 23 then 0 else v)"

definition clampWeekday :: "int \<Rightarrow> int" where
  "clampWeekday v = (if v < 0 \<or> v > 6 then 0 else v)"

definition clampMonthDay :: "int \<Rightarrow> int" where
  "clampMonthDay v = (if v < 1 \<or> v > 31 then 1 else v)"

definition monthlyTime :: "int \<Rightarrow> int \<Rightarrow> int \<Rightarrow> int \<Rightarrow> int \<Rightarrow> location \<Rightarrow> gtime" where
  "monthlyTime year month day hour minute loc =
     (let last = time_Day loc (go_Date year (month + 1) 0 hour minute 0 0 loc);
          day' = (if day > last then last else day)
      in go_Date year month day' hour minute 0 0 loc)"

definition NextPolicyFireAtInLocation :: "Policy \<Rightarrow> gtime \<Rightarrow> location option \<Rightarrow> gtime" where
  "NextPolicyFireAtInLocation policy after location =
     (let loc = (case location of None \<Rightarrow> time_UTC | Some l \<Rightarrow> l);
          year = time_Year loc after; month = time_Month loc after; mday = time_Day loc after;
          hour = clampHour (p_Hour policy); minute = clampMinute (p_Minute policy)
      in if p_ScheduleType policy = ''interval'' then
           (let v = (if p_IntervalValue policy \<le> 0 then 1 else p_IntervalValue policy)
            in if p_IntervalUnit policy \<in> {''minute'', ''minutes''}
               then time_Truncate (after + dur_mult v durMinute) durSecond
               else if p_IntervalUnit policy \<in> {''hour'', ''hours'', ''''}
               then time_Truncate (after + dur_mult v durHour) durSecond
               else time_Truncate (after + durHour) durSecond)
         else if p_ScheduleType policy = ''daily'' then
           (let nxt = go_Date year month mday hour minute 0 0 loc
            in if \<not> nxt > after then time_AddDate loc nxt 0 0 1 else nxt)
         else if p_ScheduleType policy = ''weekly'' then
           (let target = clampWeekday (p_WeekDay policy);
                nxt = go_Date year month mday hour minute 0 0 loc;
                days = (target - time_Weekday loc after + 7) mod 7;
                nxt' = time_AddDate loc nxt 0 0 days
            in if \<not> nxt' > after then time_AddDate loc nxt' 0 0 7 else nxt')
         else if p_ScheduleType policy = ''monthly'' then
           (let day = clampMonthDay (p_MonthDay policy);
                nxt = monthlyTime year month day hour minute loc
            in if \<not> nxt > after
               then (let nextMonth = time_AddDate loc after 0 1 0
                     in monthlyTime (time_Year loc nextMonth) (time_Month loc nextMonth)
                          day hour minute loc)
               else nxt)
         else time_Truncate (after + durHour) durSecond)"

definition NextPolicyFireAt :: "Policy \<Rightarrow> gtime \<Rightarrow> gtime" where
  "NextPolicyFireAt policy after = NextPolicyFireAtInLocation policy after (Some time_UTC)"

definition ScheduleMatchesPolicy :: "gtime \<Rightarrow> Policy \<Rightarrow> location option \<Rightarrow> bool" where
  "ScheduleMatchesPolicy nxt policy location =
     (if time_IsZero nxt then False
      else if p_ScheduleType policy = ''interval'' then True
      else (let loc = (case location of None \<Rightarrow> time_UTC | Some l \<Rightarrow> l)
            in if time_Hour loc nxt \<noteq> clampHour (p_Hour policy) \<or>
                  time_Minute loc nxt \<noteq> clampMinute (p_Minute policy) then False
               else if p_ScheduleType policy = ''daily'' then True
               else if p_ScheduleType policy = ''weekly''
               then time_Weekday loc nxt = clampWeekday (p_WeekDay policy)
               else if p_ScheduleType policy = ''monthly''
               then time_Day loc nxt =
                 time_Day loc (monthlyTime (time_Year loc nxt) (time_Month loc nxt)
                   (clampMonthDay (p_MonthDay policy)) (time_Hour loc nxt) (time_Minute loc nxt) loc)
               else False))"

section \<open>Wall-clock schedules\<close>

text \<open>
  The daily, weekly and monthly policies share a shape: a wall clock in a day, and a set of days.
  The locale fixes a legal wall clock; its lemmas reduce fire times to day numbers.
\<close>

locale wall_clock =
  fixes h mi :: int
  assumes hour_range: "0 \<le> h" "h \<le> 23"
    and minute_range: "0 \<le> mi" "mi \<le> 59"
begin

definition wall :: "int \<Rightarrow> gtime" where
  "wall n = (n * 86400 + h * 3600 + mi * 60) * nsPerSec"

lemma wall_of_date: "go_Date y m d h mi 0 0 time_UTC = wall (date_days y m d)"
  by (simp add: go_Date_UTC wall_def)

lemma secs_wall: "wall n div nsPerSec = n * 86400 + h * 3600 + mi * 60"
  by (simp add: wall_def)

lemma local_days_wall [simp]: "local_days time_UTC (wall n) = n"
proof -
  have "(n * 86400 + h * 3600 + mi * 60) div 86400 = n"
    by (rule int_div_pos_eq [where r = "h * 3600 + mi * 60"])
      (use hour_range minute_range in auto)
  then show ?thesis by (simp only: local_days_def local_secs_UTC secs_wall)
qed

lemma wall_clock_of_date:
  "time_Hour time_UTC (go_Date y m d h mi 0 0 time_UTC) = h"
  "time_Minute time_UTC (go_Date y m d h mi 0 0 time_UTC) = mi"
  using local_days_go_Date_UTC(2,3) hour_range minute_range by simp_all

lemma hour_wall [simp]: "time_Hour time_UTC (wall n) = h"
  and minute_wall [simp]: "time_Minute time_UTC (wall n) = mi"
proof -
  obtain y m d where ymd: "civil_of_days n = (y, m, d)" by (cases "civil_of_days n") auto
  from civil_of_days_valid(2) [OF this] wall_clock_of_date [of y m d]
  show "time_Hour time_UTC (wall n) = h" "time_Minute time_UTC (wall n) = mi"
    by (simp_all add: wall_of_date)
qed

lemma wall_less_iff [simp]: "wall a < wall b \<longleftrightarrow> a < b"
  by (simp add: wall_def)

lemma wall_le_day: "wall n \<le> t \<Longrightarrow> n \<le> local_days time_UTC t"
proof -
  assume "wall n \<le> t"
  then have "wall n div nsPerSec div 86400 \<le> t div nsPerSec div 86400"
    by (intro zdiv_mono1) auto
  then show ?thesis using local_days_wall [of n] by (simp add: local_days_def)
qed

lemma day_less_wall: "local_days time_UTC t < n \<Longrightarrow> t < wall n"
  using wall_le_day [of n t] by linarith

text \<open>An instant on a whole minute that shows the wall clock is the wall time of its day.\<close>

lemma wall_of_clock:
  assumes "time_Hour time_UTC t = h" "time_Minute time_UTC t = mi" "t mod durMinute = 0"
  shows "t = wall (local_days time_UTC t)"
proof -
  let ?s = "t div nsPerSec"
  from assms(3) have "durMinute dvd t" by (rule mod_0_imp_dvd)
  then obtain q where "t = durMinute * q" by (rule dvdE)
  then have t: "t = 60 * q * nsPerSec" by simp
  then have s: "?s = 60 * q" by simp
  have "?s mod 3600 mod 60 = ?s mod 60" by (simp add: mod_mod_cancel)
  with s have "?s mod 3600 mod 60 = 0" by simp
  moreover have "?s mod 3600 div 60 = mi"
    using assms(2) by (simp only: time_Minute_def local_secs_UTC)
  ultimately have m: "?s mod 3600 = mi * 60"
    using div_mult_mod_eq [of "?s mod 3600" 60] by (simp only: add_0_right)
  have "?s mod 86400 mod 3600 = mi * 60" using m by (simp add: mod_mod_cancel)
  moreover have "?s mod 86400 div 3600 = h"
    using assms(1) by (simp only: time_Hour_def local_secs_UTC)
  ultimately have "?s mod 86400 = h * 3600 + mi * 60"
    using div_mult_mod_eq [of "?s mod 86400" 3600] by (simp only:)
  then have "?s = local_days time_UTC t * 86400 + h * 3600 + mi * 60"
    using div_mult_mod_eq [of ?s 86400] by (simp only: local_days_def local_secs_UTC add.assoc)
  with t s show ?thesis by (simp add: wall_def)
qed

lemma second_wall: "time_Second time_UTC (wall n) = 0" "wall n mod nsPerSec = 0"
proof -
  have "(n * 86400 + h * 3600 + mi * 60) mod 60 = 0"
    by (rule int_mod_pos_eq [where q = "n * 1440 + h * 60 + mi"]) auto
  then show "time_Second time_UTC (wall n) = 0"
    by (simp only: time_Second_def local_secs_UTC secs_wall)
  show "wall n mod nsPerSec = 0" by (simp add: wall_def)
qed

lemma add_days_wall: "time_AddDate time_UTC (wall n) 0 0 k = wall (n + k)"
proof -
  obtain y m d where ymd: "civil_of_days n = (y, m, d)" by (cases "civil_of_days n") auto
  from civil_of_days_valid(2) [OF this] have "date_days y m (d + k) = n + k"
    by (simp add: date_days_add)
  with ymd show ?thesis
    by (simp add: time_AddDate_def time_Date_def second_wall wall_of_date)
qed

lemma date_of_wall: "time_Date time_UTC (wall n) = civil_of_days n"
  by (simp add: time_Date_def)

text \<open>
  The fire time of the first admissible day after \<open>t\<close> is the first fire time after \<open>t\<close>:
  \<open>P\<close> are the admissible days.
\<close>

lemma first_wall:
  assumes "\<And>k. local_days time_UTC t \<le> k \<Longrightarrow> k < n \<Longrightarrow> P k \<Longrightarrow> wall k \<le> t"
    and "t < u" "u < wall n" "u mod durMinute = 0"
    and "time_Hour time_UTC u = h" "time_Minute time_UTC u = mi"
  shows "\<not> P (local_days time_UTC u)"
proof
  let ?k = "local_days time_UTC u"
  assume P: "P ?k"
  from assms(4-6) have u: "u = wall ?k" by (intro wall_of_clock)
  with assms(3) have "?k < n" by (metis wall_less_iff)
  moreover have "local_days time_UTC t \<le> ?k"
    using assms(2) unfolding local_days_def local_secs_UTC by (intro zdiv_mono1) auto
  ultimately have "wall ?k \<le> t" using assms(1) P by blast
  with u assms(2) show False by simp
qed

end

lemma clamp_ranges [simp]:
  "0 \<le> clampHour v" "clampHour v \<le> 23" "0 \<le> clampMinute v" "clampMinute v \<le> 59"
  "0 \<le> clampWeekday v" "clampWeekday v \<le> 6" "1 \<le> clampMonthDay v" "clampMonthDay v \<le> 31"
  "0 < clampMonthDay v"
  by (simp_all add: clampHour_def clampMinute_def clampWeekday_def clampMonthDay_def)

interpretation pc: wall_clock "clampHour (p_Hour policy)" "clampMinute (p_Minute policy)"
  for policy :: Policy
  by unfold_locales simp_all

lemma date_days_of_time:
  "date_days (time_Year time_UTC t) (time_Month time_UTC t) (time_Day time_UTC t) =
    local_days time_UTC t"
  using civil_of_days_valid(2) [of "local_days time_UTC t"]
  by (cases "civil_of_days (local_days time_UTC t)")
    (simp add: time_Year_def time_Month_def time_Day_def time_Date_def)

lemma month_of_time: "1 \<le> time_Month time_UTC t" "time_Month time_UTC t \<le> 12"
  using civil_of_days_valid(1) [of "local_days time_UTC t"]
  by (cases "civil_of_days (local_days time_UTC t)";
      simp add: time_Month_def time_Date_def valid_date_def)+

text \<open>The days on which a policy fires.\<close>

definition fire_day :: "Policy \<Rightarrow> int \<Rightarrow> bool" where
  "fire_day policy n \<longleftrightarrow>
     (if p_ScheduleType policy = ''daily'' then True
      else if p_ScheduleType policy = ''weekly'' then (n + 1) mod 7 = clampWeekday (p_WeekDay policy)
      else case civil_of_days n of (y, m, d) \<Rightarrow> d = min (clampMonthDay (p_MonthDay policy)) (month_len y m))"

lemma monthlyTime_UTC:
  assumes "1 \<le> m" "m \<le> 12" "1 \<le> day"
  shows "monthlyTime y m day (clampHour (p_Hour policy)) (clampMinute (p_Minute policy)) time_UTC =
    pc.wall policy (date_days y m (min day (month_len y m)))"
proof -
  have "valid_date y m (month_len y m)"
    using assms month_len_bounds(1) [of y m] by (simp add: valid_date_def)
  with assms(1,2) have "civil_of_days (date_days y (m + 1) 0) = (y, m, month_len y m)"
    by (simp add: date_days_month_end civil_of_date_days)
  then have "time_Day time_UTC (pc.wall policy (date_days y (m + 1) 0)) = month_len y m"
    by (simp add: time_Day_def pc.date_of_wall)
  then show ?thesis
    by (simp add: monthlyTime_def Let_def pc.wall_of_date min_def)
qed

lemma matches_fire_day:
  assumes "p_ScheduleType policy \<in> {''daily'', ''weekly'', ''monthly''}"
  shows "ScheduleMatchesPolicy u policy (Some time_UTC) \<longleftrightarrow>
    u \<noteq> 0 \<and> time_Hour time_UTC u = clampHour (p_Hour policy) \<and>
    time_Minute time_UTC u = clampMinute (p_Minute policy) \<and> fire_day policy (local_days time_UTC u)"
proof -
  obtain y m d where ymd: "civil_of_days (local_days time_UTC u) = (y, m, d)"
    by (cases "civil_of_days (local_days time_UTC u)") auto
  note v = civil_of_days_valid(1) [OF ymd]
  let ?day = "clampMonthDay (p_MonthDay policy)"
  have "valid_date y m (min ?day (month_len y m))"
    using v clamp_ranges(7) [of "p_MonthDay policy"] month_len_bounds(1) [of y m]
    by (auto simp: valid_date_def min_def)
  with v ymd have "time_Day time_UTC (pc.wall policy (date_days y m (min ?day (month_len y m))))
      = min ?day (month_len y m)"
    by (simp add: time_Day_def pc.date_of_wall civil_of_date_days)
  with assms ymd v show ?thesis
    by (auto simp: ScheduleMatchesPolicy_def time_IsZero_def fire_day_def time_Weekday_def
        time_Year_def time_Month_def time_Day_def time_Date_def valid_date_def monthlyTime_UTC)
qed

section \<open>The fire time as a day\<close>

lemma today_wall:
  "go_Date (time_Year time_UTC t) (time_Month time_UTC t) (time_Day time_UTC t)
     (clampHour (p_Hour policy)) (clampMinute (p_Minute policy)) 0 0 time_UTC =
   pc.wall policy (local_days time_UTC t)"
  by (simp add: pc.wall_of_date date_days_of_time)

lemma next_daily:
  assumes "p_ScheduleType policy = ''daily''"
  shows "NextPolicyFireAt policy t = pc.wall policy
    (if t < pc.wall policy (local_days time_UTC t)
     then local_days time_UTC t else local_days time_UTC t + 1)"
  using assms
  by (simp add: NextPolicyFireAt_def NextPolicyFireAtInLocation_def Let_def today_wall pc.add_days_wall)

lemma next_weekly:
  fixes t policy
  defines "n \<equiv> local_days time_UTC t +
    (clampWeekday (p_WeekDay policy) - time_Weekday time_UTC t + 7) mod 7"
  assumes "p_ScheduleType policy = ''weekly''"
  shows "NextPolicyFireAt policy t = pc.wall policy (if t < pc.wall policy n then n else n + 7)"
  using assms
  by (simp add: NextPolicyFireAt_def NextPolicyFireAtInLocation_def Let_def today_wall pc.add_days_wall)

lemma next_monthly:
  fixes t policy
  defines "nm \<equiv> time_AddDate time_UTC t 0 1 0" and "md \<equiv> clampMonthDay (p_MonthDay policy)"
  defines "target \<equiv> \<lambda>u. date_days (time_Year time_UTC u) (time_Month time_UTC u)
    (min md (month_len (time_Year time_UTC u) (time_Month time_UTC u)))"
  assumes "p_ScheduleType policy = ''monthly''"
  shows "NextPolicyFireAt policy t =
    pc.wall policy (if t < pc.wall policy (target t) then target t else target nm)"
  using assms
  by (simp add: NextPolicyFireAt_def NextPolicyFireAtInLocation_def Let_def monthlyTime_UTC month_of_time)

lemma fire_day_target:
  assumes "1 \<le> m" "m \<le> 12" and "p_ScheduleType policy = ''monthly''"
  shows "fire_day policy (date_days y m (min (clampMonthDay (p_MonthDay policy)) (month_len y m)))"
proof -
  have "valid_date y m (min (clampMonthDay (p_MonthDay policy)) (month_len y m))"
    using assms clamp_ranges(7) [of "p_MonthDay policy"] month_len_bounds(1) [of y m]
    by (auto simp: valid_date_def min_def)
  with assms(3) show ?thesis by (simp add: fire_day_def civil_of_date_days)
qed

text \<open>Two fire days in one month are the same day.\<close>

lemma fire_day_unique_in_month:
  assumes "p_ScheduleType policy = ''monthly''" and "fire_day policy k" and "1 \<le> m" "m \<le> 12"
    and "date_days y m 1 \<le> k" and "k < date_days y m 1 + month_len y m"
  shows "k = date_days y m (min (clampMonthDay (p_MonthDay policy)) (month_len y m))"
proof -
  have v: "valid_date y m 1" using assms(3,4) month_len_bounds(1) [of y m]
    by (simp add: valid_date_def)
  have "civil_of_days (date_days y m 1 + (k - date_days y m 1)) = (y, m, 1 + (k - date_days y m 1))"
    using civil_of_date_days [OF v] assms(5,6) by (intro civil_of_days_add) auto
  with assms(1,2) have "1 + (k - date_days y m 1) =
      min (clampMonthDay (p_MonthDay policy)) (month_len y m)"
    by (simp add: fire_day_def)
  with date_days_add [of y m 1 "k - date_days y m 1"] show ?thesis by simp
qed

lemma target_in_month:
  assumes "1 \<le> md"
  shows "date_days y m 1 \<le> date_days y m (min md (month_len y m))"
    and "date_days y m (min md (month_len y m)) < date_days y m 1 + month_len y m"
  using assms date_days_add [of y m 1 "min md (month_len y m) - 1"] month_len_bounds(1) [of y m]
  by simp_all

lemma date_days_next_civil:
  fixes y m d :: int
  assumes "1 \<le> m" "m \<le> 12" "1 \<le> d" "d \<le> 28"
  defines "y' \<equiv> y + m div 12" and "m' \<equiv> m mod 12 + 1"
  shows "civil_of_days (date_days y (m + 1) d) = (y', m', d)"
    and "date_days y' m' 1 = date_days y m 1 + month_len y m"
proof -
  have eq: "date_days y (m + 1) k = date_days y' m' k" for k
    by (simp add: date_days_def y'_def m'_def)
  have "valid_date y' m' d"
    using assms month_len_bounds(1) [of y' m'] by (simp add: valid_date_def)
  then show "civil_of_days (date_days y (m + 1) d) = (y', m', d)"
    by (simp add: eq civil_of_date_days)
  show "date_days y' m' 1 = date_days y m 1 + month_len y m"
    using date_days_next_month [OF assms(1,2), of y] by (simp add: eq)
qed

text \<open>The month of a day starts no earlier than any month start that precedes the day.\<close>

lemma month_start_after:
  assumes "civil_of_days n = (y, m, d)" and "civil_of_days f = (y', m', 1)" and "f \<le> n"
  shows "f \<le> date_days y m 1"
proof (rule ccontr)
  assume "\<not> f \<le> date_days y m 1"
  then have less: "date_days y m 1 < f" by simp
  from civil_of_days_valid [OF assms(1)] have v: "valid_date y m d" and n: "date_days y m d = n"
    by auto
  let ?k = "f - date_days y m 1"
  have v1: "valid_date y m 1" using v by (auto simp: valid_date_def)
  from date_days_add [of y m 1 "d - 1"] n have "n = date_days y m 1 + (d - 1)" by simp
  with assms(3) v have "?k \<le> d - 1" "d \<le> month_len y m" by (auto simp: valid_date_def)
  with less have "civil_of_days (date_days y m 1 + ?k) = (y, m, 1 + ?k)"
    using civil_of_date_days [OF v1] by (intro civil_of_days_add) auto
  with assms(2) less show False by simp
qed

lemma next_month_later:
  fixes t policy
  defines "nm \<equiv> time_AddDate time_UTC t 0 1 0"
  shows "local_days time_UTC t <
    date_days (time_Year time_UTC nm) (time_Month time_UTC nm)
      (min (clampMonthDay (p_MonthDay policy))
        (month_len (time_Year time_UTC nm) (time_Month time_UTC nm)))"
proof -
  let ?n = "local_days time_UTC t"
  obtain y m d where ymd: "civil_of_days ?n = (y, m, d)" by (cases "civil_of_days ?n") auto
  from civil_of_days_valid [OF ymd] have v: "valid_date y m d" and n: "date_days y m d = ?n" by auto
  obtain y2 m2 d2 where ymd2: "civil_of_days (local_days time_UTC nm) = (y2, m2, d2)"
    by (cases "civil_of_days (local_days time_UTC nm)") auto
  have nm: "local_days time_UTC nm = date_days y (m + 1) d"
    using time_AddDate_UTC_days [of t y m d 0 1 0] ymd by (simp add: nm_def time_Date_def)
  let ?f = "date_days y (m + 1) 1"
  have f: "civil_of_days ?f = (y + m div 12, m mod 12 + 1, 1)"
    using v date_days_next_civil(1) [of m 1 y] by (simp add: valid_date_def)
  have "?f \<le> local_days time_UTC nm"
    using v nm date_days_add [of y "m + 1" 1 "d - 1"] by (simp add: valid_date_def)
  with ymd2 f have "?f \<le> date_days y2 m2 1" by (rule month_start_after)
  moreover have "?n < ?f"
    using v n date_days_next_month [of m y] date_days_add [of y m 1 "d - 1"]
    by (simp add: valid_date_def)
  moreover have "date_days y2 m2 1 \<le> date_days y2 m2 (min (clampMonthDay (p_MonthDay policy)) (month_len y2 m2))"
    by (rule target_in_month) simp
  ultimately show ?thesis
    using ymd2 by (simp add: time_Year_def time_Month_def time_Date_def)
qed

abbreviation wall_policy :: "Policy \<Rightarrow> bool" where
  "wall_policy policy \<equiv> p_ScheduleType policy \<in> {''daily'', ''weekly'', ''monthly''}"

lemma weekday_shift:
  assumes "0 \<le> w" "w \<le> 6"
  shows "((a::int) + (w - (a + 1) mod 7 + 7) mod 7 + 1) mod 7 = w"
proof -
  let ?k = "w - (a + 1) mod 7 + 7"
  show ?thesis
  proof (rule int_mod_pos_eq)
    show "a + ?k mod 7 + 1 = 7 * ((a + 1) div 7 + 1 - ?k div 7) + w"
      using div_mult_mod_eq [of "a + 1" 7] div_mult_mod_eq [of ?k 7] by (simp add: algebra_simps)
  qed (use assms in auto)
qed

lemma mod7_gap: "(i::int) mod 7 = j mod 7 \<Longrightarrow> i < j \<Longrightarrow> i + 7 \<le> j"
  using zdvd_not_zless [of "j - i" 7] by (force simp: mod_eq_dvd_iff dvd_diff_commute)

lemma next_is_wall:
  assumes "wall_policy policy"
  obtains n where "NextPolicyFireAt policy t = pc.wall policy n" "fire_day policy n"
    "t < pc.wall policy n"
proof -
  let ?a = "local_days time_UTC t"
  from assms consider (d) "p_ScheduleType policy = ''daily''"
    | (w) "p_ScheduleType policy = ''weekly''" | (m) "p_ScheduleType policy = ''monthly''" by auto
  then show ?thesis
  proof cases
    case d
    have "t < pc.wall policy (?a + 1)" by (rule pc.day_less_wall) simp
    with d next_daily [OF d, of t] show ?thesis
      by (intro that [of "if t < pc.wall policy ?a then ?a else ?a + 1"]) (auto simp: fire_day_def)
  next
    case w
    let ?n = "?a + (clampWeekday (p_WeekDay policy) - time_Weekday time_UTC t + 7) mod 7"
    have "(?n + 1) mod 7 = clampWeekday (p_WeekDay policy)"
      using weekday_shift [of "clampWeekday (p_WeekDay policy)" ?a] by (simp add: time_Weekday_def)
    then have fd: "fire_day policy ?n" "fire_day policy (?n + 7)"
      using w mod_add_self2 [of "?n + 1" 7] by (simp_all add: fire_day_def ac_simps)
    have late: "t < pc.wall policy (?n + 7)"
      by (rule pc.day_less_wall) (simp add: add_nonneg_pos)
    note nx = next_weekly [OF w, of t]
    show ?thesis
    proof (cases "t < pc.wall policy ?n")
      case True
      with nx fd(1) show ?thesis by (intro that [of ?n]) (simp_all only: if_True)
    next
      case False
      with nx fd(2) late show ?thesis by (intro that [of "?n + 7"]) (simp_all only: if_False)
    qed
  next
    case m
    let ?nm = "time_AddDate time_UTC t 0 1 0"
    let ?T = "\<lambda>u. date_days (time_Year time_UTC u) (time_Month time_UTC u)
      (min (clampMonthDay (p_MonthDay policy)) (month_len (time_Year time_UTC u) (time_Month time_UTC u)))"
    have "t < pc.wall policy (?T ?nm)" by (rule pc.day_less_wall) (rule next_month_later)
    moreover have "fire_day policy (?T u)" for u by (rule fire_day_target [OF month_of_time m])
    ultimately show ?thesis using next_monthly [OF m, of t]
      by (intro that [of "if t < pc.wall policy (?T t) then ?T t else ?T ?nm"]) simp_all
  qed
qed

text \<open>Between the current day and the fire day no other fire day has its wall clock ahead.\<close>

lemma no_fire_day_between:
  assumes "p_ScheduleType policy \<in> {''daily'', ''weekly''} \<or>
      p_ScheduleType policy = ''monthly'' \<and> time_Day time_UTC t \<le> 28"
    and "NextPolicyFireAt policy t = pc.wall policy n"
    and "local_days time_UTC t \<le> k" "k < n" "fire_day policy k"
  shows "pc.wall policy k \<le> t"
proof (rule ccontr)
  let ?a = "local_days time_UTC t" and ?W = "clampWeekday (p_WeekDay policy)"
  assume "\<not> pc.wall policy k \<le> t"
  then have ahead: "t < pc.wall policy k" by simp
  have inj: "pc.wall policy i = pc.wall policy j \<Longrightarrow> i = j" for i j
    by (metis less_irrefl linorder_neqE pc.wall_less_iff)
  from assms(1) consider (d) "p_ScheduleType policy = ''daily''"
    | (w) "p_ScheduleType policy = ''weekly''"
    | (m) "p_ScheduleType policy = ''monthly''" "time_Day time_UTC t \<le> 28" by auto
  then show False
  proof cases
    case d
    from assms(2) next_daily [OF d, of t]
    have "pc.wall policy n = pc.wall policy (if t < pc.wall policy ?a then ?a else ?a + 1)" by simp
    then have "n = (if t < pc.wall policy ?a then ?a else ?a + 1)" by (rule inj)
    with assms(3,4) ahead show False by (auto split: if_splits)
  next
    case w
    let ?n = "?a + (?W - time_Weekday time_UTC t + 7) mod 7"
    from assms(2) next_weekly [OF w, of t]
    have "pc.wall policy n = pc.wall policy (if t < pc.wall policy ?n then ?n else ?n + 7)" by simp
    then have n: "n = (if t < pc.wall policy ?n then ?n else ?n + 7)" by (rule inj)
    from w assms(5) have fk: "(k + 1) mod 7 = ?W" by (simp add: fire_day_def)
    have "(?n + 1) mod 7 = ?W"
      using weekday_shift [of ?W ?a] by (simp add: time_Weekday_def)
    with fk have eq: "(k + 1) mod 7 = (?n + 1) mod 7" by simp
    have "(?W - time_Weekday time_UTC t + 7) mod 7 < 7" by simp
    with mod7_gap [OF eq] assms(3) have "\<not> k < ?n" by linarith
    moreover have "\<not> (?n < k \<and> k < ?n + 7)" using mod7_gap [OF eq [symmetric]] by linarith
    ultimately show False using n assms(4) ahead by (auto split: if_splits)
  next
    case m
    obtain y mo d where ymd: "civil_of_days ?a = (y, mo, d)" by (cases "civil_of_days ?a") auto
    from civil_of_days_valid [OF ymd] have v: "valid_date y mo d" and a: "date_days y mo d = ?a" by auto
    let ?md = "clampMonthDay (p_MonthDay policy)"
    define y' m' where "y' = y + mo div 12" and "m' = mo mod 12 + 1"
    from m(2) ymd v have d: "1 \<le> d" "d \<le> 28" and mo: "1 \<le> mo" "mo \<le> 12"
      by (auto simp: time_Day_def time_Date_def valid_date_def)
    have nc: "civil_of_days (date_days y (mo + 1) d) = (y', m', d)"
      "date_days y' m' 1 = date_days y mo 1 + month_len y mo"
      using date_days_next_civil [OF mo d, of y] unfolding y'_def m'_def by blast+
    have m': "1 \<le> m'" "m' \<le> 12" by (auto simp: m'_def)
    let ?T = "date_days y mo (min ?md (month_len y mo))"
    let ?T' = "date_days y' m' (min ?md (month_len y' m'))"
    have "local_days time_UTC (time_AddDate time_UTC t 0 1 0) = date_days y (mo + 1) d"
      using time_AddDate_UTC_days [of t y mo d 0 1 0] ymd by (simp add: time_Date_def)
    with nc(1) ymd next_monthly [OF m(1), of t] assms(2)
    have "pc.wall policy n = pc.wall policy (if t < pc.wall policy ?T then ?T else ?T')"
      by (simp add: time_Year_def time_Month_def time_Date_def)
    then have n: "n = (if t < pc.wall policy ?T then ?T else ?T')" by (rule inj)
    have start: "date_days y mo 1 \<le> k"
      using assms(3) a d date_days_add [of y mo 1 "d - 1"] by simp
    note T = target_in_month [of "?md" y mo] target_in_month [of "?md" y' m']
    show False
    proof (cases "k < date_days y mo 1 + month_len y mo")
      case True
      with fire_day_unique_in_month [OF m(1) assms(5) mo start] have "k = ?T" by simp
      with n assms(4) ahead show False by (simp split: if_splits)
    next
      case False
      with T n assms(4) have late: "n = ?T'" by (simp split: if_splits)
      with T nc(2) assms(4) False have "k = ?T'"
        using fire_day_unique_in_month [OF m(1) assms(5) m', of y'] by simp
      with late assms(4) show False by simp
    qed
  qed
qed

section \<open>Properties\<close>

text \<open>C11: For a daily or weekly policy, and for a monthly one evaluated on one of the first 28 days of a
  month, the next fire time lies strictly after the given instant, shows the policy's wall clock on one
  of the policy's days, and is the first such minute: nothing on a whole minute in between matches.\<close>

theorem next_fire_is_first:
  assumes "p_ScheduleType policy \<in> {''daily'', ''weekly''} \<or>
      p_ScheduleType policy = ''monthly'' \<and> time_Day time_UTC t \<le> 28"
    and "0 \<le> t"
  shows "t < NextPolicyFireAt policy t \<and>
    ScheduleMatchesPolicy (NextPolicyFireAt policy t) policy (Some time_UTC) \<and>
    (\<forall>u. t < u \<and> u < NextPolicyFireAt policy t \<and> u mod durMinute = 0 \<longrightarrow>
      \<not> ScheduleMatchesPolicy u policy (Some time_UTC))"
proof -
  from assms(1) have wp: "wall_policy policy" by auto
  then obtain n where n: "NextPolicyFireAt policy t = pc.wall policy n" "fire_day policy n"
    "t < pc.wall policy n" by (rule next_is_wall)
  from n assms(2) have "t < NextPolicyFireAt policy t"
    "ScheduleMatchesPolicy (NextPolicyFireAt policy t) policy (Some time_UTC)"
    by (simp_all add: matches_fire_day [OF wp])
  moreover have "\<not> ScheduleMatchesPolicy u policy (Some time_UTC)"
    if u: "t < u" "u < NextPolicyFireAt policy t" "u mod durMinute = 0" for u
  proof
    assume "ScheduleMatchesPolicy u policy (Some time_UTC)"
    then have "time_Hour time_UTC u = clampHour (p_Hour policy)"
      "time_Minute time_UTC u = clampMinute (p_Minute policy)"
      "fire_day policy (local_days time_UTC u)"
      by (auto simp: matches_fire_day [OF wp])
    with pc.first_wall [of t n "fire_day policy" policy u] no_fire_day_between [OF assms(1) n(1)] u n(1)
    show False by auto
  qed
  ultimately show ?thesis by (intro conjI allI impI) auto
qed

definition sample_policy :: Policy where
  "sample_policy = \<lparr>p_RetentionRules = [], p_RetentionTimezone = ''UTC'', p_ID = ''p1'',
     p_TenantID = ''t1'', p_Name = ''nightly'', p_Composition = ''combined'',
     p_ScheduleType = ''monthly'', p_IntervalValue = 0, p_IntervalUnit = '''', p_Hour = 0,
     p_Minute = 0, p_WeekDay = 0, p_MonthDay = 31, p_RetentionCount = 2, p_RetentionDays = 0,
     p_Status = ''active'', p_BoundCount = 0, p_CreatedAt = 0, p_UpdatedAt = 0\<rparr>"

theorem next_fire_is_first_witness:
  "\<not> ScheduleMatchesPolicy (3600 * nsPerSec)
      (sample_policy\<lparr>p_ScheduleType := ''daily''\<rparr>) (Some time_UTC)"
proof -
  have "3600 * nsPerSec < NextPolicyFireAt (sample_policy\<lparr>p_ScheduleType := ''daily''\<rparr>) (60 * nsPerSec)"
    by code_simp
  then show ?thesis
    by (intro next_fire_is_first [of "sample_policy\<lparr>p_ScheduleType := ''daily''\<rparr>" "60 * nsPerSec",
          THEN conjunct2, THEN conjunct2, THEN spec, THEN mp] conjI) simp_all
qed

text \<open>Every policy of the wall-clock kinds moves forward: the next fire time is later than the given
  instant and is accepted by the check that decides whether a stored fire time is kept. So a
  schedule that has fired is not due again before its next wall-clock time, whatever the day.\<close>

theorem next_fire_matches:
  assumes "p_ScheduleType policy \<in> {''daily'', ''weekly'', ''monthly''}" and "0 \<le> t"
  shows "t < NextPolicyFireAt policy t \<and>
    ScheduleMatchesPolicy (NextPolicyFireAt policy t) policy (Some time_UTC)"
proof -
  from assms(1) obtain n where "NextPolicyFireAt policy t = pc.wall policy n" "fire_day policy n"
    "t < pc.wall policy n" by (rule next_is_wall)
  with assms(2) show ?thesis by (simp add: matches_fire_day [OF assms(1)])
qed

theorem next_fire_matches_witness:
  "63905673630 * nsPerSec < NextPolicyFireAt sample_policy (63905673630 * nsPerSec)"
  using next_fire_matches [of sample_policy "63905673630 * nsPerSec"]
  by (simp add: sample_policy_def)

text \<open>C31: A monthly policy skips a month that is shorter than the current day. Evaluated on a day that the next month does not have, after the
  fire time of the current month, the policy is next due after the fire time of the next month, which is
  passed over: the month after the current one is taken with \<^verbatim>\<open>AddDate(0, 1, 0)\<close>, which normalises the day
  that does not exist into the month after it. So January 29 to 31 pass over February, and the last day of
  March, May, August and October over the month that follows.\<close>

theorem monthly_skips_short_month:
  assumes "p_ScheduleType policy = ''monthly''" "0 \<le> t" "time_Date time_UTC t = (y, m, d)"
    and "y' = y + m div 12" "m' = m mod 12 + 1" "month_len y' m' < d"
    and "fire = (\<lambda>y m. monthlyTime y m (clampMonthDay (p_MonthDay policy)) (clampHour (p_Hour policy)) (clampMinute (p_Minute policy)) time_UTC)"
    and "fire y m \<le> t"
  shows "t < fire y' m' \<and> ScheduleMatchesPolicy (fire y' m') policy (Some time_UTC) \<and> fire y' m' < NextPolicyFireAt policy t"
proof -
  let ?md = "clampMonthDay (p_MonthDay policy)" and ?n = "local_days time_UTC t" and ?nm = "time_AddDate time_UTC t 0 1 0"
  define T where "T = date_days y' m' (min ?md (month_len y' m'))"
  from assms(3) have ymd: "civil_of_days ?n = (y, m, d)" by (simp add: time_Date_def)
  from civil_of_days_valid [OF ymd] have m: "1 \<le> m" "m \<le> 12" and d: "1 \<le> d" "d \<le> month_len y m" and n: "date_days y m d = ?n"
    by (auto simp: valid_date_def)
  have m': "1 \<le> m'" "m' \<le> 12" using assms(5) by auto
  have fires: "fire y m = pc.wall policy (date_days y m (min ?md (month_len y m)))" "fire y' m' = pc.wall policy T"
    using m m' by (simp_all add: assms(7) T_def monthlyTime_UTC)
  have following: "date_days y (m + 1) k = date_days y' m' k" for k by (simp add: date_days_def assms(4,5))
  define start where "start = date_days y' (m' + 1) 1"
  have start: "start = date_days y' m' 1 + month_len y' m'"
    using date_days_next_month [OF m', of y'] by (simp add: start_def)
  obtain y2 m2 d2 where ymd2: "civil_of_days (local_days time_UTC ?nm) = (y2, m2, d2)"
    by (cases "civil_of_days (local_days time_UTC ?nm)") auto
  have "local_days time_UTC ?nm = date_days y' m' d"
    using time_AddDate_UTC_days [of t y m d 0 1 0] assms(3) by (simp add: following)
  then have "start \<le> local_days time_UTC ?nm"
    using assms(6) date_days_add [of y' m' 1 "d - 1"] by (simp add: start)
  then have "start \<le> date_days y2 m2 1"
    using month_start_after [OF ymd2] date_days_next_civil(1) [OF m', of 1 y'] by (simp add: start_def)
  also have "\<dots> \<le> date_days y2 m2 (min ?md (month_len y2 m2))" by (rule target_in_month) simp
  finally have later: "T < date_days y2 m2 (min ?md (month_len y2 m2))"
    using target_in_month(2) [of ?md y' m'] by (simp add: T_def start)
  have "NextPolicyFireAt policy t = pc.wall policy (date_days y2 m2 (min ?md (month_len y2 m2)))"
    using next_monthly [OF assms(1), of t] assms(3,8) ymd2 fires(1) by (simp add: time_Year_def time_Month_def time_Date_def)
  with later have "fire y' m' < NextPolicyFireAt policy t" by (simp add: fires)
  moreover have "?n < T"
    using date_days_next_month [OF m, of y] date_days_add [of y m 1 "d - 1"] n d target_in_month(1) [of ?md y' m'] following [of 1]
    by (simp add: T_def)
  then have "t < fire y' m'" unfolding fires by (rule pc.day_less_wall)
  moreover have "fire_day policy T" unfolding T_def by (rule fire_day_target [OF m' assms(1)])
  ultimately show ?thesis using assms(1,2) by (simp add: fires matches_fire_day)
qed

text \<open>January 31, 2026, half a minute after midnight, and a policy for day 31 at 00:00.\<close>

theorem monthly_skips_short_month_witness:
  "go_Date 2026 1 31 0 0 30 0 time_UTC < go_Date 2026 2 28 0 0 0 0 time_UTC \<and>
   ScheduleMatchesPolicy (go_Date 2026 2 28 0 0 0 0 time_UTC) sample_policy (Some time_UTC) \<and>
   go_Date 2026 2 28 0 0 0 0 time_UTC < NextPolicyFireAt sample_policy (go_Date 2026 1 31 0 0 30 0 time_UTC)"
proof -
  let ?fire = "\<lambda>y m. monthlyTime y m (clampMonthDay (p_MonthDay sample_policy)) (clampHour (p_Hour sample_policy))
    (clampMinute (p_Minute sample_policy)) time_UTC"
  have "p_ScheduleType sample_policy = ''monthly''" by (simp add: sample_policy_def)
  moreover have "0 \<le> go_Date 2026 1 31 0 0 30 0 time_UTC" by code_simp
  moreover have "time_Date time_UTC (go_Date 2026 1 31 0 0 30 0 time_UTC) = (2026, 1, 31)" by code_simp
  moreover have "month_len 2026 2 < 31" by code_simp
  moreover have "?fire 2026 1 \<le> go_Date 2026 1 31 0 0 30 0 time_UTC" by code_simp
  moreover have "?fire 2026 2 = go_Date 2026 2 28 0 0 0 0 time_UTC" by code_simp
  ultimately show ?thesis
    using monthly_skips_short_month [of sample_policy _ 2026 1 31 2026 2 ?fire] by simp
qed

text \<open>An interval policy of at most 2562047 hours, or 153722867 minutes, fires next after exactly
  that interval, rounded down to the second and strictly later than the given instant.\<close>

theorem interval_fire_time:
  assumes "p_ScheduleType policy = ''interval''"
    and "p_IntervalUnit policy \<in> {''minute'', ''minutes''} \<and> unit = durMinute \<or>
      p_IntervalUnit policy \<in> {''hour'', ''hours'', ''''} \<and> unit = durHour"
    and "1 \<le> p_IntervalValue policy" "p_IntervalValue policy * unit < 2 ^ 63"
  shows "NextPolicyFireAt policy t =
      t + p_IntervalValue policy * unit - (t + p_IntervalValue policy * unit) mod nsPerSec \<and>
    t < NextPolicyFireAt policy t"
proof -
  from assms(2,3) have pos: "durMinute \<le> p_IntervalValue policy * unit"
    by auto
  then have "dur_mult (p_IntervalValue policy) unit = p_IntervalValue policy * unit"
    using assms(4) unfolding dur_mult_def by (intro wrap64_id) auto
  with assms have eq: "NextPolicyFireAt policy t =
      t + p_IntervalValue policy * unit - (t + p_IntervalValue policy * unit) mod nsPerSec"
    by (auto simp: NextPolicyFireAt_def NextPolicyFireAtInLocation_def time_Truncate_def Let_def)
  have "(t + p_IntervalValue policy * unit) mod nsPerSec < nsPerSec" by simp
  with eq pos have "t < NextPolicyFireAt policy t" by linarith
  with eq show ?thesis by simp
qed

theorem interval_fire_time_witness:
  "NextPolicyFireAt (sample_policy\<lparr>p_ScheduleType := ''interval'', p_IntervalValue := 6,
      p_IntervalUnit := ''hour''\<rparr>) 5 = 21600 * nsPerSec"
  using interval_fire_time [where unit = durHour and t = 5 and policy = "sample_policy\<lparr>
      p_ScheduleType := ''interval'', p_IntervalValue := 6, p_IntervalUnit := ''hour''\<rparr>"]
  by simp

text \<open>Beyond that bound the multiplication wraps around: one hour more and the next fire time lies in the past. What
  keeps such a policy away from the scheduler is the range check of \<^verbatim>\<open>policyCron\<close>.\<close>

lemma interval_overflow:
  "NextPolicyFireAt (sample_policy\<lparr>p_ScheduleType := ''interval'', p_IntervalValue := 2562048,
      p_IntervalUnit := ''hour''\<rparr>) (go_Date 2026 1 1 0 0 0 0 time_UTC)
    < go_Date 2026 1 1 0 0 0 0 time_UTC"
  by code_simp

end
