(* ===== verification/Go_Json.thy ===== *)
theory Go_Json
  imports HCDR_Prelude Go_Time
begin

text \<open>
  Go's \<^verbatim>\<open>any\<close> and \<^verbatim>\<open>map[string]any\<close>, which carry task payloads and restore point metadata, and the
  PostgreSQL \<^verbatim>\<open>jsonb\<close> operators the store applies to them. A value built in the process keeps its Go
  type (\<^verbatim>\<open>[]string\<close>, \<^verbatim>\<open>time.Time\<close>, ...); one read back from the database has only the types
  \<^verbatim>\<open>encoding/json\<close> produces. Numbers are integers: the sources store counts, sizes, ports and
  percentages only.
\<close>

datatype any =
    ANil
  | ABool bool
  | ANum int
  | AStr string
  | ATime gtime
  | AStrs "string list"
  | AStrMap "(string \<times> string) list"
  | AIntMap "(string \<times> int) list"
  | ASlice "any list"
  | AMap "(string \<times> any) list"

type_synonym gomap = "(string \<times> any) list"

section \<open>Maps\<close>

text \<open>A missing key reads as \<^verbatim>\<open>nil\<close>, as in Go.\<close>

definition mget :: "gomap \<Rightarrow> string \<Rightarrow> any" where
  "mget m k = (case map_of m k of None \<Rightarrow> ANil | Some v \<Rightarrow> v)"

fun mset_key :: "string \<Rightarrow> 'v \<Rightarrow> (string \<times> 'v) list \<Rightarrow> (string \<times> 'v) list" where
  "mset_key k v [] = [(k, v)]"
| "mset_key k v ((k', v') # m) = (if k' = k then (k, v) # m else (k', v') # mset_key k v m)"

definition mdelete :: "string \<Rightarrow> (string \<times> 'v) list \<Rightarrow> (string \<times> 'v) list" where
  "mdelete k m = filter (\<lambda>(k', v). k' \<noteq> k) m"

text \<open>\<^verbatim>\<open>a || b\<close> on \<^verbatim>\<open>jsonb\<close> objects: the keys of the right operand win.\<close>

definition jmerge :: "gomap \<Rightarrow> gomap \<Rightarrow> gomap" where
  "jmerge a b = foldl (\<lambda>m (k, v). mset_key k v m) a b"

lemma map_of_mset_key [simp]: "map_of (mset_key k v m) = (map_of m)(k \<mapsto> v)"
  by (induction m) auto

lemma map_of_mdelete [simp]: "map_of (mdelete k m) = (map_of m)(k := None)"
  by (induction m) (auto simp: mdelete_def)

lemma map_of_jmerge: "distinct (map fst b) \<Longrightarrow> map_of (jmerge a b) = map_of a ++ map_of b"
proof (induction b arbitrary: a)
  case (Cons kv b)
  obtain k v where kv: "kv = (k, v)" by (cases kv)
  from Cons have "map_of (jmerge (mset_key k v a) b) = map_of (mset_key k v a) ++ map_of b" by simp
  moreover from Cons.prems kv have "k \<notin> dom (map_of b)"
    by (auto simp: dom_map_of_conv_image_fst)
  ultimately show ?case
    by (auto simp: kv jmerge_def fun_eq_iff map_add_def split: option.splits)
qed (simp add: jmerge_def)

lemma mget_mset_key [simp]: "mget (mset_key k v m) k' = (if k' = k then v else mget m k')"
  by (simp add: mget_def)

lemma mget_mdelete [simp]: "mget (mdelete k m) k' = (if k' = k then ANil else mget m k')"
  by (simp add: mget_def)

lemma mget_Nil [simp]: "mget [] k = ANil"
  by (simp add: mget_def)

lemma mget_Cons [simp]: "mget ((k, v) # m) k' = (if k' = k then v else mget m k')"
  by (simp add: mget_def)

lemma jmerge_Nil [simp]: "jmerge a [] = a"
  by (simp add: jmerge_def)

lemma jmerge_Cons [simp]: "jmerge a ((k, v) # b) = jmerge (mset_key k v a) b"
  by (simp add: jmerge_def)

lemma mget_jmerge_notin: "k \<notin> fst ` set b \<Longrightarrow> mget (jmerge a b) k = mget a k"
  by (induction b arbitrary: a) (auto simp: jmerge_def)

lemma keys_mset_key: "fst ` set (mset_key k v m) = insert k (fst ` set m)"
proof (induction m)
  case (Cons kv m)
  obtain k' v' where kv: "kv = (k', v')" by (cases kv)
  show ?case using Cons by (cases "k' = k") (auto simp: kv simp del: insert_iff)
qed simp

lemma distinct_mset_key [simp]: "distinct (map fst (mset_key k v m)) \<longleftrightarrow> distinct (map fst m)"
proof (induction m)
  case (Cons kv m)
  obtain k' v' where kv: "kv = (k', v')" by (cases kv)
  have "k' \<in> fst ` set (mset_key k v m) \<longleftrightarrow> k' = k \<or> k' \<in> fst ` set m"
    by (simp add: keys_mset_key)
  with Cons show ?case unfolding kv by simp
qed simp

lemma distinct_jmerge: "distinct (map fst a) \<Longrightarrow> distinct (map fst (jmerge a b))"
  by (induction b arbitrary: a) auto

section \<open>Type assertions\<close>

text \<open>\<^verbatim>\<open>v, _ := x.(string)\<close> and its companions: the zero value where the assertion fails.\<close>

definition any_str :: "any \<Rightarrow> string" where
  "any_str v = (case v of AStr s \<Rightarrow> s | _ \<Rightarrow> '''')"

definition any_bool :: "any \<Rightarrow> bool" where
  "any_bool v = (case v of ABool b \<Rightarrow> b | _ \<Rightarrow> False)"

definition any_map :: "any \<Rightarrow> gomap option" where
  "any_map v = (case v of AMap m \<Rightarrow> Some m | _ \<Rightarrow> None)"

fun show_nat :: "nat \<Rightarrow> string" where
  "show_nat n = (if n < 10 then [char_of (48 + n)] else show_nat (n div 10) @ [char_of (48 + n mod 10)])"

declare show_nat.simps [simp del]

definition show_int :: "int \<Rightarrow> string" where
  "show_int n = (if n < 0 then CHR ''-'' # show_nat (nat (- n)) else show_nat (nat n))"

text \<open>
  The text value \<^verbatim>\<open>m->>'k'\<close> of a key in SQL: absent and null keys are \<open>None\<close>. The queries
  apply it to keys that hold scalars only.
\<close>

definition jtext :: "gomap \<Rightarrow> string \<Rightarrow> string option" where
  "jtext m k = (case mget m k of AStr s \<Rightarrow> Some s
     | ABool b \<Rightarrow> Some (if b then ''true'' else ''false'') | ANum n \<Rightarrow> Some (show_int n) | _ \<Rightarrow> None)"

definition coalesce_str :: "string option \<Rightarrow> string \<Rightarrow> string" where
  "coalesce_str x d = (case x of None \<Rightarrow> d | Some s \<Rightarrow> s)"

lemmas any_defs = any_str_def any_bool_def any_map_def jtext_def coalesce_str_def

end
