(* ===== verification/Store_Types.thy ===== *)
theory Store_Types
  imports Store_Policies Go_Json
begin

text \<open>
  The persisted types of \<^verbatim>\<open>backend/internal/store/types.go\<close>. A field keeps its Go name behind a
  prefix that says which struct it belongs to. Nullable columns are read with
  \<^verbatim>\<open>coalesce(..., '')\<close> and written with \<^verbatim>\<open>nullif(..., '')\<close>, so the empty string stands for SQL's null
  in an identifier, and the zero time for null in a timestamp.
\<close>

definition DefaultTenantID :: string where
  "DefaultTenantID = ''00000000-0000-0000-0000-000000000001''"

text \<open>
  The errors the store returns. \<open>ErrRestorePointQuota\<close> carries the text the code wraps it with;
  \<open>ErrNoRows\<close> is \<^verbatim>\<open>sql.ErrNoRows\<close>, \<open>ErrConstraint\<close> a statement the database refuses (a unique index, a
  foreign key or the trigger of migration 36), \<open>Errorf\<close> an error built by \<^verbatim>\<open>fmt.Errorf\<close> alone, and
  \<open>ErrJson\<close> a failure of \<^verbatim>\<open>json.Unmarshal\<close>. Failures of the connection to the database are not
  modelled.
\<close>

datatype store_error =
    ErrTenantResourceMismatch
  | ErrProtectionPlanBusy
  | ErrProtectionPlanIdentity
  | ErrRestorePointQuota string
  | ErrRestorePointLocked
  | ErrRestorePointReplacementPending
  | ErrBackupResultConflict
  | ErrBackupResultIncomplete
  | ErrApplicationAlreadyProtected string string
  | ErrNoRows
  | ErrConstraint string
  | ErrJson
  | Errorf string

record Task =
  t_ID :: string
  t_TenantID :: string
  t_ClusterID :: string
  t_AppID :: string
  t_ProtectionPlanID :: string
  t_RestorePointID :: string
  t_Type :: string
  t_Status :: string
  t_Progress :: int
  t_CommandID :: string
  t_ErrorCode :: string
  t_ErrorMessage :: string
  t_Payload :: gomap
  t_CreatedAt :: gtime
  t_DispatchedAt :: gtime
  t_AcceptedAt :: gtime
  t_StartedAt :: gtime
  t_CompletedAt :: gtime

record TaskInput =
  ti_TenantID :: string
  ti_ClusterID :: string
  ti_AppID :: string
  ti_ProtectionPlanID :: string
  ti_RestorePointID :: string
  ti_Type :: string
  ti_Status :: string
  ti_CommandID :: string
  ti_Payload :: gomap
  ti_SuppressLatestPointer :: bool

record TaskStatusInput =
  ts_TaskID :: string
  ts_RestorePointID :: string
  ts_Status :: string
  ts_Progress :: int
  ts_ErrorCode :: string
  ts_ErrorMessage :: string
  ts_Payload :: gomap
  ts_MarkAccepted :: bool
  ts_MarkStarted :: bool
  ts_MarkDone :: bool

record TaskEventInput =
  te_TaskID :: string
  te_Level :: string
  te_Reason :: string
  te_Message :: string
  te_Payload :: gomap

record TaskEvent =
  tv_ID :: string
  tv_TaskID :: string
  tv_Level :: string
  tv_Reason :: string
  tv_Message :: string
  tv_Payload :: gomap
  tv_CreatedAt :: gtime

record RestorePoint =
  rp_ID :: string
  rp_TenantID :: string
  rp_ProtectionPlanID :: string
  rp_SourceClusterID :: string
  rp_AppID :: string
  rp_StorageRepoID :: string
  rp_DisplayName :: string
  rp_VeleroBackupName :: string
  rp_PointType :: string
  rp_Status :: string
  rp_SizeBytes :: int
  rp_StartedAt :: gtime
  rp_CompletedAt :: gtime
  rp_ExpiresAt :: gtime
  rp_SourceNamespace :: string
  rp_LabelSelector :: string
  rp_BackupTaskID :: string
  rp_BackupStorageName :: string
  rp_TaskCreatedAt :: gtime
  rp_Metadata :: gomap
  rp_SizeMetricsV2 :: gomap
  rp_CreatedAt :: gtime

record RestorePointInput =
  ri_ProtectionPlanID :: string
  ri_SourceClusterID :: string
  ri_AppID :: string
  ri_StorageRepoID :: string
  ri_DisplayName :: string
  ri_TaskCreatedAt :: gtime
  ri_VeleroBackupName :: string
  ri_PointType :: string
  ri_Status :: string
  ri_SizeBytes :: int
  ri_StartedAt :: gtime
  ri_CompletedAt :: gtime
  ri_ExpiresAt :: gtime
  ri_SourceNamespace :: string
  ri_LabelSelector :: string
  ri_BackupTaskID :: string
  ri_BackupStorageName :: string
  ri_Metadata :: gomap
  ri_SizeMetricsV2 :: gomap

record RestorePointStateInput =
  rsi_ID :: string
  rsi_Status :: string
  rsi_Metadata :: gomap

record ResourceSelection =
  rsel_Mode :: string
  rsel_NamespaceScoped :: "string list"
  rsel_ClusterScoped :: "string list"

record LabelSelectorExpression =
  lse_Key :: string
  lse_Operator :: string
  lse_Values :: "string list"

record LabelSelector =
  ls_MatchLabels :: "(string \<times> string) list"
  ls_MatchExpressions :: "LabelSelectorExpression list"

record ProtectionPlan =
  pl_ID :: string
  pl_TenantID :: string
  pl_SourceClusterID :: string
  pl_AppID :: string
  pl_AppIDs :: "string list"
  pl_ScopeType :: string
  pl_IncludedResources :: "string list"
  pl_ResourceSelection :: ResourceSelection
  pl_LabelSelector :: LabelSelector
  pl_IncludeClusterScoped :: bool
  pl_StorageRepoID :: string
  pl_PolicyID :: string
  pl_TargetClusterID :: string
  pl_ExcludedResources :: "string list"
  pl_PreHooks :: "gomap list"
  pl_PostHooks :: "gomap list"
  pl_PlanStorageSize :: gomap
  pl_NextFireAt :: gtime
  pl_ScheduleEnabled :: bool
  pl_LatestSyncTaskID :: string
  pl_LatestRecoveryTaskID :: string
  pl_Status :: string
  pl_CreatedAt :: gtime
  pl_UpdatedAt :: gtime

record ProtectionPlanSchedule =
  ps_ProtectionPlanID :: string
  ps_LastFiredAt :: gtime
  ps_NextFireAt :: gtime
  ps_Enabled :: bool
  ps_CreatedAt :: gtime
  ps_UpdatedAt :: gtime

record ProtectionPlanScheduleInput =
  psi_ProtectionPlanID :: string
  psi_NextFireAt :: gtime
  psi_Enabled :: bool

record ProtectionPlanScheduleFiredInput =
  psf_ProtectionPlanID :: string
  psf_LastFiredAt :: gtime
  psf_NextFireAt :: gtime

end
