(* ===== verification/Retention.thy ===== *)
theory Retention
  imports Store_Types
begin

text \<open>
  Calendar retention (\<^verbatim>\<open>backend/internal/store/retention_rules.go\<close>): a rule keeps, for each of the last
  \<open>Keep\<close> days, weeks, months or years, the point that was the \<open>Ordinal\<close>-th one of that period.
  \<^verbatim>\<open>time.LoadLocation\<close> reads the time zone database of the host and is the parameter \<open>LoadLocation\<close>.
  The theorems characterise the loops of \<^verbatim>\<open>RetentionSelections\<close> by counting.
\<close>

section \<open>The model\<close>

fun validate_rules :: "RetentionRule list \<Rightarrow> RetentionRule list \<Rightarrow> store_error + unit" where
  "validate_rules seen [] = Inr ()"
| "validate_rules seen (rule # rules) =
     (if rr_Period rule \<notin> {''daily'', ''weekly'', ''monthly'', ''yearly''}
      then Inl (Errorf ''invalid retention period'')
      else if rr_Ordinal rule < 1 \<or> rr_Ordinal rule > 100000 \<or> rr_Keep rule < 1 \<or> rr_Keep rule > 1000
      then Inl (Errorf ''retention ordinal and duration must be positive and within limits'')
      else if rule \<in> set seen then Inl (Errorf ''duplicate retention rule'')
      else validate_rules (rule # seen) rules)"

definition ValidateRetentionRules ::
  "(string \<Rightarrow> location option) \<Rightarrow> RetentionRule list \<Rightarrow> string \<Rightarrow> store_error + unit" where
  "ValidateRetentionRules LoadLocation rules zone =
     (if length rules > 32 then Inl (Errorf ''at most 32 retention rules are allowed'')
      else if LoadLocation zone = None then Inl (Errorf ''invalid retention timezone'')
      else validate_rules [] rules)"

text \<open>Go's \<^verbatim>\<open>-(weekday+6)%7\<close> negates first and truncates, which is the negated remainder.\<close>

definition retentionPeriodStart :: "gtime \<Rightarrow> string \<Rightarrow> location \<Rightarrow> gtime" where
  "retentionPeriodStart t period loc =
     (let (year, month, day) = time_Date loc t;
          start = go_Date year month day 0 0 0 0 loc
      in if period = ''weekly'' then time_AddDate loc start 0 0 (- ((time_Weekday loc start + 6) mod 7))
         else if period = ''monthly'' then go_Date year month 1 0 0 0 0 loc
         else if period = ''yearly'' then go_Date year 1 1 0 0 0 0 loc
         else start)"

definition retentionPeriodAdd :: "location \<Rightarrow> gtime \<Rightarrow> string \<Rightarrow> int \<Rightarrow> gtime" where
  "retentionPeriodAdd loc t period count =
     (if period = ''weekly'' then time_AddDate loc t 0 0 (count * 7)
      else if period = ''monthly'' then time_AddDate loc t 0 count 0
      else if period = ''yearly'' then time_AddDate loc t count 0 0
      else time_AddDate loc t 0 0 count)"

definition restorePointOrderTime :: "RestorePoint \<Rightarrow> gtime" where
  "restorePointOrderTime point =
     (if \<not> time_IsZero (rp_TaskCreatedAt point) then rp_TaskCreatedAt point
      else if \<not> time_IsZero (rp_StartedAt point) then rp_StartedAt point
      else rp_CreatedAt point)"

text \<open>
  The order of \<^verbatim>\<open>sort.Slice\<close>: time first, then the identifier. \<^verbatim>\<open>sort.Slice\<close> is not stable, but
  identifiers are primary keys, so no two points are equal in this order.
\<close>

definition order_key :: "RestorePoint \<Rightarrow> gtime \<times> string" where
  "order_key point = (restorePointOrderTime point, rp_ID point)"

type_synonym selections = "string \<Rightarrow> RetentionReason list"

text \<open>One pass of the inner loop, with the counters of the periods and the selection so far.\<close>

definition retention_visit ::
  "location \<Rightarrow> gtime \<Rightarrow> RetentionRule \<Rightarrow> gtime \<Rightarrow> (gtime \<Rightarrow> int) \<times> selections \<Rightarrow> RestorePoint
    \<Rightarrow> (gtime \<Rightarrow> int) \<times> selections" where
  "retention_visit loc now rule cutoff st point =
     (let (counts, selected) = st in
      if rp_Status point \<noteq> ''available'' \<and> rp_Status point \<noteq> ''deleted'' then (counts, selected)
      else let timestamp = restorePointOrderTime point in
      if timestamp > now then (counts, selected)
      else let start = retentionPeriodStart timestamp (rr_Period rule) loc in
      if start < cutoff then (counts, selected)
      else let counts = counts(start := counts start + 1) in
      if counts start = rr_Ordinal rule \<and> rp_Status point = ''available''
      then (counts, selected(rp_ID point := selected (rp_ID point) @
              [\<lparr>rs_Period = rr_Period rule, rs_Ordinal = rr_Ordinal rule,
                rs_Until = retentionPeriodAdd loc start (rr_Period rule) (rr_Keep rule)\<rparr>]))
      else (counts, selected))"

definition retention_cutoff :: "location \<Rightarrow> gtime \<Rightarrow> RetentionRule \<Rightarrow> gtime" where
  "retention_cutoff loc now rule =
     retentionPeriodAdd loc (retentionPeriodStart now (rr_Period rule) loc) (rr_Period rule) (1 - rr_Keep rule)"

definition retention_pass ::
  "location \<Rightarrow> gtime \<Rightarrow> RestorePoint list \<Rightarrow> selections \<Rightarrow> RetentionRule \<Rightarrow> selections" where
  "retention_pass loc now ordered selected rule =
     snd (foldl (retention_visit loc now rule (retention_cutoff loc now rule)) (\<lambda>_. 0, selected) ordered)"

definition RetentionSelections ::
  "(string \<Rightarrow> location option) \<Rightarrow> RestorePoint list \<Rightarrow> RetentionRule list \<Rightarrow> string \<Rightarrow> gtime
    \<Rightarrow> store_error + selections" where
  "RetentionSelections LoadLocation points rules zone now =
     (case ValidateRetentionRules LoadLocation rules zone of
        Inl e \<Rightarrow> Inl e
      | Inr _ \<Rightarrow> (let loc = the (LoadLocation zone) in
          Inr (foldl (retention_pass loc now (sort_key order_key points)) (\<lambda>_. []) rules)))"

section \<open>Validation\<close>

lemma validate_rules_ok:
  "validate_rules seen rules = Inr u \<longleftrightarrow>
     (\<forall>rule \<in> set rules. rr_Period rule \<in> {''daily'', ''weekly'', ''monthly'', ''yearly''} \<and>
        1 \<le> rr_Ordinal rule \<and> rr_Ordinal rule \<le> 100000 \<and> 1 \<le> rr_Keep rule \<and> rr_Keep rule \<le> 1000) \<and>
     distinct rules \<and> set rules \<inter> set seen = {}"
  by (induction rules arbitrary: seen) auto

lemma RetentionSelections_Inr:
  "RetentionSelections LoadLocation points rules zone now = Inr sel \<longleftrightarrow>
     (\<exists>loc. LoadLocation zone = Some loc \<and> ValidateRetentionRules LoadLocation rules zone = Inr () \<and>
        sel = foldl (retention_pass loc now (sort_key order_key points)) (\<lambda>_. []) rules)"
  by (auto simp: RetentionSelections_def ValidateRetentionRules_def Let_def split: sum.splits if_splits)

section \<open>Counting\<close>

text \<open>
  The points a rule counts, and the ones that come before a point in the period it belongs to.
\<close>

definition countable_point :: "location \<Rightarrow> gtime \<Rightarrow> RetentionRule \<Rightarrow> RestorePoint \<Rightarrow> bool" where
  "countable_point loc now rule point \<longleftrightarrow>
     rp_Status point \<in> {''available'', ''deleted''} \<and> restorePointOrderTime point \<le> now \<and>
     retention_cutoff loc now rule \<le> retentionPeriodStart (restorePointOrderTime point) (rr_Period rule) loc"

abbreviation period_of :: "location \<Rightarrow> RetentionRule \<Rightarrow> RestorePoint \<Rightarrow> gtime" where
  "period_of loc rule point \<equiv> retentionPeriodStart (restorePointOrderTime point) (rr_Period rule) loc"

definition rank_in :: "location \<Rightarrow> gtime \<Rightarrow> RetentionRule \<Rightarrow> RestorePoint list \<Rightarrow> RestorePoint \<Rightarrow> int" where
  "rank_in loc now rule points point =
     int (card {q \<in> set points. countable_point loc now rule q \<and>
       period_of loc rule q = period_of loc rule point \<and> order_key q \<le> order_key point})"

definition reason_of :: "location \<Rightarrow> RetentionRule \<Rightarrow> RestorePoint \<Rightarrow> RetentionReason" where
  "reason_of loc rule point = \<lparr>rs_Period = rr_Period rule, rs_Ordinal = rr_Ordinal rule,
     rs_Until = retentionPeriodAdd loc (period_of loc rule point) (rr_Period rule) (rr_Keep rule)\<rparr>"

definition selects :: "location \<Rightarrow> gtime \<Rightarrow> RestorePoint list \<Rightarrow> RetentionRule \<Rightarrow> RestorePoint \<Rightarrow> bool" where
  "selects loc now points rule point \<longleftrightarrow>
     countable_point loc now rule point \<and> rp_Status point = ''available'' \<and>
     rank_in loc now rule points point = rr_Ordinal rule"

text \<open>
  The loop invariant: after a prefix of the ordered points, a counter holds the number of counted
  points of its period, and a point has been selected when its own count was the ordinal.
\<close>

definition pcount :: "location \<Rightarrow> gtime \<Rightarrow> RetentionRule \<Rightarrow> RestorePoint list \<Rightarrow> gtime \<Rightarrow> int" where
  "pcount loc now rule points s =
     int (count_where (\<lambda>q. countable_point loc now rule q \<and> period_of loc rule q = s) points)"

fun pass_sel :: "location \<Rightarrow> gtime \<Rightarrow> RetentionRule \<Rightarrow> RestorePoint list \<Rightarrow> RestorePoint list \<Rightarrow> string
    \<Rightarrow> RetentionReason list" where
  "pass_sel loc now rule pre [] i = []"
| "pass_sel loc now rule pre (p # ps) i =
     (if rp_ID p = i \<and> countable_point loc now rule p \<and> rp_Status p = ''available'' \<and>
         pcount loc now rule (pre @ [p]) (period_of loc rule p) = rr_Ordinal rule
      then [reason_of loc rule p] else []) @ pass_sel loc now rule (pre @ [p]) ps i"

lemma retention_visit_step:
  assumes "c = pcount loc now rule pre"
  shows "retention_visit loc now rule (retention_cutoff loc now rule) (c, sel) p =
    (pcount loc now rule (pre @ [p]),
     \<lambda>i. sel i @ (if rp_ID p = i \<and> countable_point loc now rule p \<and> rp_Status p = ''available'' \<and>
         pcount loc now rule (pre @ [p]) (period_of loc rule p) = rr_Ordinal rule
       then [reason_of loc rule p] else []))"
  unfolding assms retention_visit_def Let_def
  by (auto simp: countable_point_def pcount_def reason_of_def fun_eq_iff)

lemma retention_fold:
  "foldl (retention_visit loc now rule (retention_cutoff loc now rule)) (pcount loc now rule pre, sel) ps =
     (pcount loc now rule (pre @ ps), \<lambda>i. sel i @ pass_sel loc now rule pre ps i)"
  by (induction ps arbitrary: pre sel) (simp_all add: retention_visit_step)

lemma retention_pass_eq:
  "retention_pass loc now ordered sel rule = (\<lambda>i. sel i @ pass_sel loc now rule [] ordered i)"
proof -
  have "(\<lambda>_. 0) = pcount loc now rule []" by (simp add: pcount_def fun_eq_iff)
  then show ?thesis by (simp add: retention_pass_def retention_fold)
qed

lemma retention_passes_eq:
  "foldl (retention_pass loc now ordered) sel rules =
     (\<lambda>i. sel i @ concat (map (\<lambda>rule. pass_sel loc now rule [] ordered i) rules))"
  by (induction rules arbitrary: sel) (simp_all add: retention_pass_eq)

lemma set_pass_sel:
  "r \<in> set (pass_sel loc now rule pre ps i) \<longleftrightarrow>
     (\<exists>as p bs. ps = as @ p # bs \<and> r = reason_of loc rule p \<and> rp_ID p = i \<and>
        countable_point loc now rule p \<and> rp_Status p = ''available'' \<and>
        pcount loc now rule (pre @ as @ [p]) (period_of loc rule p) = rr_Ordinal rule)"
proof (induction ps arbitrary: pre)
  case (Cons q qs)
  show ?case
    by (subst ex_split_Cons, unfold pass_sel.simps set_append Un_iff Cons.IH) simp
qed simp

lemma order_key_inj: "distinct (map rp_ID points) \<Longrightarrow> inj_on order_key (set points)"
  by (auto simp: distinct_map inj_on_def order_key_def)

lemma order_keys_sorted:
  assumes "distinct (map rp_ID points)"
  shows "sorted_wrt (<) (map order_key (sort_key order_key points))"
proof -
  have "distinct (map order_key (sort_key order_key points))"
    using order_key_inj [OF assms] assms by (simp add: distinct_map)
  then show ?thesis by (simp add: strict_sorted_iff)
qed

lemma pcount_rank:
  assumes "distinct (map rp_ID points)" and "sort_key order_key points = as @ p # bs"
  shows "pcount loc now rule (as @ [p]) (period_of loc rule p) = rank_in loc now rule points p"
proof -
  let ?ok = "\<lambda>q. countable_point loc now rule q \<and> period_of loc rule q = period_of loc rule p"
  have sorted: "sorted_wrt (<) (map order_key (as @ p # bs))"
    using order_keys_sorted [OF assms(1)] assms(2) by simp
  have set: "set points = set (as @ p # bs)"
    by (metis assms(2) set_sort)
  from sorted have before: "order_key q < order_key p" if "q \<in> set as" for q
    using that by (auto simp: sorted_wrt_append)
  from sorted have after: "order_key p < order_key q" if "q \<in> set bs" for q
    using that by (auto simp: sorted_wrt_append)
  have "{q \<in> set points. ?ok q \<and> order_key q \<le> order_key p} = set (filter ?ok (as @ [p]))"
    unfolding set using before after by (auto simp: less_le_not_le)
  moreover have "distinct (filter ?ok (as @ [p]))"
  proof -
    have "distinct (sort_key order_key points)" using assms(1) by (simp add: distinct_map)
    then show ?thesis unfolding assms(2) by simp
  qed
  ultimately have "card {q \<in> set points. ?ok q \<and> order_key q \<le> order_key p} =
      length (filter ?ok (as @ [p]))"
    by (simp only: distinct_card)
  then show ?thesis by (simp add: pcount_def rank_in_def count_where_def conj_assoc)
qed

lemma set_pass_sel_sorted:
  assumes "distinct (map rp_ID points)"
  shows "r \<in> set (pass_sel loc now rule [] (sort_key order_key points) i) \<longleftrightarrow>
    (\<exists>p \<in> set points. rp_ID p = i \<and> selects loc now points rule p \<and> r = reason_of loc rule p)"
proof
  assume "r \<in> set (pass_sel loc now rule [] (sort_key order_key points) i)"
  then obtain as p bs where p: "sort_key order_key points = as @ p # bs" "rp_ID p = i"
      "countable_point loc now rule p" "rp_Status p = ''available''"
      "pcount loc now rule (as @ [p]) (period_of loc rule p) = rr_Ordinal rule" "r = reason_of loc rule p"
    by (auto simp: set_pass_sel)
  moreover from p(1) have "p \<in> set points" by (metis in_set_conv_decomp set_sort)
  ultimately show "\<exists>p \<in> set points. rp_ID p = i \<and> selects loc now points rule p \<and> r = reason_of loc rule p"
    using pcount_rank [OF assms p(1)] by (auto simp: selects_def)
next
  assume "\<exists>p \<in> set points. rp_ID p = i \<and> selects loc now points rule p \<and> r = reason_of loc rule p"
  then obtain p where p: "p \<in> set points" "rp_ID p = i" "selects loc now points rule p"
      "r = reason_of loc rule p" by blast
  then obtain as bs where split: "sort_key order_key points = as @ p # bs"
    by (metis set_sort split_list)
  show "r \<in> set (pass_sel loc now rule [] (sort_key order_key points) i)"
    unfolding set_pass_sel
    by (rule exI [of _ as], rule exI [of _ p], rule exI [of _ bs])
      (use p split pcount_rank [OF assms split] in \<open>simp add: selects_def\<close>)
qed

lemma selection_iff:
  assumes "RetentionSelections LoadLocation points rules zone now = Inr sel"
    and "LoadLocation zone = Some loc" and "distinct (map rp_ID points)"
  shows "r \<in> set (sel i) \<longleftrightarrow> (\<exists>rule \<in> set rules. \<exists>p \<in> set points.
    rp_ID p = i \<and> selects loc now points rule p \<and> r = reason_of loc rule p)"
  using assms(1,2) set_pass_sel_sorted [OF assms(3)]
  by (auto simp: RetentionSelections_Inr retention_passes_eq)

section \<open>The grid of periods\<close>

text \<open>
  What the two calendar functions promise about one kind of period, over UTC: periods are numbered,
  their starts increase, every instant lies in the period it is assigned, and adding \<open>n\<close> to the start
  of a period gives the start of the \<open>n\<close>-th period after it.
\<close>

locale period_grid =
  fixes period :: string and idx :: "gtime \<Rightarrow> int" and start :: "int \<Rightarrow> gtime"
  assumes start_less: "i < j \<Longrightarrow> start i < start j"
    and period_start: "retentionPeriodStart t period time_UTC = start (idx t)"
    and period_add: "retentionPeriodAdd time_UTC (start i) period n = start (i + n)"
    and bracket: "start (idx t) \<le> t \<and> t < start (idx t + 1)"
begin

lemma start_less_iff: "start i < start j \<longleftrightarrow> i < j"
  by (metis less_asym' linorder_neqE start_less)

lemma start_le_iff: "start i \<le> start j \<longleftrightarrow> i \<le> j"
  by (meson linorder_not_less start_less_iff)

lemma start_eq_iff: "start i = start j \<longleftrightarrow> i = j"
  by (metis order_antisym order_refl start_le_iff)

lemma idx_mono: "s \<le> t \<Longrightarrow> idx s \<le> idx t"
proof -
  assume "s \<le> t"
  with bracket [of s] bracket [of t] have "start (idx s) < start (idx t + 1)" by linarith
  then show ?thesis by (simp add: start_less_iff)
qed

lemma cutoff_eq: "rr_Period rule = period \<Longrightarrow>
    retention_cutoff time_UTC now rule = start (idx now + (1 - rr_Keep rule))"
  by (simp add: retention_cutoff_def period_start period_add)

lemma countable_window:
  assumes "rr_Period rule = period" and "countable_point time_UTC now rule p"
  shows "idx (restorePointOrderTime p) \<in> {idx now - rr_Keep rule + 1 .. idx now}"
  using assms idx_mono by (auto simp: countable_point_def cutoff_eq period_start start_le_iff)

lemma until_after_now:
  assumes "rr_Period rule = period" and "countable_point time_UTC now rule p"
  shows "now < rs_Until (reason_of time_UTC rule p)"
proof -
  let ?i = "idx (restorePointOrderTime p)"
  have "idx now + 1 \<le> ?i + rr_Keep rule" using countable_window [OF assms] by simp
  then have "start (idx now + 1) \<le> start (?i + rr_Keep rule)" by (simp only: start_le_iff)
  with bracket [of now] have "now < start (?i + rr_Keep rule)" by linarith
  then show ?thesis by (simp add: reason_of_def period_start period_add assms(1))
qed

lemma selects_same_period:
  assumes "rr_Period rule = period" and "inj_on order_key (set points)"
    and "p \<in> set points" "q \<in> set points"
    and "selects time_UTC now points rule p" "selects time_UTC now points rule q"
    and "idx (restorePointOrderTime p) = idx (restorePointOrderTime q)"
  shows "p = q"
proof -
  let ?rank = "\<lambda>p. {r \<in> set points. countable_point time_UTC now rule r \<and>
    period_of time_UTC rule r = period_of time_UTC rule p \<and> order_key r \<le> order_key p}"
  have same: "period_of time_UTC rule p = period_of time_UTC rule q"
    using assms(1,7) by (simp add: period_start)
  have cards: "card (?rank p) = card (?rank q)"
    using assms(5,6) by (simp add: selects_def rank_in_def)
  have strict: "card (?rank a) < card (?rank b)"
    if "order_key a < order_key b" "b \<in> set points" "countable_point time_UTC now rule b"
      "period_of time_UTC rule a = period_of time_UTC rule b" for a b
  proof (rule psubset_card_mono)
    have "?rank a \<subseteq> ?rank b" using that by auto
    moreover have "b \<in> ?rank b" "b \<notin> ?rank a" using that by auto
    ultimately show "?rank a \<subset> ?rank b" by blast
  qed simp
  have "\<not> order_key p < order_key q" "\<not> order_key q < order_key p"
    using strict [of p q] strict [of q p] cards same assms(3-6) by (auto simp: selects_def)
  then have "order_key p = order_key q" by simp
  with assms(2-4) show ?thesis by (auto dest: inj_onD)
qed

lemma selects_at_most_keep:
  assumes "rr_Period rule = period" and "inj_on order_key (set points)" and "0 \<le> rr_Keep rule"
  shows "int (card {p \<in> set points. selects time_UTC now points rule p}) \<le> rr_Keep rule"
proof -
  let ?S = "{p \<in> set points. selects time_UTC now points rule p}"
  have "inj_on (\<lambda>p. idx (restorePointOrderTime p)) ?S"
    using selects_same_period [OF assms(1,2)] by (auto simp: inj_on_def)
  moreover have "(\<lambda>p. idx (restorePointOrderTime p)) ` ?S \<subseteq> {idx now - rr_Keep rule + 1 .. idx now}"
    using countable_window [OF assms(1)] by (auto simp: selects_def simp del: atLeastAtMost_iff)
  ultimately have "card ?S \<le> card {idx now - rr_Keep rule + 1 .. idx now}"
    by (meson card_inj_on_le finite_atLeastAtMost_int)
  then show ?thesis using assms(3) by simp
qed

lemma same_reason:
  assumes "rr_Period rule = period" and "reason_of time_UTC rule' p = reason_of time_UTC rule p"
  shows "rule' = rule"
proof (rule RetentionRule.equality)
  show period: "rr_Period rule' = rr_Period rule" and "rr_Ordinal rule' = rr_Ordinal rule"
    using assms(2) by (simp_all add: reason_of_def)
  have "rs_Until (reason_of time_UTC r p) = start (idx (restorePointOrderTime p) + rr_Keep r)" if "rr_Period r = period" for r
    by (simp add: reason_of_def that period_start period_add)
  from this [OF assms(1)] this [OF trans [OF period assms(1)]] show "rr_Keep rule' = rr_Keep rule"
    unfolding assms(2) by (simp add: start_eq_iff)
qed simp

end

text \<open>The four kinds of period the code has.\<close>

lemma period_start_midnight:
  assumes "time_Date time_UTC t = (y, m, d)"
  shows "retentionPeriodStart t ''daily'' time_UTC = midnight (date_days y m d)"
    and "retentionPeriodStart t ''monthly'' time_UTC = midnight (date_days y m 1)"
    and "retentionPeriodStart t ''yearly'' time_UTC = midnight (date_days y 1 1)"
  using assms by (simp_all add: retentionPeriodStart_def go_Date_midnight)

lemma time_Date_days: "time_Date time_UTC t = (y, m, d) \<Longrightarrow> date_days y m d = local_days time_UTC t"
  using civil_of_days_valid(2) by (simp add: time_Date_def)

lemma time_AddDate_midnight_days: "time_AddDate time_UTC (midnight n) 0 0 k = midnight (n + k)"
proof -
  obtain y m d where c: "civil_of_days n = (y, m, d)" by (metis prod_cases3)
  with time_AddDate_midnight [OF c, of 0 0 k] civil_of_days_valid(2) [OF c] show ?thesis
    by (simp add: date_days_add)
qed

interpretation daily: period_grid "''daily''" "local_days time_UTC" midnight
proof unfold_locales
  fix t
  obtain y m d where "time_Date time_UTC t = (y, m, d)" by (metis prod_cases3)
  then show "retentionPeriodStart t ''daily'' time_UTC = midnight (local_days time_UTC t)"
    by (simp add: period_start_midnight time_Date_days)
qed (use midnight_bracket in \<open>auto simp: retentionPeriodAdd_def time_AddDate_midnight_days\<close>)

lemma weekday_midnight: "(time_Weekday time_UTC (midnight n) + 6) mod 7 = n mod 7"
proof -
  have "((n + 1) mod 7 + 6) mod 7 = (n + 1 + 6) mod 7" by (simp only: mod_add_left_eq)
  also have "n + 1 + 6 = n + 1 * 7" by simp
  finally show ?thesis by (simp only: time_Weekday_def local_days_midnight mod_mult_self1)
qed

lemma week_bracket:
  "midnight (local_days time_UTC t div 7 * 7) \<le> t \<and> t < midnight ((local_days time_UTC t div 7 + 1) * 7)"
proof -
  define n where "n = local_days time_UTC t"
  have "n div 7 * 7 \<le> n" "n + 1 \<le> (n div 7 + 1) * 7"
    unfolding distrib_right
    using div_mult_mod_eq [of n 7] pos_mod_sign [of 7 n] pos_mod_bound [of 7 n] by linarith+
  then have "midnight (n div 7 * 7) \<le> midnight n" "midnight (n + 1) \<le> midnight ((n div 7 + 1) * 7)"
    by (simp_all only: midnight_le)
  with midnight_bracket [of t] show ?thesis unfolding n_def by linarith
qed

interpretation weekly: period_grid "''weekly''" "\<lambda>t. local_days time_UTC t div 7" "\<lambda>i. midnight (i * 7)"
proof unfold_locales
  fix t
  obtain y m d where d: "time_Date time_UTC t = (y, m, d)" by (metis prod_cases3)
  let ?n = "local_days time_UTC t"
  have "retentionPeriodStart t ''weekly'' time_UTC = midnight (?n + - (?n mod 7))"
    using d by (simp add: retentionPeriodStart_def go_Date_midnight time_Date_days weekday_midnight
        time_AddDate_midnight_days del: add_uminus_conv_diff)
  also have "?n + - (?n mod 7) = ?n div 7 * 7" using div_mult_mod_eq [of ?n 7] by linarith
  finally show "retentionPeriodStart t ''weekly'' time_UTC = midnight (?n div 7 * 7)" .
  show "midnight (?n div 7 * 7) \<le> t \<and> t < midnight ((?n div 7 + 1) * 7)" by (rule week_bracket)
qed (simp_all add: retentionPeriodAdd_def time_AddDate_midnight_days distrib_right)

text \<open>Months are counted from January of year 0, years from year 0.\<close>

definition month_index :: "gtime \<Rightarrow> int" where
  "month_index t = 12 * time_Year time_UTC t + time_Month time_UTC t"

lemma civil_first_of_month:
  assumes "civil_of_days (date_days 0 i 1) = (y, m, d)"
  shows "d = 1" and "12 * y + m = i"
proof -
  define y' m' where "y' = (i - 1) div 12" and "m' = (i - 1) mod 12 + 1"
  have i: "i = 12 * y' + m'" using div_mult_mod_eq [of "i - 1" 12] by (simp add: y'_def m'_def)
  have "1 \<le> m'" "m' \<le> 12" by (simp_all add: m'_def)
  then have "valid_date y' m' 1" using month_len_bounds(1) [of y' m'] by (simp add: valid_date_def)
  then have "civil_of_days (date_days 0 i 1) = (y', m', 1)"
    unfolding i using civil_of_date_days by (simp add: date_days_norm [of y', symmetric])
  with assms i show "d = 1" "12 * y + m = i" by auto
qed

lemma add_months_midnight:
  "time_AddDate time_UTC (midnight (date_days 0 i 1)) 0 n 0 = midnight (date_days 0 (i + n) 1)"
  "time_AddDate time_UTC (midnight (date_days 0 i 1)) n 0 0 = midnight (date_days 0 (i + 12 * n) 1)"
proof -
  obtain y m d where c: "civil_of_days (date_days 0 i 1) = (y, m, d)" by (metis prod_cases3)
  note f = civil_first_of_month [OF c]
  show "time_AddDate time_UTC (midnight (date_days 0 i 1)) 0 n 0 = midnight (date_days 0 (i + n) 1)"
    using time_AddDate_midnight [OF c, of 0 n 0] f by (simp add: date_days_norm [of y] add.assoc [symmetric])
  show "time_AddDate time_UTC (midnight (date_days 0 i 1)) n 0 0 = midnight (date_days 0 (i + 12 * n) 1)"
    using time_AddDate_midnight [OF c, of n 0 0] date_days_norm [of "y + n" m 1]
    by (simp add: f(1) flip: f(2)) (simp add: algebra_simps)
qed

interpretation monthly: period_grid "''monthly''" month_index "\<lambda>i. midnight (date_days 0 i 1)"
proof unfold_locales
  fix t
  obtain y m d where d: "time_Date time_UTC t = (y, m, d)" by (metis prod_cases3)
  then have i: "month_index t = 12 * y + m"
    by (simp add: month_index_def time_Year_def time_Month_def)
  show "retentionPeriodStart t ''monthly'' time_UTC = midnight (date_days 0 (month_index t) 1)"
    using d i by (simp add: period_start_midnight date_days_norm [of y])
  let ?n = "local_days time_UTC t"
  from d have "civil_of_days ?n = (y, m, d)" by (simp add: time_Date_def)
  from month_bracket [OF this] have "midnight (date_days 0 (12 * y + m) 1) \<le> midnight ?n"
      "midnight (?n + 1) \<le> midnight (date_days 0 (12 * y + m + 1) 1)" by simp_all
  with midnight_bracket [of t]
  show "midnight (date_days 0 (month_index t) 1) \<le> t \<and> t < midnight (date_days 0 (month_index t + 1) 1)"
    unfolding i by linarith
qed (simp_all add: retentionPeriodAdd_def add_months_midnight month_start_less)

interpretation yearly: period_grid "''yearly''" "time_Year time_UTC" "\<lambda>i. midnight (date_days 0 (12 * i + 1) 1)"
proof unfold_locales
  fix t
  obtain y m d where d: "time_Date time_UTC t = (y, m, d)" by (metis prod_cases3)
  then have i: "time_Year time_UTC t = y" by (simp add: time_Year_def)
  show "retentionPeriodStart t ''yearly'' time_UTC = midnight (date_days 0 (12 * time_Year time_UTC t + 1) 1)"
    using d i by (simp add: period_start_midnight date_days_norm [of y])
  from d have "month_index t = 12 * y + m" "1 \<le> m" "m \<le> 12"
    using civil_of_days_valid(1) [of "local_days time_UTC t" y m d]
    by (auto simp: month_index_def time_Year_def time_Month_def time_Date_def valid_date_def)
  then have "midnight (date_days 0 (12 * y + 1) 1) \<le> midnight (date_days 0 (month_index t) 1)"
      "midnight (date_days 0 (month_index t + 1) 1) \<le> midnight (date_days 0 (12 * (y + 1) + 1) 1)"
    by (simp_all only: monthly.start_le_iff) simp_all
  with monthly.bracket [of t]
  show "midnight (date_days 0 (12 * time_Year time_UTC t + 1) 1) \<le> t \<and>
      t < midnight (date_days 0 (12 * (time_Year time_UTC t + 1) + 1) 1)"
    unfolding i by linarith
qed (simp_all add: retentionPeriodAdd_def add_months_midnight month_start_less algebra_simps)

lemma valid_period_cases:
  assumes "ValidateRetentionRules LoadLocation rules zone = Inr ()" and "rule \<in> set rules"
  shows "rr_Period rule \<in> {''daily'', ''weekly'', ''monthly'', ''yearly''}" and "1 \<le> rr_Keep rule"
  using assms by (auto simp: ValidateRetentionRules_def validate_rules_ok split: if_splits)

lemma rule_bounds:
  assumes "ValidateRetentionRules LoadLocation rules zone = Inr ()" and "rule \<in> set rules"
  shows "inj_on order_key (set points) \<Longrightarrow>
      int (card {p \<in> set points. selects time_UTC now points rule p}) \<le> rr_Keep rule"
    and "selects time_UTC now points rule p \<Longrightarrow> now < rs_Until (reason_of time_UTC rule p)"
  using valid_period_cases [OF assms]
    daily.selects_at_most_keep weekly.selects_at_most_keep monthly.selects_at_most_keep
    yearly.selects_at_most_keep daily.until_after_now weekly.until_after_now monthly.until_after_now
    yearly.until_after_now
  by (auto simp: selects_def)

lemma rule_of_reason:
  assumes "ValidateRetentionRules LoadLocation rules zone = Inr ()" and "rule \<in> set rules"
    and "reason_of time_UTC rule' p = reason_of time_UTC rule p"
  shows "rule' = rule"
  using valid_period_cases(1) [OF assms(1,2)] daily.same_reason [OF _ assms(3)] weekly.same_reason [OF _ assms(3)]
    monthly.same_reason [OF _ assms(3)] yearly.same_reason [OF _ assms(3)] by blast

lemma sort_key_map:
  assumes "\<And>x. key (g x) = key x"
  shows "sort_key key (map g xs) = map g (sort_key key xs)"
proof -
  have "insort_key key (g x) (map g ys) = map g (insort_key key x ys)" for x ys
    by (induction ys) (simp_all add: assms)
  then show ?thesis by (induction xs) simp_all
qed

text \<open>Points of a set of identifiers marked as deleted, as a finished deletion does.\<close>

definition mark_deleted :: "string set \<Rightarrow> RestorePoint \<Rightarrow> RestorePoint" where
  "mark_deleted ids p = (if rp_ID p \<in> ids then p\<lparr>rp_Status := ''deleted''\<rparr> else p)"

lemma mark_deleted_fields [simp]:
  "rp_ID (mark_deleted ids p) = rp_ID p"
  "restorePointOrderTime (mark_deleted ids p) = restorePointOrderTime p"
  by (simp_all add: mark_deleted_def restorePointOrderTime_def)

lemma countable_mark_deleted:
  "(rp_ID p \<in> ids \<Longrightarrow> rp_Status p \<in> {''available'', ''deleted''}) \<Longrightarrow>
     countable_point loc now rule (mark_deleted ids p) = countable_point loc now rule p"
  by (auto simp: countable_point_def mark_deleted_def restorePointOrderTime_def)

lemma pcount_mark_deleted:
  assumes "\<And>p. p \<in> set ps \<Longrightarrow> rp_ID p \<in> ids \<Longrightarrow> rp_Status p \<in> {''available'', ''deleted''}"
  shows "pcount loc now rule (map (mark_deleted ids) ps) = pcount loc now rule ps"
  using assms by (induction ps) (auto simp: pcount_def fun_eq_iff countable_mark_deleted)

lemma pass_sel_mark_deleted:
  assumes "\<And>p. p \<in> set (pre @ ps) \<Longrightarrow> rp_ID p \<in> ids \<Longrightarrow> rp_Status p \<in> {''available'', ''deleted''}"
  shows "pass_sel loc now rule (map (mark_deleted ids) pre) (map (mark_deleted ids) ps) i =
    (if i \<in> ids then [] else pass_sel loc now rule pre ps i)"
  using assms
proof (induction ps arbitrary: pre)
  case (Cons p ps)
  have "pcount loc now rule (map (mark_deleted ids) (pre @ [p])) = pcount loc now rule (pre @ [p])"
    by (rule pcount_mark_deleted) (use Cons.prems in auto)
  moreover have "countable_point loc now rule (mark_deleted ids p) = countable_point loc now rule p"
    by (rule countable_mark_deleted) (use Cons.prems in auto)
  moreover have "rp_ID p \<in> ids \<Longrightarrow> rp_Status (mark_deleted ids p) = ''deleted''"
      "rp_ID p \<notin> ids \<Longrightarrow> mark_deleted ids p = p" by (simp_all add: mark_deleted_def)
  ultimately show ?case
    using Cons.IH [of "pre @ [p]"] Cons.prems
    by (cases "rp_ID p \<in> ids") (auto simp: reason_of_def)
qed simp

section \<open>Properties\<close>

text \<open>C3: What the loops of \<^verbatim>\<open>RetentionSelections\<close> compute: a point is kept for a reason exactly when some
  rule selects it, that is, when the point is available, not in the future, in one of the rule's last
  \<open>Keep\<close> periods, and the \<open>Ordinal\<close>-th of its period among all available and deleted points, ordered by
  time and identifier; the reason names the rule and runs \<open>Keep\<close> periods from the period's start.\<close>

theorem retention_selection_spec:
  assumes "RetentionSelections LoadLocation points rules zone now = Inr sel"
    and "LoadLocation zone = Some loc" and "distinct (map rp_ID points)"
  shows "r \<in> set (sel i) \<longleftrightarrow> (\<exists>rule \<in> set rules. \<exists>p \<in> set points.
    rp_ID p = i \<and> selects loc now points rule p \<and> r = reason_of loc rule p)"
  using assms by (rule selection_iff)

lemma held_reason:
  assumes "RetentionSelections LoadLocation points rules zone now = Inr sel"
    and "LoadLocation zone = Some loc" and "distinct (map rp_ID points)"
    and "p \<in> set points" "r \<in> set (sel (rp_ID p))"
  shows "\<exists>rule \<in> set rules. selects loc now points rule p \<and> r = reason_of loc rule p"
  using assms(4,5) assms(3) unfolding selection_iff [OF assms(1-3)] by (auto simp: distinct_map dest: inj_onD)

lemma reason_holders:
  assumes "RetentionSelections LoadLocation points rules zone now = Inr sel"
    and "LoadLocation zone = Some time_UTC" and "distinct (map rp_ID points)" and "rule \<in> set rules"
  shows "{p \<in> set points. reason_of time_UTC rule p \<in> set (sel (rp_ID p))} = {p \<in> set points. selects time_UTC now points rule p}"
proof (intro Collect_cong conj_cong refl iffI)
  from assms(1) have v: "ValidateRetentionRules LoadLocation rules zone = Inr ()" by (auto simp: RetentionSelections_Inr)
  fix p assume p: "p \<in> set points"
  show "selects time_UTC now points rule p" if "reason_of time_UTC rule p \<in> set (sel (rp_ID p))"
    using held_reason [OF assms(1-3) p that] rule_of_reason [OF v assms(4), of _ p] by metis
  show "reason_of time_UTC rule p \<in> set (sel (rp_ID p))" if "selects time_UTC now points rule p"
    using p that assms(4) unfolding selection_iff [OF assms(1-3)] by blast
qed

text \<open>C30: Rules keep to their numbers. In UTC, the points that hold the reason of a rule are at most its \<open>Keep\<close>, the points
  held back in all are at most the sum of these numbers, and every reason is still running: it ends after
  the current time.\<close>

theorem retention_selection_bound:
  assumes "RetentionSelections LoadLocation points rules zone now = Inr sel"
    and "LoadLocation zone = Some time_UTC" and "distinct (map rp_ID points)"
  shows "(\<forall>rule \<in> set rules. int (card {p \<in> set points. reason_of time_UTC rule p \<in> set (sel (rp_ID p))}) \<le> rr_Keep rule) \<and>
    int (card {p \<in> set points. sel (rp_ID p) \<noteq> []}) \<le> (\<Sum>rule \<leftarrow> rules. rr_Keep rule) \<and>
    (\<forall>i. \<forall>r \<in> set (sel i). now < rs_Until r)"
proof (intro conjI)
  let ?S = "\<lambda>rule. {p \<in> set points. reason_of time_UTC rule p \<in> set (sel (rp_ID p))}"
  from assms(1) have v: "ValidateRetentionRules LoadLocation rules zone = Inr ()"
    by (auto simp: RetentionSelections_Inr)
  have S: "int (card (?S rule)) \<le> rr_Keep rule" if "rule \<in> set rules" for rule
    unfolding reason_holders [OF assms that] by (rule rule_bounds(1) [OF v that order_key_inj [OF assms(3)]])
  then show "\<forall>rule \<in> set rules. int (card (?S rule)) \<le> rr_Keep rule" by blast
  have "p \<in> \<Union> (?S ` set rules)" if p: "p \<in> set points" "sel (rp_ID p) \<noteq> []" for p
  proof -
    have hd: "hd (sel (rp_ID p)) \<in> set (sel (rp_ID p))" using p(2) by simp
    from held_reason [OF assms p(1) hd] hd p(1) show ?thesis by force
  qed
  then have "card {p \<in> set points. sel (rp_ID p) \<noteq> []} \<le> card (\<Union> (?S ` set rules))"
    by (intro card_mono) auto
  also have "\<dots> \<le> (\<Sum>rule \<in> set rules. card (?S rule))" by (rule card_UN_le) simp
  finally have "int (card {p \<in> set points. sel (rp_ID p) \<noteq> []}) \<le> (\<Sum>rule \<in> set rules. int (card (?S rule)))"
    by (simp flip: of_nat_sum)
  also have "\<dots> \<le> (\<Sum>rule \<in> set rules. rr_Keep rule)" using S by (rule sum_mono)
  also have "\<dots> = (\<Sum>rule \<leftarrow> rules. rr_Keep rule)"
    using v by (auto simp: ValidateRetentionRules_def validate_rules_ok sum_list_distinct_conv_sum_set
        split: if_splits)
  finally show "int (card {p \<in> set points. sel (rp_ID p) \<noteq> []}) \<le> (\<Sum>rule \<leftarrow> rules. rr_Keep rule)" .
  show "\<forall>i. \<forall>r \<in> set (sel i). now < rs_Until r"
    using rule_bounds(2) [OF v] by (auto simp: selection_iff [OF assms])
qed

text \<open>C29: Deleted points keep their rank: when a set of finished points is deleted, the deleted points
  lose their reasons and every other point keeps exactly the reasons it had, so a deletion never makes
  the rules reach for a younger point.\<close>

theorem retention_deletion_stable:
  assumes "\<And>p. p \<in> set points \<Longrightarrow> rp_ID p \<in> ids \<Longrightarrow> rp_Status p \<in> {''available'', ''deleted''}"
  shows "RetentionSelections LoadLocation (map (mark_deleted ids) points) rules zone now =
    map_sum id (\<lambda>sel i. if i \<in> ids then [] else sel i)
      (RetentionSelections LoadLocation points rules zone now)"
proof -
  have sort: "sort_key order_key (map (mark_deleted ids) points) =
      map (mark_deleted ids) (sort_key order_key points)"
    by (rule sort_key_map) (simp add: order_key_def)
  have "pass_sel loc now rule [] (map (mark_deleted ids) (sort_key order_key points)) i =
      (if i \<in> ids then [] else pass_sel loc now rule [] (sort_key order_key points) i)" for loc rule i
    using pass_sel_mark_deleted [of "[]" "sort_key order_key points" ids loc now rule i] assms by simp
  then show ?thesis
    by (auto simp: RetentionSelections_def sort retention_passes_eq Let_def fun_eq_iff split: sum.splits)
qed

text \<open>Five points of February 2026 and a policy that keeps the second point of each of three months and
  the second of each of four days.\<close>

definition sample_point :: "string \<Rightarrow> int \<Rightarrow> int \<Rightarrow> string \<Rightarrow> RestorePoint" where
  "sample_point i day hour status =
     \<lparr>rp_ID = i, rp_TenantID = DefaultTenantID, rp_ProtectionPlanID = ''plan'', rp_SourceClusterID = ''c1'',
       rp_AppID = '''', rp_StorageRepoID = '''', rp_DisplayName = '''', rp_VeleroBackupName = ''velero-'' @ i,
       rp_PointType = ''backup'', rp_Status = status, rp_SizeBytes = 0, rp_StartedAt = 0, rp_CompletedAt = 0,
       rp_ExpiresAt = 0, rp_SourceNamespace = '''', rp_LabelSelector = '''', rp_BackupTaskID = ''t-'' @ i,
       rp_BackupStorageName = '''', rp_TaskCreatedAt = go_Date 2026 2 day hour 0 0 0 time_UTC,
       rp_Metadata = [], rp_SizeMetricsV2 = [], rp_CreatedAt = go_Date 2026 2 day hour 30 0 0 time_UTC\<rparr>"

definition sample_points :: "RestorePoint list" where
  "sample_points = [sample_point ''a'' 1 6 ''deleted'', sample_point ''b'' 1 12 ''available'',
     sample_point ''c'' 2 6 ''available'', sample_point ''d'' 2 12 ''available'',
     sample_point ''e'' 3 6 ''creating'']"

definition sample_rules :: "RetentionRule list" where
  "sample_rules = [\<lparr>rr_Period = ''monthly'', rr_Ordinal = 2, rr_Keep = 3\<rparr>,
     \<lparr>rr_Period = ''daily'', rr_Ordinal = 2, rr_Keep = 4\<rparr>]"

definition utc_only :: "string \<Rightarrow> location option" where
  "utc_only zone = (if zone = ''UTC'' then Some time_UTC else None)"

definition sample_now :: gtime where
  "sample_now = go_Date 2026 2 3 18 0 0 0 time_UTC"

definition sample_sel :: selections where
  "sample_sel = foldl (retention_pass time_UTC sample_now (sort_key order_key sample_points)) (\<lambda>_. []) sample_rules"

lemma sample_run: "RetentionSelections utc_only sample_points sample_rules ''UTC'' sample_now = Inr sample_sel"
  by (simp add: RetentionSelections_Inr ValidateRetentionRules_def utc_only_def sample_sel_def)
    (simp add: sample_rules_def)

lemma sample_lengths:
  "map (\<lambda>i. length (sample_sel i)) [''a'', ''b'', ''c'', ''d'', ''e''] = [0, 2, 0, 1, 0]"
  by code_simp

lemma sample_distinct: "distinct (map rp_ID sample_points)"
  by code_simp

theorem retention_selection_spec_witness:
  "\<exists>r. r \<in> set (sample_sel ''d'') \<and> (\<exists>rule \<in> set sample_rules. \<exists>p \<in> set sample_points.
    rp_ID p = ''d'' \<and> selects time_UTC sample_now sample_points rule p \<and> r = reason_of time_UTC rule p)"
proof -
  have "sample_sel ''d'' \<noteq> []" using sample_lengths by auto
  then obtain r where "r \<in> set (sample_sel ''d'')" using hd_in_set by blast
  with retention_selection_spec [OF sample_run _ sample_distinct, of time_UTC r "''d''"] show ?thesis
    by (auto simp: utc_only_def)
qed

theorem retention_selection_bound_witness:
  "list_all (\<lambda>rule. int (card {p \<in> set sample_points. reason_of time_UTC rule p \<in> set (sample_sel (rp_ID p))}) \<le> rr_Keep rule) sample_rules \<and>
   int (card {p \<in> set sample_points. sample_sel (rp_ID p) \<noteq> []}) \<le> 7 \<and>
   sample_sel ''b'' \<noteq> [] \<and> sample_now < rs_Until (hd (sample_sel ''b''))"
proof -
  have utc: "utc_only ''UTC'' = Some time_UTC" and sum: "(\<Sum>rule \<leftarrow> sample_rules. rr_Keep rule) = 7"
    by (simp_all add: utc_only_def sample_rules_def)
  note bound = retention_selection_bound [OF sample_run utc sample_distinct]
  have b: "sample_sel ''b'' \<noteq> []" using sample_lengths by auto
  then have "sample_now < rs_Until (hd (sample_sel ''b''))" using bound hd_in_set [OF b] by blast
  then show ?thesis using bound b unfolding sum list_all_iff by (intro conjI) simp_all
qed

theorem retention_deletion_stable_witness:
  "RetentionSelections utc_only (map (mark_deleted {''b''}) sample_points) sample_rules ''UTC'' sample_now =
     Inr (\<lambda>i. if i = ''b'' then [] else sample_sel i)"
proof -
  have "rp_Status p \<in> {''available'', ''deleted''}" if "p \<in> set sample_points" "rp_ID p \<in> {''b''}" for p
    using that by (auto simp: sample_points_def sample_point_def)
  from retention_deletion_stable [of sample_points "{''b''}", OF this, where LoadLocation = utc_only and rules = sample_rules and zone = "''UTC''" and now = sample_now]
  show ?thesis by (simp add: sample_run)
qed

end
