(* ===== verification/Go_RFC3339.thy ===== *)
theory Go_RFC3339
  imports Go_Json
begin

text \<open>
  \<^verbatim>\<open>time.RFC3339Nano\<close> in UTC: the text form in which task activity is stored in a payload and read back
  (\<^verbatim>\<open>lastStatusAt\<close>, \<^verbatim>\<open>restorePointTaskCreatedAt\<close>), and the JSON form of a \<^verbatim>\<open>time.Time\<close>. The fraction has no
  trailing zeros and is absent on a whole second. The parser reads that form and the one with a numeric zone
  offset; a time is the instant, its zone is not kept.
\<close>

definition digit :: "int \<Rightarrow> char" where
  "digit n = char_of (48 + nat n)"

fun pad :: "nat \<Rightarrow> int \<Rightarrow> string" where
  "pad 0 n = []"
| "pad (Suc k) n = pad k (n div 10) @ [digit (n mod 10)]"

definition trim_zeros :: "string \<Rightarrow> string" where
  "trim_zeros s = rev (dropWhile (\<lambda>c. c = CHR ''0'') (rev s))"

definition format_fraction :: "int \<Rightarrow> string" where
  "format_fraction ns = (if ns = 0 then '''' else CHR ''.'' # trim_zeros (pad 9 ns))"

definition format_rfc3339nano :: "gtime \<Rightarrow> string" where
  "format_rfc3339nano t =
     (let (y, m, d) = time_Date time_UTC t in
      pad 4 y @ ''-'' @ pad 2 m @ ''-'' @ pad 2 d @ ''T'' @ pad 2 (time_Hour time_UTC t) @ '':'' @
      pad 2 (time_Minute time_UTC t) @ '':'' @ pad 2 (time_Second time_UTC t) @
      format_fraction (t mod nsPerSec) @ ''Z'')"

definition is_digit :: "char \<Rightarrow> bool" where
  "is_digit c \<longleftrightarrow> (of_char c :: nat) \<in> {48..57}"

definition digit_val :: "char \<Rightarrow> int" where
  "digit_val c = int (of_char c) - 48"

definition read_digits :: "string \<Rightarrow> int option" where
  "read_digits s = (if list_all is_digit s then Some (foldl (\<lambda>n c. n * 10 + digit_val c) 0 s) else None)"

text \<open>The fraction and the zone: nothing or a dot and one to nine digits, then \<^verbatim>\<open>Z\<close>.\<close>

definition parse_fraction :: "string \<Rightarrow> int option" where
  "parse_fraction s =
     (if s = ''Z'' then Some 0
      else if s \<noteq> [] \<and> hd s = CHR ''.'' \<and> last s = CHR ''Z'' then
        (let f = butlast (tl s) in
         if f = [] \<or> length f > 9 then None else read_digits (f @ replicate (9 - length f) CHR ''0''))
      else None)"

definition parse_utc :: "string \<Rightarrow> gtime option" where
  "parse_utc s =
     (if length s < 20 \<or> s ! 4 \<noteq> CHR ''-'' \<or> s ! 7 \<noteq> CHR ''-'' \<or> s ! 10 \<noteq> CHR ''T'' \<or>
         s ! 13 \<noteq> CHR '':'' \<or> s ! 16 \<noteq> CHR '':'' then None
      else (case (read_digits (take 4 s), read_digits (take 2 (drop 5 s)), read_digits (take 2 (drop 8 s)),
                  read_digits (take 2 (drop 11 s)), read_digits (take 2 (drop 14 s)),
                  read_digits (take 2 (drop 17 s)), parse_fraction (drop 19 s)) of
        (Some y, Some m, Some d, Some h, Some mi, Some sec, Some ns) \<Rightarrow>
          if valid_date y m d \<and> h \<le> 23 \<and> mi \<le> 59 \<and> sec \<le> 59
          then Some (go_Date y m d h mi sec ns time_UTC) else None
      | _ \<Rightarrow> None))"

text \<open>A zone offset \<^verbatim>\<open>+hh:mm\<close> or \<^verbatim>\<open>-hh:mm\<close> in place of \<^verbatim>\<open>Z\<close>, in nanoseconds.\<close>

definition parse_offset :: "string \<Rightarrow> int option" where
  "parse_offset z =
     (if length z \<noteq> 6 \<or> z ! 3 \<noteq> CHR '':'' \<or> z ! 0 \<notin> {CHR ''+'', CHR ''-''} then None
      else (case (read_digits (take 2 (drop 1 z)), read_digits (drop 4 z)) of
          (Some h, Some m) \<Rightarrow> if h \<le> 23 \<and> m \<le> 59
            then Some ((if z ! 0 = CHR ''-'' then - 1 else 1) * (h * 3600 + m * 60) * nsPerSec) else None
        | _ \<Rightarrow> None))"

definition parse_rfc3339nano :: "string \<Rightarrow> gtime option" where
  "parse_rfc3339nano s =
     (if s \<noteq> [] \<and> last s = CHR ''Z'' then parse_utc s
      else (let n = length s - 6 in
        case (parse_offset (drop n s), parse_utc (take n s @ ''Z'')) of
          (Some offset, Some t) \<Rightarrow> Some (t - offset) | _ \<Rightarrow> None))"

section \<open>Round trip\<close>

lemma digit_val_digit: "0 \<le> n \<Longrightarrow> n < 10 \<Longrightarrow> digit_val (digit n) = n"
  by (simp add: digit_val_def digit_def)

lemma is_digit_digit: "0 \<le> n \<Longrightarrow> n < 10 \<Longrightarrow> is_digit (digit n)"
  by (simp add: is_digit_def digit_def)

lemma length_pad [simp]: "length (pad k n) = k"
  by (induction k arbitrary: n) simp_all

lemma pad_digits: "list_all is_digit (pad k n)"
  by (induction k arbitrary: n) (simp_all add: is_digit_digit)

lemma read_pad_fold:
  "0 \<le> n \<Longrightarrow> n < 10 ^ k \<Longrightarrow> foldl (\<lambda>n c. n * 10 + digit_val c) 0 (pad k n) = n"
proof (induction k arbitrary: n)
  case (Suc k)
  have "n div 10 < 10 ^ k" using Suc.prems by (simp add: div_less_iff_less_mult)
  with Suc have "foldl (\<lambda>n c. n * 10 + digit_val c) 0 (pad k (n div 10)) = n div 10" by simp
  then show ?case by (simp add: digit_val_digit)
qed simp

lemma read_pad: "0 \<le> n \<Longrightarrow> n < 10 ^ k \<Longrightarrow> read_digits (pad k n) = Some n"
  by (simp add: read_digits_def pad_digits read_pad_fold)

lemma trim_zeros_pad: "trim_zeros s @ replicate (length s - length (trim_zeros s)) CHR ''0'' = s"
proof -
  let ?z = "takeWhile (\<lambda>c. c = CHR ''0'') (rev s)"
  have s: "trim_zeros s @ rev ?z = s"
    unfolding trim_zeros_def rev_append [symmetric] takeWhile_dropWhile_id by simp
  have "\<forall>c \<in> set ?z. c = CHR ''0''" by (auto dest: set_takeWhileD)
  then have "?z = replicate (length ?z) CHR ''0''" by (simp add: replicate_length_same)
  then have "rev ?z = replicate (length ?z) CHR ''0''" by (metis rev_replicate)
  moreover have "length ?z = length s - length (trim_zeros s)"
    using arg_cong [OF s, of length] by simp
  ultimately show ?thesis using s by simp
qed

lemma trim_zeros_nonempty: "0 < n \<Longrightarrow> n < 10 ^ k \<Longrightarrow> trim_zeros (pad k n) \<noteq> []"
proof
  assume n: "0 < n" "n < 10 ^ k" and e: "trim_zeros (pad k n) = []"
  from trim_zeros_pad [of "pad k n"] e have "pad k n = replicate k CHR ''0''" by simp
  moreover have "foldl (\<lambda>n c. n * 10 + digit_val c) 0 (replicate k CHR ''0'') = 0"
    by (induction k) (simp_all add: digit_val_def)
  ultimately show False using read_pad_fold [of n k] n by simp
qed

lemma parse_format_fraction:
  assumes "0 \<le> ns" "ns < nsPerSec"
  shows "parse_fraction (format_fraction ns @ ''Z'') = Some ns"
proof (cases "ns = 0")
  case False
  let ?f = "trim_zeros (pad 9 ns)"
  have ns: "0 < ns" "ns < 10 ^ 9" using assms False by simp_all
  have "length ?f \<le> 9" using arg_cong [OF trim_zeros_pad [of "pad 9 ns"], of length] by simp
  moreover have "?f @ replicate (9 - length ?f) CHR ''0'' = pad 9 ns" using trim_zeros_pad [of "pad 9 ns"] by simp
  ultimately show ?thesis
    using False trim_zeros_nonempty [OF ns] read_pad [of ns 9] assms
    by (simp add: format_fraction_def parse_fraction_def butlast_append)
qed (simp add: format_fraction_def parse_fraction_def)

lemma local_clock:
  "time_Hour time_UTC t * 3600 + time_Minute time_UTC t * 60 + time_Second time_UTC t =
     t div nsPerSec mod 86400"
  "0 \<le> time_Hour time_UTC t" "time_Hour time_UTC t \<le> 23" "0 \<le> time_Minute time_UTC t"
  "time_Minute time_UTC t \<le> 59" "0 \<le> time_Second time_UTC t" "time_Second time_UTC t \<le> 59"
proof -
  define s where "s = t div nsPerSec"
  have m: "s mod 86400 mod 3600 = s mod 3600" "s mod 3600 mod 60 = s mod 60" by (simp_all add: mod_mod_cancel)
  have b: "0 \<le> s mod 86400" "s mod 86400 < 86400" "0 \<le> s mod 3600" "s mod 3600 < 3600" "0 \<le> s mod 60" "s mod 60 < 60"
    by simp_all
  note e = div_mult_mod_eq [of "s mod 86400" 3600] div_mult_mod_eq [of "s mod 3600" 60]
  have d: "time_Hour time_UTC t = s mod 86400 div 3600" "time_Minute time_UTC t = s mod 3600 div 60"
      "time_Second time_UTC t = s mod 60"
    by (simp_all add: time_Hour_def time_Minute_def time_Second_def s_def)
  show "time_Hour time_UTC t * 3600 + time_Minute time_UTC t * 60 + time_Second time_UTC t = t div nsPerSec mod 86400"
    unfolding d s_def [symmetric] using e m by linarith
  show "0 \<le> time_Hour time_UTC t" "time_Hour time_UTC t \<le> 23" "0 \<le> time_Minute time_UTC t"
    "time_Minute time_UTC t \<le> 59" "0 \<le> time_Second time_UTC t" "time_Second time_UTC t \<le> 59"
    unfolding d using e m b by linarith+
qed

lemma year_four_digits:
  assumes "0 \<le> t" "t < midnight (date_days 10000 1 1)" and "time_Date time_UTC t = (y, m, d)"
  shows "1 \<le> y" "y \<le> 9999"
proof -
  let ?n = "local_days time_UTC t"
  have c: "civil_of_days ?n = (y, m, d)" using assms(3) by (simp add: time_Date_def)
  then have y: "y = year_of_days ?n" by (simp add: civil_of_days_def Let_def)
  have b: "days_before_year y \<le> ?n" "?n < days_before_year (y + 1)"
    using year_of_days_bounds [of ?n] y by auto
  note br = midnight_bracket [of t]
  have "midnight 0 \<le> t" using assms(1) by (simp add: midnight_def)
  with br have "midnight 0 < midnight (?n + 1)" by linarith
  moreover from br assms(2) have "midnight ?n < midnight (date_days 10000 1 1)" by linarith
  ultimately have n: "0 \<le> ?n" "?n < date_days 10000 1 1" by simp_all
  have e: "date_days 10000 1 1 = days_before_year 10000" by code_simp
  have z: "days_before_year 1 = 0" by code_simp
  show "1 \<le> y"
  proof (rule ccontr)
    assume "\<not> 1 \<le> y"
    then have "days_before_year (y + 1) \<le> days_before_year 1" by (intro days_before_year_mono) simp
    with b n z show False by simp
  qed
  show "y \<le> 9999"
  proof (rule ccontr)
    assume "\<not> y \<le> 9999"
    then have "days_before_year 10000 \<le> days_before_year y" by (intro days_before_year_mono) simp
    with b n e show False by simp
  qed
qed

text \<open>An instant is its date, its clock and its fraction.\<close>

lemma go_Date_time:
  assumes "time_Date time_UTC t = (y, m, d)"
  shows "go_Date y m d (time_Hour time_UTC t) (time_Minute time_UTC t) (time_Second time_UTC t)
    (t mod nsPerSec) time_UTC = t"
proof -
  define s where "s = t div nsPerSec"
  have days: "date_days y m d = s div 86400"
    using assms civil_of_days_valid(2) by (simp add: time_Date_def local_days_def s_def)
  have "date_days y m d * 86400 + time_Hour time_UTC t * 3600 + time_Minute time_UTC t * 60 + time_Second time_UTC t
      = s div 86400 * 86400 + s mod 86400"
    using local_clock(1) [of t] unfolding days s_def by linarith
  also have "\<dots> = s" by (rule div_mult_mod_eq)
  finally have "go_Date y m d (time_Hour time_UTC t) (time_Minute time_UTC t) (time_Second time_UTC t)
    (t mod nsPerSec) time_UTC = s * nsPerSec + t mod nsPerSec" by (simp add: go_Date_UTC)
  also have "\<dots> = t" unfolding s_def by (rule div_mult_mod_eq)
  finally show ?thesis .
qed

lemma format_length:
  "length (pad 4 y @ ''-'' @ pad 2 m @ ''-'' @ pad 2 d @ ''T'' @ pad 2 h @ '':'' @ pad 2 mi @ '':'' @ pad 2 sec) = 19"
  by simp

lemma parse_parts:
  assumes "0 \<le> y" "y \<le> 9999" "valid_date y m d" "0 \<le> h" "h \<le> 23" "0 \<le> mi" "mi \<le> 59" "0 \<le> sec" "sec \<le> 59"
    and "parse_fraction f = Some ns" and "f \<noteq> []"
  shows "parse_utc (pad 4 y @ ''-'' @ pad 2 m @ ''-'' @ pad 2 d @ ''T'' @ pad 2 h @ '':'' @
      pad 2 mi @ '':'' @ pad 2 sec @ f) = Some (go_Date y m d h mi sec ns time_UTC)"
proof -
  let ?s = "pad 4 y @ ''-'' @ pad 2 m @ ''-'' @ pad 2 d @ ''T'' @ pad 2 h @ '':'' @ pad 2 mi @ '':'' @ pad 2 sec @ f"
  have md: "0 \<le> m" "m < 10 ^ 2" "0 \<le> d" "d < 10 ^ 2"
    using assms(3) month_len_bounds(2) [of y m] by (auto simp: valid_date_def)
  have reads: "read_digits (pad 4 y) = Some y" "read_digits (pad 2 m) = Some m" "read_digits (pad 2 d) = Some d"
      "read_digits (pad 2 h) = Some h" "read_digits (pad 2 mi) = Some mi" "read_digits (pad 2 sec) = Some sec"
    using assms md by (auto intro!: read_pad)
  have cuts: "take 4 ?s = pad 4 y" "take 2 (drop 5 ?s) = pad 2 m" "take 2 (drop 8 ?s) = pad 2 d"
      "take 2 (drop 11 ?s) = pad 2 h" "take 2 (drop 14 ?s) = pad 2 mi" "take 2 (drop 17 ?s) = pad 2 sec"
      "drop 19 ?s = f"
    by (simp_all add: numeral_eq_Suc)
  have seps: "?s ! 4 = CHR ''-''" "?s ! 7 = CHR ''-''" "?s ! 10 = CHR ''T''" "?s ! 13 = CHR '':''" "?s ! 16 = CHR '':''"
    by (simp_all add: nth_append)
  have "\<not> length ?s < 20" using assms(11) by (cases f) simp_all
  with seps cuts reads assms(3,5,7,9,10) show ?thesis
    unfolding parse_utc_def by simp
qed

text \<open>
  Timestamps survive storage, to the nanosecond, from year 1 to year 9999. The accepted backup results
  and the timeouts of recovery and maintenance tasks rest on this.
\<close>

lemma rfc3339_parse_format:
  assumes "0 \<le> t" and "t < midnight (date_days 10000 1 1)"
  shows "parse_rfc3339nano (format_rfc3339nano t) = Some t"
proof -

  obtain y m d where dt: "time_Date time_UTC t = (y, m, d)" by (metis prod_cases3)
  have v: "valid_date y m d" using dt civil_of_days_valid(1) by (simp add: time_Date_def)
  have y: "0 \<le> y" "y \<le> 9999" using year_four_digits [OF assms dt] by simp_all
  have f: "parse_fraction (format_fraction (t mod nsPerSec) @ ''Z'') = Some (t mod nsPerSec)"
    by (rule parse_format_fraction) simp_all
  have "format_fraction (t mod nsPerSec) @ ''Z'' \<noteq> []" by simp
  from parse_parts [OF y v local_clock(2-7) f this] have "parse_utc (format_rfc3339nano t) = Some t"
    by (simp add: format_rfc3339nano_def dt go_Date_time)
  moreover have "format_rfc3339nano t \<noteq> [] \<and> last (format_rfc3339nano t) = CHR ''Z''"
    by (simp add: format_rfc3339nano_def dt)
  ultimately show ?thesis by (simp add: parse_rfc3339nano_def)
qed

text \<open>The times whose year has four digits, which is what \<^verbatim>\<open>json.Marshal\<close> accepts.\<close>

definition storable_time :: "gtime \<Rightarrow> bool" where
  "storable_time t \<longleftrightarrow> 0 \<le> t \<and> t < midnight (date_days 10000 1 1)"

lemma storable_parse: "storable_time t \<Longrightarrow> parse_rfc3339nano (format_rfc3339nano t) = Some t"
  unfolding storable_time_def using rfc3339_parse_format by blast

lemma rfc3339_offset_example:
  "parse_rfc3339nano ''2026-02-03T04:05:06.5+08:00'' = parse_rfc3339nano ''2026-02-02T20:05:06.5Z''"
  by code_simp

lemma rfc3339_example:
  "format_rfc3339nano (go_Date 2026 2 3 4 5 6 70000 time_UTC) = ''2026-02-03T04:05:06.00007Z''"
  by code_simp

end
