(* ===== verification/Store_State.thy ===== *)
theory Store_State
  imports Retention Go_RFC3339
begin

text \<open>
  The database behind \<^verbatim>\<open>PostgresStore\<close>: one list of rows per table. A transaction is a function from
  the database to an error or a new database; \<open>run_tx\<close> commits or rolls back. The row lock that
  \<^verbatim>\<open>quotaPlanLock\<close> takes on the plan serialises the transactions of one plan, so transactions are
  atomic steps here. The clock is read once per transaction (\<open>now\<close>, in microseconds as the database
  stores it) and \<^verbatim>\<open>newID()\<close> is an argument.
\<close>

record owned_row =
  ow_ID :: string
  ow_TenantID :: string

record tenant_row =
  tn_ID :: string
  tn_Status :: string

record app_row = owned_row +
  ap_ClusterID :: string
  ap_Namespace :: string
  ap_ProtectionStatus :: string
  ap_UpdatedAt :: gtime

record repo_row = owned_row +
  sr_Name :: string

record Reservation =
  rv_TaskID :: string
  rv_PlanID :: string
  rv_ReplacementPointID :: string
  rv_State :: string
  rv_PendingPoint :: "RestorePointInput option"
  rv_CleanupTaskID :: string
  rv_CleanupAttempts :: int
  rv_CreatedAt :: gtime
  rv_UpdatedAt :: gtime

record store_db =
  db_tenants :: "tenant_row list"
  db_clusters :: "owned_row list"
  db_applications :: "app_row list"
  db_repositories :: "repo_row list"
  db_policies :: "Policy list"
  db_plans :: "ProtectionPlan list"
  db_schedules :: "ProtectionPlanSchedule list"
  db_tasks :: "Task list"
  db_task_events :: "TaskEvent list"
  db_points :: "RestorePoint list"
  db_reservations :: "Reservation list"

type_synonym 'a tx = "store_error + store_db \<times> 'a"

definition run_tx :: "store_db \<Rightarrow> 'a tx \<Rightarrow> store_db \<times> (store_error + 'a)" where
  "run_tx db r = (case r of Inl e \<Rightarrow> (db, Inl e) | Inr (db', a) \<Rightarrow> (db', Inr a))"

lemma run_tx_simps [simp]:
  "run_tx db (Inl e) = (db, Inl e)"
  "run_tx db (Inr (db', a)) = (db', Inr a)"
  by (simp_all add: run_tx_def)

text \<open>\<^verbatim>\<open>select ... where key = k\<close> on a key column: the row, or \<^verbatim>\<open>sql.ErrNoRows\<close>.\<close>

definition find_row :: "('r \<Rightarrow> string) \<Rightarrow> string \<Rightarrow> 'r list \<Rightarrow> 'r option" where
  "find_row key k rows = find (\<lambda>r. key r = k) rows"

definition query_row :: "('r \<Rightarrow> string) \<Rightarrow> string \<Rightarrow> 'r list \<Rightarrow> store_error + 'r" where
  "query_row key k rows = (case find_row key k rows of None \<Rightarrow> Inl ErrNoRows | Some r \<Rightarrow> Inr r)"

text \<open>Equality with a nullable identifier column: null equals nothing.\<close>

definition sql_eq :: "string \<Rightarrow> string \<Rightarrow> bool" where
  "sql_eq col v \<longleftrightarrow> col \<noteq> '''' \<and> col = v"

text \<open>
  What \<^verbatim>\<open>encoding/json\<close> makes of a value that is marshalled into a \<^verbatim>\<open>jsonb\<close> column and read back.
\<close>

fun json_value :: "any \<Rightarrow> any" where
  "json_value (ATime t) = AStr (format_rfc3339nano t)"
| "json_value (AStrs ss) = ASlice (map AStr ss)"
| "json_value (AStrMap m) = AMap (map (\<lambda>(k, s). (k, AStr s)) m)"
| "json_value (AIntMap m) = AMap (map (\<lambda>(k, n). (k, ANum n)) m)"
| "json_value (ASlice vs) = ASlice (map json_value vs)"
| "json_value (AMap m) = AMap (map (\<lambda>(k, v). (k, json_value v)) m)"
| "json_value v = v"

definition json_object :: "gomap \<Rightarrow> gomap" where
  "json_object m = map (\<lambda>(k, v). (k, json_value v)) m"

lemma mget_json_object: "mget (json_object m) k = json_value (mget m k)"
  by (induction m) (auto simp: json_object_def)

lemma map_of_json_object: "map_of (json_object m) k = map_option json_value (map_of m k)"
  by (induction m) (auto simp: json_object_def)

lemma json_object_Cons [simp]: "json_object ((k, v) # m) = (k, json_value v) # json_object m"
  by (simp add: json_object_def)

lemma json_object_Nil [simp]: "json_object [] = []"
  by (simp add: json_object_def)

abbreviation closed_statuses :: "string list" where
  "closed_statuses \<equiv> [''succeeded'', ''failed'', ''canceled'', ''cancelled'']"

abbreviation failed_statuses :: "string list" where
  "failed_statuses \<equiv> [''failed'', ''canceled'', ''cancelled'']"

abbreviation active_states :: "string list" where
  "active_states \<equiv> [''reserved'', ''data_ready'', ''deleting'']"

definition empty_point :: RestorePoint where
  "empty_point = \<lparr>rp_ID = '''', rp_TenantID = '''', rp_ProtectionPlanID = '''', rp_SourceClusterID = '''',
     rp_AppID = '''', rp_StorageRepoID = '''', rp_DisplayName = '''', rp_VeleroBackupName = '''',
     rp_PointType = '''', rp_Status = '''', rp_SizeBytes = 0, rp_StartedAt = 0, rp_CompletedAt = 0,
     rp_ExpiresAt = 0, rp_SourceNamespace = '''', rp_LabelSelector = '''', rp_BackupTaskID = '''',
     rp_BackupStorageName = '''', rp_TaskCreatedAt = 0, rp_Metadata = [], rp_SizeMetricsV2 = [],
     rp_CreatedAt = 0\<rparr>"

definition zero_policy :: Policy where
  "zero_policy = \<lparr>p_RetentionRules = [], p_RetentionTimezone = '''', p_ID = '''', p_TenantID = '''',
     p_Name = '''', p_Composition = '''', p_ScheduleType = '''', p_IntervalValue = 0, p_IntervalUnit = '''',
     p_Hour = 0, p_Minute = 0, p_WeekDay = 0, p_MonthDay = 0, p_RetentionCount = 0, p_RetentionDays = 0,
     p_Status = '''', p_BoundCount = 0, p_CreatedAt = 0, p_UpdatedAt = 0\<rparr>"

section \<open>Rows with a key\<close>

lemma find_row_SomeD: "find_row key k rows = Some r \<Longrightarrow> r \<in> set rows \<and> key r = k"
  by (auto simp: find_row_def find_Some_iff)

lemma find_row_None: "find_row key k rows = None \<longleftrightarrow> (\<forall>r \<in> set rows. key r \<noteq> k)"
  by (auto simp: find_row_def find_None_iff)

lemma find_row_unique:
  "distinct (map key rows) \<Longrightarrow> find_row key k rows = Some r \<longleftrightarrow> r \<in> set rows \<and> key r = k"
  by (induction rows) (auto simp: find_row_def)

lemma row_eq:
  "distinct (map key rows) \<Longrightarrow> r \<in> set rows \<Longrightarrow> s \<in> set rows \<Longrightarrow> key r = key s \<Longrightarrow> r = s"
  by (simp add: distinct_map inj_on_def)

lemma query_row_Inr [simp]: "query_row key k rows = Inr r \<longleftrightarrow> find_row key k rows = Some r"
  by (simp add: query_row_def split: option.splits)

lemma query_row_Inl: "query_row key k rows = Inl e \<longleftrightarrow> e = ErrNoRows \<and> find_row key k rows = None"
  by (auto simp: query_row_def split: option.splits)

text \<open>
  A table of the database: its rows, the update of them, and a key column. The clients below need
  that an update that leaves the key alone changes the row found under a key and nothing else.
\<close>

locale table =
  fixes key :: "'r \<Rightarrow> string" and rows :: "'d \<Rightarrow> 'r list" and upd :: "('r list \<Rightarrow> 'r list) \<Rightarrow> 'd \<Rightarrow> 'd"
  assumes rows_upd: "rows (upd f d) = f (rows d)"
begin

lemma keys_update_where:
  assumes "\<And>r. key (f r) = key r"
  shows "map key (rows (upd (update_where p f) d)) = map key (rows d)"
proof -
  have "map key (update_where p f xs) = map key xs" for xs
    by (induction xs) (auto simp: assms)
  then show ?thesis by (simp add: rows_upd)
qed

lemma find_update_where:
  assumes "\<And>r. key (f r) = key r"
  shows "find_row key k (rows (upd (update_where p f) d)) =
    map_option (\<lambda>r. if p r then f r else r) (find_row key k (rows d))"
proof -
  have "find_row key k (update_where p f xs) = map_option (\<lambda>r. if p r then f r else r) (find_row key k xs)" for xs
    by (induction xs) (auto simp: assms find_row_def)
  then show ?thesis by (simp add: rows_upd)
qed

lemma find_insert:
  "find_row key k (rows (upd (\<lambda>xs. xs @ [r]) d)) =
     (case find_row key k (rows d) of None \<Rightarrow> if key r = k then Some r else None | Some r' \<Rightarrow> Some r')"
proof -
  have "find_row key k (xs @ [r]) =
      (case find_row key k xs of None \<Rightarrow> if key r = k then Some r else None | Some r' \<Rightarrow> Some r')" for xs
    by (induction xs) (auto simp: find_row_def)
  then show ?thesis by (simp add: rows_upd)
qed

lemma distinct_insert:
  "distinct (map key (rows d)) \<Longrightarrow> find_row key (key r) (rows d) = None \<Longrightarrow>
     distinct (map key (rows (upd (\<lambda>xs. xs @ [r]) d)))"
  by (auto simp: rows_upd find_row_None)

end

interpretation tasks: table t_ID db_tasks db_tasks_update
  by unfold_locales simp

interpretation points: table rp_ID db_points db_points_update
  by unfold_locales simp

interpretation plans: table pl_ID db_plans db_plans_update
  by unfold_locales simp

interpretation reservations: table rv_TaskID db_reservations db_reservations_update
  by unfold_locales simp

end
