(* ===== verification/Store_Quota.thy ===== *)
theory Store_Quota
  imports Store_State
begin

text \<open>
  Restore point slots (\<^verbatim>\<open>backend/internal/store/restore_point_quota.go\<close>). A policy allows a plan
  \<open>RetentionCount\<close> restore points. A backup task reserves a slot before it runs; when none is free it
  names an older point that its result will replace.
\<close>

section \<open>Queries\<close>

definition quotaPlanLock :: "store_db \<Rightarrow> string \<Rightarrow> store_error + unit" where
  "quotaPlanLock db planID =
     (if planID = '''' then Inr ()
      else res_bind (query_row pl_ID planID (db_plans db)) (\<lambda>_. Inr ()))"

definition point_time :: "RestorePoint \<Rightarrow> gtime" where
  "point_time p = (if rp_TaskCreatedAt p = 0 then rp_CreatedAt p else rp_TaskCreatedAt p)"

definition quotaPoints :: "store_db \<Rightarrow> string \<Rightarrow> RestorePoint list" where
  "quotaPoints db planID =
     map (\<lambda>p. empty_point\<lparr>rp_ID := rp_ID p, rp_Status := rp_Status p, rp_TaskCreatedAt := point_time p,
            rp_CreatedAt := rp_CreatedAt p, rp_Metadata := rp_Metadata p\<rparr>)
       (sort_key (\<lambda>p. (point_time p, rp_ID p))
         (filter (\<lambda>p. sql_eq (rp_ProtectionPlanID p) planID) (db_points db)))"

definition quotaPolicy :: "store_db \<Rightarrow> string \<Rightarrow> Policy" where
  "quotaPolicy db planID =
     (case find_row pl_ID planID (db_plans db) of None \<Rightarrow> zero_policy
      | Some plan \<Rightarrow>
        (case find (\<lambda>p. sql_eq (pl_PolicyID plan) (p_ID p) \<and> p_Composition p \<in> {''combined'', ''retention''})
           (db_policies db) of
           None \<Rightarrow> zero_policy
         | Some p \<Rightarrow> zero_policy\<lparr>p_RetentionCount := p_RetentionCount p,
             p_RetentionRules := p_RetentionRules p, p_RetentionTimezone := p_RetentionTimezone p\<rparr>))"

definition recovery_type :: "string \<Rightarrow> bool" where
  "recovery_type ty \<longleftrightarrow> ty \<in> {''drill'', ''restore'', ''takeover''}"

definition refers_to_point :: "Task \<Rightarrow> string \<Rightarrow> bool" where
  "refers_to_point t pointID \<longleftrightarrow>
     sql_eq (t_RestorePointID t) pointID \<or> jtext (t_Payload t) ''restorePointId'' = Some pointID"

text \<open>A reservation that has not ended: \<^verbatim>\<open>state in ('reserved','data_ready','deleting')\<close>.\<close>

definition active :: "Reservation \<Rightarrow> bool" where
  "active rv \<longleftrightarrow> rv_State rv \<in> set active_states"

definition reserved_for :: "Reservation \<Rightarrow> string \<Rightarrow> bool" where
  "reserved_for rv pointID \<longleftrightarrow>
     sql_eq (rv_ReplacementPointID rv) pointID \<and> active rv"

definition pointBusy :: "store_db \<Rightarrow> string \<Rightarrow> bool" where
  "pointBusy db pointID \<longleftrightarrow>
     (\<exists>t \<in> set (db_tasks db). refers_to_point t pointID \<and> recovery_type (t_Type t) \<and>
        t_CompletedAt t = 0 \<and> t_Status t \<notin> set closed_statuses) \<or>
     (\<exists>rv \<in> set (db_reservations db). reserved_for rv pointID)"

definition metadata_protected :: "gomap \<Rightarrow> bool" where
  "metadata_protected m \<longleftrightarrow> mget m ''manualRetained'' = ABool True \<or> mget m ''drillRetained'' = ABool True"

definition pointProtected :: "RestorePoint \<Rightarrow> bool" where
  "pointProtected point \<longleftrightarrow> metadata_protected (rp_Metadata point)"

section \<open>Reserving a slot\<close>

definition task_failed :: "store_db \<Rightarrow> string \<Rightarrow> bool" where
  "task_failed db taskID \<longleftrightarrow>
     (\<exists>t \<in> set (db_tasks db). t_ID t = taskID \<and> t_Status t \<in> set failed_statuses)"

text \<open>
  One statement with a common table expression: both updates read the tables as they were before it.
\<close>

definition releaseFailedBackupReservations :: "store_db \<Rightarrow> gtime \<Rightarrow> string \<Rightarrow> store_db" where
  "releaseFailedBackupReservations db now planID =
     (let hit = (\<lambda>rv. rv_PlanID rv = planID \<and> rv_State rv = ''reserved'' \<and> task_failed db (rv_TaskID rv));
          released = filter hit (db_reservations db)
      in db\<lparr>db_reservations := update_where hit
              (\<lambda>rv. rv\<lparr>rv_State := ''released'', rv_UpdatedAt := now\<rparr>) (db_reservations db),
            db_points := update_where
              (\<lambda>p. \<exists>rv \<in> set released. sql_eq (rv_ReplacementPointID rv) (rp_ID p) \<and>
                 jtext (rp_Metadata p) ''replacementTaskId'' = Some (rv_TaskID rv))
              (\<lambda>p. p\<lparr>rp_Metadata := mdelete ''replacementTaskId'' (rp_Metadata p)\<rparr>) (db_points db)\<rparr>)"

definition point_deleted :: "store_db \<Rightarrow> string \<Rightarrow> bool" where
  "point_deleted db pointID \<longleftrightarrow>
     (\<exists>p \<in> set (db_points db). sql_eq pointID (rp_ID p) \<and> rp_Status p = ''deleted'')"

text \<open>A reservation that holds a slot of its own: it replaces nothing, or what it replaces is gone.\<close>

definition holds_slot :: "store_db \<Rightarrow> string \<Rightarrow> Reservation \<Rightarrow> bool" where
  "holds_slot db planID rv \<longleftrightarrow> rv_PlanID rv = planID \<and>
     (rv_ReplacementPointID rv = '''' \<or> point_deleted db (rv_ReplacementPointID rv)) \<and>
     active rv"

definition occupied :: "RestorePoint list \<Rightarrow> nat" where
  "occupied points = count_where (\<lambda>p. rp_Status p \<noteq> ''deleted'') points"

definition reserved :: "store_db \<Rightarrow> string \<Rightarrow> nat" where
  "reserved db planID = count_where (holds_slot db planID) (db_reservations db)"

definition quota_message :: "int \<Rightarrow> int \<Rightarrow> string" where
  "quota_message used limit =
     ''restore point quota exhausted: no unprotected point can be replaced ('' @ show_int used @ ''/'' @
     show_int limit @ '' slots occupied)''"

text \<open>The search for a point to replace, over the points from the oldest on.\<close>

definition replaceable :: "store_db \<Rightarrow> selections \<Rightarrow> RestorePoint \<Rightarrow> bool" where
  "replaceable db sel point \<longleftrightarrow>
     \<not> (rp_Status point \<noteq> ''available'' \<or> pointProtected point \<or> length (sel (rp_ID point)) > 0) \<and>
     any_str (mget (rp_Metadata point) ''retentionState'') \<notin> {''pending_delete'', ''deleting''} \<and>
     \<not> pointBusy db (rp_ID point)"

text \<open>The constraints of the table: the key, its references, and one active reservation per replaced point.\<close>

definition insert_reservation :: "store_db \<Rightarrow> Reservation \<Rightarrow> store_error + store_db" where
  "insert_reservation db rv =
     res_bind (res_guard (find_row rv_TaskID (rv_TaskID rv) (db_reservations db) = None)
       (ErrConstraint ''restore_point_reservations_pkey'')) (\<lambda>_.
     res_bind (res_guard (find_row t_ID (rv_TaskID rv) (db_tasks db) \<noteq> None)
       (ErrConstraint ''restore_point_reservations_task_id_fkey'')) (\<lambda>_.
     res_bind (res_guard (\<not> (\<exists>r \<in> set (db_reservations db). reserved_for r (rv_ReplacementPointID rv)))
       (ErrConstraint ''restore_point_reservation_replacement'')) (\<lambda>_.
     Inr (db\<lparr>db_reservations := db_reservations db @ [rv]\<rparr>))))"

definition new_reservation :: "string \<Rightarrow> string \<Rightarrow> string \<Rightarrow> gtime \<Rightarrow> Reservation" where
  "new_reservation taskID planID replacement now =
     \<lparr>rv_TaskID = taskID, rv_PlanID = planID, rv_ReplacementPointID = replacement, rv_State = ''reserved'',
       rv_PendingPoint = None, rv_CleanupTaskID = '''', rv_CleanupAttempts = 0, rv_CreatedAt = now,
       rv_UpdatedAt = now\<rparr>"

definition claim_replacement :: "store_db \<Rightarrow> string \<Rightarrow> string \<Rightarrow> store_db" where
  "claim_replacement db replacement taskID =
     (if replacement = '''' then db
      else db\<lparr>db_points := update_where (\<lambda>p. rp_ID p = replacement)
        (\<lambda>p. p\<lparr>rp_Metadata := mset_key ''replacementTaskId'' (AStr taskID) (rp_Metadata p)\<rparr>) (db_points db)\<rparr>)"

definition reserveBackupQuota ::
  "(string \<Rightarrow> location option) \<Rightarrow> gtime \<Rightarrow> store_db \<Rightarrow> Task \<Rightarrow> store_error + store_db" where
  "reserveBackupQuota LoadLocation now db task =
     (if t_Type task \<noteq> ''backup'' \<or> t_ProtectionPlanID task = '''' then Inr db
      else let planID = t_ProtectionPlanID task;
               db = releaseFailedBackupReservations db now planID;
               policy = quotaPolicy db planID;
               points = quotaPoints db planID
      in if p_RetentionCount policy \<le> 0 then Inr db
      else res_bind (RetentionSelections LoadLocation points (p_RetentionRules policy)
                       (p_RetentionTimezone policy) now) (\<lambda>sel.
        let used = int (occupied points) + int (reserved db planID);
            full = ErrRestorePointQuota (quota_message used (p_RetentionCount policy))
        in if used > p_RetentionCount policy then Inl full
        else res_bind
          (if used \<ge> p_RetentionCount policy
           then (case find (replaceable db sel) points of None \<Rightarrow> Inl full | Some p \<Rightarrow> Inr (rp_ID p))
           else Inr '''') (\<lambda>replacement.
        res_bind (insert_reservation db (new_reservation (t_ID task) planID replacement now)) (\<lambda>db.
        Inr (claim_replacement db replacement (t_ID task))))))"

section \<open>Deleting points\<close>

text \<open>
  The payload's \<^verbatim>\<open>restorePoints\<close>, marshalled and read back as a slice of structs with an \<^verbatim>\<open>id\<close>: null is
  the empty slice, a null element or a missing or null field leaves the zero value.
\<close>

definition target_id :: "any \<Rightarrow> store_error + string" where
  "target_id v = (case v of
     ANil \<Rightarrow> Inr ''''
   | AMap m \<Rightarrow> (case mget m ''id'' of AStr s \<Rightarrow> Inr s | ANil \<Rightarrow> Inr '''' | _ \<Rightarrow> Inl ErrJson)
   | AStrMap m \<Rightarrow> Inr (case map_of m ''id'' of Some s \<Rightarrow> s | None \<Rightarrow> '''')
   | _ \<Rightarrow> Inl ErrJson)"

fun target_ids :: "any list \<Rightarrow> store_error + string list" where
  "target_ids [] = Inr []"
| "target_ids (v # vs) = res_bind (target_id v) (\<lambda>i. res_bind (target_ids vs) (\<lambda>is. Inr (i # is)))"

definition deletion_targets :: "any \<Rightarrow> store_error + string list" where
  "deletion_targets v = (case v of
     ANil \<Rightarrow> Inr [] | ASlice vs \<Rightarrow> target_ids vs | AStrs [] \<Rightarrow> Inr [] | _ \<Rightarrow> Inl ErrJson)"

text \<open>
  The parts of one iteration over the targets. A point that is being replaced may be deleted only by
  the retention cleanup of its own reservation, once the new data is there; any other point only when
  nothing uses it.
\<close>

definition lock_target ::
  "gtime \<Rightarrow> Task \<Rightarrow> store_db \<Rightarrow> string \<Rightarrow> gomap \<Rightarrow> bool \<Rightarrow> store_error + store_db" where
  "lock_target now task db target metadata fullCleanup =
     (let owner = any_str (mget metadata ''replacementTaskId'') in
      if owner \<noteq> '''' \<and> \<not> fullCleanup
      then res_bind (case find (\<lambda>rv. rv_TaskID rv = owner \<and> sql_eq (rv_ReplacementPointID rv) target)
               (db_reservations db) of None \<Rightarrow> Inl ErrNoRows | Some rv \<Rightarrow> Inr rv) (\<lambda>rv.
        if t_Type task \<noteq> ''retention-cleanup'' \<or> rv_State rv \<notin> {''data_ready'', ''deleting''}
        then Inl ErrRestorePointLocked
        else Inr (db\<lparr>db_reservations := update_where (\<lambda>r. rv_TaskID r = owner)
               (\<lambda>r. r\<lparr>rv_State := ''deleting'', rv_CleanupTaskID := t_ID task,
                  rv_CleanupAttempts := rv_CleanupAttempts r + 1, rv_UpdatedAt := now\<rparr>) (db_reservations db)\<rparr>))
      else if pointBusy db target then Inl ErrRestorePointLocked else Inr db)"

definition check_unselected ::
  "(string \<Rightarrow> location option) \<Rightarrow> gtime \<Rightarrow> Task \<Rightarrow> store_db \<Rightarrow> string \<Rightarrow> string \<Rightarrow> gomap \<Rightarrow> bool
    \<Rightarrow> store_error + unit" where
  "check_unselected LoadLocation now task db planID target metadata fullCleanup =
     (if \<not> fullCleanup \<and>
         (mget (t_Payload task) ''manualDelete'' \<noteq> ABool True \<or> mget metadata ''replacementTaskId'' \<noteq> ANil)
      then let policy = quotaPolicy db planID in
        if p_RetentionTimezone policy \<noteq> ''''
        then res_bind (RetentionSelections LoadLocation (quotaPoints db planID) (p_RetentionRules policy)
                (p_RetentionTimezone policy) now) (\<lambda>sel.
              res_guard (\<not> length (sel target) > 0) ErrRestorePointLocked)
        else Inr ()
      else Inr ())"

definition mark_deleting :: "Task \<Rightarrow> store_db \<Rightarrow> string \<Rightarrow> store_db" where
  "mark_deleting task db target =
     db\<lparr>db_points := update_where (\<lambda>p. rp_ID p = target)
       (\<lambda>p. p\<lparr>rp_Metadata := jmerge (rp_Metadata p)
          [(''retentionState'', AStr ''deleting''), (''retentionCleanupTask'', AStr (t_ID task))]\<rparr>)
       (db_points db)\<rparr>"

definition full_cleanup :: "Task \<Rightarrow> store_db \<Rightarrow> string \<Rightarrow> store_error + bool" where
  "full_cleanup task db planID =
     (if t_Type task = ''protection-cleanup'' \<and> t_ProtectionPlanID task = planID
      then res_bind (query_row pl_ID planID (db_plans db)) (\<lambda>plan. Inr (pl_Status plan = ''cleanup_running''))
      else Inr False)"

definition prepare_target ::
  "(string \<Rightarrow> location option) \<Rightarrow> gtime \<Rightarrow> Task \<Rightarrow> store_db \<Rightarrow> string \<Rightarrow> store_error + store_db" where
  "prepare_target LoadLocation now task db target =
     res_bind (case find (\<lambda>p. rp_ID p = target \<and> rp_TenantID p = t_TenantID task) (db_points db) of
         None \<Rightarrow> Inl ErrNoRows | Some p \<Rightarrow> Inr p) (\<lambda>point.
     let planID = rp_ProtectionPlanID point; metadata = rp_Metadata point in
     res_bind (quotaPlanLock db planID) (\<lambda>_.
     if rp_Status point = ''deleted'' then Inr db
     else res_bind (full_cleanup task db planID) (\<lambda>fullCleanup.
     res_bind (res_guard (fullCleanup \<or> \<not> metadata_protected metadata) ErrRestorePointLocked) (\<lambda>_.
     res_bind (lock_target now task db target metadata fullCleanup) (\<lambda>db.
     res_bind (check_unselected LoadLocation now task db planID target metadata fullCleanup) (\<lambda>_.
     Inr (mark_deleting task db target)))))))"

definition prepareRestorePointDeletion ::
  "(string \<Rightarrow> location option) \<Rightarrow> gtime \<Rightarrow> store_db \<Rightarrow> Task \<Rightarrow> store_error + store_db" where
  "prepareRestorePointDeletion LoadLocation now db task =
     (if t_Type task \<noteq> ''retention-cleanup'' \<and> t_Type task \<noteq> ''protection-cleanup'' then Inr db
      else if mget (t_Payload task) ''cleanupMode'' \<in> {AStr ''drill'', AStr ''target''} then Inr db
      else res_bind (deletion_targets (mget (t_Payload task) ''restorePoints'')) (\<lambda>targets.
        res_fold (prepare_target LoadLocation now task) db targets))"

definition SetRestorePointRetention :: "store_db \<Rightarrow> string \<Rightarrow> string \<Rightarrow> bool \<Rightarrow> store_db \<times> (store_error + unit)" where
  "SetRestorePointRetention db pid tenantID retain = run_tx db (
     res_bind (case find (\<lambda>p. rp_ID p = pid \<and> rp_TenantID p = tenantID \<and> rp_Status p = ''available'')
         (db_points db) of None \<Rightarrow> Inl ErrNoRows | Some p \<Rightarrow> Inr (rp_ProtectionPlanID p)) (\<lambda>planID.
     res_bind (quotaPlanLock db planID) (\<lambda>_.
     if pointBusy db pid then Inl ErrRestorePointLocked
     else let hit = (\<lambda>p. rp_ID p = pid \<and> rp_TenantID p = tenantID \<and> rp_Status p = ''available'' \<and>
                coalesce_str (jtext (rp_Metadata p) ''retentionState'') '''' \<notin> {''deleting'', ''pending_delete''})
     in if count_where hit (db_points db) \<noteq> 1 then Inl ErrRestorePointLocked
     else Inr (db\<lparr>db_points := update_where hit
       (\<lambda>p. p\<lparr>rp_Metadata := mset_key ''manualRetained'' (ABool retain) (rp_Metadata p)\<rparr>) (db_points db)\<rparr>, ()))))"

definition claim_deletion :: "store_db \<Rightarrow> string \<Rightarrow> store_error + store_db" where
  "claim_deletion db pid =
     res_bind (query_row rp_ID pid (db_points db)) (\<lambda>point.
     res_bind (quotaPlanLock db (rp_ProtectionPlanID point)) (\<lambda>_.
     if pointBusy db pid then Inl ErrRestorePointLocked
     else let hit = (\<lambda>p. rp_ID p = pid \<and> rp_Status p = ''available'' \<and>
                coalesce_str (jtext (rp_Metadata p) ''manualRetained'') ''false'' \<noteq> ''true'' \<and>
                coalesce_str (jtext (rp_Metadata p) ''drillRetained'') ''false'' \<noteq> ''true'' \<and>
                coalesce_str (jtext (rp_Metadata p) ''retentionState'') '''' \<notin> {''pending_delete'', ''deleting''})
     in if count_where hit (db_points db) \<noteq> 1 then Inl ErrRestorePointLocked
     else Inr (db\<lparr>db_points := update_where hit
       (\<lambda>p. p\<lparr>rp_Metadata := mset_key ''retentionState'' (AStr ''pending_delete'') (rp_Metadata p)\<rparr>)
       (db_points db)\<rparr>)))"

definition ClaimRestorePointDeletion :: "store_db \<Rightarrow> string list \<Rightarrow> store_db \<times> (store_error + unit)" where
  "ClaimRestorePointDeletion db ids =
     run_tx db (res_bind (res_fold claim_deletion db ids) (\<lambda>db'. Inr (db', ())))"

section \<open>Replacements\<close>

record RestorePointReplacement =
  rx_Attempts :: int
  rx_TaskID :: string
  rx_PointID :: string
  rx_CleanupTaskID :: string
  rx_State :: string
  rx_Input :: RestorePointInput

fun release_plans :: "store_db \<Rightarrow> gtime \<Rightarrow> string list \<Rightarrow> store_db \<times> (store_error + unit)" where
  "release_plans db now [] = (db, Inr ())"
| "release_plans db now (planID # plans) =
     (case quotaPlanLock db planID of Inl e \<Rightarrow> (db, Inl e)
      | Inr _ \<Rightarrow> release_plans (releaseFailedBackupReservations db now planID) now plans)"

definition releaseFailedBackupReservations_all :: "store_db \<Rightarrow> gtime \<Rightarrow> store_db \<times> (store_error + unit)" where
  "releaseFailedBackupReservations_all db now =
     release_plans db now (sort (remdups (map rv_PlanID
       (filter (\<lambda>rv. rv_State rv = ''reserved'' \<and> task_failed db (rv_TaskID rv)) (db_reservations db)))))"

definition pending_replacement :: "store_db \<Rightarrow> Reservation \<Rightarrow> bool" where
  "pending_replacement db rv \<longleftrightarrow> rv_PendingPoint rv \<noteq> None \<and>
     (\<exists>t \<in> set (db_tasks db). t_ID t = rv_TaskID rv \<and>
        (rv_State rv \<in> {''data_ready'', ''deleting''} \<or> rv_State rv = ''published'' \<and> t_CompletedAt t = 0))"

definition PendingRestorePointReplacements ::
  "store_db \<Rightarrow> gtime \<Rightarrow> store_db \<times> (store_error + RestorePointReplacement list)" where
  "PendingRestorePointReplacements db now =
     (case releaseFailedBackupReservations_all db now of
        (db, Inl e) \<Rightarrow> (db, Inl e)
      | (db, Inr _) \<Rightarrow> (db, Inr (map
          (\<lambda>rv. \<lparr>rx_Attempts = rv_CleanupAttempts rv, rx_TaskID = rv_TaskID rv,
             rx_PointID = rv_ReplacementPointID rv, rx_CleanupTaskID = rv_CleanupTaskID rv,
             rx_State = rv_State rv, rx_Input = the (rv_PendingPoint rv)\<rparr>)
          (sort_key rv_CreatedAt (filter (pending_replacement db) (db_reservations db))))))"

definition BeginRestorePointReplacement :: "store_db \<Rightarrow> gtime \<Rightarrow> string \<Rightarrow> string \<Rightarrow> store_db" where
  "BeginRestorePointReplacement db now taskID cleanupID =
     db\<lparr>db_reservations := update_where
       (\<lambda>rv. rv_TaskID rv = taskID \<and> rv_State rv \<in> {''data_ready'', ''deleting''})
       (\<lambda>rv. rv\<lparr>rv_State := ''deleting'', rv_CleanupTaskID := cleanupID, rv_UpdatedAt := now\<rparr>)
       (db_reservations db)\<rparr>"

definition plan_point_ids :: "store_db \<Rightarrow> string \<Rightarrow> string list" where
  "plan_point_ids db planID =
     map rp_ID (filter (\<lambda>p. sql_eq (rp_ProtectionPlanID p) planID) (db_points db))"

definition plan_in_use :: "store_db \<Rightarrow> string \<Rightarrow> bool" where
  "plan_in_use db planID \<longleftrightarrow>
     (\<exists>t \<in> set (db_tasks db). (sql_eq (t_ProtectionPlanID t) planID \<or>
        (\<exists>i \<in> set (plan_point_ids db planID). refers_to_point t i)) \<and> t_Status t \<notin> set closed_statuses) \<or>
     (\<exists>rv \<in> set (db_reservations db). rv_PlanID rv = planID \<and> active rv)"

definition BeginProtectionPlanCleanup :: "store_db \<Rightarrow> gtime \<Rightarrow> string \<Rightarrow> store_db \<times> (store_error + unit)" where
  "BeginProtectionPlanCleanup db now planID = run_tx db (
     res_bind (quotaPlanLock db planID) (\<lambda>_.
     res_bind (query_row pl_ID planID (db_plans db)) (\<lambda>plan.
     if pl_Status plan \<in> {''cleanup_running'', ''cleaning''} then Inl ErrProtectionPlanBusy
     else if plan_in_use db planID then Inl ErrProtectionPlanBusy
     else Inr (db\<lparr>
       db_points := update_where (\<lambda>p. sql_eq (rp_ProtectionPlanID p) planID \<and> rp_Status p \<noteq> ''deleted'')
         (\<lambda>p. p\<lparr>rp_Metadata := mset_key ''retentionState'' (AStr ''pending_delete'') (rp_Metadata p)\<rparr>) (db_points db),
       db_plans := update_where (\<lambda>p. pl_ID p = planID)
         (\<lambda>p. p\<lparr>pl_Status := ''cleanup_running'', pl_UpdatedAt := now\<rparr>) (db_plans db),
       db_schedules := update_where (\<lambda>s. ps_ProtectionPlanID s = planID)
         (\<lambda>s. s\<lparr>ps_Enabled := False, ps_UpdatedAt := now\<rparr>) (db_schedules db)\<rparr>, ()))))"

end
