(* ===== verification/Quota_Invariant.thy ===== *)
theory Quota_Invariant
  imports Store_Quota "HOL-Library.Multiset"
begin

text \<open>
  Slot accounting. \<open>slots\<close> is what \<^verbatim>\<open>reserveBackupQuota\<close> compares with the policy; \<open>store_wf\<close> is the
  well-formedness of the tables that the schema and the transactions maintain; \<open>quiet\<close> relates two
  databases when no point appears, dies or changes hands and no reservation becomes active. A quiet
  transaction keeps \<open>store_wf\<close> and never takes a slot.
\<close>

definition live_in :: "string \<Rightarrow> RestorePoint \<Rightarrow> bool" where
  "live_in planID p \<longleftrightarrow> sql_eq (rp_ProtectionPlanID p) planID \<and> rp_Status p \<noteq> ''deleted''"

definition slots :: "store_db \<Rightarrow> string \<Rightarrow> nat" where
  "slots db planID = count_where (live_in planID) (db_points db) + reserved db planID"

definition replacements_ok :: "store_db \<Rightarrow> bool" where
  "replacements_ok db \<longleftrightarrow>
     (\<forall>r \<in> set (db_reservations db). active r \<and> rv_ReplacementPointID r \<noteq> '''' \<longrightarrow>
        (\<exists>p \<in> set (db_points db). rp_ID p = rv_ReplacementPointID r \<and> rp_ProtectionPlanID p = rv_PlanID r)) \<and>
     (\<forall>r \<in> set (db_reservations db). \<forall>r' \<in> set (db_reservations db).
        active r \<and> active r' \<and> rv_ReplacementPointID r \<noteq> '''' \<and>
        rv_ReplacementPointID r = rv_ReplacementPointID r' \<longrightarrow> r = r')"

text \<open>The states the check constraint of the table admits.\<close>

definition known_state :: "Reservation \<Rightarrow> bool" where
  "known_state r \<longleftrightarrow> rv_State r \<in> {''reserved'', ''data_ready'', ''deleting'', ''published'', ''released''}"

definition reservations_ok :: "store_db \<Rightarrow> bool" where
  "reservations_ok db \<longleftrightarrow> (\<forall>r \<in> set (db_reservations db). known_state r \<and> rv_PlanID r \<noteq> '''' \<and>
     (\<exists>t \<in> set (db_tasks db). t_ID t = rv_TaskID r \<and> t_ProtectionPlanID t = rv_PlanID r))"

text \<open>
  An accepted result names its own task, and a published reservation belongs to a task that succeeded
  with the result it accepted.
\<close>

definition accepted_result :: "Task \<Rightarrow> any" where
  "accepted_result t = mget (t_Payload t) ''backupResult''"

definition finished_with_point :: "Task \<Rightarrow> bool" where
  "finished_with_point t \<longleftrightarrow> t_Status t = ''succeeded'' \<and> t_CompletedAt t \<noteq> 0 \<and> t_RestorePointID t \<noteq> ''''"

definition result_names_task :: "Task \<Rightarrow> bool" where
  "result_names_task t \<longleftrightarrow>
     (case accepted_result t of AMap m \<Rightarrow> mget m ''BackupTaskID'' = AStr (t_ID t) \<and>
        (t_ProtectionPlanID t \<noteq> '''' \<longrightarrow> mget m ''ProtectionPlanID'' = AStr (t_ProtectionPlanID t))
      | _ \<Rightarrow> True)"

lemma result_names_task_iff:
  "result_names_task t \<longleftrightarrow>
     (\<forall>m. accepted_result t = AMap m \<longrightarrow> mget m ''BackupTaskID'' = AStr (t_ID t) \<and>
        (t_ProtectionPlanID t \<noteq> '''' \<longrightarrow> mget m ''ProtectionPlanID'' = AStr (t_ProtectionPlanID t)))"
  by (auto simp: result_names_task_def split: any.splits)

definition results_ok :: "store_db \<Rightarrow> bool" where
  "results_ok db \<longleftrightarrow> (\<forall>t \<in> set (db_tasks db). result_names_task t) \<and>
     (\<forall>r \<in> set (db_reservations db). rv_State r = ''published'' \<longrightarrow>
        (\<exists>t \<in> set (db_tasks db). t_ID t = rv_TaskID r \<and> finished_with_point t \<and> accepted_result t \<noteq> ANil))"

definition store_wf :: "store_db \<Rightarrow> bool" where
  "store_wf db \<longleftrightarrow>
     distinct (map t_ID (db_tasks db)) \<and>
     distinct (map rp_ID (db_points db)) \<and> '''' \<notin> rp_ID ` set (db_points db) \<and>
     distinct (map (\<lambda>p. (rp_SourceClusterID p, rp_VeleroBackupName p)) (db_points db)) \<and>
     distinct (map rv_TaskID (db_reservations db)) \<and> reservations_ok db \<and> replacements_ok db \<and>
     results_ok db"

lemma replacements_ok_cong:
  "db_points d' = db_points d \<Longrightarrow> db_reservations d' = db_reservations d \<Longrightarrow> replacements_ok d' = replacements_ok d"
  by (simp only: replacements_ok_def)

lemma slots_cong:
  "db_points d' = db_points d \<Longrightarrow> db_reservations d' = db_reservations d \<Longrightarrow> slots d' planID = slots d planID"
  by (simp only: slots_def reserved_def holds_slot_def [abs_def] point_deleted_def)

section \<open>Quiet steps\<close>

definition same_point :: "RestorePoint \<Rightarrow> RestorePoint \<Rightarrow> bool" where
  "same_point p q \<longleftrightarrow> rp_ID q = rp_ID p \<and> rp_ProtectionPlanID q = rp_ProtectionPlanID p \<and>
     rp_TenantID q = rp_TenantID p \<and> rp_SourceClusterID q = rp_SourceClusterID p \<and>
     rp_VeleroBackupName q = rp_VeleroBackupName p \<and> rp_Status q = rp_Status p"

definition calmer :: "Reservation \<Rightarrow> Reservation \<Rightarrow> bool" where
  "calmer r s \<longleftrightarrow> rv_TaskID s = rv_TaskID r \<and> rv_PlanID s = rv_PlanID r \<and>
     rv_ReplacementPointID s = rv_ReplacementPointID r \<and> (active s \<longrightarrow> active r) \<and>
     (rv_State s = ''published'' \<longrightarrow> rv_State r = ''published'') \<and> (known_state r \<longrightarrow> known_state s)"

definition same_task :: "Task \<Rightarrow> Task \<Rightarrow> bool" where
  "same_task t u \<longleftrightarrow> t_ID u = t_ID t \<and> t_ProtectionPlanID u = t_ProtectionPlanID t \<and>
     t_TenantID u = t_TenantID t \<and> t_ClusterID u = t_ClusterID t \<and> t_Type u = t_Type t \<and>
     accepted_result u = accepted_result t \<and> (finished_with_point t \<longrightarrow> finished_with_point u)"

definition same_plan :: "ProtectionPlan \<Rightarrow> ProtectionPlan \<Rightarrow> bool" where
  "same_plan p q \<longleftrightarrow> pl_ID q = pl_ID p \<and> pl_TenantID q = pl_TenantID p \<and> pl_PolicyID q = pl_PolicyID p \<and>
     pl_SourceClusterID q = pl_SourceClusterID p \<and> pl_AppIDs q = pl_AppIDs p"

definition quiet :: "store_db \<Rightarrow> store_db \<Rightarrow> bool" where
  "quiet db db' \<longleftrightarrow>
     list_all2 same_point (db_points db) (db_points db') \<and>
     list_all2 calmer (db_reservations db) (db_reservations db') \<and>
     list_all2 same_task (db_tasks db) (db_tasks db') \<and>
     list_all2 same_plan (db_plans db) (db_plans db') \<and>
     db_policies db' = db_policies db"

lemmas same_defs = same_point_def calmer_def same_task_def same_plan_def

lemma list_all2_update_where:
  "(\<And>r. R r r) \<Longrightarrow> (\<And>r. r \<in> set xs \<Longrightarrow> p r \<Longrightarrow> R r (f r)) \<Longrightarrow> list_all2 R xs (update_where p f xs)"
  by (induction xs) auto

lemma list_all2_self: "(\<And>r. R r r) \<Longrightarrow> list_all2 R xs xs"
  by (simp add: list.rel_refl)

lemma same_refl [simp]: "same_point p p" "calmer r r" "same_task t t" "same_plan q q"
  by (simp_all add: same_defs)

lemma quiet_refl [simp]: "quiet db db"
  by (simp add: quiet_def list_all2_self)

lemma same_trans:
  "same_point p q \<Longrightarrow> same_point q q' \<Longrightarrow> same_point p q'"
  "calmer r s \<Longrightarrow> calmer s s' \<Longrightarrow> calmer r s'"
  "same_task t u \<Longrightarrow> same_task u u' \<Longrightarrow> same_task t u'"
  "same_plan pl pm \<Longrightarrow> same_plan pm pm' \<Longrightarrow> same_plan pl pm'"
  by (simp_all add: same_defs)

lemma list_all2_trans_same:
  "list_all2 R xs ys \<Longrightarrow> list_all2 R ys zs \<Longrightarrow> (\<And>x y z. R x y \<Longrightarrow> R y z \<Longrightarrow> R x z) \<Longrightarrow> list_all2 R xs zs"
  by (rule list_all2_trans)

lemma quiet_trans [trans]:
  assumes "quiet a b" "quiet b c"
  shows "quiet a c"
  unfolding quiet_def
proof (intro conjI)
  note ab = assms(1) [unfolded quiet_def] and bc = assms(2) [unfolded quiet_def]
  show "list_all2 same_point (db_points a) (db_points c)"
    using ab bc by (elim conjE) (erule (1) list_all2_trans_same, erule (1) same_trans)
  show "list_all2 calmer (db_reservations a) (db_reservations c)"
    using ab bc by (elim conjE) (erule (1) list_all2_trans_same, erule (1) same_trans)
  show "list_all2 same_task (db_tasks a) (db_tasks c)"
    using ab bc by (elim conjE) (erule (1) list_all2_trans_same, erule (1) same_trans)
  show "list_all2 same_plan (db_plans a) (db_plans c)"
    using ab bc by (elim conjE) (erule (1) list_all2_trans_same, erule (1) same_trans)
  show "db_policies c = db_policies a" using ab bc by simp
qed

lemma list_all2_map_eq: "list_all2 R xs ys \<Longrightarrow> (\<And>x y. R x y \<Longrightarrow> f y = f x) \<Longrightarrow> map f ys = map f xs"
  by (induction rule: list_all2_induct) auto

lemma list_all2_count:
  "list_all2 R xs ys \<Longrightarrow> (\<And>x y. R x y \<Longrightarrow> Q y = P x) \<Longrightarrow> count_where Q ys = count_where P xs"
  by (induction rule: list_all2_induct) auto

lemma list_all2_count_le:
  "list_all2 R xs ys \<Longrightarrow> (\<And>x y. R x y \<Longrightarrow> Q y \<Longrightarrow> P x) \<Longrightarrow> count_where Q ys \<le> count_where P xs"
proof (induction rule: list_all2_induct)
  case (Cons x xs y ys)
  then show ?case using Cons.prems [of x y] by simp
qed simp

lemma list_all2_inD:
  "list_all2 R xs ys \<Longrightarrow> y \<in> set ys \<Longrightarrow> \<exists>x \<in> set xs. R x y"
  "list_all2 R xs ys \<Longrightarrow> x \<in> set xs \<Longrightarrow> \<exists>y \<in> set ys. R x y"
  by (induction rule: list_all2_induct) auto

lemma list_all2_ex:
  "list_all2 R xs ys \<Longrightarrow> (\<And>x y. R x y \<Longrightarrow> P x = Q y) \<Longrightarrow> (\<exists>x \<in> set xs. P x) = (\<exists>y \<in> set ys. Q y)"
  by (induction rule: list_all2_induct) auto

lemma quiet_point_deleted:
  assumes "quiet db db'"
  shows "point_deleted db' i = point_deleted db i"
  unfolding point_deleted_def
  by (rule list_all2_ex [symmetric, where R = same_point]) (use assms in \<open>auto simp: quiet_def same_point_def\<close>)

lemma quiet_slots:
  assumes "quiet db db'"
  shows "slots db' planID \<le> slots db planID"
proof -
  from assms have "count_where (live_in planID) (db_points db') = count_where (live_in planID) (db_points db)"
    unfolding quiet_def by (auto intro!: list_all2_count simp: live_in_def same_point_def)
  moreover from assms have "reserved db' planID \<le> reserved db planID"
    unfolding reserved_def using quiet_point_deleted [OF assms]
    by (intro list_all2_count_le [where R = calmer]) (auto simp: quiet_def holds_slot_def calmer_def)
  ultimately show ?thesis by (simp add: slots_def)
qed

lemma quiet_wf:
  assumes q: "quiet db db'" and wf: "store_wf db"
  shows "store_wf db'"
proof -
  from q have pts: "list_all2 same_point (db_points db) (db_points db')"
    and rvs: "list_all2 calmer (db_reservations db) (db_reservations db')"
    and tks: "list_all2 same_task (db_tasks db) (db_tasks db')" by (auto simp: quiet_def)
  have ids: "map rp_ID (db_points db') = map rp_ID (db_points db)"
      "map (\<lambda>p. (rp_SourceClusterID p, rp_VeleroBackupName p)) (db_points db') =
       map (\<lambda>p. (rp_SourceClusterID p, rp_VeleroBackupName p)) (db_points db)"
      "map t_ID (db_tasks db') = map t_ID (db_tasks db)"
      "map rv_TaskID (db_reservations db') = map rv_TaskID (db_reservations db)"
    by (rule list_all2_map_eq [OF pts] list_all2_map_eq [OF tks] list_all2_map_eq [OF rvs], simp add: same_defs)+
  have res: "reservations_ok db'" unfolding reservations_ok_def
  proof
    fix r' assume "r' \<in> set (db_reservations db')"
    then obtain r where r: "r \<in> set (db_reservations db)" "calmer r r'"
      using list_all2_inD(1) [OF rvs] by blast
    with wf obtain t where "t \<in> set (db_tasks db)" "t_ID t = rv_TaskID r" "t_ProtectionPlanID t = rv_PlanID r"
      "rv_PlanID r \<noteq> ''''" "known_state r" by (auto simp: store_wf_def reservations_ok_def)
    with r list_all2_inD(2) [OF tks, of t]
    show "known_state r' \<and> rv_PlanID r' \<noteq> '''' \<and> (\<exists>t \<in> set (db_tasks db'). t_ID t = rv_TaskID r' \<and>
        t_ProtectionPlanID t = rv_PlanID r')" by (auto simp: same_defs)
  qed
  have older: "\<exists>r \<in> set (db_reservations db). calmer r r'" if "r' \<in> set (db_reservations db')" for r'
    using list_all2_inD(1) [OF rvs that] .
  have point: "\<exists>p \<in> set (db_points db'). rp_ID p = rv_ReplacementPointID r' \<and> rp_ProtectionPlanID p = rv_PlanID r'"
    if "r' \<in> set (db_reservations db')" "active r'" "rv_ReplacementPointID r' \<noteq> ''''" for r'
  proof -
    from older [OF that(1)] obtain r where r: "r \<in> set (db_reservations db)" "calmer r r'" by blast
    with wf that obtain p where "p \<in> set (db_points db)" "rp_ID p = rv_ReplacementPointID r"
        "rp_ProtectionPlanID p = rv_PlanID r"
      unfolding store_wf_def replacements_ok_def calmer_def by metis
    with list_all2_inD(2) [OF pts, of p] r(2) show ?thesis by (auto simp: same_defs)
  qed
  have uniq: "r1 = r2" if u: "r1 \<in> set (db_reservations db')" "r2 \<in> set (db_reservations db')"
      "active r1" "active r2" "rv_ReplacementPointID r1 \<noteq> ''''"
      "rv_ReplacementPointID r1 = rv_ReplacementPointID r2" for r1 r2
  proof -
    obtain s1 s2 where s: "s1 \<in> set (db_reservations db)" "calmer s1 r1"
        "s2 \<in> set (db_reservations db)" "calmer s2 r2" using older u(1,2) by blast
    then have "active s1" "active s2" "rv_ReplacementPointID s1 \<noteq> ''''"
        "rv_ReplacementPointID s1 = rv_ReplacementPointID s2"
      using u(3-6) unfolding calmer_def by metis+
    with s(1,3) wf have "s1 = s2" unfolding store_wf_def replacements_ok_def by metis
    then have "rv_TaskID r1 = rv_TaskID r2" using s(2,4) by (simp add: calmer_def)
    moreover have "distinct (map rv_TaskID (db_reservations db'))" using wf ids(4) by (simp add: store_wf_def)
    ultimately show ?thesis using u(1,2) by (auto simp: distinct_map dest: inj_onD)
  qed
  have "replacements_ok db'" unfolding replacements_ok_def using point uniq by blast
  moreover have "results_ok db'" unfolding results_ok_def
  proof (intro conjI ballI impI)
    fix u assume "u \<in> set (db_tasks db')"
    then obtain t where "t \<in> set (db_tasks db)" "same_task t u" using list_all2_inD(1) [OF tks] by blast
    with wf show "result_names_task u"
      by (auto simp: store_wf_def results_ok_def result_names_task_iff same_task_def)
  next
    fix r' assume r': "r' \<in> set (db_reservations db')" "rv_State r' = ''published''"
    from older [OF r'(1)] obtain r where r: "r \<in> set (db_reservations db)" "calmer r r'" by blast
    with r'(2) wf obtain t where t: "t \<in> set (db_tasks db)" "t_ID t = rv_TaskID r" "finished_with_point t"
        "accepted_result t \<noteq> ANil" by (auto simp: store_wf_def results_ok_def calmer_def)
    from list_all2_inD(2) [OF tks t(1)] obtain u where "u \<in> set (db_tasks db')" "same_task t u" by blast
    with t r(2) show "\<exists>t \<in> set (db_tasks db'). t_ID t = rv_TaskID r' \<and> finished_with_point t \<and> accepted_result t \<noteq> ANil"
      by (intro bexI [of _ u]) (auto simp: same_task_def calmer_def)
  qed
  moreover have "'''' \<notin> rp_ID ` set (db_points db')"
    using wf ids(1) by (metis image_set store_wf_def)
  ultimately show ?thesis using wf ids res by (simp add: store_wf_def)
qed

lemma quotaPolicy_cong:
  "db_plans d' = db_plans d \<Longrightarrow> db_policies d' = db_policies d \<Longrightarrow> quotaPolicy d' planID = quotaPolicy d planID"
  by (simp only: quotaPolicy_def)

lemma quiet_policy:
  assumes "quiet db db'"
  shows "quotaPolicy db' planID = quotaPolicy db planID"
proof -
  from assms have "list_all2 same_plan (db_plans db) (db_plans db')" by (simp add: quiet_def)
  then have "rel_option same_plan (find_row pl_ID planID (db_plans db)) (find_row pl_ID planID (db_plans db'))"
    by (induction rule: list_all2_induct) (auto simp: find_row_def same_plan_def)
  with assms show ?thesis
    unfolding quotaPolicy_def quiet_def
    by (auto simp: same_plan_def rel_option_iff split: option.splits)
qed

section \<open>The transactions of the quota component\<close>

lemma quiet_points:
  "(\<And>p. p \<in> set (db_points db) \<Longrightarrow> P p \<Longrightarrow> same_point p (f p)) \<Longrightarrow>
     quiet db (db\<lparr>db_points := update_where P f (db_points db)\<rparr>)"
  by (simp add: quiet_def list_all2_self list_all2_update_where)

lemma quiet_reservations:
  "(\<And>r. r \<in> set (db_reservations db) \<Longrightarrow> P r \<Longrightarrow> calmer r (f r)) \<Longrightarrow>
     quiet db (db\<lparr>db_reservations := update_where P f (db_reservations db)\<rparr>)"
  by (simp add: quiet_def list_all2_self list_all2_update_where)

lemma quiet_tasks:
  "(\<And>t. t \<in> set (db_tasks db) \<Longrightarrow> P t \<Longrightarrow> same_task t (f t)) \<Longrightarrow>
     quiet db (db\<lparr>db_tasks := update_where P f (db_tasks db)\<rparr>)"
  by (simp add: quiet_def list_all2_self list_all2_update_where)

lemma quiet_plans:
  "(\<And>t. t \<in> set (db_plans db) \<Longrightarrow> P t \<Longrightarrow> same_plan t (f t)) \<Longrightarrow>
     quiet db (db\<lparr>db_plans := update_where P f (db_plans db)\<rparr>)"
  by (simp add: quiet_def list_all2_self list_all2_update_where)

lemmas quiet_intros = quiet_points quiet_reservations quiet_tasks quiet_plans

lemma active_simps [simp]:
  "active (rv\<lparr>rv_State := ''reserved''\<rparr>)" "active (rv\<lparr>rv_State := ''deleting''\<rparr>)"
  "\<not> active (rv\<lparr>rv_State := ''released''\<rparr>)" "\<not> active (rv\<lparr>rv_State := ''published''\<rparr>)"
  "active (rv\<lparr>rv_UpdatedAt := now\<rparr>) = active rv"
  "active (rv\<lparr>rv_CleanupTaskID := c\<rparr>) = active rv"
  "active (rv\<lparr>rv_CleanupAttempts := n\<rparr>) = active rv"
  "active (rv\<lparr>rv_PendingPoint := pp\<rparr>) = active rv"
  by (simp_all add: active_def)

lemma quiet_release: "quiet db (releaseFailedBackupReservations db now planID)"
  unfolding releaseFailedBackupReservations_def Let_def quiet_def
  by (auto intro!: list_all2_self list_all2_update_where simp: same_defs active_def known_state_def)

lemma quiet_release_plans: "quiet db (fst (release_plans db now plans))"
proof (induction plans arbitrary: db)
  case (Cons planID plans)
  have "quiet db (fst (release_plans (releaseFailedBackupReservations db now planID) now plans))"
    using quiet_release Cons.IH by (rule quiet_trans)
  then show ?case by (simp split: sum.splits)
qed simp

lemma quiet_pending: "quiet db (fst (PendingRestorePointReplacements db now))"
proof -
  obtain d r where d: "releaseFailedBackupReservations_all db now = (d, r)" by fastforce
  then have "d = fst (releaseFailedBackupReservations_all db now)" by simp
  then have "quiet db d" by (simp only: releaseFailedBackupReservations_all_def quiet_release_plans)
  with d show ?thesis by (simp add: PendingRestorePointReplacements_def split: sum.splits)
qed

lemma quiet_claim_replacement: "quiet db (claim_replacement db replacement taskID)"
  unfolding claim_replacement_def by (auto intro!: quiet_points simp: same_defs)

lemma quiet_begin_replacement: "quiet db (BeginRestorePointReplacement db now taskID cleanupID)"
  unfolding BeginRestorePointReplacement_def
  by (rule quiet_reservations) (auto simp: calmer_def active_def known_state_def)

lemma quiet_set_retention: "quiet db (fst (SetRestorePointRetention db pid tenantID retain))"
  unfolding SetRestorePointRetention_def Let_def
  by (auto simp: res_bind_def same_defs intro!: quiet_points split: sum.splits option.splits if_splits)

lemma quiet_claim_deletion: "claim_deletion db pid = Inr db' \<Longrightarrow> quiet db db'"
  unfolding claim_deletion_def Let_def
  by (auto simp: res_bind_Inr_iff same_defs intro!: quiet_points split: if_splits)

lemma quiet_claim_deletions: "quiet db (fst (ClaimRestorePointDeletion db ids))"
proof -
  have "quiet db db'" if "res_fold claim_deletion db ids = Inr db'" for db'
    using that by (rule res_fold_invariant) (auto dest: quiet_claim_deletion intro: quiet_trans)
  then show ?thesis by (auto simp: ClaimRestorePointDeletion_def res_bind_def split: sum.splits)
qed

lemma quiet_begin_cleanup: "quiet db (fst (BeginProtectionPlanCleanup db now planID))"
  unfolding BeginProtectionPlanCleanup_def
  by (auto simp: res_bind_def quiet_def same_defs intro!: list_all2_self list_all2_update_where split: sum.splits)

lemma reservation_unique:
  assumes "store_wf db" "r \<in> set (db_reservations db)" "s \<in> set (db_reservations db)" "rv_TaskID r = rv_TaskID s"
  shows "r = s"
  using assms by (auto simp: store_wf_def distinct_map dest: inj_onD)

lemma quiet_mark_deleting: "quiet db (mark_deleting task db target)"
  unfolding mark_deleting_def by (rule quiet_points) (simp add: same_defs)

lemma quiet_lock_target:
  assumes wf: "store_wf db" and step: "lock_target now task db target metadata full = Inr db'"
  shows "quiet db db'"
proof -
  have own: "quiet db (db\<lparr>db_reservations := update_where (\<lambda>r. rv_TaskID r = owner)
      (\<lambda>r. r\<lparr>rv_State := ''deleting'', rv_CleanupTaskID := t_ID task,
        rv_CleanupAttempts := rv_CleanupAttempts r + 1, rv_UpdatedAt := now\<rparr>) (db_reservations db)\<rparr>)"
    if "find (\<lambda>rv. rv_TaskID rv = owner \<and> sql_eq (rv_ReplacementPointID rv) target) (db_reservations db) = Some rv"
      "rv_State rv \<in> {''data_ready'', ''deleting''}" for owner rv
  proof (rule quiet_reservations)
    fix r assume "r \<in> set (db_reservations db)" "rv_TaskID r = owner"
    moreover from that(1) have "rv \<in> set (db_reservations db)" "rv_TaskID rv = owner"
      by (auto simp: find_Some_iff)
    ultimately have "r = rv" using reservation_unique [OF wf] by simp
    with that(2) show "calmer r (r\<lparr>rv_State := ''deleting'', rv_CleanupTaskID := t_ID task,
        rv_CleanupAttempts := rv_CleanupAttempts r + 1, rv_UpdatedAt := now\<rparr>)"
      by (auto simp: calmer_def active_def known_state_def)
  qed
  from step show ?thesis
    unfolding lock_target_def Let_def
    by (auto simp: res_bind_Inr_iff split: if_splits option.splits intro: own)
qed

lemma quiet_prepare_target:
  assumes wf: "store_wf db" and step: "prepare_target LoadLocation now task db target = Inr db'"
  shows "quiet db db'"
  using step unfolding prepare_target_def Let_def
  by (auto simp: res_bind_Inr_iff split: if_splits option.splits
      intro: quiet_trans [OF quiet_lock_target [OF wf] quiet_mark_deleting])

lemma quiet_prepare:
  assumes wf: "store_wf db" and step: "prepareRestorePointDeletion LoadLocation now db task = Inr db'"
  shows "quiet db db'"
proof -
  have "quiet db db' \<and> store_wf db'"
    if "res_fold (prepare_target LoadLocation now task) db targets = Inr db'" for targets
  proof (rule res_fold_invariant [OF that])
    fix d target d'
    assume "quiet db d \<and> store_wf d" "prepare_target LoadLocation now task d target = Inr d'"
    moreover from this have "quiet d d'" by (blast intro: quiet_prepare_target)
    ultimately show "quiet db d' \<and> store_wf d'" by (blast intro: quiet_trans quiet_wf)
  qed (use wf in simp)
  with step show ?thesis
    by (auto simp: prepareRestorePointDeletion_def res_bind_Inr_iff split: if_splits)
qed

section \<open>Reserving\<close>

lemma count_where_mset: "mset xs = mset ys \<Longrightarrow> count_where P xs = count_where P ys"
  unfolding count_where_def by (metis mset_filter size_mset)

lemma count_where_filter: "count_where P (filter Q xs) = count_where (\<lambda>x. Q x \<and> P x) xs"
  by (induction xs) auto

lemma count_where_map: "count_where P (map f xs) = count_where (\<lambda>x. P (f x)) xs"
  by (induction xs) auto

lemma occupied_quotaPoints:
  "occupied (quotaPoints db planID) = count_where (live_in planID) (db_points db)"
proof -
  have "occupied (quotaPoints db planID) = count_where (\<lambda>p. rp_Status p \<noteq> ''deleted'')
      (sort_key (\<lambda>p. (point_time p, rp_ID p)) (filter (\<lambda>p. sql_eq (rp_ProtectionPlanID p) planID) (db_points db)))"
    by (simp add: occupied_def quotaPoints_def count_where_map)
  also have "\<dots> = count_where (\<lambda>p. rp_Status p \<noteq> ''deleted'')
      (filter (\<lambda>p. sql_eq (rp_ProtectionPlanID p) planID) (db_points db))"
    by (rule count_where_mset) simp
  finally show ?thesis by (simp add: count_where_filter live_in_def [abs_def])
qed

lemma quotaPoints_sourceD:
  "p \<in> set (quotaPoints db planID) \<Longrightarrow> \<exists>q \<in> set (db_points db). rp_ID q = rp_ID p \<and>
     rp_ProtectionPlanID q = planID \<and> rp_Status q = rp_Status p \<and> rp_Metadata q = rp_Metadata p"
  by (auto simp: quotaPoints_def sql_eq_def empty_point_def)

text \<open>What a successful reservation has done, in one fact.\<close>

lemma reserve_cases:
  assumes "reserveBackupQuota LoadLocation now db task = Inr db'"
  obtains (skip) "t_Type task \<noteq> ''backup'' \<or> t_ProtectionPlanID task = ''''" "db' = db"
  | (unlimited) "t_Type task = ''backup''" "t_ProtectionPlanID task \<noteq> ''''"
      "db' = releaseFailedBackupReservations db now (t_ProtectionPlanID task)"
      "p_RetentionCount (quotaPolicy db (t_ProtectionPlanID task)) \<le> 0"
  | (taken) d sel used limit replacement d' where
      "t_Type task = ''backup''" "t_ProtectionPlanID task \<noteq> ''''"
      "d = releaseFailedBackupReservations db now (t_ProtectionPlanID task)"
      "limit = p_RetentionCount (quotaPolicy db (t_ProtectionPlanID task))" "0 < limit"
      "used = int (slots d (t_ProtectionPlanID task))"
      "RetentionSelections LoadLocation (quotaPoints d (t_ProtectionPlanID task))
        (p_RetentionRules (quotaPolicy db (t_ProtectionPlanID task)))
        (p_RetentionTimezone (quotaPolicy db (t_ProtectionPlanID task))) now = Inr sel"
      "used < limit \<and> replacement = '''' \<or>
       used = limit \<and> (\<exists>p. find (replaceable d sel) (quotaPoints d (t_ProtectionPlanID task)) = Some p \<and>
         replacement = rp_ID p)"
      "insert_reservation d (new_reservation (t_ID task) (t_ProtectionPlanID task) replacement now) = Inr d'"
      "db' = claim_replacement d' replacement (t_ID task)"
proof -
  let ?plan = "t_ProtectionPlanID task"
  let ?d = "releaseFailedBackupReservations db now ?plan"
  have pol: "quotaPolicy ?d ?plan = quotaPolicy db ?plan" by (rule quiet_policy [OF quiet_release])
  have used: "int (occupied (quotaPoints ?d ?plan)) + int (reserved ?d ?plan) = int (slots ?d ?plan)"
    by (simp add: occupied_quotaPoints slots_def)
  show ?thesis
  proof (cases "t_Type task \<noteq> ''backup'' \<or> ?plan = ''''")
    case True
    with assms skip show ?thesis by (auto simp: reserveBackupQuota_def)
  next
    case False
    show ?thesis
    proof (cases "p_RetentionCount (quotaPolicy db ?plan) \<le> 0")
      case True
      with False assms unlimited pol show ?thesis by (auto simp: reserveBackupQuota_def)
    next
      case positive: False
      from assms False positive obtain sel replacement d' where
        sel: "RetentionSelections LoadLocation (quotaPoints ?d ?plan) (p_RetentionRules (quotaPolicy db ?plan))
          (p_RetentionTimezone (quotaPolicy db ?plan)) now = Inr sel"
        and le: "\<not> p_RetentionCount (quotaPolicy db ?plan) < int (slots ?d ?plan)"
        and rep: "(if p_RetentionCount (quotaPolicy db ?plan) \<le> int (slots ?d ?plan)
           then (case find (replaceable ?d sel) (quotaPoints ?d ?plan) of None \<Rightarrow>
             Inl (ErrRestorePointQuota (quota_message (int (slots ?d ?plan)) (p_RetentionCount (quotaPolicy db ?plan))))
             | Some p \<Rightarrow> Inr (rp_ID p)) else Inr '''') = Inr replacement"
        and ins: "insert_reservation ?d (new_reservation (t_ID task) ?plan replacement now) = Inr d'"
          "db' = claim_replacement d' replacement (t_ID task)"
        unfolding reserveBackupQuota_def Let_def pol used by (auto simp: res_bind_Inr_iff split: if_splits)
      show ?thesis
        by (rule taken [OF _ _ refl refl _ refl sel _ ins])
          (use False positive le rep in \<open>auto split: if_splits option.splits\<close>)
    qed
  qed
qed

lemma insert_reservation_Inr:
  "insert_reservation d rv = Inr d' \<longleftrightarrow>
     d' = d\<lparr>db_reservations := db_reservations d @ [rv]\<rparr> \<and>
     find_row rv_TaskID (rv_TaskID rv) (db_reservations d) = None \<and>
     find_row t_ID (rv_TaskID rv) (db_tasks d) \<noteq> None \<and>
     \<not> (\<exists>r \<in> set (db_reservations d). reserved_for r (rv_ReplacementPointID rv))"
  by (auto simp: insert_reservation_def res_bind_Inr_iff)

lemma slots_insert:
  "slots (d\<lparr>db_reservations := db_reservations d @ [rv]\<rparr>) planID =
     slots d planID + (if holds_slot d planID rv then 1 else 0)"
proof -
  have "holds_slot (d\<lparr>db_reservations := db_reservations d @ [rv]\<rparr>) = holds_slot d"
    by (simp add: holds_slot_def point_deleted_def fun_eq_iff)
  then show ?thesis by (simp add: slots_def reserved_def)
qed

lemma new_reservation_fields [simp]:
  "rv_TaskID (new_reservation taskID planID replacement now) = taskID"
  "rv_PlanID (new_reservation taskID planID replacement now) = planID"
  "rv_ReplacementPointID (new_reservation taskID planID replacement now) = replacement"
  "active (new_reservation taskID planID replacement now)"
  "rv_State (new_reservation taskID planID replacement now) = ''reserved''"
  by (simp_all add: new_reservation_def active_def)

text \<open>A victim is a live point of the same plan.\<close>

lemma victim_live:
  assumes "store_wf d" and "find (replaceable d sel) (quotaPoints d planID) = Some p"
  shows "\<not> point_deleted d (rp_ID p)" and "rp_ID p \<noteq> ''''"
    and "\<exists>q \<in> set (db_points d). rp_ID q = rp_ID p \<and> rp_ProtectionPlanID q = planID"
proof -
  from assms(2) have p: "p \<in> set (quotaPoints d planID)" "replaceable d sel p"
    by (auto simp: find_Some_iff)
  from quotaPoints_sourceD [OF p(1)] obtain q where q: "q \<in> set (db_points d)" "rp_ID q = rp_ID p"
    "rp_ProtectionPlanID q = planID" "rp_Status q = rp_Status p" by blast
  then show "\<exists>q \<in> set (db_points d). rp_ID q = rp_ID p \<and> rp_ProtectionPlanID q = planID" by blast
  from q(1,2) assms(1) show "rp_ID p \<noteq> ''''" unfolding store_wf_def by (metis image_eqI)
  from p(2) q(4) have live: "rp_Status q = ''available''" by (simp add: replaceable_def)
  have "r = q" if "r \<in> set (db_points d)" "rp_ID r = rp_ID q" for r
    using that q(1) assms(1) by (auto simp: store_wf_def distinct_map dest: inj_onD)
  with q(2) live show "\<not> point_deleted d (rp_ID p)" by (auto simp: point_deleted_def sql_eq_def)
qed

lemma insert_reservation_wf:
  assumes wf: "store_wf d" and ins: "insert_reservation d rv = Inr d'"
    and task: "t \<in> set (db_tasks d)" "t_ID t = rv_TaskID rv" "t_ProtectionPlanID t = rv_PlanID rv"
    and plan: "rv_PlanID rv \<noteq> ''''" and ins': "rv_State rv = ''reserved''"
    and point: "rv_ReplacementPointID rv \<noteq> '''' \<Longrightarrow>
      \<exists>q \<in> set (db_points d). rp_ID q = rv_ReplacementPointID rv \<and> rp_ProtectionPlanID q = rv_PlanID rv"
  shows "store_wf d'"
proof -
  from ins have d': "d' = d\<lparr>db_reservations := db_reservations d @ [rv]\<rparr>"
    and new: "find_row rv_TaskID (rv_TaskID rv) (db_reservations d) = None"
    and free: "\<And>r. r \<in> set (db_reservations d) \<Longrightarrow> active r \<Longrightarrow> rv_ReplacementPointID r \<noteq> '''' \<Longrightarrow>
      rv_ReplacementPointID r \<noteq> rv_ReplacementPointID rv"
    by (auto simp: insert_reservation_Inr reserved_for_def sql_eq_def)
  have "distinct (map rv_TaskID (db_reservations d'))"
    using wf new by (auto simp: d' store_wf_def find_row_None)
  moreover have "reservations_ok d'"
    using wf task plan ins' by (auto simp: d' store_wf_def reservations_ok_def known_state_def)
  moreover have "replacements_ok d'"
    unfolding replacements_ok_def
  proof (intro conjI ballI impI)
    fix r assume r: "r \<in> set (db_reservations d')" "active r \<and> rv_ReplacementPointID r \<noteq> ''''"
    show "\<exists>p \<in> set (db_points d'). rp_ID p = rv_ReplacementPointID r \<and> rp_ProtectionPlanID p = rv_PlanID r"
      using r wf point by (cases "r = rv") (auto simp: d' store_wf_def replacements_ok_def)
  next
    fix r s assume "r \<in> set (db_reservations d')" "s \<in> set (db_reservations d')"
      "active r \<and> active s \<and> rv_ReplacementPointID r \<noteq> '''' \<and> rv_ReplacementPointID r = rv_ReplacementPointID s"
    then show "r = s" using wf free [of r] free [of s]
      by (auto simp: d' store_wf_def replacements_ok_def)
  qed
  moreover have "results_ok d'"
    using wf ins' by (auto simp: d' store_wf_def results_ok_def)
  ultimately show ?thesis using wf by (simp add: store_wf_def d')
qed

lemma reserve_wf:
  assumes wf: "store_wf db" and step: "reserveBackupQuota LoadLocation now db task = Inr db'"
    and task: "t \<in> set (db_tasks db)" "t_ID t = t_ID task" "t_ProtectionPlanID t = t_ProtectionPlanID task"
  shows "store_wf db'"
  using step
proof (cases rule: reserve_cases)
  case skip
  with wf show ?thesis by simp
next
  case unlimited
  with wf show ?thesis using quiet_wf [OF quiet_release] by simp
next
  case (taken d sel used limit replacement d')
  have wfd: "store_wf d" using quiet_wf [OF quiet_release wf] taken(3) by simp
  have q: "quiet db d" using quiet_release taken(3) by simp
  then have "list_all2 same_task (db_tasks db) (db_tasks d)" by (simp add: quiet_def)
  from list_all2_inD(2) [OF this task(1)] obtain u where u: "u \<in> set (db_tasks d)" "same_task t u" by blast
  have "store_wf d'"
  proof (rule insert_reservation_wf [OF wfd taken(9) u(1)])
    assume "rv_ReplacementPointID (new_reservation (t_ID task) (t_ProtectionPlanID task) replacement now) \<noteq> ''''"
    with taken(8) victim_live(3) [OF wfd]
    show "\<exists>q \<in> set (db_points d). rp_ID q = rv_ReplacementPointID
        (new_reservation (t_ID task) (t_ProtectionPlanID task) replacement now) \<and>
        rp_ProtectionPlanID q = rv_PlanID (new_reservation (t_ID task) (t_ProtectionPlanID task) replacement now)"
      by auto
  qed (use u(2) task taken(2) in \<open>simp_all add: same_task_def\<close>)
  then show ?thesis unfolding taken(10) by (rule quiet_wf [OF quiet_claim_replacement])
qed

lemma reserve_policy:
  assumes "reserveBackupQuota LoadLocation now db task = Inr db'"
  shows "quotaPolicy db' planID = quotaPolicy db planID"
  using assms
proof (cases rule: reserve_cases)
  case unlimited
  then show ?thesis using quiet_policy [OF quiet_release] by simp
next
  case (taken d sel used limit replacement d')
  have "quotaPolicy db' planID = quotaPolicy d' planID"
    unfolding taken(10) by (rule quiet_policy [OF quiet_claim_replacement])
  also have "\<dots> = quotaPolicy d planID"
    by (rule quotaPolicy_cong) (use taken(9) in \<open>auto simp: insert_reservation_Inr\<close>)
  also have "\<dots> = quotaPolicy db planID" unfolding taken(3) by (rule quiet_policy [OF quiet_release])
  finally show ?thesis .
qed simp

text \<open>A reservation that is made leaves its plan within the limit, and no other plan gains.\<close>

lemma reserve_slots:
  assumes wf: "store_wf db" and step: "reserveBackupQuota LoadLocation now db task = Inr db'"
  shows "slots db' planID \<le> slots db planID \<or>
    planID = t_ProtectionPlanID task \<and> int (slots db' planID) \<le> p_RetentionCount (quotaPolicy db planID)"
  using step
proof (cases rule: reserve_cases)
  case unlimited
  then show ?thesis using quiet_slots [OF quiet_release] by simp
next
  case (taken d sel used limit replacement d')
  have wfd: "store_wf d" using quiet_wf [OF quiet_release wf] taken(3) by simp
  let ?rv = "new_reservation (t_ID task) (t_ProtectionPlanID task) replacement now"
  have "slots db' planID \<le> slots d' planID"
    unfolding taken(10) by (rule quiet_slots [OF quiet_claim_replacement])
  also have "\<dots> = slots d planID + (if holds_slot d planID ?rv then 1 else 0)"
    using taken(9) by (simp add: insert_reservation_Inr slots_insert)
  finally have le: "slots db' planID \<le> slots d planID + (if holds_slot d planID ?rv then 1 else 0)" .
  have dle: "slots d planID \<le> slots db planID" unfolding taken(3) by (rule quiet_slots [OF quiet_release])
  show ?thesis
  proof (cases "holds_slot d planID ?rv")
    case True
    then have plan: "planID = t_ProtectionPlanID task" by (simp add: holds_slot_def)
    have "replacement = ''''"
      using True taken(8) victim_live(1,2) [OF wfd] by (auto simp: holds_slot_def)
    with taken(8) wfd have "used < limit" using victim_live(2) by blast
    with le True plan taken(4,6) show ?thesis by simp
  qed (use le dle in simp)
qed simp

section \<open>Staying within the quota\<close>

text \<open>
  A plan is within its quota when its policy sets no limit or its slots do not exceed it. A step is
  bounded when it leaves the limits alone and each plan gains no slot or ends within its quota; bounded
  steps compose.
\<close>

definition within_quota :: "store_db \<Rightarrow> string \<Rightarrow> bool" where
  "within_quota db planID \<longleftrightarrow> p_RetentionCount (quotaPolicy db planID) \<le> 0 \<or>
     int (slots db planID) \<le> p_RetentionCount (quotaPolicy db planID)"

definition bounded :: "store_db \<Rightarrow> store_db \<Rightarrow> bool" where
  "bounded db db' \<longleftrightarrow> (\<forall>planID. quotaPolicy db' planID = quotaPolicy db planID \<and>
     (slots db' planID \<le> slots db planID \<or> within_quota db' planID))"

lemma bounded_refl [simp]: "bounded db db"
  by (simp add: bounded_def)

lemma bounded_within: "bounded db db' \<Longrightarrow> within_quota db planID \<Longrightarrow> within_quota db' planID"
  unfolding bounded_def within_quota_def by (metis (no_types, lifting) of_nat_le_iff order_trans)

lemma bounded_trans [trans]:
  assumes "bounded a b" "bounded b c"
  shows "bounded a c"
  unfolding bounded_def
proof (intro allI conjI)
  fix planID
  show "quotaPolicy c planID = quotaPolicy a planID" using assms by (simp add: bounded_def)
  from assms(1) have "slots b planID \<le> slots a planID \<or> within_quota b planID" by (simp add: bounded_def)
  moreover from assms(2) have "slots c planID \<le> slots b planID \<or> within_quota c planID" by (simp add: bounded_def)
  ultimately show "slots c planID \<le> slots a planID \<or> within_quota c planID"
    using bounded_within [OF assms(2)] by auto
qed

lemma quiet_bounded: "quiet db db' \<Longrightarrow> bounded db db'"
  unfolding bounded_def using quiet_slots quiet_policy by blast

lemma reserve_bounded:
  assumes "store_wf db" "reserveBackupQuota LoadLocation now db task = Inr db'"
  shows "bounded db db'"
  unfolding bounded_def within_quota_def
  using reserve_slots [OF assms] reserve_policy [OF assms(2)] by (metis (no_types, lifting))

end
