(* ===== verification/Store_Tasks.thy ===== *)
theory Store_Tasks
  imports Quota_Invariant
begin

text \<open>
  Tasks (\<^verbatim>\<open>backend/internal/store/postgres_tasks.go\<close>, \<^verbatim>\<open>tenant_references.go\<close>): creation with the checks
  and reservations it makes in one transaction, claiming by an executor, status reports, listing.
\<close>

section \<open>References\<close>

definition owner_rows :: "store_db \<Rightarrow> string \<Rightarrow> (string \<times> string) list" where
  "owner_rows db tbl =
     (if tbl = ''clusters'' then map (\<lambda>r. (ow_ID r, ow_TenantID r)) (db_clusters db)
      else if tbl = ''applications'' then map (\<lambda>r. (ow_ID r, ow_TenantID r)) (db_applications db)
      else if tbl = ''storage_repositories'' then map (\<lambda>r. (ow_ID r, ow_TenantID r)) (db_repositories db)
      else if tbl = ''protection_plans'' then map (\<lambda>r. (pl_ID r, pl_TenantID r)) (db_plans db)
      else if tbl = ''restore_points'' then map (\<lambda>r. (rp_ID r, rp_TenantID r)) (db_points db)
      else if tbl = ''tasks'' then map (\<lambda>r. (t_ID r, t_TenantID r)) (db_tasks db)
      else [])"

definition validateTenantReference ::
  "store_db \<Rightarrow> string \<Rightarrow> string \<Rightarrow> string \<Rightarrow> store_error + unit" where
  "validateTenantReference db tbl rid tenantID =
     (if rid = '''' then Inr ()
      else (case map_of (owner_rows db tbl) rid of
          None \<Rightarrow> Inl ErrTenantResourceMismatch
        | Some owner \<Rightarrow> res_guard (owner = tenantID) ErrTenantResourceMismatch))"

definition validate_references ::
  "store_db \<Rightarrow> string \<Rightarrow> (string \<times> string) list \<Rightarrow> store_error + unit" where
  "validate_references db tenantID refs =
     res_fold (\<lambda>_ (tbl, rid). validateTenantReference db tbl rid tenantID) () refs"

definition validateTaskReferences :: "store_db \<Rightarrow> TaskInput \<Rightarrow> string \<Rightarrow> store_error + unit" where
  "validateTaskReferences db input tenantID = validate_references db tenantID
     [(''clusters'', ti_ClusterID input), (''applications'', ti_AppID input),
      (''protection_plans'', ti_ProtectionPlanID input), (''restore_points'', ti_RestorePointID input)]"

definition validateRestorePointReferences :: "store_db \<Rightarrow> RestorePointInput \<Rightarrow> string \<Rightarrow> store_error + unit" where
  "validateRestorePointReferences db input tenantID = validate_references db tenantID
     [(''clusters'', ri_SourceClusterID input), (''applications'', ri_AppID input),
      (''protection_plans'', ri_ProtectionPlanID input), (''storage_repositories'', ri_StorageRepoID input),
      (''tasks'', ri_BackupTaskID input)]"

section \<open>Creating a task\<close>

definition task_defaults :: "TaskInput \<Rightarrow> TaskInput" where
  "task_defaults input = input\<lparr>ti_Type := (if ti_Type input = '''' then ''backup'' else ti_Type input),
     ti_Status := (if ti_Status input = '''' then ''queued'' else ti_Status input)\<rparr>"

text \<open>The tenant the task belongs to: the plan's, else the cluster's, else the given or the default one.\<close>

definition task_tenant :: "store_db \<Rightarrow> TaskInput \<Rightarrow> store_error + string" where
  "task_tenant db input =
     (let tenantID = (if ti_TenantID input = '''' then DefaultTenantID else ti_TenantID input) in
      res_bind
       (if ti_ProtectionPlanID input \<noteq> '''' then
          (case find_row pl_ID (ti_ProtectionPlanID input) (db_plans db) of
             None \<Rightarrow> Inl (Errorf (''protection plan '' @ ti_ProtectionPlanID input @ '' not found while creating '' @
               ti_Type input @ '' task''))
           | Some plan \<Rightarrow>
               if pl_Status plan \<in> {''cleanup_running'', ''cleaning'', ''cleanup_failed''} \<and>
                  ti_Type input \<noteq> ''protection-cleanup''
               then Inl ErrProtectionPlanBusy else Inr (pl_TenantID plan))
        else if ti_ClusterID input \<noteq> '''' then
          Inr (case map_of (owner_rows db ''clusters'') (ti_ClusterID input) of None \<Rightarrow> tenantID | Some t \<Rightarrow> t)
        else Inr tenantID) (\<lambda>tenantID.
      if ti_TenantID input \<noteq> '''' \<and> ti_TenantID input \<noteq> tenantID then Inl ErrTenantResourceMismatch
      else Inr tenantID))"

definition backup_busy :: "store_db \<Rightarrow> string \<Rightarrow> bool" where
  "backup_busy db planID \<longleftrightarrow>
     (\<exists>t \<in> set (db_tasks db). sql_eq (t_ProtectionPlanID t) planID \<and> t_Type t = ''backup'' \<and>
        t_Status t \<notin> set closed_statuses) \<or>
     (\<exists>rv \<in> set (db_reservations db). rv_PlanID rv = planID \<and> rv_State rv \<in> {''data_ready'', ''deleting''})"

text \<open>A backup whose data is there cannot be cancelled any more.\<close>

definition irreversible :: "store_db \<Rightarrow> string \<Rightarrow> bool" where
  "irreversible db taskID \<longleftrightarrow>
     (\<exists>rv \<in> set (db_reservations db). taskID \<noteq> '''' \<and> rv_TaskID rv = taskID \<and>
        rv_State rv \<in> {''data_ready'', ''deleting'', ''published''})"

definition task_point :: "TaskInput \<Rightarrow> string" where
  "task_point input = (if ti_RestorePointID input = '''' then any_str (mget (ti_Payload input) ''restorePointId'')
     else ti_RestorePointID input)"

text \<open>
  A drill, restore or takeover locks its point. The plan of the point is locked when it is not the
  task's own and the point is read again; nothing changes in between in an atomic step.
\<close>

definition lock_recovery_point :: "store_db \<Rightarrow> TaskInput \<Rightarrow> string \<Rightarrow> store_error + gomap" where
  "lock_recovery_point db input tenantID =
     (let pointID = task_point input in
      if pointID \<noteq> '''' \<and> recovery_type (ti_Type input) then
        res_bind (case find (\<lambda>p. rp_ID p = pointID \<and> rp_TenantID p = tenantID \<and> rp_Status p = ''available'')
            (db_points db) of None \<Rightarrow> Inl ErrNoRows | Some p \<Rightarrow> Inr p) (\<lambda>p.
        res_bind (if rp_ProtectionPlanID p \<noteq> ti_ProtectionPlanID input
                  then quotaPlanLock db (rp_ProtectionPlanID p) else Inr ()) (\<lambda>_.
        if pointBusy db pointID \<or>
           coalesce_str (jtext (rp_Metadata p) ''retentionState'') '''' \<in> {''deleting'', ''pending_delete''}
        then Inl ErrRestorePointLocked
        else Inr (mset_key ''restorePointTaskCreatedAt'' (AStr (format_rfc3339nano (point_time p)))
               (ti_Payload input))))
      else Inr (ti_Payload input))"

definition new_task :: "string \<Rightarrow> gtime \<Rightarrow> string \<Rightarrow> TaskInput \<Rightarrow> gomap \<Rightarrow> Task" where
  "new_task newID now tenantID input payload =
     \<lparr>t_ID = newID, t_TenantID = tenantID, t_ClusterID = ti_ClusterID input, t_AppID = ti_AppID input,
       t_ProtectionPlanID = ti_ProtectionPlanID input, t_RestorePointID = ti_RestorePointID input,
       t_Type = ti_Type input, t_Status = ti_Status input, t_Progress = 0, t_CommandID = ti_CommandID input,
       t_ErrorCode = '''', t_ErrorMessage = '''', t_Payload = payload, t_CreatedAt = now, t_DispatchedAt = 0,
       t_AcceptedAt = 0, t_StartedAt = 0, t_CompletedAt = 0\<rparr>"

text \<open>The unique indexes of migrations 42 and 49 on registration and capacity tasks.\<close>

definition registration_key :: "Task \<Rightarrow> string \<Rightarrow> string option" where
  "registration_key t key =
     (if t_Type t = ''cluster-registration'' \<and> coalesce_str (jtext (t_Payload t) ''ownerId'') '''' \<noteq> '''' \<and>
         coalesce_str (jtext (t_Payload t) key) '''' \<noteq> ''''
      then jtext (t_Payload t) key else None)"

definition task_index_clash :: "Task \<Rightarrow> Task \<Rightarrow> bool" where
  "task_index_clash t u \<longleftrightarrow>
     (t_TenantID t = t_TenantID u \<and> registration_key t ''idempotencyKey'' \<noteq> None \<and>
        registration_key t ''idempotencyKey'' = registration_key u ''idempotencyKey'' \<and>
        jtext (t_Payload t) ''ownerId'' = jtext (t_Payload u) ''ownerId'') \<or>
     (t_TenantID t = t_TenantID u \<and> registration_key t ''sessionId'' \<noteq> None \<and>
        registration_key t ''sessionId'' = registration_key u ''sessionId'') \<or>
     (t_Type t = ''plan-capacity'' \<and> t_Type u = ''plan-capacity'' \<and> sql_eq (t_ClusterID t) (t_ClusterID u) \<and>
        (t_Status t \<in> {''queued'', ''dispatched'', ''accepted'', ''running''} \<and>
           t_Status u \<in> {''queued'', ''dispatched'', ''accepted'', ''running''} \<or>
         jtext (t_Payload t) ''scheduleDay'' \<noteq> None \<and>
           jtext (t_Payload t) ''scheduleDay'' = jtext (t_Payload u) ''scheduleDay''))"

definition insert_task :: "store_db \<Rightarrow> Task \<Rightarrow> store_error + store_db" where
  "insert_task db task =
     res_bind (res_guard (find_row t_ID (t_ID task) (db_tasks db) = None) (ErrConstraint ''tasks_pkey'')) (\<lambda>_.
     res_bind (res_guard (t_TenantID task \<in> tn_ID ` set (db_tenants db)) (ErrConstraint ''tasks_tenant_id_fkey'')) (\<lambda>_.
     let row = task\<lparr>t_Payload := json_object (t_Payload task)\<rparr> in
     res_bind (res_guard (\<not> (\<exists>t \<in> set (db_tasks db). task_index_clash t row)) (ErrConstraint ''tasks unique index'')) (\<lambda>_.
     Inr (db\<lparr>db_tasks := db_tasks db @ [row]\<rparr>))))"

text \<open>An exhausted quota fails the task and keeps it, so that the user sees why; any other error aborts.\<close>

definition fail_over_quota :: "store_db \<Rightarrow> gtime \<Rightarrow> Task \<Rightarrow> string \<Rightarrow> store_db \<times> Task" where
  "fail_over_quota db now task msg =
     (let mark = (\<lambda>t. t\<lparr>t_Status := ''failed'', t_ErrorCode := ''RESTORE_POINT_QUOTA_EXHAUSTED'',
            t_ErrorMessage := msg, t_CompletedAt := now\<rparr>)
      in (db\<lparr>db_tasks := update_where (\<lambda>t. t_ID t = t_ID task) mark (db_tasks db)\<rparr>, mark task))"

definition publish_pointer :: "store_db \<Rightarrow> Task \<Rightarrow> store_error + store_db" where
  "publish_pointer db task =
     (if t_Type task = ''backup'' \<or> recovery_type (t_Type task) then
        let upd = (if t_Type task = ''backup'' then (\<lambda>p. p\<lparr>pl_LatestSyncTaskID := t_ID task\<rparr>)
                   else (\<lambda>p. p\<lparr>pl_LatestRecoveryTaskID := t_ID task\<rparr>))
        in if count_where (\<lambda>p. pl_ID p = t_ProtectionPlanID task) (db_plans db) \<noteq> 1
           then Inl (Errorf (''protection plan '' @ t_ProtectionPlanID task @ '' not found while creating '' @
             t_Type task @ '' task''))
           else Inr (db\<lparr>db_plans := update_where (\<lambda>p. pl_ID p = t_ProtectionPlanID task) upd (db_plans db)\<rparr>)
      else Inr db)"

definition reserve_for_task ::
  "(string \<Rightarrow> location option) \<Rightarrow> gtime \<Rightarrow> store_db \<Rightarrow> Task \<Rightarrow> store_error + store_db \<times> Task" where
  "reserve_for_task LoadLocation now db task =
     res_bind (case reserveBackupQuota LoadLocation now db task of
         Inr db \<Rightarrow> Inr (db, task)
       | Inl (ErrRestorePointQuota msg) \<Rightarrow>
           Inr (fail_over_quota (releaseFailedBackupReservations db now (t_ProtectionPlanID task)) now task msg)
       | Inl e \<Rightarrow> Inl e) (\<lambda>(db, task).
     res_bind (publish_pointer db task) (\<lambda>db. Inr (db, task)))"

definition create_task_tx ::
  "(string \<Rightarrow> location option) \<Rightarrow> string \<Rightarrow> gtime \<Rightarrow> store_db \<Rightarrow> TaskInput \<Rightarrow> Task tx" where
  "create_task_tx LoadLocation newID now db input =
     res_bind (task_tenant db input) (\<lambda>tenantID.
     res_bind (validateTaskReferences db input tenantID) (\<lambda>_.
     if ti_Type input = ''backup'' \<and> ti_ProtectionPlanID input \<noteq> '''' \<and> \<not> ti_SuppressLatestPointer input \<and>
        backup_busy db (ti_ProtectionPlanID input)
     then Inl ErrProtectionPlanBusy
     else if ti_Type input = ''backup-cancel'' \<and>
        irreversible db (any_str (mget (ti_Payload input) ''targetTaskId''))
     then Inl ErrRestorePointLocked
     else
     res_bind (lock_recovery_point db input tenantID) (\<lambda>payload.
     let task = new_task newID now tenantID input payload in
     res_bind (insert_task db task) (\<lambda>db.
     res_bind (if t_ProtectionPlanID task \<noteq> '''' \<and> \<not> ti_SuppressLatestPointer input
               then reserve_for_task LoadLocation now db task else Inr (db, task)) (\<lambda>(db, task).
     res_bind (prepareRestorePointDeletion LoadLocation now db task) (\<lambda>db.
     Inr (db, task)))))))"

definition CreateTask ::
  "(string \<Rightarrow> location option) \<Rightarrow> string \<Rightarrow> gtime \<Rightarrow> store_db \<Rightarrow> TaskInput \<Rightarrow> store_db \<times> (store_error + Task)" where
  "CreateTask LoadLocation newID now db input =
     run_tx db (create_task_tx LoadLocation newID now db (task_defaults input))"

section \<open>Claiming and reading\<close>

definition getTask :: "store_db \<Rightarrow> string \<Rightarrow> Task option" where
  "getTask db taskID = find_row t_ID taskID (db_tasks db)"

definition claimed :: "gtime \<Rightarrow> string \<Rightarrow> Task \<Rightarrow> Task" where
  "claimed now executorID t = t\<lparr>t_Status := ''running'',
     t_AcceptedAt := (if t_AcceptedAt t = 0 then now else t_AcceptedAt t),
     t_StartedAt := (if t_StartedAt t = 0 then now else t_StartedAt t),
     t_Payload := jmerge (t_Payload t) [(''executorId'', AStr executorID), (''stage'', AStr ''preparing'')]\<rparr>"

definition claim_rows :: "gtime \<Rightarrow> string \<Rightarrow> (Task \<Rightarrow> bool) \<Rightarrow> store_db \<Rightarrow> store_db" where
  "claim_rows now executorID hit db = db\<lparr>db_tasks := update_where hit (claimed now executorID) (db_tasks db)\<rparr>"

text \<open>The oldest queued task of a type; tasks created at the same instant are taken in table order.\<close>

definition oldest_queued :: "store_db \<Rightarrow> string \<Rightarrow> Task option" where
  "oldest_queued db taskType =
     (case sort_key t_CreatedAt (filter (\<lambda>t. t_Type t = taskType \<and> t_Status t = ''queued'') (db_tasks db)) of
        [] \<Rightarrow> None | t # _ \<Rightarrow> Some t)"

definition ClaimQueuedTask :: "store_db \<Rightarrow> gtime \<Rightarrow> string \<Rightarrow> string \<Rightarrow> store_db \<times> Task option" where
  "ClaimQueuedTask db now taskType executorID =
     (case oldest_queued db taskType of
        None \<Rightarrow> (db, None)
      | Some t \<Rightarrow> let hit = (\<lambda>u. t_ID u = t_ID t \<and> t_Status u = ''queued'') in
          if count_where hit (db_tasks db) \<noteq> 1 then (db, None)
          else let db = claim_rows now executorID hit db in (db, getTask db (t_ID t)))"

definition ClaimQueuedTaskByID :: "store_db \<Rightarrow> gtime \<Rightarrow> string \<Rightarrow> string \<Rightarrow> string \<Rightarrow> store_db \<times> Task option" where
  "ClaimQueuedTaskByID db now taskID taskType executorID =
     (let hit = (\<lambda>u. t_ID u = taskID \<and> t_Type u = taskType \<and> t_Status u = ''queued'');
          db' = claim_rows now executorID hit db
      in if count_where hit (db_tasks db) \<noteq> 1 then (db', None) else (db', getTask db' taskID))"

record TaskFilter =
  tf_CapacityTrigger :: string
  tf_CapacityScheduleDay :: string
  tf_CapacityPlanID :: string
  tf_TenantID :: string
  tf_RegistrationOwnerID :: string
  tf_RegistrationKey :: string
  tf_RegistrationSessionID :: string
  tf_ClusterID :: string
  tf_ProtectionPlanID :: string
  tf_Types :: "string list"
  tf_Statuses :: "string list"
  tf_Limit :: int
  tf_Summary :: bool

definition payload_is :: "Task \<Rightarrow> string \<Rightarrow> string \<Rightarrow> bool" where
  "payload_is t k v \<longleftrightarrow> v = '''' \<or> jtext (t_Payload t) k = Some v"

text \<open>\<^verbatim>\<open>payload->'planCapacity'->'plans' @> [{"planId": v}]\<close>\<close>

definition capacity_plan :: "Task \<Rightarrow> string \<Rightarrow> bool" where
  "capacity_plan t v \<longleftrightarrow>
     (case mget (t_Payload t) ''planCapacity'' of
        AMap m \<Rightarrow> (case mget m ''plans'' of
            ASlice es \<Rightarrow> list_ex (\<lambda>e. case e of AMap em \<Rightarrow> mget em ''planId'' = AStr v | _ \<Rightarrow> False) es
          | _ \<Rightarrow> False)
      | _ \<Rightarrow> False)"

definition task_matches :: "TaskFilter \<Rightarrow> Task \<Rightarrow> bool" where
  "task_matches f t \<longleftrightarrow>
     payload_is t ''trigger'' (tf_CapacityTrigger f) \<and>
     payload_is t ''scheduleDay'' (tf_CapacityScheduleDay f) \<and>
     (tf_CapacityPlanID f = '''' \<or> capacity_plan t (tf_CapacityPlanID f)) \<and>
     payload_is t ''ownerId'' (tf_RegistrationOwnerID f) \<and>
     payload_is t ''idempotencyKey'' (tf_RegistrationKey f) \<and>
     payload_is t ''sessionId'' (tf_RegistrationSessionID f) \<and>
     (tf_TenantID f = '''' \<or> t_TenantID t = tf_TenantID f) \<and>
     (tf_ClusterID f = '''' \<or> sql_eq (t_ClusterID t) (tf_ClusterID f)) \<and>
     (tf_ProtectionPlanID f = '''' \<or> sql_eq (t_ProtectionPlanID t) (tf_ProtectionPlanID f)) \<and>
     (tf_Types f = [] \<or> t_Type t \<in> set (tf_Types f)) \<and>
     (tf_Statuses f = [] \<or> t_Status t \<in> set (tf_Statuses f))"

definition summary_keys :: "string list" where
  "summary_keys = [''namespace'', ''sourceNamespace'', ''targetNamespace'', ''targetNamespaces'',
     ''targetClusterName'', ''applicationName'', ''stage'', ''recoveryStages'', ''archivedClusterId'',
     ''archivedClusterName'', ''restorePointId'', ''archivedRestorePointId'', ''pointId'', ''veleroBackupName'',
     ''backupName'', ''storageRepoId'', ''repositoryId'', ''storageRepo'', ''backupStorageName'',
     ''storageLocation'', ''repository'', ''name'']"

text \<open>\<^verbatim>\<open>jsonb_strip_nulls\<close> drops null members of objects, at every depth.\<close>

fun strip_nulls :: "any \<Rightarrow> any" where
  "strip_nulls (AMap m) = AMap (map (\<lambda>(k, v). (k, strip_nulls v)) (filter (\<lambda>(k, v). v \<noteq> ANil) m))"
| "strip_nulls (ASlice vs) = ASlice (map strip_nulls vs)"
| "strip_nulls v = v"

definition project_keys :: "string list \<Rightarrow> gomap \<Rightarrow> gomap" where
  "project_keys ks m = map (\<lambda>k. (k, strip_nulls (mget m k))) (filter (\<lambda>k. mget m k \<noteq> ANil) ks)"

definition listTasks :: "store_db \<Rightarrow> TaskFilter \<Rightarrow> Task list" where
  "listTasks db f =
     (let rows = rev (sort_key t_CreatedAt (filter (task_matches f) (db_tasks db)));
          rows = (if tf_Limit f > 0 then take (nat (tf_Limit f)) rows else rows)
      in if tf_Summary f then map (\<lambda>t. t\<lparr>t_Payload := project_keys summary_keys (t_Payload t)\<rparr>) rows else rows)"

definition empty_filter :: TaskFilter where
  "empty_filter = \<lparr>tf_CapacityTrigger = '''', tf_CapacityScheduleDay = '''', tf_CapacityPlanID = '''',
     tf_TenantID = '''', tf_RegistrationOwnerID = '''', tf_RegistrationKey = '''', tf_RegistrationSessionID = '''',
     tf_ClusterID = '''', tf_ProtectionPlanID = '''', tf_Types = [], tf_Statuses = [], tf_Limit = 0,
     tf_Summary = False\<rparr>"

definition ListTasks :: "store_db \<Rightarrow> string \<Rightarrow> Task list" where
  "ListTasks db clusterID = listTasks db (empty_filter\<lparr>tf_ClusterID := clusterID\<rparr>)"

section \<open>Status reports\<close>

text \<open>
  A report that would end a backup whose data is already accepted, other than by success, is turned
  into \<^verbatim>\<open>finalizing\<close>: the publication has to run to its end.
\<close>

definition publishing :: "store_db \<Rightarrow> string \<Rightarrow> bool" where
  "publishing db taskID \<longleftrightarrow>
     (\<exists>rv \<in> set (db_reservations db). rv_TaskID rv = taskID \<and>
        rv_State rv \<in> {''data_ready'', ''deleting'', ''published''} \<and>
        (\<exists>t \<in> set (db_tasks db). t_ID t = taskID \<and> t_CompletedAt t = 0))"

definition defer_failure :: "store_db \<Rightarrow> TaskStatusInput \<Rightarrow> TaskStatusInput" where
  "defer_failure db input =
     (if ts_MarkDone input \<and> ts_Status input \<noteq> ''succeeded'' \<and> publishing db (ts_TaskID input)
      then input\<lparr>ts_Status := ''finalizing'', ts_MarkDone := False\<rparr> else input)"

definition status_payload :: "TaskStatusInput \<Rightarrow> gtime \<Rightarrow> gomap" where
  "status_payload input now = mset_key ''lastStatusAt'' (AStr (format_rfc3339nano now)) (ts_Payload input)"

definition status_row :: "TaskStatusInput \<Rightarrow> gtime \<Rightarrow> Task \<Rightarrow> Task" where
  "status_row input now t =
     (let over = (t_CompletedAt t \<noteq> 0) in
      t\<lparr>t_Status := (if over then t_Status t else if ts_Status input = '''' then t_Status t else ts_Status input),
        t_RestorePointID := (if over then t_RestorePointID t
          else if ts_RestorePointID input = '''' then t_RestorePointID t else ts_RestorePointID input),
        t_Progress := max (t_Progress t) (ts_Progress input),
        t_ErrorCode := (if over then t_ErrorCode t else ts_ErrorCode input),
        t_ErrorMessage := (if over then t_ErrorMessage t else ts_ErrorMessage input),
        t_Payload := jmerge (t_Payload t) (json_object (status_payload input now)),
        t_AcceptedAt := (if ts_MarkAccepted input \<and> t_AcceptedAt t = 0 then now else t_AcceptedAt t),
        t_StartedAt := (if ts_MarkStarted input \<and> t_StartedAt t = 0 then now else t_StartedAt t),
        t_CompletedAt := (if ts_MarkDone input \<and> t_CompletedAt t = 0 then now else t_CompletedAt t),
        t_DispatchedAt := (if ts_Status input = ''dispatched'' \<and> t_DispatchedAt t = 0 then now
          else t_DispatchedAt t)\<rparr>)"

text \<open>The bookkeeping at the end of a task: free its slot, or keep the point of the last good drill.\<close>

definition unlock_replaced :: "store_db \<Rightarrow> string \<Rightarrow> store_db" where
  "unlock_replaced db taskID =
     db\<lparr>db_points := update_where
       (\<lambda>p. \<exists>rv \<in> set (db_reservations db). sql_eq (rv_ReplacementPointID rv) (rp_ID p) \<and> rv_TaskID rv = taskID \<and>
          rv_State rv = ''reserved'' \<and> task_failed db taskID)
       (\<lambda>p. p\<lparr>rp_Metadata := mdelete ''replacementTaskId'' (rp_Metadata p)\<rparr>) (db_points db)\<rparr>"

definition release_reserved :: "store_db \<Rightarrow> gtime \<Rightarrow> string \<Rightarrow> store_db" where
  "release_reserved db now taskID =
     db\<lparr>db_reservations := update_where
       (\<lambda>rv. rv_TaskID rv = taskID \<and> rv_State rv = ''reserved'' \<and> task_failed db taskID)
       (\<lambda>rv. rv\<lparr>rv_State := ''released'', rv_UpdatedAt := now\<rparr>) (db_reservations db)\<rparr>"

definition drill_point :: "Task \<Rightarrow> string" where
  "drill_point t = (if t_RestorePointID t \<noteq> '''' then t_RestorePointID t
     else coalesce_str (jtext (t_Payload t) ''restorePointId'') '''')"

definition retain_drilled :: "store_db \<Rightarrow> gtime \<Rightarrow> string \<Rightarrow> string \<Rightarrow> store_db" where
  "retain_drilled db now planID taskID =
     (case find (\<lambda>t. t_ID t = taskID \<and> t_Type t = ''drill'' \<and> t_Status t = ''succeeded'' \<and> t_CompletedAt t = now)
        (db_tasks db) of
        None \<Rightarrow> db
      | Some t \<Rightarrow> db\<lparr>db_points := update_where (\<lambda>p. sql_eq (rp_ProtectionPlanID p) planID)
          (\<lambda>p. p\<lparr>rp_Metadata := mset_key ''drillRetained''
             (if drill_point t = '''' then ANil else ABool (rp_ID p = drill_point t)) (rp_Metadata p)\<rparr>)
          (db_points db)\<rparr>)"

definition finish_task :: "store_db \<Rightarrow> gtime \<Rightarrow> string \<Rightarrow> string \<Rightarrow> store_db" where
  "finish_task db now planID taskID =
     retain_drilled (release_reserved (unlock_replaced db taskID) now taskID) now planID taskID"

definition update_status_tx :: "store_db \<Rightarrow> gtime \<Rightarrow> TaskStatusInput \<Rightarrow> (Task option) tx" where
  "update_status_tx db now input =
     (case find_row t_ID (ts_TaskID input) (db_tasks db) of
        None \<Rightarrow> Inr (db, None)
      | Some task \<Rightarrow>
        res_bind (quotaPlanLock db (t_ProtectionPlanID task)) (\<lambda>_.
        let input = defer_failure db input in
        res_bind (if ts_RestorePointID input \<noteq> '''' \<and> t_CompletedAt task = 0
                  then validateTenantReference db ''restore_points'' (ts_RestorePointID input) (t_TenantID task)
                  else Inr ()) (\<lambda>_.
        let db = db\<lparr>db_tasks := update_where (\<lambda>t. t_ID t = ts_TaskID input) (status_row input now) (db_tasks db)\<rparr>;
            db = (if ts_MarkDone input \<or> ts_Status input \<in> set failed_statuses
                  then finish_task db now (t_ProtectionPlanID task) (ts_TaskID input) else db)
        in Inr (db, getTask db (ts_TaskID input)))))"

definition UpdateTaskStatus ::
  "store_db \<Rightarrow> gtime \<Rightarrow> TaskStatusInput \<Rightarrow> store_db \<times> (store_error + Task option)" where
  "UpdateTaskStatus db now input = run_tx db (update_status_tx db now input)"

definition AddTaskEvent ::
  "string \<Rightarrow> gtime \<Rightarrow> store_db \<Rightarrow> TaskEventInput \<Rightarrow> store_db \<times> (store_error + unit)" where
  "AddTaskEvent newID now db input = run_tx db (
     res_bind (res_guard (find_row t_ID (te_TaskID input) (db_tasks db) \<noteq> None)
       (ErrConstraint ''task_events_task_id_fkey'')) (\<lambda>_.
     Inr (db\<lparr>db_task_events := db_task_events db @
       [\<lparr>tv_ID = newID, tv_TaskID = te_TaskID input, tv_Level = te_Level input, tv_Reason = te_Reason input,
         tv_Message = te_Message input, tv_Payload = json_object (te_Payload input), tv_CreatedAt = now\<rparr>]\<rparr>, ())))"

end
