(* ===== verification/Backup_Result.thy ===== *)
theory Backup_Result
  imports Store_Tasks
begin

text \<open>
  The result of a backup as it travels through JSON (\<^verbatim>\<open>backend/internal/store/backup_result.go\<close> and the
  struct \<^verbatim>\<open>RestorePointInput\<close>): the snapshot that a backup task keeps of the result it accepted, the
  comparison of two results, and the test that the size metrics are complete. Nil and empty maps are one
  value here.
\<close>

section \<open>Decoding a JSON object into a struct\<close>

text \<open>A missing or null member leaves the zero value; a member of another type is an error.\<close>

definition dec_str :: "gomap \<Rightarrow> string \<Rightarrow> store_error + string" where
  "dec_str m k = (case mget m k of AStr s \<Rightarrow> Inr s | ANil \<Rightarrow> Inr '''' | _ \<Rightarrow> Inl ErrJson)"

definition dec_int64 :: "gomap \<Rightarrow> string \<Rightarrow> store_error + int" where
  "dec_int64 m k = (case mget m k of
     ANum n \<Rightarrow> if - (2 ^ 63) \<le> n \<and> n < 2 ^ 63 then Inr n else Inl ErrJson
   | ANil \<Rightarrow> Inr 0 | _ \<Rightarrow> Inl ErrJson)"

definition dec_bool :: "gomap \<Rightarrow> string \<Rightarrow> store_error + bool" where
  "dec_bool m k = (case mget m k of ABool b \<Rightarrow> Inr b | ANil \<Rightarrow> Inr False | _ \<Rightarrow> Inl ErrJson)"

definition dec_time :: "gomap \<Rightarrow> string \<Rightarrow> store_error + gtime" where
  "dec_time m k = (case mget m k of
     AStr s \<Rightarrow> (case parse_rfc3339nano s of Some t \<Rightarrow> Inr t | None \<Rightarrow> Inl ErrJson)
   | ANil \<Rightarrow> Inr 0 | _ \<Rightarrow> Inl ErrJson)"

definition dec_map :: "gomap \<Rightarrow> string \<Rightarrow> store_error + gomap" where
  "dec_map m k = (case mget m k of AMap v \<Rightarrow> Inr v | ANil \<Rightarrow> Inr [] | _ \<Rightarrow> Inl ErrJson)"

definition encode_point_input :: "RestorePointInput \<Rightarrow> gomap" where
  "encode_point_input i = json_object
     [(''ProtectionPlanID'', AStr (ri_ProtectionPlanID i)), (''SourceClusterID'', AStr (ri_SourceClusterID i)),
      (''AppID'', AStr (ri_AppID i)), (''StorageRepoID'', AStr (ri_StorageRepoID i)),
      (''DisplayName'', AStr (ri_DisplayName i)), (''TaskCreatedAt'', ATime (ri_TaskCreatedAt i)),
      (''VeleroBackupName'', AStr (ri_VeleroBackupName i)), (''PointType'', AStr (ri_PointType i)),
      (''Status'', AStr (ri_Status i)), (''SizeBytes'', ANum (ri_SizeBytes i)),
      (''StartedAt'', ATime (ri_StartedAt i)), (''CompletedAt'', ATime (ri_CompletedAt i)),
      (''ExpiresAt'', ATime (ri_ExpiresAt i)), (''SourceNamespace'', AStr (ri_SourceNamespace i)),
      (''LabelSelector'', AStr (ri_LabelSelector i)), (''BackupTaskID'', AStr (ri_BackupTaskID i)),
      (''BackupStorageName'', AStr (ri_BackupStorageName i)), (''Metadata'', AMap (ri_Metadata i)),
      (''SizeMetricsV2'', AMap (ri_SizeMetricsV2 i))]"

definition decode_point_input :: "gomap \<Rightarrow> store_error + RestorePointInput" where
  "decode_point_input m =
     res_bind (dec_str m ''ProtectionPlanID'') (\<lambda>planID.
     res_bind (dec_str m ''SourceClusterID'') (\<lambda>clusterID.
     res_bind (dec_str m ''AppID'') (\<lambda>appID.
     res_bind (dec_str m ''StorageRepoID'') (\<lambda>repoID.
     res_bind (dec_str m ''DisplayName'') (\<lambda>displayName.
     res_bind (dec_time m ''TaskCreatedAt'') (\<lambda>taskCreatedAt.
     res_bind (dec_str m ''VeleroBackupName'') (\<lambda>backupName.
     res_bind (dec_str m ''PointType'') (\<lambda>pointType.
     res_bind (dec_str m ''Status'') (\<lambda>status.
     res_bind (dec_int64 m ''SizeBytes'') (\<lambda>sizeBytes.
     res_bind (dec_time m ''StartedAt'') (\<lambda>startedAt.
     res_bind (dec_time m ''CompletedAt'') (\<lambda>completedAt.
     res_bind (dec_time m ''ExpiresAt'') (\<lambda>expiresAt.
     res_bind (dec_str m ''SourceNamespace'') (\<lambda>sourceNamespace.
     res_bind (dec_str m ''LabelSelector'') (\<lambda>labelSelector.
     res_bind (dec_str m ''BackupTaskID'') (\<lambda>backupTaskID.
     res_bind (dec_str m ''BackupStorageName'') (\<lambda>backupStorageName.
     res_bind (dec_map m ''Metadata'') (\<lambda>metadata.
     res_bind (dec_map m ''SizeMetricsV2'') (\<lambda>metrics.
     Inr \<lparr>ri_ProtectionPlanID = planID, ri_SourceClusterID = clusterID, ri_AppID = appID,
       ri_StorageRepoID = repoID, ri_DisplayName = displayName, ri_TaskCreatedAt = taskCreatedAt,
       ri_VeleroBackupName = backupName, ri_PointType = pointType, ri_Status = status,
       ri_SizeBytes = sizeBytes, ri_StartedAt = startedAt, ri_CompletedAt = completedAt,
       ri_ExpiresAt = expiresAt, ri_SourceNamespace = sourceNamespace, ri_LabelSelector = labelSelector,
       ri_BackupTaskID = backupTaskID, ri_BackupStorageName = backupStorageName, ri_Metadata = metadata,
       ri_SizeMetricsV2 = metrics\<rparr>)))))))))))))))))))"

section \<open>Metrics\<close>

text \<open>
  \<^verbatim>\<open>json.Marshal\<close> writes the members of a map in the order of their keys, so equal bytes mean equal
  values up to the order of members.
\<close>

fun canonical :: "any \<Rightarrow> any" where
  "canonical (AMap m) = AMap (sort_key fst (map (\<lambda>(k, v). (k, canonical v)) m))"
| "canonical (ASlice vs) = ASlice (map canonical vs)"
| "canonical v = v"

definition backupMetricsEqual :: "gomap \<Rightarrow> gomap \<Rightarrow> bool" where
  "backupMetricsEqual a b \<longleftrightarrow> canonical (json_value (AMap a)) = canonical (json_value (AMap b))"

definition dec_usage :: "gomap \<Rightarrow> string \<Rightarrow> store_error + bool \<times> int" where
  "dec_usage m k = res_bind (dec_map m k) (\<lambda>u.
     res_bind (dec_bool u ''known'') (\<lambda>known. res_bind (dec_int64 u ''totalBytes'') (\<lambda>total. Inr (known, total))))"

definition CompleteBackupMetrics :: "gomap \<Rightarrow> bool" where
  "CompleteBackupMetrics metrics =
     (let m = json_object metrics in
      case (dec_int64 m ''schemaVersion'', dec_usage m ''logical'', dec_usage m ''newData'') of
        (Inr version, Inr (logicalKnown, logicalBytes), Inr (newKnown, newBytes)) \<Rightarrow>
          version = 2 \<and> logicalKnown \<and> logicalBytes > 0 \<and> newKnown \<and> newBytes \<ge> 0
      | _ \<Rightarrow> False)"

section \<open>Round trip\<close>

definition storable_input :: "RestorePointInput \<Rightarrow> bool" where
  "storable_input i \<longleftrightarrow> storable_time (ri_TaskCreatedAt i) \<and> storable_time (ri_StartedAt i) \<and>
     storable_time (ri_CompletedAt i) \<and> storable_time (ri_ExpiresAt i) \<and>
     - (2 ^ 63) \<le> ri_SizeBytes i \<and> ri_SizeBytes i < 2 ^ 63"

text \<open>What a stored input reads as: the maps in their JSON form.\<close>

definition reload_input :: "RestorePointInput \<Rightarrow> RestorePointInput" where
  "reload_input i = i\<lparr>ri_Metadata := json_object (ri_Metadata i), ri_SizeMetricsV2 := json_object (ri_SizeMetricsV2 i)\<rparr>"

lemma json_value_map: "json_value (AMap m) = AMap (json_object m)"
  by (simp add: json_object_def)

lemma decode_encode:
  assumes "storable_input i"
  shows "decode_point_input (encode_point_input i) = Inr (reload_input i)"
proof -
  have t: "storable_time (ri_TaskCreatedAt i)" "storable_time (ri_StartedAt i)" "storable_time (ri_CompletedAt i)"
      "storable_time (ri_ExpiresAt i)" and s: "- (2 ^ 63) \<le> ri_SizeBytes i" "ri_SizeBytes i < 2 ^ 63"
    using assms by (auto simp: storable_input_def)
  note p = t [THEN storable_parse]
  show ?thesis
    unfolding decode_point_input_def encode_point_input_def
    using p s by (simp add: dec_str_def dec_time_def dec_int64_def dec_map_def reload_input_def json_value_map
        del: json_value.simps(6))
qed

text \<open>The snapshot of an accepted backup result is faithful: decoding what was stored in the task gives
  the input back, its maps in their JSON form, for every input whose times lie in the years 1 to 9999.\<close>

theorem point_input_roundtrip:
  assumes "storable_input i"
  shows "decode_point_input (encode_point_input i) = Inr (reload_input i)"
  using assms by (rule decode_encode)

definition sample_input :: RestorePointInput where
  "sample_input = \<lparr>ri_ProtectionPlanID = ''plan'', ri_SourceClusterID = ''c1'', ri_AppID = '''',
     ri_StorageRepoID = '''', ri_DisplayName = '''', ri_TaskCreatedAt = 0, ri_VeleroBackupName = ''backup-1'',
     ri_PointType = ''backup'', ri_Status = ''available'', ri_SizeBytes = 42, ri_StartedAt = 0,
     ri_CompletedAt = 5000, ri_ExpiresAt = 0, ri_SourceNamespace = '''', ri_LabelSelector = '''',
     ri_BackupTaskID = ''t1'', ri_BackupStorageName = '''', ri_Metadata = [(''namespaces'', AStrs [''a'', ''b''])],
     ri_SizeMetricsV2 = [(''schemaVersion'', ANum 2),
       (''logical'', AMap [(''known'', ABool True), (''totalBytes'', ANum 10)]),
       (''newData'', AMap [(''known'', ABool True), (''totalBytes'', ANum 3)])]\<rparr>"

theorem point_input_roundtrip_witness:
  "decode_point_input (encode_point_input sample_input) = Inr (reload_input sample_input) \<and>
   CompleteBackupMetrics (ri_SizeMetricsV2 sample_input)"
proof
  have "storable_input sample_input" by code_simp
  then show "decode_point_input (encode_point_input sample_input) = Inr (reload_input sample_input)"
    by (rule point_input_roundtrip)
  show "CompleteBackupMetrics (ri_SizeMetricsV2 sample_input)" by code_simp
qed

lemma json_value_idem: "json_value (json_value v) = json_value v"
  by (induction v rule: json_value.induct) auto

lemma json_object_idem: "json_object (json_object m) = json_object m"
  using json_value_idem [of "AMap m"] by (simp add: json_value_map del: json_value.simps(6))

lemma reload_idem: "reload_input (reload_input i) = reload_input i"
  by (simp add: reload_input_def json_object_idem)

lemma metrics_equal_reload: "backupMetricsEqual (json_object m) m"
  by (simp add: backupMetricsEqual_def json_value_map json_object_idem del: json_value.simps(6))

end
