(* ===== verification/Store_Sample.thy ===== *)
theory Store_Sample
  imports Store_State
begin

text \<open>
  A small database for concrete runs: one tenant with a cluster, an application and a repository, and a
  plan whose policy keeps one restore point and takes a backup every day at three.
\<close>

definition sample_policy_row :: Policy where
  "sample_policy_row = zero_policy\<lparr>p_RetentionTimezone := ''UTC'', p_ID := ''pol1'', p_TenantID := ''t1'', p_Name := ''daily'',
     p_Composition := ''combined'', p_ScheduleType := ''daily'', p_Hour := 3, p_RetentionCount := 1, p_Status := ''active''\<rparr>"

definition sample_plan :: ProtectionPlan where
  "sample_plan = \<lparr>pl_ID = ''plan1'', pl_TenantID = ''t1'', pl_SourceClusterID = ''c1'', pl_AppID = ''a1'', pl_AppIDs = [''a1''],
     pl_ScopeType = ''all'', pl_IncludedResources = [],
     pl_ResourceSelection = \<lparr>rsel_Mode = ''all'', rsel_NamespaceScoped = [], rsel_ClusterScoped = []\<rparr>,
     pl_LabelSelector = \<lparr>ls_MatchLabels = [], ls_MatchExpressions = []\<rparr>, pl_IncludeClusterScoped = False,
     pl_StorageRepoID = ''s1'', pl_PolicyID = ''pol1'', pl_TargetClusterID = '''', pl_ExcludedResources = [],
     pl_PreHooks = [], pl_PostHooks = [], pl_PlanStorageSize = [], pl_NextFireAt = 0, pl_ScheduleEnabled = False,
     pl_LatestSyncTaskID = '''', pl_LatestRecoveryTaskID = '''', pl_Status = ''active'', pl_CreatedAt = 10, pl_UpdatedAt = 10\<rparr>"

definition sample_db :: store_db where
  "sample_db = \<lparr>db_tenants = [\<lparr>tn_ID = ''t1'', tn_Status = ''active''\<rparr>],
     db_clusters = [\<lparr>ow_ID = ''c1'', ow_TenantID = ''t1''\<rparr>],
     db_applications = [\<lparr>ow_ID = ''a1'', ow_TenantID = ''t1'', ap_ClusterID = ''c1'', ap_Namespace = ''shop'', ap_ProtectionStatus = ''protected'', ap_UpdatedAt = 0\<rparr>],
     db_repositories = [\<lparr>ow_ID = ''s1'', ow_TenantID = ''t1'', sr_Name = ''Main Store''\<rparr>],
     db_policies = [sample_policy_row], db_plans = [sample_plan],
     db_schedules = [\<lparr>ps_ProtectionPlanID = ''plan1'', ps_LastFiredAt = 0, ps_NextFireAt = 500, ps_Enabled = True,
        ps_CreatedAt = 10, ps_UpdatedAt = 10\<rparr>],
     db_tasks = [], db_task_events = [], db_points = [], db_reservations = []\<rparr>"

definition backup_request :: TaskInput where
  "backup_request = \<lparr>ti_TenantID = '''', ti_ClusterID = ''c1'', ti_AppID = ''a1'', ti_ProtectionPlanID = ''plan1'',
     ti_RestorePointID = '''', ti_Type = ''backup'', ti_Status = '''', ti_CommandID = '''', ti_Payload = [],
     ti_SuppressLatestPointer = False\<rparr>"

definition drill_request :: "string \<Rightarrow> TaskInput" where
  "drill_request pid = backup_request\<lparr>ti_Type := ''drill'', ti_RestorePointID := pid\<rparr>"

definition sample_report :: "string \<Rightarrow> string \<Rightarrow> bool \<Rightarrow> TaskStatusInput" where
  "sample_report tid status fin = \<lparr>ts_TaskID = tid, ts_RestorePointID = '''', ts_Status = status, ts_Progress = 50,
     ts_ErrorCode = '''', ts_ErrorMessage = '''', ts_Payload = [], ts_MarkAccepted = True, ts_MarkStarted = True,
     ts_MarkDone = fin\<rparr>"

definition backup_result :: "string \<Rightarrow> RestorePointInput" where
  "backup_result tid = \<lparr>ri_ProtectionPlanID = ''plan1'', ri_SourceClusterID = ''c1'', ri_AppID = ''a1'',
     ri_StorageRepoID = ''s1'', ri_DisplayName = '''', ri_TaskCreatedAt = 0, ri_VeleroBackupName = ''velero-'' @ tid,
     ri_PointType = '''', ri_Status = '''', ri_SizeBytes = 42, ri_StartedAt = 0,
     ri_CompletedAt = 5000, ri_ExpiresAt = 0, ri_SourceNamespace = ''shop'', ri_LabelSelector = '''',
     ri_BackupTaskID = tid, ri_BackupStorageName = '''', ri_Metadata = [],
     ri_SizeMetricsV2 = [(''schemaVersion'', ANum 2),
       (''logical'', AMap [(''known'', ABool True), (''totalBytes'', ANum 10)]),
       (''newData'', AMap [(''known'', ABool True), (''totalBytes'', ANum 3)])]\<rparr>"

end
