(* ===== verification/Store_Task_Facts.thy ===== *)
theory Store_Task_Facts
  imports Store_Tasks Store_Sample
begin

text \<open>
  What the task transactions promise: references stay within a tenant, a plan runs one backup at a
  time, a queued task is claimed once, a completed task does not change its outcome, and neither
  creation nor status reports break the slot accounting.
\<close>

section \<open>References\<close>

lemma validateTenantReference_ok:
  "validateTenantReference db tbl rid tenantID = Inr u \<longleftrightarrow>
     rid = '''' \<or> map_of (owner_rows db tbl) rid = Some tenantID"
  by (auto simp: validateTenantReference_def split: option.splits)

lemma validateTenantReference_Inl:
  "validateTenantReference db tbl rid tenantID = Inl e \<longleftrightarrow>
     e = ErrTenantResourceMismatch \<and> \<not> (rid = '''' \<or> map_of (owner_rows db tbl) rid = Some tenantID)"
  by (auto simp: validateTenantReference_def split: option.splits)

lemma validate_references_ok:
  "validate_references db tenantID refs = Inr u \<longleftrightarrow>
     (\<forall>(tbl, rid) \<in> set refs. rid = '''' \<or> map_of (owner_rows db tbl) rid = Some tenantID)"
  unfolding validate_references_def
  by (induction refs) (auto simp: validateTenantReference_ok validateTenantReference_Inl split: sum.splits)

definition owned_by :: "store_db \<Rightarrow> string \<Rightarrow> string \<Rightarrow> string \<Rightarrow> bool" where
  "owned_by db tenantID tbl rid \<longleftrightarrow> rid = '''' \<or> map_of (owner_rows db tbl) rid = Some tenantID"

lemma validateTaskReferences_ok:
  "validateTaskReferences db input tenantID = Inr u \<longleftrightarrow>
     owned_by db tenantID ''clusters'' (ti_ClusterID input) \<and>
     owned_by db tenantID ''applications'' (ti_AppID input) \<and>
     owned_by db tenantID ''protection_plans'' (ti_ProtectionPlanID input) \<and>
     owned_by db tenantID ''restore_points'' (ti_RestorePointID input)"
  by (simp add: validateTaskReferences_def validate_references_ok owned_by_def)

lemma validateRestorePointReferences_ok:
  "validateRestorePointReferences db input tenantID = Inr u \<longleftrightarrow>
     owned_by db tenantID ''clusters'' (ri_SourceClusterID input) \<and>
     owned_by db tenantID ''applications'' (ri_AppID input) \<and>
     owned_by db tenantID ''protection_plans'' (ri_ProtectionPlanID input) \<and>
     owned_by db tenantID ''storage_repositories'' (ri_StorageRepoID input) \<and>
     owned_by db tenantID ''tasks'' (ri_BackupTaskID input)"
  by (simp add: validateRestorePointReferences_def validate_references_ok owned_by_def)

section \<open>Creation\<close>

text \<open>The steps of a successful creation.\<close>

lemma create_task_cases:
  assumes "create_task_tx LoadLocation newID now db input = Inr (db', task)"
  obtains tenantID payload d1 d2 where
    "task_tenant db input = Inr tenantID" "validateTaskReferences db input tenantID = Inr ()"
    "\<not> (ti_Type input = ''backup'' \<and> ti_ProtectionPlanID input \<noteq> '''' \<and> \<not> ti_SuppressLatestPointer input \<and>
        backup_busy db (ti_ProtectionPlanID input))"
    "\<not> (ti_Type input = ''backup-cancel'' \<and> irreversible db (any_str (mget (ti_Payload input) ''targetTaskId'')))"
    "lock_recovery_point db input tenantID = Inr payload"
    "insert_task db (new_task newID now tenantID input payload) = Inr d1"
    "(if ti_ProtectionPlanID input \<noteq> '''' \<and> \<not> ti_SuppressLatestPointer input
      then reserve_for_task LoadLocation now d1 (new_task newID now tenantID input payload)
      else Inr (d1, new_task newID now tenantID input payload)) = Inr (d2, task)"
    "prepareRestorePointDeletion LoadLocation now d2 task = Inr db'"
proof -
  have plan: "t_ProtectionPlanID (new_task newID now tenantID input payload) = ti_ProtectionPlanID input" for tenantID payload
    by (simp add: new_task_def)
  from assms obtain a u b c r where s: "task_tenant db input = Inr a" "validateTaskReferences db input a = Inr u"
    "\<not> (ti_Type input = ''backup'' \<and> ti_ProtectionPlanID input \<noteq> '''' \<and> \<not> ti_SuppressLatestPointer input \<and>
        backup_busy db (ti_ProtectionPlanID input))"
    "\<not> (ti_Type input = ''backup-cancel'' \<and> irreversible db (any_str (mget (ti_Payload input) ''targetTaskId'')))"
    "lock_recovery_point db input a = Inr b" "insert_task db (new_task newID now a input b) = Inr c"
    "(if ti_ProtectionPlanID input \<noteq> '''' \<and> \<not> ti_SuppressLatestPointer input
      then reserve_for_task LoadLocation now c (new_task newID now a input b)
      else Inr (c, new_task newID now a input b)) = Inr r"
    and e: "(case r of (db, task) \<Rightarrow> res_bind (prepareRestorePointDeletion LoadLocation now db task)
      (\<lambda>db. Inr (db, task))) = Inr (db', task)"
    unfolding create_task_tx_def Let_def res_bind_Inr_iff res_if_Inr plan by blast
  obtain d2 t where r: "r = (d2, t)" by (cases r)
  from e have "prepareRestorePointDeletion LoadLocation now d2 task = Inr db'" "t = task"
    by (auto simp: r res_bind_Inr_iff)
  with s show ?thesis unfolding r by (intro that) simp_all
qed

lemma insert_task_Inr:
  "insert_task db task = Inr db' \<longleftrightarrow>
     db' = db\<lparr>db_tasks := db_tasks db @ [task\<lparr>t_Payload := json_object (t_Payload task)\<rparr>]\<rparr> \<and>
     find_row t_ID (t_ID task) (db_tasks db) = None \<and> t_TenantID task \<in> tn_ID ` set (db_tenants db) \<and>
     \<not> (\<exists>t \<in> set (db_tasks db). task_index_clash t (task\<lparr>t_Payload := json_object (t_Payload task)\<rparr>))"
  by (auto simp: insert_task_def res_bind_Inr_iff Let_def)

lemma insert_task_wf:
  assumes "store_wf db" "insert_task db task = Inr db'" "accepted_result task = ANil"
  shows "store_wf db'" and "slots db' planID = slots db planID" and "quotaPolicy db' planID = quotaPolicy db planID"
proof -
  from assms(2) have db': "db' = db\<lparr>db_tasks := db_tasks db @ [task\<lparr>t_Payload := json_object (t_Payload task)\<rparr>]\<rparr>"
    and new: "\<forall>t \<in> set (db_tasks db). t_ID t \<noteq> t_ID task" by (auto simp: insert_task_Inr find_row_None)
  have "result_names_task (task\<lparr>t_Payload := json_object (t_Payload task)\<rparr>)"
    using assms(3) by (simp add: result_names_task_iff accepted_result_def mget_json_object)
  with assms(1) new show "store_wf db'"
    by (auto simp: db' store_wf_def reservations_ok_def replacements_ok_def results_ok_def)
  have "holds_slot db' = holds_slot db" by (simp add: db' holds_slot_def point_deleted_def fun_eq_iff)
  then show "slots db' planID = slots db planID" by (simp add: slots_def reserved_def db')
  show "quotaPolicy db' planID = quotaPolicy db planID" by (rule quotaPolicy_cong) (simp_all add: db')
qed

lemma new_task_fields [simp]:
  "t_ID (new_task newID now tenantID input payload) = newID"
  "t_ProtectionPlanID (new_task newID now tenantID input payload) = ti_ProtectionPlanID input"
  "t_TenantID (new_task newID now tenantID input payload) = tenantID"
  "t_Type (new_task newID now tenantID input payload) = ti_Type input"
  "t_CompletedAt (new_task newID now tenantID input payload) = 0"
  by (simp_all add: new_task_def)

lemma quiet_fail_over:
  assumes "\<And>t. t \<in> set (db_tasks db) \<Longrightarrow> t_ID t = t_ID task \<Longrightarrow> t_CompletedAt t = 0"
  shows "quiet db (fst (fail_over_quota db now task msg))"
  unfolding fail_over_quota_def Let_def fst_conv
  by (rule quiet_tasks) (use assms in \<open>simp add: same_defs accepted_result_def finished_with_point_def\<close>)

lemma release_tasks [simp]: "db_tasks (releaseFailedBackupReservations db now planID) = db_tasks db"
  by (simp add: releaseFailedBackupReservations_def Let_def)

lemma quiet_publish_pointer: "publish_pointer db task = Inr db' \<Longrightarrow> quiet db db'"
  unfolding publish_pointer_def Let_def
  by (auto simp: same_defs split: if_splits intro!: quiet_plans)

text \<open>Reserving for a new task is a reservation, or a quiet step that fails the task.\<close>

lemma reserve_for_task_cases:
  assumes "reserve_for_task LoadLocation now db task = Inr (db', task')"
    and "\<forall>t \<in> set (db_tasks db). t_ID t = t_ID task \<longrightarrow> t_CompletedAt t = 0"
  obtains d where "reserveBackupQuota LoadLocation now db task = Inr d" "quiet d db'" "task' = task"
  | msg where "reserveBackupQuota LoadLocation now db task = Inl (ErrRestorePointQuota msg)" "quiet db db'"
      "task' = task\<lparr>t_Status := ''failed'', t_ErrorCode := ''RESTORE_POINT_QUOTA_EXHAUSTED'',
         t_ErrorMessage := msg, t_CompletedAt := now\<rparr>"
proof (cases "reserveBackupQuota LoadLocation now db task")
  case (Inr d)
  with assms(1) have "publish_pointer d task = Inr db'" "task' = task"
    by (auto simp: reserve_for_task_def res_bind_Inr_iff)
  with Inr show ?thesis by (intro that(1)) (auto intro: quiet_publish_pointer)
next
  case (Inl e)
  with assms(1) obtain msg where e: "e = ErrRestorePointQuota msg"
    by (cases e) (simp_all add: reserve_for_task_def)
  let ?d = "releaseFailedBackupReservations db now (t_ProtectionPlanID task)"
  obtain d1 t1 where f: "fail_over_quota ?d now task msg = (d1, t1)" by (cases "fail_over_quota ?d now task msg")
  have pub: "publish_pointer d1 t1 = Inr db' \<and> task' = t1"
    using assms(1) unfolding reserve_for_task_def Inl e by (auto simp: f res_bind_Inr_iff)
  have "quiet db ?d" by (rule quiet_release)
  also have "quiet ?d d1" using quiet_fail_over [of ?d task now msg] assms(2) by (simp add: f)
  also have "quiet d1 db'" using pub by (blast intro: quiet_publish_pointer)
  finally have q: "quiet db db'" .
  have "t1 = task\<lparr>t_Status := ''failed'', t_ErrorCode := ''RESTORE_POINT_QUOTA_EXHAUSTED'',
      t_ErrorMessage := msg, t_CompletedAt := now\<rparr>"
    using f by (simp add: fail_over_quota_def Let_def)
  with pub show ?thesis by (intro that(2) [OF Inl [unfolded e] q]) simp
qed

lemma create_task_wf:
  assumes wf: "store_wf db" and step: "create_task_tx LoadLocation newID now db input = Inr (db', task)"
    and fresh: "mget (ti_Payload input) ''backupResult'' = ANil"
  shows "store_wf db'"
    and "slots db' planID \<le> slots db planID \<or>
      planID = ti_ProtectionPlanID input \<and> int (slots db' planID) \<le> p_RetentionCount (quotaPolicy db planID)"
    and "quotaPolicy db' planID = quotaPolicy db planID"
proof -
  from step obtain tenantID payload d1 d2 where
    lock: "lock_recovery_point db input tenantID = Inr payload" and ins: "insert_task db (new_task newID now tenantID input payload) = Inr d1"
    and res: "(if ti_ProtectionPlanID input \<noteq> '''' \<and> \<not> ti_SuppressLatestPointer input
      then reserve_for_task LoadLocation now d1 (new_task newID now tenantID input payload)
      else Inr (d1, new_task newID now tenantID input payload)) = Inr (d2, task)"
    and prep: "prepareRestorePointDeletion LoadLocation now d2 task = Inr db'"
    by (rule create_task_cases)
  let ?t = "new_task newID now tenantID input payload"
  have "mget payload ''backupResult'' = ANil"
    using lock fresh unfolding lock_recovery_point_def Let_def
    by (auto simp: res_bind_Inr_iff res_if_Inr split: if_splits)
  then have "accepted_result ?t = ANil" by (simp add: accepted_result_def new_task_def)
  note i = insert_task_wf [OF wf ins this]
  have "t_CompletedAt t = 0" if t: "t \<in> set (db_tasks d1)" "t_ID t = t_ID ?t" for t
  proof -
    from t(1) ins consider "t \<in> set (db_tasks db)" | "t = ?t\<lparr>t_Payload := json_object (t_Payload ?t)\<rparr>"
      by (auto simp: insert_task_Inr)
    then show ?thesis
    proof cases
      case 1
      with t(2) ins show ?thesis by (auto simp: insert_task_Inr find_row_None)
    next
      case 2
      show ?thesis unfolding 2 by simp
    qed
  qed
  then have opened: "\<forall>t \<in> set (db_tasks d1). t_ID t = t_ID ?t \<longrightarrow> t_CompletedAt t = 0" by blast
  have mid: "store_wf d2 \<and> (slots d2 planID \<le> slots db planID \<or> planID = ti_ProtectionPlanID input \<and>
      int (slots d2 planID) \<le> p_RetentionCount (quotaPolicy db planID)) \<and>
      quotaPolicy d2 planID = quotaPolicy db planID"
  proof (cases "ti_ProtectionPlanID input \<noteq> '''' \<and> \<not> ti_SuppressLatestPointer input")
    case True
    with res have "reserve_for_task LoadLocation now d1 ?t = Inr (d2, task)" by simp
    from this opened show ?thesis
    proof (cases rule: reserve_for_task_cases)
      case (1 d)
      have "?t\<lparr>t_Payload := json_object (t_Payload ?t)\<rparr> \<in> set (db_tasks d1)"
        using ins by (simp add: insert_task_Inr)
      from reserve_wf [OF i(1) 1(1) this] have "store_wf d" by simp
      moreover note reserve_slots [OF i(1) 1(1), of planID] reserve_policy [OF 1(1), of planID]
        quiet_slots [OF 1(2), of planID] quiet_policy [OF 1(2), of planID]
      ultimately show ?thesis using quiet_wf [OF 1(2)] i(2,3) by auto
    next
      case (2 msg)
      with quiet_wf [OF 2(2) i(1)] quiet_slots [OF 2(2), of planID] quiet_policy [OF 2(2), of planID] i(2,3)
      show ?thesis by auto
    qed
  qed (use res i in auto)
  have q: "quiet d2 db'" using mid prep by (blast intro: quiet_prepare)
  show "store_wf db'" using mid quiet_wf [OF q] by blast
  show "slots db' planID \<le> slots db planID \<or>
      planID = ti_ProtectionPlanID input \<and> int (slots db' planID) \<le> p_RetentionCount (quotaPolicy db planID)"
    using mid quiet_slots [OF q, of planID] by linarith
  show "quotaPolicy db' planID = quotaPolicy db planID" using mid quiet_policy [OF q] by simp
qed

section \<open>Status reports\<close>

text \<open>Reports never carry the key under which the store keeps an accepted result.\<close>

definition plain_report :: "gomap \<Rightarrow> bool" where
  "plain_report payload \<longleftrightarrow> ''backupResult'' \<notin> fst ` set payload"

lemma keys_json_object: "fst ` set (json_object m) = fst ` set m"
  by (force simp: json_object_def)

lemma status_row_same:
  assumes "plain_report (ts_Payload input)"
  shows "same_task t (status_row input now t)"
proof -
  have "''backupResult'' \<notin> fst ` set (json_object (status_payload input now))"
    using assms by (simp add: keys_json_object status_payload_def keys_mset_key plain_report_def)
  then show ?thesis
    by (simp add: status_row_def same_task_def Let_def accepted_result_def mget_jmerge_notin finished_with_point_def)
qed

lemma status_row_ID [simp]: "t_ID (status_row input now t) = t_ID t"
  by (simp add: status_row_def Let_def)

lemma quiet_finish: "quiet db (finish_task db now planID taskID)"
proof -
  have "quiet db (unlock_replaced db taskID)"
    unfolding unlock_replaced_def by (rule quiet_points) (simp add: same_defs)
  also have "quiet (unlock_replaced db taskID) (release_reserved (unlock_replaced db taskID) now taskID)"
    unfolding release_reserved_def by (rule quiet_reservations) (simp add: calmer_def active_def known_state_def)
  also have "quiet d (retain_drilled d now planID taskID)" for d
    unfolding retain_drilled_def by (auto intro!: quiet_points simp: same_defs split: option.splits)
  finally show ?thesis unfolding finish_task_def .
qed

lemma quiet_update_status:
  assumes plain: "plain_report (ts_Payload input)"
  shows "quiet db (fst (UpdateTaskStatus db now input))"
proof -
  have "quiet db db'" if "update_status_tx db now input = Inr (db', r)" for db' r
  proof -
    let ?d = "\<lambda>i. db\<lparr>db_tasks := update_where (\<lambda>t. t_ID t = ts_TaskID i) (status_row i now) (db_tasks db)\<rparr>"
    have "plain_report (ts_Payload (defer_failure db input))" using plain by (simp add: defer_failure_def)
    then have "quiet db (?d (defer_failure db input))" by (intro quiet_tasks status_row_same)
    moreover from this have "quiet db (finish_task (?d (defer_failure db input)) now planID taskID)" for planID taskID
      using quiet_finish quiet_trans by blast
    ultimately show ?thesis using that
      unfolding update_status_tx_def Let_def
      by (auto simp: res_bind_Inr_iff split: option.splits if_splits)
  qed
  then show ?thesis by (auto simp: UpdateTaskStatus_def run_tx_def split: sum.splits prod.splits)
qed

lemma quiet_claim_rows: "quiet db (claim_rows now executorID hit db)"
  if "\<And>t. hit t \<Longrightarrow> t_Status t = ''queued''"
  unfolding claim_rows_def
  by (rule quiet_tasks) (use that in \<open>auto simp: claimed_def same_defs accepted_result_def finished_with_point_def\<close>)

lemma quiet_claims:
  "quiet db (fst (ClaimQueuedTask db now taskType executorID))"
  "quiet db (fst (ClaimQueuedTaskByID db now taskID taskType executorID))"
  by (auto simp: ClaimQueuedTask_def ClaimQueuedTaskByID_def Let_def split: option.splits intro!: quiet_claim_rows)

lemma quiet_add_event: "quiet db (fst (AddTaskEvent newID now db input))"
  by (auto simp: AddTaskEvent_def res_bind_def res_guard_def quiet_def list_all2_self)

section \<open>Properties\<close>

lemma CreateTask_Inr:
  "CreateTask LoadLocation newID now db input = (db', Inr task) \<longleftrightarrow>
     create_task_tx LoadLocation newID now db (task_defaults input) = Inr (db', task)"
  by (auto simp: CreateTask_def run_tx_def split: sum.splits prod.splits)

lemma task_defaults_fields [simp]:
  "ti_ProtectionPlanID (task_defaults input) = ti_ProtectionPlanID input"
  "ti_ClusterID (task_defaults input) = ti_ClusterID input"
  "ti_AppID (task_defaults input) = ti_AppID input"
  "ti_RestorePointID (task_defaults input) = ti_RestorePointID input"
  "ti_TenantID (task_defaults input) = ti_TenantID input"
  "ti_Payload (task_defaults input) = ti_Payload input"
  "ti_SuppressLatestPointer (task_defaults input) = ti_SuppressLatestPointer input"
  by (simp_all add: task_defaults_def)

lemma reserved_task_fields:
  assumes "reserve_for_task LoadLocation now db task = Inr (db', task')"
  shows "t_ID task' = t_ID task" "t_TenantID task' = t_TenantID task" "t_Type task' = t_Type task"
    "t_ProtectionPlanID task' = t_ProtectionPlanID task"
  using assms
  by (auto simp: reserve_for_task_def res_bind_Inr_iff fail_over_quota_def Let_def
      split: sum.splits store_error.splits)

lemma created_task_fields:
  assumes "(if b then reserve_for_task LoadLocation now db task else Inr (db, task)) = Inr (db', task')"
  shows "t_ID task' = t_ID task" "t_TenantID task' = t_TenantID task" "t_Type task' = t_Type task"
    "t_ProtectionPlanID task' = t_ProtectionPlanID task"
  using assms reserved_task_fields by (cases b; auto)+

text \<open>Tenant isolation of new tasks: a created task belongs to the tenant its caller named, if any, and
  its cluster, application, plan and restore point are empty or rows of that same tenant; a task of a
  plan belongs to the plan's tenant.\<close>

theorem create_task_tenant:
  assumes "CreateTask LoadLocation newID now db input = (db', Inr task)"
  shows "(ti_TenantID input = '''' \<or> t_TenantID task = ti_TenantID input) \<and>
    owned_by db (t_TenantID task) ''clusters'' (ti_ClusterID input) \<and>
    owned_by db (t_TenantID task) ''applications'' (ti_AppID input) \<and>
    owned_by db (t_TenantID task) ''protection_plans'' (ti_ProtectionPlanID input) \<and>
    owned_by db (t_TenantID task) ''restore_points'' (ti_RestorePointID input)"
proof -
  from assms have "create_task_tx LoadLocation newID now db (task_defaults input) = Inr (db', task)"
    by (simp add: CreateTask_Inr)
  then obtain tenantID payload d1 d2 where
    ten: "task_tenant db (task_defaults input) = Inr tenantID"
    and val: "validateTaskReferences db (task_defaults input) tenantID = Inr ()"
    and res: "(if ti_ProtectionPlanID (task_defaults input) \<noteq> '''' \<and>
        \<not> ti_SuppressLatestPointer (task_defaults input)
      then reserve_for_task LoadLocation now d1 (new_task newID now tenantID (task_defaults input) payload)
      else Inr (d1, new_task newID now tenantID (task_defaults input) payload)) = Inr (d2, task)"
    by (rule create_task_cases)
  from created_task_fields(2) [OF res] have t: "t_TenantID task = tenantID" by simp
  moreover have "ti_TenantID input = '''' \<or> tenantID = ti_TenantID input"
    using ten by (auto simp: task_tenant_def Let_def res_bind_Inr_iff split: if_splits)
  ultimately show ?thesis using val by (simp add: validateTaskReferences_ok)
qed

text \<open>C4: One backup at a time: when a backup task is created for a plan (and not as a silent helper task),
  the plan had no other backup task that is still open and no earlier result waiting for its old point
  to be deleted.\<close>

theorem create_backup_exclusive:
  assumes "CreateTask LoadLocation newID now db input = (db', Inr task)"
    and "ti_Type input \<in> {'''', ''backup''}" "ti_ProtectionPlanID input \<noteq> ''''" "\<not> ti_SuppressLatestPointer input"
  shows "(\<forall>t \<in> set (db_tasks db). t_ProtectionPlanID t = ti_ProtectionPlanID input \<and> t_Type t = ''backup'' \<longrightarrow>
      t_Status t \<in> {''succeeded'', ''failed'', ''canceled'', ''cancelled''}) \<and>
    (\<forall>rv \<in> set (db_reservations db). rv_PlanID rv = ti_ProtectionPlanID input \<longrightarrow>
      rv_State rv \<notin> {''data_ready'', ''deleting''})"
proof -
  have ty: "ti_Type (task_defaults input) = ''backup''" using assms(2) by (auto simp: task_defaults_def)
  from assms(1) have "create_task_tx LoadLocation newID now db (task_defaults input) = Inr (db', task)"
    by (simp add: CreateTask_Inr)
  then have "\<not> backup_busy db (ti_ProtectionPlanID input)"
    by (rule create_task_cases) (use ty assms(3,4) in auto)
  then show ?thesis using assms(3) by (auto simp: backup_busy_def sql_eq_def)
qed

text \<open>C27: Recovery takes a free point: a drill, restore or takeover is created only for an available point
  of its tenant that no recovery task uses, that no backup is about to replace, and that is not marked
  for deletion.\<close>

theorem create_recovery_locks_point:
  assumes "CreateTask LoadLocation newID now db input = (db', Inr task)"
    and "ti_Type input \<in> {''drill'', ''restore'', ''takeover''}" "task_point input \<noteq> ''''"
  shows "(\<exists>p \<in> set (db_points db). rp_ID p = task_point input \<and> rp_Status p = ''available'' \<and>
      rp_TenantID p = t_TenantID task \<and>
      jtext (rp_Metadata p) ''retentionState'' \<notin> {Some ''deleting'', Some ''pending_delete''}) \<and>
    \<not> pointBusy db (task_point input)"
proof -
  let ?i = "task_defaults input"
  have same: "task_point ?i = task_point input" "recovery_type (ti_Type ?i)"
    using assms(2) by (auto simp: task_point_def recovery_type_def task_defaults_def)
  from assms(1) have "create_task_tx LoadLocation newID now db ?i = Inr (db', task)"
    by (simp add: CreateTask_Inr)
  then obtain tenantID payload d1 d2 where
    lock: "lock_recovery_point db ?i tenantID = Inr payload"
    and res: "(if ti_ProtectionPlanID ?i \<noteq> '''' \<and> \<not> ti_SuppressLatestPointer ?i
      then reserve_for_task LoadLocation now d1 (new_task newID now tenantID ?i payload)
      else Inr (d1, new_task newID now tenantID ?i payload)) = Inr (d2, task)"
    by (rule create_task_cases)
  from created_task_fields(2) [OF res] have t: "t_TenantID task = tenantID" by simp
  from lock same assms(3) obtain p where p:
    "find (\<lambda>p. rp_ID p = task_point input \<and> rp_TenantID p = tenantID \<and> rp_Status p = ''available'')
      (db_points db) = Some p"
    and free: "\<not> (pointBusy db (task_point input) \<or>
      coalesce_str (jtext (rp_Metadata p) ''retentionState'') '''' \<in> {''deleting'', ''pending_delete''})"
    unfolding lock_recovery_point_def Let_def same
    by (auto simp: res_bind_Inr_iff res_if_Inr split: option.splits)
  from p have "p \<in> set (db_points db)" "rp_ID p = task_point input" "rp_TenantID p = tenantID"
    "rp_Status p = ''available''" by (auto simp: find_Some_iff)
  moreover from free have "jtext (rp_Metadata p) ''retentionState'' \<notin> {Some ''deleting'', Some ''pending_delete''}"
    by (auto simp: coalesce_str_def)
  ultimately show ?thesis using t free by (intro conjI bexI [of _ p]) simp_all
qed

lemma claimed_ID: "t_ID (claimed now executorID t) = t_ID t"
  by (simp add: claimed_def)

text \<open>A task is claimed once, and in order: a successful claim by type takes a queued task of that type
  created no later than any other queued one, leaves every other task alone, and leaves the claimed
  task running, so a second claim by identifier returns nothing.\<close>

theorem claim_oldest_once:
  assumes "distinct (map t_ID (db_tasks db))"
    and "ClaimQueuedTask db now taskType executorID = (db', Some task)"
  shows "\<exists>t \<in> set (db_tasks db). t_Status t = ''queued'' \<and> t_Type t = taskType \<and> task = claimed now executorID t \<and>
    (\<forall>u \<in> set (db_tasks db). t_Type u = taskType \<and> t_Status u = ''queued'' \<longrightarrow> t_CreatedAt t \<le> t_CreatedAt u) \<and>
    db_tasks db' = map (\<lambda>u. if t_ID u = t_ID t then task else u) (db_tasks db) \<and>
    snd (ClaimQueuedTaskByID db' now' (t_ID t) taskType executorID') = None"
proof -
  let ?queued = "filter (\<lambda>t. t_Type t = taskType \<and> t_Status t = ''queued'') (db_tasks db)"
  from assms(2) obtain t where o: "oldest_queued db taskType = Some t"
    by (auto simp: ClaimQueuedTask_def split: option.splits)
  then obtain ts where s: "sort_key t_CreatedAt ?queued = t # ts"
    by (auto simp: oldest_queued_def split: list.splits)
  from arg_cong [OF s, of set] have set: "set ?queued = set (t # ts)" by (simp only: set_sort)
  then have t: "t \<in> set ?queued" by (simp only: list.set_intros)
  have least: "t_CreatedAt t \<le> t_CreatedAt u" if "u \<in> set ?queued" for u
  proof -
    have "sorted (map t_CreatedAt (sort_key t_CreatedAt ?queued))" by (rule sorted_sort_key)
    then have "sorted (map t_CreatedAt (t # ts))" by (simp only: s)
    moreover have "u \<in> set (t # ts)" using that set by (simp only:)
    ultimately show ?thesis by auto
  qed
  have uniq: "u = t" if "u \<in> set (db_tasks db)" "t_ID u = t_ID t" for u
    using that t assms(1) by (auto simp: distinct_map dest: inj_onD)
  let ?hit = "\<lambda>u. t_ID u = t_ID t \<and> t_Status u = ''queued''"
  from assms(2) o have db': "db' = claim_rows now executorID ?hit db" and get: "getTask db' (t_ID t) = Some task"
    by (auto simp: ClaimQueuedTask_def Let_def split: if_splits)
  have "getTask db' (t_ID t) = Some (claimed now executorID t)"
  proof -
    have "find_row t_ID (t_ID t) (db_tasks db) = Some t"
      using find_row_unique [OF assms(1)] t by simp
    then show ?thesis
      unfolding getTask_def db' claim_rows_def
      using tasks.find_update_where [of "claimed now executorID", OF claimed_ID, of "t_ID t" ?hit db] t by simp
  qed
  with get have task: "task = claimed now executorID t" by simp
  have rows: "db_tasks db' = map (\<lambda>u. if t_ID u = t_ID t then task else u) (db_tasks db)"
    using uniq t by (auto simp: db' claim_rows_def update_where_def task)
  have "snd (ClaimQueuedTaskByID db' now' (t_ID t) taskType executorID') = None"
  proof -
    have "count_where (\<lambda>u. t_ID u = t_ID t \<and> t_Type u = taskType \<and> t_Status u = ''queued'') (db_tasks db') = 0"
      by (auto simp: rows count_where_def filter_empty_conv task claimed_def)
    then show ?thesis by (simp add: ClaimQueuedTaskByID_def Let_def)
  qed
  with t least task rows show ?thesis by auto
qed

lemma UpdateTaskStatus_row:
  assumes "UpdateTaskStatus db now input = (db', Inr (Some task))"
    and "distinct (map t_ID (db_tasks db))"
  shows "\<exists>t \<in> set (db_tasks db). t_ID t = ts_TaskID input \<and> task = status_row (defer_failure db input) now t \<and>
    db_tasks db' = map (\<lambda>u. if t_ID u = t_ID t then task else u) (db_tasks db)"
proof -
  let ?i = "defer_failure db input"
  have id: "ts_TaskID ?i = ts_TaskID input" by (simp add: defer_failure_def)
  have row: "t_ID (status_row i now u) = t_ID u" for i u by simp
  have keep: "db_tasks (finish_task d now planID taskID) = db_tasks d" for d planID taskID
    by (simp add: finish_task_def retain_drilled_def release_reserved_def unlock_replaced_def split: option.splits)
  from assms(1) obtain t where t: "find_row t_ID (ts_TaskID input) (db_tasks db) = Some t"
    and tasks: "db_tasks db' = update_where (\<lambda>u. t_ID u = ts_TaskID input) (status_row ?i now) (db_tasks db)"
    and get: "getTask db' (ts_TaskID input) = Some task"
    unfolding UpdateTaskStatus_def update_status_tx_def Let_def id run_tx_def
    by (auto simp: res_bind_def keep split: option.splits sum.splits if_splits)
  have "getTask db' (ts_TaskID input) = Some (status_row ?i now t)"
    using tasks.find_update_where [of "status_row ?i now", OF row, of "ts_TaskID input" "\<lambda>u. t_ID u = ts_TaskID input" db] t
      find_row_SomeD [OF t]
    by (simp add: getTask_def tasks)
  with get have "task = status_row ?i now t" by simp
  moreover have "u = t" if "u \<in> set (db_tasks db)" "t_ID u = ts_TaskID input" for u
    using row_eq [OF assms(2) that(1)] find_row_SomeD [OF t] that(2) by simp
  ultimately show ?thesis
    using find_row_SomeD [OF t] by (auto simp: tasks update_where_def)
qed

text \<open>C28: A completed task keeps its outcome: whatever is reported for it afterwards, its status, error,
  restore point and completion time stay. For every task the progress never falls, and the times of
  acceptance, start and completion are set at most once.\<close>

theorem completed_task_final:
  assumes "UpdateTaskStatus db now input = (db', Inr (Some task))" and "distinct (map t_ID (db_tasks db))"
  shows "\<exists>t \<in> set (db_tasks db). t_ID t = ts_TaskID input \<and> t_Progress t \<le> t_Progress task \<and>
    (t_CompletedAt t \<noteq> 0 \<longrightarrow> t_Status task = t_Status t \<and> t_ErrorCode task = t_ErrorCode t \<and>
      t_ErrorMessage task = t_ErrorMessage t \<and> t_RestorePointID task = t_RestorePointID t \<and>
      t_CompletedAt task = t_CompletedAt t) \<and>
    (t_AcceptedAt t \<noteq> 0 \<longrightarrow> t_AcceptedAt task = t_AcceptedAt t) \<and>
    (t_StartedAt t \<noteq> 0 \<longrightarrow> t_StartedAt task = t_StartedAt t)"
  using UpdateTaskStatus_row [OF assms] by (auto simp: status_row_def Let_def)

text \<open>An accepted backup result cannot be lost to a late failure: while the result of an open task is
  being published, a report that would close the task as anything but succeeded leaves it open, in the
  state finalizing.\<close>

theorem publishing_not_failed:
  assumes "UpdateTaskStatus db now input = (db', Inr (Some task))" and "distinct (map t_ID (db_tasks db))"
    and "publishing db (ts_TaskID input)" "ts_MarkDone input" "ts_Status input \<noteq> ''succeeded''"
  shows "t_Status task = ''finalizing'' \<and> t_CompletedAt task = 0"
proof -
  from UpdateTaskStatus_row [OF assms(1,2)] obtain t where t: "t \<in> set (db_tasks db)" "t_ID t = ts_TaskID input"
      "task = status_row (defer_failure db input) now t" by blast
  from assms(3) obtain u where "u \<in> set (db_tasks db)" "t_ID u = ts_TaskID input" "t_CompletedAt u = 0"
    by (auto simp: publishing_def)
  with t(1,2) have "t_CompletedAt t = 0" using row_eq [OF assms(2), of t u] by simp
  with t(3) assms(3-5) show ?thesis by (simp add: defer_failure_def status_row_def Let_def)
qed

text \<open>What a task listing contains: with no limit, exactly the rows that match the filter, newest
  first; with a limit, the newest that many of them. A filter that names a tenant never returns a task
  of another one, and a summary changes nothing but the payload.\<close>

theorem list_tasks_spec:
  "map t_ID (listTasks db f) =
     (let rows = rev (sort_key t_CreatedAt (filter (task_matches f) (db_tasks db)))
      in map t_ID (if tf_Limit f > 0 then take (nat (tf_Limit f)) rows else rows)) \<and>
   (\<forall>t \<in> set (listTasks db f). \<exists>u \<in> set (db_tasks db). task_matches f u \<and> t\<lparr>t_Payload := t_Payload u\<rparr> = u \<and>
      (tf_TenantID f \<noteq> '''' \<longrightarrow> t_TenantID t = tf_TenantID f)) \<and>
   sorted_wrt (\<lambda>t u. t_CreatedAt u \<le> t_CreatedAt t) (listTasks db f)"
proof (intro conjI ballI)
  let ?rows = "rev (sort_key t_CreatedAt (filter (task_matches f) (db_tasks db)))"
  let ?cut = "if tf_Limit f > 0 then take (nat (tf_Limit f)) ?rows else ?rows"
  let ?show = "\<lambda>t. if tf_Summary f then t\<lparr>t_Payload := project_keys summary_keys (t_Payload t)\<rparr> else t"
  have list: "listTasks db f = map ?show ?cut" by (simp add: listTasks_def Let_def)
  show "map t_ID (listTasks db f) = (let rows = ?rows in
      map t_ID (if tf_Limit f > 0 then take (nat (tf_Limit f)) rows else rows))"
    by (simp add: list o_def)
  have sub: "set ?cut \<subseteq> set (filter (task_matches f) (db_tasks db))" by (auto dest: in_set_takeD)
  fix t assume "t \<in> set (listTasks db f)"
  then obtain u where u: "u \<in> set ?cut" "t = ?show u" unfolding list set_map by blast
  with sub have m: "u \<in> set (db_tasks db)" "task_matches f u" by auto
  then show "\<exists>u \<in> set (db_tasks db). task_matches f u \<and> t\<lparr>t_Payload := t_Payload u\<rparr> = u \<and>
      (tf_TenantID f \<noteq> '''' \<longrightarrow> t_TenantID t = tf_TenantID f)"
    using u(2) by (intro bexI [of _ u]) (auto simp: task_matches_def)
next
  let ?rows = "rev (sort_key t_CreatedAt (filter (task_matches f) (db_tasks db)))"
  have "sorted_wrt (\<lambda>t u. t_CreatedAt u \<le> t_CreatedAt t) ?rows"
    using sorted_sort_key [of t_CreatedAt] by (simp add: sorted_wrt_rev sorted_map)
  then show "sorted_wrt (\<lambda>t u. t_CreatedAt u \<le> t_CreatedAt t) (listTasks db f)"
    by (simp add: listTasks_def Let_def sorted_wrt_map sorted_wrt_take)
qed

section \<open>Concrete runs\<close>

text \<open>The first backup of the sample plan, queued and then running.\<close>

definition db_backup :: store_db where
  "db_backup = fst (CreateTask utc_only ''bt1'' 1000 sample_db backup_request)"

definition task_backup :: Task where
  "task_backup = projr (snd (CreateTask utc_only ''bt1'' 1000 sample_db backup_request))"

lemma run_inr: "\<not> isl (snd r) \<Longrightarrow> r = (fst r, Inr (projr (snd r)))"
  by (cases r) (auto simp: sum.case_eq_if)

lemma run_backup: "CreateTask utc_only ''bt1'' 1000 sample_db backup_request = (db_backup, Inr task_backup)"
  unfolding db_backup_def task_backup_def by (rule run_inr) code_simp

theorem create_task_tenant_witness:
  "owned_by sample_db (t_TenantID task_backup) ''protection_plans'' ''plan1'' \<and> t_TenantID task_backup = ''t1''"
proof
  show "owned_by sample_db (t_TenantID task_backup) ''protection_plans'' ''plan1''"
    using create_task_tenant [OF run_backup] by (simp add: backup_request_def)
  show "t_TenantID task_backup = ''t1''" by code_simp
qed

definition old_backup :: Task where
  "old_backup = (new_task ''bt0'' 500 ''t1'' backup_request [])\<lparr>t_Status := ''failed'', t_CompletedAt := 600\<rparr>"

definition db_retry :: store_db where
  "db_retry = sample_db\<lparr>db_tasks := [old_backup]\<rparr>"

theorem create_backup_exclusive_witness:
  "list_all (\<lambda>t. t_Status t = ''failed'') (db_tasks db_retry) \<and> db_tasks db_retry \<noteq> [] \<and>
   snd (CreateTask utc_only ''bt2'' 2000 db_backup backup_request) = Inl ErrProtectionPlanBusy"
proof (intro conjI)
  let ?r = "CreateTask utc_only ''bt2'' 2000 db_retry backup_request"
  have run: "?r = (fst ?r, Inr (projr (snd ?r)))" by (rule run_inr) code_simp
  have "\<forall>t \<in> set (db_tasks db_retry). t_Status t \<in> {''succeeded'', ''failed'', ''canceled'', ''cancelled''}"
    using create_backup_exclusive [OF run] by (simp add: backup_request_def db_retry_def old_backup_def)
  then show "list_all (\<lambda>t. t_Status t = ''failed'') (db_tasks db_retry)" by (simp add: db_retry_def old_backup_def)
  show "db_tasks db_retry \<noteq> []" by (simp add: db_retry_def)
  show "snd (CreateTask utc_only ''bt2'' 2000 db_backup backup_request) = Inl ErrProtectionPlanBusy" by code_simp
qed

text \<open>The same database with an available point, for a drill.\<close>

definition db_point :: store_db where
  "db_point = sample_db\<lparr>db_points := [(sample_point ''p1'' 1 6 ''available'')\<lparr>rp_TenantID := ''t1'', rp_ProtectionPlanID := ''plan1''\<rparr>]\<rparr>"

theorem create_recovery_locks_point_witness:
  "(\<exists>p \<in> set (db_points db_point). rp_ID p = ''p1'' \<and> rp_Status p = ''available'') \<and> \<not> pointBusy db_point ''p1'' \<and>
   snd (CreateTask utc_only ''d2'' 2000 (fst (CreateTask utc_only ''d1'' 1000 db_point (drill_request ''p1''))) (drill_request ''p1''))
     = Inl ErrRestorePointLocked"
proof -
  let ?r = "CreateTask utc_only ''d1'' 1000 db_point (drill_request ''p1'')"
  have run: "?r = (fst ?r, Inr (projr (snd ?r)))" by (rule run_inr) code_simp
  have ty: "ti_Type (drill_request ''p1'') \<in> {''drill'', ''restore'', ''takeover''}" "task_point (drill_request ''p1'') = ''p1''"
    by code_simp+
  from create_recovery_locks_point [OF run ty(1)] ty(2)
  have "(\<exists>p \<in> set (db_points db_point). rp_ID p = ''p1'' \<and> rp_Status p = ''available'') \<and> \<not> pointBusy db_point ''p1''" by auto
  moreover have "snd (CreateTask utc_only ''d2'' 2000 (fst ?r) (drill_request ''p1'')) = Inl ErrRestorePointLocked" by code_simp
  ultimately show ?thesis by blast
qed

definition db_running :: store_db where
  "db_running = fst (ClaimQueuedTask db_backup 3000 ''backup'' ''agent-1'')"

definition task_running :: Task where
  "task_running = the (snd (ClaimQueuedTask db_backup 3000 ''backup'' ''agent-1''))"

lemma distinct_db_backup: "distinct (map t_ID (db_tasks db_backup))" "distinct (map t_ID (db_tasks db_running))"
  by code_simp+

theorem claim_oldest_once_witness:
  "\<exists>t \<in> set (db_tasks db_backup). t_Status t = ''queued'' \<and> task_running = claimed 3000 ''agent-1'' t \<and>
     snd (ClaimQueuedTaskByID db_running 4000 (t_ID t) ''backup'' ''agent-2'') = None"
proof -
  have "snd (ClaimQueuedTask db_backup 3000 ''backup'' ''agent-1'') \<noteq> None" by code_simp
  then have "ClaimQueuedTask db_backup 3000 ''backup'' ''agent-1'' = (db_running, Some task_running)"
    by (simp add: db_running_def task_running_def prod_eq_iff)
  from claim_oldest_once [OF distinct_db_backup(1) this, of 4000 "''agent-2''"] show ?thesis by blast
qed

text \<open>A report that ends the running backup, and a late one.\<close>

definition db_failed :: store_db where
  "db_failed = fst (UpdateTaskStatus db_running 5000 (sample_report ''bt1'' ''failed'' True))"

text \<open>A call that returned a row.\<close>

definition found_task :: "store_db \<times> (store_error + Task option) \<Rightarrow> bool" where
  "found_task r = (case snd r of Inr (Some _) \<Rightarrow> True | _ \<Rightarrow> False)"

lemma found_taskD: "found_task r \<Longrightarrow> r = (fst r, Inr (Some (the (projr (snd r)))))"
  by (cases r) (auto simp: found_task_def split: sum.splits option.splits)

theorem completed_task_final_witness:
  "\<exists>t \<in> set (db_tasks db_failed). \<exists>task. snd (UpdateTaskStatus db_failed 6000 (sample_report ''bt1'' ''succeeded'' True)) = Inr (Some task) \<and>
     t_CompletedAt t = 5000 \<and> t_Status t = ''failed'' \<and> t_Status task = ''failed''"
proof -
  let ?r = "UpdateTaskStatus db_failed 6000 (sample_report ''bt1'' ''succeeded'' True)"
  have "found_task ?r" by code_simp
  then have run: "?r = (fst ?r, Inr (Some (the (projr (snd ?r)))))" by (rule found_taskD)
  have "distinct (map t_ID (db_tasks db_failed))" by code_simp
  from completed_task_final [OF run this] obtain t where
    t: "t \<in> set (db_tasks db_failed)" "t_CompletedAt t \<noteq> 0 \<longrightarrow> t_Status (the (projr (snd ?r))) = t_Status t" by auto
  have "\<forall>t \<in> set (db_tasks db_failed). t_CompletedAt t = 5000 \<and> t_Status t = ''failed''" by code_simp
  with t have "t_CompletedAt t = 5000 \<and> t_Status t = ''failed'' \<and> t_Status (the (projr (snd ?r))) = ''failed''" by auto
  moreover have "snd ?r = Inr (Some (the (projr (snd ?r))))" using run by (metis snd_conv)
  ultimately show ?thesis using t(1) by blast
qed

text \<open>The running backup after its result was parked.\<close>

definition db_parked :: store_db where
  "db_parked = db_running\<lparr>db_reservations := [(new_reservation ''bt1'' ''plan1'' ''p1'' 1000)\<lparr>rv_State := ''data_ready''\<rparr>]\<rparr>"

theorem publishing_not_failed_witness:
  "\<exists>task. snd (UpdateTaskStatus db_parked 5000 (sample_report ''bt1'' ''failed'' True)) = Inr (Some task) \<and>
     t_Status task = ''finalizing'' \<and> t_CompletedAt task = 0"
proof -
  let ?r = "UpdateTaskStatus db_parked 5000 (sample_report ''bt1'' ''failed'' True)"
  have "found_task ?r" by code_simp
  then have run: "?r = (fst ?r, Inr (Some (the (projr (snd ?r)))))" by (rule found_taskD)
  have "distinct (map t_ID (db_tasks db_parked))" "publishing db_parked (ts_TaskID (sample_report ''bt1'' ''failed'' True))"
    "ts_MarkDone (sample_report ''bt1'' ''failed'' True)" "ts_Status (sample_report ''bt1'' ''failed'' True) \<noteq> ''succeeded''"
    by code_simp+
  from publishing_not_failed [OF run this]
  have "t_Status (the (projr (snd ?r))) = ''finalizing'' \<and> t_CompletedAt (the (projr (snd ?r))) = 0" .
  moreover have "snd ?r = Inr (Some (the (projr (snd ?r))))" using run by (metis snd_conv)
  ultimately show ?thesis by blast
qed

theorem list_tasks_spec_witness:
  "map t_ID (listTasks db_running (empty_filter\<lparr>tf_TenantID := ''t1''\<rparr>)) = [''bt1''] \<and>
   list_all (\<lambda>t. t_TenantID t = ''t1'') (listTasks db_running (empty_filter\<lparr>tf_TenantID := ''t1''\<rparr>))"
proof
  show "map t_ID (listTasks db_running (empty_filter\<lparr>tf_TenantID := ''t1''\<rparr>)) = [''bt1'']" by code_simp
  show "list_all (\<lambda>t. t_TenantID t = ''t1'') (listTasks db_running (empty_filter\<lparr>tf_TenantID := ''t1''\<rparr>))"
    unfolding list_all_iff using list_tasks_spec [of db_running "empty_filter\<lparr>tf_TenantID := ''t1''\<rparr>"] by fastforce
qed

end
