(* ===== verification/Store_Points.thy ===== *)
theory Store_Points
  imports Backup_Result Store_Task_Facts
begin

text \<open>
  Restore points (\<^verbatim>\<open>backend/internal/store/postgres_restore_points.go\<close>): publication of a backup result,
  listing, and changes of state. The row of a point keeps its namespace, selector and storage name in
  the metadata; reading a point fills the three fields from there.
\<close>

section \<open>Reading\<close>

record RestorePointFilter =
  rf_TenantID :: string
  rf_ClusterID :: string
  rf_AppID :: string
  rf_ProtectionPlanID :: string
  rf_IncludeDeleted :: bool
  rf_Limit :: int
  rf_Offset :: int
  rf_Summary :: bool

definition hydrateRestorePointMetadata :: "RestorePoint \<Rightarrow> RestorePoint" where
  "hydrateRestorePointMetadata p = p\<lparr>
     rp_SourceNamespace := any_str (mget (rp_Metadata p) ''sourceNamespace''),
     rp_LabelSelector := any_str (mget (rp_Metadata p) ''labelSelector''),
     rp_BackupStorageName := any_str (mget (rp_Metadata p) ''backupStorageName'')\<rparr>"

definition read_point :: "RestorePoint \<Rightarrow> RestorePoint" where
  "read_point p = hydrateRestorePointMetadata (p\<lparr>rp_TaskCreatedAt := point_time p\<rparr>)"

definition point_summary_keys :: "string list" where
  "point_summary_keys = [''sourceNamespace'', ''labelSelector'', ''backupTaskId'', ''backupStorageName'',
     ''includedNamespaces'', ''scheduled'', ''retentionState'', ''retentionWarning'', ''manualRetained'',
     ''drillRetained'', ''replacementTaskId'', ''protectionCleanupState'']"

definition plan_of_point_exists :: "store_db \<Rightarrow> RestorePoint \<Rightarrow> bool" where
  "plan_of_point_exists db p \<longleftrightarrow>
     (\<exists>pl \<in> set (db_plans db). sql_eq (rp_ProtectionPlanID p) (pl_ID pl) \<and>
        pl_SourceClusterID pl = rp_SourceClusterID p)"

definition point_matches :: "store_db \<Rightarrow> RestorePointFilter \<Rightarrow> RestorePoint \<Rightarrow> bool" where
  "point_matches db f p \<longleftrightarrow>
     (rf_TenantID f = '''' \<or> rp_TenantID p = rf_TenantID f) \<and>
     (rf_ClusterID f = '''' \<or> rp_SourceClusterID p = rf_ClusterID f) \<and>
     (rf_AppID f = '''' \<or> sql_eq (rp_AppID p) (rf_AppID f)) \<and>
     (rf_ProtectionPlanID f = '''' \<or> sql_eq (rp_ProtectionPlanID p) (rf_ProtectionPlanID f)) \<and>
     (rf_IncludeDeleted f \<or> rp_Status p \<noteq> ''deleted'' \<and> plan_of_point_exists db p)"

definition ListRestorePoints :: "store_db \<Rightarrow> RestorePointFilter \<Rightarrow> RestorePoint list" where
  "ListRestorePoints db f =
     (let rows = rev (sort_key rp_CreatedAt (filter (point_matches db f) (db_points db)));
          rows = (if rf_Offset f > 0 then drop (nat (rf_Offset f)) rows else rows);
          rows = (if rf_Limit f > 0 then take (nat (rf_Limit f)) rows else rows);
          rows = (if rf_Summary f
                  then map (\<lambda>p. p\<lparr>rp_Metadata := project_keys point_summary_keys (rp_Metadata p)\<rparr>) rows
                  else rows)
      in map read_point rows)"

definition cluster_points :: "string \<Rightarrow> RestorePointFilter" where
  "cluster_points clusterID = \<lparr>rf_TenantID = '''', rf_ClusterID = clusterID, rf_AppID = '''',
     rf_ProtectionPlanID = '''', rf_IncludeDeleted = False, rf_Limit = 0, rf_Offset = 0, rf_Summary = False\<rparr>"

definition GetRestorePoint :: "store_db \<Rightarrow> string \<Rightarrow> RestorePoint option" where
  "GetRestorePoint db pid = map_option read_point (find_row rp_ID pid (db_points db))"

section \<open>Publishing a backup result\<close>

definition point_defaults :: "RestorePointInput \<Rightarrow> RestorePointInput" where
  "point_defaults i =
     (let put = (\<lambda>k v m. if v = '''' then m else mset_key k (AStr v) m) in
      i\<lparr>ri_PointType := (if ri_PointType i = '''' then ''backup'' else ri_PointType i),
        ri_Status := (if ri_Status i = '''' then ''available'' else ri_Status i),
        ri_Metadata := put ''backupStorageName'' (ri_BackupStorageName i)
          (put ''backupTaskId'' (ri_BackupTaskID i)
          (put ''labelSelector'' (ri_LabelSelector i)
          (put ''sourceNamespace'' (ri_SourceNamespace i) (ri_Metadata i))))\<rparr>)"

text \<open>
  Acceptance of a result: a first complete result is recorded in its task; a repeated one must agree
  with the record, and the record is what is published. \<open>Published\<close> is the early return for a result that
  was published before.
\<close>

datatype acceptance = Published string | Proceed store_db RestorePointInput

definition conflicting_point :: "store_db \<Rightarrow> RestorePointInput \<Rightarrow> string \<Rightarrow> bool" where
  "conflicting_point db i tenantID \<longleftrightarrow>
     (\<exists>p \<in> set (db_points db). rp_SourceClusterID p = ri_SourceClusterID i \<and>
        rp_VeleroBackupName p = ri_VeleroBackupName i \<and>
        (rp_TenantID p \<noteq> tenantID \<or> rp_BackupTaskID p \<noteq> ri_BackupTaskID i))"

definition recorded :: "RestorePointInput \<Rightarrow> Task \<Rightarrow> Task" where
  "recorded i t = t\<lparr>t_Status := (if t_CompletedAt t = 0 then ''finalizing'' else t_Status t),
     t_Payload := jmerge (t_Payload t)
       [(''backupResult'', AMap (encode_point_input i)),
        (''sizeMetricsV2'', json_value (AMap (ri_SizeMetricsV2 i))),
        (''veleroBackupName'', AStr (ri_VeleroBackupName i)), (''backupResultStatus'', AStr ''accepted''),
        (''sizeProgressV2'', ANil), (''volumeProgress'', ANil)]\<rparr>"

definition record_result :: "store_db \<Rightarrow> RestorePointInput \<Rightarrow> store_db" where
  "record_result db i =
     db\<lparr>db_tasks := update_where (\<lambda>t. t_ID t = ri_BackupTaskID i) (recorded i) (db_tasks db)\<rparr>"

definition accept_result :: "store_db \<Rightarrow> RestorePointInput \<Rightarrow> string \<Rightarrow> store_error + acceptance" where
  "accept_result db i tenantID =
     (if conflicting_point db i tenantID then Inl ErrBackupResultConflict
      else res_bind (case find (\<lambda>t. sql_eq (t_ID t) (ri_BackupTaskID i) \<and> t_TenantID t = tenantID \<and>
             sql_eq (t_ClusterID t) (ri_SourceClusterID i) \<and>
             sql_eq (t_ProtectionPlanID t) (ri_ProtectionPlanID i)) (db_tasks db) of
           None \<Rightarrow> Inl ErrNoRows | Some t \<Rightarrow> Inr t) (\<lambda>task.
      if t_Type task \<noteq> ''backup'' \<or> t_Status task \<in> {''failed'', ''canceling'', ''canceled'', ''cancelled''}
      then Inl ErrBackupResultConflict
      else if mget (t_Payload task) ''backupResult'' \<noteq> ANil then
        res_bind (dec_map (t_Payload task) ''backupResult'') (\<lambda>raw.
        res_bind (decode_point_input raw) (\<lambda>snapshot.
        if ri_VeleroBackupName snapshot \<noteq> ri_VeleroBackupName i \<or>
           \<not> backupMetricsEqual (ri_SizeMetricsV2 snapshot) (ri_SizeMetricsV2 i)
        then Inl ErrBackupResultConflict
        else if t_Status task = ''succeeded'' \<and> t_RestorePointID task \<noteq> ''''
        then Inr (Published (t_RestorePointID task))
        else Inr (Proceed db snapshot)))
      else if \<not> CompleteBackupMetrics (ri_SizeMetricsV2 i) then Inl ErrBackupResultIncomplete
      else Inr (Proceed (record_result db i) i)))"

text \<open>Missing metrics are taken from the task.\<close>

definition task_metrics :: "store_db \<Rightarrow> RestorePointInput \<Rightarrow> store_error + RestorePointInput" where
  "task_metrics db i =
     (if ri_BackupTaskID i \<noteq> '''' \<and> ri_SizeMetricsV2 i = [] then
        (case find (\<lambda>t. t_ID t = ri_BackupTaskID i \<and> sql_eq (t_ProtectionPlanID t) (ri_ProtectionPlanID i))
           (db_tasks db) of
           None \<Rightarrow> Inr i
         | Some t \<Rightarrow> res_bind (dec_map (t_Payload t) ''sizeMetricsV2'') (\<lambda>metrics.
             if metrics = [] then Inr i
             else Inr (i\<lparr>ri_SizeMetricsV2 := metrics,
                     ri_Metadata := mset_key ''sizeMetricsV2'' (AMap metrics) (ri_Metadata i)\<rparr>)))
      else Inr i)"

text \<open>
  The reservation the result fills. \<open>Wait\<close> is the other early return: the old point has to go first, and
  the result is parked in the reservation, which is committed.
\<close>

datatype slot = Wait store_db | Fill store_db

definition park_result :: "store_db \<Rightarrow> gtime \<Rightarrow> RestorePointInput \<Rightarrow> store_db" where
  "park_result db now i =
     db\<lparr>db_reservations := update_where (\<lambda>rv. rv_TaskID rv = ri_BackupTaskID i)
       (\<lambda>rv. rv\<lparr>rv_State := (if rv_State rv = ''reserved'' then ''data_ready'' else rv_State rv),
          rv_PendingPoint := Some (reload_input i), rv_UpdatedAt := now\<rparr>) (db_reservations db)\<rparr>"

definition quota_task :: "RestorePointInput \<Rightarrow> Task" where
  "quota_task i = \<lparr>t_ID = ri_BackupTaskID i, t_TenantID = '''', t_ClusterID = '''', t_AppID = '''',
     t_ProtectionPlanID = ri_ProtectionPlanID i, t_RestorePointID = '''', t_Type = ''backup'', t_Status = '''',
     t_Progress = 0, t_CommandID = '''', t_ErrorCode = '''', t_ErrorMessage = '''', t_Payload = [],
     t_CreatedAt = 0, t_DispatchedAt = 0, t_AcceptedAt = 0, t_StartedAt = 0, t_CompletedAt = 0\<rparr>"

definition reserved_or_reserve ::
  "(string \<Rightarrow> location option) \<Rightarrow> gtime \<Rightarrow> store_db \<Rightarrow> RestorePointInput \<Rightarrow> store_error + store_db" where
  "reserved_or_reserve LoadLocation now db i =
     (if find_row rv_TaskID (ri_BackupTaskID i) (db_reservations db) = None \<and> ri_ProtectionPlanID i \<noteq> ''''
      then reserveBackupQuota LoadLocation now db (quota_task i) else Inr db)"

definition take_slot ::
  "(string \<Rightarrow> location option) \<Rightarrow> gtime \<Rightarrow> store_db \<Rightarrow> RestorePointInput \<Rightarrow> store_error + slot" where
  "take_slot LoadLocation now db i =
     (if ri_BackupTaskID i = '''' then Inr (Fill db)
      else res_bind (reserved_or_reserve LoadLocation now db i) (\<lambda>db.
      case find_row rv_TaskID (ri_BackupTaskID i) (db_reservations db) of
        None \<Rightarrow> Inr (Fill db)
      | Some rv \<Rightarrow>
          if rv_State rv = ''released''
          then Inl (ErrRestorePointQuota ''restore point quota exhausted: no unprotected point can be replaced'')
          else if rv_ReplacementPointID rv \<noteq> '''' \<and> rv_State rv \<noteq> ''published'' then
            res_bind (query_row rp_ID (rv_ReplacementPointID rv) (db_points db)) (\<lambda>old.
            if rp_Status old \<noteq> ''deleted'' then Inr (Wait (park_result db now i)) else Inr (Fill db))
          else Inr (Fill db)))"

definition new_point :: "string \<Rightarrow> gtime \<Rightarrow> string \<Rightarrow> RestorePointInput \<Rightarrow> RestorePoint" where
  "new_point newID now tenantID i =
     \<lparr>rp_ID = newID, rp_TenantID = tenantID, rp_ProtectionPlanID = ri_ProtectionPlanID i,
       rp_SourceClusterID = ri_SourceClusterID i, rp_AppID = ri_AppID i, rp_StorageRepoID = ri_StorageRepoID i,
       rp_DisplayName = '''', rp_VeleroBackupName = ri_VeleroBackupName i, rp_PointType = ri_PointType i,
       rp_Status = ri_Status i, rp_SizeBytes = ri_SizeBytes i, rp_StartedAt = ri_StartedAt i,
       rp_CompletedAt = ri_CompletedAt i, rp_ExpiresAt = ri_ExpiresAt i,
       rp_SourceNamespace = ri_SourceNamespace i, rp_LabelSelector = ri_LabelSelector i,
       rp_BackupTaskID = ri_BackupTaskID i, rp_BackupStorageName = ri_BackupStorageName i,
       rp_TaskCreatedAt = (if ri_TaskCreatedAt i = 0 then now else ri_TaskCreatedAt i),
       rp_Metadata = ri_Metadata i, rp_SizeMetricsV2 = ri_SizeMetricsV2 i, rp_CreatedAt = now\<rparr>"

text \<open>
  The trigger of migration 36: a point needs a backup task of its own plan, and takes its time from it.
\<close>

definition backup_task_guard :: "store_db \<Rightarrow> RestorePoint \<Rightarrow> store_error + RestorePoint" where
  "backup_task_guard db p =
     (if rp_BackupTaskID p = '''' then Inl (ErrConstraint ''restore point backup_task_id is required'')
      else (case find_row t_ID (rp_BackupTaskID p) (db_tasks db) of
          None \<Rightarrow> Inl (ErrConstraint ''restore point backup task must be a backup task owned by the same protection plan'')
        | Some t \<Rightarrow>
            if t_Type t \<noteq> ''backup'' \<or> t_ProtectionPlanID t \<noteq> rp_ProtectionPlanID p
            then Inl (ErrConstraint ''restore point backup task must be a backup task owned by the same protection plan'')
            else Inr (p\<lparr>rp_TaskCreatedAt := t_CreatedAt t\<rparr>)))"

definition coalesce_id :: "string \<Rightarrow> string \<Rightarrow> string" where
  "coalesce_id a b = (if a = '''' then b else a)"

definition merge_point :: "RestorePoint \<Rightarrow> RestorePoint \<Rightarrow> RestorePoint" where
  "merge_point p e = p\<lparr>rp_DisplayName := '''',
     rp_SizeBytes := (if rp_SizeBytes e = 0 then rp_SizeBytes p else rp_SizeBytes e),
     rp_CompletedAt := (if rp_CompletedAt e = 0 then rp_CompletedAt p else rp_CompletedAt e),
     rp_AppID := coalesce_id (rp_AppID p) (rp_AppID e),
     rp_StorageRepoID := coalesce_id (rp_StorageRepoID p) (rp_StorageRepoID e),
     rp_TaskCreatedAt := (if rp_TaskCreatedAt p = 0 then rp_TaskCreatedAt e else rp_TaskCreatedAt p),
     rp_BackupTaskID := coalesce_id (rp_BackupTaskID p) (rp_BackupTaskID e),
     rp_Metadata := jmerge (rp_Metadata p) (foldr mdelete [''velero'', ''size'', ''restorePointSize'',
       ''planStorageSize'', ''sizeStatus'', ''sizeWarnings''] (rp_Metadata e)),
     rp_SizeMetricsV2 := (if rp_SizeMetricsV2 e = [] then rp_SizeMetricsV2 p else rp_SizeMetricsV2 e)\<rparr>"

definition same_key :: "RestorePoint \<Rightarrow> RestorePoint \<Rightarrow> bool" where
  "same_key p q \<longleftrightarrow> rp_SourceClusterID p = rp_SourceClusterID q \<and> rp_VeleroBackupName p = rp_VeleroBackupName q"

definition upsert_point :: "store_db \<Rightarrow> RestorePoint \<Rightarrow> store_error + store_db" where
  "upsert_point db point =
     (let row = point\<lparr>rp_Metadata := json_object (rp_Metadata point),
            rp_SizeMetricsV2 := json_object (rp_SizeMetricsV2 point),
            rp_SourceNamespace := '''', rp_LabelSelector := '''', rp_BackupStorageName := ''''\<rparr> in
      res_bind (backup_task_guard db row) (\<lambda>row.
      case find (same_key row) (db_points db) of
        None \<Rightarrow> res_bind (res_guard (find_row rp_ID (rp_ID row) (db_points db) = None)
            (ErrConstraint ''restore_points_pkey'')) (\<lambda>_. Inr (db\<lparr>db_points := db_points db @ [row]\<rparr>))
      | Some p \<Rightarrow> res_bind (backup_task_guard db (merge_point p row)) (\<lambda>merged.
          Inr (db\<lparr>db_points := update_where (same_key row) (\<lambda>_. merged) (db_points db)\<rparr>))))"

definition publish_reservation :: "store_db \<Rightarrow> gtime \<Rightarrow> RestorePointInput \<Rightarrow> store_db" where
  "publish_reservation db now i =
     (if ri_BackupTaskID i = '''' then db
      else db\<lparr>db_reservations := update_where (\<lambda>rv. rv_TaskID rv = ri_BackupTaskID i \<and> active rv)
        (\<lambda>rv. rv\<lparr>rv_State := ''published'', rv_PendingPoint := Some (reload_input i), rv_UpdatedAt := now\<rparr>)
        (db_reservations db)\<rparr>)"

definition finalize_task :: "store_db \<Rightarrow> string \<Rightarrow> gtime \<Rightarrow> RestorePointInput \<Rightarrow> store_db" where
  "finalize_task db eventID now i =
     (let pid = (case find (\<lambda>p. rp_SourceClusterID p = ri_SourceClusterID i \<and>
                   rp_VeleroBackupName p = ri_VeleroBackupName i) (db_points db) of
                   None \<Rightarrow> '''' | Some p \<Rightarrow> rp_ID p)
      in db\<lparr>db_tasks := update_where (\<lambda>t. t_ID t = ri_BackupTaskID i)
           (\<lambda>t. t\<lparr>t_Status := ''succeeded'', t_Progress := 100, t_ErrorCode := '''', t_ErrorMessage := '''',
              t_CompletedAt := (if t_CompletedAt t = 0 then now else t_CompletedAt t), t_RestorePointID := pid,
              t_Payload := jmerge (t_Payload t) [(''quotaStage'', AStr ''published''),
                (''restorePointId'', if pid = '''' then ANil else AStr pid)]\<rparr>) (db_tasks db),
         db_task_events := db_task_events db @
           [\<lparr>tv_ID = eventID, tv_TaskID = ri_BackupTaskID i, tv_Level = ''info'', tv_Reason = ''completed'',
             tv_Message = ''Backup result accepted and restore point published.'',
             tv_Payload = [(''backupResultPublished'', ABool True)], tv_CreatedAt = now\<rparr>]\<rparr>)"

definition published_point :: "store_db \<Rightarrow> RestorePointInput \<Rightarrow> RestorePoint \<Rightarrow> RestorePoint" where
  "published_point db i point =
     (case find (\<lambda>p. rp_VeleroBackupName p = ri_VeleroBackupName i)
        (ListRestorePoints db (cluster_points (ri_SourceClusterID i))) of
        Some p \<Rightarrow> p | None \<Rightarrow> point)"

text \<open>From the slot on: insert or merge the point, close the reservation, finish the task.\<close>

definition fill_slot ::
  "string \<Rightarrow> string \<Rightarrow> gtime \<Rightarrow> bool \<Rightarrow> store_db \<Rightarrow> string \<Rightarrow> RestorePointInput \<Rightarrow> RestorePoint tx" where
  "fill_slot newID eventID now finalizeBackup db tenantID i =
     (let point = new_point newID now tenantID i in
      res_bind (upsert_point db point) (\<lambda>db.
      let db = publish_reservation db now i;
          db = (if finalizeBackup then finalize_task db eventID now i else db)
      in Inr (db, published_point db i point)))"

definition createRestorePoint ::
  "(string \<Rightarrow> location option) \<Rightarrow> string \<Rightarrow> string \<Rightarrow> gtime \<Rightarrow> store_db \<Rightarrow> RestorePointInput \<Rightarrow> bool
    \<Rightarrow> store_db \<times> (store_error + RestorePoint)" where
  "createRestorePoint LoadLocation newID eventID now db input finalizeBackup =
     (let i = point_defaults input;
          prelude = res_bind (quotaPlanLock db (ri_ProtectionPlanID i)) (\<lambda>_.
            case map_of (owner_rows db ''clusters'') (ri_SourceClusterID i) of
              None \<Rightarrow> Inl ErrTenantResourceMismatch
            | Some tenantID \<Rightarrow> res_bind (validateRestorePointReferences db i tenantID) (\<lambda>_.
                res_bind (if finalizeBackup then accept_result db i tenantID else Inr (Proceed db i)) (\<lambda>a.
                Inr (tenantID, a))))
      in case prelude of
           Inl e \<Rightarrow> (db, Inl e)
         | Inr (tenantID, Published pid) \<Rightarrow>
             (db, case GetRestorePoint db pid of None \<Rightarrow> Inl ErrBackupResultConflict | Some p \<Rightarrow> Inr p)
         | Inr (tenantID, Proceed db1 i) \<Rightarrow>
             (case res_bind (task_metrics db1 i) (\<lambda>i.
                res_bind (take_slot LoadLocation now db1 i) (\<lambda>s. Inr (i, s))) of
                Inl e \<Rightarrow> (db, Inl e)
              | Inr (i, Wait db2) \<Rightarrow> (db2, Inl ErrRestorePointReplacementPending)
              | Inr (i, Fill db2) \<Rightarrow> run_tx db (fill_slot newID eventID now finalizeBackup db2 tenantID i)))"

definition CreateRestorePoint ::
  "(string \<Rightarrow> location option) \<Rightarrow> string \<Rightarrow> string \<Rightarrow> gtime \<Rightarrow> store_db \<Rightarrow> RestorePointInput
    \<Rightarrow> store_db \<times> (store_error + RestorePoint)" where
  "CreateRestorePoint LoadLocation newID eventID now db input =
     createRestorePoint LoadLocation newID eventID now db input False"

definition PublishBackupResult ::
  "(string \<Rightarrow> location option) \<Rightarrow> string \<Rightarrow> string \<Rightarrow> gtime \<Rightarrow> store_db \<Rightarrow> RestorePointInput
    \<Rightarrow> store_db \<times> (store_error + RestorePoint)" where
  "PublishBackupResult LoadLocation newID eventID now db input =
     createRestorePoint LoadLocation newID eventID now db input True"

section \<open>Changing the state\<close>

definition state_row :: "string \<Rightarrow> gomap \<Rightarrow> RestorePoint \<Rightarrow> RestorePoint" where
  "state_row status metadata p =
     p\<lparr>rp_Status := (if rp_Status p = ''deleted'' then rp_Status p else status),
       rp_Metadata := jmerge (rp_Metadata p) (json_object metadata)\<rparr>"

definition UpdateRestorePointState ::
  "store_db \<Rightarrow> RestorePointStateInput \<Rightarrow> store_db \<times> (store_error + RestorePoint option)" where
  "UpdateRestorePointState db input =
     (if rsi_ID input = '''' then (db, Inr None)
      else let status = (if rsi_Status input = '''' then ''available'' else rsi_Status input) in
      case find_row rp_ID (rsi_ID input) (db_points db) of
        None \<Rightarrow> (db, Inr None)
      | Some p \<Rightarrow> run_tx db (res_bind (quotaPlanLock db (rp_ProtectionPlanID p)) (\<lambda>_.
          let db = db\<lparr>db_points := update_where (\<lambda>p. rp_ID p = rsi_ID input)
                 (state_row status (rsi_Metadata input)) (db_points db)\<rparr>
          in Inr (db, map_option (\<lambda>p. (read_point p)\<lparr>rp_BackupTaskID := '''', rp_SizeMetricsV2 := []\<rparr>)
               (find_row rp_ID (rsi_ID input) (db_points db))))))"

definition UpdateRestorePointSizeMetrics :: "store_db \<Rightarrow> string \<Rightarrow> gomap \<Rightarrow> store_db" where
  "UpdateRestorePointSizeMetrics db pid metrics =
     (if pid = '''' \<or> metrics = [] then db
      else db\<lparr>db_points := update_where (\<lambda>p. rp_ID p = pid \<and> rp_SizeMetricsV2 p = [])
        (\<lambda>p. p\<lparr>rp_SizeMetricsV2 := json_object metrics,
           rp_Metadata := mset_key ''sizeMetricsV2'' (json_value (AMap metrics)) (rp_Metadata p)\<rparr>) (db_points db)\<rparr>)"

end
