(* ===== verification/Store_Plans.thy ===== *)
theory Store_Plans
  imports Store_Points
begin

text \<open>
  Policies, protection plans and their schedules (\<^verbatim>\<open>postgres_policies.go\<close>, \<^verbatim>\<open>postgres_protection.go\<close> and
  \<^verbatim>\<open>GetProtectionPlan\<close> of \<^verbatim>\<open>postgres.go\<close> under \<^verbatim>\<open>backend/internal/store\<close>). The rows of
  \<^verbatim>\<open>protection_plan_apps\<close> are the list \<open>pl_AppIDs\<close> of their plan, in the order of insertion. The columns
  \<open>pl_NextFireAt\<close> and \<open>pl_ScheduleEnabled\<close> are joined in from the schedule table when a plan is read.
\<close>

section \<open>Policies\<close>

record PolicyInput =
  pi_RetentionRules :: "RetentionRule list"
  pi_RetentionTimezone :: string
  pi_TenantID :: string
  pi_Name :: string
  pi_Composition :: string
  pi_ScheduleType :: string
  pi_IntervalValue :: int
  pi_IntervalUnit :: string
  pi_Hour :: int
  pi_Minute :: int
  pi_WeekDay :: int
  pi_MonthDay :: int
  pi_RetentionCount :: int
  pi_RetentionDays :: int
  pi_Status :: string

definition or_default :: "string \<Rightarrow> string \<Rightarrow> string" where
  "or_default s d = (if s = '''' then d else s)"

definition new_policy :: "string \<Rightarrow> gtime \<Rightarrow> PolicyInput \<Rightarrow> Policy" where
  "new_policy newID now i =
     \<lparr>p_RetentionRules = pi_RetentionRules i, p_RetentionTimezone = or_default (pi_RetentionTimezone i) ''UTC'',
       p_ID = newID, p_TenantID = or_default (pi_TenantID i) DefaultTenantID, p_Name = pi_Name i,
       p_Composition = or_default (pi_Composition i) ''manual'',
       p_ScheduleType = or_default (pi_ScheduleType i) ''manual'', p_IntervalValue = pi_IntervalValue i,
       p_IntervalUnit = pi_IntervalUnit i, p_Hour = pi_Hour i, p_Minute = pi_Minute i, p_WeekDay = pi_WeekDay i,
       p_MonthDay = pi_MonthDay i, p_RetentionCount = pi_RetentionCount i, p_RetentionDays = pi_RetentionDays i,
       p_Status = or_default (pi_Status i) ''pending_activation'', p_BoundCount = 0, p_CreatedAt = now,
       p_UpdatedAt = now\<rparr>"

text \<open>The primary key and the unique name per tenant.\<close>

definition policy_name_taken :: "store_db \<Rightarrow> string \<Rightarrow> string \<Rightarrow> string \<Rightarrow> bool" where
  "policy_name_taken db pid tenantID name \<longleftrightarrow>
     (\<exists>p \<in> set (db_policies db). p_ID p \<noteq> pid \<and> p_TenantID p = tenantID \<and> p_Name p = name)"

definition CreatePolicy ::
  "(string \<Rightarrow> location option) \<Rightarrow> string \<Rightarrow> gtime \<Rightarrow> store_db \<Rightarrow> PolicyInput \<Rightarrow> store_db \<times> (store_error + Policy)" where
  "CreatePolicy LoadLocation newID now db input =
     (let policy = new_policy newID now input in
      run_tx db (res_bind (ValidateRetentionRules LoadLocation (p_RetentionRules policy) (p_RetentionTimezone policy)) (\<lambda>_.
      res_bind (res_guard (find_row p_ID newID (db_policies db) = None) (ErrConstraint ''policies_pkey'')) (\<lambda>_.
      res_bind (res_guard (p_TenantID policy \<in> tn_ID ` set (db_tenants db)) (ErrConstraint ''policies_tenant_id_fkey'')) (\<lambda>_.
      res_bind (res_guard (\<not> policy_name_taken db newID (p_TenantID policy) (p_Name policy))
        (ErrConstraint ''policies_tenant_id_name_key'')) (\<lambda>_.
      Inr (db\<lparr>db_policies := db_policies db @ [policy]\<rparr>, policy)))))))"

definition bound_apps :: "store_db \<Rightarrow> string \<Rightarrow> string list" where
  "bound_apps db pid =
     remdups (concat (map (\<lambda>pl. pl_AppID pl # pl_AppIDs pl) (filter (\<lambda>pl. sql_eq (pl_PolicyID pl) pid) (db_plans db))))"

definition ListPolicies :: "store_db \<Rightarrow> Policy list" where
  "ListPolicies db =
     map (\<lambda>p. p\<lparr>p_BoundCount := int (length (bound_apps db (p_ID p)))\<rparr>)
       (rev (sort_key p_CreatedAt (db_policies db)))"

definition policy_row :: "gtime \<Rightarrow> PolicyInput \<Rightarrow> Policy \<Rightarrow> Policy" where
  "policy_row now i p = p\<lparr>p_Name := pi_Name i, p_Composition := pi_Composition i, p_ScheduleType := pi_ScheduleType i,
     p_IntervalValue := pi_IntervalValue i, p_IntervalUnit := pi_IntervalUnit i, p_Hour := pi_Hour i,
     p_Minute := pi_Minute i, p_WeekDay := pi_WeekDay i, p_MonthDay := pi_MonthDay i,
     p_RetentionCount := pi_RetentionCount i, p_RetentionDays := pi_RetentionDays i, p_Status := pi_Status i,
     p_RetentionRules := pi_RetentionRules i, p_RetentionTimezone := or_default (pi_RetentionTimezone i) ''UTC'',
     p_UpdatedAt := now\<rparr>"

text \<open>The slots of a plan as \<^verbatim>\<open>UpdatePolicy\<close> counts them in SQL.\<close>

definition occupied_slots :: "store_db \<Rightarrow> string \<Rightarrow> nat" where
  "occupied_slots db planID =
     count_where (\<lambda>p. sql_eq (rp_ProtectionPlanID p) planID \<and> rp_Status p \<noteq> ''deleted'') (db_points db) +
     count_where (holds_slot db planID) (db_reservations db)"

definition plans_of_policy :: "store_db \<Rightarrow> string \<Rightarrow> string list" where
  "plans_of_policy db pid = sort (map pl_ID (filter (\<lambda>pl. sql_eq (pl_PolicyID pl) pid) (db_plans db)))"

definition check_quota :: "store_db \<Rightarrow> PolicyInput \<Rightarrow> string \<Rightarrow> store_error + unit" where
  "check_quota db i planID =
     res_guard (\<not> (pi_RetentionCount i > 0 \<and> pi_Composition i \<in> {''combined'', ''retention''} \<and>
        int (occupied_slots db planID) > pi_RetentionCount i))
       (ErrRestorePointQuota ''restore point quota exhausted: no unprotected point can be replaced'')"

definition UpdatePolicy ::
  "(string \<Rightarrow> location option) \<Rightarrow> gtime \<Rightarrow> store_db \<Rightarrow> string \<Rightarrow> PolicyInput \<Rightarrow> store_db \<times> (store_error + Policy option)" where
  "UpdatePolicy LoadLocation now db pid input =
     (case res_bind (ValidateRetentionRules LoadLocation (pi_RetentionRules input) (or_default (pi_RetentionTimezone input) ''UTC'')) (\<lambda>_.
        res_bind (res_fold (\<lambda>_. check_quota db input) () (plans_of_policy db pid)) (\<lambda>_.
        case find_row p_ID pid (db_policies db) of
          None \<Rightarrow> Inr None
        | Some p \<Rightarrow> res_bind (res_guard (\<not> policy_name_taken db pid (p_TenantID p) (pi_Name input))
            (ErrConstraint ''policies_tenant_id_name_key'')) (\<lambda>_.
            Inr (Some (db\<lparr>db_policies := update_where (\<lambda>p. p_ID p = pid) (policy_row now input) (db_policies db)\<rparr>))))) of
        Inl e \<Rightarrow> (db, Inl e)
      | Inr None \<Rightarrow> (db, Inr None)
      | Inr (Some db') \<Rightarrow> (db', Inr (find (\<lambda>p. p_ID p = pid) (ListPolicies db'))))"

text \<open>The first result says whether a policy was deleted, the second whether it is in use.\<close>

definition DeletePolicy :: "store_db \<Rightarrow> string \<Rightarrow> store_db \<times> (store_error + bool \<times> bool)" where
  "DeletePolicy db pid =
     (case find_row p_ID pid (db_policies db) of
        None \<Rightarrow> (db, Inr (False, False))
      | Some p \<Rightarrow>
          if \<exists>pl \<in> set (db_plans db). pl_TenantID pl = p_TenantID p \<and> sql_eq (pl_PolicyID pl) pid
          then (db, Inr (False, True))
          else if \<exists>pl \<in> set (db_plans db). sql_eq (pl_PolicyID pl) pid
          then (db, Inl (ErrConstraint ''protection_plans_policy_id_fkey''))
          else (db\<lparr>db_policies := filter (\<lambda>q. \<not> (p_ID q = pid \<and> p_TenantID q = p_TenantID p)) (db_policies db)\<rparr>,
                Inr (True, False)))"

section \<open>Saving a plan\<close>

record ProtectionPlanInput =
  pli_TenantID :: string
  pli_SourceClusterID :: string
  pli_AppID :: string
  pli_AppIDs :: "string list"
  pli_ScopeType :: string
  pli_IncludedResources :: "string list"
  pli_ResourceSelection :: ResourceSelection
  pli_LabelSelector :: LabelSelector
  pli_IncludeClusterScoped :: bool
  pli_StorageRepoID :: string
  pli_PolicyID :: string
  pli_TargetClusterID :: string
  pli_ExcludedResources :: "string list"
  pli_PreHooks :: "gomap list"
  pli_PostHooks :: "gomap list"
  pli_Status :: string

definition planIDsSlice :: "string list \<Rightarrow> string list" where
  "planIDsSlice ids = filter (\<lambda>v. v \<noteq> '''') ids"

fun dedup_from :: "string set \<Rightarrow> string list \<Rightarrow> string list" where
  "dedup_from seen [] = []"
| "dedup_from seen (v # vs) =
     (if v = '''' \<or> v \<in> seen then dedup_from seen vs else v # dedup_from (insert v seen) vs)"

definition dedupNonEmpty :: "string list \<Rightarrow> string list" where
  "dedupNonEmpty ids = dedup_from {} ids"

definition plan_app_ids :: "ProtectionPlanInput \<Rightarrow> string list" where
  "plan_app_ids i =
     (let ids = dedupNonEmpty (pli_AppIDs i)
      in if pli_AppID i \<noteq> '''' then dedupNonEmpty (ids @ [pli_AppID i]) else ids)"

definition new_plan :: "string \<Rightarrow> gtime \<Rightarrow> ProtectionPlanInput \<Rightarrow> ProtectionPlan" where
  "new_plan newID now i =
     (let ids = plan_app_ids i in
      \<lparr>pl_ID = newID, pl_TenantID = or_default (pli_TenantID i) DefaultTenantID,
        pl_SourceClusterID = pli_SourceClusterID i, pl_AppID = (case ids of [] \<Rightarrow> '''' | a # _ \<Rightarrow> a), pl_AppIDs = ids,
        pl_ScopeType = or_default (pli_ScopeType i) ''all'', pl_IncludedResources = pli_IncludedResources i,
        pl_ResourceSelection = (pli_ResourceSelection i)
          \<lparr>rsel_Mode := or_default (rsel_Mode (pli_ResourceSelection i)) ''all''\<rparr>,
        pl_LabelSelector = pli_LabelSelector i, pl_IncludeClusterScoped = pli_IncludeClusterScoped i,
        pl_StorageRepoID = pli_StorageRepoID i, pl_PolicyID = pli_PolicyID i, pl_TargetClusterID = pli_TargetClusterID i,
        pl_ExcludedResources = pli_ExcludedResources i, pl_PreHooks = pli_PreHooks i, pl_PostHooks = pli_PostHooks i,
        pl_PlanStorageSize = [], pl_NextFireAt = 0, pl_ScheduleEnabled = False, pl_LatestSyncTaskID = '''',
        pl_LatestRecoveryTaskID = '''', pl_Status = or_default (pli_Status i) ''active'', pl_CreatedAt = now,
        pl_UpdatedAt = now\<rparr>)"

abbreviation busy_statuses :: "string list" where
  "busy_statuses \<equiv> [''queued'', ''pending'', ''running'', ''dispatched'', ''accepted'', ''syncing'', ''finalizing'',
     ''canceling'', ''cancelling'']"

text \<open>The checks on the plan that is updated; the result is its creation time.\<close>

definition check_update :: "store_db \<Rightarrow> string \<Rightarrow> ProtectionPlan \<Rightarrow> store_error + gtime" where
  "check_update db plid plan =
     res_bind (query_row pl_ID plid (db_plans db)) (\<lambda>old.
     if pl_TenantID old \<noteq> pl_TenantID plan then Inl ErrTenantResourceMismatch
     else if pl_SourceClusterID old \<noteq> pl_SourceClusterID plan then Inl ErrProtectionPlanIdentity
     else if \<not> (length (pl_AppIDs old) = length (planIDsSlice (pl_AppIDs plan)) \<and> pl_AppIDs old \<noteq> [] \<and>
        set (pl_AppIDs old) \<subseteq> set (planIDsSlice (pl_AppIDs plan)))
     then Inl ErrProtectionPlanIdentity
     else if (\<exists>t \<in> set (db_tasks db). sql_eq (t_ProtectionPlanID t) plid \<and> t_Status t \<in> set busy_statuses) \<or>
        pl_Status old \<in> {''cleanup_running'', ''activating_storage'', ''activating_schedule''}
     then Inl ErrProtectionPlanBusy
     else Inr (pl_CreatedAt old))"

definition owned_or_null :: "(string \<times> string) list \<Rightarrow> string \<Rightarrow> string \<Rightarrow> bool" where
  "owned_or_null rows rid tenantID \<longleftrightarrow> rid = '''' \<or> (rid, tenantID) \<in> set rows"

definition plan_references_valid :: "store_db \<Rightarrow> ProtectionPlan \<Rightarrow> bool" where
  "plan_references_valid db plan \<longleftrightarrow>
     owned_or_null (owner_rows db ''clusters'') (pl_SourceClusterID plan) (pl_TenantID plan) \<and>
     owned_or_null (owner_rows db ''clusters'') (pl_TargetClusterID plan) (pl_TenantID plan) \<and>
     owned_or_null (owner_rows db ''storage_repositories'') (pl_StorageRepoID plan) (pl_TenantID plan) \<and>
     owned_or_null (map (\<lambda>p. (p_ID p, p_TenantID p)) (db_policies db)) (pl_PolicyID plan) (pl_TenantID plan)"

definition app_valid :: "store_db \<Rightarrow> ProtectionPlan \<Rightarrow> string \<Rightarrow> bool" where
  "app_valid db plan appID \<longleftrightarrow>
     (\<exists>a \<in> set (db_applications db). \<exists>c \<in> set (db_clusters db). ow_ID a = appID \<and>
        ap_ClusterID a = pl_SourceClusterID plan \<and> ow_ID c = ap_ClusterID a \<and> ow_TenantID c = pl_TenantID plan)"

text \<open>The other plan that already protects one of the applications, and the application.\<close>

definition protecting_plan :: "store_db \<Rightarrow> string \<Rightarrow> ProtectionPlan \<Rightarrow> (string \<times> string) option" where
  "protecting_plan db plid plan =
     (case concat (map (\<lambda>p. map (Pair (pl_ID p)) (filter (\<lambda>a. a \<in> set (planIDsSlice (pl_AppIDs plan))) (pl_AppIDs p)))
        (filter (\<lambda>p. pl_TenantID p = pl_TenantID plan \<and> pl_SourceClusterID p = pl_SourceClusterID plan \<and> pl_ID p \<noteq> plid)
          (db_plans db))) of
        [] \<Rightarrow> None | hit # _ \<Rightarrow> Some hit)"

definition plan_row :: "gtime \<Rightarrow> ProtectionPlan \<Rightarrow> ProtectionPlan \<Rightarrow> ProtectionPlan" where
  "plan_row now plan p = p\<lparr>pl_ScopeType := pl_ScopeType plan, pl_IncludedResources := pl_IncludedResources plan,
     pl_ResourceSelection := pl_ResourceSelection plan, pl_LabelSelector := pl_LabelSelector plan,
     pl_IncludeClusterScoped := pl_IncludeClusterScoped plan, pl_StorageRepoID := pl_StorageRepoID plan,
     pl_PolicyID := pl_PolicyID plan, pl_TargetClusterID := pl_TargetClusterID plan,
     pl_ExcludedResources := pl_ExcludedResources plan, pl_PreHooks := pl_PreHooks plan,
     pl_PostHooks := pl_PostHooks plan, pl_Status := pl_Status plan, pl_UpdatedAt := now\<rparr>"

definition write_plan :: "store_db \<Rightarrow> gtime \<Rightarrow> string \<Rightarrow> ProtectionPlan \<Rightarrow> store_error + store_db" where
  "write_plan db now plid plan =
     res_bind (res_guard (pl_ScopeType plan \<in> {''all'', ''filtered''}) (ErrConstraint ''protection_plans_scope_type_check'')) (\<lambda>_.
     if plid \<noteq> '''' then
       Inr (db\<lparr>db_plans := update_where (\<lambda>p. pl_ID p = plid) (plan_row now plan) (db_plans db),
          db_schedules := update_where (\<lambda>s. ps_ProtectionPlanID s = plid)
            (\<lambda>s. s\<lparr>ps_Enabled := False, ps_NextFireAt := 0, ps_UpdatedAt := now\<rparr>) (db_schedules db)\<rparr>)
     else
       res_bind (res_guard (pl_AppID plan \<noteq> '''' \<and> pl_SourceClusterID plan \<noteq> '''') (ErrConstraint ''protection_plans not null'')) (\<lambda>_.
       res_bind (res_guard (pl_TenantID plan \<in> tn_ID ` set (db_tenants db)) (ErrConstraint ''protection_plans_tenant_id_fkey'')) (\<lambda>_.
       res_bind (res_guard (find_row pl_ID (pl_ID plan) (db_plans db) = None) (ErrConstraint ''protection_plans_pkey'')) (\<lambda>_.
       Inr (db\<lparr>db_plans := db_plans db @ [plan]\<rparr>)))))"

definition saveProtectionPlan ::
  "string \<Rightarrow> gtime \<Rightarrow> store_db \<Rightarrow> string \<Rightarrow> ProtectionPlanInput \<Rightarrow> store_db \<times> (store_error + ProtectionPlan)" where
  "saveProtectionPlan newID now db plid input =
     (let plan = new_plan newID now input in
      run_tx db (res_bind (if plid = '''' then Inr plan else
        res_bind (check_update db plid plan) (\<lambda>created. Inr (plan\<lparr>pl_ID := plid, pl_CreatedAt := created\<rparr>))) (\<lambda>plan.
      res_bind (res_guard (plan_references_valid db plan) ErrTenantResourceMismatch) (\<lambda>_.
      res_bind (res_guard (list_all (app_valid db plan) (pl_AppIDs plan)) ErrTenantResourceMismatch) (\<lambda>_.
      res_bind (case protecting_plan db plid plan of
          Some (planID, appID) \<Rightarrow> Inl (ErrApplicationAlreadyProtected planID appID) | None \<Rightarrow> Inr ()) (\<lambda>_.
      res_bind (write_plan db now plid plan) (\<lambda>db. Inr (db, plan))))))))"

definition CreateProtectionPlan ::
  "string \<Rightarrow> gtime \<Rightarrow> store_db \<Rightarrow> ProtectionPlanInput \<Rightarrow> store_db \<times> (store_error + ProtectionPlan)" where
  "CreateProtectionPlan newID now db input = saveProtectionPlan newID now db '''' input"

definition UpdateProtectionPlan ::
  "string \<Rightarrow> gtime \<Rightarrow> store_db \<Rightarrow> string \<Rightarrow> ProtectionPlanInput \<Rightarrow> store_db \<times> (store_error + ProtectionPlan)" where
  "UpdateProtectionPlan newID now db plid input = saveProtectionPlan newID now db plid input"

section \<open>Reading plans\<close>

definition with_schedule :: "store_db \<Rightarrow> ProtectionPlan \<Rightarrow> ProtectionPlan" where
  "with_schedule db p =
     (let s = find_row ps_ProtectionPlanID (pl_ID p) (db_schedules db) in
      p\<lparr>pl_NextFireAt := (case s of None \<Rightarrow> 0 | Some s \<Rightarrow> ps_NextFireAt s),
        pl_ScheduleEnabled := (case s of None \<Rightarrow> False | Some s \<Rightarrow> ps_Enabled s),
        pl_ResourceSelection := (pl_ResourceSelection p)\<lparr>rsel_Mode := or_default (rsel_Mode (pl_ResourceSelection p)) ''all''\<rparr>\<rparr>)"

definition GetProtectionPlan :: "store_db \<Rightarrow> string \<Rightarrow> ProtectionPlan option" where
  "GetProtectionPlan db plid =
     map_option (\<lambda>p. (with_schedule db p)\<lparr>pl_AppIDs := pl_AppID p # pl_AppIDs p\<rparr>) (find_row pl_ID plid (db_plans db))"

definition ListProtectionPlans :: "store_db \<Rightarrow> string \<Rightarrow> ProtectionPlan list" where
  "ListProtectionPlans db clusterID =
     map (with_schedule db) (rev (sort_key pl_CreatedAt
       (filter (\<lambda>p. clusterID = '''' \<or> pl_SourceClusterID p = clusterID) (db_plans db))))"

section \<open>Small updates and schedules\<close>

definition UpdateProtectionPlanStatus :: "store_db \<Rightarrow> gtime \<Rightarrow> string \<Rightarrow> string \<Rightarrow> store_db \<times> ProtectionPlan option" where
  "UpdateProtectionPlanStatus db now plid status =
     (if plid = '''' then (db, None)
      else let db = db\<lparr>db_plans := update_where (\<lambda>p. pl_ID p = plid)
             (\<lambda>p. p\<lparr>pl_Status := or_default status ''pending_activation'', pl_UpdatedAt := now\<rparr>) (db_plans db)\<rparr>
        in (db, GetProtectionPlan db plid))"

definition UpdateProtectionPlanStorageSize :: "store_db \<Rightarrow> gtime \<Rightarrow> string \<Rightarrow> gomap \<Rightarrow> store_db \<times> ProtectionPlan option" where
  "UpdateProtectionPlanStorageSize db now plid sz =
     (if plid = '''' \<or> sz = [] then (db, None)
      else let db = db\<lparr>db_plans := update_where
             (\<lambda>p. pl_ID p = plid \<and> ''requestedAt'' \<notin> fst ` set (pl_PlanStorageSize p))
             (\<lambda>p. p\<lparr>pl_PlanStorageSize := json_object sz, pl_UpdatedAt := now\<rparr>) (db_plans db)\<rparr>
        in (db, GetProtectionPlan db plid))"

definition UpsertProtectionPlanSchedule ::
  "store_db \<Rightarrow> gtime \<Rightarrow> ProtectionPlanScheduleInput \<Rightarrow> store_db \<times> (store_error + ProtectionPlanSchedule)" where
  "UpsertProtectionPlanSchedule db now i =
     (let plid = psi_ProtectionPlanID i;
          new = \<lparr>ps_ProtectionPlanID = plid, ps_LastFiredAt = 0, ps_NextFireAt = psi_NextFireAt i,
            ps_Enabled = psi_Enabled i, ps_CreatedAt = now, ps_UpdatedAt = now\<rparr>
      in case find_row ps_ProtectionPlanID plid (db_schedules db) of
           Some s \<Rightarrow> let s' = s\<lparr>ps_NextFireAt := psi_NextFireAt i, ps_Enabled := psi_Enabled i, ps_UpdatedAt := now\<rparr>
             in (db\<lparr>db_schedules := update_where (\<lambda>s. ps_ProtectionPlanID s = plid) (\<lambda>_. s') (db_schedules db)\<rparr>, Inr s')
         | None \<Rightarrow> if find_row pl_ID plid (db_plans db) = None
             then (db, Inl (ErrConstraint ''protection_plan_schedules_protection_plan_id_fkey''))
             else (db\<lparr>db_schedules := db_schedules db @ [new]\<rparr>, Inr new))"

definition GetProtectionPlanSchedule :: "store_db \<Rightarrow> string \<Rightarrow> ProtectionPlanSchedule option" where
  "GetProtectionPlanSchedule db plid = find_row ps_ProtectionPlanID plid (db_schedules db)"

definition schedule_due :: "store_db \<Rightarrow> gtime \<Rightarrow> ProtectionPlanSchedule \<Rightarrow> bool" where
  "schedule_due db now s \<longleftrightarrow>
     (\<exists>p \<in> set (db_plans db). pl_ID p = ps_ProtectionPlanID s \<and>
        (\<exists>t \<in> set (db_tenants db). tn_ID t = pl_TenantID p \<and> tn_Status t = ''active'')) \<and>
     ps_Enabled s \<and> ps_NextFireAt s \<noteq> 0 \<and> ps_NextFireAt s \<le> now"

definition ListDueProtectionPlanSchedules :: "store_db \<Rightarrow> gtime \<Rightarrow> ProtectionPlanSchedule list" where
  "ListDueProtectionPlanSchedules db now = sort_key ps_NextFireAt (filter (schedule_due db now) (db_schedules db))"

definition MarkProtectionPlanScheduleFired ::
  "store_db \<Rightarrow> gtime \<Rightarrow> ProtectionPlanScheduleFiredInput \<Rightarrow> store_db \<times> ProtectionPlanSchedule option" where
  "MarkProtectionPlanScheduleFired db now i =
     (let db = db\<lparr>db_schedules := update_where (\<lambda>s. ps_ProtectionPlanID s = psf_ProtectionPlanID i)
          (\<lambda>s. s\<lparr>ps_LastFiredAt := psf_LastFiredAt i, ps_NextFireAt := psf_NextFireAt i, ps_UpdatedAt := now\<rparr>)
          (db_schedules db)\<rparr>
      in (db, find_row ps_ProtectionPlanID (psf_ProtectionPlanID i) (db_schedules db)))"

definition DisableProtectionPlanSchedule :: "store_db \<Rightarrow> gtime \<Rightarrow> string \<Rightarrow> store_db" where
  "DisableProtectionPlanSchedule db now plid =
     db\<lparr>db_schedules := update_where (\<lambda>s. ps_ProtectionPlanID s = plid)
       (\<lambda>s. s\<lparr>ps_Enabled := False, ps_UpdatedAt := now\<rparr>) (db_schedules db)\<rparr>"

definition ClearProtectionPlanTargetCluster ::
  "store_db \<Rightarrow> gtime \<Rightarrow> string \<Rightarrow> string \<Rightarrow> store_db \<times> ProtectionPlan option" where
  "ClearProtectionPlanTargetCluster db now plid target =
     (if \<exists>p \<in> set (db_plans db). pl_ID p = plid \<and> sql_eq (pl_TargetClusterID p) target then
        let db = db\<lparr>db_plans := update_where (\<lambda>p. pl_ID p = plid \<and> sql_eq (pl_TargetClusterID p) target)
             (\<lambda>p. p\<lparr>pl_TargetClusterID := '''', pl_UpdatedAt := now\<rparr>) (db_plans db)\<rparr>
        in (db, GetProtectionPlan db plid)
      else (db, None))"

section \<open>Removing a plan\<close>

text \<open>
  Deleting a plan archives its tasks and points under no plan; the rows that belong to the plan alone
  (schedule, applications, reservations) go with it by cascade. The returned plan is the row read before.
\<close>

definition read_plan_row :: "ProtectionPlan \<Rightarrow> ProtectionPlan" where
  "read_plan_row p = p\<lparr>pl_AppIDs := (if pl_AppIDs p = [] \<and> pl_AppID p \<noteq> '''' then [pl_AppID p] else pl_AppIDs p),
     pl_ResourceSelection := (pl_ResourceSelection p)\<lparr>rsel_Mode := or_default (rsel_Mode (pl_ResourceSelection p)) ''all''\<rparr>,
     pl_NextFireAt := 0, pl_ScheduleEnabled := False, pl_LatestSyncTaskID := '''', pl_LatestRecoveryTaskID := ''''\<rparr>"

definition archive_task :: "Task \<Rightarrow> Task" where
  "archive_task t = t\<lparr>t_Payload := mset_key ''archivedProtectionPlanId'' (AStr (t_ProtectionPlanID t)) (t_Payload t),
     t_ProtectionPlanID := ''''\<rparr>"

definition archive_point :: "RestorePoint \<Rightarrow> RestorePoint" where
  "archive_point p = p\<lparr>rp_Metadata := mset_key ''archivedProtectionPlanId'' (AStr (rp_ProtectionPlanID p)) (rp_Metadata p),
     rp_ProtectionPlanID := ''''\<rparr>"

text \<open>The trigger of migration 36 runs on each point whose plan changes, after the tasks were changed.\<close>

fun guard_points :: "store_db \<Rightarrow> (RestorePoint \<Rightarrow> bool) \<Rightarrow> (RestorePoint \<Rightarrow> RestorePoint) \<Rightarrow> RestorePoint list
    \<Rightarrow> store_error + RestorePoint list" where
  "guard_points db hit f [] = Inr []"
| "guard_points db hit f (p # ps) =
     res_bind (if hit p then backup_task_guard db (f p) else Inr p) (\<lambda>q.
     res_bind (guard_points db hit f ps) (\<lambda>qs. Inr (q # qs)))"

definition drop_plan_rows :: "store_db \<Rightarrow> string \<Rightarrow> store_db" where
  "drop_plan_rows db plid = db\<lparr>db_plans := filter (\<lambda>p. pl_ID p \<noteq> plid) (db_plans db),
     db_schedules := filter (\<lambda>s. ps_ProtectionPlanID s \<noteq> plid) (db_schedules db),
     db_reservations := filter (\<lambda>r. rv_PlanID r \<noteq> plid) (db_reservations db)\<rparr>"

definition set_app_status :: "gtime \<Rightarrow> string \<Rightarrow> (app_row \<Rightarrow> bool) \<Rightarrow> store_db \<Rightarrow> store_db" where
  "set_app_status now status hit db =
     db\<lparr>db_applications := update_where hit (\<lambda>a. a\<lparr>ap_ProtectionStatus := status, ap_UpdatedAt := now\<rparr>)
       (db_applications db)\<rparr>"

definition DeleteProtectionPlan :: "store_db \<Rightarrow> gtime \<Rightarrow> string \<Rightarrow> store_db \<times> (store_error + ProtectionPlan option)" where
  "DeleteProtectionPlan db now plid =
     (case find_row pl_ID plid (db_plans db) of
        None \<Rightarrow> (db, Inr None)
      | Some p \<Rightarrow> run_tx db (
          let item = read_plan_row p;
              db = db\<lparr>db_tasks := update_where (\<lambda>t. sql_eq (t_ProtectionPlanID t) plid) archive_task (db_tasks db)\<rparr>
          in res_bind (guard_points db (\<lambda>q. sql_eq (rp_ProtectionPlanID q) plid) archive_point (db_points db)) (\<lambda>points.
             let db = drop_plan_rows (db\<lparr>db_points := points\<rparr>) plid
             in Inr (set_app_status now ''unprotected'' (\<lambda>a. ow_ID a \<in> set (planIDsSlice (pl_AppIDs item))) db, Some item))))"

text \<open>
  Cleaning up removes the points and tasks as well. References to a removed row are set to null by the
  foreign keys; a point of another plan that would lose its backup task makes the trigger of
  migration 36 refuse, a plan that would keep a pointer to a removed task is cleared.
\<close>

definition unlink_points :: "(string \<Rightarrow> bool) \<Rightarrow> store_db \<Rightarrow> store_db" where
  "unlink_points gone db =
     db\<lparr>db_tasks := update_where (\<lambda>t. t_RestorePointID t \<noteq> '''' \<and> gone (t_RestorePointID t))
          (\<lambda>t. t\<lparr>t_RestorePointID := ''''\<rparr>) (db_tasks db),
        db_reservations := update_where (\<lambda>r. rv_ReplacementPointID r \<noteq> '''' \<and> gone (rv_ReplacementPointID r))
          (\<lambda>r. r\<lparr>rv_ReplacementPointID := ''''\<rparr>) (db_reservations db)\<rparr>"

definition drop_tasks :: "(string \<Rightarrow> bool) \<Rightarrow> store_db \<Rightarrow> store_error + store_db" where
  "drop_tasks gone db =
     res_bind (res_guard (\<not> (\<exists>p \<in> set (db_points db). gone (rp_BackupTaskID p)))
       (ErrConstraint ''restore point backup_task_id is required'')) (\<lambda>_.
     Inr (db\<lparr>db_tasks := filter (\<lambda>t. \<not> gone (t_ID t)) (db_tasks db),
        db_task_events := filter (\<lambda>v. \<not> gone (tv_TaskID v)) (db_task_events db),
        db_plans := update_where (\<lambda>p. gone (pl_LatestRecoveryTaskID p)) (\<lambda>p. p\<lparr>pl_LatestRecoveryTaskID := ''''\<rparr>)
          (update_where (\<lambda>p. gone (pl_LatestSyncTaskID p)) (\<lambda>p. p\<lparr>pl_LatestSyncTaskID := ''''\<rparr>) (db_plans db)),
        db_reservations := update_where (\<lambda>r. gone (rv_CleanupTaskID r)) (\<lambda>r. r\<lparr>rv_CleanupTaskID := ''''\<rparr>)
          (filter (\<lambda>r. \<not> gone (rv_TaskID r)) (db_reservations db))\<rparr>))"

definition cleanup_rows :: "store_db \<Rightarrow> string \<Rightarrow> store_error + store_db" where
  "cleanup_rows db plid =
     (let point_gone = (\<lambda>i. i \<in> rp_ID ` set (filter (\<lambda>q. sql_eq (rp_ProtectionPlanID q) plid) (db_points db)));
          task_gone = (\<lambda>i. i \<in> t_ID ` set (filter (\<lambda>t. sql_eq (t_ProtectionPlanID t) plid) (db_tasks db)));
          db = unlink_points point_gone db;
          db = db\<lparr>db_points := filter (\<lambda>q. \<not> sql_eq (rp_ProtectionPlanID q) plid) (db_points db),
            db_plans := update_where (\<lambda>p. pl_ID p = plid)
              (\<lambda>p. p\<lparr>pl_LatestSyncTaskID := '''', pl_LatestRecoveryTaskID := ''''\<rparr>) (db_plans db)\<rparr>
      in res_bind (drop_tasks task_gone db) (\<lambda>db. Inr (drop_plan_rows db plid)))"

definition CleanupProtectionPlanRecords ::
  "store_db \<Rightarrow> gtime \<Rightarrow> string \<Rightarrow> store_db \<times> (store_error + ProtectionPlan option)" where
  "CleanupProtectionPlanRecords db now plid =
     (case find_row pl_ID plid (db_plans db) of
        None \<Rightarrow> (db, Inr None)
      | Some p \<Rightarrow> run_tx db (
          let item = read_plan_row p
          in res_bind (cleanup_rows db plid) (\<lambda>db.
             Inr (set_app_status now ''pending_protection''
               (\<lambda>a. ow_ID a \<in> set (planIDsSlice (pl_AppIDs item)) \<and>
                  \<not> (\<exists>q \<in> set (db_plans db). ow_ID a \<in> set (pl_AppIDs q) \<and> pl_TenantID q = pl_TenantID item \<and>
                       pl_SourceClusterID q = pl_SourceClusterID item)) db, Some item))))"

end
