(* ===== verification/Store_Point_Facts.thy ===== *)
theory Store_Point_Facts
  imports Store_Points
begin

text \<open>
  Publication and the slot accounting: a published result fills the slot its task had reserved, so it
  never adds to the slots of a plan; deleting a point hands its slot to the reservation that replaces it.
\<close>

section \<open>The steps of a publication\<close>

lemma accept_result_Proceed:
  assumes "accept_result db i tenantID = Inr (Proceed db1 j)"
  obtains t where "t \<in> set (db_tasks db)" "t_ID t = ri_BackupTaskID i" "ri_BackupTaskID i \<noteq> ''''"
      "t_ProtectionPlanID t = ri_ProtectionPlanID i" "t_ClusterID t = ri_SourceClusterID i" "t_TenantID t = tenantID"
      "t_Type t = ''backup''"
      "accepted_result t = ANil \<and> db1 = record_result db i \<and> j = i \<and>
         CompleteBackupMetrics (ri_SizeMetricsV2 i) \<or>
       (\<exists>m. accepted_result t = AMap m \<and> decode_point_input m = Inr j \<and> db1 = db \<and>
         ri_VeleroBackupName j = ri_VeleroBackupName i \<and>
         \<not> (t_Status t = ''succeeded'' \<and> t_RestorePointID t \<noteq> ''''))"
proof -
  from assms obtain t where
    t: "find (\<lambda>t. sql_eq (t_ID t) (ri_BackupTaskID i) \<and> t_TenantID t = tenantID \<and>
             sql_eq (t_ClusterID t) (ri_SourceClusterID i) \<and>
             sql_eq (t_ProtectionPlanID t) (ri_ProtectionPlanID i)) (db_tasks db) = Some t"
      "t_Type t = ''backup''"
    and alt: "accepted_result t = ANil \<and> db1 = record_result db i \<and> j = i \<and>
         CompleteBackupMetrics (ri_SizeMetricsV2 i) \<or>
       (\<exists>m. accepted_result t = AMap m \<and> decode_point_input m = Inr j \<and> db1 = db \<and>
         ri_VeleroBackupName j = ri_VeleroBackupName i \<and>
         \<not> (t_Status t = ''succeeded'' \<and> t_RestorePointID t \<noteq> ''''))"
    unfolding accept_result_def accepted_result_def
    by (auto simp: res_bind_Inr_iff dec_map_def split: if_splits option.splits any.splits)
  from t(1) have "t \<in> set (db_tasks db)" "sql_eq (t_ID t) (ri_BackupTaskID i)" "t_TenantID t = tenantID"
      "sql_eq (t_ClusterID t) (ri_SourceClusterID i)" "sql_eq (t_ProtectionPlanID t) (ri_ProtectionPlanID i)"
    by (auto simp: find_Some_iff)
  with t(2) alt show ?thesis by (intro that [of t]) (auto simp: sql_eq_def)
qed

lemma accept_result_plan:
  assumes "accept_result db i tenantID = Inr (Proceed db1 j)"
  shows "ri_ProtectionPlanID i \<noteq> ''''"
proof -
  from assms obtain t where
    "find (\<lambda>t. sql_eq (t_ID t) (ri_BackupTaskID i) \<and> t_TenantID t = tenantID \<and>
             sql_eq (t_ClusterID t) (ri_SourceClusterID i) \<and>
             sql_eq (t_ProtectionPlanID t) (ri_ProtectionPlanID i)) (db_tasks db) = Some t"
    unfolding accept_result_def by (auto simp: res_bind_Inr_iff split: if_splits option.splits)
  then show ?thesis by (auto simp: find_Some_iff sql_eq_def)
qed

lemma decode_task_id:
  "decode_point_input m = Inr j \<Longrightarrow> mget m ''BackupTaskID'' = AStr tid \<Longrightarrow> ri_BackupTaskID j = tid"
  "decode_point_input m = Inr j \<Longrightarrow> mget m ''ProtectionPlanID'' = AStr pid \<Longrightarrow> ri_ProtectionPlanID j = pid"
  unfolding decode_point_input_def by (auto simp: res_bind_Inr_iff dec_str_def)

lemma encode_task_id:
  "mget (encode_point_input i) ''BackupTaskID'' = AStr (ri_BackupTaskID i)"
  "mget (encode_point_input i) ''ProtectionPlanID'' = AStr (ri_ProtectionPlanID i)"
  by (simp_all add: encode_point_input_def)

text \<open>Recording a result is like a quiet step, but for the result it adds.\<close>

lemma record_result_wf:
  assumes wf: "store_wf db" and t: "t \<in> set (db_tasks db)" "t_ID t = ri_BackupTaskID i" "accepted_result t = ANil"
    and plan: "t_ProtectionPlanID t = ri_ProtectionPlanID i"
  shows "store_wf (record_result db i)" and "slots (record_result db i) planID = slots db planID"
    and "quotaPolicy (record_result db i) planID = quotaPolicy db planID"
proof -
  let ?db = "record_result db i"
  have rest: "db_points ?db = db_points db" "db_reservations ?db = db_reservations db" "db_plans ?db = db_plans db"
      "db_policies ?db = db_policies db" by (simp_all add: record_result_def)
  show "slots ?db planID = slots db planID" by (rule slots_cong) (simp_all add: rest)
  show "quotaPolicy ?db planID = quotaPolicy db planID" by (rule quotaPolicy_cong) (simp_all add: rest)
  have dist: "distinct (map t_ID (db_tasks db))" using wf by (simp add: store_wf_def)
  define f where "f = recorded i"
  have tasks: "db_tasks ?db = update_where (\<lambda>t. t_ID t = ri_BackupTaskID i) f (db_tasks db)"
    by (simp add: record_result_def f_def)

  have fid: "t_ID (f u) = t_ID u" "t_ProtectionPlanID (f u) = t_ProtectionPlanID u" for u by (simp_all add: f_def recorded_def)
  have ids: "map t_ID (db_tasks ?db) = map t_ID (db_tasks db)"
    by (auto simp: tasks update_where_def fid)
  have mem: "u \<in> set (db_tasks ?db) \<longleftrightarrow>
      u \<in> set (db_tasks db) \<and> t_ID u \<noteq> ri_BackupTaskID i \<or> u = f t" for u
  proof -
    have "{r \<in> set (db_tasks db). t_ID r = ri_BackupTaskID i} = {t}"
      using t(1,2) by (auto intro!: row_eq [OF dist _ t(1)])
    then show ?thesis unfolding tasks set_update_where by auto
  qed
  have names: "result_names_task (f t)"
    using t(2) plan by (simp add: result_names_task_iff accepted_result_def f_def recorded_def encode_task_id)
  have res: "reservations_ok ?db" unfolding reservations_ok_def
  proof (intro ballI conjI)
    fix r assume "r \<in> set (db_reservations ?db)"
    with wf obtain u where u: "rv_PlanID r \<noteq> ''''" "u \<in> set (db_tasks db)" "t_ID u = rv_TaskID r"
        "t_ProtectionPlanID u = rv_PlanID r" "known_state r" by (auto simp: rest store_wf_def reservations_ok_def)
    then show "known_state r" "rv_PlanID r \<noteq> ''''" by simp_all
    show "\<exists>t \<in> set (db_tasks ?db). t_ID t = rv_TaskID r \<and> t_ProtectionPlanID t = rv_PlanID r"
    proof (cases "t_ID u = ri_BackupTaskID i")
      case True
      then have "u = t" using row_eq [OF dist u(2) t(1)] t(2) by simp
      then show ?thesis using u fid mem by (intro bexI [of _ "f t"]) auto
    qed (use u mem in blast)
  qed
  have "results_ok ?db" unfolding results_ok_def rest
  proof (intro conjI ballI impI)
    fix u assume "u \<in> set (db_tasks ?db)"
    with mem names wf show "result_names_task u" by (auto simp: store_wf_def results_ok_def)
  next
    fix r assume r: "r \<in> set (db_reservations db)" "rv_State r = ''published''"
    with wf obtain u where u: "u \<in> set (db_tasks db)" "t_ID u = rv_TaskID r" "finished_with_point u"
        "accepted_result u \<noteq> ANil" by (auto simp: store_wf_def results_ok_def)
    have "t_ID u \<noteq> ri_BackupTaskID i" using row_eq [OF dist u(1) t(1)] t(2,3) u(4) by auto
    with u mem show "\<exists>t \<in> set (db_tasks ?db). t_ID t = rv_TaskID r \<and> finished_with_point t \<and> accepted_result t \<noteq> ANil"
      by blast
  qed
  moreover have "replacements_ok ?db = replacements_ok db" by (rule replacements_ok_cong) (simp_all add: rest)
  ultimately show "store_wf ?db" using wf res ids by (simp add: store_wf_def rest)
qed

lemma quiet_park: "quiet db (park_result db now i)"
  unfolding park_result_def by (rule quiet_reservations) (auto simp: calmer_def active_def known_state_def)

text \<open>What is known after acceptance.\<close>

lemma accept_result_wf:
  assumes wf: "store_wf db" and acc: "accept_result db i tenantID = Inr (Proceed db1 j)"
  shows "store_wf db1" and "slots db1 planID = slots db planID" and "quotaPolicy db1 planID = quotaPolicy db planID"
    and "ri_BackupTaskID j = ri_BackupTaskID i" "ri_ProtectionPlanID j = ri_ProtectionPlanID i"
    and "\<exists>u \<in> set (db_tasks db1). t_ID u = ri_BackupTaskID j \<and> t_ProtectionPlanID u = ri_ProtectionPlanID j \<and>
      accepted_result u \<noteq> ANil"
    and "\<forall>r \<in> set (db_reservations db1). rv_TaskID r = ri_BackupTaskID j \<longrightarrow> rv_State r \<noteq> ''published''"
proof -
  from acc obtain t where t: "t \<in> set (db_tasks db)" "t_ID t = ri_BackupTaskID i" "t_ProtectionPlanID t = ri_ProtectionPlanID i"
    and alt: "accepted_result t = ANil \<and> db1 = record_result db i \<and> j = i \<or>
       (\<exists>m. accepted_result t = AMap m \<and> decode_point_input m = Inr j \<and> db1 = db \<and>
         \<not> (t_Status t = ''succeeded'' \<and> t_RestorePointID t \<noteq> ''''))"
    by (rule accept_result_Proceed) blast
  have dist: "distinct (map t_ID (db_tasks db))" using wf by (simp add: store_wf_def)
  have unpub: "rv_State r \<noteq> ''published''" if "r \<in> set (db_reservations db)" "rv_TaskID r = ri_BackupTaskID i" for r
  proof
    assume "rv_State r = ''published''"
    with wf that obtain u where u: "u \<in> set (db_tasks db)" "t_ID u = ri_BackupTaskID i" "finished_with_point u"
      "accepted_result u \<noteq> ANil" by (auto simp: store_wf_def results_ok_def)
    with t have "u = t" using row_eq [OF dist, of u t] by simp
    with u alt show False by (auto simp: finished_with_point_def)
  qed
  have names: "result_names_task t" using wf t(1) by (auto simp: store_wf_def results_ok_def)
  from alt show jid: "ri_BackupTaskID j = ri_BackupTaskID i" "ri_ProtectionPlanID j = ri_ProtectionPlanID i"
    using names t accept_result_plan [OF acc] by (auto simp: result_names_task_iff dest: decode_task_id)
  have rec: "store_wf (record_result db i)" "slots (record_result db i) planID = slots db planID"
      "quotaPolicy (record_result db i) planID = quotaPolicy db planID" if "accepted_result t = ANil"
    using record_result_wf [OF wf t(1,2) that t(3)] by auto
  from alt rec wf show "store_wf db1" "slots db1 planID = slots db planID" "quotaPolicy db1 planID = quotaPolicy db planID"
    by auto
  have res: "db_reservations db1 = db_reservations db" using alt by (auto simp: record_result_def)
  then show "\<forall>r \<in> set (db_reservations db1). rv_TaskID r = ri_BackupTaskID j \<longrightarrow> rv_State r \<noteq> ''published''"
    using unpub jid by simp
  show "\<exists>u \<in> set (db_tasks db1). t_ID u = ri_BackupTaskID j \<and> t_ProtectionPlanID u = ri_ProtectionPlanID j \<and>
      accepted_result u \<noteq> ANil"
  proof (cases "accepted_result t = ANil")
    case True
    with alt have "db1 = record_result db i" by auto
    then have "recorded i t \<in> set (db_tasks db1)" using t(1,2) by (auto simp: record_result_def set_update_where)
    then show ?thesis
      by (rule rev_bexI) (use t jid in \<open>simp add: recorded_def accepted_result_def\<close>)
  next
    case False
    with alt have "db1 = db" by auto
    then show ?thesis using t jid False by auto
  qed
qed

section \<open>The slot\<close>

lemma task_metrics_fields:
  assumes "task_metrics db i = Inr j"
  shows "ri_BackupTaskID j = ri_BackupTaskID i" "ri_ProtectionPlanID j = ri_ProtectionPlanID i"
    "ri_VeleroBackupName j = ri_VeleroBackupName i" "ri_SourceClusterID j = ri_SourceClusterID i"
    "ri_Status j = ri_Status i"
  using assms by (auto simp: task_metrics_def res_bind_Inr_iff split: if_splits option.splits)

lemma reserve_published:
  assumes "reserveBackupQuota LoadLocation now db task = Inr db'" "r \<in> set (db_reservations db')"
    and "rv_State r = ''published''"
  shows "\<exists>s \<in> set (db_reservations db). rv_TaskID s = rv_TaskID r \<and> rv_State s = ''published''"
proof -
  have rel: "\<exists>s \<in> set (db_reservations db). rv_TaskID s = rv_TaskID r \<and> rv_State s = ''published''"
    if "r \<in> set (db_reservations (releaseFailedBackupReservations db now planID))" for planID
    using that assms(3) by (auto simp: releaseFailedBackupReservations_def Let_def set_update_where)
  from assms(1) show ?thesis
  proof (cases rule: reserve_cases)
    case skip
    with assms show ?thesis by auto
  next
    case unlimited
    with assms(2) rel show ?thesis by simp
  next
    case (taken d sel used limit replacement d')
    have "db_reservations db' = db_reservations d @ [new_reservation (t_ID task) (t_ProtectionPlanID task) replacement now]"
      using taken(9,10) by (simp add: insert_reservation_Inr claim_replacement_def)
    with assms(2,3) have "r \<in> set (db_reservations d)" by auto
    with rel taken(3) show ?thesis by simp
  qed
qed

lemma reserve_tasks:
  assumes "reserveBackupQuota LoadLocation now db task = Inr db'"
  shows "db_tasks db' = db_tasks db"
  using assms by (cases rule: reserve_cases) (auto simp: insert_reservation_Inr claim_replacement_def)

text \<open>Both early outcomes of \<open>take_slot\<close> keep the accounting; \<open>Fill\<close> leaves an open slot or no limit.\<close>

definition slot_open :: "store_db \<Rightarrow> RestorePointInput \<Rightarrow> bool" where
  "slot_open db i \<longleftrightarrow>
     (case find_row rv_TaskID (ri_BackupTaskID i) (db_reservations db) of
        None \<Rightarrow> ri_ProtectionPlanID i = '''' \<or> p_RetentionCount (quotaPolicy db (ri_ProtectionPlanID i)) \<le> 0
      | Some rv \<Rightarrow> holds_slot db (rv_PlanID rv) rv)"

lemma reserved_or_reserve_wf:
  assumes wf: "store_wf db" and step: "reserved_or_reserve LoadLocation now db i = Inr d"
    and u: "u \<in> set (db_tasks db)" "t_ID u = ri_BackupTaskID i" "t_ProtectionPlanID u = ri_ProtectionPlanID i"
  shows "store_wf d" and "quotaPolicy d planID = quotaPolicy db planID"
    and "slots d planID \<le> slots db planID \<or>
      planID = ri_ProtectionPlanID i \<and> int (slots d planID) \<le> p_RetentionCount (quotaPolicy db planID)"
    and "db_tasks d = db_tasks db"
  using step reserve_wf [OF wf _ u(1), of LoadLocation now "quota_task i" d] u
    reserve_policy [of LoadLocation now db "quota_task i" d planID]
    reserve_slots [OF wf, of LoadLocation now "quota_task i" d planID]
    reserve_tasks [of LoadLocation now db "quota_task i" d] wf
  by (auto simp: reserved_or_reserve_def quota_task_def split: if_splits)

lemma reserved_or_reserve_none:
  assumes "reserved_or_reserve LoadLocation now db i = Inr d"
    and "find_row rv_TaskID (ri_BackupTaskID i) (db_reservations d) = None"
  shows "ri_ProtectionPlanID i = '''' \<or> p_RetentionCount (quotaPolicy db (ri_ProtectionPlanID i)) \<le> 0"
proof (rule ccontr)
  assume no: "\<not> ?thesis"
  have "reserveBackupQuota LoadLocation now db (quota_task i) = Inr d"
    using assms no by (auto simp: reserved_or_reserve_def split: if_splits)
  then show False
  proof (cases rule: reserve_cases)
    case (taken d1 sel used limit replacement d')
    then have "new_reservation (ri_BackupTaskID i) (ri_ProtectionPlanID i) replacement now \<in> set (db_reservations d)"
      by (simp add: insert_reservation_Inr claim_replacement_def quota_task_def)
    with assms(2) show False by (auto simp: find_row_None)
  qed (use no in \<open>auto simp: quota_task_def\<close>)
qed

lemma take_slot_Wait:
  assumes "take_slot LoadLocation now db i = Inr (Wait d')"
  obtains d where "reserved_or_reserve LoadLocation now db i = Inr d" "d' = park_result d now i"
  using assms by (auto simp: take_slot_def res_bind_Inr_iff split: if_splits option.splits)

lemma take_slot_Fill:
  assumes wf: "store_wf db" and step: "take_slot LoadLocation now db i = Inr (Fill d)"
    and u: "u \<in> set (db_tasks db)" "t_ID u = ri_BackupTaskID i" "t_ProtectionPlanID u = ri_ProtectionPlanID i"
    and id: "ri_BackupTaskID i \<noteq> ''''"
    and unpub: "\<forall>r \<in> set (db_reservations db). rv_TaskID r = ri_BackupTaskID i \<longrightarrow> rv_State r \<noteq> ''published''"
  shows "reserved_or_reserve LoadLocation now db i = Inr d" and "slot_open d i"
proof -
  from step id show r: "reserved_or_reserve LoadLocation now db i = Inr d"
    by (auto simp: take_slot_def res_bind_Inr_iff split: if_splits option.splits)
  note w = reserved_or_reserve_wf [OF wf r u]
  show "slot_open d i"
  proof (cases "find_row rv_TaskID (ri_BackupTaskID i) (db_reservations d)")
    case None
    with reserved_or_reserve_none [OF r None] w(2) show ?thesis by (simp add: slot_open_def)
  next
    case (Some rv)
    then have rv: "rv \<in> set (db_reservations d)" "rv_TaskID rv = ri_BackupTaskID i"
      using find_row_SomeD by fastforce+
    have np: "rv_State rv \<noteq> ''published''"
    proof
      assume p: "rv_State rv = ''published''"
      show False
      proof (cases "reserved_or_reserve LoadLocation now db i = Inr db \<and> d = db")
        case False
        then have "reserveBackupQuota LoadLocation now db (quota_task i) = Inr d"
          using r by (auto simp: reserved_or_reserve_def split: if_splits)
        from reserve_published [OF this rv(1) p] rv(2) unpub show False by auto
      qed (use rv unpub p in auto)
    qed
    from step id Some r have st: "rv_State rv \<noteq> ''released''"
      and old: "rv_ReplacementPointID rv \<noteq> '''' \<Longrightarrow> rv_State rv \<noteq> ''published'' \<Longrightarrow>
        \<exists>p. find_row rp_ID (rv_ReplacementPointID rv) (db_points d) = Some p \<and> rp_Status p = ''deleted''"
      by (auto simp: take_slot_def res_bind_Inr_iff split: if_splits)
    have "known_state rv" using w(1) rv(1) by (simp add: store_wf_def reservations_ok_def)
    with st np have act: "active rv" by (auto simp: active_def known_state_def)
    have "rv_ReplacementPointID rv = '''' \<or> point_deleted d (rv_ReplacementPointID rv)"
    proof (cases "rv_ReplacementPointID rv = ''''")
      case False
      with old np obtain p where "find_row rp_ID (rv_ReplacementPointID rv) (db_points d) = Some p"
          "rp_Status p = ''deleted''" by blast
      with False show ?thesis using find_row_SomeD by (fastforce simp: point_deleted_def sql_eq_def)
    qed simp
    with act Some show ?thesis by (simp add: slot_open_def holds_slot_def)
  qed
qed

section \<open>Filling the slot\<close>

lemma guard_fields:
  assumes "backup_task_guard db p = Inr q"
  shows "\<exists>t \<in> set (db_tasks db). t_ID t = rp_BackupTaskID p \<and> t_ProtectionPlanID t = rp_ProtectionPlanID p"
    and "\<exists>ts. q = p\<lparr>rp_TaskCreatedAt := ts\<rparr>"
  using assms by (auto simp: backup_task_guard_def split: if_splits option.splits dest!: find_row_SomeD)

lemma same_key_unique:
  assumes "store_wf db" "p \<in> set (db_points db)" "q \<in> set (db_points db)" "same_key r p" "same_key r q"
  shows "p = q"
proof -
  have "inj_on (\<lambda>p. (rp_SourceClusterID p, rp_VeleroBackupName p)) (set (db_points db))"
    using assms(1) by (simp add: store_wf_def distinct_map)
  then show ?thesis by (rule inj_onD) (use assms(2-5) in \<open>simp_all add: same_key_def\<close>)
qed

text \<open>An upsert merges into the point of the same backup, quietly, or appends a point of the task's plan.\<close>

lemma upsert_cases:
  assumes wf: "store_wf db" and up: "upsert_point db point = Inr db'"
  obtains (merged) "quiet db db'" "\<exists>p \<in> set (db_points db'). same_key point p"
  | (new) row where "db' = db\<lparr>db_points := db_points db @ [row]\<rparr>" "rp_ID row = rp_ID point"
      "find_row rp_ID (rp_ID row) (db_points db) = None" "find (same_key row) (db_points db) = None"
      "same_key point row" "rp_ProtectionPlanID row = rp_ProtectionPlanID point" "rp_Status row = rp_Status point"
proof -
  define row0 where "row0 = point\<lparr>rp_Metadata := json_object (rp_Metadata point),
      rp_SizeMetricsV2 := json_object (rp_SizeMetricsV2 point),
      rp_SourceNamespace := '''', rp_LabelSelector := '''', rp_BackupStorageName := ''''\<rparr>"
  from up obtain row where g: "backup_task_guard db row0 = Inr row"
    and rest: "(case find (same_key row) (db_points db) of
        None \<Rightarrow> res_bind (res_guard (find_row rp_ID (rp_ID row) (db_points db) = None)
            (ErrConstraint ''restore_points_pkey'')) (\<lambda>_. Inr (db\<lparr>db_points := db_points db @ [row]\<rparr>))
      | Some p \<Rightarrow> res_bind (backup_task_guard db (merge_point p row)) (\<lambda>merged.
          Inr (db\<lparr>db_points := update_where (same_key row) (\<lambda>_. merged) (db_points db)\<rparr>))) = Inr db'"
    unfolding upsert_point_def Let_def row0_def by (auto simp: res_bind_Inr_iff)
  have row: "rp_ID row = rp_ID point" "rp_ProtectionPlanID row = rp_ProtectionPlanID point"
      "rp_Status row = rp_Status point" "same_key point row"
    using guard_fields(2) [OF g] by (auto simp: row0_def same_key_def)
  show ?thesis
  proof (cases "find (same_key row) (db_points db)")
    case None
    with rest row show ?thesis by (intro new [of row]) (auto simp: res_bind_Inr_iff)
  next
    case (Some p)
    with rest obtain m where m: "backup_task_guard db (merge_point p row) = Inr m"
        "db' = db\<lparr>db_points := update_where (same_key row) (\<lambda>_. m) (db_points db)\<rparr>"
      by (auto simp: res_bind_Inr_iff)
    have p: "p \<in> set (db_points db)" "same_key row p" using Some by (auto simp: find_Some_iff)
    have mp: "same_point p m" "same_key p m"
      using guard_fields(2) [OF m(1)] by (auto simp: same_point_def same_key_def merge_point_def)
    have "quiet db db'" unfolding m(2)
    proof (rule quiet_points)
      fix q assume "q \<in> set (db_points db)" "same_key row q"
      then have "q = p" using same_key_unique [OF wf] p by blast
      with mp show "same_point q m" by simp
    qed
    moreover have "m \<in> set (db_points db')" using p by (auto simp: m(2) set_update_where)
    moreover have "same_key point m" using row(4) p(2) mp(2) by (simp add: same_key_def)
    ultimately show ?thesis by (intro merged) auto
  qed
qed

lemma insert_point_wf:
  assumes wf: "store_wf db" and db': "db' = db\<lparr>db_points := db_points db @ [row]\<rparr>"
    and new: "find_row rp_ID (rp_ID row) (db_points db) = None" "find (same_key row) (db_points db) = None"
    and id: "rp_ID row \<noteq> ''''"
  shows "store_wf db'" and "r \<in> set (db_reservations db) \<Longrightarrow> holds_slot db' planID r = holds_slot db planID r"
    and "slots db' planID = slots db planID + (if live_in planID row then 1 else 0)"
proof -
  have fresh: "\<forall>p \<in> set (db_points db). rp_ID p \<noteq> rp_ID row" using new(1) by (simp add: find_row_None)
  have "\<forall>p \<in> set (db_points db). \<not> same_key row p" using new(2) by (simp add: find_None_iff)
  then have key: "(rp_SourceClusterID row, rp_VeleroBackupName row) \<notin>
      (\<lambda>p. (rp_SourceClusterID p, rp_VeleroBackupName p)) ` set (db_points db)"
    by (auto simp: same_key_def)
  have "rp_ID row \<notin> rp_ID ` set (db_points db)" using fresh by auto
  moreover have "reservations_ok db'" "results_ok db'"
    using wf by (simp_all add: store_wf_def db' reservations_ok_def results_ok_def)
  moreover have "replacements_ok db'"
  proof -
    have "replacements_ok db" using wf by (simp add: store_wf_def)
    then show ?thesis unfolding replacements_ok_def db' by fastforce
  qed
  ultimately show "store_wf db'" using wf key id by (auto simp: store_wf_def db')
  show slot: "holds_slot db' planID r = holds_slot db planID r" if "r \<in> set (db_reservations db)" for r planID
  proof (cases "active r \<and> rv_ReplacementPointID r \<noteq> ''''")
    case True
    with wf that obtain p where "p \<in> set (db_points db)" "rp_ID p = rv_ReplacementPointID r"
      by (auto simp: store_wf_def replacements_ok_def)
    with fresh have "rv_ReplacementPointID r \<noteq> rp_ID row" by auto
    then have "point_deleted db' (rv_ReplacementPointID r) = point_deleted db (rv_ReplacementPointID r)"
      by (auto simp: point_deleted_def db' sql_eq_def)
    then show ?thesis by (simp add: holds_slot_def)
  qed (auto simp: holds_slot_def)
  have "reserved db' planID = reserved db planID"
    unfolding reserved_def using slot by (auto simp: db' intro: count_where_cong)
  then show "slots db' planID = slots db planID + (if live_in planID row then 1 else 0)"
    by (simp add: slots_def db')
qed

lemma count_where_drop:
  assumes "distinct (map key rows)" "r \<in> set rows" "P r" "Q r" "\<And>x. P x \<Longrightarrow> Q x" "\<And>x. Q x \<Longrightarrow> \<not> P (f x)"
  shows "Suc (count_where P (update_where (\<lambda>x. key x = key r \<and> Q x) f rows)) = count_where P rows"
  using assms(1,2)
proof (induction rows)
  case (Cons x xs)
  show ?case
  proof (cases "x = r")
    case True
    then have "key r \<notin> key ` set xs" using Cons.prems(1) by simp
    then have "\<forall>y \<in> set xs. key y \<noteq> key r" by (metis imageI)
    then have "update_where (\<lambda>x. key x = key r \<and> Q x) f xs = xs" by (intro update_where_none) auto
    with True assms(3,4,6) show ?thesis by simp
  next
    case False
    then have "r \<in> set xs" using Cons.prems(2) by simp
    moreover have "key x \<notin> key ` set xs" using Cons.prems(1) by simp
    ultimately have "key x \<noteq> key r" by (metis imageI)
    with False Cons show ?thesis by simp
  qed
qed simp

lemma publish_policy [simp]: "quotaPolicy (publish_reservation db now i) planID = quotaPolicy db planID"
  by (rule quotaPolicy_cong) (simp_all add: publish_reservation_def)

lemma publish_points [simp]:
  "db_points (publish_reservation db now i) = db_points db" "db_tasks (publish_reservation db now i) = db_tasks db"
  by (simp_all add: publish_reservation_def)

lemma publish_holds: "holds_slot (publish_reservation db now i) = holds_slot db"
  by (simp add: publish_reservation_def holds_slot_def point_deleted_def fun_eq_iff)

lemma publish_slots_le: "slots (publish_reservation db now i) planID \<le> slots db planID"
proof -
  have "reserved (publish_reservation db now i) planID \<le> reserved db planID"
    unfolding reserved_def publish_holds
    by (auto simp: publish_reservation_def holds_slot_def intro!: count_where_update_le)
  then show ?thesis by (simp add: slots_def publish_points)
qed

lemma publish_slots_drop:
  assumes wf: "store_wf db" and rv: "rv \<in> set (db_reservations db)" "rv_TaskID rv = ri_BackupTaskID i"
    "holds_slot db planID rv" and id: "ri_BackupTaskID i \<noteq> ''''"
  shows "Suc (slots (publish_reservation db now i) planID) = slots db planID"
proof -
  have "Suc (reserved (publish_reservation db now i) planID) = reserved db planID"
    unfolding reserved_def publish_holds
    using count_where_drop [of rv_TaskID "db_reservations db" rv "holds_slot db planID" active
        "\<lambda>rv. rv\<lparr>rv_State := ''published'', rv_PendingPoint := Some (reload_input i), rv_UpdatedAt := now\<rparr>"]
      wf rv id
    by (auto simp: publish_reservation_def store_wf_def holds_slot_def)
  then show ?thesis by (simp add: slots_def publish_points)
qed

text \<open>
  Publishing the reservation and finishing the task touch different tables, so the order of the two
  statements does not matter; the task is finished first here, which keeps every state well-formed.
\<close>

lemma finalize_publish_commute:
  "finalize_task (publish_reservation db now i) eventID now' j = publish_reservation (finalize_task db eventID now' j) now i"
  by (simp add: finalize_task_def publish_reservation_def Let_def)

lemma quiet_finalize:
  assumes wf: "store_wf db" and now: "now \<noteq> 0"
    and point: "\<exists>p \<in> set (db_points db). rp_SourceClusterID p = ri_SourceClusterID i \<and>
      rp_VeleroBackupName p = ri_VeleroBackupName i"
  shows "quiet db (finalize_task db eventID now i)"
    and "t \<in> set (db_tasks db) \<Longrightarrow> t_ID t = ri_BackupTaskID i \<Longrightarrow> accepted_result t \<noteq> ANil \<Longrightarrow>
      \<exists>u \<in> set (db_tasks (finalize_task db eventID now i)). t_ID u = ri_BackupTaskID i \<and>
        finished_with_point u \<and> accepted_result u \<noteq> ANil"
proof -
  let ?hit = "\<lambda>p. rp_SourceClusterID p = ri_SourceClusterID i \<and> rp_VeleroBackupName p = ri_VeleroBackupName i"
  from point have "find ?hit (db_points db) \<noteq> None" unfolding find_None_iff by blast
  then obtain p where p: "find ?hit (db_points db) = Some p" by blast
  then have "p \<in> set (db_points db)" by (auto simp: find_Some_iff)
  with wf have pid: "rp_ID p \<noteq> ''''" unfolding store_wf_def by (metis image_eqI)
  define f where "f = (\<lambda>t::Task. t\<lparr>t_Status := ''succeeded'', t_Progress := 100, t_ErrorCode := '''', t_ErrorMessage := '''',
              t_CompletedAt := (if t_CompletedAt t = 0 then now else t_CompletedAt t), t_RestorePointID := rp_ID p,
              t_Payload := jmerge (t_Payload t) [(''quotaStage'', AStr ''published''),
                (''restorePointId'', if rp_ID p = '''' then ANil else AStr (rp_ID p))]\<rparr>)"
  have tasks: "db_tasks (finalize_task db eventID now i) = update_where (\<lambda>t. t_ID t = ri_BackupTaskID i) f (db_tasks db)"
    by (simp add: finalize_task_def Let_def p f_def)
  have f: "same_task t (f t)" "finished_with_point (f t)" for t
    using pid now by (simp_all add: f_def same_task_def accepted_result_def finished_with_point_def)
  have rest: "db_points (finalize_task db eventID now i) = db_points db"
      "db_reservations (finalize_task db eventID now i) = db_reservations db"
      "db_plans (finalize_task db eventID now i) = db_plans db"
      "db_policies (finalize_task db eventID now i) = db_policies db"
    by (simp_all add: finalize_task_def Let_def)
  show "quiet db (finalize_task db eventID now i)"
    unfolding quiet_def rest tasks by (simp add: list_all2_self list_all2_update_where f)
  assume t: "t \<in> set (db_tasks db)" "t_ID t = ri_BackupTaskID i" "accepted_result t \<noteq> ANil"
  then have "f t \<in> set (db_tasks (finalize_task db eventID now i))" by (auto simp: tasks set_update_where)
  then show "\<exists>u \<in> set (db_tasks (finalize_task db eventID now i)). t_ID u = ri_BackupTaskID i \<and>
        finished_with_point u \<and> accepted_result u \<noteq> ANil"
    by (rule rev_bexI) (use f [of t] t in \<open>simp add: same_task_def\<close>)
qed

lemma publish_wf:
  assumes wf: "store_wf db" and u: "u \<in> set (db_tasks db)" "t_ID u = ri_BackupTaskID i" "finished_with_point u"
    "accepted_result u \<noteq> ANil"
  shows "store_wf (publish_reservation db now i)"
proof (cases "ri_BackupTaskID i = ''''")
  case True
  with wf show ?thesis by (simp add: publish_reservation_def)
next
  case False
  let ?f = "\<lambda>rv. rv\<lparr>rv_State := ''published'', rv_PendingPoint := Some (reload_input i), rv_UpdatedAt := now\<rparr>"
  let ?d = "publish_reservation db now i"
  have res: "db_reservations ?d = update_where (\<lambda>rv. rv_TaskID rv = ri_BackupTaskID i \<and> active rv) ?f (db_reservations db)"
    using False by (simp add: publish_reservation_def)
  have mem: "r \<in> set (db_reservations db) \<or>
      (\<exists>s \<in> set (db_reservations db). r = ?f s \<and> rv_TaskID s = ri_BackupTaskID i)"
    if "r \<in> set (db_reservations ?d)" for r
    using that unfolding res set_update_where by auto
  have old: "r \<in> set (db_reservations db)" if "r \<in> set (db_reservations ?d)" "active r" for r
    using mem [OF that(1)] that(2) by auto
  have "map rv_TaskID (db_reservations ?d) = map rv_TaskID (db_reservations db)"
    unfolding res by (simp add: update_where_def)
  moreover have "reservations_ok ?d"
    using wf mem by (fastforce simp: store_wf_def reservations_ok_def known_state_def)
  moreover have "replacements_ok ?d"
    using wf old by (auto simp: store_wf_def replacements_ok_def)
  moreover have "results_ok ?d"
    using wf mem u by (fastforce simp: store_wf_def results_ok_def)
  ultimately show ?thesis using wf by (simp add: store_wf_def)
qed

lemma accept_result_fields:
  assumes wf: "store_wf db" and acc: "accept_result db i tenantID = Inr (Proceed db1 j)"
  shows "ri_BackupTaskID j \<noteq> ''''"
proof -
  from acc have "ri_BackupTaskID i \<noteq> ''''" by (rule accept_result_Proceed)
  with accept_result_wf(4) [OF wf acc] show ?thesis by simp
qed

lemma fill_slot_Inr:
  "fill_slot newID eventID now True db tenantID i = Inr (db', p) \<longleftrightarrow>
   (\<exists>d. upsert_point db (new_point newID now tenantID i) = Inr d \<and>
      db' = publish_reservation (finalize_task d eventID now i) now i \<and>
      p = published_point db' i (new_point newID now tenantID i))"
  by (auto simp: fill_slot_def Let_def res_bind_Inr_iff finalize_publish_commute)

lemma quiet_row:
  assumes "quiet db d" "u \<in> set (db_tasks db)"
  shows "\<exists>v \<in> set (db_tasks d). same_task u v"
proof -
  from assms(1) have "list_all2 same_task (db_tasks db) (db_tasks d)" by (simp add: quiet_def)
  from list_all2_inD(2) [OF this assms(2)] show ?thesis by blast
qed

text \<open>Filling an open slot adds a point and closes the reservation that held the slot.\<close>

lemma open_slot_holder:
  assumes wf: "store_wf db" and open_slot: "slot_open db i"
    and u: "u \<in> set (db_tasks db)" "t_ID u = ri_BackupTaskID i" "t_ProtectionPlanID u = ri_ProtectionPlanID i"
    and plan: "planID = ri_ProtectionPlanID i" "planID \<noteq> ''''" "p_RetentionCount (quotaPolicy db planID) > 0"
  obtains rv where "rv \<in> set (db_reservations db)" "rv_TaskID rv = ri_BackupTaskID i" "holds_slot db planID rv"
proof -
  from open_slot plan obtain rv where rv: "find_row rv_TaskID (ri_BackupTaskID i) (db_reservations db) = Some rv"
      "holds_slot db (rv_PlanID rv) rv" by (auto simp: slot_open_def split: option.splits)
  from find_row_SomeD [OF rv(1)] have m: "rv \<in> set (db_reservations db)" "rv_TaskID rv = ri_BackupTaskID i" by auto
  from wf m(1) obtain t where t: "t \<in> set (db_tasks db)" "t_ID t = rv_TaskID rv" "t_ProtectionPlanID t = rv_PlanID rv"
    by (auto simp: store_wf_def reservations_ok_def)
  have "t = u" using row_eq [of t_ID "db_tasks db" t u] wf t u m by (simp add: store_wf_def)
  with t u plan have "rv_PlanID rv = planID" by simp
  with rv m that show ?thesis by simp
qed

lemma fill_slot_wf:
  assumes wf: "store_wf db" and fill: "fill_slot newID eventID now True db tenantID i = Inr (db', p)"
    and now: "now \<noteq> 0" and newID: "newID \<noteq> ''''" and open_slot: "slot_open db i"
    and u: "u \<in> set (db_tasks db)" "t_ID u = ri_BackupTaskID i" "t_ProtectionPlanID u = ri_ProtectionPlanID i"
      "accepted_result u \<noteq> ANil" and id: "ri_BackupTaskID i \<noteq> ''''"
  shows "store_wf db'" and "bounded db db'"
proof -
  from fill obtain d where up: "upsert_point db (new_point newID now tenantID i) = Inr d"
    and db': "db' = publish_reservation (finalize_task d eventID now i) now i"
    unfolding fill_slot_Inr by blast
  let ?point = "new_point newID now tenantID i"
  let ?hit = "\<lambda>p. rp_SourceClusterID p = ri_SourceClusterID i \<and> rp_VeleroBackupName p = ri_VeleroBackupName i"
  have key: "same_key ?point p \<Longrightarrow> ?hit p" for p by (simp add: same_key_def new_point_def)
  have step: "store_wf d \<and> (\<exists>p \<in> set (db_points d). ?hit p) \<and> db_tasks d = db_tasks db
      \<and> db_reservations d = db_reservations db \<and> (\<forall>planID. quotaPolicy d planID = quotaPolicy db planID \<and>
          (slots d planID \<le> slots db planID \<or>
           (planID = ri_ProtectionPlanID i \<and> planID \<noteq> '''' \<and> slots d planID \<le> Suc (slots db planID)
            \<and> (\<forall>r \<in> set (db_reservations db). holds_slot d planID r = holds_slot db planID r))))"
    using wf up
  proof (cases rule: upsert_cases)
    case merged
    moreover have "db_tasks d = db_tasks db" "db_reservations d = db_reservations db"
      using up by (auto simp: upsert_point_def Let_def res_bind_Inr_iff split: option.splits)
    ultimately show ?thesis using quiet_wf [OF merged(1) wf] quiet_slots [OF merged(1)] quiet_policy [OF merged(1)] key
      by blast
  next
    case (new row)
    have rid: "rp_ID row \<noteq> ''''" using new(2) newID by (simp add: new_point_def)
    note ins = insert_point_wf [OF wf new(1,3,4) rid]
    have "row \<in> set (db_points d)" using new(1) by simp
    moreover have "quotaPolicy d planID = quotaPolicy db planID" for planID
      by (rule quotaPolicy_cong) (simp_all add: new(1))
    moreover have "live_in planID row \<Longrightarrow> planID = ri_ProtectionPlanID i \<and> planID \<noteq> ''''" for planID
      using new(6) by (auto simp: live_in_def sql_eq_def new_point_def)
    moreover have "db_tasks d = db_tasks db" "db_reservations d = db_reservations db" using new(1) by simp_all
    ultimately show ?thesis using ins key [OF new(5)] by (auto split: if_splits)
  qed
  then have wfd: "store_wf d" and hit: "\<exists>p \<in> set (db_points d). ?hit p" and td: "db_tasks d = db_tasks db"
    and rd: "db_reservations d = db_reservations db" by blast+
  define e where "e = finalize_task d eventID now i"
  note fin = quiet_finalize [OF wfd now hit, where eventID = eventID, folded e_def]
  have wfe: "store_wf e" by (rule quiet_wf [OF fin(1) wfd])
  from fin(2) [of u] u td obtain v where "v \<in> set (db_tasks e)" "t_ID v = ri_BackupTaskID i"
      "finished_with_point v" "accepted_result v \<noteq> ANil" by auto
  then show "store_wf db'" unfolding db' e_def [symmetric] by (rule publish_wf [OF wfe])
  have re: "db_reservations e = db_reservations db" "db_points e = db_points d"
    by (simp_all add: e_def finalize_task_def Let_def rd)
  have pol: "quotaPolicy db' planID = quotaPolicy db planID" for planID
    using step quiet_policy [OF fin(1)] by (simp add: db' e_def [symmetric])
  have le: "slots db' planID \<le> slots d planID" for planID
    using publish_slots_le quiet_slots [OF fin(1)] unfolding db' e_def [symmetric] by (rule order_trans)
  show "bounded db db'" unfolding bounded_def
  proof (intro allI conjI)
    fix planID
    show "quotaPolicy db' planID = quotaPolicy db planID" by (rule pol)
    show "slots db' planID \<le> slots db planID \<or> within_quota db' planID"
    proof (cases "slots d planID \<le> slots db planID \<or> p_RetentionCount (quotaPolicy db planID) \<le> 0")
      case True
      with le pol show ?thesis by (auto simp: within_quota_def intro: order_trans)
    next
      case False
      with step have pl: "planID = ri_ProtectionPlanID i" "planID \<noteq> ''''" "slots d planID \<le> Suc (slots db planID)"
        and hs: "\<forall>r \<in> set (db_reservations db). holds_slot d planID r = holds_slot db planID r" by auto
      obtain rv where rv: "rv \<in> set (db_reservations db)" "rv_TaskID rv = ri_BackupTaskID i" "holds_slot db planID rv"
        by (rule open_slot_holder [OF wf open_slot u(1,2,3) pl(1,2)]) (use False in auto)
      have "holds_slot e = holds_slot d" by (simp add: fun_eq_iff holds_slot_def point_deleted_def re)
      then have "holds_slot e planID rv" using hs rv by simp
      from publish_slots_drop [OF wfe _ rv(2) this id] rv(1) re(1)
      have "Suc (slots db' planID) = slots e planID" by (simp add: db' e_def [symmetric])
      moreover have "slots e planID \<le> slots d planID" by (rule quiet_slots [OF fin(1)])
      ultimately show ?thesis using pl(3) by simp
    qed
  qed
qed

text \<open>The publication as a whole: nothing happens, the result is parked, or the slot is filled.\<close>

lemma publish_cases:
  assumes "PublishBackupResult LoadLocation newID eventID now db input = (db', res)"
  obtains (unchanged) "db' = db"
  | (parked) db1 tenantID i j d where "accept_result db (point_defaults input) tenantID = Inr (Proceed db1 i)"
      "task_metrics db1 i = Inr j" "take_slot LoadLocation now db1 j = Inr (Wait d)" "db' = d"
      "res = Inl ErrRestorePointReplacementPending"
  | (filled) db1 tenantID i j d p where "accept_result db (point_defaults input) tenantID = Inr (Proceed db1 i)"
      "task_metrics db1 i = Inr j" "take_slot LoadLocation now db1 j = Inr (Fill d)"
      "fill_slot newID eventID now True d tenantID j = Inr (db', p)" "res = Inr p"
  using assms unfolding PublishBackupResult_def createRestorePoint_def Let_def
  by (auto simp: res_bind_Inr_iff run_tx_def split: sum.splits option.splits acceptance.splits slot.splits prod.splits if_splits)

lemma slots_bounded:
  assumes "\<And>planID. quotaPolicy db' planID = quotaPolicy db planID"
    and "\<And>planID. slots db' planID \<le> slots db planID \<or> int (slots db' planID) \<le> p_RetentionCount (quotaPolicy db planID)"
  shows "bounded db db'"
  using assms unfolding bounded_def within_quota_def by metis

lemma publish_keeps:
  assumes wf: "store_wf db" and step: "PublishBackupResult LoadLocation newID eventID now db input = (db', res)"
    and now: "now \<noteq> 0" and newID: "newID \<noteq> ''''"
  shows "store_wf db' \<and> bounded db db'"
proof -
  have pre: "\<exists>u. u \<in> set (db_tasks db1) \<and> t_ID u = ri_BackupTaskID j \<and> t_ProtectionPlanID u = ri_ProtectionPlanID j \<and>
        accepted_result u \<noteq> ANil \<and> ri_BackupTaskID j \<noteq> '''' \<and> store_wf db1 \<and> bounded db db1 \<and>
        (\<forall>r \<in> set (db_reservations db1). rv_TaskID r = ri_BackupTaskID j \<longrightarrow> rv_State r \<noteq> ''published'')"
    if acc: "accept_result db (point_defaults input) tenantID = Inr (Proceed db1 i)" and m: "task_metrics db1 i = Inr j"
    for db1 tenantID i j
  proof -
    note a = accept_result_wf [OF wf acc] and f = task_metrics_fields [OF m]
    from a(6) obtain u where "u \<in> set (db_tasks db1)" "t_ID u = ri_BackupTaskID i"
        "t_ProtectionPlanID u = ri_ProtectionPlanID i" "accepted_result u \<noteq> ANil" by blast
    moreover have "bounded db db1" by (rule slots_bounded) (simp_all add: a(2,3))
    ultimately show ?thesis using a(1,7) f accept_result_fields [OF wf acc] by auto
  qed
  have res: "store_wf d \<and> bounded db1 d \<and> db_tasks d = db_tasks db1"
    if "store_wf db1" "reserved_or_reserve LoadLocation now db1 j = Inr d" "u \<in> set (db_tasks db1)"
      "t_ID u = ri_BackupTaskID j" "t_ProtectionPlanID u = ri_ProtectionPlanID j" for db1 j d u
    using reserved_or_reserve_wf [OF that] slots_bounded [of d db1] by blast
  from step show ?thesis
  proof (cases rule: publish_cases)
    case unchanged
    with wf show ?thesis by simp
  next
    case (parked db1 tenantID i j d)
    from pre [OF parked(1,2)] obtain u where u: "u \<in> set (db_tasks db1)" "t_ID u = ri_BackupTaskID j"
        "t_ProtectionPlanID u = ri_ProtectionPlanID j" "store_wf db1" "bounded db db1" by blast
    from parked(3) obtain d1 where d1: "reserved_or_reserve LoadLocation now db1 j = Inr d1" "d = park_result d1 now j"
      by (rule take_slot_Wait)
    from res [OF u(4) d1(1) u(1,2,3)] have "store_wf d1" "bounded db1 d1" by blast+
    moreover have "quiet d1 db'" unfolding parked(4) d1(2) by (rule quiet_park)
    ultimately show ?thesis using u(5) quiet_wf quiet_bounded bounded_trans by blast
  next
    case (filled db1 tenantID i j d p)
    from pre [OF filled(1,2)] obtain u where u: "u \<in> set (db_tasks db1)" "t_ID u = ri_BackupTaskID j"
        "t_ProtectionPlanID u = ri_ProtectionPlanID j" "accepted_result u \<noteq> ANil" "ri_BackupTaskID j \<noteq> ''''"
        "store_wf db1" "bounded db db1"
        "\<forall>r \<in> set (db_reservations db1). rv_TaskID r = ri_BackupTaskID j \<longrightarrow> rv_State r \<noteq> ''published''" by blast
    note s = take_slot_Fill [OF u(6) filled(3) u(1,2,3,5,8)]
    have d: "store_wf d" "bounded db1 d" "db_tasks d = db_tasks db1" using res [OF u(6) s(1) u(1,2,3)] by blast+
    have "u \<in> set (db_tasks d)" using u(1) d(3) by simp
    from fill_slot_wf [OF d(1) filled(4) now newID s(2) this u(2,3,4,5)]
    show ?thesis using d(2) u(7) bounded_trans by blast
  qed
qed

section \<open>Changing the state of a point\<close>

lemma state_row_fields [simp]:
  "rp_ID (state_row s m p) = rp_ID p" "rp_ProtectionPlanID (state_row s m p) = rp_ProtectionPlanID p"
  "rp_TenantID (state_row s m p) = rp_TenantID p"
  "rp_SourceClusterID (state_row s m p) = rp_SourceClusterID p" "rp_VeleroBackupName (state_row s m p) = rp_VeleroBackupName p"
  "rp_Status (state_row s m p) = (if rp_Status p = ''deleted'' then ''deleted'' else s)"
  by (simp_all add: state_row_def)

lemma quiet_size_metrics: "quiet db (UpdateRestorePointSizeMetrics db pid metrics)"
  unfolding UpdateRestorePointSizeMetrics_def
  by (auto intro!: quiet_points simp: same_point_def)

lemma state_change_wf:
  assumes wf: "store_wf db"
    and db': "db' = db\<lparr>db_points := update_where (\<lambda>p. rp_ID p = pid) (state_row status m) (db_points db)\<rparr>"
  shows "store_wf db'"
proof -
  have map_eq: "map f (db_points db') = map f (db_points db)"
    if "\<And>p. f (state_row status m p) = f p" for f :: "RestorePoint \<Rightarrow> 'x"
    using that by (simp add: db' update_where_def)
  have ids: "rp_ID ` set (db_points db') = rp_ID ` set (db_points db)"
    using map_eq [of rp_ID] by (metis list.set_map state_row_fields(1))
  have ex: "(\<exists>p \<in> set (db_points db'). rp_ID p = x \<and> rp_ProtectionPlanID p = y) \<longleftrightarrow>
      (\<exists>p \<in> set (db_points db). rp_ID p = x \<and> rp_ProtectionPlanID p = y)" for x y
  proof -
    have *: "(\<exists>p \<in> set ps. rp_ID p = x \<and> rp_ProtectionPlanID p = y) \<longleftrightarrow>
        (x, y) \<in> set (map (\<lambda>p. (rp_ID p, rp_ProtectionPlanID p)) ps)" for ps :: "RestorePoint list" by auto
    show ?thesis unfolding * using map_eq [of "\<lambda>p. (rp_ID p, rp_ProtectionPlanID p)"] by simp
  qed
  have "replacements_ok db' = replacements_ok db" unfolding replacements_ok_def ex by (simp add: db')
  moreover have "reservations_ok db' = reservations_ok db" "results_ok db' = results_ok db"
    by (simp_all add: reservations_ok_def results_ok_def db')
  ultimately show ?thesis using wf map_eq [of rp_ID] map_eq [of "\<lambda>p. (rp_SourceClusterID p, rp_VeleroBackupName p)"]
    unfolding store_wf_def ids by (simp add: db')
qed

text \<open>
  The point that dies hands its slot over: at most one active reservation replaces it, and that one
  belongs to the same plan.
\<close>

lemma state_change_slots:
  assumes wf: "store_wf db"
    and db': "db' = db\<lparr>db_points := update_where (\<lambda>p. rp_ID p = pid) (state_row status m) (db_points db)\<rparr>"
  shows "slots db' planID \<le> slots db planID"
proof (cases "\<exists>p \<in> set (db_points db). rp_ID p = pid \<and> rp_Status p \<noteq> ''deleted'' \<and> status = ''deleted''")
  case False
  have live: "live_in planID (state_row status m p) = live_in planID p" if "p \<in> set (db_points db)" "rp_ID p = pid" for p
    using False that by (auto simp: live_in_def)
  have same: "point_deleted db' x = point_deleted db x" for x
  proof -
    have *: "point_deleted d x \<longleftrightarrow> (x, True) \<in> set (map (\<lambda>p. (rp_ID p, rp_Status p = ''deleted'')) (db_points d)) \<and> x \<noteq> ''''" for d
      by (auto simp: point_deleted_def sql_eq_def)
    have "map (\<lambda>p. (rp_ID p, rp_Status p = ''deleted'')) (db_points db') =
        map (\<lambda>p. (rp_ID p, rp_Status p = ''deleted'')) (db_points db)"
      using False by (auto simp: db' update_where_def)
    then show ?thesis unfolding * by simp
  qed
  have "holds_slot db' planID = holds_slot db planID" by (simp add: fun_eq_iff holds_slot_def same)
  then have "reserved db' planID = reserved db planID" by (simp add: reserved_def db')
  moreover have "count_where (live_in planID) (db_points db') \<le> count_where (live_in planID) (db_points db)"
    unfolding db' by (auto simp: live intro!: count_where_update_le)
  ultimately show ?thesis by (simp add: slots_def)
next
  case True
  then obtain p where p: "p \<in> set (db_points db)" "rp_ID p = pid" "rp_Status p \<noteq> ''deleted''" "status = ''deleted''" by blast
  have dp: "distinct (map rp_ID (db_points db))" and dr: "distinct (db_reservations db)"
    using wf by (auto simp: store_wf_def distinct_map)
  have live': "\<not> live_in planID (state_row status m q)" for q using p(4) by (simp add: live_in_def)
  have lower: "count_where (live_in planID) (db_points db') \<le> count_where (live_in planID) (db_points db)"
    unfolding db' using live' by (auto intro!: count_where_update_le)
  have rdb: "db_reservations db' = db_reservations db" by (simp add: db')
  have new: "r \<in> set (db_reservations db) \<and> active r \<and> rv_ReplacementPointID r = pid \<and> pid \<noteq> '''' \<and> rv_PlanID r = planID"
    if "r \<in> set (db_reservations db)" "holds_slot db' planID r" "\<not> holds_slot db planID r" for r
    using that p by (auto simp: holds_slot_def point_deleted_def sql_eq_def db' set_update_where)
  show ?thesis
  proof (cases "\<exists>r \<in> set (db_reservations db). holds_slot db' planID r \<and> \<not> holds_slot db planID r")
    case False
    then have "reserved db' planID \<le> reserved db planID"
      unfolding reserved_def rdb by (intro count_where_mono) auto
    with lower show ?thesis by (simp add: slots_def)
  next
    case True
    then obtain r where r: "r \<in> set (db_reservations db)" "active r" "rv_ReplacementPointID r = pid" "pid \<noteq> ''''"
        "rv_PlanID r = planID" using new by blast
    have uniq: "x = r" if "x \<in> set (db_reservations db)" "holds_slot db' planID x" "\<not> holds_slot db planID x" for x
      using new [OF that] r wf by (auto simp: store_wf_def replacements_ok_def)
    have res: "reserved db' planID \<le> Suc (reserved db planID)"
      unfolding reserved_def rdb using dr uniq by (intro count_where_one_more [of _ _ _ r]) auto
    from wf r obtain q where q: "q \<in> set (db_points db)" "rp_ID q = pid" "rp_ProtectionPlanID q = planID"
      by (auto simp: store_wf_def replacements_ok_def)
    have "q = p" using row_eq [OF dp q(1) p(1)] p(2) q(2) by simp
    moreover have "planID \<noteq> ''''" using wf r by (auto simp: store_wf_def reservations_ok_def)
    ultimately have "live_in planID p" using p(3) q(3) by (simp add: live_in_def sql_eq_def)
    with count_where_drop [OF dp p(1), of "live_in planID" "\<lambda>_. True" "state_row status m"] live'
    have "Suc (count_where (live_in planID) (db_points db')) = count_where (live_in planID) (db_points db)"
      by (simp add: db' p(2))
    with res show ?thesis by (simp add: slots_def)
  qed
qed

lemma update_state_cases:
  assumes "UpdateRestorePointState db input = (db', res)"
  shows "db' = db \<or> (\<exists>pid status m.
    db' = db\<lparr>db_points := update_where (\<lambda>p. rp_ID p = pid) (state_row status m) (db_points db)\<rparr>)"
  using assms unfolding UpdateRestorePointState_def Let_def
  by (auto simp: run_tx_def res_bind_def split: if_splits option.splits sum.splits)

lemma update_state_keeps:
  assumes wf: "store_wf db" and step: "UpdateRestorePointState db input = (db', res)"
  shows "store_wf db' \<and> bounded db db'"
proof -
  have "bounded db d" if "d = db\<lparr>db_points := update_where (\<lambda>p. rp_ID p = pid) (state_row status m) (db_points db)\<rparr>"
    for pid status m d
  proof (rule slots_bounded)
    show "quotaPolicy d planID = quotaPolicy db planID" for planID
      by (rule quotaPolicy_cong) (simp_all add: that)
  qed (simp add: state_change_slots [OF wf that])
  with state_change_wf [OF wf] have "store_wf d \<and> bounded db d"
    if "d = db\<lparr>db_points := update_where (\<lambda>p. rp_ID p = pid) (state_row status m) (db_points db)\<rparr>" for pid status m d
    using that by auto
  with update_state_cases [OF step] wf show ?thesis by auto
qed

end
