(* ===== verification/Store_Plan_Facts.thy ===== *)
theory Store_Plan_Facts
  imports Store_Plans Store_Point_Facts
begin

text \<open>
  What the operations on policies and plans keep: the well-formedness of the tables, the limits of the
  plans' quotas, the identity of a plan and the exclusive membership of applications.
\<close>

lemma res_fold_unit:
  "res_fold (\<lambda>_. f) () xs = Inr u \<longleftrightarrow> (\<forall>x \<in> set xs. f x = Inr ())"
  by (induction xs) (auto split: sum.splits)

section \<open>Policies and the quota\<close>

lemma occupied_slots_slots: "occupied_slots db planID = slots db planID"
  by (simp add: occupied_slots_def slots_def live_in_def [abs_def] reserved_def)

lemma find_map_other:
  assumes "\<And>p. p \<in> set xs \<Longrightarrow> Q (f p) = Q p" "\<And>p. p \<in> set xs \<Longrightarrow> Q p \<Longrightarrow> f p = p"
  shows "find Q (map f xs) = find Q xs"
  using assms by (induction xs) auto

lemma quotaPolicy_other:
  assumes "db_plans d = db_plans db" "db_policies d = update_where (\<lambda>p. p_ID p = pid) (policy_row now i) (db_policies db)"
    and "\<And>plan. find_row pl_ID planID (db_plans db) = Some plan \<Longrightarrow> \<not> sql_eq (pl_PolicyID plan) pid"
  shows "quotaPolicy d planID = quotaPolicy db planID"
proof (cases "find_row pl_ID planID (db_plans db)")
  case (Some plan)
  then have "\<not> sql_eq (pl_PolicyID plan) pid" by (rule assms(3))
  then have "find (\<lambda>p. sql_eq (pl_PolicyID plan) (p_ID p) \<and> p_Composition p \<in> {''combined'', ''retention''}) (db_policies d) =
      find (\<lambda>p. sql_eq (pl_PolicyID plan) (p_ID p) \<and> p_Composition p \<in> {''combined'', ''retention''}) (db_policies db)"
    unfolding assms(2) update_where_def by (intro find_map_other) (auto simp: policy_row_def)
  with Some show ?thesis by (simp add: quotaPolicy_def assms(1))
qed (simp add: quotaPolicy_def assms(1))

lemma quotaPolicy_own:
  assumes "db_plans d = db_plans db" "db_policies d = update_where (\<lambda>p. p_ID p = pid) (policy_row now i) (db_policies db)"
    and "find_row pl_ID planID (db_plans db) = Some plan" "sql_eq (pl_PolicyID plan) pid"
  shows "p_RetentionCount (quotaPolicy d planID) = 0 \<or>
    p_RetentionCount (quotaPolicy d planID) = pi_RetentionCount i \<and> pi_Composition i \<in> {''combined'', ''retention''}"
proof (cases "find (\<lambda>p. sql_eq (pl_PolicyID plan) (p_ID p) \<and> p_Composition p \<in> {''combined'', ''retention''}) (db_policies d)")
  case None
  then show ?thesis using assms(1,3) by (simp add: quotaPolicy_def zero_policy_def)
next
  case (Some p)
  then have "p \<in> set (db_policies d)" "sql_eq (pl_PolicyID plan) (p_ID p)" "p_Composition p \<in> {''combined'', ''retention''}"
    by (auto simp: find_Some_iff)
  then have "p_RetentionCount p = pi_RetentionCount i \<and> p_Composition p = pi_Composition i"
    using assms(4) unfolding assms(2) set_update_where by (auto simp: policy_row_def sql_eq_def)
  with Some assms(1,3) \<open>p_Composition p \<in> _\<close> show ?thesis by (simp add: quotaPolicy_def)
qed

lemma update_policy_cases:
  assumes "UpdatePolicy LoadLocation now db pid input = (db', res)"
  shows "db' = db \<or> (\<forall>planID \<in> set (plans_of_policy db pid). check_quota db input planID = Inr ()) \<and>
    db' = db\<lparr>db_policies := update_where (\<lambda>p. p_ID p = pid) (policy_row now input) (db_policies db)\<rparr>"
  using assms unfolding UpdatePolicy_def
  by (auto simp: res_bind_Inr_iff res_fold_unit split: sum.splits option.splits)

lemma wf_other_tables:
  assumes "store_wf db" "db_tasks d = db_tasks db" "db_points d = db_points db" "db_reservations d = db_reservations db"
  shows "store_wf d"
proof -
  have "reservations_ok d = reservations_ok db" "replacements_ok d = replacements_ok db" "results_ok d = results_ok db"
    using assms(2-4) by (simp_all add: reservations_ok_def replacements_ok_def results_ok_def)
  with assms show ?thesis by (simp add: store_wf_def)
qed

lemma update_policy_keeps:
  assumes wf: "store_wf db" and step: "UpdatePolicy LoadLocation now db pid input = (db', res)"
  shows "store_wf db'" and "within_quota db planID \<Longrightarrow> within_quota db' planID"
proof -
  note c = update_policy_cases [OF step]
  show "store_wf db'" by (rule wf_other_tables [OF wf]) (use c in auto)
  assume w: "within_quota db planID"
  show "within_quota db' planID"
  proof (cases "db' = db")
    case False
    with c have ok: "\<forall>planID \<in> set (plans_of_policy db pid). check_quota db input planID = Inr ()"
      and db': "db' = db\<lparr>db_policies := update_where (\<lambda>p. p_ID p = pid) (policy_row now input) (db_policies db)\<rparr>" by auto
    have slots: "slots db' planID = slots db planID" by (rule slots_cong) (simp_all add: db')
    show ?thesis
    proof (cases "\<exists>plan. find_row pl_ID planID (db_plans db) = Some plan \<and> sql_eq (pl_PolicyID plan) pid")
      case True
      then obtain plan where plan: "find_row pl_ID planID (db_plans db) = Some plan" "sql_eq (pl_PolicyID plan) pid" by blast
      from find_row_SomeD [OF plan(1)] plan(2) have "planID \<in> set (plans_of_policy db pid)"
        by (auto simp: plans_of_policy_def)
      with ok have "check_quota db input planID = Inr ()" by blast
      moreover have "p_RetentionCount (quotaPolicy db' planID) = 0 \<or>
          p_RetentionCount (quotaPolicy db' planID) = pi_RetentionCount input \<and> pi_Composition input \<in> {''combined'', ''retention''}"
        by (rule quotaPolicy_own [OF _ _ plan]) (simp_all add: db')
      ultimately show ?thesis by (auto simp: check_quota_def within_quota_def slots occupied_slots_slots)
    next
      case False
      have "quotaPolicy db' planID = quotaPolicy db planID"
        by (rule quotaPolicy_other [where pid = pid and now = now and i = input]) (use False in \<open>auto simp: db'\<close>)
      with w show ?thesis by (simp add: within_quota_def slots)
    qed
  qed (use w in simp)
qed

text \<open>A new policy and a deleted one are no plan's policy.\<close>

lemma quotaPolicy_unused:
  assumes plans: "db_plans d = db_plans db"
    and same: "\<And>plan p. plan \<in> set (db_plans db) \<Longrightarrow> sql_eq (pl_PolicyID plan) (p_ID p) \<Longrightarrow> keep p"
    and pol: "filter keep (db_policies d) = filter keep (db_policies db)"
  shows "quotaPolicy d planID = quotaPolicy db planID"
proof (cases "find_row pl_ID planID (db_plans db)")
  case (Some plan)
  let ?Q = "\<lambda>p. sql_eq (pl_PolicyID plan) (p_ID p) \<and> p_Composition p \<in> {''combined'', ''retention''}"
  have "plan \<in> set (db_plans db)" using find_row_SomeD [OF Some] by simp
  then have eq: "find ?Q xs = find ?Q (filter keep xs)" for xs using same by (induction xs) auto
  have "find ?Q (db_policies d) = find ?Q (db_policies db)"
    by (simp only: eq [of "db_policies d"] eq [of "db_policies db"] pol)
  with Some plans show ?thesis by (simp add: quotaPolicy_def)
qed (simp add: quotaPolicy_def plans)

lemma create_policy_keeps:
  assumes wf: "store_wf db" and step: "CreatePolicy LoadLocation newID now db input = (db', res)"
    and fresh: "\<forall>plan \<in> set (db_plans db). pl_PolicyID plan \<noteq> newID"
  shows "store_wf db'" and "within_quota db planID \<Longrightarrow> within_quota db' planID"
proof -
  have c: "db' = db \<or> db' = db\<lparr>db_policies := db_policies db @ [new_policy newID now input]\<rparr>"
    using step unfolding CreatePolicy_def Let_def run_tx_def
    by (auto simp: res_bind_Inr_iff split: sum.splits)
  show "store_wf db'" by (rule wf_other_tables [OF wf]) (use c in auto)
  have "quotaPolicy db' planID = quotaPolicy db planID"
    by (rule quotaPolicy_unused [where keep = "\<lambda>p. p_ID p \<noteq> newID"])
      (use c fresh in \<open>auto simp: sql_eq_def new_policy_def\<close>)
  moreover have "slots db' planID = slots db planID" by (rule slots_cong) (use c in auto)
  ultimately show "within_quota db planID \<Longrightarrow> within_quota db' planID" by (simp add: within_quota_def)
qed

lemma delete_policy_keeps:
  assumes wf: "store_wf db" and step: "DeletePolicy db pid = (db', res)"
  shows "store_wf db'" and "within_quota db planID \<Longrightarrow> within_quota db' planID"
proof -
  have c: "db' = db \<or> (\<exists>tn. db' = db\<lparr>db_policies := filter (\<lambda>q. \<not> (p_ID q = pid \<and> p_TenantID q = tn)) (db_policies db)\<rparr> \<and>
      \<not> (\<exists>pl \<in> set (db_plans db). sql_eq (pl_PolicyID pl) pid))"
    using step unfolding DeletePolicy_def by (auto split: option.splits if_splits)
  show "store_wf db'" by (rule wf_other_tables [OF wf]) (use c in auto)
  have "quotaPolicy db' planID = quotaPolicy db planID"
  proof (cases "db' = db")
    case False
    with c show ?thesis
      by (intro quotaPolicy_unused [where keep = "\<lambda>p. p_ID p \<noteq> pid"])
        (auto simp: conj_commute cong: conj_cong intro: filter_cong)
  qed simp
  moreover have "slots db' planID = slots db planID" by (rule slots_cong) (use c in auto)
  ultimately show "within_quota db planID \<Longrightarrow> within_quota db' planID" by (simp add: within_quota_def)
qed

section \<open>Removing a plan\<close>

lemma guard_points_rows:
  "guard_points db hit f ps = Inr qs \<Longrightarrow>
     list_all2 (\<lambda>p q. hit p \<and> (\<exists>ts. q = (f p)\<lparr>rp_TaskCreatedAt := ts\<rparr>) \<or> \<not> hit p \<and> q = p) ps qs"
  by (induction ps arbitrary: qs) (auto simp: res_bind_Inr_iff dest!: guard_fields(2) split: if_splits)

lemma archived_points:
  assumes "guard_points db (\<lambda>q. sql_eq (rp_ProtectionPlanID q) plid) archive_point ps = Inr qs"
  shows "map rp_ID qs = map rp_ID ps"
    and "map (\<lambda>p. (rp_SourceClusterID p, rp_VeleroBackupName p)) qs = map (\<lambda>p. (rp_SourceClusterID p, rp_VeleroBackupName p)) ps"
    and "map (\<lambda>p. (rp_ID p, rp_Status p)) qs = map (\<lambda>p. (rp_ID p, rp_Status p)) ps"
    and "planID \<noteq> plid \<Longrightarrow> count_where (live_in planID) qs = count_where (live_in planID) ps"
    and "p \<in> set ps \<Longrightarrow> rp_ProtectionPlanID p \<noteq> plid \<Longrightarrow> p \<in> set qs"
  using guard_points_rows [OF assms]
  by (induction rule: list_all2_induct) (auto simp: archive_point_def live_in_def sql_eq_def split: if_splits)

lemma point_deleted_cong:
  assumes "map (\<lambda>p. (rp_ID p, rp_Status p)) (db_points d) = map (\<lambda>p. (rp_ID p, rp_Status p)) (db_points db)"
  shows "point_deleted d x = point_deleted db x"
proof -
  have *: "point_deleted e x \<longleftrightarrow> x \<noteq> '''' \<and> (x, ''deleted'') \<in> set (map (\<lambda>p. (rp_ID p, rp_Status p)) (db_points e))" for e
    by (auto simp: point_deleted_def sql_eq_def)
  show ?thesis unfolding * assms ..
qed

lemma count_where_remove:
  "(\<And>r. r \<in> set xs \<Longrightarrow> \<not> keep r \<Longrightarrow> \<not> P r) \<Longrightarrow> count_where P (filter keep xs) = count_where P xs"
  by (induction xs) auto

lemma quotaPolicy_removed:
  assumes "db_policies d = db_policies db"
    and "list_all2 same_plan (filter (\<lambda>p. pl_ID p \<noteq> plid) (db_plans db)) (db_plans d)"
  shows "planID \<noteq> plid \<Longrightarrow> quotaPolicy d planID = quotaPolicy db planID"
    and "quotaPolicy d plid = zero_policy"
proof -
  have eq: "rel_option same_plan (find_row pl_ID planID (filter (\<lambda>p. pl_ID p \<noteq> plid) (db_plans db)))
      (find_row pl_ID planID (db_plans d))" for planID
    using assms(2) unfolding find_row_def by (induction rule: list_all2_induct) (auto simp: same_plan_def)
  have "find_row pl_ID plid (filter (\<lambda>p. pl_ID p \<noteq> plid) xs) = None" for xs :: "ProtectionPlan list" by (auto simp: find_row_None)
  with eq [of plid] show "quotaPolicy d plid = zero_policy"
    by (cases "find_row pl_ID plid (db_plans d)") (simp_all add: quotaPolicy_def)
  assume "planID \<noteq> plid"
  then have "find_row pl_ID planID (filter (\<lambda>p. pl_ID p \<noteq> plid) xs) = find_row pl_ID planID xs" for xs :: "ProtectionPlan list"
    unfolding find_row_def by (induction xs) auto
  with eq [of planID] show "quotaPolicy d planID = quotaPolicy db planID"
    by (auto simp: quotaPolicy_def assms(1) same_plan_def elim!: option.rel_cases)
qed

text \<open>What both ways of removing a plan have in common.\<close>

lemma removal_within:
  assumes pol: "db_policies d = db_policies db"
    and plans: "list_all2 same_plan (filter (\<lambda>p. pl_ID p \<noteq> plid) (db_plans db)) (db_plans d)"
    and slots: "planID \<noteq> plid \<Longrightarrow> slots d planID \<le> slots db planID"
    and w: "within_quota db planID"
  shows "within_quota d planID"
proof (cases "planID = plid")
  case True
  then show ?thesis using quotaPolicy_removed(2) [OF pol plans] by (simp add: within_quota_def zero_policy_def)
next
  case False
  with quotaPolicy_removed(1) [OF pol plans False] slots w show ?thesis by (auto simp: within_quota_def)
qed

lemma delete_plan_cases:
  assumes "DeleteProtectionPlan db now plid = (db', res)"
  shows "db' = db \<or> (\<exists>points apps. guard_points (db\<lparr>db_tasks := update_where (\<lambda>t. sql_eq (t_ProtectionPlanID t) plid) archive_task (db_tasks db)\<rparr>)
       (\<lambda>q. sql_eq (rp_ProtectionPlanID q) plid) archive_point (db_points db) = Inr points \<and>
     db' = db\<lparr>db_tasks := update_where (\<lambda>t. sql_eq (t_ProtectionPlanID t) plid) archive_task (db_tasks db),
       db_points := points, db_plans := filter (\<lambda>p. pl_ID p \<noteq> plid) (db_plans db),
       db_schedules := filter (\<lambda>s. ps_ProtectionPlanID s \<noteq> plid) (db_schedules db),
       db_reservations := filter (\<lambda>r. rv_PlanID r \<noteq> plid) (db_reservations db), db_applications := apps\<rparr>)"
  using assms unfolding DeleteProtectionPlan_def Let_def set_app_status_def drop_plan_rows_def run_tx_def
  by (auto simp: res_bind_Inr_iff split: option.splits sum.splits)

lemma archive_task_fields [simp]:
  "t_ID (archive_task t) = t_ID t" "t_ProtectionPlanID (archive_task t) = ''''"
  "accepted_result (archive_task t) = accepted_result t" "finished_with_point (archive_task t) = finished_with_point t"
  by (simp_all add: archive_task_def accepted_result_def finished_with_point_def)

lemma delete_plan_keeps:
  assumes wf: "store_wf db" and step: "DeleteProtectionPlan db now plid = (db', res)"
  shows "store_wf db'" and "within_quota db planID \<Longrightarrow> within_quota db' planID"
proof -
  have "store_wf db' \<and> (within_quota db planID \<longrightarrow> within_quota db' planID)"
  proof (cases "db' = db")
    case True
    with wf show ?thesis by simp
  next
    case False
    let ?hit = "\<lambda>t. sql_eq (t_ProtectionPlanID t) plid"
    from False delete_plan_cases [OF step] obtain points apps d0 where
      g: "guard_points d0 (\<lambda>q. sql_eq (rp_ProtectionPlanID q) plid) archive_point (db_points db) = Inr points"
      and db': "db' = db\<lparr>db_tasks := update_where ?hit archive_task (db_tasks db),
       db_points := points, db_plans := filter (\<lambda>p. pl_ID p \<noteq> plid) (db_plans db),
       db_schedules := filter (\<lambda>s. ps_ProtectionPlanID s \<noteq> plid) (db_schedules db),
       db_reservations := filter (\<lambda>r. rv_PlanID r \<noteq> plid) (db_reservations db), db_applications := apps\<rparr>"
      by blast
    note pts = archived_points [OF g]
    have tasks: "u \<in> set (db_tasks db') \<longleftrightarrow> u \<in> set (db_tasks db) \<and> \<not> ?hit u \<or> (\<exists>t \<in> set (db_tasks db). ?hit t \<and> u = archive_task t)" for u
      by (auto simp: db' set_update_where)
    have ids: "map t_ID (db_tasks db') = map t_ID (db_tasks db)" by (simp add: db' update_where_def)
    have res: "r \<in> set (db_reservations db') \<longleftrightarrow> r \<in> set (db_reservations db) \<and> rv_PlanID r \<noteq> plid" for r
      by (auto simp: db')
    have "reservations_ok db'" unfolding reservations_ok_def
    proof (intro ballI conjI)
      fix r assume r: "r \<in> set (db_reservations db')"
      with wf res obtain t where t: "known_state r" "rv_PlanID r \<noteq> ''''" "t \<in> set (db_tasks db)" "t_ID t = rv_TaskID r"
          "t_ProtectionPlanID t = rv_PlanID r" by (auto simp: store_wf_def reservations_ok_def)
      then show "known_state r" "rv_PlanID r \<noteq> ''''" by simp_all
      have "\<not> ?hit t" using r res t by (auto simp: sql_eq_def)
      with t tasks show "\<exists>t \<in> set (db_tasks db'). t_ID t = rv_TaskID r \<and> t_ProtectionPlanID t = rv_PlanID r" by blast
    qed
    moreover have "replacements_ok db'" unfolding replacements_ok_def
    proof (intro conjI ballI impI)
      fix r assume r: "r \<in> set (db_reservations db')" "active r \<and> rv_ReplacementPointID r \<noteq> ''''"
      with wf res obtain p where p: "p \<in> set (db_points db)" "rp_ID p = rv_ReplacementPointID r" "rp_ProtectionPlanID p = rv_PlanID r"
        by (auto simp: store_wf_def replacements_ok_def)
      moreover have "p \<in> set (db_points db')" using pts(5) [OF p(1)] p(3) r res by (simp add: db')
      ultimately show "\<exists>p \<in> set (db_points db'). rp_ID p = rv_ReplacementPointID r \<and> rp_ProtectionPlanID p = rv_PlanID r" by blast
    next
      fix r s assume "r \<in> set (db_reservations db')" "s \<in> set (db_reservations db')"
        "active r \<and> active s \<and> rv_ReplacementPointID r \<noteq> '''' \<and> rv_ReplacementPointID r = rv_ReplacementPointID s"
      with wf res show "r = s" by (auto simp: store_wf_def replacements_ok_def)
    qed
    moreover have "results_ok db'" unfolding results_ok_def
    proof (intro conjI ballI impI)
      fix u assume "u \<in> set (db_tasks db')"
      with wf tasks show "result_names_task u" by (auto simp: store_wf_def results_ok_def result_names_task_iff)
    next
      fix r assume "r \<in> set (db_reservations db')" "rv_State r = ''published''"
      with wf res obtain t where t: "t \<in> set (db_tasks db)" "t_ID t = rv_TaskID r" "finished_with_point t" "accepted_result t \<noteq> ANil"
        by (auto simp: store_wf_def results_ok_def)
      show "\<exists>t \<in> set (db_tasks db'). t_ID t = rv_TaskID r \<and> finished_with_point t \<and> accepted_result t \<noteq> ANil"
        by (rule bexI [of _ "if ?hit t then archive_task t else t"]) (use t tasks in auto)
    qed
    moreover have "rp_ID ` set points = rp_ID ` set (db_points db)" using pts(1) by (metis list.set_map)
    ultimately have wf': "store_wf db'" using wf ids pts(1,2) by (simp add: store_wf_def db' distinct_map_filter)
    have slots: "slots db' planID \<le> slots db planID" if "planID \<noteq> plid"
    proof -
      have "point_deleted db' x = point_deleted db x" for x by (rule point_deleted_cong) (simp add: pts(3) db')
      then have hs: "holds_slot db' planID = holds_slot db planID" by (simp add: fun_eq_iff holds_slot_def)
      have "db_reservations db' = filter (\<lambda>r. rv_PlanID r \<noteq> plid) (db_reservations db)" by (simp add: db')
      then have "reserved db' planID = count_where (holds_slot db planID) (filter (\<lambda>r. rv_PlanID r \<noteq> plid) (db_reservations db))"
        unfolding reserved_def hs by simp
      also have "\<dots> = reserved db planID"
        unfolding reserved_def by (rule count_where_remove) (use that in \<open>auto simp: holds_slot_def\<close>)
      finally show ?thesis using pts(4) [OF that] by (simp add: slots_def db')
    qed
    have "within_quota db planID \<Longrightarrow> within_quota db' planID"
      by (rule removal_within [where plid = plid]) (use slots in \<open>auto simp: db' list_all2_self\<close>)
    with wf' show ?thesis by blast
  qed
  then show "store_wf db'" "within_quota db planID \<Longrightarrow> within_quota db' planID" by blast+
qed

text \<open>
  Cleaning up needs one more fact about the rows: a backup task that published its result refers to a
  point of its own plan.
\<close>

definition publishes_own :: "store_db \<Rightarrow> string \<Rightarrow> bool" where
  "publishes_own db plid \<longleftrightarrow>
     (\<forall>t \<in> set (db_tasks db). \<forall>p \<in> set (db_points db). accepted_result t \<noteq> ANil \<and> t_RestorePointID t = rp_ID p \<and>
        sql_eq (rp_ProtectionPlanID p) plid \<longrightarrow> t_ProtectionPlanID t = plid)"

definition forget_point :: "(string \<Rightarrow> bool) \<Rightarrow> Task \<Rightarrow> Task" where
  "forget_point gone t = (if t_RestorePointID t \<noteq> '''' \<and> gone (t_RestorePointID t) then t\<lparr>t_RestorePointID := ''''\<rparr> else t)"

definition forget_rows :: "(string \<Rightarrow> bool) \<Rightarrow> (string \<Rightarrow> bool) \<Rightarrow> Reservation \<Rightarrow> Reservation" where
  "forget_rows point_gone task_gone r =
     r\<lparr>rv_ReplacementPointID := (if rv_ReplacementPointID r \<noteq> '''' \<and> point_gone (rv_ReplacementPointID r) then '''' else rv_ReplacementPointID r),
       rv_CleanupTaskID := (if task_gone (rv_CleanupTaskID r) then '''' else rv_CleanupTaskID r)\<rparr>"

lemma cleanup_reservations:
  "update_where (\<lambda>r. tg (rv_CleanupTaskID r)) (\<lambda>r. r\<lparr>rv_CleanupTaskID := ''''\<rparr>)
     (filter (\<lambda>r. \<not> tg (rv_TaskID r)) (update_where (\<lambda>r. rv_ReplacementPointID r \<noteq> '''' \<and> pg (rv_ReplacementPointID r))
          (\<lambda>r. r\<lparr>rv_ReplacementPointID := ''''\<rparr>) rs)) =
   map (forget_rows pg tg) (filter (\<lambda>r. \<not> tg (rv_TaskID r)) rs)" for rs :: "Reservation list"
  by (induction rs) (auto simp: forget_rows_def)

lemma cleanup_tasks:
  "update_where (\<lambda>t. t_RestorePointID t \<noteq> '''' \<and> pg (t_RestorePointID t)) (\<lambda>t. t\<lparr>t_RestorePointID := ''''\<rparr>) ts = map (forget_point pg) ts"
  for ts :: "Task list"
  by (induction ts) (auto simp: forget_point_def)

lemma list_all2_same_plan_update:
  "(\<And>p. same_plan p (f p)) \<Longrightarrow> list_all2 same_plan xs (update_where h f xs)"
  by (rule list_all2_update_where) auto

lemma same_plan_filter:
  "list_all2 same_plan xs ys \<Longrightarrow> list_all2 same_plan (filter (\<lambda>p. pl_ID p \<noteq> plid) xs) (filter (\<lambda>p. pl_ID p \<noteq> plid) ys)"
  by (induction rule: list_all2_induct) (auto simp: same_plan_def)

lemma cleanup_cases:
  assumes "CleanupProtectionPlanRecords db now plid = (db', res)"
  obtains "db' = db" "\<forall>item. res \<noteq> Inr (Some item)"
  | pg tg where "pg = (\<lambda>i. i \<in> rp_ID ` set (filter (\<lambda>q. sql_eq (rp_ProtectionPlanID q) plid) (db_points db)))"
      "tg = (\<lambda>i. i \<in> t_ID ` set (filter (\<lambda>t. sql_eq (t_ProtectionPlanID t) plid) (db_tasks db)))"
      "db_tasks db' = filter (\<lambda>t. \<not> tg (t_ID t)) (map (forget_point pg) (db_tasks db))"
      "db_points db' = filter (\<lambda>q. \<not> sql_eq (rp_ProtectionPlanID q) plid) (db_points db)"
      "db_reservations db' = filter (\<lambda>r. rv_PlanID r \<noteq> plid) (map (forget_rows pg tg) (filter (\<lambda>r. \<not> tg (rv_TaskID r)) (db_reservations db)))"
      "db_policies db' = db_policies db"
      "list_all2 same_plan (filter (\<lambda>p. pl_ID p \<noteq> plid) (db_plans db)) (db_plans db')"
      "db_schedules db' = filter (\<lambda>s. ps_ProtectionPlanID s \<noteq> plid) (db_schedules db)"
proof (cases "\<forall>item. res \<noteq> Inr (Some item)")
  case True
  with assms have "db' = db"
    unfolding CleanupProtectionPlanRecords_def Let_def run_tx_def
    by (auto simp: res_bind_Inr_iff split: option.splits sum.splits)
  then show ?thesis using True by (rule that(1))
next
  case False
  let ?pg = "\<lambda>i. i \<in> rp_ID ` set (filter (\<lambda>q. sql_eq (rp_ProtectionPlanID q) plid) (db_points db))"
  let ?tg = "\<lambda>i. i \<in> t_ID ` set (filter (\<lambda>t. sql_eq (t_ProtectionPlanID t) plid) (db_tasks db))"
  from assms False obtain d apps where d: "cleanup_rows db plid = Inr d" "db' = d\<lparr>db_applications := apps\<rparr>"
    unfolding CleanupProtectionPlanRecords_def Let_def set_app_status_def run_tx_def
    by (auto simp: res_bind_Inr_iff split: option.splits sum.splits)
  let ?a = "update_where (\<lambda>p. pl_ID p = plid) (\<lambda>p. p\<lparr>pl_LatestSyncTaskID := [], pl_LatestRecoveryTaskID := []\<rparr>) (db_plans db)"
  let ?b = "update_where (\<lambda>p. ?tg (pl_LatestSyncTaskID p)) (\<lambda>p. p\<lparr>pl_LatestSyncTaskID := []\<rparr>) ?a"
  let ?c = "update_where (\<lambda>p. ?tg (pl_LatestRecoveryTaskID p)) (\<lambda>p. p\<lparr>pl_LatestRecoveryTaskID := []\<rparr>) ?b"
  from d(1) have "db_tasks d = filter (\<lambda>t. \<not> ?tg (t_ID t)) (map (forget_point ?pg) (db_tasks db)) \<and>
    db_points d = filter (\<lambda>q. \<not> sql_eq (rp_ProtectionPlanID q) plid) (db_points db) \<and>
    db_reservations d = filter (\<lambda>r. rv_PlanID r \<noteq> plid) (map (forget_rows ?pg ?tg) (filter (\<lambda>r. \<not> ?tg (rv_TaskID r)) (db_reservations db))) \<and>
    db_policies d = db_policies db \<and> db_plans d = filter (\<lambda>p. pl_ID p \<noteq> plid) ?c \<and>
    db_schedules d = filter (\<lambda>s. ps_ProtectionPlanID s \<noteq> plid) (db_schedules db)"
    unfolding cleanup_rows_def Let_def unlink_points_def drop_tasks_def drop_plan_rows_def cleanup_tasks
    by (simp only: res_bind_Inr_iff res_guard_iff simp_thms ex_simps sum.inject)
      (elim exE conjE, hypsubst_thin, simp add: cleanup_reservations [of ?tg ?pg] del: set_filter)
  with d(2) have t: "db_tasks db' = filter (\<lambda>t. \<not> ?tg (t_ID t)) (map (forget_point ?pg) (db_tasks db))"
    and pts: "db_points db' = filter (\<lambda>q. \<not> sql_eq (rp_ProtectionPlanID q) plid) (db_points db)"
    and rvs: "db_reservations db' = filter (\<lambda>r. rv_PlanID r \<noteq> plid) (map (forget_rows ?pg ?tg) (filter (\<lambda>r. \<not> ?tg (rv_TaskID r)) (db_reservations db)))"
    and pol: "db_policies db' = db_policies db" and plans: "db_plans db' = filter (\<lambda>p. pl_ID p \<noteq> plid) ?c"
    and sch: "db_schedules db' = filter (\<lambda>s. ps_ProtectionPlanID s \<noteq> plid) (db_schedules db)"
    by (simp_all del: set_filter)
  have a: "list_all2 same_plan (db_plans db) ?a" and b: "list_all2 same_plan ?a ?b" and c: "list_all2 same_plan ?b ?c"
    by (rule list_all2_same_plan_update, simp add: same_plan_def)+
  have "list_all2 same_plan (db_plans db) ?c"
    by (rule list_all2_trans_same [OF list_all2_trans_same [OF a b] c]) (rule same_trans(4), assumption+)+
  then have "list_all2 same_plan (filter (\<lambda>p. pl_ID p \<noteq> plid) (db_plans db)) (db_plans db')"
    unfolding plans by (rule same_plan_filter)
  with t pts rvs pol sch show ?thesis by (intro that(2)) (rule refl)+
qed

lemma cleanup_keeps:
  assumes wf: "store_wf db" and step: "CleanupProtectionPlanRecords db now plid = (db', res)"
    and own: "publishes_own db plid"
  shows "store_wf db'" and "within_quota db planID \<Longrightarrow> within_quota db' planID"
proof -
  have "store_wf db' \<and> (within_quota db planID \<longrightarrow> within_quota db' planID)"
    using step
  proof (cases rule: cleanup_cases)
    case 1
    with wf show ?thesis by simp
  next
    case (2 pg tg)
    note pg = 2(1) and tg = 2(2) and tasks = 2(3) and points = 2(4) and rvs = 2(5)
    have dist: "distinct (map t_ID (db_tasks db))" "distinct (map rp_ID (db_points db))" using wf by (simp_all add: store_wf_def)
    have stay: "forget_point pg t \<in> set (db_tasks db')" if "t \<in> set (db_tasks db)" "t_ProtectionPlanID t \<noteq> plid" for t
    proof -
      have "\<not> tg (t_ID t)"
      proof
        assume "tg (t_ID t)"
        then obtain u where u: "u \<in> set (db_tasks db)" "t_ProtectionPlanID u = plid" "t_ID u = t_ID t"
          by (auto simp: tg sql_eq_def)
        with row_eq [OF dist(1) u(1) that(1)] that(2) show False by simp
      qed
      then show ?thesis using that by (simp add: tasks forget_point_def)
    qed
    have res: "\<exists>s \<in> set (db_reservations db). r = forget_rows pg tg s \<and> rv_PlanID s \<noteq> plid" if "r \<in> set (db_reservations db')" for r
      using that by (auto simp: rvs forget_rows_def)
    have kept: "rv_ReplacementPointID (forget_rows pg tg s) = rv_ReplacementPointID s"
      if "s \<in> set (db_reservations db)" "active s" "rv_PlanID s \<noteq> plid" for s
    proof (rule ccontr)
      assume ne: "\<not> ?thesis"
      then have g: "rv_ReplacementPointID s \<noteq> []" "pg (rv_ReplacementPointID s)" by (auto simp: forget_rows_def split: if_splits)
      from g(2) obtain q where q: "q \<in> set (db_points db)" "rp_ID q = rv_ReplacementPointID s" "rp_ProtectionPlanID q = plid"
        by (auto simp: pg sql_eq_def)
      from wf that(1,2) g(1) obtain p where p: "p \<in> set (db_points db)" "rp_ID p = rv_ReplacementPointID s"
        "rp_ProtectionPlanID p = rv_PlanID s" by (auto simp: store_wf_def replacements_ok_def)
      have "p = q" using row_eq [OF dist(2) p(1) q(1)] p(2) q(2) by simp
      with p q that(3) show False by simp
    qed
    have fr [simp]: "rv_TaskID (forget_rows pg tg s) = rv_TaskID s" "rv_PlanID (forget_rows pg tg s) = rv_PlanID s"
        "rv_State (forget_rows pg tg s) = rv_State s" "active (forget_rows pg tg s) = active s"
        "known_state (forget_rows pg tg s) = known_state s" for s
      by (simp_all add: forget_rows_def active_def known_state_def)
    have fp [simp]: "t_ID (forget_point pg t) = t_ID t" "t_ProtectionPlanID (forget_point pg t) = t_ProtectionPlanID t"
        "accepted_result (forget_point pg t) = accepted_result t" for t
      by (simp_all add: forget_point_def accepted_result_def)
    have "reservations_ok db'" unfolding reservations_ok_def
    proof (intro ballI conjI)
      fix r assume r: "r \<in> set (db_reservations db')"
      then obtain s where s: "s \<in> set (db_reservations db)" "r = forget_rows pg tg s" "rv_PlanID s \<noteq> plid" using res by blast
      with wf obtain t where t: "known_state s" "rv_PlanID s \<noteq> []" "t \<in> set (db_tasks db)" "t_ID t = rv_TaskID s"
          "t_ProtectionPlanID t = rv_PlanID s" by (auto simp: store_wf_def reservations_ok_def)
      with s show "known_state r" "rv_PlanID r \<noteq> []" by simp_all
      show "\<exists>t \<in> set (db_tasks db'). t_ID t = rv_TaskID r \<and> t_ProtectionPlanID t = rv_PlanID r"
        by (rule bexI [OF _ stay [OF t(3)]]) (use s t in simp_all)
    qed
    moreover have "replacements_ok db'" unfolding replacements_ok_def
    proof (intro conjI ballI impI)
      fix r assume r: "r \<in> set (db_reservations db')" "active r \<and> rv_ReplacementPointID r \<noteq> []"
      then obtain s where s: "s \<in> set (db_reservations db)" "r = forget_rows pg tg s" "rv_PlanID s \<noteq> plid" using res by blast
      with r kept have k: "rv_ReplacementPointID r = rv_ReplacementPointID s" "active s" by auto
      with wf s r obtain p where p: "p \<in> set (db_points db)" "rp_ID p = rv_ReplacementPointID s" "rp_ProtectionPlanID p = rv_PlanID s"
        by (auto simp: store_wf_def replacements_ok_def)
      then have "p \<in> set (db_points db')" using s(3) by (simp add: points sql_eq_def)
      with p k s show "\<exists>p \<in> set (db_points db'). rp_ID p = rv_ReplacementPointID r \<and> rp_ProtectionPlanID p = rv_PlanID r" by auto
    next
      fix r1 r2 assume r: "r1 \<in> set (db_reservations db')" "r2 \<in> set (db_reservations db')"
        "active r1 \<and> active r2 \<and> rv_ReplacementPointID r1 \<noteq> [] \<and> rv_ReplacementPointID r1 = rv_ReplacementPointID r2"
      then obtain s1 s2 where s: "s1 \<in> set (db_reservations db)" "r1 = forget_rows pg tg s1" "rv_PlanID s1 \<noteq> plid"
        "s2 \<in> set (db_reservations db)" "r2 = forget_rows pg tg s2" "rv_PlanID s2 \<noteq> plid" using res by metis
      with r kept have "active s1" "active s2" "rv_ReplacementPointID s1 \<noteq> []" "rv_ReplacementPointID s1 = rv_ReplacementPointID s2" by auto
      with wf s have "s1 = s2" by (auto simp: store_wf_def replacements_ok_def)
      with s show "r1 = r2" by simp
    qed
    moreover have "results_ok db'" unfolding results_ok_def
    proof (intro conjI ballI impI)
      fix u assume "u \<in> set (db_tasks db')"
      then obtain t where "t \<in> set (db_tasks db)" "u = forget_point pg t" by (auto simp: tasks)
      with wf show "result_names_task u" by (auto simp: store_wf_def results_ok_def result_names_task_iff)
    next
      fix r assume r: "r \<in> set (db_reservations db')" "rv_State r = ''published''"
      then obtain s where s: "s \<in> set (db_reservations db)" "r = forget_rows pg tg s" "rv_PlanID s \<noteq> plid" using res by blast
      with r wf obtain t where t: "t \<in> set (db_tasks db)" "t_ID t = rv_TaskID s" "finished_with_point t" "accepted_result t \<noteq> ANil"
        by (auto simp: store_wf_def results_ok_def)
      from wf s obtain t' where t': "t' \<in> set (db_tasks db)" "t_ID t' = rv_TaskID s" "t_ProtectionPlanID t' = rv_PlanID s"
        by (auto simp: store_wf_def reservations_ok_def)
      have "t = t'" using row_eq [OF dist(1) t(1) t'(1)] t t' by simp
      with t' s have pl: "t_ProtectionPlanID t \<noteq> plid" by simp
      have "\<not> pg (t_RestorePointID t)" using own t pl by (auto simp: pg publishes_own_def)
      then have "forget_point pg t = t" by (simp add: forget_point_def)
      with stay [OF t(1) pl] t s show "\<exists>t \<in> set (db_tasks db'). t_ID t = rv_TaskID r \<and> finished_with_point t \<and> accepted_result t \<noteq> ANil"
        by auto
    qed
    moreover have "distinct (map t_ID (db_tasks db'))" "distinct (map rv_TaskID (db_reservations db'))"
    proof -
      have "map t_ID (map (forget_point pg) (db_tasks db)) = map t_ID (db_tasks db)" by (simp cong: map_cong)
      then show "distinct (map t_ID (db_tasks db'))" unfolding tasks using dist(1) by (metis distinct_map_filter)
      have same: "map rv_TaskID (map (forget_rows pg tg) xs) = map rv_TaskID xs" for xs by (simp cong: map_cong)
      have "distinct (map rv_TaskID (db_reservations db))" using wf by (simp add: store_wf_def)
      then have "distinct (map rv_TaskID (map (forget_rows pg tg) (filter (\<lambda>r. \<not> tg (rv_TaskID r)) (db_reservations db))))"
        unfolding same by (rule distinct_map_filter)
      then show "distinct (map rv_TaskID (db_reservations db'))" unfolding rvs by (rule distinct_map_filter)
    qed
    moreover have "distinct (map rp_ID (db_points db'))" "'''' \<notin> rp_ID ` set (db_points db')"
        "distinct (map (\<lambda>p. (rp_SourceClusterID p, rp_VeleroBackupName p)) (db_points db'))"
      using wf by (auto simp: store_wf_def points distinct_map_filter)
    ultimately have wf': "store_wf db'" unfolding store_wf_def by blast
    have slots: "slots db' planID \<le> slots db planID" if "planID \<noteq> plid"
    proof -
      have live: "count_where (live_in planID) (db_points db') = count_where (live_in planID) (db_points db)"
        unfolding points by (rule count_where_remove) (use that in \<open>auto simp: live_in_def sql_eq_def\<close>)
      have hs: "holds_slot db planID s" if s: "s \<in> set (db_reservations db)" and h: "holds_slot db' planID (forget_rows pg tg s)" for s
      proof -
        have a: "active s" "rv_PlanID s = planID" using h by (auto simp: holds_slot_def)
        with kept [OF s] \<open>planID \<noteq> plid\<close> have "rv_ReplacementPointID (forget_rows pg tg s) = rv_ReplacementPointID s" by simp
        moreover have "point_deleted db' x \<Longrightarrow> point_deleted db x" for x by (auto simp: point_deleted_def points)
        ultimately show ?thesis using h a by (auto simp: holds_slot_def)
      qed
      have "count_where P (filter Q xs) \<le> count_where P xs" for P Q and xs :: "Reservation list" by (induction xs) auto
      then have "reserved db' planID \<le> count_where (holds_slot db' planID) (map (forget_rows pg tg) (filter (\<lambda>r. \<not> tg (rv_TaskID r)) (db_reservations db)))"
        unfolding reserved_def rvs by blast
      also have "\<dots> \<le> count_where (holds_slot db planID) (filter (\<lambda>r. \<not> tg (rv_TaskID r)) (db_reservations db))"
        unfolding count_where_map by (rule count_where_mono) (use hs in auto)
      also have "\<dots> \<le> reserved db planID"
        unfolding reserved_def by (rule \<open>\<And>xs Q P. count_where P (filter Q xs) \<le> count_where P xs\<close>)
      finally show ?thesis by (simp add: slots_def live)
    qed
    have "within_quota db planID \<Longrightarrow> within_quota db' planID"
      by (rule removal_within [OF 2(6,7)]) (use slots in auto)
    with wf' show ?thesis by blast
  qed
  then show "store_wf db'" "within_quota db planID \<Longrightarrow> within_quota db' planID" by blast+
qed

section \<open>Saving a plan\<close>

text \<open>
  Plans have distinct identifiers, and no application belongs to two plans of one tenant and source
  cluster.
\<close>

definition plans_wf :: "store_db \<Rightarrow> bool" where
  "plans_wf db \<longleftrightarrow> distinct (map pl_ID (db_plans db)) \<and> '''' \<notin> pl_ID ` set (db_plans db) \<and>
     (\<forall>p \<in> set (db_plans db). distinct (pl_AppIDs p)) \<and>
     (\<forall>p \<in> set (db_plans db). \<forall>q \<in> set (db_plans db). pl_ID p \<noteq> pl_ID q \<and> pl_TenantID p = pl_TenantID q \<and>
        pl_SourceClusterID p = pl_SourceClusterID q \<longrightarrow> set (pl_AppIDs p) \<inter> set (pl_AppIDs q) = {})"

definition plan_key :: "ProtectionPlan \<Rightarrow> string \<times> string \<times> string \<times> string list" where
  "plan_key p = (pl_ID p, pl_TenantID p, pl_SourceClusterID p, pl_AppIDs p)"

lemma plans_wf_keys:
  assumes "plans_wf db" "map plan_key (db_plans d) = map plan_key (db_plans db)"
  shows "plans_wf d"
proof -
  have ids: "map pl_ID xs = map fst (map plan_key xs)" for xs by (simp add: plan_key_def comp_def)
  have alt: "plans_wf e \<longleftrightarrow> distinct (map fst (map plan_key (db_plans e))) \<and> '''' \<notin> set (map fst (map plan_key (db_plans e))) \<and>
     (\<forall>(i, t, c, as) \<in> set (map plan_key (db_plans e)). distinct as) \<and>
     (\<forall>(i, t, c, as) \<in> set (map plan_key (db_plans e)). \<forall>(j, u, e, bs) \<in> set (map plan_key (db_plans e)).
        i \<noteq> j \<and> t = u \<and> c = e \<longrightarrow> set as \<inter> set bs = {})" for e
    unfolding ids [symmetric] by (simp add: plans_wf_def plan_key_def)
  from assms(1) show ?thesis unfolding alt assms(2) .
qed

lemma plans_wf_same:
  assumes "plans_wf db" "list_all2 same_plan (db_plans db) (db_plans d)"
  shows "plans_wf d"
proof (rule plans_wf_keys [OF assms(1)])
  show "map plan_key (db_plans d) = map plan_key (db_plans db)"
    using assms(2) by (induction rule: list_all2_induct) (auto simp: same_plan_def plan_key_def)
qed

lemma plans_wf_sub:
  assumes "plans_wf db" "list_all2 same_plan (filter keep (db_plans db)) (db_plans d)"
  shows "plans_wf d"
proof -
  have "plans_wf (db\<lparr>db_plans := filter keep (db_plans db)\<rparr>)"
    using assms(1) by (auto simp: plans_wf_def distinct_map_filter)
  then show ?thesis by (rule plans_wf_same) (simp add: assms(2))
qed

lemma save_cases:
  assumes "saveProtectionPlan newID now db plid input = (db', res)"
  obtains (unchanged) e where "db' = db" "res = Inl e"
  | (created) plan where "plid = ''''" "res = Inr plan" "plan = new_plan newID now input" "plan_references_valid db plan"
      "list_all (app_valid db plan) (pl_AppIDs plan)" "protecting_plan db plid plan = None"
      "find_row pl_ID newID (db_plans db) = None" "db' = db\<lparr>db_plans := db_plans db @ [plan]\<rparr>"
  | (updated) plan created where "plid \<noteq> ''''" "res = Inr plan" "check_update db plid (new_plan newID now input) = Inr created"
      "plan = (new_plan newID now input)\<lparr>pl_ID := plid, pl_CreatedAt := created\<rparr>" "plan_references_valid db plan"
      "list_all (app_valid db plan) (pl_AppIDs plan)" "protecting_plan db plid plan = None"
      "db' = db\<lparr>db_plans := update_where (\<lambda>p. pl_ID p = plid) (plan_row now plan) (db_plans db),
          db_schedules := update_where (\<lambda>s. ps_ProtectionPlanID s = plid)
            (\<lambda>s. s\<lparr>ps_Enabled := False, ps_NextFireAt := 0, ps_UpdatedAt := now\<rparr>) (db_schedules db)\<rparr>"
proof (cases res)
  case (Inl e)
  then show ?thesis using assms unchanged unfolding saveProtectionPlan_def Let_def run_tx_def
    by (auto split: sum.splits prod.splits)
next
  case (Inr plan)
  let ?n = "new_plan newID now input"
  have nid: "pl_ID ?n = newID" by (simp add: new_plan_def Let_def)
  from assms Inr obtain plan' where
    a: "(if plid = '''' then Inr ?n else res_bind (check_update db plid ?n)
          (\<lambda>created. Inr (?n\<lparr>pl_ID := plid, pl_CreatedAt := created\<rparr>))) = Inr plan'"
    and b: "plan_references_valid db plan'" "list_all (app_valid db plan') (pl_AppIDs plan')" "protecting_plan db plid plan' = None"
    and c: "write_plan db now plid plan' = Inr db'" "plan' = plan"
    unfolding saveProtectionPlan_def Let_def run_tx_def
    by (auto simp: res_bind_Inr_iff split: sum.splits prod.splits option.splits)
  show ?thesis
  proof (cases "plid = ''''")
    case True
    with a c have "plan = ?n" by simp
    moreover have "find_row pl_ID newID (db_plans db) = None" "db' = db\<lparr>db_plans := db_plans db @ [plan]\<rparr>"
      using c True \<open>plan = ?n\<close> nid by (auto simp: write_plan_def res_bind_Inr_iff)
    ultimately show ?thesis using created [of plan] Inr True b c by simp
  next
    case False
    from a False obtain cr where "check_update db plid ?n = Inr cr" "plan' = ?n\<lparr>pl_ID := plid, pl_CreatedAt := cr\<rparr>"
      by (auto simp: res_bind_Inr_iff)
    then show ?thesis using False Inr b c by (intro updated) (auto simp: write_plan_def res_bind_Inr_iff)
  qed
qed

lemma dedup_from_set: "set (dedup_from seen xs) = set xs - insert '''' seen" "distinct (dedup_from seen xs)"
  by (induction xs arbitrary: seen) auto

lemma plan_app_ids_nonempty: "'''' \<notin> set (plan_app_ids i)" "distinct (plan_app_ids i)"
  by (simp_all add: plan_app_ids_def dedupNonEmpty_def dedup_from_set Let_def)

lemma save_plans_wf:
  assumes wf: "plans_wf db" and step: "saveProtectionPlan newID now db plid input = (db', res)" and id: "newID \<noteq> ''''"
  shows "plans_wf db'"
  using step
proof (cases rule: save_cases)
  case unchanged
  with wf show ?thesis by simp
next
  case (created plan)
  have fields: "pl_ID plan = newID" unfolding created(3) by (simp add: new_plan_def Let_def)
  have ne: "'''' \<notin> set (pl_AppIDs plan)" "distinct (pl_AppIDs plan)"
    unfolding created(3) by (simp_all add: new_plan_def Let_def plan_app_ids_nonempty)
  from ne(1) have slice: "planIDsSlice (pl_AppIDs plan) = pl_AppIDs plan"
    unfolding planIDsSlice_def by (intro filter_True) auto
  have excl: "set (pl_AppIDs p) \<inter> set (pl_AppIDs plan) = {}"
    if p: "p \<in> set (db_plans db)" "pl_TenantID p = pl_TenantID plan" "pl_SourceClusterID p = pl_SourceClusterID plan" for p
  proof -
    have "pl_ID p \<noteq> ''''" using wf p(1) unfolding plans_wf_def by (metis image_eqI)
    have "concat (map (\<lambda>p. map (Pair (pl_ID p)) (filter (\<lambda>a. a \<in> set (planIDsSlice (pl_AppIDs plan))) (pl_AppIDs p)))
        (filter (\<lambda>p. pl_TenantID p = pl_TenantID plan \<and> pl_SourceClusterID p = pl_SourceClusterID plan \<and> pl_ID p \<noteq> plid)
          (db_plans db))) = []"
      using created(6) unfolding protecting_plan_def by (auto split: list.splits)
    then have "map (Pair (pl_ID p)) (filter (\<lambda>a. a \<in> set (planIDsSlice (pl_AppIDs plan))) (pl_AppIDs p)) = []"
      unfolding concat_eq_Nil_conv using p \<open>pl_ID p \<noteq> ''''\<close> created(1) by auto
    then show ?thesis by (auto simp: slice filter_empty_conv)
  qed
  have "newID \<notin> pl_ID ` set (db_plans db)" using created(7) by (auto simp: find_row_None)
  with wf id excl ne(2) show ?thesis unfolding created(8) plans_wf_def by (auto simp: fields Int_commute)
next
  case (updated plan cr)
  show ?thesis
    by (rule plans_wf_keys [OF wf]) (simp add: updated(8) update_where_def plan_row_def plan_key_def)
qed

text \<open>An identifier that no plan, point or reservation carries.\<close>

definition fresh_plan_id :: "store_db \<Rightarrow> string \<Rightarrow> bool" where
  "fresh_plan_id db plid \<longleftrightarrow> plid \<noteq> '''' \<and> (\<forall>p \<in> set (db_plans db). pl_ID p \<noteq> plid) \<and>
     (\<forall>p \<in> set (db_points db). rp_ProtectionPlanID p \<noteq> plid) \<and> (\<forall>r \<in> set (db_reservations db). rv_PlanID r \<noteq> plid)"

lemma new_plan_fields:
  "pl_ID (new_plan newID now input) = newID" "pl_PolicyID (new_plan newID now input) = pli_PolicyID input"
  "pl_TenantID (new_plan newID now input) = or_default (pli_TenantID input) DefaultTenantID"
  "pl_SourceClusterID (new_plan newID now input) = pli_SourceClusterID input"
  "pl_AppIDs (new_plan newID now input) = plan_app_ids input"
  by (simp_all add: new_plan_def Let_def)

lemma create_plan_keeps:
  assumes wf: "store_wf db" and step: "CreateProtectionPlan newID now db input = (db', res)" and fresh: "fresh_plan_id db newID"
  shows "store_wf db'" and "within_quota db planID \<Longrightarrow> within_quota db' planID"
proof -
  have c: "db' = db \<or> (\<exists>plan. pl_ID plan = newID \<and> db' = db\<lparr>db_plans := db_plans db @ [plan]\<rparr>)"
    using step unfolding CreateProtectionPlan_def
  proof (cases rule: save_cases)
    case (created plan)
    then have "pl_ID plan = newID" by (simp add: new_plan_fields)
    with created(8) show ?thesis by blast
  qed simp_all
  show "store_wf db'" by (rule wf_other_tables [OF wf]) (use c in auto)
  assume w: "within_quota db planID"
  have slots: "slots db' planID = slots db planID" by (rule slots_cong) (use c in auto)
  show "within_quota db' planID"
  proof (cases "planID = newID")
    case True
    have "count_where (live_in newID) (db_points db) = 0" "reserved db newID = 0"
      using fresh by (auto simp: fresh_plan_id_def count_where_def reserved_def filter_empty_conv live_in_def sql_eq_def holds_slot_def)
    with True slots show ?thesis by (simp add: within_quota_def slots_def linear)
  next
    case False
    have "find_row pl_ID planID (db_plans db') = find_row pl_ID planID (db_plans db)"
      using c False plans.find_insert [of planID _ db] by (auto split: option.splits)
    moreover have "db_policies db' = db_policies db" using c by auto
    ultimately have "quotaPolicy db' planID = quotaPolicy db planID" by (simp only: quotaPolicy_def)
    with w slots show ?thesis by (simp add: within_quota_def)
  qed
qed

text \<open>What \<^verbatim>\<open>UpdatePolicy\<close> checks of the plans of a policy, for a policy a plan is given.\<close>

definition policy_admits :: "store_db \<Rightarrow> string \<Rightarrow> string \<Rightarrow> bool" where
  "policy_admits db policyID plid \<longleftrightarrow> (\<forall>p \<in> set (db_policies db). p_ID p = policyID \<and> p_Composition p \<in> {''combined'', ''retention''} \<longrightarrow>
     p_RetentionCount p \<le> 0 \<or> int (occupied_slots db plid) \<le> p_RetentionCount p)"

lemma updated_plan:
  assumes "find_row pl_ID plid (db_plans db) = Some old" "pl_ID plan = plid"
    and "db' = db\<lparr>db_plans := update_where (\<lambda>p. pl_ID p = plid) (plan_row now plan) (db_plans db), db_schedules := ss\<rparr>"
  shows "find_row pl_ID planID (db_plans db') =
    (if planID = plid then Some (plan_row now plan old) else find_row pl_ID planID (db_plans db))"
proof -
  have key: "pl_ID (plan_row now plan r) = pl_ID r" for r by (simp add: plan_row_def)
  have "find_row pl_ID planID (db_plans db') = map_option (\<lambda>r. if pl_ID r = plid then plan_row now plan r else r) (find_row pl_ID planID (db_plans db))"
    using plans.find_update_where [where f = "plan_row now plan" and p = "\<lambda>p. pl_ID p = plid" and d = db, OF key, of planID] by (simp add: assms(3))
  moreover have "pl_ID r = planID" if "find_row pl_ID planID (db_plans db) = Some r" for r using find_row_SomeD [OF that] by simp
  ultimately show ?thesis using assms(1) by (cases "find_row pl_ID planID (db_plans db)") auto
qed

lemma update_plan_keeps:
  assumes wf: "store_wf db" and step: "UpdateProtectionPlan newID now db plid input = (db', res)" and id: "plid \<noteq> ''''"
    and admits: "policy_admits db (pli_PolicyID input) plid"
  shows "store_wf db'" and "within_quota db planID \<Longrightarrow> within_quota db' planID"
proof -
  have "store_wf db' \<and> (within_quota db planID \<longrightarrow> within_quota db' planID)"
    using step unfolding UpdateProtectionPlan_def
  proof (cases rule: save_cases)
    case (updated plan cr)
    have plan: "pl_ID plan = plid" "pl_PolicyID plan = pli_PolicyID input" unfolding updated(4) by (simp_all add: new_plan_fields)
    from updated(3) obtain old where old: "find_row pl_ID plid (db_plans db) = Some old"
      unfolding check_update_def query_row_def by (auto simp: res_bind_Inr_iff split: option.splits)
    note row = updated_plan [OF old plan(1) updated(8)]
    have slots: "slots db' planID = slots db planID" for planID by (rule slots_cong) (simp_all add: updated(8))
    have same: "db_policies db' = db_policies db" by (simp add: updated(8))
    have "within_quota db' plid"
    proof (cases "find (\<lambda>p. sql_eq (pli_PolicyID input) (p_ID p) \<and> p_Composition p \<in> {''combined'', ''retention''}) (db_policies db)")
      case None
      then show ?thesis by (simp add: within_quota_def quotaPolicy_def row same plan plan_row_def zero_policy_def)
    next
      case (Some p)
      then have "p \<in> set (db_policies db)" "p_ID p = pli_PolicyID input" "p_Composition p \<in> {''combined'', ''retention''}"
        by (auto simp: find_Some_iff sql_eq_def)
      with admits have "p_RetentionCount p \<le> 0 \<or> int (slots db plid) \<le> p_RetentionCount p"
        by (simp add: policy_admits_def occupied_slots_slots)
      with Some show ?thesis by (simp add: within_quota_def quotaPolicy_def row same plan plan_row_def slots)
    qed
    moreover have "quotaPolicy db' planID = quotaPolicy db planID" if "planID \<noteq> plid" unfolding quotaPolicy_def same row using that by simp
    moreover have "store_wf db'" by (rule wf_other_tables [OF wf]) (simp_all add: updated(8))
    ultimately show ?thesis by (cases "planID = plid") (auto simp: within_quota_def slots)
  qed (use wf id in auto)
  then show "store_wf db'" "within_quota db planID \<Longrightarrow> within_quota db' planID" by blast+
qed

lemma update_plan_wf:
  assumes "plans_wf db" "UpdateProtectionPlan newID now db plid input = (db', res)" "plid \<noteq> ''''"
  shows "plans_wf db'"
  using assms(2) unfolding UpdateProtectionPlan_def
proof (cases rule: save_cases)
  case (updated plan cr)
  show ?thesis by (rule plans_wf_keys [OF assms(1)]) (simp add: updated(8) update_where_def plan_row_def plan_key_def)
qed (use assms in auto)

lemma quiet_schedules: "quiet db (db\<lparr>db_schedules := ss\<rparr>)"
  by (simp add: quiet_def list_all2_self)

lemma quiet_plan_updates:
  "quiet db (fst (UpdateProtectionPlanStatus db now plid status))"
  "quiet db (fst (UpdateProtectionPlanStorageSize db now plid sz))"
  "quiet db (fst (ClearProtectionPlanTargetCluster db now plid target))"
  "quiet db (fst (UpsertProtectionPlanSchedule db now si))"
  "quiet db (fst (MarkProtectionPlanScheduleFired db now fi))"
  "quiet db (DisableProtectionPlanSchedule db now plid)"
  unfolding UpdateProtectionPlanStatus_def UpdateProtectionPlanStorageSize_def ClearProtectionPlanTargetCluster_def
    UpsertProtectionPlanSchedule_def MarkProtectionPlanScheduleFired_def DisableProtectionPlanSchedule_def Let_def
  by (auto intro!: quiet_plans quiet_schedules simp: same_plan_def split: option.splits)

section \<open>Properties\<close>

text \<open>C14: An application has one plan: whatever a caller saves, created or updated, no application
  belongs to two plans of the same tenant and source cluster, plan identifiers stay distinct and no plan
  lists an application twice.\<close>

theorem plan_apps_exclusive:
  assumes "plans_wf db" "saveProtectionPlan newID now db plid input = (db', res)" "newID \<noteq> ''''"
  shows "plans_wf db'"
  using assms by (rule save_plans_wf)

definition second_plan :: ProtectionPlanInput where
  "second_plan = \<lparr>pli_TenantID = ''t1'', pli_SourceClusterID = ''c1'', pli_AppID = ''a1'', pli_AppIDs = [], pli_ScopeType = '''',
     pli_IncludedResources = [], pli_ResourceSelection = \<lparr>rsel_Mode = '''', rsel_NamespaceScoped = [], rsel_ClusterScoped = []\<rparr>,
     pli_LabelSelector = \<lparr>ls_MatchLabels = [], ls_MatchExpressions = []\<rparr>, pli_IncludeClusterScoped = False,
     pli_StorageRepoID = '''', pli_PolicyID = '''', pli_TargetClusterID = '''', pli_ExcludedResources = [], pli_PreHooks = [],
     pli_PostHooks = [], pli_Status = ''''\<rparr>"

theorem plan_apps_exclusive_witness:
  "plans_wf (fst (saveProtectionPlan ''plan2'' 100 (sample_db\<lparr>db_plans := []\<rparr>) '''' second_plan)) \<and>
   length (db_plans (fst (saveProtectionPlan ''plan2'' 100 (sample_db\<lparr>db_plans := []\<rparr>) '''' second_plan))) = 1 \<and>
   snd (saveProtectionPlan ''plan2'' 100 sample_db '''' second_plan) = Inl (ErrApplicationAlreadyProtected ''plan1'' ''a1'')"
proof (intro conjI)
  show "plans_wf (fst (saveProtectionPlan ''plan2'' 100 (sample_db\<lparr>db_plans := []\<rparr>) '''' second_plan))"
    by (rule plan_apps_exclusive [OF _ prod.collapse [symmetric]]) code_simp+
  show "length (db_plans (fst (saveProtectionPlan ''plan2'' 100 (sample_db\<lparr>db_plans := []\<rparr>) '''' second_plan))) = 1" by code_simp
  show "snd (saveProtectionPlan ''plan2'' 100 sample_db '''' second_plan) = Inl (ErrApplicationAlreadyProtected ''plan1'' ''a1'')" by code_simp
qed

text \<open>Updating a plan keeps its identity: a successful update leaves the tenant, the source cluster and
  the applications of the plan as they were, happens only while no task of the plan is open, refers only
  to clusters, repositories and policies of the plan's tenant, and leaves the schedule of the plan off.\<close>

theorem plan_update_identity:
  assumes "plans_wf db" "UpdateProtectionPlan newID now db plid input = (db', Inr plan)" "plid \<noteq> ''''"
  shows "(\<exists>old \<in> set (db_plans db). pl_ID old = plid \<and> pl_TenantID plan = pl_TenantID old \<and>
      pl_SourceClusterID plan = pl_SourceClusterID old \<and> set (pl_AppIDs plan) = set (pl_AppIDs old)) \<and>
    (\<forall>t \<in> set (db_tasks db). t_ProtectionPlanID t = plid \<longrightarrow> t_Status t \<notin> set busy_statuses) \<and>
    plan_references_valid db plan \<and>
    (\<forall>s \<in> set (db_schedules db'). ps_ProtectionPlanID s = plid \<longrightarrow> \<not> ps_Enabled s)"
  using assms(2) unfolding UpdateProtectionPlan_def
proof (cases rule: save_cases)
  case (updated p cr)
  let ?n = "new_plan newID now input"
  from updated(3) obtain old where old: "find_row pl_ID plid (db_plans db) = Some old"
    and chk: "pl_TenantID old = pl_TenantID ?n" "pl_SourceClusterID old = pl_SourceClusterID ?n"
      "length (pl_AppIDs old) = length (planIDsSlice (pl_AppIDs ?n))" "set (pl_AppIDs old) \<subseteq> set (planIDsSlice (pl_AppIDs ?n))"
      "\<not> (\<exists>t \<in> set (db_tasks db). sql_eq (t_ProtectionPlanID t) plid \<and> t_Status t \<in> set busy_statuses)"
    unfolding check_update_def query_row_def by (auto simp: res_bind_Inr_iff split: option.splits if_splits)
  from find_row_SomeD [OF old] have m: "old \<in> set (db_plans db)" "pl_ID old = plid" by auto
  have slice: "planIDsSlice (pl_AppIDs ?n) = pl_AppIDs ?n"
    unfolding planIDsSlice_def using plan_app_ids_nonempty(1) by (intro filter_True) (auto simp: new_plan_fields)
  have "distinct (pl_AppIDs ?n)" using plan_app_ids_nonempty(2) by (simp add: new_plan_fields)
  moreover have "distinct (pl_AppIDs old)" using assms(1) m(1) by (simp add: plans_wf_def)
  ultimately have "card (set (pl_AppIDs old)) = card (set (pl_AppIDs ?n))"
    using chk(3) by (simp add: slice distinct_card)
  then have apps: "set (pl_AppIDs old) = set (pl_AppIDs ?n)" using chk(4) by (intro card_subset_eq) (simp_all add: slice)
  have "plan = p" using updated(2) by simp
  with updated(4) have pf: "pl_TenantID plan = pl_TenantID ?n" "pl_SourceClusterID plan = pl_SourceClusterID ?n" "pl_AppIDs plan = pl_AppIDs ?n"
    by simp_all
  show ?thesis
  proof (intro conjI)
    show "\<exists>old \<in> set (db_plans db). pl_ID old = plid \<and> pl_TenantID plan = pl_TenantID old \<and>
      pl_SourceClusterID plan = pl_SourceClusterID old \<and> set (pl_AppIDs plan) = set (pl_AppIDs old)"
      using m chk(1,2) apps pf by auto
    show "\<forall>t \<in> set (db_tasks db). t_ProtectionPlanID t = plid \<longrightarrow> t_Status t \<notin> set busy_statuses"
      using chk(5) assms(3) by (auto simp: sql_eq_def)
    show "plan_references_valid db plan" using updated(5) \<open>plan = p\<close> by simp
    show "\<forall>s \<in> set (db_schedules db'). ps_ProtectionPlanID s = plid \<longrightarrow> \<not> ps_Enabled s"
    proof -
      have "db_schedules db' = update_where (\<lambda>s. ps_ProtectionPlanID s = plid)
          (\<lambda>s. s\<lparr>ps_Enabled := False, ps_NextFireAt := 0, ps_UpdatedAt := now\<rparr>) (db_schedules db)" by (simp add: updated(8))
      then show ?thesis by (simp only: update_where_def set_map ball_simps) simp
    qed
  qed
qed (use assms(3) in auto)

theorem plan_update_identity_witness:
  "\<exists>plan. snd (UpdateProtectionPlan ''x'' 100 sample_db ''plan1'' second_plan) = Inr plan \<and> plan_references_valid sample_db plan \<and>
     set (pl_AppIDs plan) = {''a1''}"
proof -
  let ?r = "UpdateProtectionPlan ''x'' 100 sample_db ''plan1'' second_plan"
  have run: "?r = (fst ?r, Inr (projr (snd ?r)))" by (rule run_inr) code_simp
  have "plans_wf sample_db" by code_simp
  from plan_update_identity [OF this run] obtain old where old: "old \<in> set (db_plans sample_db)"
      "set (pl_AppIDs (projr (snd ?r))) = set (pl_AppIDs old)" and v: "plan_references_valid sample_db (projr (snd ?r))" by auto
  have "\<forall>p \<in> set (db_plans sample_db). set (pl_AppIDs p) = {''a1''}" by code_simp
  with old v have "plan_references_valid sample_db (projr (snd ?r)) \<and> set (pl_AppIDs (projr (snd ?r))) = {''a1''}" by auto
  moreover have "snd ?r = Inr (projr (snd ?r))" using run by (metis snd_conv)
  ultimately show ?thesis by blast
qed

text \<open>C22: Lowering a policy below what is stored is refused: when a plan of the policy holds more points and
  reservations than the new limit, the update returns the quota error and changes nothing.\<close>

theorem policy_limit_guard:
  assumes "ValidateRetentionRules LoadLocation (pi_RetentionRules input) (or_default (pi_RetentionTimezone input) ''UTC'') = Inr ()"
    and "plan \<in> set (db_plans db)" "pl_PolicyID plan = pid" "pid \<noteq> ''''"
    and "pi_Composition input \<in> {''combined'', ''retention''}" "0 < pi_RetentionCount input"
    and "pi_RetentionCount input < int (occupied_slots db (pl_ID plan))"
  shows "\<exists>msg. UpdatePolicy LoadLocation now db pid input = (db, Inl (ErrRestorePointQuota msg))"
proof -
  have bad: "check_quota db input planID = Inr () \<or> check_quota db input planID =
      Inl (ErrRestorePointQuota ''restore point quota exhausted: no unprotected point can be replaced'')" for planID
    by (simp add: check_quota_def res_guard_def)
  have "pl_ID plan \<in> set (plans_of_policy db pid)" using assms(2-4) by (auto simp: plans_of_policy_def sql_eq_def)
  moreover have "check_quota db input (pl_ID plan) \<noteq> Inr ()" using assms(5-7) by (auto simp: check_quota_def)
  ultimately have "res_fold (\<lambda>_. check_quota db input) () xs = Inl (ErrRestorePointQuota
      ''restore point quota exhausted: no unprotected point can be replaced'') \<or> pl_ID plan \<notin> set xs" for xs
  proof (induction xs)
    case (Cons x xs)
    then show ?case using bad [of x] by (auto split: sum.splits)
  qed simp
  then have "res_fold (\<lambda>_. check_quota db input) () (plans_of_policy db pid) = Inl (ErrRestorePointQuota
      ''restore point quota exhausted: no unprotected point can be replaced'')"
    using \<open>pl_ID plan \<in> set (plans_of_policy db pid)\<close> by blast
  then show ?thesis by (simp add: UpdatePolicy_def assms(1))
qed

definition lower_limit :: "int \<Rightarrow> PolicyInput" where
  "lower_limit n = \<lparr>pi_RetentionRules = [], pi_RetentionTimezone = '''', pi_TenantID = ''t1'', pi_Name = ''daily'',
     pi_Composition = ''combined'', pi_ScheduleType = ''daily'', pi_IntervalValue = 0, pi_IntervalUnit = '''', pi_Hour = 3,
     pi_Minute = 0, pi_WeekDay = 0, pi_MonthDay = 0, pi_RetentionCount = n, pi_RetentionDays = 0, pi_Status = ''active''\<rparr>"

definition two_points :: store_db where
  "two_points = sample_db\<lparr>db_points := map (\<lambda>i. (sample_point i 1 6 ''available'')\<lparr>rp_TenantID := ''t1'', rp_ProtectionPlanID := ''plan1''\<rparr>)
     [''p1'', ''p2'']\<rparr>"

theorem policy_limit_guard_witness:
  "\<exists>msg. UpdatePolicy utc_only 100 two_points ''pol1'' (lower_limit 1) = (two_points, Inl (ErrRestorePointQuota msg))"
proof (rule policy_limit_guard [of _ _ sample_plan])
  show "ValidateRetentionRules utc_only (pi_RetentionRules (lower_limit 1)) (or_default (pi_RetentionTimezone (lower_limit 1)) ''UTC'') = Inr ()"
    by code_simp
  show "sample_plan \<in> set (db_plans two_points)" by (simp add: two_points_def sample_db_def)
qed code_simp+






text \<open>Reading a plan by its identifier repeats its primary application: the list of applications starts
  with the primary one, which is then listed again, so a plan of one application reports two; the
  listing of plans reports it once.\<close>

theorem get_plan_repeats_app:
  "map_option pl_AppIDs (GetProtectionPlan sample_db ''plan1'') = Some [''a1'', ''a1''] \<and>
   map pl_AppIDs (ListProtectionPlans sample_db '''') = [[''a1'']]"
  by (intro conjI) code_simp+

text \<open>Due schedules: the scheduler is given exactly the enabled schedules of plans of active tenants
  whose next fire time has come, earliest first; a schedule that is marked as fired with a later fire
  time, switched off, paused by an update of its plan or belonging to a plan whose cleanup began is not
  among them.\<close>

lemma not_due:
  "(\<And>s. s \<in> set (db_schedules d) \<Longrightarrow> ps_ProtectionPlanID s = plid \<Longrightarrow> \<not> schedule_due d now s) \<Longrightarrow>
     plid \<notin> ps_ProtectionPlanID ` set (ListDueProtectionPlanSchedules d now)"
  by (auto simp: ListDueProtectionPlanSchedules_def)

theorem due_schedules:
  "set (ListDueProtectionPlanSchedules db now) = {s \<in> set (db_schedules db). schedule_due db now s} \<and>
   sorted (map ps_NextFireAt (ListDueProtectionPlanSchedules db now)) \<and>
   (now < psf_NextFireAt fi \<longrightarrow> psf_ProtectionPlanID fi \<notin>
      ps_ProtectionPlanID ` set (ListDueProtectionPlanSchedules (fst (MarkProtectionPlanScheduleFired db t fi)) now)) \<and>
   plid \<notin> ps_ProtectionPlanID ` set (ListDueProtectionPlanSchedules (DisableProtectionPlanSchedule db t plid) now) \<and>
   (snd (BeginProtectionPlanCleanup db t plid) = Inr () \<longrightarrow>
      plid \<notin> ps_ProtectionPlanID ` set (ListDueProtectionPlanSchedules (fst (BeginProtectionPlanCleanup db t plid)) now))"
proof (intro conjI impI)
  show "set (ListDueProtectionPlanSchedules db now) = {s \<in> set (db_schedules db). schedule_due db now s}"
    by (auto simp: ListDueProtectionPlanSchedules_def)
  show "sorted (map ps_NextFireAt (ListDueProtectionPlanSchedules db now))"
    by (simp add: ListDueProtectionPlanSchedules_def)
  show "psf_ProtectionPlanID fi \<notin> ps_ProtectionPlanID ` set (ListDueProtectionPlanSchedules (fst (MarkProtectionPlanScheduleFired db t fi)) now)"
    if "now < psf_NextFireAt fi"
  proof (rule not_due)
    fix s assume s: "s \<in> set (db_schedules (fst (MarkProtectionPlanScheduleFired db t fi)))" "ps_ProtectionPlanID s = psf_ProtectionPlanID fi"
    have "\<forall>s \<in> set (db_schedules (fst (MarkProtectionPlanScheduleFired db t fi))). ps_ProtectionPlanID s = psf_ProtectionPlanID fi \<longrightarrow>
        ps_NextFireAt s = psf_NextFireAt fi"
      by (simp add: MarkProtectionPlanScheduleFired_def Let_def ball_update_where)
    with s that show "\<not> schedule_due (fst (MarkProtectionPlanScheduleFired db t fi)) now s" by (simp add: schedule_due_def)
  qed
  have off: "plid \<notin> ps_ProtectionPlanID ` set (ListDueProtectionPlanSchedules d now)"
    if "db_schedules d = update_where (\<lambda>s. ps_ProtectionPlanID s = plid) (\<lambda>s. s\<lparr>ps_Enabled := False, ps_UpdatedAt := t\<rparr>) (db_schedules db)" for d
  proof (rule not_due)
    fix s assume s: "s \<in> set (db_schedules d)" "ps_ProtectionPlanID s = plid"
    have "\<forall>s \<in> set (db_schedules d). ps_ProtectionPlanID s = plid \<longrightarrow> \<not> ps_Enabled s" unfolding that ball_update_where by simp
    with s show "\<not> schedule_due d now s" by (simp add: schedule_due_def)
  qed
  show "plid \<notin> ps_ProtectionPlanID ` set (ListDueProtectionPlanSchedules (DisableProtectionPlanSchedule db t plid) now)"
    by (rule off) (simp add: DisableProtectionPlanSchedule_def)
  assume ok: "snd (BeginProtectionPlanCleanup db t plid) = Inr ()"
  then show "plid \<notin> ps_ProtectionPlanID ` set (ListDueProtectionPlanSchedules (fst (BeginProtectionPlanCleanup db t plid)) now)"
    by (intro off) (auto simp: BeginProtectionPlanCleanup_def run_tx_def Let_def res_bind_def query_row_def split: sum.splits option.splits if_splits)
qed

theorem due_schedules_witness:
  "map ps_ProtectionPlanID (ListDueProtectionPlanSchedules sample_db 600) = [''plan1''] \<and>
   ''plan1'' \<notin> ps_ProtectionPlanID ` set (ListDueProtectionPlanSchedules
     (fst (MarkProtectionPlanScheduleFired sample_db 600 \<lparr>psf_ProtectionPlanID = ''plan1'', psf_LastFiredAt = 600, psf_NextFireAt = 900\<rparr>)) 600)"
proof
  show "map ps_ProtectionPlanID (ListDueProtectionPlanSchedules sample_db 600) = [''plan1'']" by code_simp
  show "''plan1'' \<notin> ps_ProtectionPlanID ` set (ListDueProtectionPlanSchedules
     (fst (MarkProtectionPlanScheduleFired sample_db 600 \<lparr>psf_ProtectionPlanID = ''plan1'', psf_LastFiredAt = 600, psf_NextFireAt = 900\<rparr>)) 600)"
    using due_schedules [of sample_db 600 "\<lparr>psf_ProtectionPlanID = ''plan1'', psf_LastFiredAt = 600, psf_NextFireAt = 900\<rparr>" 600]
    by simp
qed

text \<open>Cleaning up a plan is complete and touches no other plan: after a cleanup that reports the plan, no
  plan, schedule, task, restore point or reservation of it is left, and the tasks and points of every
  other plan are all still there, with their status.\<close>

theorem plan_cleanup_complete:
  assumes "CleanupProtectionPlanRecords db now plid = (db', Inr (Some item))" "plid \<noteq> ''''" "distinct (map t_ID (db_tasks db))"
  shows "plid \<notin> pl_ID ` set (db_plans db') \<and> plid \<notin> ps_ProtectionPlanID ` set (db_schedules db') \<and>
    plid \<notin> t_ProtectionPlanID ` set (db_tasks db') \<and> plid \<notin> rv_PlanID ` set (db_reservations db') \<and>
    (\<forall>t \<in> set (db_tasks db). t_ProtectionPlanID t \<noteq> plid \<longrightarrow>
       (\<exists>u \<in> set (db_tasks db'). t_ID u = t_ID t \<and> t_Status u = t_Status t \<and> t_ProtectionPlanID u = t_ProtectionPlanID t)) \<and>
    set (db_points db') = {p \<in> set (db_points db). rp_ProtectionPlanID p \<noteq> plid}"
  using assms(1)
proof (cases rule: cleanup_cases)
  case (2 pg tg)
  have keys: "t_ID (forget_point pg t) = t_ID t" "t_Status (forget_point pg t) = t_Status t"
      "t_ProtectionPlanID (forget_point pg t) = t_ProtectionPlanID t" for t by (simp_all add: forget_point_def)
  have gone: "tg (t_ID t) \<longleftrightarrow> t_ProtectionPlanID t = plid" if "t \<in> set (db_tasks db)" for t
  proof
    assume "tg (t_ID t)"
    then obtain u where u: "u \<in> set (db_tasks db)" "t_ProtectionPlanID u = plid" "t_ID u = t_ID t" by (auto simp: 2(2) sql_eq_def)
    with row_eq [OF assms(3) u(1) that] show "t_ProtectionPlanID t = plid" by simp
  qed (use that assms(2) in \<open>auto simp: 2(2) sql_eq_def\<close>)
  have tasks: "set (db_tasks db') = forget_point pg ` {t \<in> set (db_tasks db). t_ProtectionPlanID t \<noteq> plid}"
    using gone by (auto simp: 2(3) keys)
  have "map pl_ID (db_plans db') = map pl_ID (filter (\<lambda>p. pl_ID p \<noteq> plid) (db_plans db))"
    using 2(7) by (induction rule: list_all2_induct) (auto simp: same_plan_def)
  then have "set (map pl_ID (db_plans db')) = set (map pl_ID (filter (\<lambda>p. pl_ID p \<noteq> plid) (db_plans db)))" by (rule arg_cong)
  then have "plid \<notin> pl_ID ` set (db_plans db')" by auto
  moreover have "plid \<notin> ps_ProtectionPlanID ` set (db_schedules db')" by (auto simp: 2(8))
  moreover have "plid \<notin> t_ProtectionPlanID ` set (db_tasks db')" by (auto simp: tasks keys)
  moreover have "plid \<notin> rv_PlanID ` set (db_reservations db')" by (auto simp: 2(5))
  moreover have "\<exists>u \<in> set (db_tasks db'). t_ID u = t_ID t \<and> t_Status u = t_Status t \<and> t_ProtectionPlanID u = t_ProtectionPlanID t"
    if "t \<in> set (db_tasks db)" "t_ProtectionPlanID t \<noteq> plid" for t
    by (rule bexI [of _ "forget_point pg t"]) (use that in \<open>simp_all add: keys tasks\<close>)
  moreover have "set (db_points db') = {p \<in> set (db_points db). rp_ProtectionPlanID p \<noteq> plid}"
    using assms(2) by (auto simp: 2(4) sql_eq_def)
  ultimately show ?thesis by blast
qed simp

theorem plan_cleanup_complete_witness:
  "\<exists>item. snd (CleanupProtectionPlanRecords two_points 300 ''plan1'') = Inr (Some item) \<and> db_points two_points \<noteq> [] \<and>
     set (db_points (fst (CleanupProtectionPlanRecords two_points 300 ''plan1''))) = {p \<in> set (db_points two_points). rp_ProtectionPlanID p \<noteq> ''plan1''}"
proof -
  let ?r = "CleanupProtectionPlanRecords two_points 300 ''plan1''"
  have "\<not> isl (snd ?r)" "projr (snd ?r) \<noteq> None" by code_simp+
  then have run: "?r = (fst ?r, Inr (Some (the (projr (snd ?r)))))" by (cases ?r) (auto simp: sum.case_eq_if)
  have "distinct (map t_ID (db_tasks two_points))" "db_points two_points \<noteq> []" by code_simp+
  with plan_cleanup_complete [OF run] have "set (db_points (fst ?r)) = {p \<in> set (db_points two_points). rp_ProtectionPlanID p \<noteq> ''plan1''}"
    "db_points two_points \<noteq> []" by auto
  moreover have "snd ?r = Inr (Some (the (projr (snd ?r))))" using run by (metis snd_conv)
  ultimately show ?thesis by blast
qed

end
