(* ===== verification/Store_Steps.thy ===== *)
theory Store_Steps
  imports Store_Plan_Facts
begin

text \<open>
  The store as a transition system: one step is one call of an operation of the store. The theorems say what holds in every state that calls can reach: the tables stay
  well-formed, an application belongs to at most one plan of its cluster, and no plan ever holds more
  restore points and reservations than its policy allows.
\<close>

section \<open>Invariants of a transition system\<close>

locale guarded_system =
  fixes step :: "'s \<Rightarrow> 's \<Rightarrow> bool" and inv :: "'s \<Rightarrow> bool" and safe :: "'s \<Rightarrow> bool"
  assumes step_inv: "step s s' \<Longrightarrow> inv s \<Longrightarrow> inv s'"
    and step_safe: "step s s' \<Longrightarrow> inv s \<Longrightarrow> safe s \<Longrightarrow> safe s'"
begin

lemma reachable_inv: "step\<^sup>*\<^sup>* s s' \<Longrightarrow> inv s \<Longrightarrow> inv s'"
  by (induction rule: rtranclp_induct) (auto intro: step_inv)

lemma reachable_safe: "step\<^sup>*\<^sup>* s s' \<Longrightarrow> inv s \<Longrightarrow> safe s \<Longrightarrow> safe s'"
proof (induction rule: rtranclp_induct)
  case (step t u)
  then show ?case using step_safe reachable_inv by blast
qed simp

end

section \<open>The steps\<close>

text \<open>
  The calls the platform makes on tasks, restore points, policies and plans. The conditions of a step are facts about
  its caller that the store does not check: new identifiers are fresh, the clock is past the zero time,
  payloads written by callers do not use the key under which the store keeps an accepted result, a plan
  whose records are removed published only points of its own, and a plan is only given a policy whose limit
  its points and reservations are within. The last of these is what \<^verbatim>\<open>UpdatePolicy\<close> checks and
  \<^verbatim>\<open>UpdateProtectionPlan\<close> does not: without it the quota can be exceeded (\<open>plan_policy_switch_unchecked\<close>). Two calls are not
  steps: \<^verbatim>\<open>DeleteCluster\<close>, which removes the rows of a cluster with its plans, and \<^verbatim>\<open>CreateRestorePoint\<close>, through which
  only tests create points; the platform creates them with \<^verbatim>\<open>PublishBackupResult\<close>.
\<close>

inductive store_step :: "(string \<Rightarrow> location option) \<Rightarrow> store_db \<Rightarrow> store_db \<Rightarrow> bool"
  for LoadLocation :: "string \<Rightarrow> location option" where
  create_task: "mget (ti_Payload ti) ''backupResult'' = ANil \<Longrightarrow>
    store_step LoadLocation db (fst (CreateTask LoadLocation newID now db ti))"
| claim_task: "store_step LoadLocation db (fst (ClaimQueuedTask db now taskType executorID))"
| claim_task_by_id: "store_step LoadLocation db (fst (ClaimQueuedTaskByID db now taskID taskType executorID))"
| update_status: "plain_report (ts_Payload si) \<Longrightarrow> store_step LoadLocation db (fst (UpdateTaskStatus db now si))"
| add_event: "store_step LoadLocation db (fst (AddTaskEvent newID now db ei))"
| publish: "now \<noteq> 0 \<Longrightarrow> newID \<noteq> '''' \<Longrightarrow>
    store_step LoadLocation db (fst (PublishBackupResult LoadLocation newID eventID now db ri))"
| point_state: "store_step LoadLocation db (fst (UpdateRestorePointState db psi))"
| point_metrics: "store_step LoadLocation db (UpdateRestorePointSizeMetrics db pid metrics)"
| set_retention: "store_step LoadLocation db (fst (SetRestorePointRetention db pid tenantID retain))"
| claim_deletion: "store_step LoadLocation db (fst (ClaimRestorePointDeletion db ids))"
| begin_replacement: "store_step LoadLocation db (BeginRestorePointReplacement db now taskID cleanupID)"
| pending_replacements: "store_step LoadLocation db (fst (PendingRestorePointReplacements db now))"
| begin_cleanup: "store_step LoadLocation db (fst (BeginProtectionPlanCleanup db now plid))"
| create_policy: "\<forall>plan \<in> set (db_plans db). pl_PolicyID plan \<noteq> newID \<Longrightarrow>
    store_step LoadLocation db (fst (CreatePolicy LoadLocation newID now db poi))"
| update_policy: "store_step LoadLocation db (fst (UpdatePolicy LoadLocation now db pid poi))"
| delete_policy: "store_step LoadLocation db (fst (DeletePolicy db pid))"
| create_plan: "fresh_plan_id db newID \<Longrightarrow> store_step LoadLocation db (fst (CreateProtectionPlan newID now db pli))"
| update_plan: "plid \<noteq> '''' \<Longrightarrow> policy_admits db (pli_PolicyID pli) plid \<Longrightarrow>
    store_step LoadLocation db (fst (UpdateProtectionPlan newID now db plid pli))"
| plan_status: "store_step LoadLocation db (fst (UpdateProtectionPlanStatus db now plid status))"
| plan_size: "store_step LoadLocation db (fst (UpdateProtectionPlanStorageSize db now plid sz))"
| clear_target: "store_step LoadLocation db (fst (ClearProtectionPlanTargetCluster db now plid target))"
| upsert_schedule: "store_step LoadLocation db (fst (UpsertProtectionPlanSchedule db now sci))"
| schedule_fired: "store_step LoadLocation db (fst (MarkProtectionPlanScheduleFired db now fi))"
| disable_schedule: "store_step LoadLocation db (DisableProtectionPlanSchedule db now plid)"
| delete_plan: "store_step LoadLocation db (fst (DeleteProtectionPlan db now plid))"
| cleanup_plan: "publishes_own db plid \<Longrightarrow> store_step LoadLocation db (fst (CleanupProtectionPlanRecords db now plid))"

text \<open>Most steps are quiet; the others create a task, publish, change a point, a policy or a plan.\<close>

lemma store_step_cases:
  assumes "store_step L db db'"
  obtains (quiet) "quiet db db'"
  | (task) newID now ti r where "CreateTask L newID now db ti = (db', r)" "mget (ti_Payload ti) ''backupResult'' = ANil"
  | (published) newID eventID now ri r where "PublishBackupResult L newID eventID now db ri = (db', r)" "now \<noteq> 0" "newID \<noteq> ''''"
  | (state) psi r where "UpdateRestorePointState db psi = (db', r)"
  | (new_policy) newID now poi r where "CreatePolicy L newID now db poi = (db', r)" "\<forall>plan \<in> set (db_plans db). pl_PolicyID plan \<noteq> newID"
  | (policy) now pid poi r where "UpdatePolicy L now db pid poi = (db', r)"
  | (no_policy) pid r where "DeletePolicy db pid = (db', r)"
  | (new_plan) newID now pli r where "CreateProtectionPlan newID now db pli = (db', r)" "fresh_plan_id db newID"
  | (plan) newID now plid pli r where "UpdateProtectionPlan newID now db plid pli = (db', r)" "plid \<noteq> ''''"
      "policy_admits db (pli_PolicyID pli) plid"
  | (no_plan) now plid r where "DeleteProtectionPlan db now plid = (db', r)"
  | (no_records) now plid r where "CleanupProtectionPlanRecords db now plid = (db', r)" "publishes_own db plid"
  using assms
proof (cases rule: store_step.cases)
  case (create_task ti newID now)
  then show ?thesis by (metis task prod.collapse)
next
  case (publish now newID eventID ri)
  then show ?thesis by (metis published prod.collapse)
next
  case (point_state psi)
  then show ?thesis by (metis state prod.collapse)
next
  case (create_policy newID now poi)
  then show ?thesis by (metis new_policy prod.collapse)
next
  case (update_policy now pid poi)
  then show ?thesis by (metis policy prod.collapse)
next
  case (delete_policy pid)
  then show ?thesis by (metis no_policy prod.collapse)
next
  case (create_plan newID now pli)
  then show ?thesis by (metis new_plan prod.collapse)
next
  case (update_plan plid pli newID now)
  then show ?thesis by (metis plan prod.collapse)
next
  case (delete_plan now plid)
  then show ?thesis by (metis no_plan prod.collapse)
next
  case (cleanup_plan plid now)
  then show ?thesis by (metis no_records prod.collapse)
qed (auto intro!: quiet simp: quiet_claims quiet_update_status quiet_add_event quiet_size_metrics quiet_set_retention
    quiet_claim_deletions quiet_begin_replacement quiet_pending quiet_begin_cleanup quiet_plan_updates)

lemma create_task_keeps:
  assumes wf: "store_wf db" and step: "CreateTask L newID now db ti = (db', r)" and pay: "mget (ti_Payload ti) ''backupResult'' = ANil"
  shows "store_wf db' \<and> bounded db db'"
proof (cases r)
  case (Inl e)
  with step have "db' = db" by (auto simp: CreateTask_def run_tx_def split: sum.splits prod.splits)
  with wf show ?thesis by simp
next
  case (Inr task)
  with step have tx: "create_task_tx L newID now db (task_defaults ti) = Inr (db', task)" by (simp add: CreateTask_Inr)
  note c = create_task_wf [OF wf tx]
  have "store_wf db'" by (rule c(1)) (simp add: pay)
  moreover have "bounded db db'" by (rule slots_bounded) (use c(2,3) pay in auto)
  ultimately show ?thesis ..
qed

lemma bounded_quota: "bounded db db' \<Longrightarrow> within_quota db planID \<Longrightarrow> within_quota db' planID"
  by (rule bounded_within)

lemma step_wf_quota:
  assumes step: "store_step L db db'" and wf: "store_wf db"
  shows "store_wf db'" and "within_quota db planID \<Longrightarrow> within_quota db' planID"
proof -
  have "store_wf db' \<and> (within_quota db planID \<longrightarrow> within_quota db' planID)"
    using step
  proof (cases rule: store_step_cases)
    case quiet
    then show ?thesis using quiet_wf [OF quiet wf] bounded_within [OF quiet_bounded [OF quiet]] by blast
  next
    case (task newID now ti r)
    then show ?thesis using create_task_keeps [OF wf task] bounded_within by blast
  next
    case (published newID eventID now ri r)
    then show ?thesis using publish_keeps [OF wf published] bounded_within by blast
  next
    case (state psi r)
    then show ?thesis using update_state_keeps [OF wf state] bounded_within by blast
  next
    case (new_policy newID now poi r)
    then show ?thesis using create_policy_keeps [OF wf new_policy] by blast
  next
    case (policy now pid poi r)
    then show ?thesis using update_policy_keeps [OF wf policy] by blast
  next
    case (no_policy pid r)
    then show ?thesis using delete_policy_keeps [OF wf no_policy] by blast
  next
    case (new_plan newID now pli r)
    then show ?thesis using create_plan_keeps [OF wf new_plan] by blast
  next
    case (plan newID now plid pli r)
    then show ?thesis using update_plan_keeps [OF wf plan] by blast
  next
    case (no_plan now plid r)
    then show ?thesis using delete_plan_keeps [OF wf no_plan] by blast
  next
    case (no_records now plid r)
    then show ?thesis using cleanup_keeps [OF wf no_records] by blast
  qed
  then show "store_wf db'" "within_quota db planID \<Longrightarrow> within_quota db' planID" by blast+
qed

section \<open>Plans\<close>

lemma quiet_same_plans: "quiet db db' \<Longrightarrow> list_all2 same_plan (db_plans db) (db_plans db')"
  by (simp add: quiet_def)

lemma reserve_same_plans:
  assumes "reserveBackupQuota L now db task = Inr db'"
  shows "list_all2 same_plan (db_plans db) (db_plans db')"
  using assms
proof (cases rule: reserve_cases)
  case unlimited
  then show ?thesis using quiet_same_plans [OF quiet_release] by simp
next
  case (taken d sel used limit replacement d')
  have "db_plans db' = db_plans d" using taken(9,10) by (simp add: insert_reservation_Inr claim_replacement_def)
  then show ?thesis using quiet_same_plans [OF quiet_release] taken(3) by simp
qed (simp add: list_all2_self)

lemma same_plans_trans:
  "list_all2 same_plan xs ys \<Longrightarrow> list_all2 same_plan ys zs \<Longrightarrow> list_all2 same_plan xs zs"
  by (erule (1) list_all2_trans_same) (erule (1) same_trans(4))

lemma take_slot_Fill_db:
  "take_slot L now db i = Inr (Fill d) \<Longrightarrow> d = db \<or> reserved_or_reserve L now db i = Inr d"
  by (auto simp: take_slot_def res_bind_Inr_iff split: if_splits option.splits)

lemma lock_plans: "lock_target now task db pid m f = Inr d \<Longrightarrow> db_plans d = db_plans db"
  unfolding lock_target_def Let_def by (auto simp: res_bind_Inr_iff split: if_splits)

lemma prepare_plans:
  assumes "prepareRestorePointDeletion L now db task = Inr db'"
  shows "db_plans db' = db_plans db"
proof -
  have "db_plans d' = db_plans d" if "prepare_target L now task d pid = Inr d'" for d d' pid
  proof -
    have "d' = d \<or> (\<exists>m f e. lock_target now task d pid m f = Inr e \<and> d' = mark_deleting task e pid)"
      using that unfolding prepare_target_def Let_def res_bind_Inr_iff by (auto simp: res_bind_Inr_iff split: if_splits)
    then show ?thesis using lock_plans by (auto simp: mark_deleting_def)
  qed
  then have "db_plans d' = db_plans d" if "res_fold (prepare_target L now task) d ids = Inr d'" for d d' ids
    using res_fold_invariant [OF that, where I = "\<lambda>e. db_plans e = db_plans d"] by simp
  with assms show ?thesis
    unfolding prepareRestorePointDeletion_def by (auto simp: res_bind_Inr_iff split: if_splits)
qed

lemma create_task_plans:
  assumes "CreateTask L newID now db ti = (db', r)"
  shows "list_all2 same_plan (db_plans db) (db_plans db')"
proof (cases r)
  case (Inl e)
  with assms have "db' = db" by (auto simp: CreateTask_def run_tx_def split: sum.splits prod.splits)
  then show ?thesis by (simp add: list_all2_self)
next
  case (Inr task)
  with assms have tx: "create_task_tx L newID now db (task_defaults ti) = Inr (db', task)" by (simp add: CreateTask_Inr)
  then obtain tenantID payload d1 d2 where
    ins: "insert_task db (new_task newID now tenantID (task_defaults ti) payload) = Inr d1"
    and res: "(if ti_ProtectionPlanID (task_defaults ti) \<noteq> '''' \<and> \<not> ti_SuppressLatestPointer (task_defaults ti)
      then reserve_for_task L now d1 (new_task newID now tenantID (task_defaults ti) payload)
      else Inr (d1, new_task newID now tenantID (task_defaults ti) payload)) = Inr (d2, task)"
    and prep: "prepareRestorePointDeletion L now d2 task = Inr db'" by (rule create_task_cases)
  have p1: "db_plans d1 = db_plans db" using ins by (auto simp: insert_task_Inr)
  have done0: "\<forall>t \<in> set (db_tasks d1). t_ID t = newID \<longrightarrow> t_CompletedAt t = 0"
    using ins by (auto simp: insert_task_Inr find_row_None new_task_def)
  have "list_all2 same_plan (db_plans d1) (db_plans d2)"
  proof (cases "ti_ProtectionPlanID (task_defaults ti) \<noteq> '''' \<and> \<not> ti_SuppressLatestPointer (task_defaults ti)")
    case True
    with res have "reserve_for_task L now d1 (new_task newID now tenantID (task_defaults ti) payload) = Inr (d2, task)" by simp
    moreover have "\<forall>t \<in> set (db_tasks d1). t_ID t = t_ID (new_task newID now tenantID (task_defaults ti) payload) \<longrightarrow> t_CompletedAt t = 0"
      using done0 by simp
    ultimately show ?thesis
    proof (cases rule: reserve_for_task_cases)
      case (1 d)
      then show ?thesis using same_plans_trans [OF reserve_same_plans quiet_same_plans] by blast
    next
      case (2 msg)
      then show ?thesis using quiet_same_plans by blast
    qed
  qed (use res in \<open>auto simp: list_all2_self\<close>)
  then show ?thesis using p1 prepare_plans [OF prep] by simp
qed

lemma upsert_plans: "upsert_point db point = Inr d \<Longrightarrow> db_plans d = db_plans db"
  unfolding upsert_point_def Let_def by (auto simp: res_bind_Inr_iff split: option.splits)

lemma publish_plans:
  assumes "PublishBackupResult L newID eventID now db ri = (db', r)"
  shows "list_all2 same_plan (db_plans db) (db_plans db')"
proof -
  have acc: "db_plans db1 = db_plans db" if "accept_result db i tenantID = Inr (Proceed db1 j)" for db1 tenantID i j
    using that by (rule accept_result_Proceed) (auto simp: record_result_def)
  have res: "list_all2 same_plan (db_plans d) (db_plans d')" if "reserved_or_reserve L now d i = Inr d'" for d d' i
    using that reserve_same_plans by (auto simp: reserved_or_reserve_def list_all2_self split: if_splits)
  from assms show ?thesis
  proof (cases rule: publish_cases)
    case (parked db1 tenantID i j d)
    from parked(3) obtain d1 where d1: "reserved_or_reserve L now db1 j = Inr d1" "d = park_result d1 now j" by (rule take_slot_Wait)
    show ?thesis using res [OF d1(1)] acc [OF parked(1)] parked(4) d1(2) by (simp add: park_result_def)
  next
    case (filled db1 tenantID i j d p)
    have "list_all2 same_plan (db_plans db1) (db_plans d)"
      using take_slot_Fill_db [OF filled(3)] res [of db1 j d] by (auto simp: list_all2_self)
    moreover from filled(4) have "db_plans db' = db_plans d"
      unfolding fill_slot_Inr using upsert_plans by (auto simp: finalize_task_def publish_reservation_def Let_def)
    ultimately show ?thesis using acc [OF filled(1)] by simp
  qed (simp add: list_all2_self)
qed

lemma step_plans_wf:
  assumes step: "store_step L db db'" and wf: "plans_wf db"
  shows "plans_wf db'"
  using step
proof (cases rule: store_step_cases)
  case quiet
  then show ?thesis using plans_wf_same [OF wf] quiet_same_plans by blast
next
  case (task newID now ti r)
  then show ?thesis using plans_wf_same [OF wf] create_task_plans by blast
next
  case (published newID eventID now ri r)
  then show ?thesis using plans_wf_same [OF wf] publish_plans by blast
next
  case (state psi r)
  then have "db_plans db' = db_plans db" using update_state_cases by fastforce
  with wf show ?thesis by (simp add: plans_wf_def)
next
  case (new_policy newID now poi r)
  then have "db_plans db' = db_plans db"
    by (auto simp: CreatePolicy_def Let_def run_tx_def res_bind_Inr_iff split: sum.splits)
  with wf show ?thesis by (simp add: plans_wf_def)
next
  case (policy now pid poi r)
  then have "db_plans db' = db_plans db" using update_policy_cases [OF policy] by auto
  with wf show ?thesis by (simp add: plans_wf_def)
next
  case (no_policy pid r)
  then have "db_plans db' = db_plans db" by (auto simp: DeletePolicy_def split: option.splits if_splits)
  with wf show ?thesis by (simp add: plans_wf_def)
next
  case (new_plan newID now pli r)
  then show ?thesis using save_plans_wf [OF wf] by (auto simp: CreateProtectionPlan_def fresh_plan_id_def)
next
  case (plan newID now plid pli r)
  then show ?thesis using update_plan_wf [OF wf] by blast
next
  case (no_plan now plid r)
  then have "db_plans db' = db_plans db \<or> db_plans db' = filter (\<lambda>p. pl_ID p \<noteq> plid) (db_plans db)"
    using delete_plan_cases [OF no_plan] by auto
  then have "list_all2 same_plan (filter (\<lambda>_. True) (db_plans db)) (db_plans db') \<or>
      list_all2 same_plan (filter (\<lambda>p. pl_ID p \<noteq> plid) (db_plans db)) (db_plans db')"
    by (auto simp: list_all2_self)
  then show ?thesis using plans_wf_sub [OF wf] by blast
next
  case (no_records now plid r)
  from no_records(1) show ?thesis
  proof (cases rule: cleanup_cases)
    case 1
    with wf show ?thesis by simp
  next
    case (2 pg tg)
    then show ?thesis using plans_wf_sub [OF wf] by blast
  qed
qed

section \<open>Every reachable state\<close>

definition store_inv :: "store_db \<Rightarrow> bool" where
  "store_inv db \<longleftrightarrow> store_wf db \<and> plans_wf db"

definition quota_respected :: "store_db \<Rightarrow> bool" where
  "quota_respected db \<longleftrightarrow> (\<forall>planID. within_quota db planID)"

interpretation calls: guarded_system "store_step L" store_inv quota_respected for L
proof
  fix s s' assume step: "store_step L s s'" and inv: "store_inv s"
  from step_wf_quota [OF step] step_plans_wf [OF step] inv show "store_inv s'" by (simp add: store_inv_def)
  assume "quota_respected s"
  with step_wf_quota [OF step] inv show "quota_respected s'" by (simp add: store_inv_def quota_respected_def)
qed

text \<open>C1: The quota is never exceeded: starting from well-formed tables in which every plan is within its
  limit, no sequence of the steps above leads to a state in which the points of a plan and the reservations
  that will become points are more than the policy of the plan allows, in the count that the code itself
  makes; and the tables are well-formed in every such state. Policies may change and plans may change
  policies on the way, the latter only to policies they are within.\<close>

theorem quota_never_exceeded:
  assumes "(store_step L)\<^sup>*\<^sup>* db db'" and "store_wf db" "plans_wf db"
    and "\<forall>planID. p_RetentionCount (quotaPolicy db planID) \<le> 0 \<or>
      int (occupied_slots db planID) \<le> p_RetentionCount (quotaPolicy db planID)"
  shows "store_wf db' \<and> plans_wf db' \<and>
    (\<forall>planID. p_RetentionCount (quotaPolicy db' planID) \<le> 0 \<or>
      int (occupied_slots db' planID) \<le> p_RetentionCount (quotaPolicy db' planID))"
proof -
  have "store_inv db" "quota_respected db"
    using assms(2-4) by (simp_all add: store_inv_def quota_respected_def within_quota_def occupied_slots_slots)
  with calls.reachable_inv [OF assms(1)] calls.reachable_safe [OF assms(1)] show ?thesis
    by (simp add: store_inv_def quota_respected_def within_quota_def occupied_slots_slots)
qed

text \<open>
  The sample plan, which may keep one point and has it: the next backup will replace that point.
\<close>

definition db_b1 :: store_db where
  "db_b1 = sample_db\<lparr>db_points := [(sample_point ''p1'' 1 6 ''available'')\<lparr>rp_TenantID := ''t1'', rp_ProtectionPlanID := ''plan1''\<rparr>]\<rparr>"

definition db_b2 :: store_db where
  "db_b2 = fst (CreateTask utc_only ''bt2'' 3000 db_b1 backup_request)"

lemma sample_reach: "(store_step utc_only)\<^sup>*\<^sup>* db_b1 db_b2"
proof -
  have "mget (ti_Payload backup_request) ''backupResult'' = ANil" by code_simp
  then show ?thesis unfolding db_b2_def by (intro r_into_rtranclp create_task)
qed

lemma sample_quota: "p_RetentionCount (quotaPolicy db_b1 planID) \<le> 0 \<or>
    int (occupied_slots db_b1 planID) \<le> p_RetentionCount (quotaPolicy db_b1 planID)"
proof (cases "planID = ''plan1''")
  case True
  have "int (occupied_slots db_b1 ''plan1'') \<le> p_RetentionCount (quotaPolicy db_b1 ''plan1'')" by code_simp
  with True show ?thesis by simp
next
  case False
  then have "occupied_slots db_b1 planID = 0"
    by (auto simp: occupied_slots_def db_b1_def sample_db_def sql_eq_def)
  then show ?thesis by (simp add: linear)
qed

lemma sample_wf: "store_wf db_b1" "plans_wf db_b1"
  by code_simp+

lemma sample_b2:
  "(p_RetentionCount (quotaPolicy db_b2 ''plan1''), occupied_slots db_b2 ''plan1'', map rv_ReplacementPointID (db_reservations db_b2)) =
     (1, 1, [''p1''])"
proof -
  have "(let db = db_b2 in (p_RetentionCount (quotaPolicy db ''plan1''), occupied_slots db ''plan1'',
      map rv_ReplacementPointID (db_reservations db))) = (1, 1, [''p1''])" by code_simp
  then show ?thesis by (simp only: Let_def)
qed

theorem quota_never_exceeded_witness:
  "store_wf db_b2 \<and> plans_wf db_b2 \<and>
   int (occupied_slots db_b2 ''plan1'') \<le> p_RetentionCount (quotaPolicy db_b2 ''plan1'') \<and>
   occupied_slots db_b2 ''plan1'' = 1 \<and> map rv_ReplacementPointID (db_reservations db_b2) = [''p1'']"
proof -
  note q = quota_never_exceeded [OF sample_reach sample_wf allI [OF sample_quota]]
  have "p_RetentionCount (quotaPolicy db_b2 ''plan1'') \<le> 0 \<or>
      int (occupied_slots db_b2 ''plan1'') \<le> p_RetentionCount (quotaPolicy db_b2 ''plan1'')"
    by (rule spec [OF conjunct2 [OF conjunct2 [OF q]]])
  then show ?thesis using sample_b2 conjunct1 [OF q] conjunct1 [OF conjunct2 [OF q]] by simp
qed

end
