(* ===== verification/Go_Struct.thy ===== *)
theory Go_Struct
  imports Go_RFC3339
begin

text \<open>
  Go structs on the wire: the part of \<^verbatim>\<open>encoding/json\<close> that the agent protocol uses. A type is described
  by the tags of its fields, a value is marshalled by its tags and unmarshalled by its type. JSON
  texts are the values they denote, the order of members apart: white space, escapes and the replacement of
  invalid UTF-8 are not modelled. A number is a decimal, its digits and how many of them follow the
  point; a \<^verbatim>\<open>float64\<close> is the decimal that is printed for it. Where an object repeats a member, the last
  one counts.
\<close>

section \<open>Types and values\<close>

datatype json =
    JNull
  | JBool bool
  | JNum int nat
  | JStr string
  | JArr "json list"
  | JObj "(string \<times> json) list"

text \<open>A field of a struct has its JSON name, whether its tag says \<^verbatim>\<open>omitempty\<close>, and its type.\<close>

datatype gotype =
    TString
  | TBool
  | TInt nat
  | TFloat
  | TTime
  | TAny
  | TSlice gotype
  | TMap gotype
  | TPtr gotype
  | TStruct "(string \<times> bool \<times> gotype) list"

abbreviation req :: "string \<Rightarrow> 't \<Rightarrow> string \<times> bool \<times> 't" where
  "req n t \<equiv> (n, False, t)"

abbreviation opt :: "string \<Rightarrow> 't \<Rightarrow> string \<times> bool \<times> 't" where
  "opt n t \<equiv> (n, True, t)"

text \<open>\<open>GNil\<close> is the nil slice, map, pointer and interface value.\<close>

datatype gval =
    GNil
  | GStr string
  | GBool bool
  | GInt int
  | GFloat int nat
  | GTime gtime
  | GAny json
  | GSlice "gval list"
  | GMap "(string \<times> gval) list"
  | GPtr gval
  | GStruct "(string \<times> bool \<times> gval) list"

definition int_range :: "nat \<Rightarrow> int \<Rightarrow> bool" where
  "int_range w n \<longleftrightarrow> - (2 ^ (w - 1)) \<le> n \<and> n < 2 ^ (w - 1)"

text \<open>The decimals that \<^verbatim>\<open>strconv.ParseFloat\<close> does not refuse as out of range.\<close>

definition float_range :: "int \<Rightarrow> nat \<Rightarrow> bool" where
  "float_range m e \<longleftrightarrow> \<bar>m\<bar> < (2 ^ 1024 - 2 ^ 970) * 10 ^ e"

fun zero_val :: "gotype \<Rightarrow> gval" where
  "zero_val TString = GStr ''''"
| "zero_val TBool = GBool False"
| "zero_val (TInt w) = GInt 0"
| "zero_val TFloat = GFloat 0 0"
| "zero_val TTime = GTime 0"
| "zero_val (TStruct fs) = GStruct (map (\<lambda>(n, om, t). (n, om, zero_val t)) fs)"
| "zero_val t = GNil"

fun has_type :: "gotype \<Rightarrow> gval \<Rightarrow> bool"
  and has_fields :: "(string \<times> bool \<times> gotype) list \<Rightarrow> (string \<times> bool \<times> gval) list \<Rightarrow> bool" where
  "has_type TString v = (case v of GStr s \<Rightarrow> True | _ \<Rightarrow> False)"
| "has_type TBool v = (case v of GBool b \<Rightarrow> True | _ \<Rightarrow> False)"
| "has_type (TInt w) v = (case v of GInt n \<Rightarrow> int_range w n | _ \<Rightarrow> False)"
| "has_type TFloat v = (case v of GFloat m e \<Rightarrow> float_range m e | _ \<Rightarrow> False)"
| "has_type TTime v = (case v of GTime t \<Rightarrow> True | _ \<Rightarrow> False)"
| "has_type TAny v = (case v of GNil \<Rightarrow> True | GAny j \<Rightarrow> j \<noteq> JNull | _ \<Rightarrow> False)"
| "has_type (TSlice t) v = (case v of GNil \<Rightarrow> True | GSlice vs \<Rightarrow> list_all (has_type t) vs | _ \<Rightarrow> False)"
| "has_type (TMap t) v = (case v of GNil \<Rightarrow> True
     | GMap m \<Rightarrow> list_all (\<lambda>(k, x). has_type t x) m | _ \<Rightarrow> False)"
| "has_type (TPtr t) v = (case v of GNil \<Rightarrow> True | GPtr x \<Rightarrow> has_type t x | _ \<Rightarrow> False)"
| "has_type (TStruct ts) v = (case v of GStruct fs \<Rightarrow> has_fields ts fs | _ \<Rightarrow> False)"
| "has_fields [] fs \<longleftrightarrow> fs = []"
| "has_fields ((n, om, t) # ts) fs = (case fs of [] \<Rightarrow> False
     | (n', om', v) # fs' \<Rightarrow> n' = n \<and> om' = om \<and> has_type t v \<and> has_fields ts fs')"

section \<open>Marshalling\<close>

text \<open>The values \<^verbatim>\<open>omitempty\<close> leaves out. A struct and a \<^verbatim>\<open>time.Time\<close> are never empty.\<close>

fun is_empty :: "gval \<Rightarrow> bool" where
  "is_empty GNil \<longleftrightarrow> True"
| "is_empty (GStr s) \<longleftrightarrow> s = ''''"
| "is_empty (GBool b) \<longleftrightarrow> \<not> b"
| "is_empty (GInt n) \<longleftrightarrow> n = 0"
| "is_empty (GFloat m e) \<longleftrightarrow> m = 0"
| "is_empty (GSlice vs) \<longleftrightarrow> vs = []"
| "is_empty (GMap m) \<longleftrightarrow> m = []"
| "is_empty v \<longleftrightarrow> False"

fun encode :: "gval \<Rightarrow> json" where
  "encode GNil = JNull"
| "encode (GStr s) = JStr s"
| "encode (GBool b) = JBool b"
| "encode (GInt n) = JNum n 0"
| "encode (GFloat m e) = JNum m e"
| "encode (GTime t) = JStr (format_rfc3339nano t)"
| "encode (GAny j) = j"
| "encode (GSlice vs) = JArr (map encode vs)"
| "encode (GMap m) = JObj (map (\<lambda>(k, v). (k, encode v)) m)"
| "encode (GPtr v) = encode v"
| "encode (GStruct fs) =
     JObj (map (\<lambda>(n, om, v). (n, encode v)) (filter (\<lambda>(n, om, v). \<not> (om \<and> is_empty v)) fs))"

text \<open>\<^verbatim>\<open>json.Marshal\<close> refuses a time whose year does not have four digits.\<close>

fun marshals :: "gval \<Rightarrow> bool" where
  "marshals (GTime t) \<longleftrightarrow> storable_time t"
| "marshals (GSlice vs) \<longleftrightarrow> list_all marshals vs"
| "marshals (GMap m) \<longleftrightarrow> list_all (\<lambda>(k, v). marshals v) m"
| "marshals (GPtr v) \<longleftrightarrow> marshals v"
| "marshals (GStruct fs) \<longleftrightarrow> list_all (\<lambda>(n, om, v). marshals v) fs"
| "marshals v \<longleftrightarrow> True"

definition json_Marshal :: "gval \<Rightarrow> unit + json" where
  "json_Marshal v = (if marshals v then Inr (encode v) else Inl ())"

section \<open>Unmarshalling\<close>

text \<open>The member that is assigned to a field: its key equals the field's name up to case.\<close>

definition json_member :: "string \<Rightarrow> (string \<times> json) list \<Rightarrow> json option" where
  "json_member n ms = map_option snd (List.find (\<lambda>(k, j). equal_fold k n) (rev ms))"

text \<open>A missing or null member leaves the zero value; a member of the wrong type is an error.\<close>

fun decode :: "gotype \<Rightarrow> json \<Rightarrow> unit + gval"
  and decode_fields :: "(string \<times> bool \<times> gotype) list \<Rightarrow> (string \<times> json) list \<Rightarrow>
     unit + (string \<times> bool \<times> gval) list" where
  "decode TString j = (case j of JStr s \<Rightarrow> Inr (GStr s) | JNull \<Rightarrow> Inr (GStr '''') | _ \<Rightarrow> Inl ())"
| "decode TBool j = (case j of JBool b \<Rightarrow> Inr (GBool b) | JNull \<Rightarrow> Inr (GBool False) | _ \<Rightarrow> Inl ())"
| "decode (TInt w) j = (case j of JNum m e \<Rightarrow> if e = 0 \<and> int_range w m then Inr (GInt m) else Inl ()
     | JNull \<Rightarrow> Inr (GInt 0) | _ \<Rightarrow> Inl ())"
| "decode TFloat j = (case j of JNum m e \<Rightarrow> if float_range m e then Inr (GFloat m e) else Inl ()
     | JNull \<Rightarrow> Inr (GFloat 0 0) | _ \<Rightarrow> Inl ())"
| "decode TTime j = (case j of JStr s \<Rightarrow> (case parse_rfc3339nano s of Some t \<Rightarrow> Inr (GTime t) | None \<Rightarrow> Inl ())
     | JNull \<Rightarrow> Inr (GTime 0) | _ \<Rightarrow> Inl ())"
| "decode TAny j = (case j of JNull \<Rightarrow> Inr GNil | _ \<Rightarrow> Inr (GAny j))"
| "decode (TSlice t) j = (case j of JArr js \<Rightarrow> map_sum id GSlice (res_map (decode t) js)
     | JNull \<Rightarrow> Inr GNil | _ \<Rightarrow> Inl ())"
| "decode (TMap t) j = (case j of
       JObj ms \<Rightarrow> map_sum id GMap (res_map (\<lambda>(k, x). map_sum id (Pair k) (decode t x)) ms)
     | JNull \<Rightarrow> Inr GNil | _ \<Rightarrow> Inl ())"
| "decode (TPtr t) j = (if j = JNull then Inr GNil else map_sum id GPtr (decode t j))"
| "decode (TStruct ts) j = (case j of JObj ms \<Rightarrow> map_sum id GStruct (decode_fields ts ms)
     | JNull \<Rightarrow> Inr (zero_val (TStruct ts)) | _ \<Rightarrow> Inl ())"
| "decode_fields [] ms = Inr []"
| "decode_fields ((n, om, t) # ts) ms =
     res_bind (case json_member n ms of None \<Rightarrow> Inr (zero_val t) | Some j \<Rightarrow> decode t j) (\<lambda>v.
     map_sum id (Cons (n, om, v)) (decode_fields ts ms))"


section \<open>Every decoded value has the type it was decoded at\<close>

lemma zero_fields:
  "(\<And>n om t. (n, om, t) \<in> set ts \<Longrightarrow> has_type t (zero_val t)) \<Longrightarrow>
   has_fields ts (map (\<lambda>(n, om, t). (n, om, zero_val t)) ts)"
  by (induction ts) force+

lemma zero_typed: "has_type t (zero_val t)"
  by (induction t rule: zero_val.induct) (auto simp: int_range_def float_range_def intro: zero_fields)

lemma decode_has_type:
  "decode t j = Inr v \<Longrightarrow> has_type t v"
  "decode_fields ts ms = Inr fs \<Longrightarrow> has_fields ts fs"
proof (induction t j and ts ms arbitrary: v and fs rule: decode_decode_fields.induct)
  case (7 t j)
  show ?case
  proof (cases j)
    case (JArr js)
    then obtain vs where vs: "v = GSlice vs" "res_map (decode t) js = Inr vs"
      using 7(2) by (auto simp: map_sum_Inr_iff)
    have "list_all (has_type t) vs" by (rule res_map_all [OF vs(2)]) (use 7(1) JArr in blast)
    then show ?thesis using vs by simp
  qed (use 7 in auto)
next
  case (8 t j)
  show ?case
  proof (cases j)
    case (JObj ms)
    then obtain m where m: "v = GMap m" "res_map (\<lambda>(k, x). map_sum id (Pair k) (decode t x)) ms = Inr m"
      using 8(2) by (auto simp: map_sum_Inr_iff)
    have "list_all (\<lambda>(k, x). has_type t x) m"
      by (rule res_map_all [OF m(2)]) (use 8(1) JObj in \<open>auto simp: map_sum_Inr_iff\<close>)
    then show ?thesis using m by simp
  qed (use 8 in auto)
next
  case (10 ts j)
  then show ?case
    using zero_typed [of "TStruct ts"] by (cases j) (auto simp: map_sum_Inr_iff)
next
  case (12 n om t ts ms)
  then show ?case
    by (cases "json_member n ms") (auto simp: res_bind_Inr_iff map_sum_Inr_iff zero_typed)
qed (auto simp: map_sum_Inr_iff int_range_def float_range_def split: json.splits if_splits option.splits)

section \<open>Round trip\<close>

text \<open>
  What a value becomes on the wire: an empty field with \<^verbatim>\<open>omitempty\<close> comes back as the zero value of its
  type, which differs from it for an empty slice or map only. Everything else comes back as it was.
\<close>

definition blank :: "gval \<Rightarrow> gval" where
  "blank v = (case v of GSlice vs \<Rightarrow> GNil | GMap m \<Rightarrow> GNil | GFloat m e \<Rightarrow> GFloat 0 0 | _ \<Rightarrow> v)"

fun wire :: "gval \<Rightarrow> gval" where
  "wire (GSlice vs) = GSlice (map wire vs)"
| "wire (GMap m) = GMap (map (\<lambda>(k, v). (k, wire v)) m)"
| "wire (GPtr v) = GPtr (wire v)"
| "wire (GStruct fs) = GStruct (map (\<lambda>(n, om, v). (n, om, if om \<and> is_empty v then blank v else wire v)) fs)"
| "wire v = v"

text \<open>
  The types the round trip needs: the names of the fields of a struct differ by more than their case, and
  pointers lead to structs.
\<close>

fun wf_type :: "gotype \<Rightarrow> bool" where
  "wf_type (TStruct fs) \<longleftrightarrow> distinct (map (to_lower \<circ> fst) fs) \<and> list_all (\<lambda>(n, om, t). wf_type t) fs"
| "wf_type (TSlice t) \<longleftrightarrow> wf_type t"
| "wf_type (TMap t) \<longleftrightarrow> wf_type t"
| "wf_type (TPtr t) \<longleftrightarrow> (case t of TStruct fs \<Rightarrow> wf_type t | _ \<Rightarrow> False)"
| "wf_type t \<longleftrightarrow> True"

lemma blank_zero: "has_type t v \<Longrightarrow> is_empty v \<Longrightarrow> zero_val t = blank v"
  by (cases t; cases v) (auto simp: blank_def)

lemma json_member_simps [simp]:
  "json_member n [] = None"
  "json_member n (ms @ [(k, j)]) = (if equal_fold k n then Some j else json_member n ms)"
  by (simp_all add: json_member_def)

lemma json_member_None: "(\<And>k j. (k, j) \<in> set ms \<Longrightarrow> to_lower k \<noteq> to_lower n) \<Longrightarrow> json_member n ms = None"
  by (auto simp: json_member_def find_None_iff equal_fold_def)

lemma json_member_unique:
  "distinct (map (to_lower \<circ> fst) ms) \<Longrightarrow> (n, j) \<in> set ms \<Longrightarrow> json_member n ms = Some j"
proof (induction ms rule: rev_induct)
  case (snoc kj ms)
  then show ?case by (cases kj) (force simp: equal_fold_def)
qed simp

definition wire_members :: "(string \<times> bool \<times> gval) list \<Rightarrow> (string \<times> json) list" where
  "wire_members fs = map (\<lambda>(n, om, v). (n, encode v)) (filter (\<lambda>(n, om, v). \<not> (om \<and> is_empty v)) fs)"

lemma wire_members_keys: "map (to_lower \<circ> fst) (wire_members fs) =
  map (to_lower \<circ> fst) (filter (\<lambda>(n, om, v). \<not> (om \<and> is_empty v)) fs)"
  unfolding wire_members_def by (induction fs) auto

lemma wire_members_lookup:
  assumes d: "distinct (map (to_lower \<circ> fst) fs)" and f: "(n, om, v) \<in> set fs"
  shows "json_member n (wire_members fs) = (if om \<and> is_empty v then None else Some (encode v))"
proof (cases "om \<and> is_empty v")
  case True
  have "to_lower k \<noteq> to_lower n" if kj: "(k, j) \<in> set (wire_members fs)" for k j
  proof
    assume eq: "to_lower k = to_lower n"
    from kj obtain om' v' where o: "(k, om', v') \<in> set fs" "\<not> (om' \<and> is_empty v')"
      by (auto simp: wire_members_def)
    from inj_onD [OF distinct_map [THEN iffD1, OF d, THEN conjunct2], OF _ o(1) f] eq
    have "(k, om', v') = (n, om, v)" by simp
    with True o(2) show False by simp
  qed
  with True show ?thesis by (simp add: json_member_None)
next
  case False
  have "distinct (map (to_lower \<circ> fst) (wire_members fs))"
    unfolding wire_members_keys using d by (rule distinct_map_filter)
  moreover have "(n, encode v) \<in> set (wire_members fs)"
    using f False unfolding wire_members_def by force
  ultimately show ?thesis using False by (simp add: json_member_unique)
qed

lemma has_fields_names: "has_fields ts fs \<Longrightarrow> map (g \<circ> fst) fs = map (g \<circ> fst) ts"
proof (induction ts arbitrary: fs)
  case (Cons x ts)
  obtain n om t where x: "x = (n, om, t)" by (cases x)
  then obtain v fs' where "fs = (n, om, v) # fs'" "has_fields ts fs'"
    using Cons.prems by (auto split: list.splits)
  then show ?case using x Cons.IH by auto
qed simp

lemma encode_not_null: "has_type (TStruct ts) v \<Longrightarrow> encode v \<noteq> JNull"
  by (auto split: gval.splits)

lemma decode_encode_value:
  "has_type t v \<Longrightarrow> wf_type t \<Longrightarrow> marshals v \<Longrightarrow> decode t (encode v) = Inr (wire v)"
  "has_fields ts fs \<Longrightarrow> list_all (\<lambda>(n, om, t). wf_type t) ts \<Longrightarrow> list_all (\<lambda>(n, om, v). marshals v) fs \<Longrightarrow>
     (\<And>n om v. (n, om, v) \<in> set fs \<Longrightarrow>
        json_member n ms = (if om \<and> is_empty v then None else Some (encode v))) \<Longrightarrow>
     decode_fields ts ms = Inr (map (\<lambda>(n, om, v). (n, om, if om \<and> is_empty v then blank v else wire v)) fs)"
proof (induction t v and ts fs arbitrary: and ms rule: has_type_has_fields.induct)
  case (7 t v)
  show ?case
  proof (cases v)
    case (GSlice vs)
    have "res_map (decode t) (map encode vs) = Inr (map wire vs)"
      by (rule res_map_map) (use 7 GSlice in \<open>auto simp: list_all_iff\<close>)
    then show ?thesis using GSlice by simp
  qed (use 7 in auto)
next
  case (8 t v)
  show ?case
  proof (cases v)
    case (GMap m)
    have "res_map (\<lambda>(k, x). map_sum id (Pair k) (decode t x)) (map (\<lambda>(k, v). (k, encode v)) m) =
        Inr (map (\<lambda>(k, v). (k, wire v)) m)"
      by (rule res_map_map) (use 8 GMap in \<open>fastforce simp: list_all_iff\<close>)
    then show ?thesis using GMap by simp
  qed (use 8 in auto)
next
  case (9 t v)
  then show ?case using encode_not_null by (auto split: gval.splits gotype.splits)
next
  case (10 ts v)
  then obtain fs where fs: "v = GStruct fs" "has_fields ts fs" by (auto split: gval.splits)
  have d: "distinct (map (to_lower \<circ> fst) fs)"
    using 10(3) has_fields_names [OF fs(2), of to_lower] by simp
  have "decode_fields ts (wire_members fs) =
      Inr (map (\<lambda>(n, om, v). (n, om, if om \<and> is_empty v then blank v else wire v)) fs)"
    using 10(3,4) fs by (intro 10(1) [OF fs(1)] wire_members_lookup [OF d]) auto
  then show ?case using fs by (simp add: wire_members_def)
next
  case (12 n om t ts fs)
  then obtain v fs' where fs: "fs = (n, om, v) # fs'" "has_type t v" "has_fields ts fs'"
    by (auto split: list.splits)
  have m: "json_member n ms = (if om \<and> is_empty v then None else Some (encode v))"
    using 12(6) [of n om v] fs(1) by simp
  have "decode_fields ts ms = Inr (map (\<lambda>(n, om, v). (n, om, if om \<and> is_empty v then blank v else wire v)) fs')"
    using 12(4,5,6) fs by (intro 12(2) [OF fs(1)]) auto
  moreover have "decode t (encode v) = Inr (wire v)"
    using 12(4,5) fs by (intro 12(1) [OF fs(1)]) auto
  ultimately show ?case using m fs by (simp add: blank_zero)
qed (auto simp: storable_parse split: gval.splits json.splits)

end
