(* ===== verification/Protocol_Messages.thy ===== *)
theory Protocol_Messages
  imports Go_Struct
begin

text \<open>
  The messages between the agent and the platform (\<^verbatim>\<open>pkg/protocol/messages.go\<close>, of which the backend keeps
  an identical copy): the constants, and for every struct its type as \<^verbatim>\<open>encoding/json\<close> sees it, the name in the
  tag of each field, whether it has \<^verbatim>\<open>omitempty\<close> and its Go type. The field \<^verbatim>\<open>RequestMessageID\<close> of
  \<^verbatim>\<open>TaskDispatchPayload\<close> has the tag \<^verbatim>\<open>json:"-"\<close> and is not part of the message. \<^verbatim>\<open>int\<close> has 64 bits.
\<close>

section \<open>Constants\<close>

definition Version :: string where
  "Version = ''v1''"

definition MessageKindRequest :: string where
  "MessageKindRequest = ''request''"

definition MessageKindResponse :: string where
  "MessageKindResponse = ''response''"

definition MessageKindEvent :: string where
  "MessageKindEvent = ''event''"

definition MessageAgentRegister :: string where
  "MessageAgentRegister = ''agent.register''"

definition MessageAgentHeartbeat :: string where
  "MessageAgentHeartbeat = ''agent.heartbeat''"

definition MessageAgentInventoryReport :: string where
  "MessageAgentInventoryReport = ''agent.inventory.report''"

definition MessageAgentTaskAccepted :: string where
  "MessageAgentTaskAccepted = ''agent.task.accepted''"

definition MessageAgentTaskProgress :: string where
  "MessageAgentTaskProgress = ''agent.task.progress''"

definition MessageAgentTaskCompleted :: string where
  "MessageAgentTaskCompleted = ''agent.task.completed''"

definition MessageAgentTaskFailed :: string where
  "MessageAgentTaskFailed = ''agent.task.failed''"

definition MessageAgentVeleroEvent :: string where
  "MessageAgentVeleroEvent = ''agent.velero.event''"

definition MessageAgentLogReport :: string where
  "MessageAgentLogReport = ''agent.log.report''"

definition MessageAgentBackupContentReport :: string where
  "MessageAgentBackupContentReport = ''agent.backup-content.report''"

definition MessagePlatformRegisterAccepted :: string where
  "MessagePlatformRegisterAccepted = ''platform.register.accepted''"

definition MessagePlatformRegisterRejected :: string where
  "MessagePlatformRegisterRejected = ''platform.register.rejected''"

definition MessagePlatformTaskDispatch :: string where
  "MessagePlatformTaskDispatch = ''platform.task.dispatch''"

definition MessagePlatformTaskCancel :: string where
  "MessagePlatformTaskCancel = ''platform.task.cancel''"

definition MessagePlatformInventoryRequest :: string where
  "MessagePlatformInventoryRequest = ''platform.inventory.request''"

definition MessagePlatformLogRequest :: string where
  "MessagePlatformLogRequest = ''platform.log.request''"

definition MessagePlatformBackupContentRequest :: string where
  "MessagePlatformBackupContentRequest = ''platform.backup-content.request''"

definition MessagePlatformEventAck :: string where
  "MessagePlatformEventAck = ''platform.event.ack''"

definition MessagePlatformEventError :: string where
  "MessagePlatformEventError = ''platform.event.error''"

definition MessageAgentMessageError :: string where
  "MessageAgentMessageError = ''agent.message.error''"

lemmas message_constants =
  Version_def MessageKindRequest_def MessageKindResponse_def MessageKindEvent_def
  MessageAgentRegister_def MessageAgentHeartbeat_def MessageAgentInventoryReport_def
  MessageAgentTaskAccepted_def MessageAgentTaskProgress_def MessageAgentTaskCompleted_def
  MessageAgentTaskFailed_def MessageAgentVeleroEvent_def MessageAgentLogReport_def
  MessageAgentBackupContentReport_def MessagePlatformRegisterAccepted_def
  MessagePlatformRegisterRejected_def MessagePlatformTaskDispatch_def MessagePlatformTaskCancel_def
  MessagePlatformInventoryRequest_def MessagePlatformLogRequest_def
  MessagePlatformBackupContentRequest_def MessagePlatformEventAck_def MessagePlatformEventError_def
  MessageAgentMessageError_def

section \<open>Structs\<close>

definition Message_schema :: "gotype \<Rightarrow> gotype" where
  "Message_schema T = TStruct
    [req ''version'' TString, req ''messageId'' TString, opt ''messageKind'' TString, req ''type'' TString,
     opt ''tenantId'' TString, opt ''clusterId'' TString, opt ''agentId'' TString, req ''timestamp'' TTime,
     req ''payload'' T]"

definition ClusterSummary_schema :: gotype where
  "ClusterSummary_schema = TStruct
    [opt ''fingerprint'' TString, req ''name'' TString, opt ''controlPlaneIp'' TString,
     req ''kubeVersion'' TString, req ''nodeCount'' (TInt 64), req ''namespaceCount'' (TInt 64),
     opt ''clusterType'' TString, opt ''cloudProvider'' TString, opt ''cloudRegion'' TString,
     opt ''cloudClusterId'' TString]"

definition AgentSummary_schema :: gotype where
  "AgentSummary_schema = TStruct
    [opt ''capabilities'' (TSlice TString), req ''version'' TString, req ''namespace'' TString,
     req ''podName'' TString]"

definition VeleroSummary_schema :: gotype where
  "VeleroSummary_schema = TStruct
    [req ''installed'' TBool, opt ''version'' TString, req ''status'' TString]"

definition RegisterPayload_schema :: gotype where
  "RegisterPayload_schema = TStruct
    [opt ''requestId'' TString, opt ''installToken'' TString, opt ''agentCredential'' TString,
     req ''cluster'' ClusterSummary_schema, req ''agent'' AgentSummary_schema,
     req ''velero'' VeleroSummary_schema]"

definition CacheSettingsCommand_schema :: gotype where
  "CacheSettingsCommand_schema = TStruct
    [req ''namespace'' TString, req ''enabled'' TBool, req ''maxGiB'' (TInt 64), opt ''clean'' TBool]"

definition RegisterAcceptedPayload_schema :: gotype where
  "RegisterAcceptedPayload_schema = TStruct
    [opt ''cacheSettings'' (TPtr CacheSettingsCommand_schema), opt ''ackMessageId'' TString,
     opt ''ackType'' TString, opt ''requestId'' TString, req ''tenantId'' TString,
     req ''clusterId'' TString, req ''clusterName'' TString, req ''agentCredential'' TString,
     req ''heartbeatIntervalSeconds'' (TInt 64), opt ''inventoryResyncIntervalSeconds'' (TInt 64),
     opt ''inventoryChangeDebounceSeconds'' (TInt 64), opt ''inventoryMinPushIntervalSeconds'' (TInt 64),
     opt ''protocolVersion'' TString, opt ''features'' (TMap TBool)]"

definition RegisterRejectedPayload_schema :: gotype where
  "RegisterRejectedPayload_schema = TStruct
    [opt ''ackMessageId'' TString, opt ''ackType'' TString, opt ''requestId'' TString,
     req ''reason'' TString, req ''message'' TString, opt ''errorCode'' TString, opt ''retryable'' TBool]"

definition HeartbeatPayload_schema :: gotype where
  "HeartbeatPayload_schema = TStruct
    [opt ''ackRequired'' TBool, req ''status'' TString, req ''agentVersion'' TString,
     opt ''agentImage'' TString, opt ''agentImageId'' TString, opt ''agentImageDigest'' TString,
     opt ''veleroStatus'' TString, opt ''veleroVersion'' TString, opt ''veleroImage'' TString,
     opt ''veleroImageDigest'' TString, opt ''veleroServerReady'' TBool,
     opt ''veleroNodeAgentDesired'' (TInt 32), opt ''veleroNodeAgentReady'' (TInt 32),
     opt ''veleroNodeAgentImageDigest'' TString, req ''activeTasks'' (TInt 64),
     opt ''lastInventoryAt'' TString]"

definition NodeInventory_schema :: gotype where
  "NodeInventory_schema = TStruct
    [req ''name'' TString, opt ''role'' TString, req ''status'' TString, opt ''kubeletVersion'' TString,
     opt ''capacity'' (TMap TString), opt ''ageSeconds'' (TInt 64), opt ''unschedulable'' TBool]"

definition StorageClassInventory_schema :: gotype where
  "StorageClassInventory_schema = TStruct
    [req ''name'' TString, req ''provisioner'' TString, req ''reclaimPolicy'' TString,
     req ''volumeBindingMode'' TString, req ''allowVolumeExpansion'' TString, opt ''default'' TBool,
     opt ''ageSeconds'' (TInt 64)]"

definition APIResourceInventory_schema :: gotype where
  "APIResourceInventory_schema = TStruct
    [opt ''group'' TString, req ''version'' TString, req ''resource'' TString, req ''kind'' TString,
     req ''namespaced'' TBool]"

definition NamespaceAPIInventory_schema :: gotype where
  "NamespaceAPIInventory_schema = TStruct
    [opt ''scope'' TString, req ''namespace'' TString, req ''group'' TString, req ''version'' TString,
     req ''resource'' TString, req ''kind'' TString, req ''count'' (TInt 64)]"

definition NamedCapabilityInventory_schema :: gotype where
  "NamedCapabilityInventory_schema = TStruct
    [req ''type'' TString, req ''name'' TString, opt ''driver'' TString, opt ''fields'' (TMap TString)]"

definition DRSupportCheck_schema :: gotype where
  "DRSupportCheck_schema = TStruct
    [req ''kind'' TString, req ''name'' TString, req ''status'' TString, opt ''reason'' TString,
     opt ''storageClass'' TString, opt ''provisioner'' TString, opt ''volume'' TString,
     opt ''volumeType'' TString]"

definition DRSupportSummary_schema :: gotype where
  "DRSupportSummary_schema = TStruct
    [req ''status'' TString, opt ''reason'' TString, opt ''checks'' (TSlice DRSupportCheck_schema)]"

definition ResourceRef_schema :: gotype where
  "ResourceRef_schema = TStruct
    [req ''name'' TString, opt ''namespace'' TString, opt ''kind'' TString, opt ''apiVersion'' TString,
     opt ''labels'' (TMap TString), opt ''ready'' TString, opt ''desiredReplicas'' (TInt 32),
     opt ''readyReplicas'' (TInt 32), opt ''updatedReplicas'' (TInt 32),
     opt ''availableReplicas'' (TInt 32), opt ''ageSeconds'' (TInt 64),
     opt ''containers'' (TSlice TString), opt ''images'' (TSlice TString), opt ''selector'' TString,
     opt ''fields'' (TMap TString)]"

definition ResourceKindSummary_schema :: gotype where
  "ResourceKindSummary_schema = TStruct
    [req ''kind'' TString, opt ''shortName'' TString, req ''count'' (TInt 64),
     opt ''resources'' (TSlice ResourceRef_schema)]"

definition ResourceCategory_schema :: gotype where
  "ResourceCategory_schema = TStruct
    [req ''key'' TString, req ''label'' TString, req ''total'' (TInt 64),
     opt ''items'' (TSlice ResourceKindSummary_schema)]"

definition ResourceSummary_schema :: gotype where
  "ResourceSummary_schema = TStruct
    [req ''deployments'' (TInt 64), req ''statefulsets'' (TInt 64), req ''daemonsets'' (TInt 64),
     opt ''jobs'' (TInt 64), opt ''cronjobs'' (TInt 64), req ''services'' (TInt 64),
     req ''ingresses'' (TInt 64), opt ''networkPolicies'' (TInt 64), req ''configmaps'' (TInt 64),
     req ''secrets'' (TInt 64), opt ''serviceAccounts'' (TInt 64), req ''pvcs'' (TInt 64),
     req ''pvCapacityBytes'' (TInt 64), opt ''drSupport'' (TPtr DRSupportSummary_schema),
     opt ''categories'' (TSlice ResourceCategory_schema)]"

definition ApplicationInventory_schema :: gotype where
  "ApplicationInventory_schema = TStruct
    [req ''namespace'' TString, req ''status'' TString, opt ''labels'' (TMap TString),
     opt ''ageSeconds'' (TInt 64), req ''resources'' ResourceSummary_schema]"

definition VeleroInventory_schema :: gotype where
  "VeleroInventory_schema = TStruct
    [req ''status'' TString, req ''backupStorageLocations'' (TSlice (TMap TAny)),
     req ''volumeSnapshotLocations'' (TSlice (TMap TAny)), req ''recentBackups'' (TSlice (TMap TAny)),
     req ''recentRestores'' (TSlice (TMap TAny))]"

definition InventoryReportPayload_schema :: gotype where
  "InventoryReportPayload_schema = TStruct
    [opt ''ackRequired'' TBool, opt ''ackMessageId'' TString, opt ''ackType'' TString,
     opt ''requestId'' TString, opt ''scope'' TString, opt ''reason'' TString, opt ''namespace'' TString,
     req ''full'' TBool, req ''collectedAt'' TTime, req ''inventoryHash'' TString,
     req ''cluster'' ClusterSummary_schema, req ''nodes'' (TSlice NodeInventory_schema),
     opt ''storageClasses'' (TSlice StorageClassInventory_schema),
     opt ''apiResources'' (TSlice APIResourceInventory_schema),
     opt ''namespaceAPIs'' (TSlice NamespaceAPIInventory_schema),
     opt ''capabilities'' (TSlice NamedCapabilityInventory_schema), opt ''capabilitiesComplete'' TBool,
     req ''applications'' (TSlice ApplicationInventory_schema), req ''velero'' VeleroInventory_schema]"

definition InventoryRequestPayload_schema :: gotype where
  "InventoryRequestPayload_schema = TStruct
    [opt ''requestId'' TString, opt ''scope'' TString, opt ''namespace'' TString,
     opt ''includeDetails'' TBool, opt ''reason'' TString, opt ''includeRecentVeleroObjects'' TBool]"

definition LogRequestPayload_schema :: gotype where
  "LogRequestPayload_schema = TStruct
    [req ''requestId'' TString, req ''component'' TString, req ''since'' TTime, req ''tailLines'' (TInt 64)]"

definition LogEntry_schema :: gotype where
  "LogEntry_schema = TStruct
    [req ''timestamp'' TTime, req ''level'' TString, req ''component'' TString, opt ''pod'' TString,
     opt ''node'' TString, req ''message'' TString]"

definition LogReportPayload_schema :: gotype where
  "LogReportPayload_schema = TStruct
    [req ''requestId'' TString, req ''component'' TString, req ''entries'' (TSlice LogEntry_schema),
     opt ''truncated'' TBool, opt ''errorCode'' TString, opt ''message'' TString]"

definition BackupContentRequestPayload_schema :: gotype where
  "BackupContentRequestPayload_schema = TStruct
    [req ''requestId'' TString, req ''veleroBackupName'' TString, req ''veleroNamespace'' TString]"

definition BackupServicePortSummary_schema :: gotype where
  "BackupServicePortSummary_schema = TStruct
    [opt ''name'' TString, req ''port'' (TInt 64), req ''protocol'' TString, opt ''nodePort'' (TInt 64)]"

definition BackupResourceSummary_schema :: gotype where
  "BackupResourceSummary_schema = TStruct
    [req ''apiVersion'' TString, req ''kind'' TString, opt ''namespace'' TString, req ''name'' TString,
     opt ''group'' TString, opt ''resource'' TString, req ''clusterScoped'' TBool,
     opt ''images'' (TSlice TString), opt ''storageClasses'' (TSlice TString),
     opt ''servicePorts'' (TSlice BackupServicePortSummary_schema)]"

definition BackupContentReportPayload_schema :: gotype where
  "BackupContentReportPayload_schema = TStruct
    [req ''requestId'' TString, req ''resources'' (TSlice BackupResourceSummary_schema),
     opt ''truncated'' TBool, opt ''errorCode'' TString, opt ''message'' TString]"

definition TaskCancelPayload_schema :: gotype where
  "TaskCancelPayload_schema = TStruct
    [opt ''taskId'' TString, opt ''commandId'' TString, opt ''targetTaskId'' TString,
     opt ''targetCommandId'' TString, opt ''reason'' TString]"

definition MessageErrorPayload_schema :: gotype where
  "MessageErrorPayload_schema = TStruct
    [opt ''ackMessageId'' TString, opt ''ackType'' TString, opt ''requestId'' TString,
     opt ''taskId'' TString, opt ''commandId'' TString, req ''errorCode'' TString, req ''message'' TString,
     req ''retryable'' TBool]"

definition VeleroEventPayload_schema :: gotype where
  "VeleroEventPayload_schema = TStruct
    [opt ''ackRequired'' TBool, req ''eventType'' TString, req ''backupName'' TString,
     opt ''namespace'' TString, opt ''planId'' TString, opt ''taskId'' TString, opt ''commandId'' TString,
     opt ''sourceClusterId'' TString, opt ''sourceNamespace'' TString, opt ''scheduleName'' TString,
     req ''phase'' TString, req ''progress'' (TInt 64), opt ''message'' TString,
     opt ''resourceVersion'' TString, opt ''storageLocation'' TString,
     opt ''includedNamespaces'' (TSlice TString), opt ''startedAt'' TTime, opt ''completedAt'' TTime,
     opt ''labels'' (TMap TString), opt ''velero'' (TMap TAny)]"

definition PlanCapacityTarget_schema :: gotype where
  "PlanCapacityTarget_schema = TStruct
    [opt ''storageRepositoryId'' TString, opt ''errorMessage'' TString, req ''planId'' TString,
     req ''storageLocation'' TString, req ''namespaces'' (TSlice TString)]"

definition PlanCapacityCommand_schema :: gotype where
  "PlanCapacityCommand_schema = TStruct
    [req ''namespace'' TString, req ''plans'' (TSlice PlanCapacityTarget_schema)]"

definition LabelSelectorExpression_schema :: gotype where
  "LabelSelectorExpression_schema = TStruct
    [req ''key'' TString, req ''operator'' TString, opt ''values'' (TSlice TString)]"

definition LabelSelector_schema :: gotype where
  "LabelSelector_schema = TStruct
    [opt ''matchLabels'' (TMap TString), opt ''matchExpressions'' (TSlice LabelSelectorExpression_schema)]"

definition ResourceSelection_schema :: gotype where
  "ResourceSelection_schema = TStruct
    [opt ''mode'' TString, opt ''namespaceScoped'' (TSlice TString), opt ''clusterScoped'' (TSlice TString)]"

definition HookScript_schema :: gotype where
  "HookScript_schema = TStruct
    [req ''name'' TString, req ''content'' TString, req ''entry'' TBool]"

definition HookSet_schema :: gotype where
  "HookSet_schema = TStruct
    [req ''pre'' (TSlice HookScript_schema), req ''post'' (TSlice HookScript_schema)]"

definition BackupCommand_schema :: gotype where
  "BackupCommand_schema = TStruct
    [opt ''planId'' TString, opt ''trigger'' TString, opt ''sourceClusterId'' TString,
     req ''sourceNamespace'' TString, opt ''sourceNamespaces'' (TSlice TString),
     opt ''veleroBackupName'' TString, req ''scope'' TString, opt ''includedResources'' (TSlice TString),
     opt ''labelSelector'' LabelSelector_schema, req ''storageRepo'' TString,
     req ''includeClusterResources'' TBool, opt ''excludedResources'' (TSlice TString),
     opt ''resourceSelection'' ResourceSelection_schema, req ''hooks'' HookSet_schema]"

definition BackupCancelCommand_schema :: gotype where
  "BackupCancelCommand_schema = TStruct
    [req ''planId'' TString, req ''targetTaskId'' TString, opt ''veleroBackupName'' TString,
     opt ''reason'' TString]"

definition RestoreCommand_schema :: gotype where
  "RestoreCommand_schema = TStruct
    [req ''restorePointId'' TString, req ''veleroBackupName'' TString, opt ''storageRepo'' TString,
     req ''sourceNamespace'' TString, opt ''sourceNamespaces'' (TSlice TString),
     req ''targetNamespace'' TString, opt ''targetNamespaces'' (TMap TString), req ''targetMode'' TString,
     req ''restoreMode'' TString, req ''artifactMode'' TString, req ''conflictPolicy'' TString,
     req ''includeClusterScoped'' TBool, req ''useTransforms'' TBool, req ''transformPreset'' TString,
     req ''storageProfileMode'' TString, opt ''alternateProfileId'' TString,
     opt ''includedResources'' (TSlice TString), opt ''excludedResources'' (TSlice TString),
     opt ''storageClassMappings'' (TMap TString), opt ''imageMappings'' (TMap TString),
     opt ''serviceNodePortMappings'' (TMap (TInt 64)), req ''waitForWorkloads'' TBool,
     req ''runValidation'' TBool, opt ''forceStart'' TBool, opt ''contentCatalogLoaded'' TBool,
     opt ''persistentDataExpected'' TBool, opt ''readinessExpectationsKnown'' TBool,
     opt ''runtimeWorkloadsExpected'' TBool, opt ''expectedPvcs'' (TSlice TString)]"

definition S3Credentials_schema :: gotype where
  "S3Credentials_schema = TStruct
    [opt ''accessKey'' TString, opt ''secretKey'' TString, opt ''accountName'' TString,
     opt ''accountKey'' TString, opt ''serviceAccountKey'' TString]"

definition StorageSyncCommand_schema :: gotype where
  "StorageSyncCommand_schema = TStruct
    [req ''repositoryId'' TString, req ''name'' TString, req ''type'' TString, opt ''endpoint'' TString,
     req ''bucket'' TString, opt ''region'' TString, req ''tlsEnabled'' TBool, opt ''secretRef'' TString,
     opt ''credentials'' (TPtr S3Credentials_schema), opt ''config'' (TMap TAny)]"

definition ExcludeRule_schema :: gotype where
  "ExcludeRule_schema = TStruct
    [req ''group'' TString, req ''resource'' TString, req ''name'' TString, req ''version'' TString,
     req ''labels'' TString]"

definition ScheduleSyncCommand_schema :: gotype where
  "ScheduleSyncCommand_schema = TStruct
    [req ''planId'' TString, req ''scheduleName'' TString, req ''cron'' TString,
     req ''sourceNamespace'' TString, opt ''sourceNamespaces'' (TSlice TString), req ''scope'' TString,
     opt ''includedResources'' (TSlice TString), opt ''labelSelector'' TString,
     opt ''selector'' LabelSelector_schema, req ''storageRepo'' TString,
     req ''includeClusterResources'' TBool, req ''excludeResources'' (TSlice ExcludeRule_schema),
     opt ''resourceSelection'' ResourceSelection_schema, req ''hooks'' HookSet_schema]"

definition RetentionRestorePoint_schema :: gotype where
  "RetentionRestorePoint_schema = TStruct
    [req ''id'' TString, req ''veleroBackupName'' TString, opt ''namespace'' TString]"

definition RetentionCleanupCommand_schema :: gotype where
  "RetentionCleanupCommand_schema = TStruct
    [req ''planId'' TString, req ''restorePoints'' (TSlice RetentionRestorePoint_schema)]"

definition ProtectionCleanupCommand_schema :: gotype where
  "ProtectionCleanupCommand_schema = TStruct
    [req ''planId'' TString, opt ''cleanupMode'' TString, opt ''scheduleName'' TString,
     opt ''backupNamePrefix'' TString, opt ''namespace'' TString,
     opt ''sourceNamespaces'' (TSlice TString), opt ''storageRepo'' TString,
     opt ''cleanupObjectStorage'' TBool, opt ''restorePoints'' (TSlice RetentionRestorePoint_schema),
     opt ''restoreNames'' (TSlice TString), opt ''drillNamespaces'' (TSlice TString)]"

definition AgentUpgradeCommand_schema :: gotype where
  "AgentUpgradeCommand_schema = TStruct
    [req ''clusterId'' TString, req ''namespace'' TString, req ''image'' TString, opt ''version'' TString,
     opt ''expectedDigest'' TString, opt ''deploymentName'' TString, opt ''containerName'' TString,
     opt ''rolloutAnnotation'' TString]"

definition VeleroUpgradeCommand_schema :: gotype where
  "VeleroUpgradeCommand_schema = TStruct
    [opt ''oadp'' TBool, opt ''catalogImage'' TString, opt ''oadpPackage'' TString,
     opt ''oadpChannel'' TString, opt ''oadpTargetCsv'' TString, req ''clusterId'' TString,
     req ''namespace'' TString, req ''image'' TString, opt ''version'' TString,
     opt ''expectedDigest'' TString, opt ''deploymentName'' TString, opt ''daemonSetName'' TString,
     opt ''awsPluginImage'' TString, opt ''azurePluginImage'' TString, opt ''gcpPluginImage'' TString,
     opt ''concurrentBackups'' (TInt 64), opt ''nodeAgentConcurrency'' (TInt 64),
     opt ''prepareQueueLength'' (TInt 64), opt ''cacheStorageClass'' TString,
     opt ''cacheResidentThresholdMB'' (TInt 64), opt ''cacheLimitMB'' (TInt 64), opt ''crdsUrl'' TString]"

definition UnregisterCommand_schema :: gotype where
  "UnregisterCommand_schema = TStruct
    [req ''clusterId'' TString, req ''namespace'' TString, req ''deleteVelero'' TBool,
     req ''deleteNamespace'' TBool, opt ''reason'' TString]"

definition ControlPlaneHandoverCommand_schema :: gotype where
  "ControlPlaneHandoverCommand_schema = TStruct
    [req ''action'' TString, req ''migrationId'' TString, opt ''targetEndpoint'' TString,
     opt ''targetInstallToken'' TString, opt ''rollbackDeadline'' TTime]"

definition TaskDispatchPayload_schema :: gotype where
  "TaskDispatchPayload_schema = TStruct
    [opt ''planCapacity'' (TPtr PlanCapacityCommand_schema),
     opt ''cacheSettings'' (TPtr CacheSettingsCommand_schema), req ''taskId'' TString,
     req ''commandId'' TString, req ''type'' TString, req ''deadline'' TTime,
     opt ''backup'' (TPtr BackupCommand_schema), opt ''backupCancel'' (TPtr BackupCancelCommand_schema),
     opt ''restore'' (TPtr RestoreCommand_schema), opt ''storageSync'' (TPtr StorageSyncCommand_schema),
     opt ''scheduleSync'' (TPtr ScheduleSyncCommand_schema),
     opt ''retentionCleanup'' (TPtr RetentionCleanupCommand_schema),
     opt ''protectionCleanup'' (TPtr ProtectionCleanupCommand_schema),
     opt ''agentUpgrade'' (TPtr AgentUpgradeCommand_schema),
     opt ''veleroUpgrade'' (TPtr VeleroUpgradeCommand_schema),
     opt ''unregister'' (TPtr UnregisterCommand_schema),
     opt ''controlPlaneHandover'' (TPtr ControlPlaneHandoverCommand_schema)]"

definition PlanCapacityResult_schema :: gotype where
  "PlanCapacityResult_schema = TStruct
    [req ''planId'' TString, req ''status'' TString, req ''metadataBytes'' (TInt 64),
     req ''kopiaBytes'' (TInt 64), req ''totalBytes'' (TInt 64), req ''collectedAt'' TTime,
     opt ''errorMessage'' TString]"

definition PlanCapacityReport_schema :: gotype where
  "PlanCapacityReport_schema = TStruct
    [req ''plans'' (TSlice PlanCapacityResult_schema)]"

definition TaskAcceptedPayload_schema :: gotype where
  "TaskAcceptedPayload_schema = TStruct
    [opt ''ackMessageId'' TString, opt ''ackType'' TString, req ''taskId'' TString,
     req ''commandId'' TString, req ''acceptedAt'' TTime]"

definition SizeProgressV2_schema :: gotype where
  "SizeProgressV2_schema = TStruct
    [req ''schemaVersion'' (TInt 64), req ''operation'' TString, opt ''phase'' TString,
     opt ''processedBytes'' (TInt 64), opt ''totalBytes'' (TInt 64), req ''totalKnown'' TBool,
     opt ''bytesPerSecond'' TFloat, opt ''etaSeconds'' (TInt 64), opt ''totalVolumes'' (TInt 64),
     opt ''runningVolumes'' (TInt 64), opt ''completedVolumes'' (TInt 64), opt ''failedVolumes'' (TInt 64),
     opt ''sequence'' (TInt 64), req ''observedAt'' TTime]"

definition TaskProgressPayload_schema :: gotype where
  "TaskProgressPayload_schema = TStruct
    [opt ''ackRequired'' TBool, req ''taskId'' TString, opt ''commandId'' TString, req ''status'' TString,
     req ''progress'' (TInt 64), opt ''totalBytes'' (TInt 64), opt ''syncedBytes'' (TInt 64),
     opt ''speedBytesPerSecond'' TFloat, opt ''percent'' TFloat, opt ''etaSeconds'' (TInt 64),
     req ''message'' TString, opt ''velero'' (TMap TAny),
     opt ''sizeProgressV2'' (TPtr SizeProgressV2_schema)]"

definition SizeValueV2_schema :: gotype where
  "SizeValueV2_schema = TStruct
    [opt ''totalBytes'' (TInt 64), opt ''metadataBytes'' (TInt 64), opt ''volumeBytes'' (TInt 64),
     req ''known'' TBool]"

definition SizeReuseV2_schema :: gotype where
  "SizeReuseV2_schema = TStruct
    [opt ''ratio'' TFloat, req ''status'' TString]"

definition SizeRepositoryV2_schema :: gotype where
  "SizeRepositoryV2_schema = TStruct
    [opt ''storedBytes'' (TInt 64), opt ''metadataBytes'' (TInt 64), opt ''kopiaBytes'' (TInt 64),
     req ''known'' TBool, opt ''measuredAt'' TTime]"

definition SizeQualityV2_schema :: gotype where
  "SizeQualityV2_schema = TStruct
    [opt ''logicalVolumeSource'' TString, opt ''newVolumeDataSource'' TString,
     opt ''repositorySource'' TString, opt ''logicalAccuracy'' TString, opt ''newDataAccuracy'' TString,
     opt ''repositoryAccuracy'' TString]"

definition VolumeSizeMetricV2_schema :: gotype where
  "VolumeSizeMetricV2_schema = TStruct
    [opt ''namespace'' TString, opt ''pvcName'' TString, opt ''method'' TString,
     opt ''logicalBytes'' (TInt 64), req ''logicalKnown'' TBool, opt ''newDataBytes'' (TInt 64),
     req ''newDataKnown'' TBool, opt ''snapshotId'' TString, opt ''phase'' TString, opt ''source'' TString]"

definition SizeMetricsV2_schema :: gotype where
  "SizeMetricsV2_schema = TStruct
    [req ''schemaVersion'' (TInt 64), req ''operation'' TString, req ''measurementStatus'' TString,
     req ''logical'' SizeValueV2_schema, req ''newData'' SizeValueV2_schema, req ''allVolumesKnown'' TBool,
     req ''reuse'' SizeReuseV2_schema, req ''repository'' SizeRepositoryV2_schema,
     req ''quality'' SizeQualityV2_schema, opt ''volumes'' (TSlice VolumeSizeMetricV2_schema),
     req ''measuredAt'' TTime]"

definition TaskCompletedPayload_schema :: gotype where
  "TaskCompletedPayload_schema = TStruct
    [opt ''planCapacity'' (TPtr PlanCapacityReport_schema), opt ''ackRequired'' TBool,
     req ''taskId'' TString, opt ''commandId'' TString, req ''status'' TString, opt ''operation'' TString,
     req ''progress'' (TInt 64), req ''message'' TString, opt ''size'' (TMap TAny),
     opt ''velero'' (TMap TAny), opt ''sizeMetricsV2'' (TPtr SizeMetricsV2_schema)]"

definition TaskFailedPayload_schema :: gotype where
  "TaskFailedPayload_schema = TStruct
    [opt ''ackRequired'' TBool, opt ''ackMessageId'' TString, opt ''ackType'' TString,
     req ''taskId'' TString, opt ''commandId'' TString, req ''errorCode'' TString, req ''message'' TString,
     opt ''details'' (TMap TAny), opt ''retryable'' TBool]"

definition EventAckPayload_schema :: gotype where
  "EventAckPayload_schema = TStruct
    [req ''ackMessageId'' TString, opt ''ackType'' TString, opt ''taskId'' TString,
     opt ''commandId'' TString, req ''persisted'' TBool]"

definition EventErrorPayload_schema :: gotype where
  "EventErrorPayload_schema = TStruct
    [req ''ackMessageId'' TString, opt ''ackType'' TString, opt ''taskId'' TString,
     opt ''commandId'' TString, req ''errorCode'' TString, req ''message'' TString, req ''retryable'' TBool]"

lemmas schema_defs =
  Message_schema_def ClusterSummary_schema_def AgentSummary_schema_def VeleroSummary_schema_def
  RegisterPayload_schema_def CacheSettingsCommand_schema_def RegisterAcceptedPayload_schema_def
  RegisterRejectedPayload_schema_def HeartbeatPayload_schema_def NodeInventory_schema_def
  StorageClassInventory_schema_def APIResourceInventory_schema_def NamespaceAPIInventory_schema_def
  NamedCapabilityInventory_schema_def DRSupportCheck_schema_def DRSupportSummary_schema_def
  ResourceRef_schema_def ResourceKindSummary_schema_def ResourceCategory_schema_def
  ResourceSummary_schema_def ApplicationInventory_schema_def VeleroInventory_schema_def
  InventoryReportPayload_schema_def InventoryRequestPayload_schema_def LogRequestPayload_schema_def
  LogEntry_schema_def LogReportPayload_schema_def BackupContentRequestPayload_schema_def
  BackupServicePortSummary_schema_def BackupResourceSummary_schema_def
  BackupContentReportPayload_schema_def TaskCancelPayload_schema_def MessageErrorPayload_schema_def
  VeleroEventPayload_schema_def PlanCapacityTarget_schema_def PlanCapacityCommand_schema_def
  LabelSelectorExpression_schema_def LabelSelector_schema_def ResourceSelection_schema_def
  HookScript_schema_def HookSet_schema_def BackupCommand_schema_def BackupCancelCommand_schema_def
  RestoreCommand_schema_def S3Credentials_schema_def StorageSyncCommand_schema_def
  ExcludeRule_schema_def ScheduleSyncCommand_schema_def RetentionRestorePoint_schema_def
  RetentionCleanupCommand_schema_def ProtectionCleanupCommand_schema_def
  AgentUpgradeCommand_schema_def VeleroUpgradeCommand_schema_def UnregisterCommand_schema_def
  ControlPlaneHandoverCommand_schema_def TaskDispatchPayload_schema_def PlanCapacityResult_schema_def
  PlanCapacityReport_schema_def TaskAcceptedPayload_schema_def SizeProgressV2_schema_def
  TaskProgressPayload_schema_def SizeValueV2_schema_def SizeReuseV2_schema_def
  SizeRepositoryV2_schema_def SizeQualityV2_schema_def VolumeSizeMetricV2_schema_def
  SizeMetricsV2_schema_def TaskCompletedPayload_schema_def TaskFailedPayload_schema_def
  EventAckPayload_schema_def EventErrorPayload_schema_def

end
