(* ===== verification/Protocol_Codec.thy ===== *)
theory Protocol_Codec
  imports Protocol_Messages
begin

text \<open>
  The contracts of the protocol and its codec (\<^verbatim>\<open>pkg/protocol/contract.go\<close>, \<^verbatim>\<open>codec.go\<close>, \<^verbatim>\<open>factory.go\<close>): which
  messages exist, which way they travel, which payload they carry, and the checks a message passes
  when it is encoded and decoded. \<^verbatim>\<open>data\<close> is \<open>None\<close> for bytes that are not a JSON text.
\<close>

section \<open>Contracts\<close>

type_synonym Direction = string

definition AgentToPlatform :: Direction where
  "AgentToPlatform = ''agent-to-platform''"

definition PlatformToAgent :: Direction where
  "PlatformToAgent = ''platform-to-agent''"

record Contract =
  ct_Type :: string
  ct_Direction :: Direction
  ct_Family :: string
  ct_PayloadType :: string
  ct_TerminalResult :: bool
  ct_AllowedKinds :: "string list"
  ct_payload :: gotype

text \<open>The type of the payload comes with its name, as \<^verbatim>\<open>reflect.TypeOf\<close> gives it.\<close>

definition contract :: "string \<Rightarrow> Direction \<Rightarrow> string \<Rightarrow> string \<times> gotype \<Rightarrow> bool \<Rightarrow> string list \<Rightarrow> Contract" where
  "contract messageType direction family payloadType terminal kinds =
     \<lparr>ct_Type = messageType, ct_Direction = direction, ct_Family = family, ct_PayloadType = fst payloadType,
      ct_TerminalResult = terminal, ct_AllowedKinds = kinds, ct_payload = snd payloadType\<rparr>"

definition Contracts :: "Contract list" where
  "Contracts = [
     contract MessageAgentRegister AgentToPlatform ''control'' (''RegisterPayload'', RegisterPayload_schema) False [MessageKindRequest],
     contract MessageAgentHeartbeat AgentToPlatform ''control'' (''HeartbeatPayload'', HeartbeatPayload_schema) False [MessageKindEvent],
     contract MessageAgentInventoryReport AgentToPlatform ''observation'' (''InventoryReportPayload'', InventoryReportPayload_schema) False [MessageKindEvent, MessageKindResponse],
     contract MessageAgentTaskAccepted AgentToPlatform ''execution'' (''TaskAcceptedPayload'', TaskAcceptedPayload_schema) False [MessageKindResponse],
     contract MessageAgentTaskProgress AgentToPlatform ''telemetry'' (''TaskProgressPayload'', TaskProgressPayload_schema) False [MessageKindEvent],
     contract MessageAgentTaskCompleted AgentToPlatform ''execution'' (''TaskCompletedPayload'', TaskCompletedPayload_schema) True [MessageKindEvent],
     contract MessageAgentTaskFailed AgentToPlatform ''execution'' (''TaskFailedPayload'', TaskFailedPayload_schema) True [MessageKindEvent],
     contract MessageAgentVeleroEvent AgentToPlatform ''observation'' (''VeleroEventPayload'', VeleroEventPayload_schema) False [MessageKindEvent],
     contract MessageAgentLogReport AgentToPlatform ''query'' (''LogReportPayload'', LogReportPayload_schema) False [MessageKindResponse],
     contract MessageAgentBackupContentReport AgentToPlatform ''query'' (''BackupContentReportPayload'', BackupContentReportPayload_schema) False [MessageKindResponse],
     contract MessageAgentMessageError AgentToPlatform ''control'' (''MessageErrorPayload'', MessageErrorPayload_schema) False [MessageKindResponse],
     contract MessagePlatformRegisterAccepted PlatformToAgent ''control'' (''RegisterAcceptedPayload'', RegisterAcceptedPayload_schema) False [MessageKindResponse],
     contract MessagePlatformRegisterRejected PlatformToAgent ''control'' (''RegisterRejectedPayload'', RegisterRejectedPayload_schema) False [MessageKindResponse],
     contract MessagePlatformTaskDispatch PlatformToAgent ''command'' (''TaskDispatchPayload'', TaskDispatchPayload_schema) False [MessageKindRequest],
     contract MessagePlatformTaskCancel PlatformToAgent ''command'' (''TaskCancelPayload'', TaskCancelPayload_schema) False [MessageKindRequest],
     contract MessagePlatformInventoryRequest PlatformToAgent ''query'' (''InventoryRequestPayload'', InventoryRequestPayload_schema) False [MessageKindRequest],
     contract MessagePlatformLogRequest PlatformToAgent ''query'' (''LogRequestPayload'', LogRequestPayload_schema) False [MessageKindRequest],
     contract MessagePlatformBackupContentRequest PlatformToAgent ''query'' (''BackupContentRequestPayload'', BackupContentRequestPayload_schema) False [MessageKindRequest],
     contract MessagePlatformEventAck PlatformToAgent ''control'' (''EventAckPayload'', EventAckPayload_schema) False [MessageKindResponse],
     contract MessagePlatformEventError PlatformToAgent ''control'' (''EventErrorPayload'', EventErrorPayload_schema) False [MessageKindResponse]]"

definition LookupContract :: "string \<Rightarrow> Contract option" where
  "LookupContract messageType = List.find (\<lambda>d. ct_Type d = messageType) Contracts"

section \<open>Messages\<close>

record Message =
  m_Version :: string
  m_MessageID :: string
  m_MessageKind :: string
  m_Type :: string
  m_TenantID :: string
  m_ClusterID :: string
  m_AgentID :: string
  m_Timestamp :: gtime
  m_Payload :: gval

definition message_val :: "Message \<Rightarrow> gval" where
  "message_val m = GStruct
    [req ''version'' (GStr (m_Version m)), req ''messageId'' (GStr (m_MessageID m)),
     opt ''messageKind'' (GStr (m_MessageKind m)), req ''type'' (GStr (m_Type m)),
     opt ''tenantId'' (GStr (m_TenantID m)), opt ''clusterId'' (GStr (m_ClusterID m)),
     opt ''agentId'' (GStr (m_AgentID m)), req ''timestamp'' (GTime (m_Timestamp m)),
     req ''payload'' (m_Payload m)]"

text \<open>Reading a field of a struct value.\<close>

definition field_val :: "string \<Rightarrow> gval \<Rightarrow> gval" where
  "field_val n v = (case v of GStruct fs \<Rightarrow> (case map_of fs n of Some (om, x) \<Rightarrow> x | None \<Rightarrow> GNil) | _ \<Rightarrow> GNil)"

definition str_field :: "string \<Rightarrow> gval \<Rightarrow> string" where
  "str_field n v = (case field_val n v of GStr s \<Rightarrow> s | _ \<Rightarrow> '''')"

definition time_field :: "string \<Rightarrow> gval \<Rightarrow> gtime" where
  "time_field n v = (case field_val n v of GTime t \<Rightarrow> t | _ \<Rightarrow> 0)"

definition val_message :: "gval \<Rightarrow> Message" where
  "val_message v = \<lparr>m_Version = str_field ''version'' v, m_MessageID = str_field ''messageId'' v,
     m_MessageKind = str_field ''messageKind'' v, m_Type = str_field ''type'' v,
     m_TenantID = str_field ''tenantId'' v, m_ClusterID = str_field ''clusterId'' v,
     m_AgentID = str_field ''agentId'' v, m_Timestamp = time_field ''timestamp'' v,
     m_Payload = field_val ''payload'' v\<rparr>"

lemmas field_defs = field_val_def str_field_def time_field_def

definition NewMessage :: "string \<Rightarrow> gtime \<Rightarrow> string \<Rightarrow> string \<Rightarrow> string \<Rightarrow> string \<Rightarrow> gval \<Rightarrow> Message" where
  "NewMessage newMessageID now messageKind messageType clusterID agentID payload =
     \<lparr>m_Version = Version, m_MessageID = newMessageID, m_MessageKind = messageKind, m_Type = messageType,
      m_TenantID = '''', m_ClusterID = clusterID, m_AgentID = agentID, m_Timestamp = now, m_Payload = payload\<rparr>"

section \<open>Codec\<close>

text \<open>The error a \<^verbatim>\<open>DecodeError\<close> wraps.\<close>

datatype cause =
    MalformedJson
  | UnknownMessageType
  | UnsupportedVersion string
  | InvalidMessageKind string
  | WrongDirection Direction Direction
  | ClusterMismatch
  | PayloadNotObject
  | InvalidPayload
  | MarshalFailed

datatype DecodeError = DecodeError (err_Stage: string) (err_MessageType: string) (err_Err: cause)

definition validateMessageMetadata :: "string \<Rightarrow> string \<Rightarrow> Contract \<Rightarrow> cause + unit" where
  "validateMessageMetadata version kind d =
     (if version \<noteq> '''' \<and> version \<noteq> Version then Inl (UnsupportedVersion version)
      else if kind = '''' then Inr ()
      else if kind \<in> set (ct_AllowedKinds d) then Inr ()
      else Inl (InvalidMessageKind kind))"

text \<open>An absent payload is no bytes at all, a null one the text \<^verbatim>\<open>null\<close>: both are refused.\<close>

definition validatePayload :: "json option \<Rightarrow> Contract \<Rightarrow> cause + unit" where
  "validatePayload payload d = (case payload of
     Some (JObj ms) \<Rightarrow> (case decode (ct_payload d) (JObj ms) of Inl _ \<Rightarrow> Inl InvalidPayload | Inr _ \<Rightarrow> Inr ())
   | _ \<Rightarrow> Inl PayloadNotObject)"

definition EncodeMessage :: "Message \<Rightarrow> DecodeError + json" where
  "EncodeMessage m = (let fail = (\<lambda>e. DecodeError ''encode'' (m_Type m) e) in
     case LookupContract (m_Type m) of
       None \<Rightarrow> Inl (fail UnknownMessageType)
     | Some d \<Rightarrow>
       (case validateMessageMetadata (m_Version m) (m_MessageKind m) d of
          Inl e \<Rightarrow> Inl (fail e)
        | Inr _ \<Rightarrow>
          (case json_Marshal (m_Payload m) of
             Inl _ \<Rightarrow> Inl (fail MarshalFailed)
           | Inr payload \<Rightarrow>
             (case validatePayload (Some payload) d of
                Inl e \<Rightarrow> Inl (fail e)
              | Inr _ \<Rightarrow> map_sum (\<lambda>_. fail MarshalFailed) id (json_Marshal (message_val m))))))"

text \<open>The payload of an envelope stays a JSON text: \<open>None\<close> where it has none.\<close>

definition raw_payload :: "Message \<Rightarrow> json option" where
  "raw_payload m = (case m_Payload m of GAny j \<Rightarrow> Some j | _ \<Rightarrow> None)"

definition unmarshal_envelope :: "json option \<Rightarrow> Message option" where
  "unmarshal_envelope data = (case data of None \<Rightarrow> None
     | Some j \<Rightarrow> (case decode (Message_schema TAny) j of Inl _ \<Rightarrow> None | Inr v \<Rightarrow> Some (val_message v)))"

definition DecodeMessage :: "json option \<Rightarrow> Direction \<Rightarrow> string \<Rightarrow> DecodeError + Message" where
  "DecodeMessage data direction authenticatedCluster =
     (case unmarshal_envelope data of
        None \<Rightarrow> Inl (DecodeError ''envelope'' '''' MalformedJson)
      | Some m \<Rightarrow>
        (case LookupContract (m_Type m) of
           None \<Rightarrow> Inl (DecodeError ''contract'' (m_Type m) UnknownMessageType)
         | Some d \<Rightarrow>
           (case validateMessageMetadata (m_Version m) (m_MessageKind m) d of
              Inl e \<Rightarrow> Inl (DecodeError ''metadata'' (m_Type m) e)
            | Inr _ \<Rightarrow>
              if ct_Direction d \<noteq> direction
              then Inl (DecodeError ''direction'' (m_Type m) (WrongDirection direction (ct_Direction d)))
              else if authenticatedCluster \<noteq> '''' \<and> m_ClusterID m \<noteq> '''' \<and> m_ClusterID m \<noteq> authenticatedCluster
              then Inl (DecodeError ''identity'' (m_Type m) ClusterMismatch)
              else (case validatePayload (raw_payload m) d of
                  Inl e \<Rightarrow> Inl (DecodeError ''payload'' (m_Type m) e)
                | Inr _ \<Rightarrow> Inr m))))"

definition ValidateV1Message :: "json option \<Rightarrow> Direction \<Rightarrow> string \<Rightarrow> DecodeError + unit" where
  "ValidateV1Message data direction authenticatedCluster =
     map_sum id (\<lambda>_. ()) (DecodeMessage data direction authenticatedCluster)"

section \<open>Facts about the contracts\<close>

definition is_struct :: "gotype \<Rightarrow> bool" where
  "is_struct t \<longleftrightarrow> (case t of TStruct _ \<Rightarrow> True | _ \<Rightarrow> False)"

lemma contracts_struct: "list_all (\<lambda>d. is_struct (ct_payload d)) Contracts"
  by (simp add: Contracts_def contract_def schema_defs is_struct_def)

lemma contracts_wf: "list_all (\<lambda>d. wf_type (ct_payload d)) Contracts"
  by code_simp

lemma contracts_distinct: "distinct (map ct_Type Contracts)"
  by code_simp

lemma envelope_wf: "wf_type (Message_schema TAny)"
  by code_simp

lemma contract_lookup:
  assumes "LookupContract ty = Some d"
  shows "d \<in> set Contracts" "ct_Type d = ty"
  using assms unfolding LookupContract_def by (auto simp: find_Some_iff)

lemma lookup_struct:
  assumes "LookupContract ty = Some d"
  shows "is_struct (ct_payload d)" "wf_type (ct_payload d)"
  using contract_lookup(1) [OF assms] contracts_struct contracts_wf by (simp_all add: list_all_iff)

lemma terminal_types:
  assumes "LookupContract ty = Some d"
  shows "ct_TerminalResult d \<longleftrightarrow> ty = MessageAgentTaskCompleted \<or> ty = MessageAgentTaskFailed"
proof -
  have "list_all (\<lambda>d. ct_TerminalResult d \<longleftrightarrow>
      ct_Type d = MessageAgentTaskCompleted \<or> ct_Type d = MessageAgentTaskFailed) Contracts"
    by code_simp
  with contract_lookup [OF assms] show ?thesis by (auto simp: list_all_iff)
qed

section \<open>Encoding and decoding\<close>

lemma struct_object: "is_struct t \<Longrightarrow> has_type t v \<Longrightarrow> \<exists>ms. encode v = JObj ms"
  by (auto simp: is_struct_def split: gotype.splits gval.splits)

lemma val_message_val [simp]: "val_message (message_val m) = m"
  by (simp add: val_message_def message_val_def field_defs)

lemma wire_message:
  "m_Payload m = GAny j \<Longrightarrow> wire (message_val m) = message_val m"
  by (simp add: message_val_def blank_def)

lemma envelope_unmarshal:
  assumes ts: "storable_time (m_Timestamp m)" and p: "encode (m_Payload m) \<noteq> JNull"
  shows "unmarshal_envelope (Some (encode (message_val m))) =
    Some (m\<lparr>m_Payload := GAny (encode (m_Payload m))\<rparr>)"
proof -
  define m' where "m' = m\<lparr>m_Payload := GAny (encode (m_Payload m))\<rparr>"
  have same: "encode (message_val m) = encode (message_val m')"
    by (simp add: m'_def message_val_def)
  have "has_type (Message_schema TAny) (message_val m')" "marshals (message_val m')"
    using ts p by (simp_all add: m'_def message_val_def Message_schema_def)
  then have "decode (Message_schema TAny) (encode (message_val m')) = Inr (wire (message_val m'))"
    by (intro decode_encode_value(1) envelope_wf)
  moreover have "wire (message_val m') = message_val m'"
    by (rule wire_message) (simp add: m'_def)
  ultimately show ?thesis
    by (simp add: unmarshal_envelope_def same m'_def [symmetric])
qed

lemma validatePayload_iff:
  "validatePayload payload d = Inr () \<longleftrightarrow>
     (\<exists>ms v. payload = Some (JObj ms) \<and> decode (ct_payload d) (JObj ms) = Inr v)"
  by (auto simp: validatePayload_def split: option.splits json.splits sum.splits)

lemma validateMessageMetadata_iff:
  "validateMessageMetadata version kind d = Inr () \<longleftrightarrow>
     (version = '''' \<or> version = Version) \<and> (kind = '''' \<or> kind \<in> set (ct_AllowedKinds d))"
  by (auto simp: validateMessageMetadata_def)

lemma unit_sum_cases: "(case r of Inl e \<Rightarrow> Inl (f e) | Inr (u :: unit) \<Rightarrow> x) = Inr y \<longleftrightarrow> r = Inr () \<and> x = Inr y"
  by (cases r) auto

text \<open>C23: A message the platform or the agent accepts was sent the right way by the right party: its type
  has a contract for that direction, its version and kind are those the contract allows, it names no
  other cluster than the authenticated one, and its payload is an object that decodes to a value of
  the contract's payload type. Nothing else is accepted, and whatever meets this is.\<close>

theorem decode_message_iff:
  "DecodeMessage data direction auth = Inr m \<longleftrightarrow>
     unmarshal_envelope data = Some m \<and>
     (\<exists>d ms v. LookupContract (m_Type m) = Some d \<and> ct_Direction d = direction \<and>
        (m_Version m = '''' \<or> m_Version m = Version) \<and>
        (m_MessageKind m = '''' \<or> m_MessageKind m \<in> set (ct_AllowedKinds d)) \<and>
        (auth = '''' \<or> m_ClusterID m = '''' \<or> m_ClusterID m = auth) \<and>
        m_Payload m = GAny (JObj ms) \<and> decode (ct_payload d) (JObj ms) = Inr v \<and> has_type (ct_payload d) v)"
proof (cases "unmarshal_envelope data")
  case (Some m')
  show ?thesis
  proof (cases "LookupContract (m_Type m')")
    case (Some d)
    have raw: "raw_payload m' = Some j \<longleftrightarrow> m_Payload m' = GAny j" for j
      by (auto simp: raw_payload_def split: gval.splits)
    show ?thesis
      using \<open>unmarshal_envelope data = Some m'\<close> Some
      by (auto simp: DecodeMessage_def unit_sum_cases validateMessageMetadata_iff validatePayload_iff raw
          decode_has_type(1))
  qed (use Some in \<open>auto simp: DecodeMessage_def\<close>)
qed (auto simp: DecodeMessage_def)

text \<open>C13: Every message type of the protocol survives the wire. A message whose kind its contract allows, with a
  payload of the contract's type and times in the years 1 to 9999, is encoded; the other side, connected
  as the same cluster, decodes the same envelope; and the payload decodes to the payload that was
  sent, where an empty slice or map that the tag omits is nil.\<close>

theorem message_roundtrip:
  assumes c: "LookupContract (m_Type m) = Some d"
    and meta: "m_Version m = Version" "m_MessageKind m \<in> set (ct_AllowedKinds d)"
    and payload: "has_type (ct_payload d) (m_Payload m)" "marshals (m_Payload m)"
    and ts: "storable_time (m_Timestamp m)"
    and auth: "auth = '''' \<or> m_ClusterID m = auth"
  shows "\<exists>data. EncodeMessage m = Inr data \<and>
    DecodeMessage (Some data) (ct_Direction d) auth = Inr (m\<lparr>m_Payload := GAny (encode (m_Payload m))\<rparr>) \<and>
    decode (ct_payload d) (encode (m_Payload m)) = Inr (wire (m_Payload m))"
proof -
  have dec: "decode (ct_payload d) (encode (m_Payload m)) = Inr (wire (m_Payload m))"
    by (rule decode_encode_value(1) [OF payload(1) lookup_struct(2) [OF c] payload(2)])
  obtain ms where ms: "encode (m_Payload m) = JObj ms"
    using struct_object [OF lookup_struct(1) [OF c] payload(1)] by blast
  have mar: "marshals (message_val m)"
    using payload(2) ts by (simp add: message_val_def)
  have valid: "validatePayload (Some (encode (m_Payload m))) d = Inr ()"
      "validateMessageMetadata (m_Version m) (m_MessageKind m) d = Inr ()"
    using dec ms meta by (auto simp: validatePayload_iff validateMessageMetadata_iff)
  have enc: "EncodeMessage m = Inr (encode (message_val m))"
    using c valid payload(2) mar by (simp add: EncodeMessage_def json_Marshal_def)
  have un: "unmarshal_envelope (Some (encode (message_val m))) = Some (m\<lparr>m_Payload := GAny (encode (m_Payload m))\<rparr>)"
    using ts ms by (intro envelope_unmarshal) simp_all
  have "DecodeMessage (Some (encode (message_val m))) (ct_Direction d) auth =
      Inr (m\<lparr>m_Payload := GAny (encode (m_Payload m))\<rparr>)"
    using un c valid auth
    by (auto simp: DecodeMessage_def raw_payload_def)
  with enc dec show ?thesis by blast
qed

definition progress_payload :: gval where
  "progress_payload = GStruct
    [opt ''ackRequired'' (GBool True), req ''taskId'' (GStr ''t1''), opt ''commandId'' (GStr ''''),
     req ''status'' (GStr ''running''), req ''progress'' (GInt 40), opt ''totalBytes'' (GInt 1000),
     opt ''syncedBytes'' (GInt 400), opt ''speedBytesPerSecond'' (GFloat 125 1), opt ''percent'' (GFloat 40 0),
     opt ''etaSeconds'' (GInt 48), req ''message'' (GStr ''''), opt ''velero'' (GMap []),
     opt ''sizeProgressV2'' GNil]"

definition progress_message :: Message where
  "progress_message = NewMessage ''m1'' 1000000000 MessageKindEvent MessageAgentTaskProgress ''c1'' ''a1'' progress_payload"

lemma progress_lookup: "LookupContract MessageAgentTaskProgress = Some (contract MessageAgentTaskProgress
  AgentToPlatform ''telemetry'' (''TaskProgressPayload'', TaskProgressPayload_schema) False [MessageKindEvent])"
  by (simp add: LookupContract_def Contracts_def contract_def message_constants)

theorem message_roundtrip_witness:
  "\<exists>data. EncodeMessage progress_message = Inr data \<and>
    DecodeMessage (Some data) AgentToPlatform ''c1'' =
      Inr (progress_message\<lparr>m_Payload := GAny (encode progress_payload)\<rparr>) \<and>
    decode TaskProgressPayload_schema (encode progress_payload) = Inr (wire progress_payload)"
proof -
  have s: "storable_time 1000000000" by code_simp
  have t: "has_type TaskProgressPayload_schema progress_payload"
    by (simp add: TaskProgressPayload_schema_def progress_payload_def int_range_def float_range_def)
  show ?thesis
    using message_roundtrip [of progress_message "contract MessageAgentTaskProgress AgentToPlatform ''telemetry''
        (''TaskProgressPayload'', TaskProgressPayload_schema) False [MessageKindEvent]" "''c1''"]
      progress_lookup s t
    by (simp add: progress_message_def NewMessage_def contract_def progress_payload_def)
qed

text \<open>No message is accepted in both directions: what the platform accepts from an agent, an agent refuses
  from the platform, so a message cannot be reflected to its sender.\<close>

theorem no_reflection:
  "DecodeMessage data AgentToPlatform a = Inr m \<Longrightarrow>
   DecodeMessage data PlatformToAgent b =
     Inl (DecodeError ''direction'' (m_Type m) (WrongDirection PlatformToAgent AgentToPlatform))"
  by (auto simp: DecodeMessage_def unit_sum_cases AgentToPlatform_def PlatformToAgent_def
      split: option.splits if_splits sum.splits)

theorem no_reflection_witness:
  "DecodeMessage (Some (encode (message_val progress_message))) PlatformToAgent '''' =
     Inl (DecodeError ''direction'' MessageAgentTaskProgress (WrongDirection PlatformToAgent AgentToPlatform))"
proof -
  have "DecodeMessage (Some (encode (message_val progress_message))) AgentToPlatform '''' =
      Inr (progress_message\<lparr>m_Payload := GAny (encode progress_payload)\<rparr>)"
    by code_simp
  from no_reflection [OF this] show ?thesis
    by (simp add: progress_message_def NewMessage_def)
qed

end
