(* ===== verification/Agent_Outbox.thy ===== *)
theory Agent_Outbox
  imports Protocol_Codec
begin

text \<open>
  What the agent keeps across restarts (\<^verbatim>\<open>agent/comm-agent/internal/wsclient/outbox.go\<close>): the outbox of events
  the platform has not acknowledged, and the ledger of the tasks the agent has taken on. Both live in
  memory and in a JSON file that is rewritten after every change, through a temporary file and a rename.
  A nil receiver, which is what the client is left with when the state directory cannot be created, is
  \<open>None\<close>. Every operation runs under the mutex of its structure and is one step here.
\<close>

section \<open>Files\<close>

text \<open>\<open>Torn\<close> is a file whose bytes are not a JSON text: a write that stopped half-way.\<close>

datatype 'c file_content = NoFile | Torn | Holds 'c

record 'c durable =
  fl_main :: "'c file_content"
  fl_tmp :: "'c file_content"

text \<open>How the two system calls of a flush end. A process that dies inside one leaves the same files.\<close>

datatype io = IoOk | WriteFailed | RenameFailed

definition flush_file :: "io \<Rightarrow> 'c \<Rightarrow> 'c durable \<Rightarrow> 'c durable \<times> bool" where
  "flush_file io c f = (case io of
     WriteFailed \<Rightarrow> (f\<lparr>fl_tmp := Torn\<rparr>, False)
   | RenameFailed \<Rightarrow> (f\<lparr>fl_tmp := Holds c\<rparr>, False)
   | IoOk \<Rightarrow> (f\<lparr>fl_main := Holds c, fl_tmp := NoFile\<rparr>, True))"

text \<open>What \<^verbatim>\<open>os.ReadFile\<close> and \<^verbatim>\<open>json.Unmarshal\<close> make of the file; both errors are ignored.\<close>

definition load_file :: "bool \<Rightarrow> 'c \<Rightarrow> 'c durable \<Rightarrow> 'c" where
  "load_file readable none f = (if readable then (case fl_main f of Holds c \<Rightarrow> c | _ \<Rightarrow> none) else none)"

datatype agent_error = MarshalError | UnmarshalError | FlushError

section \<open>The event outbox\<close>

type_synonym items = "(string \<times> json) list"

record eventOutbox =
  ox_items :: "items option"
  ox_file :: "items durable"

definition newEventOutbox :: "bool \<Rightarrow> bool \<Rightarrow> eventOutbox \<Rightarrow> eventOutbox" where
  "newEventOutbox mkdirOk readable box =
     (if mkdirOk then box\<lparr>ox_items := Some (load_file readable [] (ox_file box))\<rparr> else box\<lparr>ox_items := None\<rparr>)"

definition outbox_flush :: "io \<Rightarrow> items \<Rightarrow> eventOutbox \<Rightarrow> eventOutbox \<times> bool" where
  "outbox_flush io items box = (let (f, ok) = flush_file io items (ox_file box) in (box\<lparr>ox_file := f\<rparr>, ok))"

definition outbox_add :: "io \<Rightarrow> gval \<Rightarrow> eventOutbox \<Rightarrow> eventOutbox \<times> (agent_error + unit)" where
  "outbox_add io message box = (case ox_items box of None \<Rightarrow> (box, Inr ())
     | Some items \<Rightarrow>
       (case json_Marshal message of Inl _ \<Rightarrow> (box, Inl MarshalError)
        | Inr raw \<Rightarrow>
          (case decode (TStruct [req ''messageId'' TString]) raw of Inl _ \<Rightarrow> (box, Inl UnmarshalError)
           | Inr meta \<Rightarrow>
             if str_field ''messageId'' meta = '''' then (box, Inr ())
             else (let items' = mset_key (str_field ''messageId'' meta) raw items;
                       (box', ok) = outbox_flush io items' (box\<lparr>ox_items := Some items'\<rparr>)
                   in (box', if ok then Inr () else Inl FlushError)))))"

definition outbox_remove :: "io \<Rightarrow> string \<Rightarrow> eventOutbox \<Rightarrow> eventOutbox \<times> (agent_error + unit)" where
  "outbox_remove io messageID box = (case ox_items box of None \<Rightarrow> (box, Inr ())
     | Some items \<Rightarrow>
       if messageID = '''' then (box, Inr ())
       else (let items' = mdelete messageID items;
                 (box', ok) = outbox_flush io items' (box\<lparr>ox_items := Some items'\<rparr>)
             in (box', if ok then Inr () else Inl FlushError)))"

record EventAckPayload =
  ack_AckMessageID :: string
  ack_AckType :: string
  ack_TaskID :: string
  ack_CommandID :: string
  ack_Persisted :: bool

definition event_schema :: gotype where
  "event_schema = TStruct [req ''type'' TString,
     req ''payload'' (TStruct [req ''taskId'' TString, req ''commandId'' TString])]"

text \<open>The result is the task of the event and whether it ends that task.\<close>

definition outbox_acknowledge :: "io \<Rightarrow> EventAckPayload \<Rightarrow> eventOutbox \<Rightarrow>
    eventOutbox \<times> (agent_error + string \<times> bool)" where
  "outbox_acknowledge io ack box =
     (case ox_items box of None \<Rightarrow> (box, Inr ('''', False))
      | Some items \<Rightarrow>
        if \<not> ack_Persisted ack \<or> ack_AckMessageID ack = '''' then (box, Inr ('''', False))
        else (case map_of items (ack_AckMessageID ack) of None \<Rightarrow> (box, Inr ('''', False))
         | Some raw \<Rightarrow>
           (case decode event_schema raw of Inl _ \<Rightarrow> (box, Inl UnmarshalError)
            | Inr event \<Rightarrow>
              (let type = str_field ''type'' event; payload = field_val ''payload'' event;
                   taskID = str_field ''taskId'' payload; commandID = str_field ''commandId'' payload
               in case LookupContract type of None \<Rightarrow> (box, Inr ('''', False))
                | Some d' \<Rightarrow>
                  if ct_Direction d' \<noteq> AgentToPlatform then (box, Inr ('''', False))
                  else let terminal = ct_TerminalResult d' in
                    if (ack_AckType ack \<noteq> '''' \<and> ack_AckType ack \<noteq> type) \<or>
                       (terminal \<and> ack_TaskID ack \<noteq> taskID) \<or>
                       (ack_TaskID ack \<noteq> '''' \<and> ack_TaskID ack \<noteq> taskID) \<or>
                       (ack_CommandID ack \<noteq> '''' \<and> ack_CommandID ack \<noteq> commandID)
                    then (box, Inr ('''', False))
                    else (let items' = mdelete (ack_AckMessageID ack) items;
                              (box', ok) = outbox_flush io items' (box\<lparr>ox_items := Some items'\<rparr>)
                          in if ok then (box', Inr (taskID, terminal))
                             else (box'\<lparr>ox_items := Some (mset_key (ack_AckMessageID ack) raw items')\<rparr>,
                                   Inl FlushError))))))"

text \<open>Go ranges over a map in no fixed order; the order of the list has no meaning.\<close>

definition outbox_list :: "eventOutbox \<Rightarrow> json list" where
  "outbox_list box = (case ox_items box of None \<Rightarrow> [] | Some items \<Rightarrow> map snd items)"

definition outbox_hasTask :: "string \<Rightarrow> eventOutbox \<Rightarrow> bool" where
  "outbox_hasTask taskID box = (case ox_items box of None \<Rightarrow> False
     | Some items \<Rightarrow> taskID \<noteq> '''' \<and>
         list_ex (\<lambda>(k, raw).
           case decode (TStruct [req ''payload'' (TStruct [req ''taskId'' TString])]) raw of
             Inl _ \<Rightarrow> False | Inr meta \<Rightarrow> str_field ''taskId'' (field_val ''payload'' meta) = taskID) items)"

section \<open>The task ledger\<close>

record taskLedgerObject =
  lo_APIVersion :: string
  lo_Kind :: string
  lo_Namespace :: string
  lo_Name :: string

record taskLedgerRecord =
  lr_TaskID :: string
  lr_CommandID :: string
  lr_Type :: string
  lr_PlanID :: string
  lr_Task :: "json option"
  lr_Object :: taskLedgerObject
  lr_TerminalAcked :: bool
  lr_CleanupPending :: bool
  lr_CreatedAt :: string
  lr_UpdatedAt :: string

definition zero_record :: taskLedgerRecord where
  "zero_record = \<lparr>lr_TaskID = '''', lr_CommandID = '''', lr_Type = '''', lr_PlanID = '''', lr_Task = None,
     lr_Object = \<lparr>lo_APIVersion = '''', lo_Kind = '''', lo_Namespace = '''', lo_Name = ''''\<rparr>,
     lr_TerminalAcked = False, lr_CleanupPending = False, lr_CreatedAt = '''', lr_UpdatedAt = ''''\<rparr>"

text \<open>The sets of identifiers are lists without repetition; nil and empty maps are one value, which is what
  \<^verbatim>\<open>ensureMaps\<close> makes of them.\<close>

record ledger_data =
  ld_TaskIDs :: "string list"
  ld_CommandIDs :: "string list"
  ld_PlanIDs :: "string list"
  ld_Records :: "(string \<times> taskLedgerRecord) list"

record taskLedger =
  lg_data :: "ledger_data option"
  lg_file :: "ledger_data durable"

definition empty_ledger :: ledger_data where
  "empty_ledger = \<lparr>ld_TaskIDs = [], ld_CommandIDs = [], ld_PlanIDs = [], ld_Records = []\<rparr>"

definition newTaskLedger :: "bool \<Rightarrow> bool \<Rightarrow> taskLedger \<Rightarrow> taskLedger" where
  "newTaskLedger mkdirOk readable l =
     (if mkdirOk then l\<lparr>lg_data := Some (load_file readable empty_ledger (lg_file l))\<rparr> else l\<lparr>lg_data := None\<rparr>)"

definition ledger_flush :: "io \<Rightarrow> ledger_data \<Rightarrow> taskLedger \<Rightarrow> taskLedger \<times> (agent_error + unit)" where
  "ledger_flush io d l = (let (f, ok) = flush_file io d (lg_file l)
     in (l\<lparr>lg_data := Some d, lg_file := f\<rparr>, if ok then Inr () else Inl FlushError))"

definition add_id :: "string \<Rightarrow> string list \<Rightarrow> string list" where
  "add_id x xs = (if x = '''' then xs else List.insert x xs)"

definition add_ids :: "string \<Rightarrow> string \<Rightarrow> string \<Rightarrow> ledger_data \<Rightarrow> ledger_data" where
  "add_ids taskID commandID planID d = d\<lparr>ld_TaskIDs := add_id taskID (ld_TaskIDs d),
     ld_CommandIDs := add_id commandID (ld_CommandIDs d), ld_PlanIDs := add_id planID (ld_PlanIDs d)\<rparr>"

definition ledger_remember :: "io \<Rightarrow> string \<Rightarrow> string \<Rightarrow> string \<Rightarrow> taskLedger \<Rightarrow> taskLedger \<times> (agent_error + unit)" where
  "ledger_remember io taskID commandID planID l = (case lg_data l of None \<Rightarrow> (l, Inr ())
     | Some d \<Rightarrow> ledger_flush io (add_ids taskID commandID planID d) l)"

definition ledger_hasTask :: "string \<Rightarrow> taskLedger \<Rightarrow> bool" where
  "ledger_hasTask taskID l = (case lg_data l of None \<Rightarrow> False | Some d \<Rightarrow> taskID \<noteq> '''' \<and> taskID \<in> set (ld_TaskIDs d))"

definition ledger_hasCommand :: "string \<Rightarrow> taskLedger \<Rightarrow> bool" where
  "ledger_hasCommand commandID l =
     (case lg_data l of None \<Rightarrow> False | Some d \<Rightarrow> commandID \<noteq> '''' \<and> commandID \<in> set (ld_CommandIDs d))"

definition ledger_hasPlan :: "string \<Rightarrow> taskLedger \<Rightarrow> bool" where
  "ledger_hasPlan planID l = (case lg_data l of None \<Rightarrow> False | Some d \<Rightarrow> planID \<noteq> '''' \<and> planID \<in> set (ld_PlanIDs d))"

definition record_of :: "string \<Rightarrow> ledger_data \<Rightarrow> taskLedgerRecord" where
  "record_of taskID d = (case map_of (ld_Records d) taskID of None \<Rightarrow> zero_record | Some r \<Rightarrow> r)"

text \<open>The type of a task as its JSON text gives it: a field that does not decode stays empty.\<close>

definition task_type :: "json \<Rightarrow> string" where
  "task_type raw = (case decode (TStruct [req ''type'' TString]) raw of Inl _ \<Rightarrow> '''' | Inr meta \<Rightarrow> str_field ''type'' meta)"

definition ledger_recordTask :: "io \<Rightarrow> string \<Rightarrow> string \<Rightarrow> string \<Rightarrow> string \<Rightarrow> gval \<Rightarrow> taskLedgerObject \<Rightarrow> taskLedger \<Rightarrow>
    taskLedger \<times> (agent_error + unit)" where
  "ledger_recordTask io now taskID commandID planID task object l = (case lg_data l of None \<Rightarrow> (l, Inr ())
     | Some d \<Rightarrow>
       if taskID = '''' then (l, Inr ())
       else (case json_Marshal task of Inl _ \<Rightarrow> (l, Inl MarshalError)
        | Inr raw \<Rightarrow>
          (let old = record_of taskID d;
               rec = old\<lparr>lr_CreatedAt := if lr_CreatedAt old = '''' then now else lr_CreatedAt old,
                 lr_UpdatedAt := now, lr_TaskID := taskID, lr_CommandID := commandID, lr_PlanID := planID,
                 lr_Task := Some raw, lr_Object := object, lr_Type := task_type raw, lr_TerminalAcked := False\<rparr>
           in ledger_flush io (add_ids taskID commandID planID (d\<lparr>ld_Records := mset_key taskID rec (ld_Records d)\<rparr>)) l)))"

text \<open>The two operations that change one record and flush.\<close>

definition change_record :: "io \<Rightarrow> string \<Rightarrow> (taskLedgerRecord \<Rightarrow> taskLedgerRecord) \<Rightarrow> taskLedger \<Rightarrow>
    taskLedger \<times> (agent_error + unit)" where
  "change_record io taskID f l = (case lg_data l of None \<Rightarrow> (l, Inr ())
     | Some d \<Rightarrow>
       if taskID = '''' then (l, Inr ())
       else (case map_of (ld_Records d) taskID of None \<Rightarrow> (l, Inr ())
         | Some r \<Rightarrow> ledger_flush io (d\<lparr>ld_Records := mset_key taskID (f r) (ld_Records d)\<rparr>) l))"

definition ledger_markTerminalAcked :: "io \<Rightarrow> string \<Rightarrow> string \<Rightarrow> taskLedger \<Rightarrow> taskLedger \<times> (agent_error + unit)" where
  "ledger_markTerminalAcked io now taskID l =
     change_record io taskID (\<lambda>r. r\<lparr>lr_TerminalAcked := True, lr_UpdatedAt := now\<rparr>) l"

definition ledger_isTerminalAcked :: "string \<Rightarrow> taskLedger \<Rightarrow> bool" where
  "ledger_isTerminalAcked taskID l = (case lg_data l of None \<Rightarrow> False
     | Some d \<Rightarrow> taskID \<noteq> '''' \<and>
         (case map_of (ld_Records d) taskID of None \<Rightarrow> False | Some r \<Rightarrow> lr_TerminalAcked r))"

definition ledger_markCleanupPending :: "io \<Rightarrow> string \<Rightarrow> string \<Rightarrow> bool \<Rightarrow> taskLedger \<Rightarrow> taskLedger \<times> (agent_error + unit)" where
  "ledger_markCleanupPending io now taskID pending l =
     change_record io taskID (\<lambda>r. r\<lparr>lr_CleanupPending := pending, lr_UpdatedAt := now\<rparr>) l"

definition cleanup_due :: "taskLedgerRecord \<Rightarrow> bool" where
  "cleanup_due r \<longleftrightarrow> lr_CleanupPending r \<and> lr_Task r \<noteq> None \<and> lo_Kind (lr_Object r) = ''Restore'' \<and>
     lo_Name (lr_Object r) \<noteq> ''''"

definition cleanupPendingRecords :: "taskLedger \<Rightarrow> taskLedgerRecord list" where
  "cleanupPendingRecords l = (case lg_data l of None \<Rightarrow> []
     | Some d \<Rightarrow> filter cleanup_due (map snd (ld_Records d)))"

definition recoverable :: "taskLedgerRecord \<Rightarrow> bool" where
  "recoverable r \<longleftrightarrow> \<not> (lr_TerminalAcked r \<or> lr_CleanupPending r \<or> lr_Task r = None \<or>
     lo_Kind (lr_Object r) = '''' \<or> lo_Name (lr_Object r) = '''')"

definition recoverableRecords :: "taskLedger \<Rightarrow> taskLedgerRecord list" where
  "recoverableRecords l = (case lg_data l of None \<Rightarrow> []
     | Some d \<Rightarrow> filter recoverable (map snd (ld_Records d)))"

end
