(* ===== verification/Agent_Client.thy ===== *)
theory Agent_Client
  imports Agent_Outbox
begin

text \<open>
  The client's use of the outbox and the ledger (\<^verbatim>\<open>agent/comm-agent/internal/wsclient/client.go\<close>): the cases
  of the receive loop and the timers that touch them, the recovery of tasks after a restart, and the
  filter that decides which backups of the cluster are reported. A flush has its own outcome, given by the
  identifier it is for where there are several; a write to the connection succeeds or not.
\<close>

record agent =
  ag_outbox :: eventOutbox
  ag_ledger :: taskLedger
  ag_backupTaskIDs :: "string list"
  ag_backupCommandIDs :: "string list"
  ag_backupPlanIDs :: "string list"

section \<open>Events\<close>

definition sendReliableEvent :: "io \<Rightarrow> bool \<Rightarrow> gval \<Rightarrow> agent \<Rightarrow> agent \<times> bool" where
  "sendReliableEvent io connOk v a =
     (let (box, r) = outbox_add io v (ag_outbox a); a' = a\<lparr>ag_outbox := box\<rparr>
      in case r of Inl _ \<Rightarrow> (a', False) | Inr _ \<Rightarrow> (a', connOk \<and> marshals v))"

definition handleEventAck :: "io \<Rightarrow> io \<Rightarrow> string \<Rightarrow> EventAckPayload \<Rightarrow> agent \<Rightarrow> agent" where
  "handleEventAck io1 io2 now ack a =
     (let (box, r) = outbox_acknowledge io1 ack (ag_outbox a); a' = a\<lparr>ag_outbox := box\<rparr>
      in case r of Inl _ \<Rightarrow> a'
         | Inr (taskID, terminal) \<Rightarrow>
           if terminal then a'\<lparr>ag_ledger := fst (ledger_markTerminalAcked io2 now taskID (ag_ledger a'))\<rparr> else a')"

definition handleEventError :: "io \<Rightarrow> string \<Rightarrow> bool \<Rightarrow> agent \<Rightarrow> agent" where
  "handleEventError io ackMessageID retryable a =
     (if \<not> retryable then a\<lparr>ag_outbox := fst (outbox_remove io ackMessageID (ag_outbox a))\<rparr> else a)"

text \<open>The messages written until the connection fails; \<open>conn\<close> says how each write ends.\<close>

fun resend :: "bool list \<Rightarrow> json list \<Rightarrow> json list" where
  "resend conn [] = []"
| "resend [] raws = raws"
| "resend (ok # conn) (raw # raws) = (if ok then raw # resend conn raws else [])"

definition resendPendingEvents :: "bool list \<Rightarrow> agent \<Rightarrow> json list" where
  "resendPendingEvents conn a = resend conn (outbox_list (ag_outbox a))"

section \<open>The backup context\<close>

definition backupTaskPlanID :: "gval \<Rightarrow> string" where
  "backupTaskPlanID task = (case field_val ''backup'' task of
     GPtr backup \<Rightarrow> trim_space (str_field ''planId'' backup) | _ \<Rightarrow> '''')"

definition markBackupContext :: "io \<Rightarrow> gval \<Rightarrow> agent \<Rightarrow> agent" where
  "markBackupContext io task a =
     (let taskID = str_field ''taskId'' task; commandID = str_field ''commandId'' task; planID = backupTaskPlanID task
      in a\<lparr>ag_backupTaskIDs := add_id taskID (ag_backupTaskIDs a),
           ag_backupCommandIDs := add_id commandID (ag_backupCommandIDs a),
           ag_backupPlanIDs := add_id planID (ag_backupPlanIDs a),
           ag_ledger := fst (ledger_remember io taskID commandID planID (ag_ledger a))\<rparr>)"

type_synonym labels = "(string \<times> string) list"

definition label :: "string \<Rightarrow> labels \<Rightarrow> string" where
  "label k labels = (case map_of labels k of None \<Rightarrow> '''' | Some v \<Rightarrow> v)"

definition isHyperCDRBackup :: "labels \<Rightarrow> bool" where
  "isHyperCDRBackup labels \<longleftrightarrow>
     label ''hypercdr.io/managed-by'' labels = ''hypercdr'' \<or> label ''hypercdr.io/plan-id'' labels \<noteq> ''''"

definition labelsBelongToSourceCluster :: "string \<Rightarrow> labels \<Rightarrow> bool" where
  "labelsBelongToSourceCluster clusterID labels \<longleftrightarrow>
     (let sourceClusterID = trim_space (label ''hypercdr.io/source-cluster-id'' labels)
      in sourceClusterID \<noteq> '''' \<and> sourceClusterID = clusterID)"

definition refresh_schedule :: "(string \<Rightarrow> io) \<Rightarrow> string \<Rightarrow> labels \<Rightarrow> agent \<Rightarrow> agent" where
  "refresh_schedule io clusterID labels a =
     (if \<not> isHyperCDRBackup labels \<or> \<not> labelsBelongToSourceCluster clusterID labels then a
      else
        let planID = trim_space (label ''hypercdr.io/plan-id'' labels);
            a1 = (if planID = '''' then a else a\<lparr>ag_backupPlanIDs := add_id planID (ag_backupPlanIDs a),
               ag_ledger := fst (ledger_remember (io planID) '''' '''' planID (ag_ledger a))\<rparr>);
            taskID = trim_space (label ''hypercdr.io/task-id'' labels);
            a2 = (if taskID = '''' then a1 else a1\<lparr>ag_backupTaskIDs := add_id taskID (ag_backupTaskIDs a1),
               ag_ledger := fst (ledger_remember (io taskID) taskID '''' '''' (ag_ledger a1))\<rparr>);
            commandID = trim_space (label ''hypercdr.io/command-id'' labels)
        in (if commandID = '''' then a2 else a2\<lparr>ag_backupCommandIDs := add_id commandID (ag_backupCommandIDs a2),
               ag_ledger := fst (ledger_remember (io commandID) '''' commandID '''' (ag_ledger a2))\<rparr>))"

text \<open>\<open>schedules\<close> is \<open>None\<close> where there is no reader or it fails.\<close>

definition refreshScheduleBackupContext :: "(string \<Rightarrow> io) \<Rightarrow> string \<Rightarrow> labels list option \<Rightarrow> agent \<Rightarrow> agent" where
  "refreshScheduleBackupContext io clusterID schedules a = (case schedules of None \<Rightarrow> a
     | Some ls \<Rightarrow> fold (refresh_schedule io clusterID) ls a)"

definition shouldReportVeleroBackup :: "string \<Rightarrow> labels \<Rightarrow> agent \<Rightarrow> bool" where
  "shouldReportVeleroBackup clusterID labels a \<longleftrightarrow>
     (let taskID = trim_space (label ''hypercdr.io/task-id'' labels);
          commandID = trim_space (label ''hypercdr.io/command-id'' labels);
          planID = trim_space (label ''hypercdr.io/plan-id'' labels)
      in labelsBelongToSourceCluster clusterID labels \<and>
         (taskID \<noteq> '''' \<and> (taskID \<in> set (ag_backupTaskIDs a) \<or> ledger_hasTask taskID (ag_ledger a)) \<or>
          commandID \<noteq> '''' \<and> (commandID \<in> set (ag_backupCommandIDs a) \<or> ledger_hasCommand commandID (ag_ledger a)) \<or>
          planID \<noteq> '''' \<and> (planID \<in> set (ag_backupPlanIDs a) \<or> ledger_hasPlan planID (ag_ledger a))))"

section \<open>Recovery\<close>

datatype recovery =
    PollVeleroStatus gval taskLedgerObject
  | PollRestoreStatus gval taskLedgerObject
  | FinishFailedDrillCleanup gval taskLedgerObject

definition recover_record :: "eventOutbox \<Rightarrow> taskLedgerRecord \<Rightarrow> recovery list" where
  "recover_record box r =
     (if outbox_hasTask (lr_TaskID r) box then []
      else case lr_Task r of None \<Rightarrow> []
        | Some raw \<Rightarrow>
          (case decode TaskDispatchPayload_schema raw of Inl _ \<Rightarrow> []
           | Inr task \<Rightarrow>
             (let ty = str_field ''type'' task in
              if ty = ''backup'' then [PollVeleroStatus task (lr_Object r)]
              else if ty = ''restore'' \<or> ty = ''drill'' \<or> ty = ''takeover'' then [PollRestoreStatus task (lr_Object r)]
              else [])))"

definition recover_cleanup :: "taskLedgerRecord \<Rightarrow> recovery list" where
  "recover_cleanup r = (case lr_Task r of None \<Rightarrow> []
     | Some raw \<Rightarrow>
       (case decode TaskDispatchPayload_schema raw of Inl _ \<Rightarrow> []
        | Inr task \<Rightarrow> if str_field ''type'' task \<noteq> ''drill'' then []
            else [FinishFailedDrillCleanup task (lr_Object r)]))"

text \<open>The goroutines that are started, and the agent after the backup tasks are back in its context.\<close>

fun mark_recovered :: "(string \<Rightarrow> io) \<Rightarrow> recovery \<Rightarrow> agent \<Rightarrow> agent" where
  "mark_recovered io (PollVeleroStatus task object) a = markBackupContext (io (str_field ''taskId'' task)) task a"
| "mark_recovered io _ a = a"

definition recoverLedgerTasks :: "(string \<Rightarrow> io) \<Rightarrow> bool \<Rightarrow> agent \<Rightarrow> agent \<times> recovery list" where
  "recoverLedgerTasks io hasStatusReader a =
     (if \<not> hasStatusReader then (a, [])
      else
        let polls = concat (map (recover_record (ag_outbox a)) (recoverableRecords (ag_ledger a)));
            a' = fold (mark_recovered io) polls a
        in (a', polls @ concat (map recover_cleanup (cleanupPendingRecords (ag_ledger a')))))"

text \<open>A new process on the same state directory.\<close>

definition restart :: "bool \<Rightarrow> bool \<Rightarrow> agent \<Rightarrow> agent" where
  "restart mkdirOk readable a =
     \<lparr>ag_outbox = newEventOutbox mkdirOk readable (ag_outbox a),
      ag_ledger = newTaskLedger mkdirOk readable (ag_ledger a),
      ag_backupTaskIDs = [], ag_backupCommandIDs = [], ag_backupPlanIDs = []\<rparr>"

end
