(* ===== verification/Agent_Facts.thy ===== *)
theory Agent_Facts
  imports Agent_Client
begin

text \<open>
  What the outbox and the ledger guarantee across failed flushes, crashes and restarts.
\<close>

section \<open>Things that stay until they are let go\<close>

text \<open>
  A component runs through events; something it holds survives every event that does not let it go. This is the
  contract that the outbox and the ledger meet, each for its own kind of thing.
\<close>

locale keeper =
  fixes step :: "'e \<Rightarrow> 's \<Rightarrow> 's" and holds :: "'s \<Rightarrow> bool" and lets_go :: "'e \<Rightarrow> bool"
  assumes keeps: "holds s \<Longrightarrow> \<not> lets_go e \<Longrightarrow> holds (step e s)"
begin

lemma run_holds: "holds s \<Longrightarrow> list_all (\<lambda>e. \<not> lets_go e) es \<Longrightarrow> holds (fold step es s)"
  by (induction es arbitrary: s) (auto intro: keeps)

end

section \<open>Flushing\<close>

lemma flush_main: "fl_main (fst (flush_file io c f)) = (if io = IoOk then Holds c else fl_main f)"
  by (cases io) (simp_all add: flush_file_def)

lemma flush_ok: "snd (flush_file io c f) \<longleftrightarrow> io = IoOk"
  by (cases io) (simp_all add: flush_file_def)

lemma outbox_flush_simps [simp]:
  "ox_items (fst (outbox_flush io items box)) = ox_items box"
  "fl_main (ox_file (fst (outbox_flush io items box))) = (if io = IoOk then Holds items else fl_main (ox_file box))"
  "snd (outbox_flush io items box) \<longleftrightarrow> io = IoOk"
  by (simp_all add: outbox_flush_def case_prod_beta flush_main flush_ok)

section \<open>The outbox\<close>

datatype outbox_event =
    Add io gval
  | Remove io string
  | Ack io EventAckPayload
  | Restart bool bool

fun outbox_step :: "outbox_event \<Rightarrow> eventOutbox \<Rightarrow> eventOutbox" where
  "outbox_step (Add io v) box = fst (outbox_add io v box)"
| "outbox_step (Remove io k) box = fst (outbox_remove io k box)"
| "outbox_step (Ack io ack) box = fst (outbox_acknowledge io ack box)"
| "outbox_step (Restart mkdirOk readable) box = newEventOutbox mkdirOk readable box"

definition message_id :: "gval \<Rightarrow> string" where
  "message_id v = (case decode (TStruct [req ''messageId'' TString]) (encode v) of Inl _ \<Rightarrow> ''''
     | Inr meta \<Rightarrow> str_field ''messageId'' meta)"

text \<open>An event is held when it is in the file, and in memory unless the outbox could not be created.\<close>

definition holds_event :: "string \<Rightarrow> json \<Rightarrow> eventOutbox \<Rightarrow> bool" where
  "holds_event k raw box \<longleftrightarrow>
     (case ox_items box of None \<Rightarrow> True | Some items \<Rightarrow> map_of items k = Some raw) \<and>
     (case fl_main (ox_file box) of Holds items \<Rightarrow> map_of items k = Some raw | _ \<Rightarrow> False)"

text \<open>
  What lets an event go: that the platform acknowledges it as persisted or refuses it for good, that another
  event takes its identifier, or a restart that cannot read the file.
\<close>

fun lets_event_go :: "string \<Rightarrow> outbox_event \<Rightarrow> bool" where
  "lets_event_go k (Add io v) \<longleftrightarrow> message_id v = k"
| "lets_event_go k (Remove io k') \<longleftrightarrow> k' = k"
| "lets_event_go k (Ack io ack) \<longleftrightarrow> ack_Persisted ack \<and> ack_AckMessageID ack = k"
| "lets_event_go k (Restart mkdirOk readable) \<longleftrightarrow> \<not> readable"

lemma holds_event_flush:
  assumes "holds_event k raw box" "map_of items k = Some raw"
  shows "holds_event k raw (fst (outbox_flush io items (box\<lparr>ox_items := Some items\<rparr>)))"
  using assms by (auto simp: holds_event_def)

lemma outbox_step_keeps:
  assumes h: "holds_event k raw box" and e: "\<not> lets_event_go k e"
  shows "holds_event k raw (outbox_step e box)"
proof (cases "ox_items box")
  case None
  then show ?thesis using h e
    by (cases e) (auto simp: outbox_add_def outbox_remove_def outbox_acknowledge_def newEventOutbox_def
        load_file_def holds_event_def split: file_content.splits)
next
  case (Some items)
  with h have m: "map_of items k = Some raw" by (simp add: holds_event_def)
  show ?thesis
  proof (cases e)
    case (Add io v)
    then show ?thesis using h e Some m
      by (auto simp: outbox_add_def Let_def case_prod_beta json_Marshal_def message_id_def
          split: sum.splits intro!: holds_event_flush)
  next
    case (Remove io k')
    then show ?thesis using h e Some m
      by (auto simp: outbox_remove_def Let_def case_prod_beta intro!: holds_event_flush)
  next
    case (Ack io ack)
    then show ?thesis using h e Some m
      by (auto simp: outbox_acknowledge_def Let_def case_prod_beta split: option.splits sum.splits
          intro!: holds_event_flush) (auto simp: holds_event_def)
  next
    case (Restart mkdirOk readable)
    then show ?thesis using h e Some m
      by (auto simp: newEventOutbox_def load_file_def holds_event_def split: file_content.splits)
  qed
qed

interpretation outbox: keeper outbox_step "holds_event k raw" "lets_event_go k"
  for k raw
  by unfold_locales (rule outbox_step_keeps)

lemma outbox_add_holds:
  assumes "outbox_add io v box = (box', Inr ())" "ox_items box \<noteq> None" "message_id v \<noteq> ''''" "marshals v"
  shows "holds_event (message_id v) (encode v) box'"
  using assms
  by (auto simp: outbox_add_def message_id_def json_Marshal_def Let_def case_prod_beta holds_event_def
      split: sum.splits if_splits option.splits)

text \<open>C2: The outbox delivers at least once. An event whose addition succeeded stays in the file, and in memory
  whenever the outbox exists, through any sequence of other additions, removals, acknowledgements, failed
  flushes, crashes and restarts, until the platform acknowledges it as persisted or refuses it for good;
  the next restart puts it among the messages to send again.\<close>

theorem outbox_at_least_once:
  assumes "outbox_add io v box = (box', Inr ())" "ox_items box \<noteq> None" "message_id v \<noteq> ''''" "marshals v"
    and "list_all (\<lambda>e. \<not> lets_event_go (message_id v) e) es"
  shows "holds_event (message_id v) (encode v) (fold outbox_step es box') \<and>
    encode v \<in> set (outbox_list (newEventOutbox True True (fold outbox_step es box')))"
proof
  show h: "holds_event (message_id v) (encode v) (fold outbox_step es box')"
    by (rule outbox.run_holds [OF outbox_add_holds [OF assms(1-4)] assms(5)])
  show "encode v \<in> set (outbox_list (newEventOutbox True True (fold outbox_step es box')))"
    using h by (force simp: holds_event_def newEventOutbox_def load_file_def outbox_list_def
        dest: map_of_SomeD split: file_content.splits)
qed

section \<open>The outbox refines a map\<close>

definition pending :: "eventOutbox \<Rightarrow> string \<rightharpoonup> json" where
  "pending box = (case ox_items box of None \<Rightarrow> Map.empty | Some items \<Rightarrow> map_of items)"

text \<open>Whether an acknowledgement is for this event, and if so for which task and whether it ends it.\<close>

definition ack_matches :: "EventAckPayload \<Rightarrow> json \<Rightarrow> (string \<times> bool) option" where
  "ack_matches ack raw = (case decode event_schema raw of Inl _ \<Rightarrow> None
     | Inr event \<Rightarrow>
       (let ty = str_field ''type'' event; taskID = str_field ''taskId'' (field_val ''payload'' event);
            commandID = str_field ''commandId'' (field_val ''payload'' event)
        in case LookupContract ty of None \<Rightarrow> None
           | Some d \<Rightarrow>
             if ct_Direction d = AgentToPlatform \<and> (ack_AckType ack = '''' \<or> ack_AckType ack = ty) \<and>
                (ack_TaskID ack = taskID \<or> ack_TaskID ack = '''' \<and> \<not> ct_TerminalResult d) \<and>
                (ack_CommandID ack = '''' \<or> ack_CommandID ack = commandID)
             then Some (taskID, ct_TerminalResult d) else None))"

definition acked :: "EventAckPayload \<Rightarrow> (string \<rightharpoonup> json) \<Rightarrow> (string \<times> bool) option" where
  "acked ack m = (if \<not> ack_Persisted ack \<or> ack_AckMessageID ack = '''' then None
     else case m (ack_AckMessageID ack) of None \<Rightarrow> None | Some raw \<Rightarrow> ack_matches ack raw)"

text \<open>The abstract outbox: a map that is never lost.\<close>

fun spec_step :: "outbox_event \<Rightarrow> (string \<rightharpoonup> json) \<Rightarrow> string \<rightharpoonup> json" where
  "spec_step (Add io v) m = (if marshals v \<and> message_id v \<noteq> '''' then m(message_id v \<mapsto> encode v) else m)"
| "spec_step (Remove io k) m = (if k \<noteq> '''' then m(k := None) else m)"
| "spec_step (Ack io ack) m = (if acked ack m \<noteq> None then m(ack_AckMessageID ack := None) else m)"
| "spec_step (Restart mkdirOk readable) m = m"

text \<open>The outbox is in step when the file holds what the memory holds.\<close>

definition in_step :: "eventOutbox \<Rightarrow> bool" where
  "in_step box \<longleftrightarrow> (\<exists>items items'. ox_items box = Some items \<and> map_of items = map_of items' \<and>
     (fl_main (ox_file box) = Holds items' \<or> fl_main (ox_file box) = NoFile \<and> items' = []))"

fun smooth :: "outbox_event \<Rightarrow> bool" where
  "smooth (Add io v) \<longleftrightarrow> io = IoOk"
| "smooth (Remove io k) \<longleftrightarrow> io = IoOk"
| "smooth (Ack io ack) \<longleftrightarrow> io = IoOk"
| "smooth (Restart mkdirOk readable) \<longleftrightarrow> mkdirOk \<and> readable"

lemma flush_in_step:
  "in_step (fst (outbox_flush IoOk items (box\<lparr>ox_items := Some items\<rparr>)))"
  "pending (fst (outbox_flush io items (box\<lparr>ox_items := Some items\<rparr>))) = map_of items"
  by (auto simp: in_step_def pending_def)

lemma acknowledge_cases:
  assumes "ox_items box = Some items"
  shows "outbox_acknowledge io ack box =
    (case acked ack (pending box) of
       None \<Rightarrow> (box, if ack_Persisted ack \<and> ack_AckMessageID ack \<noteq> '''' \<and>
           (\<exists>raw. pending box (ack_AckMessageID ack) = Some raw \<and> decode event_schema raw = Inl ())
         then Inl UnmarshalError else Inr ('''', False))
     | Some (taskID, terminal) \<Rightarrow>
         (let items' = mdelete (ack_AckMessageID ack) items;
              box' = fst (outbox_flush io items' (box\<lparr>ox_items := Some items'\<rparr>))
          in if io = IoOk then (box', Inr (taskID, terminal))
             else (box'\<lparr>ox_items := Some (mset_key (ack_AckMessageID ack)
                     (the (pending box (ack_AckMessageID ack))) items')\<rparr>, Inl FlushError)))"
  using assms
  by (auto simp: outbox_acknowledge_def acked_def ack_matches_def pending_def Let_def case_prod_beta
      split: option.splits sum.splits)

lemma outbox_step_refines:
  assumes "in_step box" "smooth e"
  shows "in_step (outbox_step e box) \<and> pending (outbox_step e box) = spec_step e (pending box)"
proof -
  obtain items where items: "ox_items box = Some items" using assms(1) by (auto simp: in_step_def)
  show ?thesis
  proof (cases e)
    case (Add io v)
    then show ?thesis using assms items
      by (auto simp: outbox_add_def json_Marshal_def message_id_def Let_def case_prod_beta flush_in_step
          split: sum.splits) (auto simp: pending_def)
  next
    case (Remove io k)
    then show ?thesis using assms items
      by (auto simp: outbox_remove_def Let_def case_prod_beta flush_in_step) (auto simp: pending_def)
  next
    case (Ack io ack)
    then show ?thesis using assms items
      by (auto simp: acknowledge_cases [OF items] Let_def flush_in_step split: option.splits)
        (auto simp: pending_def)
  next
    case (Restart mkdirOk readable)
    then show ?thesis using assms items
      by (auto simp: newEventOutbox_def load_file_def in_step_def pending_def)
  qed
qed

text \<open>C12: The outbox implements a map from message identifiers to unacknowledged events. Started with memory and file in
  step, and through any sequence of operations and restarts in which all file operations succeed and every
  restart can read the file, memory behaves as that map under insertion, deletion and the removal of
  acknowledged events, and restarts leave it as it is. Failing operations and unreadable files are treated
  separately.\<close>

theorem outbox_refines_map:
  assumes "in_step box" and "list_all smooth es"
  shows "pending (fold outbox_step es box) = fold spec_step es (pending box)"
  using assms
proof (induction es arbitrary: box)
  case (Cons e es)
  with outbox_step_refines [of box e] show ?case by simp
qed simp

text \<open>An acknowledgement settles exactly the event it names. Whatever it says and however the flush ends,
  no other event changes; the named one goes only if the acknowledgement says it is persisted, matches
  the type, task and command of the event and the file was written; and a task is reported as ended only
  for a completion or failure of that very task.\<close>

theorem acknowledge_exact:
  assumes "outbox_acknowledge io ack box = (box', r)"
  shows "pending box' = (if io = IoOk \<and> acked ack (pending box) \<noteq> None
           then (pending box)(ack_AckMessageID ack := None) else pending box) \<and>
    (r = Inr (taskID, True) \<longrightarrow> ack_Persisted ack \<and> ack_TaskID ack = taskID \<and>
      (\<exists>raw event. pending box (ack_AckMessageID ack) = Some raw \<and> decode event_schema raw = Inr event \<and>
         str_field ''taskId'' (field_val ''payload'' event) = taskID \<and>
         (str_field ''type'' event = MessageAgentTaskCompleted \<or> str_field ''type'' event = MessageAgentTaskFailed)))"
proof -
  have "pending box' = (if io = IoOk \<and> acked ack (pending box) \<noteq> None
           then (pending box)(ack_AckMessageID ack := None) else pending box) \<and>
      (r = Inr (taskID, True) \<longrightarrow> acked ack (pending box) = Some (taskID, True))"
  proof (cases "ox_items box")
    case None
    then show ?thesis using assms by (auto simp: outbox_acknowledge_def pending_def acked_def)
  next
    case (Some items)
    have "acked ack (pending box) \<noteq> None \<Longrightarrow> \<exists>raw. map_of items (ack_AckMessageID ack) = Some raw"
      using Some by (auto simp: acked_def pending_def split: if_splits option.splits)
    with assms Some show ?thesis
      by (auto simp: acknowledge_cases [OF Some] Let_def flush_in_step split: option.splits if_splits)
        (auto simp: pending_def fun_eq_iff)
  qed
  then show ?thesis
    by (auto simp: acked_def ack_matches_def Let_def terminal_types split: if_splits option.splits sum.splits)
qed

text \<open>C33: A state file that cannot be read at start is taken for an empty outbox, and the next successful addition
  overwrites it: every event that was waiting is lost, although the file still held it.\<close>

theorem unreadable_file_loses_events:
  assumes "marshals v" "message_id v \<noteq> ''''"
  shows "pending (fold outbox_step [Restart True False, Add IoOk v, Restart True True] box) =
    [message_id v \<mapsto> encode v]"
  using assms
  by (auto simp: newEventOutbox_def load_file_def outbox_add_def json_Marshal_def message_id_def Let_def
      case_prod_beta outbox_flush_def flush_file_def pending_def split: sum.splits)

section \<open>The ledger\<close>

datatype ledger_event =
    Remember io string string string
  | RecordTask io string string string string gval taskLedgerObject
  | MarkTerminalAcked io string string
  | MarkCleanupPending io string string bool
  | Reopen bool bool

fun ledger_step :: "ledger_event \<Rightarrow> taskLedger \<Rightarrow> taskLedger" where
  "ledger_step (Remember io t c p) l = fst (ledger_remember io t c p l)"
| "ledger_step (RecordTask io now t c p task object) l = fst (ledger_recordTask io now t c p task object l)"
| "ledger_step (MarkTerminalAcked io now t) l = fst (ledger_markTerminalAcked io now t l)"
| "ledger_step (MarkCleanupPending io now t b) l = fst (ledger_markCleanupPending io now t b l)"
| "ledger_step (Reopen mkdirOk readable) l = newTaskLedger mkdirOk readable l"

text \<open>What an event does to the contents.\<close>

definition recorded :: "string \<Rightarrow> string \<Rightarrow> string \<Rightarrow> string \<Rightarrow> json \<Rightarrow> taskLedgerObject \<Rightarrow> taskLedgerRecord \<Rightarrow> taskLedgerRecord" where
  "recorded now t c p raw object old = old\<lparr>lr_CreatedAt := if lr_CreatedAt old = '''' then now else lr_CreatedAt old,
     lr_UpdatedAt := now, lr_TaskID := t, lr_CommandID := c, lr_PlanID := p, lr_Task := Some raw,
     lr_Object := object, lr_Type := task_type raw, lr_TerminalAcked := False\<rparr>"

definition with_record :: "string \<Rightarrow> (taskLedgerRecord \<Rightarrow> taskLedgerRecord) \<Rightarrow> ledger_data \<Rightarrow> ledger_data" where
  "with_record t f d = (case map_of (ld_Records d) t of None \<Rightarrow> d
     | Some r \<Rightarrow> if t = '''' then d else d\<lparr>ld_Records := mset_key t (f r) (ld_Records d)\<rparr>)"

fun ledger_change :: "ledger_event \<Rightarrow> ledger_data \<Rightarrow> ledger_data" where
  "ledger_change (Remember io t c p) d = add_ids t c p d"
| "ledger_change (RecordTask io now t c p task object) d =
     (if t = '''' \<or> \<not> marshals task then d
      else add_ids t c p (d\<lparr>ld_Records := mset_key t (recorded now t c p (encode task) object (record_of t d)) (ld_Records d)\<rparr>))"
| "ledger_change (MarkTerminalAcked io now t) d = with_record t (\<lambda>r. r\<lparr>lr_TerminalAcked := True, lr_UpdatedAt := now\<rparr>) d"
| "ledger_change (MarkCleanupPending io now t b) d = with_record t (\<lambda>r. r\<lparr>lr_CleanupPending := b, lr_UpdatedAt := now\<rparr>) d"
| "ledger_change (Reopen mkdirOk readable) d = d"

lemma ledger_flush_simps [simp]:
  "lg_data (fst (ledger_flush io d l)) = Some d"
  "fl_main (lg_file (fst (ledger_flush io d l))) = (if io = IoOk then Holds d else fl_main (lg_file l))"
  "snd (ledger_flush io d l) = (if io = IoOk then Inr () else Inl FlushError)"
  by (simp_all add: ledger_flush_def case_prod_beta flush_main flush_ok)

lemma ledger_step_change:
  assumes "lg_data l = Some d" and "\<And>m r. e \<noteq> Reopen m r"
  shows "lg_data (ledger_step e l) = Some (ledger_change e d) \<and>
    (fl_main (lg_file (ledger_step e l)) = fl_main (lg_file l) \<or>
     fl_main (lg_file (ledger_step e l)) = Holds (ledger_change e d))"
proof (cases e)
  case (Remember io t c p)
  then show ?thesis using assms by (simp add: ledger_remember_def)
next
  case (RecordTask io now t c p task object)
  then show ?thesis using assms
    by (simp add: ledger_recordTask_def json_Marshal_def Let_def recorded_def [symmetric])
next
  case (MarkTerminalAcked io now t)
  then show ?thesis using assms
    by (auto simp: ledger_markTerminalAcked_def change_record_def with_record_def split: option.splits)
next
  case (MarkCleanupPending io now t b)
  then show ?thesis using assms
    by (auto simp: ledger_markCleanupPending_def change_record_def with_record_def split: option.splits)
qed (use assms in auto)

lemma ledger_step_nil:
  "lg_data l = None \<Longrightarrow> (\<And>m r. e \<noteq> Reopen m r) \<Longrightarrow> ledger_step e l = l"
  by (cases e) (auto simp: ledger_remember_def ledger_recordTask_def ledger_markTerminalAcked_def
      ledger_markCleanupPending_def change_record_def)

text \<open>
  A fact about the contents that every event but some keeps is a thing the ledger keeps, in memory and in
  the file, as long as restarts can read the file.
\<close>

definition ledger_holds :: "(ledger_data \<Rightarrow> bool) \<Rightarrow> taskLedger \<Rightarrow> bool" where
  "ledger_holds Q l \<longleftrightarrow> (case lg_data l of None \<Rightarrow> True | Some d \<Rightarrow> Q d) \<and>
     (case fl_main (lg_file l) of Holds d \<Rightarrow> Q d | _ \<Rightarrow> False)"

fun unreadable :: "ledger_event \<Rightarrow> bool" where
  "unreadable (Reopen mkdirOk readable) \<longleftrightarrow> \<not> readable"
| "unreadable e \<longleftrightarrow> False"

locale ledger_fact =
  fixes Q :: "ledger_data \<Rightarrow> bool" and undoes :: "ledger_event \<Rightarrow> bool"
  assumes change_keeps: "Q d \<Longrightarrow> \<not> undoes e \<Longrightarrow> Q (ledger_change e d)"

sublocale ledger_fact \<subseteq> keeper ledger_step "ledger_holds Q" "\<lambda>e. unreadable e \<or> undoes e"
proof
  fix l e
  assume h: "ledger_holds Q l" and e: "\<not> (unreadable e \<or> undoes e)"
  show "ledger_holds Q (ledger_step e l)"
  proof (cases "\<exists>m r. e = Reopen m r")
    case True
    then show ?thesis using h e
      by (auto simp: ledger_holds_def newTaskLedger_def load_file_def split: file_content.splits)
  next
    case other: False
    show ?thesis
    proof (cases "lg_data l")
      case None
      then show ?thesis using h other by (simp add: ledger_step_nil)
    next
      case (Some d)
      then have "Q (ledger_change e d)" using h e change_keeps by (simp add: ledger_holds_def)
      then show ?thesis using ledger_step_change [OF Some, of e] other h by (auto simp: ledger_holds_def)
    qed
  qed
qed

lemma add_id_keeps: "x \<in> set xs \<Longrightarrow> x \<in> set (add_id y xs)"
  by (simp add: add_id_def)

lemma add_ids_records [simp]: "ld_Records (add_ids t c p d) = ld_Records d"
  by (simp add: add_ids_def)

lemma change_keeps_ids:
  "x \<in> set (ld_TaskIDs d) \<Longrightarrow> x \<in> set (ld_TaskIDs (ledger_change e d))"
  by (cases e) (auto simp: add_ids_def with_record_def add_id_keeps split: option.splits)

interpretation known_task: ledger_fact "\<lambda>d. t \<in> set (ld_TaskIDs d)" "\<lambda>e. False"
  for t
  by unfold_locales (rule change_keeps_ids)

text \<open>The events that change the record of a task.\<close>

fun touches :: "string \<Rightarrow> ledger_event \<Rightarrow> bool" where
  "touches t (RecordTask io now t' c p task object) \<longleftrightarrow> t' = t"
| "touches t (MarkTerminalAcked io now t') \<longleftrightarrow> t' = t"
| "touches t (MarkCleanupPending io now t' b) \<longleftrightarrow> t' = t"
| "touches t e \<longleftrightarrow> False"

lemma change_other_record:
  "\<not> touches t e \<Longrightarrow> map_of (ld_Records (ledger_change e d)) t = map_of (ld_Records d) t"
  by (cases e) (auto simp: with_record_def split: option.splits)

interpretation open_record: ledger_fact "\<lambda>d. map_of (ld_Records d) t = Some r" "touches t"
  for t r
  by unfold_locales (simp add: change_other_record)

section \<open>The agent across restarts\<close>

lemma map_of_fields:
  "map_of (map (\<lambda>(n, om, v). (n, om, g om v)) fs) k = map_option (\<lambda>(om, v). (om, g om v)) (map_of fs k)"
  by (induction fs) auto

lemma str_field_wire: "str_field n (wire v) = str_field n v"
proof (cases v)
  case (GStruct fs)
  show ?thesis
  proof (cases "map_of fs n")
    case (Some p)
    obtain om x where p: "p = (om, x)" by (cases p)
    show ?thesis
      by (cases x) (auto simp: GStruct str_field_def field_val_def map_of_fields Some p blank_def)
  qed (simp add: GStruct str_field_def field_val_def map_of_fields)
qed (simp_all add: str_field_def field_val_def)

lemma dispatch_wf: "wf_type TaskDispatchPayload_schema"
  by code_simp

lemma decode_task:
  "has_type TaskDispatchPayload_schema task \<Longrightarrow> marshals task \<Longrightarrow>
   decode TaskDispatchPayload_schema (encode task) = Inr (wire task)"
  by (rule decode_encode_value(1) [OF _ dispatch_wf])

lemma recordTask_holds:
  assumes "ledger_recordTask io now t c p task object l = (l', Inr ())" "lg_data l = Some d" "t \<noteq> ''''" "marshals task"
  shows "ledger_holds (\<lambda>d'. map_of (ld_Records d') t = Some (recorded now t c p (encode task) object (record_of t d))) l'"
proof -
  have l': "l' = fst (ledger_recordTask io now t c p task object l)" using assms(1) by simp
  have "io = IoOk"
  proof (rule ccontr)
    assume "io \<noteq> IoOk"
    then have "snd (ledger_recordTask io now t c p task object l) = Inl FlushError"
      using assms(2-4) by (simp add: ledger_recordTask_def json_Marshal_def Let_def)
    with assms(1) show False by simp
  qed
  then show ?thesis using assms(2-4)
    by (simp add: l' ledger_recordTask_def json_Marshal_def Let_def recorded_def ledger_holds_def)
qed

lemma reopened:
  "ledger_holds Q l \<Longrightarrow> \<exists>d. lg_data (newTaskLedger True True l) = Some d \<and> Q d"
  by (auto simp: ledger_holds_def newTaskLedger_def load_file_def split: file_content.splits)

text \<open>C25: No task that the agent took on is forgotten. A backup, restore, drill or takeover whose record was
  written is pursued after every restart that can read the ledger, whatever else happened to the ledger in
  between: either an event of the task is still in the outbox and will be sent again, or the task is
  polled again with the command and object it was recorded with; until it is recorded anew, its result is
  acknowledged or its cleanup is taken over.\<close>

theorem recorded_task_pursued:
  assumes rec: "ledger_recordTask io now t c p task object l = (l', Inr ())" "lg_data l = Some d" "t \<noteq> ''''"
    and task: "has_type TaskDispatchPayload_schema task" "marshals task"
    and object: "lo_Kind object \<noteq> ''''" "lo_Name object \<noteq> ''''" "\<not> lr_CleanupPending (record_of t d)"
    and run: "list_all (\<lambda>e. \<not> (unreadable e \<or> touches t e)) es"
    and a: "ag_ledger a = newTaskLedger True True (fold ledger_step es l')"
    and ty: "str_field ''type'' task = ty" "ty \<in> {''backup'', ''restore'', ''drill'', ''takeover''}"
  shows "outbox_hasTask t (ag_outbox a) \<or>
    (if ty = ''backup'' then PollVeleroStatus (wire task) object else PollRestoreStatus (wire task) object)
      \<in> set (snd (recoverLedgerTasks io' True a))"
proof -
  define r where "r = recorded now t c p (encode task) object (record_of t d)"
  have "ledger_holds (\<lambda>d'. map_of (ld_Records d') t = Some r) (fold ledger_step es l')"
    unfolding r_def by (rule open_record.run_holds [OF recordTask_holds [OF rec task(2)] run])
  from reopened [OF this] obtain d' where d': "lg_data (ag_ledger a) = Some d'" "map_of (ld_Records d') t = Some r"
    using a by auto
  have "recoverable r" using object by (simp add: r_def recorded_def recoverable_def)
  moreover have "r \<in> snd ` set (ld_Records d')" using map_of_SomeD [OF d'(2)] by force
  ultimately have mem: "r \<in> set (recoverableRecords (ag_ledger a))"
    using d'(1) by (simp add: recoverableRecords_def)
  have r: "lr_TaskID r = t" "lr_Task r = Some (encode task)" "lr_Object r = object"
    by (simp_all add: r_def recorded_def)
  have "outbox_hasTask t (ag_outbox a) \<or>
      (if ty = ''backup'' then PollVeleroStatus (wire task) object else PollRestoreStatus (wire task) object)
        \<in> set (recover_record (ag_outbox a) r)"
    using ty by (auto simp: recover_record_def r decode_task [OF task] str_field_wire Let_def)
  with mem show ?thesis by (auto simp: recoverLedgerTasks_def Let_def)
qed

lemma remember_holds:
  assumes "ledger_remember io t c p l = (l', Inr ())" "lg_data l \<noteq> None" "t \<noteq> ''''"
  shows "ledger_holds (\<lambda>d. t \<in> set (ld_TaskIDs d)) l'"
proof -
  obtain d where d: "lg_data l = Some d" using assms(2) by blast
  have "snd (ledger_flush io (add_ids t c p d) l) = Inr ()" and l': "l' = fst (ledger_flush io (add_ids t c p d) l)"
    using assms(1) d by (simp_all add: ledger_remember_def)
  then have "io = IoOk" by (simp split: if_splits)
  then show ?thesis using assms(3) by (simp add: l' ledger_holds_def add_ids_def add_id_def)
qed

text \<open>A backup that carries the label of a task the agent accepted is reported to the platform after every
  restart that can read the ledger, whatever else was recorded since: the filter never forgets a task.\<close>

theorem reported_across_restarts:
  assumes "ledger_remember io t c p l = (l', Inr ())" "lg_data l \<noteq> None" "t \<noteq> ''''"
    and "list_all (\<lambda>e. \<not> unreadable e) es"
    and "ag_ledger a = newTaskLedger True True (fold ledger_step es l')"
    and "labelsBelongToSourceCluster clusterID labels" "trim_space (label ''hypercdr.io/task-id'' labels) = t"
  shows "shouldReportVeleroBackup clusterID labels a"
proof -
  have "ledger_holds (\<lambda>d. t \<in> set (ld_TaskIDs d)) (fold ledger_step es l')"
    by (rule known_task.run_holds [OF remember_holds [OF assms(1-3)]]) (use assms(4) in simp)
  from reopened [OF this] obtain d where "lg_data (ag_ledger a) = Some d" "t \<in> set (ld_TaskIDs d)"
    using assms(5) by auto
  then have "ledger_hasTask t (ag_ledger a)" using assms(3) by (simp add: ledger_hasTask_def)
  then show ?thesis using assms(3,6,7) by (simp add: shouldReportVeleroBackup_def)
qed

section \<open>A sample agent\<close>

definition completed_event :: "string \<Rightarrow> string \<Rightarrow> gval" where
  "completed_event messageID taskID = message_val (NewMessage messageID 1000000000 MessageKindEvent
     MessageAgentTaskCompleted ''c1'' ''a1'' (GStruct
       [opt ''planCapacity'' GNil, opt ''ackRequired'' (GBool True), req ''taskId'' (GStr taskID),
        opt ''commandId'' (GStr ''k1''), req ''status'' (GStr ''succeeded''), opt ''operation'' (GStr ''backup''),
        req ''progress'' (GInt 100), req ''message'' (GStr ''''), opt ''size'' GNil, opt ''velero'' GNil,
        opt ''sizeMetricsV2'' GNil]))"

definition empty_box :: eventOutbox where
  "empty_box = \<lparr>ox_items = Some [], ox_file = \<lparr>fl_main = NoFile, fl_tmp = NoFile\<rparr>\<rparr>"

definition completed_ack :: "string \<Rightarrow> string \<Rightarrow> EventAckPayload" where
  "completed_ack messageID taskID = \<lparr>ack_AckMessageID = messageID, ack_AckType = MessageAgentTaskCompleted,
     ack_TaskID = taskID, ack_CommandID = ''k1'', ack_Persisted = True\<rparr>"

definition box1 :: eventOutbox where
  "box1 = fst (outbox_add IoOk (completed_event ''e1'' ''t1'') empty_box)"

text \<open>A failed flush, a crash that leaves a torn file behind, a second event and its acknowledgement.\<close>

definition rough_run :: "outbox_event list" where
  "rough_run = [Add WriteFailed (completed_event ''e2'' ''t2''), Restart True True,
     Add IoOk (completed_event ''e3'' ''t3''), Ack RenameFailed (completed_ack ''e3'' ''t3''),
     Ack IoOk (completed_ack ''e3'' ''t3''), Remove IoOk ''e2'']"

theorem outbox_at_least_once_witness:
  "holds_event ''e1'' (encode (completed_event ''e1'' ''t1'')) (fold outbox_step rough_run box1) \<and>
   encode (completed_event ''e1'' ''t1'') \<in>
     set (outbox_list (newEventOutbox True True (fold outbox_step rough_run box1)))"
proof -
  have id: "message_id (completed_event ''e1'' ''t1'') = ''e1''" by code_simp
  have add: "outbox_add IoOk (completed_event ''e1'' ''t1'') empty_box = (box1, Inr ())"
    unfolding box1_def by code_simp
  have some: "ox_items empty_box \<noteq> None" by (simp add: empty_box_def)
  have mar: "marshals (completed_event ''e1'' ''t1'')" by code_simp
  have run: "list_all (\<lambda>e. \<not> lets_event_go ''e1'' e) rough_run" by code_simp
  show ?thesis
    using outbox_at_least_once [OF add some _ mar, unfolded id, OF _ run] by simp
qed

definition smooth_run :: "outbox_event list" where
  "smooth_run = [Add IoOk (completed_event ''e2'' ''t2''), Restart True True, Ack IoOk (completed_ack ''e1'' ''t1'')]"

theorem outbox_refines_map_witness:
  "pending (fold outbox_step smooth_run box1) = fold spec_step smooth_run (pending box1) \<and>
   pending (fold outbox_step smooth_run box1) ''e1'' = None \<and>
   pending (fold outbox_step smooth_run box1) ''e2'' = Some (encode (completed_event ''e2'' ''t2''))"
proof -
  have items: "ox_items box1 = Some [(''e1'', encode (completed_event ''e1'' ''t1''))]"
    "fl_main (ox_file box1) = Holds [(''e1'', encode (completed_event ''e1'' ''t1''))]"
    unfolding box1_def by code_simp+
  then have s: "in_step box1" by (auto simp: in_step_def)
  have sm: "list_all smooth smooth_run" by code_simp
  have "pending (fold outbox_step smooth_run box1) ''e1'' = None"
    "pending (fold outbox_step smooth_run box1) ''e2'' = Some (encode (completed_event ''e2'' ''t2''))"
    unfolding box1_def by code_simp+
  with outbox_refines_map [OF s sm] show ?thesis by simp
qed

theorem acknowledge_exact_witness:
  "pending (fst (outbox_acknowledge IoOk (completed_ack ''e1'' ''t1'') box1)) = (pending box1)(''e1'' := None) \<and>
   snd (outbox_acknowledge IoOk (completed_ack ''e1'' ''t1'') box1) = Inr (''t1'', True) \<and>
   pending (fst (outbox_acknowledge IoOk (completed_ack ''e1'' ''t9'') box1)) = pending box1"
proof -
  have a: "acked (completed_ack ''e1'' ''t1'') (pending box1) = Some (''t1'', True)"
    "acked (completed_ack ''e1'' ''t9'') (pending box1) = None"
    unfolding box1_def by code_simp+
  have r: "snd (outbox_acknowledge IoOk (completed_ack ''e1'' ''t1'') box1) = Inr (''t1'', True)"
    unfolding box1_def by code_simp
  have i: "ack_AckMessageID (completed_ack ''e1'' t) = ''e1''" for t by (simp add: completed_ack_def)
  show ?thesis
    using acknowledge_exact [OF prod.collapse [symmetric], of IoOk "completed_ack ''e1'' ''t1''" box1]
      acknowledge_exact [OF prod.collapse [symmetric], of IoOk "completed_ack ''e1'' ''t9''" box1] a r i
    by simp
qed

theorem unreadable_file_loses_events_witness:
  "pending box1 ''e1'' = Some (encode (completed_event ''e1'' ''t1'')) \<and>
   pending (fold outbox_step [Restart True False, Add IoOk (completed_event ''e2'' ''t2''), Restart True True] box1) =
     [''e2'' \<mapsto> encode (completed_event ''e2'' ''t2'')]"
proof -
  have "marshals (completed_event ''e2'' ''t2'')" "message_id (completed_event ''e2'' ''t2'') = ''e2''"
    by code_simp+
  moreover have "pending box1 ''e1'' = Some (encode (completed_event ''e1'' ''t1''))"
    unfolding box1_def by code_simp
  ultimately show ?thesis
    using unreadable_file_loses_events [of "completed_event ''e2'' ''t2''" box1] by simp
qed

definition backup_dispatch :: gval where
  "backup_dispatch = GStruct
    [opt ''planCapacity'' GNil, opt ''cacheSettings'' GNil, req ''taskId'' (GStr ''t1''), req ''commandId'' (GStr ''k1''),
     req ''type'' (GStr ''backup''), req ''deadline'' (GTime 1000000000), opt ''backup'' GNil, opt ''backupCancel'' GNil,
     opt ''restore'' GNil, opt ''storageSync'' GNil, opt ''scheduleSync'' GNil, opt ''retentionCleanup'' GNil,
     opt ''protectionCleanup'' GNil, opt ''agentUpgrade'' GNil, opt ''veleroUpgrade'' GNil, opt ''unregister'' GNil,
     opt ''controlPlaneHandover'' GNil]"

definition backup_object :: taskLedgerObject where
  "backup_object = \<lparr>lo_APIVersion = ''velero.io/v1'', lo_Kind = ''Backup'', lo_Namespace = ''velero'', lo_Name = ''b1''\<rparr>"

definition empty_task_ledger :: taskLedger where
  "empty_task_ledger = \<lparr>lg_data = Some empty_ledger, lg_file = \<lparr>fl_main = NoFile, fl_tmp = NoFile\<rparr>\<rparr>"

definition ledger1 :: taskLedger where
  "ledger1 = fst (ledger_recordTask IoOk ''now'' ''t1'' ''k1'' '''' backup_dispatch backup_object empty_task_ledger)"

definition ledger_run :: "ledger_event list" where
  "ledger_run = [Remember WriteFailed ''t2'' '''' ''p1'', Reopen True True,
     RecordTask IoOk ''later'' ''t3'' ''k3'' '''' backup_dispatch backup_object, MarkTerminalAcked IoOk ''later'' ''t3'']"

definition agent1 :: agent where
  "agent1 = \<lparr>ag_outbox = empty_box, ag_ledger = newTaskLedger True True (fold ledger_step ledger_run ledger1),
     ag_backupTaskIDs = [], ag_backupCommandIDs = [], ag_backupPlanIDs = []\<rparr>"

theorem recorded_task_pursued_witness:
  "PollVeleroStatus (wire backup_dispatch) backup_object \<in> set (snd (recoverLedgerTasks (\<lambda>_. IoOk) True agent1))"
proof -
  have rec: "ledger_recordTask IoOk ''now'' ''t1'' ''k1'' '''' backup_dispatch backup_object empty_task_ledger = (ledger1, Inr ())"
    unfolding ledger1_def by code_simp
  have data: "lg_data empty_task_ledger = Some empty_ledger" by (simp add: empty_task_ledger_def)
  have ty: "has_type TaskDispatchPayload_schema backup_dispatch"
    by (simp add: TaskDispatchPayload_schema_def backup_dispatch_def)
  have mar: "marshals backup_dispatch" by code_simp
  have run: "list_all (\<lambda>e. \<not> (unreadable e \<or> touches ''t1'' e)) ledger_run" by code_simp
  have ob: "lo_Kind backup_object \<noteq> ''''" "lo_Name backup_object \<noteq> ''''" "\<not> lr_CleanupPending (record_of ''t1'' empty_ledger)"
    by (simp_all add: backup_object_def record_of_def empty_ledger_def zero_record_def)
  have st: "str_field ''type'' backup_dispatch = ''backup''" by code_simp
  have no: "\<not> outbox_hasTask ''t1'' (ag_outbox agent1)" by (simp add: agent1_def empty_box_def outbox_hasTask_def)
  have "ag_ledger agent1 = newTaskLedger True True (fold ledger_step ledger_run ledger1)" by (simp add: agent1_def)
  from recorded_task_pursued [OF rec data _ ty mar ob run this st, of "\<lambda>_. IoOk"] no show ?thesis by simp
qed

definition accepted_ledger :: taskLedger where
  "accepted_ledger = fst (ledger_remember IoOk ''t1'' ''k1'' ''p1'' empty_task_ledger)"

definition agent2 :: agent where
  "agent2 = \<lparr>ag_outbox = empty_box, ag_ledger = newTaskLedger True True (fold ledger_step ledger_run accepted_ledger),
     ag_backupTaskIDs = [], ag_backupCommandIDs = [], ag_backupPlanIDs = []\<rparr>"

theorem reported_across_restarts_witness:
  "shouldReportVeleroBackup ''c1'' [(''hypercdr.io/source-cluster-id'', ''c1''), (''hypercdr.io/task-id'', ''t1'')] agent2"
proof (rule reported_across_restarts)
  show "ledger_remember IoOk ''t1'' ''k1'' ''p1'' empty_task_ledger = (accepted_ledger, Inr ())"
    unfolding accepted_ledger_def by code_simp
  show "lg_data empty_task_ledger \<noteq> None" by (simp add: empty_task_ledger_def)
  show "list_all (\<lambda>e. \<not> unreadable e) ledger_run" by code_simp
  show "ag_ledger agent2 = newTaskLedger True True (fold ledger_step ledger_run accepted_ledger)"
    by (simp add: agent2_def)
  show "labelsBelongToSourceCluster ''c1'' [(''hypercdr.io/source-cluster-id'', ''c1''), (''hypercdr.io/task-id'', ''t1'')]"
    by code_simp
  show "trim_space (label ''hypercdr.io/task-id'' [(''hypercdr.io/source-cluster-id'', ''c1''), (''hypercdr.io/task-id'', ''t1'')]) = ''t1''"
    by code_simp
qed simp

end
