(* ===== verification/Kube_Names.thy ===== *)
theory Kube_Names
  imports Go_RFC3339
begin

text \<open>
  The names the backend gives to Kubernetes objects: backups and schedules of a plan
  (\<^verbatim>\<open>httpserver/protection_plan_handlers.go\<close>) and the backup storage location of a repository in a cluster
  (\<^verbatim>\<open>httpserver/storage_sync.go\<close>). Kubernetes wants them to be labels of at most 63 characters.
\<close>

definition dash :: char where
  "dash = CHR ''-''"

definition trim_dashes :: "string \<Rightarrow> string" where
  "trim_dashes s = rev (dropWhile ((=) dash) (rev (dropWhile ((=) dash) s)))"

definition no_dashes :: "string \<Rightarrow> string" where
  "no_dashes s = filter ((\<noteq>) dash) s"

section \<open>Backups of a plan\<close>

definition planUUIDNoDash :: "string \<Rightarrow> string" where
  "planUUIDNoDash planID = (let plan = to_lower (no_dashes (trim_space planID)) in if plan = '''' then ''unknown'' else plan)"

definition scheduleNameForPlan :: "string \<Rightarrow> string" where
  "scheduleNameForPlan planID = ''hcdr-'' @ planUUIDNoDash planID"

text \<open>\<^verbatim>\<open>Format("20060102150405")\<close>, for years of four digits.\<close>

definition format_compact :: "gtime \<Rightarrow> string" where
  "format_compact t = (case time_Date time_UTC t of (y, m, d) \<Rightarrow>
     pad 4 y @ pad 2 m @ pad 2 d @ pad 2 (time_Hour time_UTC t) @ pad 2 (time_Minute time_UTC t) @
     pad 2 (time_Second time_UTC t))"

definition run_suffix :: "string \<Rightarrow> string" where
  "run_suffix runID = (let suffix = no_dashes runID in if length suffix > 8 then take 8 suffix else suffix)"

definition backupNameForPlan :: "gtime \<Rightarrow> string \<Rightarrow> string \<Rightarrow> string \<Rightarrow> string" where
  "backupNameForPlan now planID runID trigger =
     (let base = scheduleNameForPlan planID;
          base = (if trigger = ''manual'' \<or> trigger = '''' then base @ ''-m'' else base);
          base = base @ ''-'' @ format_compact now;
          suffix = run_suffix runID;
          base = (if suffix \<noteq> '''' then base @ ''-'' @ suffix else base)
      in if length base > 63 then trim_dashes (take 63 base) else base)"

definition manualBackupNameForPlan :: "gtime \<Rightarrow> string \<Rightarrow> string \<Rightarrow> string" where
  "manualBackupNameForPlan now planID runID = backupNameForPlan now planID runID ''manual''"

section \<open>Storage locations\<close>

definition alnum :: "char \<Rightarrow> bool" where
  "alnum c \<longleftrightarrow> (let n = of_char c :: nat in 97 \<le> n \<and> n \<le> 122 \<or> 48 \<le> n \<and> n \<le> 57)"

fun squeeze :: "bool \<Rightarrow> string \<Rightarrow> string" where
  "squeeze lastDash [] = []"
| "squeeze lastDash (c # s) =
     (if alnum c then c # squeeze False s
      else if \<not> lastDash then dash # squeeze True s
      else squeeze True s)"

definition sanitizeKubernetesName :: "string \<Rightarrow> string" where
  "sanitizeKubernetesName v =
     (let out = trim_dashes (squeeze False (to_lower (trim_space v))) in if out = '''' then ''default'' else out)"

definition storageDomainBSLName :: "string \<Rightarrow> string \<Rightarrow> string" where
  "storageDomainBSLName repoName sourceClusterID =
     (let base = sanitizeKubernetesName repoName;
          sourceID = sanitizeKubernetesName (trim_space sourceClusterID);
          sourceID = (if sourceID = '''' then ''unknown'' else sourceID);
          name = base @ ''-'' @ sourceID;
          name = (if length name > 63
            then (let maxBase = 63 - int (length sourceID) - 1;
                      maxBase = (if maxBase < 1 then 1 else maxBase)
                  in trim_dashes (take (min (length base) (nat maxBase)) base) @ ''-'' @ sourceID)
            else name)
      in trim_dashes name)"

definition storageDomainPrefix :: "string \<Rightarrow> string \<Rightarrow> string" where
  "storageDomainPrefix tenantID sourceClusterID =
     (let tenant = trim_space tenantID; cluster = trim_space sourceClusterID;
          tenant = (if tenant = '''' then ''unknown'' else tenant);
          cluster = (if cluster = '''' then ''unknown'' else cluster)
      in ''hypercdr/v1/tenants/'' @ tenant @ ''/clusters/'' @ cluster)"

definition trim_slashes :: "string \<Rightarrow> string" where
  "trim_slashes s = rev (dropWhile ((=) CHR ''/'') (rev (dropWhile ((=) CHR ''/'') s)))"

definition validStorageDomainPrefix :: "string \<Rightarrow> bool" where
  "validStorageDomainPrefix prefix =
     (let parts = split_on CHR ''/'' (trim_slashes (trim_space prefix)) in
      length parts \<ge> 6 \<and> parts ! 0 = ''hypercdr'' \<and> parts ! 1 = ''v1'' \<and> parts ! 2 = ''tenants'' \<and>
      parts ! 3 \<noteq> '''' \<and> parts ! 3 \<noteq> ''unknown'' \<and> parts ! 4 = ''clusters'' \<and> parts ! 5 \<noteq> '''' \<and>
      parts ! 5 \<noteq> ''unknown'')"

section \<open>Labels\<close>

definition label_char :: "char \<Rightarrow> bool" where
  "label_char c \<longleftrightarrow> alnum c \<or> c = dash"

definition valid_label :: "string \<Rightarrow> bool" where
  "valid_label s \<longleftrightarrow> s \<noteq> [] \<and> length s \<le> 63 \<and> list_all label_char s \<and> hd s \<noteq> dash \<and> last s \<noteq> dash"

lemma alnum_not_dash: "alnum c \<Longrightarrow> c \<noteq> dash"
  by (auto simp: alnum_def dash_def)

text \<open>A label but for its length.\<close>

definition good_name :: "string \<Rightarrow> bool" where
  "good_name s \<longleftrightarrow> s \<noteq> [] \<and> list_all label_char s \<and> hd s \<noteq> dash \<and> last s \<noteq> dash"

lemma valid_label_iff: "valid_label s \<longleftrightarrow> good_name s \<and> length s \<le> 63"
  by (auto simp: valid_label_def good_name_def)

lemma trim_dashes_prefix: "\<exists>a b. s = a @ trim_dashes s @ b"
proof -
  define u where "u = dropWhile ((=) dash) s"
  have "s = takeWhile ((=) dash) s @ u" by (simp add: u_def)
  moreover have "rev u = takeWhile ((=) dash) (rev u) @ dropWhile ((=) dash) (rev u)" by simp
  then have "u = trim_dashes s @ rev (takeWhile ((=) dash) (rev u))"
    unfolding trim_dashes_def u_def [symmetric] by (metis rev_append rev_rev_ident)
  ultimately show ?thesis by metis
qed

lemma trim_dashes_chars: "list_all P s \<Longrightarrow> list_all P (trim_dashes s)"
  and trim_dashes_length: "length (trim_dashes s) \<le> length s"
  using trim_dashes_prefix [of s] by (metis list_all_append, metis le_add1 le_add2 le_trans length_append)

lemma trim_dashes_ends:
  assumes "trim_dashes s \<noteq> []"
  shows "hd (trim_dashes s) \<noteq> dash" "last (trim_dashes s) \<noteq> dash"
proof -
  define u where "u = dropWhile ((=) dash) s"
  have t: "trim_dashes s = rev (dropWhile ((=) dash) (rev u))" by (simp add: trim_dashes_def u_def)
  have "dropWhile ((=) dash) (rev u) \<noteq> []" using assms t by simp
  then show "last (trim_dashes s) \<noteq> dash" using hd_dropWhile t by (metis last_rev)
  have "u = trim_dashes s @ rev (takeWhile ((=) dash) (rev u))"
    using t takeWhile_dropWhile_id [of "(=) dash" "rev u"] by (metis rev_append rev_rev_ident)
  then have "hd u = hd (trim_dashes s)" and "u \<noteq> []" using assms by (metis hd_append2, auto)
  moreover have "hd u \<noteq> dash" using hd_dropWhile \<open>u \<noteq> []\<close> unfolding u_def by metis
  ultimately show "hd (trim_dashes s) \<noteq> dash" by simp
qed

lemma trim_dashes_nonempty:
  assumes "c \<in> set s" "c \<noteq> dash"
  shows "trim_dashes s \<noteq> []"
proof
  define u where "u = dropWhile ((=) dash) s"
  assume "trim_dashes s = []"
  then have all: "\<forall>x \<in> set u. dash = x" by (simp add: trim_dashes_def u_def dropWhile_eq_Nil_conv)
  have "u = []"
  proof (rule ccontr)
    assume "u \<noteq> []"
    then have "hd u \<noteq> dash" "hd u \<in> set u" using hd_dropWhile unfolding u_def by (metis, simp)
    with all show False by metis
  qed
  then have "\<forall>x \<in> set s. dash = x" by (simp add: u_def dropWhile_eq_Nil_conv)
  with assms show False by metis
qed

lemma trim_dashes_good: "list_all label_char s \<Longrightarrow> trim_dashes s \<noteq> [] \<Longrightarrow> good_name (trim_dashes s)"
  by (simp add: good_name_def trim_dashes_chars trim_dashes_ends)

lemma good_alnum: "s \<noteq> [] \<Longrightarrow> list_all alnum s \<Longrightarrow> good_name s"
proof -
  assume s: "s \<noteq> []" "list_all alnum s"
  then have "alnum (hd s)" "alnum (last s)" by (simp_all add: list_all_iff)
  then have "hd s \<noteq> dash" "last s \<noteq> dash" using alnum_not_dash by metis+
  with s show ?thesis by (simp add: good_name_def label_char_def list_all_iff)
qed

lemma good_join: "good_name a \<Longrightarrow> good_name b \<Longrightarrow> good_name (a @ dash # b)"
  by (auto simp: good_name_def label_char_def)

lemma trim_dashes_id: "good_name s \<Longrightarrow> trim_dashes s = s"
proof -
  assume "good_name s"
  then have "hd s \<noteq> dash" "last s \<noteq> dash" by (simp_all add: good_name_def)
  then have "dropWhile ((=) dash) s = s" "dropWhile ((=) dash) (rev s) = rev s"
    by (simp_all add: dropWhile_eq_self_iff hd_rev)
  then show ?thesis by (simp add: trim_dashes_def)
qed

lemma squeeze_chars: "list_all label_char (squeeze b s)"
  by (induction b s rule: squeeze.induct) (auto simp: label_char_def)

lemma sanitize_good: "good_name (sanitizeKubernetesName v)"
proof -
  have "good_name ''default''" by code_simp
  then show ?thesis
    by (simp add: sanitizeKubernetesName_def Let_def trim_dashes_good squeeze_chars)
qed

lemma digit_alnum: "is_digit c \<Longrightarrow> alnum c"
  by (auto simp: is_digit_def alnum_def)

lemma compact_digits: "list_all is_digit (format_compact t)" "length (format_compact t) = 14"
  by (simp_all add: format_compact_def pad_digits split: prod.splits)

lemma compact_good: "good_name (format_compact t)"
proof (rule good_alnum)
  show "format_compact t \<noteq> []" using compact_digits(2) [of t] by force
  show "list_all alnum (format_compact t)"
    using compact_digits(1) [of t] by (auto simp: list_all_iff digit_alnum)
qed

text \<open>The name before it is cut to 63 characters.\<close>

definition full_name :: "gtime \<Rightarrow> string \<Rightarrow> string \<Rightarrow> string \<Rightarrow> string" where
  "full_name now planID runID trigger =
     scheduleNameForPlan planID @ (if trigger = ''manual'' \<or> trigger = '''' then ''-m'' else '''') @
     dash # format_compact now @ (if run_suffix runID \<noteq> '''' then dash # run_suffix runID else '''')"

lemma backup_name_full: "backupNameForPlan now planID runID trigger =
  (let name = full_name now planID runID trigger in if length name > 63 then trim_dashes (take 63 name) else name)"
  by (simp add: backupNameForPlan_def full_name_def Let_def dash_def)

lemma suffix_alnum: "list_all alnum (no_dashes runID) \<Longrightarrow> list_all alnum (run_suffix runID)"
  by (auto simp: run_suffix_def Let_def list_all_iff dest: in_set_takeD)

lemma suffix_length: "length (run_suffix runID) \<le> 8"
  by (simp add: run_suffix_def Let_def)

lemma full_name_good:
  assumes "list_all alnum (planUUIDNoDash planID)" "list_all alnum (no_dashes runID)"
  shows "good_name (full_name now planID runID trigger)"
proof -
  have "planUUIDNoDash planID \<noteq> []" by (simp add: planUUIDNoDash_def Let_def)
  then have plan: "good_name (planUUIDNoDash planID)" using assms(1) by (rule good_alnum)
  have "good_name ''hcdr''" "good_name ''m''" by code_simp+
  then have base: "good_name (scheduleNameForPlan planID)"
      "good_name (scheduleNameForPlan planID @ ''-m'')"
    using good_join [OF \<open>good_name ''hcdr''\<close> plan] good_join [of "scheduleNameForPlan planID" "''m''"]
    by (simp_all add: scheduleNameForPlan_def dash_def)
  then have "good_name (scheduleNameForPlan planID @ (if trigger = ''manual'' \<or> trigger = '''' then ''-m'' else ''''))"
    by simp
  from good_join [OF this compact_good [of now]]
  have b: "good_name (scheduleNameForPlan planID @ (if trigger = ''manual'' \<or> trigger = '''' then ''-m'' else '''') @
      dash # format_compact now)" by simp
  show ?thesis
  proof (cases "run_suffix runID = ''''")
    case False
    have "good_name (run_suffix runID)" using False suffix_alnum [OF assms(2)] by (rule good_alnum)
    from good_join [OF b this] False show ?thesis by (simp add: full_name_def)
  qed (use b in \<open>simp add: full_name_def\<close>)
qed

text \<open>The name of a backup is always a valid Kubernetes label: at most 63 characters, lower-case letters,
  digits and dashes, no dash at either end, whatever the trigger and however long the identifiers.\<close>

theorem backup_name_valid:
  assumes "list_all alnum (planUUIDNoDash planID)" "list_all alnum (no_dashes runID)"
  shows "valid_label (backupNameForPlan now planID runID trigger)"
proof -
  define name where "name = full_name now planID runID trigger"
  have good: "good_name name" unfolding name_def by (rule full_name_good [OF assms])
  show ?thesis
  proof (cases "length name > 63")
    case True
    have "hd name \<in> set (take 63 name)" using True by (cases name) auto
    moreover have "hd name \<noteq> dash" using good by (simp add: good_name_def)
    ultimately have ne: "trim_dashes (take 63 name) \<noteq> []" by (rule trim_dashes_nonempty)
    have "list_all label_char (take 63 name)" using good
      by (auto simp: good_name_def list_all_iff dest: in_set_takeD)
    then have "good_name (trim_dashes (take 63 name))" using ne by (rule trim_dashes_good)
    moreover have "length (trim_dashes (take 63 name)) \<le> 63"
      using trim_dashes_length [of "take 63 name"] by simp
    ultimately show ?thesis using True
      by (simp add: backup_name_full name_def [symmetric] valid_label_iff)
  qed (use good in \<open>simp add: backup_name_full name_def [symmetric] valid_label_iff\<close>)
qed

theorem backup_name_valid_witness:
  "valid_label (backupNameForPlan 0 ''8c1f2a34-5b6c-4d7e-8f90-123456789abc'' ''0123-4567-89ab'' ''manual'')"
  by (rule backup_name_valid; code_simp)

lemma full_name_length:
  "length (planUUIDNoDash planID) = 32 \<Longrightarrow> length (full_name now planID runID trigger) \<le> 63"
  using suffix_length [of runID] compact_digits(2) [of now]
  by (simp add: full_name_def scheduleNameForPlan_def)

text \<open>For plans with a UUID nothing is cut off, so the name of a backup tells its plan, its trigger, the second
  it was started and its run: backups of different plans, seconds or runs never share a name.\<close>

theorem backup_name_injective:
  assumes len: "length (planUUIDNoDash p) = 32" "length (planUUIDNoDash p') = 32"
    and eq: "backupNameForPlan now p r g = backupNameForPlan now' p' r' g'"
  shows "planUUIDNoDash p = planUUIDNoDash p' \<and> format_compact now = format_compact now' \<and>
    run_suffix r = run_suffix r' \<and> ((g = ''manual'' \<or> g = '''') \<longleftrightarrow> (g' = ''manual'' \<or> g' = ''''))"
proof -
  let ?m = "\<lambda>g. if g = ''manual'' \<or> g = '''' then ''-m'' else ''''"
  let ?s = "\<lambda>r. if run_suffix r \<noteq> '''' then dash # run_suffix r else ''''"
  have "full_name now p r g = full_name now' p' r' g'"
    using eq full_name_length [OF len(1), of now r g] full_name_length [OF len(2), of now' r' g']
    by (simp add: backup_name_full)
  then have "planUUIDNoDash p @ ?m g @ dash # format_compact now @ ?s r =
      planUUIDNoDash p' @ ?m g' @ dash # format_compact now' @ ?s r'"
    by (simp add: full_name_def scheduleNameForPlan_def)
  then have p: "planUUIDNoDash p = planUUIDNoDash p'"
    and rest: "?m g @ dash # format_compact now @ ?s r = ?m g' @ dash # format_compact now' @ ?s r'"
    using len by auto
  obtain c cs where c: "format_compact now = c # cs" "is_digit c"
    using compact_digits [of now] by (cases "format_compact now") auto
  obtain c' cs' where c': "format_compact now' = c' # cs'" "is_digit c'"
    using compact_digits [of now'] by (cases "format_compact now'") auto
  have "\<not> is_digit (CHR ''m'')" by (simp add: is_digit_def)
  then have m: "(g = ''manual'' \<or> g = '''') \<longleftrightarrow> (g' = ''manual'' \<or> g' = '''')"
    using rest c c' by (auto split: if_splits)
  with rest have "format_compact now @ ?s r = format_compact now' @ ?s r'" by (auto split: if_splits)
  then have "format_compact now = format_compact now'" "?s r = ?s r'"
    using compact_digits(2) [of now] compact_digits(2) [of now'] by auto
  with p m show ?thesis by (auto split: if_splits)
qed

theorem backup_name_injective_witness:
  "backupNameForPlan 0 ''8c1f2a34-5b6c-4d7e-8f90-123456789abc'' ''r1'' ''scheduled'' \<noteq>
   backupNameForPlan 0 ''8c1f2a34-5b6c-4d7e-8f90-123456789abd'' ''r1'' ''scheduled''"
proof
  assume eq: "backupNameForPlan 0 ''8c1f2a34-5b6c-4d7e-8f90-123456789abc'' ''r1'' ''scheduled'' =
   backupNameForPlan 0 ''8c1f2a34-5b6c-4d7e-8f90-123456789abd'' ''r1'' ''scheduled''"
  have l: "length (planUUIDNoDash ''8c1f2a34-5b6c-4d7e-8f90-123456789abc'') = 32"
    "length (planUUIDNoDash ''8c1f2a34-5b6c-4d7e-8f90-123456789abd'') = 32" by code_simp+
  have "planUUIDNoDash ''8c1f2a34-5b6c-4d7e-8f90-123456789abc'' \<noteq>
      planUUIDNoDash ''8c1f2a34-5b6c-4d7e-8f90-123456789abd''" by code_simp
  with backup_name_injective [OF l eq] show False by blast
qed

text \<open>The name of a storage location is a valid Kubernetes label and ends in the identifier of the cluster,
  for every repository name, as long as the sanitized identifier has at most 61 characters, which a UUID
  does.\<close>

theorem bsl_name_valid:
  assumes "length (sanitizeKubernetesName (trim_space clusterID)) \<le> 61"
  shows "valid_label (storageDomainBSLName repoName clusterID) \<and>
    (\<exists>base. storageDomainBSLName repoName clusterID = base @ dash # sanitizeKubernetesName (trim_space clusterID))"
proof -
  define base where "base = sanitizeKubernetesName repoName"
  define src where "src = sanitizeKubernetesName (trim_space clusterID)"
  have g: "good_name base" "good_name src" unfolding base_def src_def by (rule sanitize_good)+
  then have src: "src \<noteq> []" by (simp add: good_name_def)
  show ?thesis
  proof (cases "length base + length src \<le> 62")
    case True
    have name: "good_name (base @ dash # src)" by (rule good_join [OF g])
    have "storageDomainBSLName repoName clusterID = base @ dash # src"
      using True src name
      by (simp add: storageDomainBSLName_def base_def [symmetric] src_def [symmetric] Let_def trim_dashes_id
          dash_def [symmetric])
    then show ?thesis using name True by (auto simp: valid_label_iff src_def)
  next
    case False
    define n where "n = 62 - length src"
    have n: "1 \<le> n" "n < length base" using False assms by (auto simp: n_def src_def)
    define cut where "cut = trim_dashes (take n base)"
    have "hd base \<in> set (take n base)" using n by (cases base; cases n) auto
    moreover have "hd base \<noteq> dash" using g(1) by (simp add: good_name_def)
    ultimately have "cut \<noteq> []" unfolding cut_def by (rule trim_dashes_nonempty)
    moreover have "list_all label_char (take n base)"
      using g(1) by (auto simp: good_name_def list_all_iff dest: in_set_takeD)
    ultimately have "good_name cut" unfolding cut_def by (intro trim_dashes_good)
    then have name: "good_name (cut @ dash # src)" using g(2) by (rule good_join)
    have len: "length cut \<le> n" using trim_dashes_length [of "take n base"] by (simp add: cut_def)
    have "nat (62 - int (length src)) = n" "\<not> 62 - int (length src) < 1"
      using assms by (auto simp: n_def src_def)
    then have "storageDomainBSLName repoName clusterID = cut @ dash # src"
      using False src name n
      by (simp add: storageDomainBSLName_def base_def [symmetric] src_def [symmetric] Let_def trim_dashes_id
          cut_def [symmetric] dash_def [symmetric] min_def)
    then show ?thesis using name len assms by (auto simp: valid_label_iff src_def n_def)
  qed
qed

theorem bsl_name_valid_witness:
  "valid_label (storageDomainBSLName ''Main backup store'' ''8c1f2a34-5b6c-4d7e-8f90-123456789abc'')"
proof -
  have "length (sanitizeKubernetesName (trim_space ''8c1f2a34-5b6c-4d7e-8f90-123456789abc'')) \<le> 61"
    by code_simp
  from bsl_name_valid [OF this] show ?thesis by blast
qed

text \<open>Characters a sanitized name does not tell apart: a letter in both cases, and any two that are neither letter nor digit.\<close>

definition same_in_name :: "char \<Rightarrow> char \<Rightarrow> bool" where
  "same_in_name x y \<longleftrightarrow> lower_char x = lower_char y \<or> \<not> alnum (lower_char x) \<and> \<not> alnum (lower_char y)"

lemma squeeze_same: "list_all2 same_in_name a b \<Longrightarrow> squeeze lastDash (to_lower a) = squeeze lastDash (to_lower b)"
  by (induction arbitrary: lastDash rule: list_all2_induct) (auto simp: to_lower_def same_in_name_def)

text \<open>C34: Repositories with different names can get the same storage location in a cluster. Names are unique per tenant as
  they are written, but the location is named after their sanitized form: two names of the same length that
  differ only in the case of letters, or in which of the other characters separates their parts, share it.\<close>

theorem bsl_name_collision:
  assumes "list_all2 same_in_name a b" "trim_space a = a" "trim_space b = b"
  shows "storageDomainBSLName a clusterID = storageDomainBSLName b clusterID"
  using squeeze_same [OF assms(1)] assms(2,3) by (simp add: storageDomainBSLName_def sanitizeKubernetesName_def)

theorem bsl_name_collision_witness:
  "''My Store'' \<noteq> ''my-store'' \<and> storageDomainBSLName ''My Store'' ''c1'' = storageDomainBSLName ''my-store'' ''c1''"
proof -
  have "list_all2 same_in_name ''My Store'' ''my-store''" "trim_space ''My Store'' = ''My Store''"
    "trim_space ''my-store'' = ''my-store''" by code_simp+
  from bsl_name_collision [OF this] show ?thesis by simp
qed

end
