(* ===== verification/Velero_Manifests.thy ===== *)
theory Velero_Manifests
  imports Kube_Names Store_Types Go_Json "HOL-Library.Word"
begin

text \<open>
  The objects the agent hands to Velero (\<^verbatim>\<open>internal/velero/backup.go\<close>, \<^verbatim>\<open>schedule.go\<close>, \<^verbatim>\<open>restore.go\<close> and \<^verbatim>\<open>storage.go\<close>), built from
  the commands of the platform. An absent pointer is \<open>None\<close>; nil and empty slices and maps are not told apart,
  since the encoder omits both. \<open>now\<close> is the time of the call, for names. Labels and configuration maps are
  association lists without duplicate keys.
\<close>

unbundle bit_operations_syntax

section \<open>Commands\<close>

record BackupCommand =
  bc_PlanID :: string
  bc_Trigger :: string
  bc_SourceClusterID :: string
  bc_SourceNamespace :: string
  bc_SourceNamespaces :: "string list"
  bc_VeleroBackupName :: string
  bc_Scope :: string
  bc_IncludedResources :: "string list"
  bc_LabelSelector :: LabelSelector
  bc_StorageRepo :: string
  bc_IncludeClusterResources :: bool
  bc_ExcludedResources :: "string list"
  bc_ResourceSelection :: ResourceSelection

record ExcludeRule =
  er_Group :: string
  er_Resource :: string
  er_Name :: string
  er_Version :: string
  er_Labels :: string

record ScheduleSyncCommand =
  sc_PlanID :: string
  sc_ScheduleName :: string
  sc_Cron :: string
  sc_SourceNamespace :: string
  sc_SourceNamespaces :: "string list"
  sc_Scope :: string
  sc_IncludedResources :: "string list"
  sc_LabelSelector :: string
  sc_Selector :: LabelSelector
  sc_StorageRepo :: string
  sc_IncludeClusterResources :: bool
  sc_ExcludeResources :: "ExcludeRule list"
  sc_ResourceSelection :: ResourceSelection

record RestoreCommand =
  rc_RestorePointID :: string
  rc_VeleroBackupName :: string
  rc_StorageRepo :: string
  rc_SourceNamespace :: string
  rc_SourceNamespaces :: "string list"
  rc_TargetNamespace :: string
  rc_TargetNamespaces :: "(string \<times> string) list"
  rc_TargetMode :: string
  rc_RestoreMode :: string
  rc_ArtifactMode :: string
  rc_ConflictPolicy :: string
  rc_IncludeClusterScoped :: bool
  rc_UseTransforms :: bool
  rc_TransformPreset :: string
  rc_StorageProfileMode :: string
  rc_AlternateProfileID :: string
  rc_IncludedResources :: "string list"
  rc_ExcludedResources :: "string list"
  rc_StorageClassMappings :: "(string \<times> string) list"
  rc_ImageMappings :: "(string \<times> string) list"
  rc_ServiceNodePortMappings :: "(string \<times> int) list"
  rc_WaitForWorkloads :: bool
  rc_RunValidation :: bool
  rc_ForceStart :: bool
  rc_ContentCatalogLoaded :: bool
  rc_PersistentDataExpected :: bool
  rc_ReadinessExpectationsKnown :: bool
  rc_RuntimeWorkloadsExpected :: bool
  rc_ExpectedPVCs :: "string list"

record S3Credentials =
  cr_AccessKey :: string
  cr_SecretKey :: string
  cr_AccountName :: string
  cr_AccountKey :: string
  cr_ServiceAccountKey :: string

record StorageSyncCommand =
  sy_RepositoryID :: string
  sy_Name :: string
  sy_Type :: string
  sy_Endpoint :: string
  sy_Bucket :: string
  sy_Region :: string
  sy_TLSEnabled :: bool
  sy_SecretRef :: string
  sy_Credentials :: "S3Credentials option"
  sy_Config :: gomap

section \<open>Manifests\<close>

record ManifestMetadata =
  mm_Name :: string
  mm_Namespace :: string
  mm_Labels :: "(string \<times> string) list"

record BackupManifestSpec =
  bs_Metadata :: "(string \<times> string) list option"
  bs_IncludedNamespaces :: "string list"
  bs_IncludedResources :: "string list"
  bs_ExcludedNamespaces :: "string list"
  bs_ExcludedResources :: "string list"
  bs_IncludedClusterScopedResources :: "string list"
  bs_IncludedNamespaceScopedResources :: "string list"
  bs_ExcludedClusterScopedResources :: "string list"
  bs_ExcludedNamespaceScopedResources :: "string list"
  bs_LabelSelector :: "LabelSelector option"
  bs_StorageLocation :: string
  bs_IncludeClusterResources :: "bool option"
  bs_SnapshotVolumes :: "bool option"
  bs_DefaultVolumesToFsBackup :: "bool option"

record BackupManifest =
  bm_APIVersion :: string
  bm_Kind :: string
  bm_Metadata :: ManifestMetadata
  bm_Spec :: BackupManifestSpec

record ScheduleManifest =
  sm_APIVersion :: string
  sm_Kind :: string
  sm_Metadata :: ManifestMetadata
  sm_Schedule :: string
  sm_Template :: BackupManifestSpec

record DeleteBackupRequestManifest =
  dm_APIVersion :: string
  dm_Kind :: string
  dm_Metadata :: ManifestMetadata
  dm_BackupName :: string

record RestoreManifestSpec =
  rs_BackupName :: string
  rs_IncludedNamespaces :: "string list"
  rs_NamespaceMapping :: "(string \<times> string) list"
  rs_IncludeClusterResources :: bool
  rs_ExistingResourcePolicy :: string
  rs_PreserveNodePorts :: "bool option"
  rs_ResourceModifier :: "(string \<times> string \<times> string) option"
  rs_IncludedResources :: "string list"
  rs_ExcludedResources :: "string list"

record RestoreManifest =
  rm_APIVersion :: string
  rm_Kind :: string
  rm_Metadata :: ManifestMetadata
  rm_Spec :: RestoreManifestSpec
  rm_StorageClassMappings :: "(string \<times> string) list"
  rm_ImageMappings :: "(string \<times> string) list"

record ResourceModifierConfigMap =
  cm_APIVersion :: string
  cm_Kind :: string
  cm_Metadata :: ManifestMetadata
  cm_Data :: "(string \<times> string) list"

record BackupStorageLocationManifestSpec =
  ls_Provider :: string
  ls_Bucket :: string
  ls_Prefix :: string
  ls_Config :: "(string \<times> string) list"
  ls_Credential :: "(string \<times> string) option"
  ls_Default :: bool
  ls_ValidationFrequency :: string
  ls_BackupSyncPeriod :: string
  ls_AccessMode :: string

record BackupStorageLocationManifest =
  lm_APIVersion :: string
  lm_Kind :: string
  lm_Metadata :: ManifestMetadata
  lm_Spec :: BackupStorageLocationManifestSpec

record SecretManifest =
  se_APIVersion :: string
  se_Kind :: string
  se_Metadata :: ManifestMetadata
  se_Type :: string
  se_StringData :: "(string \<times> string) list"

record StorageManifests =
  st_Secret :: "SecretManifest option"
  st_BackupStorageLocation :: BackupStorageLocationManifest

record BackupBuildInput =
  bi_TaskID :: string
  bi_CommandID :: string
  bi_SourceClusterID :: string
  bi_AgentNamespace :: string
  bi_Command :: BackupCommand

record ScheduleBuildInput =
  si_TaskID :: string
  si_CommandID :: string
  si_SourceClusterID :: string
  si_AgentNamespace :: string
  si_Command :: ScheduleSyncCommand

record RestoreBuildInput =
  rb_TaskID :: string
  rb_CommandID :: string
  rb_TaskType :: string
  rb_AgentNamespace :: string
  rb_Command :: RestoreCommand

record StorageBuildInput =
  tb_TaskID :: string
  tb_CommandID :: string
  tb_AgentNamespace :: string
  tb_Command :: StorageSyncCommand

section \<open>Names\<close>

text \<open>The pattern \<^verbatim>\<open>[^a-z0-9-]+\<close> replaced by a dash; characters beyond ASCII are outside it byte by byte.\<close>

fun replace_runs :: "bool \<Rightarrow> string \<Rightarrow> string" where
  "replace_runs inRun [] = []"
| "replace_runs inRun (c # s) =
     (if label_char c then c # replace_runs False s
      else if inRun then replace_runs True s
      else dash # replace_runs True s)"

definition sanitizeName :: "string \<Rightarrow> string" where
  "sanitizeName v = (let v = trim_dashes (replace_runs False (to_lower v)) in if v = '''' then ''backup'' else v)"

definition sanitizeTaskID :: "string \<Rightarrow> string" where
  "sanitizeTaskID taskID =
     (let taskPart = no_dashes taskID;
          taskPart = (if length taskPart > 8 then take 8 taskPart else taskPart)
      in if taskPart = '''' then ''task'' else taskPart)"

definition backupName :: "gtime \<Rightarrow> string \<Rightarrow> string \<Rightarrow> string" where
  "backupName now namespace taskID =
     (let taskPart = sanitizeTaskID taskID;
          base = ''hcdr-'' @ sanitizeName namespace @ ''-'' @ format_compact now @ ''-'' @ taskPart
      in if length base > 63 then take 63 base else base)"

definition restoreName :: "string \<Rightarrow> string \<Rightarrow> string" where
  "restoreName namespace taskID =
     (let taskPart = sanitizeTaskID taskID;
          base = ''hcdr-restore-'' @ sanitizeName namespace @ ''-'' @ taskPart
      in if length base > 63 then take 63 base else base)"

definition resourceModifierName :: "string \<Rightarrow> string" where
  "resourceModifierName name =
     (let suffix = ''-restore-mod'' in
      if length name + length suffix \<le> 63 then name @ suffix else take (63 - length suffix) name @ suffix)"

text \<open>\<^verbatim>\<open>hash/fnv\<close>: FNV-1a with 32 bits, printed as eight hexadecimal digits.\<close>

definition fnv32a :: "string \<Rightarrow> 32 word" where
  "fnv32a s = foldl (\<lambda>h c. (h XOR word_of_nat (of_char c)) * 16777619) 2166136261 s"

definition hex_digit :: "nat \<Rightarrow> char" where
  "hex_digit d = ''0123456789abcdef'' ! d"

definition hex8 :: "32 word \<Rightarrow> string" where
  "hex8 w = map (\<lambda>i. hex_digit (unat w div 16 ^ i mod 16)) [7, 6, 5, 4, 3, 2, 1, 0]"

definition deleteBackupRequestName :: "string \<Rightarrow> string" where
  "deleteBackupRequestName name =
     (let suffix = ''-'' @ hex8 (fnv32a name);
          prefix = ''hcdr-delete-'' @ sanitizeName name;
          maxPrefix = 63 - length suffix;
          prefix = (if length prefix > maxPrefix then trim_dashes (take maxPrefix prefix) else prefix);
          prefix = (if prefix = '''' then ''hcdr-delete'' else prefix)
      in trim_dashes (prefix @ suffix))"

section \<open>Backups\<close>

text \<open>The errors of the builders, by their text without arguments.\<close>

datatype build_error = BuildError string

definition default_agent_namespace :: "string \<Rightarrow> string" where
  "default_agent_namespace ns = (if ns = '''' then ''hypercdr-agent'' else ns)"

definition source_namespaces :: "string list \<Rightarrow> string \<Rightarrow> string list" where
  "source_namespaces many one = (if many = [] \<and> one \<noteq> '''' then [one] else many)"

text \<open>\<open>add\<close> of \<^verbatim>\<open>expandScopedResourceExclusions\<close>: \<^verbatim>\<open>seen\<close> is the set of what is in \<^verbatim>\<open>out\<close>.\<close>

definition add_exclusion :: "string \<Rightarrow> string list \<Rightarrow> string list" where
  "add_exclusion resource out =
     (let resource = trim_space resource in
      if resource = '''' \<or> resource \<in> set out then out else out @ [resource])"

definition expandScopedResourceExclusions :: "string list \<Rightarrow> string list" where
  "expandScopedResourceExclusions resources = foldl (\<lambda>out resource.
     let out = add_exclusion resource out in
     if resource = ''events'' then add_exclusion ''events.events.k8s.io'' out
     else if resource = ''events.events.k8s.io'' then add_exclusion ''events'' out
     else out) [] resources"

definition exclude_key :: "string \<Rightarrow> string \<Rightarrow> string" where
  "exclude_key grp resource = (if grp = '''' then resource else grp @ ''/'' @ resource)"

definition convertExcludeRules :: "ExcludeRule list \<Rightarrow> string list" where
  "convertExcludeRules rules = foldl (\<lambda>out r.
     let grp = trim_space (er_Group r); grp = (if grp = ''core'' then '''' else grp) in
     foldl (\<lambda>out item.
       let resource = trim_space item; key = exclude_key grp resource in
       if resource = '''' \<or> key \<in> set out then out else out @ [key]) out (split_on CHR '','' (er_Resource r))) [] rules"

definition has_selector :: "LabelSelector \<Rightarrow> bool" where
  "has_selector s \<longleftrightarrow> ls_MatchLabels s \<noteq> [] \<or> ls_MatchExpressions s \<noteq> []"

definition backup_labels :: "BackupBuildInput \<Rightarrow> string \<Rightarrow> string \<Rightarrow> (string \<times> string) list" where
  "backup_labels input sourceNamespace trigger =
     [(''hypercdr.io/task-id'', bi_TaskID input), (''hypercdr.io/command-id'', bi_CommandID input),
      (''hypercdr.io/managed-by'', ''hypercdr''), (''hypercdr.io/source-namespace'', sourceNamespace),
      (''hypercdr.io/backup-mode'', trigger)] @
     (if bc_PlanID (bi_Command input) \<noteq> '''' then [(''hypercdr.io/plan-id'', bc_PlanID (bi_Command input))] else []) @
     (if bi_SourceClusterID input \<noteq> '''' then [(''hypercdr.io/source-cluster-id'', bi_SourceClusterID input)] else [])"

definition backup_spec :: "BackupCommand \<Rightarrow> string list \<Rightarrow> BackupManifestSpec" where
  "backup_spec cmd sourceNamespaces =
     (let sel = bc_ResourceSelection cmd;
          spec = \<lparr>bs_Metadata = None, bs_IncludedNamespaces = sourceNamespaces,
            bs_IncludedResources = bc_IncludedResources cmd, bs_ExcludedNamespaces = [],
            bs_ExcludedResources = bc_ExcludedResources cmd, bs_IncludedClusterScopedResources = [],
            bs_IncludedNamespaceScopedResources = [], bs_ExcludedClusterScopedResources = [],
            bs_ExcludedNamespaceScopedResources = [], bs_LabelSelector = None,
            bs_StorageLocation = bc_StorageRepo cmd, bs_IncludeClusterResources = Some (bc_IncludeClusterResources cmd),
            bs_SnapshotVolumes = Some False, bs_DefaultVolumesToFsBackup = Some True\<rparr>;
          spec = (if rsel_Mode sel = ''exclude'' then
              spec\<lparr>bs_IncludedResources := [], bs_ExcludedResources := [], bs_IncludedNamespaceScopedResources := [''*''],
                bs_ExcludedNamespaceScopedResources := expandScopedResourceExclusions (rsel_NamespaceScoped sel),
                bs_ExcludedClusterScopedResources := [''*''], bs_IncludeClusterResources := None\<rparr>
            else if rsel_Mode sel = ''custom'' then
              spec\<lparr>bs_IncludedResources := [], bs_ExcludedResources := [],
                bs_IncludedNamespaceScopedResources := rsel_NamespaceScoped sel,
                bs_IncludedClusterScopedResources := rsel_ClusterScoped sel,
                bs_ExcludedClusterScopedResources := (if rsel_ClusterScoped sel = [] then [''*''] else []),
                bs_IncludeClusterResources := None\<rparr>
            else spec)
      in if has_selector (bc_LabelSelector cmd) then spec\<lparr>bs_LabelSelector := Some (bc_LabelSelector cmd)\<rparr> else spec)"

definition BuildBackupManifest :: "gtime \<Rightarrow> BackupBuildInput \<Rightarrow> build_error + BackupManifest" where
  "BuildBackupManifest now input =
     (let cmd = bi_Command input;
          sourceNamespaces = source_namespaces (bc_SourceNamespaces cmd) (bc_SourceNamespace cmd)
      in if sourceNamespaces = [] then Inl (BuildError ''backup source namespace is required'')
         else let sourceNamespace = hd sourceNamespaces;
                  agentNamespace = default_agent_namespace (bi_AgentNamespace input)
         in if agentNamespace \<in> set sourceNamespaces then Inl (BuildError ''refusing to back up agent namespace'')
         else let name = (if bc_VeleroBackupName cmd = '''' then backupName now sourceNamespace (bi_TaskID input)
                          else bc_VeleroBackupName cmd);
                  trigger = (if bc_Trigger cmd = '''' then ''manual'' else bc_Trigger cmd)
         in Inr \<lparr>bm_APIVersion = ''velero.io/v1'', bm_Kind = ''Backup'',
              bm_Metadata = \<lparr>mm_Name = name, mm_Namespace = agentNamespace,
                mm_Labels = backup_labels input sourceNamespace trigger\<rparr>,
              bm_Spec = backup_spec cmd sourceNamespaces\<rparr>)"

section \<open>Schedules\<close>

text \<open>\<^verbatim>\<open>strings.Cut\<close> at the first separator.\<close>

definition cut :: "char \<Rightarrow> string \<Rightarrow> (string \<times> string) option" where
  "cut c s = (case dropWhile (\<lambda>x. x \<noteq> c) s of [] \<Rightarrow> None | _ # rest \<Rightarrow> Some (takeWhile (\<lambda>x. x \<noteq> c) s, rest))"

definition legacy_label :: "string \<Rightarrow> (string \<times> string) option" where
  "legacy_label part = (case cut CHR ''='' (trim_space part) of None \<Rightarrow> None
     | Some (key, val) \<Rightarrow> if trim_space key \<noteq> '''' \<and> trim_space val \<noteq> '''' then Some (trim_space key, trim_space val) else None)"

definition parseLegacyScheduleLabelSelector :: "string \<Rightarrow> LabelSelector option" where
  "parseLegacyScheduleLabelSelector selector =
     (let labels = foldl (\<lambda>m part. case legacy_label part of None \<Rightarrow> m | Some (k, v) \<Rightarrow> mset_key k v m) []
            (split_on CHR '','' selector)
      in if labels = [] then None else Some \<lparr>ls_MatchLabels = labels, ls_MatchExpressions = []\<rparr>)"

definition schedule_labels :: "ScheduleBuildInput \<Rightarrow> string list \<Rightarrow> (string \<times> string) list" where
  "schedule_labels input sourceNamespaces =
     [(''hypercdr.io/managed-by'', ''hypercdr''), (''hypercdr.io/plan-id'', sc_PlanID (si_Command input)),
      (''hypercdr.io/task-id'', si_TaskID input), (''hypercdr.io/command-id'', si_CommandID input)] @
     (if si_SourceClusterID input \<noteq> '''' then [(''hypercdr.io/source-cluster-id'', si_SourceClusterID input)] else []) @
     (if length sourceNamespaces = 1 then [(''hypercdr.io/source-namespace'', hd sourceNamespaces)] else [])"

definition schedule_template :: "ScheduleSyncCommand \<Rightarrow> (string \<times> string) list \<Rightarrow> string list \<Rightarrow> BackupManifestSpec" where
  "schedule_template cmd labels sourceNamespaces =
     (let sel = sc_ResourceSelection cmd;
          template = \<lparr>bs_Metadata = Some labels, bs_IncludedNamespaces = sourceNamespaces,
            bs_IncludedResources = sc_IncludedResources cmd, bs_ExcludedNamespaces = [],
            bs_ExcludedResources = convertExcludeRules (sc_ExcludeResources cmd), bs_IncludedClusterScopedResources = [],
            bs_IncludedNamespaceScopedResources = [], bs_ExcludedClusterScopedResources = [],
            bs_ExcludedNamespaceScopedResources = [], bs_LabelSelector = None,
            bs_StorageLocation = sc_StorageRepo cmd, bs_IncludeClusterResources = Some (sc_IncludeClusterResources cmd),
            bs_SnapshotVolumes = Some False, bs_DefaultVolumesToFsBackup = Some True\<rparr>;
          template = (if sc_LabelSelector cmd \<noteq> ''''
              then template\<lparr>bs_LabelSelector := parseLegacyScheduleLabelSelector (sc_LabelSelector cmd)\<rparr>
            else if has_selector (sc_Selector cmd) then template\<lparr>bs_LabelSelector := Some (sc_Selector cmd)\<rparr>
            else template)
      in if rsel_Mode sel = ''exclude'' then
           template\<lparr>bs_IncludedResources := [], bs_ExcludedResources := [], bs_IncludedNamespaceScopedResources := [''*''],
             bs_ExcludedNamespaceScopedResources := expandScopedResourceExclusions (rsel_NamespaceScoped sel),
             bs_ExcludedClusterScopedResources := [''*''], bs_IncludeClusterResources := None\<rparr>
         else if rsel_Mode sel = ''custom'' then
           template\<lparr>bs_IncludedResources := [], bs_ExcludedResources := [],
             bs_IncludedNamespaceScopedResources := rsel_NamespaceScoped sel,
             bs_IncludedClusterScopedResources := rsel_ClusterScoped sel,
             bs_ExcludedClusterScopedResources := (if rsel_ClusterScoped sel = [] then [''*''] else []),
             bs_IncludeClusterResources := None\<rparr>
         else template)"

definition BuildScheduleManifest :: "ScheduleBuildInput \<Rightarrow> build_error + ScheduleManifest" where
  "BuildScheduleManifest input =
     (let cmd = si_Command input in
      if sc_PlanID cmd = '''' then Inl (BuildError ''schedule plan id is required'')
      else if sc_Cron cmd = '''' then Inl (BuildError ''schedule cron is required'')
      else let sourceNamespaces = source_namespaces (sc_SourceNamespaces cmd) (sc_SourceNamespace cmd)
      in if sourceNamespaces = [] then Inl (BuildError ''schedule source namespaces are required'')
      else let agentNamespace = default_agent_namespace (si_AgentNamespace input)
      in if agentNamespace \<in> set sourceNamespaces then Inl (BuildError ''refusing to schedule agent namespace'')
      else let name = (if sc_ScheduleName cmd = '''' then ''hcdr-plan-'' @ sanitizeName (sc_PlanID cmd) else sc_ScheduleName cmd);
               labels = schedule_labels input sourceNamespaces
      in Inr \<lparr>sm_APIVersion = ''velero.io/v1'', sm_Kind = ''Schedule'',
           sm_Metadata = \<lparr>mm_Name = name, mm_Namespace = agentNamespace, mm_Labels = labels\<rparr>,
           sm_Schedule = sc_Cron cmd, sm_Template = schedule_template cmd labels sourceNamespaces\<rparr>)"

definition BuildDeleteBackupRequestManifest :: "string \<Rightarrow> string \<Rightarrow> build_error + DeleteBackupRequestManifest" where
  "BuildDeleteBackupRequestManifest agentNamespace name =
     (if name = '''' then Inl (BuildError ''backup name is required'')
      else Inr \<lparr>dm_APIVersion = ''velero.io/v1'', dm_Kind = ''DeleteBackupRequest'',
        dm_Metadata = \<lparr>mm_Name = trim_dashes (deleteBackupRequestName name),
          mm_Namespace = default_agent_namespace agentNamespace, mm_Labels = [(''hypercdr.io/managed-by'', ''hypercdr'')]\<rparr>,
        dm_BackupName = name\<rparr>)"

section \<open>Restores\<close>

definition existingResourcePolicy :: "string \<Rightarrow> string" where
  "existingResourcePolicy conflictPolicy =
     (if conflictPolicy \<in> {''update'', ''overwrite'', ''replace''} then ''update'' else ''none'')"

definition shouldPreserveNodePorts :: "RestoreCommand \<Rightarrow> bool" where
  "shouldPreserveNodePorts command \<longleftrightarrow>
     rc_ConflictPolicy command = ''replace'' \<and> rc_TargetNamespace command = rc_SourceNamespace command"

definition restore_mapping :: "RestoreCommand \<Rightarrow> string \<Rightarrow> (string \<times> string) list" where
  "restore_mapping cmd sourceNamespace =
     (if rc_TargetNamespaces cmd \<noteq> [] then rc_TargetNamespaces cmd
      else if rc_TargetNamespace cmd \<noteq> '''' \<and> rc_TargetNamespace cmd \<noteq> sourceNamespace
      then [(sourceNamespace, rc_TargetNamespace cmd)] else [])"

definition BuildRestoreManifest :: "RestoreBuildInput \<Rightarrow> build_error + RestoreManifest" where
  "BuildRestoreManifest input =
     (let cmd = rb_Command input in
      if rc_VeleroBackupName cmd = '''' then Inl (BuildError ''restore velero backup name is required'')
      else let sourceNamespaces = source_namespaces (rc_SourceNamespaces cmd) (rc_SourceNamespace cmd)
      in if sourceNamespaces = [] then Inl (BuildError ''restore source namespace is required'')
      else let sourceNamespace = hd sourceNamespaces;
               name = restoreName sourceNamespace (rb_TaskID input)
      in Inr \<lparr>rm_APIVersion = ''velero.io/v1'', rm_Kind = ''Restore'',
           rm_Metadata = \<lparr>mm_Name = name, mm_Namespace = default_agent_namespace (rb_AgentNamespace input),
             mm_Labels = [(''hypercdr.io/task-id'', rb_TaskID input), (''hypercdr.io/command-id'', rb_CommandID input),
               (''hypercdr.io/task-type'', rb_TaskType input), (''hypercdr.io/restore-mode'', rc_RestoreMode cmd),
               (''hypercdr.io/conflict-policy'', rc_ConflictPolicy cmd), (''hypercdr.io/source-namespace'', sourceNamespace),
               (''hypercdr.io/target-namespace'', rc_TargetNamespace cmd)]\<rparr>,
           rm_Spec = \<lparr>rs_BackupName = rc_VeleroBackupName cmd, rs_IncludedNamespaces = sourceNamespaces,
             rs_NamespaceMapping = restore_mapping cmd sourceNamespace,
             rs_IncludeClusterResources = rc_IncludeClusterScoped cmd,
             rs_ExistingResourcePolicy = existingResourcePolicy (rc_ConflictPolicy cmd),
             rs_PreserveNodePorts = Some (shouldPreserveNodePorts cmd),
             rs_ResourceModifier = Some ('''', ''configmap'', resourceModifierName name),
             rs_IncludedResources = rc_IncludedResources cmd, rs_ExcludedResources = rc_ExcludedResources cmd\<rparr>,
           rm_StorageClassMappings = rc_StorageClassMappings cmd, rm_ImageMappings = rc_ImageMappings cmd\<rparr>)"

text \<open>\<^verbatim>\<open>json.Marshal\<close> of a string; bytes beyond ASCII are taken to be valid and stay as they are.\<close>

definition backslash :: char where
  "backslash = CHR 0x5C"

definition json_escape :: "char \<Rightarrow> string" where
  "json_escape c = (let n = of_char c :: nat in
     if n = 34 \<or> n = 92 then [backslash, c]
     else if n = 8 then [backslash, CHR ''b''] else if n = 9 then [backslash, CHR ''t'']
     else if n = 10 then [backslash, CHR ''n''] else if n = 12 then [backslash, CHR ''f'']
     else if n = 13 then [backslash, CHR ''r'']
     else if n < 32 \<or> n \<in> {38, 60, 62}
     then backslash # ''u00'' @ [hex_digit (n div 16), hex_digit (n mod 16)] else [c])"

definition yamlString :: "string \<Rightarrow> string" where
  "yamlString v = CHR 0x22 # concat (map json_escape v) @ [CHR 0x22]"

definition sortedMappingKeys :: "(string \<times> string) list \<Rightarrow> string list" where
  "sortedMappingKeys values = sort (map fst (filter (\<lambda>(k, v). k \<noteq> '''' \<and> v \<noteq> '''') values))"

definition unlines :: "string list \<Rightarrow> string" where
  "unlines ls = concat (map (\<lambda>l. l @ [CHR 0x0A]) ls)"

definition condition_lines :: "string \<Rightarrow> string list \<Rightarrow> string list" where
  "condition_lines resource namespaces = [''- conditions:'', ''    groupResource: '' @ resource, ''    namespaces:''] @
     map (\<lambda>namespace. ''    - '' @ namespace) namespaces"

definition replace_lines :: "string \<Rightarrow> string \<Rightarrow> string \<Rightarrow> string list" where
  "replace_lines path source target = [''    matches:'', ''    - path: '' @ path, ''      value: '' @ yamlString source,
     ''  patches:'', ''  - operation: replace'', ''    path: '' @ path, ''    value: '' @ yamlString target]"

definition image_paths :: "string list" where
  "image_paths = concat (map (\<lambda>containers. map (\<lambda>index. ''/spec/'' @ containers @ ''/'' @ show_nat index @ ''/image'')
     [0 ..< 10]) [''containers'', ''initContainers''])"

definition restoreResourceModifierYAML ::
  "string list \<Rightarrow> bool \<Rightarrow> bool \<Rightarrow> (string \<times> string) list \<Rightarrow> (string \<times> string) list \<Rightarrow> string" where
  \<open>restoreResourceModifierYAML namespaces preserveNodePorts resetPodNetwork storageMappings imageMappings = unlines (
     [''version: v1'', ''resourceModifierRules:''] @ condition_lines ''persistentvolumeclaims'' namespaces @
     [''  mergePatches:'', ''  - patchData: |'', ''      {"spec":{"volumeName":null}}''] @
     (if resetPodNetwork then condition_lines ''pods'' namespaces @
        [''  mergePatches:'', ''  - patchData: |'',
         ''      {"metadata":{"annotations":{"k8s.ovn.org/pod-networks":null,"k8s.v1.cni.cncf.io/network-status":null}}}'']
      else []) @
     (if \<not> preserveNodePorts then condition_lines ''services'' namespaces @
        [''    matches:'', ''    - path: "/spec/type"'', ''      value: "NodePort"'', ''  patches:'',
         ''  - operation: remove'', ''    path: "/spec/ports/0/nodePort"'']
      else []) @
     concat (map (\<lambda>source. condition_lines ''persistentvolumeclaims'' namespaces @
        replace_lines ''/spec/storageClassName'' source (the (map_of storageMappings source))) (sortedMappingKeys storageMappings)) @
     concat (map (\<lambda>source. concat (map (\<lambda>path. condition_lines ''pods'' namespaces @
        replace_lines path source (the (map_of imageMappings source))) image_paths)) (sortedMappingKeys imageMappings)))\<close>

definition BuildRestoreResourceModifierConfigMap :: "RestoreManifest \<Rightarrow> ResourceModifierConfigMap" where
  "BuildRestoreResourceModifierConfigMap manifest =
     (let spec = rm_Spec manifest;
          namespaces = (if rs_IncludedNamespaces spec = [] then [''*''] else rs_IncludedNamespaces spec);
          preserveNodePorts = (rs_PreserveNodePorts spec = Some True);
          resetPodNetwork = list_ex (\<lambda>(source, target). source \<noteq> '''' \<and> target \<noteq> '''' \<and> source \<noteq> target) (rs_NamespaceMapping spec)
      in \<lparr>cm_APIVersion = ''v1'', cm_Kind = ''ConfigMap'',
           cm_Metadata = \<lparr>mm_Name = resourceModifierName (mm_Name (rm_Metadata manifest)),
             mm_Namespace = mm_Namespace (rm_Metadata manifest), mm_Labels = mm_Labels (rm_Metadata manifest)\<rparr>,
           cm_Data = [(''resource-modifiers.yaml'', restoreResourceModifierYAML namespaces preserveNodePorts resetPodNetwork
             (rm_StorageClassMappings manifest) (rm_ImageMappings manifest))]\<rparr>)"

section \<open>Storage locations\<close>

definition isHuaweiOBSEndpoint :: "string \<Rightarrow> bool" where
  "isHuaweiOBSEndpoint endpoint =
     (let host = to_lower (trim_space endpoint);
          host = trim_prefix ''https://'' host; host = trim_prefix ''http://'' host;
          host = takeWhile (\<lambda>c. c \<noteq> CHR ''/'') host
      in contains ''huaweicloud.com'' host \<or> contains ''myhuaweicloud.com'' host)"

definition applyHuaweiOBSCompatibility :: "(string \<times> string) list \<Rightarrow> (string \<times> string) list" where
  "applyHuaweiOBSCompatibility config = mset_key ''checksumAlgorithm'' '''' config"

definition applyS3VendorCompatibility :: "(string \<times> string) list \<Rightarrow> string \<Rightarrow> (string \<times> string) list" where
  "applyS3VendorCompatibility config endpoint =
     (if isHuaweiOBSEndpoint endpoint then applyHuaweiOBSCompatibility config else config)"

definition normalizedS3Region :: "string \<Rightarrow> string \<Rightarrow> string" where
  "normalizedS3Region storageType region =
     (let region = trim_space region;
          region = (if to_lower region \<in> {''n/a'', ''na'', ''-''} then '''' else region);
          typeName = to_lower (trim_space storageType)
      in if region = '''' \<and> typeName \<in> {''s3'', ''s3-compatible'', ''s3 compatible''} then ''us-east-1'' else region)"

definition normalizeS3URL :: "string \<Rightarrow> bool \<Rightarrow> string" where
  "normalizeS3URL endpoint tlsEnabled =
     (let endpoint = trim_space endpoint in
      if endpoint = '''' \<or> contains ''://'' endpoint then endpoint
      else if tlsEnabled then ''https://'' @ endpoint else ''http://'' @ endpoint)"

definition azureCredentialsFile :: "string \<Rightarrow> string" where
  "azureCredentialsFile accountKey = (if trim_space accountKey = '''' then ''''
     else ''AZURE_STORAGE_ACCOUNT_ACCESS_KEY='' @ trim_space accountKey @ [CHR 0x0A])"

definition awsCredentialsFile :: "string \<Rightarrow> string \<Rightarrow> string" where
  "awsCredentialsFile accessKey secretKey = (if accessKey = '''' \<and> secretKey = '''' then ''''
     else unlines [''[default]'', ''aws_access_key_id='' @ accessKey, ''aws_secret_access_key='' @ secretKey])"

definition providerName :: "string \<Rightarrow> string" where
  "providerName v =
     (if v \<in> {''aws'', ''AWS'', ''s3'', ''S3'', ''S3-Compatible'', ''S3 Compatible'', ''s3-compatible'', ''s3 compatible''} then ''aws''
      else if v \<in> {''azure'', ''Azure''} then ''azure''
      else if v \<in> {''gcp'', ''GCP'', ''gcs'', ''GCS'', ''Google Cloud'', ''google cloud''} then ''gcp''
      else if v = '''' then ''aws'' else v)"

text \<open>The key, whether it was recognised, whether it is dropped, and the value in place of the given one.\<close>

definition mapUIStorageConfig :: "string \<Rightarrow> string \<Rightarrow> string \<times> bool \<times> bool \<times> string" where
  "mapUIStorageConfig key val =
     (if key = ''prefix'' then ('''', True, True, '''')
      else if key = ''urlStyle'' \<or> key = ''url_style'' then
        (let v = to_lower (trim_space val) in
         if v \<in> {''path'', ''path-style'', ''path_style''} then (''s3ForcePathStyle'', True, False, ''true'')
         else if v \<in> {''virtual'', ''virtual-host'', ''virtual_host'', ''virtualhost'', ''virtual-hosted'', ''dns''}
         then (''s3ForcePathStyle'', True, False, ''false'')
         else ('''', True, True, ''''))
      else if key = ''bucket'' \<or> key = ''caCert'' then ('''', True, True, '''')
      else ('''', False, False, ''''))"

definition isVeleroBSLConfigKey :: "string \<Rightarrow> bool" where
  "isVeleroBSLConfigKey key \<longleftrightarrow> key \<in> {''region'', ''s3Url'', ''publicUrl'', ''kmsKeyId'', ''customerKeyEncryptionFile'',
     ''customerKeyEncryptionSecret'', ''s3ForcePathStyle'', ''signatureVersion'', ''credentialsFile'', ''profile'',
     ''serverSideEncryption'', ''insecureSkipTLSVerify'', ''enableSharedConfig'', ''tagging'', ''checksumAlgorithm'', ''caCert''}"

text \<open>One entry of the configuration; the loop takes them in the order of the list, Go in any order.\<close>

definition config_entry :: "(string \<times> string) list \<Rightarrow> string \<times> any \<Rightarrow> (string \<times> string) list" where
  "config_entry config = (\<lambda>(key, v). case v of
     AStr text \<Rightarrow> if text = '''' then config
       else (case mapUIStorageConfig key text of (mapped, handled, dropped, override) \<Rightarrow>
         if handled then (if dropped then config else mset_key mapped (if override \<noteq> '''' then override else text) config)
         else if \<not> isVeleroBSLConfigKey key then config else mset_key key text config)
   | _ \<Rightarrow> config)"

definition storage_is_gcs :: "string \<Rightarrow> bool" where
  "storage_is_gcs typeName \<longleftrightarrow> typeName \<in> {''gcp'', ''gcs'', ''google cloud''}"

definition storage_base_config :: "StorageSyncCommand \<Rightarrow> (string \<times> string) list" where
  "storage_base_config cmd =
     (let typeName = to_lower (trim_space (sy_Type cmd)); isAzure = (typeName = ''azure''); isGCS = storage_is_gcs typeName;
          region = normalizedS3Region (sy_Type cmd) (sy_Region cmd)
      in (if sy_Endpoint cmd \<noteq> '''' \<and> \<not> isAzure \<and> \<not> isGCS
          then [(''s3Url'', normalizeS3URL (sy_Endpoint cmd) (sy_TLSEnabled cmd))] else []) @
         (if region \<noteq> '''' then [(''region'', region)] else []) @
         (if \<not> sy_TLSEnabled cmd \<and> \<not> isAzure \<and> \<not> isGCS then [(''insecureSkipTLSVerify'', ''true'')] else []) @
         (case sy_Credentials cmd of Some c \<Rightarrow>
            if isAzure \<and> cr_AccountName c \<noteq> '''' then [(''storageAccount'', cr_AccountName c)] else [] | None \<Rightarrow> []))"

definition storage_config :: "StorageSyncCommand \<Rightarrow> (string \<times> string) list" where
  "storage_config cmd =
     applyS3VendorCompatibility (foldl config_entry (storage_base_config cmd) (sy_Config cmd)) (sy_Endpoint cmd)"

definition storage_labels :: "StorageBuildInput \<Rightarrow> (string \<times> string) list" where
  "storage_labels input = [(''hypercdr.io/task-id'', tb_TaskID input), (''hypercdr.io/command-id'', tb_CommandID input),
     (''hypercdr.io/repository-id'', sy_RepositoryID (tb_Command input))]"

definition BuildBackupStorageLocationManifest :: "StorageBuildInput \<Rightarrow> build_error + BackupStorageLocationManifest" where
  "BuildBackupStorageLocationManifest input =
     (let cmd = tb_Command input in
      if sy_Name cmd = '''' then Inl (BuildError ''storage repository name is required'')
      else if sy_Bucket cmd = '''' then Inl (BuildError ''storage repository bucket is required'')
      else Inr \<lparr>lm_APIVersion = ''velero.io/v1'', lm_Kind = ''BackupStorageLocation'',
        lm_Metadata = \<lparr>mm_Name = sanitizeName (sy_Name cmd), mm_Namespace = default_agent_namespace (tb_AgentNamespace input),
          mm_Labels = storage_labels input\<rparr>,
        lm_Spec = \<lparr>ls_Provider = providerName (sy_Type cmd), ls_Bucket = sy_Bucket cmd,
          ls_Prefix = any_str (mget (sy_Config cmd) ''prefix''), ls_Config = storage_config cmd,
          ls_Credential = (if sy_SecretRef cmd \<noteq> '''' then Some (sy_SecretRef cmd, ''cloud'') else None),
          ls_Default = False, ls_ValidationFrequency = ''3m'', ls_BackupSyncPeriod = ''3m'', ls_AccessMode = ''ReadWrite''\<rparr>\<rparr>)"

definition cloud_credentials :: "StorageSyncCommand \<Rightarrow> S3Credentials \<Rightarrow> string" where
  "cloud_credentials cmd c =
     (let typeName = to_lower (trim_space (sy_Type cmd)) in
      if storage_is_gcs typeName then trim_space (cr_ServiceAccountKey c)
      else if typeName = ''azure'' then azureCredentialsFile (cr_AccountKey c)
      else awsCredentialsFile (cr_AccessKey c) (cr_SecretKey c))"

definition BuildStorageManifests :: "StorageBuildInput \<Rightarrow> build_error + StorageManifests" where
  "BuildStorageManifests input =
     (case BuildBackupStorageLocationManifest input of Inl e \<Rightarrow> Inl e
      | Inr bsl \<Rightarrow> let cmd = tb_Command input; manifests = \<lparr>st_Secret = None, st_BackupStorageLocation = bsl\<rparr> in
        (case sy_Credentials cmd of None \<Rightarrow> Inr manifests
         | Some c \<Rightarrow>
           if sy_SecretRef cmd = '''' \<or> cloud_credentials cmd c = '''' then Inr manifests
           else Inr (manifests\<lparr>st_Secret := Some \<lparr>se_APIVersion = ''v1'', se_Kind = ''Secret'',
             se_Metadata = \<lparr>mm_Name = sy_SecretRef cmd, mm_Namespace = mm_Namespace (lm_Metadata bsl), mm_Labels = storage_labels input\<rparr>,
             se_Type = ''Opaque'', se_StringData = [(''cloud'', cloud_credentials cmd c)]\<rparr>\<rparr>)))"

end
