(* ===== verification/Velero_Facts.thy ===== *)
theory Velero_Facts
  imports Velero_Manifests "HOL-Library.Multiset"
begin

text \<open>
  What the manifests of the agent guarantee: names, the filters of backups, the exclusions of resources, the
  consistency of storage objects and their dependence on the order of Go's maps.
\<close>

section \<open>Names\<close>

lemma replace_runs_chars: "list_all label_char (replace_runs b s)"
  by (induction b s rule: replace_runs.induct) (auto simp: label_char_def)

lemma replace_runs_id: "list_all label_char s \<Longrightarrow> replace_runs b s = s"
  by (induction s arbitrary: b) auto

lemma sanitizeName_good: "good_name (sanitizeName v)"
proof -
  have "good_name ''backup''" by code_simp
  then show ?thesis by (simp add: sanitizeName_def Let_def trim_dashes_good replace_runs_chars)
qed

lemma lower_label_char: "label_char c \<Longrightarrow> lower_char c = c"
  by (auto simp: label_char_def alnum_def lower_char_def dash_def Let_def)

lemma sanitizeName_id: "good_name s \<Longrightarrow> sanitizeName s = s"
proof -
  assume s: "good_name s"
  then have "to_lower s = s" by (simp add: good_name_def to_lower_def list_all_iff lower_label_char map_idI)
  then show ?thesis using s
    by (simp add: sanitizeName_def Let_def replace_runs_id trim_dashes_id good_name_def)
qed

lemma hex8_alnum: "list_all alnum (hex8 w)" "hex8 w \<noteq> []" "length (hex8 w) = 8"
proof -
  have "list_all alnum ''0123456789abcdef''" by code_simp
  moreover have "length ''0123456789abcdef'' = 16" by simp
  ultimately have "alnum (hex_digit d)" if "d < 16" for d
    unfolding hex_digit_def using that by (metis list_all_length)
  then show "list_all alnum (hex8 w)" by (simp add: hex8_def)
qed (simp_all add: hex8_def)

lemma good_prefix:
  assumes "good_name s" "0 < n"
  shows "good_name (trim_dashes (take n s))"
proof -
  have "hd s \<in> set (take n s)" using assms by (cases s; cases n) (auto simp: good_name_def)
  moreover have "hd s \<noteq> dash" using assms(1) by (simp add: good_name_def)
  ultimately have "trim_dashes (take n s) \<noteq> []" by (rule trim_dashes_nonempty)
  moreover have "list_all label_char (take n s)"
    using assms(1) by (auto simp: good_name_def list_all_iff dest: in_set_takeD)
  ultimately show ?thesis by (intro trim_dashes_good)
qed

text \<open>The request that deletes a backup has a valid name, however long the name of the backup: at most 63
  characters, and the hash at its end is never cut off.\<close>

theorem delete_request_name_valid:
  "valid_label (deleteBackupRequestName name) \<and>
   (\<exists>prefix. deleteBackupRequestName name = prefix @ dash # hex8 (fnv32a name))"
proof -
  let ?hash = "hex8 (fnv32a name)"
  define prefix where "prefix = ''hcdr-delete-'' @ sanitizeName name"
  define short where "short = (if length prefix > 54 then trim_dashes (take 54 prefix) else prefix)"
  have "good_name ''hcdr-delete''" by code_simp
  from good_join [OF this sanitizeName_good [of name]] have "good_name prefix"
    by (simp add: prefix_def dash_def)
  then have short: "good_name short" "length short \<le> 54"
    using good_prefix [of prefix 54] trim_dashes_length [of "take 54 prefix"] by (auto simp: short_def)
  have "good_name ?hash" using hex8_alnum by (intro good_alnum)
  with short(1) have name: "good_name (short @ dash # ?hash)" by (rule good_join)
  have len: "63 - length (''-'' @ ?hash) = 54" using hex8_alnum(3) [of "fnv32a name"] by simp
  have "deleteBackupRequestName name = trim_dashes ((if short = '''' then ''hcdr-delete'' else short) @ ''-'' @ ?hash)"
    unfolding deleteBackupRequestName_def Let_def prefix_def [symmetric] len short_def ..
  also have "\<dots> = trim_dashes (short @ dash # ?hash)" using short(1) by (simp add: good_name_def dash_def)
  also have "\<dots> = short @ dash # ?hash" by (rule trim_dashes_id [OF name])
  finally have "deleteBackupRequestName name = short @ dash # ?hash" .
  then show ?thesis using name short(2) hex8_alnum(3) [of "fnv32a name"] by (auto simp: valid_label_iff)
qed

text \<open>C35: The name of a restore is cut at 63 characters from the end, where the task is: in a namespace whose name has
  50 characters or more all restores get the same name.\<close>

theorem restore_name_collision:
  assumes "50 \<le> length (sanitizeName namespace)"
  shows "restoreName namespace task1 = restoreName namespace task2"
proof -
  have "restoreName namespace t = take 63 (''hcdr-restore-'' @ sanitizeName namespace)" for t
    using assms by (simp add: restoreName_def Let_def)
  then show ?thesis by metis
qed

theorem restore_name_collision_witness:
  "restoreName ''customer-facing-shop-frontend-production-eu-central-1'' ''8c1f2a34'' =
   restoreName ''customer-facing-shop-frontend-production-eu-central-1'' ''90ab12cd''"
proof (rule restore_name_collision)
  show "50 \<le> length (sanitizeName ''customer-facing-shop-frontend-production-eu-central-1'')" by code_simp
qed

section \<open>Filters\<close>

text \<open>Velero refuses a backup that mixes the general filters with those by scope.\<close>

definition general_absent :: "BackupManifestSpec \<Rightarrow> bool" where
  "general_absent s \<longleftrightarrow> bs_IncludedResources s = [] \<and> bs_ExcludedResources s = [] \<and> bs_IncludeClusterResources s = None"

definition scoped_absent :: "BackupManifestSpec \<Rightarrow> bool" where
  "scoped_absent s \<longleftrightarrow> bs_IncludedClusterScopedResources s = [] \<and> bs_IncludedNamespaceScopedResources s = [] \<and>
     bs_ExcludedClusterScopedResources s = [] \<and> bs_ExcludedNamespaceScopedResources s = []"

definition acceptable :: "ManifestMetadata \<Rightarrow> BackupManifestSpec \<Rightarrow> bool" where
  "acceptable m s \<longleftrightarrow> bs_IncludedNamespaces s \<noteq> [] \<and> mm_Namespace m \<notin> set (bs_IncludedNamespaces s) \<and>
     (general_absent s \<or> scoped_absent s)"

lemma backup_spec_frame [simp]: "bs_IncludedNamespaces (backup_spec cmd ns) = ns"
  by (simp add: backup_spec_def Let_def)

lemma template_frame [simp]: "bs_IncludedNamespaces (schedule_template cmd labels ns) = ns"
  by (simp add: schedule_template_def Let_def)

lemma filters_exclusive:
  "general_absent (backup_spec cmd ns) \<or> scoped_absent (backup_spec cmd ns)"
  "general_absent (schedule_template sc labels ns) \<or> scoped_absent (schedule_template sc labels ns)"
  by (simp_all add: backup_spec_def schedule_template_def general_absent_def scoped_absent_def Let_def)

lemma backup_built:
  assumes "BuildBackupManifest now bi = Inr b"
  defines "ns \<equiv> source_namespaces (bc_SourceNamespaces (bi_Command bi)) (bc_SourceNamespace (bi_Command bi))"
  shows "bm_Spec b = backup_spec (bi_Command bi) ns \<and> ns \<noteq> [] \<and> mm_Namespace (bm_Metadata b) \<notin> set ns"
  using assms(1) unfolding BuildBackupManifest_def Let_def ns_def [symmetric]
  by (cases "ns = []"; cases "default_agent_namespace (bi_AgentNamespace bi) \<in> set ns") auto

lemma schedule_built:
  assumes "BuildScheduleManifest si = Inr s"
  defines "ns \<equiv> source_namespaces (sc_SourceNamespaces (si_Command si)) (sc_SourceNamespace (si_Command si))"
  shows "sm_Template s = schedule_template (si_Command si) (mm_Labels (sm_Metadata s)) ns \<and> ns \<noteq> [] \<and>
    mm_Namespace (sm_Metadata s) \<notin> set ns"
  using assms(1) unfolding BuildScheduleManifest_def Let_def ns_def [symmetric]
  by (cases "sc_PlanID (si_Command si) = ''''"; cases "sc_Cron (si_Command si) = ''''"; cases "ns = []";
      cases "default_agent_namespace (si_AgentNamespace si) \<in> set ns") auto

text \<open>C18: Every backup and every schedule the agent builds names at least one namespace, never the agent's own, and
  uses either Velero's general resource filters or those by scope, never both.\<close>

theorem manifests_acceptable:
  "(BuildBackupManifest now bi = Inr b \<longrightarrow> acceptable (bm_Metadata b) (bm_Spec b)) \<and>
   (BuildScheduleManifest si = Inr s \<longrightarrow> acceptable (sm_Metadata s) (sm_Template s))"
proof (intro conjI impI)
  assume "BuildBackupManifest now bi = Inr b"
  from backup_built [OF this] show "acceptable (bm_Metadata b) (bm_Spec b)"
    using filters_exclusive(1) [of "bi_Command bi"] by (simp add: acceptable_def Let_def)
next
  assume "BuildScheduleManifest si = Inr s"
  from schedule_built [OF this] show "acceptable (sm_Metadata s) (sm_Template s)"
    using filters_exclusive(2) [of "si_Command si"] by (simp add: acceptable_def Let_def)
qed

definition sample_backup_command :: BackupCommand where
  "sample_backup_command = \<lparr>bc_PlanID = ''plan1'', bc_Trigger = ''scheduled'', bc_SourceClusterID = ''c1'',
     bc_SourceNamespace = ''shop'', bc_SourceNamespaces = [], bc_VeleroBackupName = ''hcdr-plan1'', bc_Scope = ''all'',
     bc_IncludedResources = [], bc_LabelSelector = \<lparr>ls_MatchLabels = [], ls_MatchExpressions = []\<rparr>,
     bc_StorageRepo = ''main-c1'', bc_IncludeClusterResources = False, bc_ExcludedResources = [],
     bc_ResourceSelection = \<lparr>rsel_Mode = ''exclude'', rsel_NamespaceScoped = [''events''], rsel_ClusterScoped = []\<rparr>\<rparr>"

definition sample_schedule_command :: ScheduleSyncCommand where
  "sample_schedule_command = \<lparr>sc_PlanID = ''plan1'', sc_ScheduleName = '''', sc_Cron = ''0 3 * * *'',
     sc_SourceNamespace = '''', sc_SourceNamespaces = [''shop''], sc_Scope = ''all'', sc_IncludedResources = [],
     sc_LabelSelector = '''', sc_Selector = \<lparr>ls_MatchLabels = [], ls_MatchExpressions = []\<rparr>,
     sc_StorageRepo = ''main-c1'', sc_IncludeClusterResources = False, sc_ExcludeResources = [],
     sc_ResourceSelection = \<lparr>rsel_Mode = ''exclude'', rsel_NamespaceScoped = [''events''], rsel_ClusterScoped = []\<rparr>\<rparr>"

definition sample_backup_input :: BackupBuildInput where
  "sample_backup_input = \<lparr>bi_TaskID = ''t1'', bi_CommandID = ''k1'', bi_SourceClusterID = ''c1'', bi_AgentNamespace = '''',
     bi_Command = sample_backup_command\<rparr>"

definition sample_schedule_input :: ScheduleBuildInput where
  "sample_schedule_input = \<lparr>si_TaskID = ''t2'', si_CommandID = ''k2'', si_SourceClusterID = ''c1'', si_AgentNamespace = '''',
     si_Command = sample_schedule_command\<rparr>"

lemma sample_built:
  "BuildBackupManifest 0 sample_backup_input = Inr (projr (BuildBackupManifest 0 sample_backup_input))"
  "BuildScheduleManifest sample_schedule_input = Inr (projr (BuildScheduleManifest sample_schedule_input))"
proof -
  have "\<not> isl (BuildBackupManifest 0 sample_backup_input)" "\<not> isl (BuildScheduleManifest sample_schedule_input)"
    by code_simp+
  then show "BuildBackupManifest 0 sample_backup_input = Inr (projr (BuildBackupManifest 0 sample_backup_input))"
    "BuildScheduleManifest sample_schedule_input = Inr (projr (BuildScheduleManifest sample_schedule_input))"
    by simp_all
qed

theorem manifests_acceptable_witness:
  "acceptable (bm_Metadata (projr (BuildBackupManifest 0 sample_backup_input)))
     (bm_Spec (projr (BuildBackupManifest 0 sample_backup_input))) \<and>
   acceptable (sm_Metadata (projr (BuildScheduleManifest sample_schedule_input)))
     (sm_Template (projr (BuildScheduleManifest sample_schedule_input)))"
  using manifests_acceptable [of 0 sample_backup_input _ sample_schedule_input] sample_built by metis

text \<open>Commands that ask for the same backup.\<close>

definition same_request :: "BackupCommand \<Rightarrow> ScheduleSyncCommand \<Rightarrow> bool" where
  "same_request c s \<longleftrightarrow>
     source_namespaces (bc_SourceNamespaces c) (bc_SourceNamespace c) = source_namespaces (sc_SourceNamespaces s) (sc_SourceNamespace s) \<and>
     bc_IncludedResources c = sc_IncludedResources s \<and> bc_ExcludedResources c = convertExcludeRules (sc_ExcludeResources s) \<and>
     bc_StorageRepo c = sc_StorageRepo s \<and> bc_IncludeClusterResources c = sc_IncludeClusterResources s \<and>
     bc_ResourceSelection c = sc_ResourceSelection s \<and> sc_LabelSelector s = '''' \<and> bc_LabelSelector c = sc_Selector s"

text \<open>The template of a schedule is the backup an immediate command for the same request would give, but for the
  labels it carries.\<close>

theorem schedule_like_backup:
  assumes "BuildBackupManifest now bi = Inr b" "BuildScheduleManifest si = Inr s"
    and "same_request (bi_Command bi) (si_Command si)"
  shows "sm_Template s = (bm_Spec b)\<lparr>bs_Metadata := Some (mm_Labels (sm_Metadata s))\<rparr>"
proof -
  have "schedule_template sc labels ns = (backup_spec c ns)\<lparr>bs_Metadata := Some labels\<rparr>"
    if "same_request c sc" for c sc labels ns
    using that by (simp add: same_request_def schedule_template_def backup_spec_def Let_def)
  from this [OF assms(3)] backup_built [OF assms(1)] schedule_built [OF assms(2)] assms(3) show ?thesis
    by (simp add: same_request_def)
qed

theorem schedule_like_backup_witness:
  "sm_Template (projr (BuildScheduleManifest sample_schedule_input)) =
   (bm_Spec (projr (BuildBackupManifest 0 sample_backup_input)))\<lparr>bs_Metadata :=
     Some (mm_Labels (sm_Metadata (projr (BuildScheduleManifest sample_schedule_input))))\<rparr>"
proof (rule schedule_like_backup [OF sample_built])
  show "same_request (bi_Command sample_backup_input) (si_Command sample_schedule_input)" by code_simp
qed

section \<open>Exclusions\<close>

lemma add_exclusion_set: "set (add_exclusion r out) = set out \<union> ({trim_space r} - {''''})"
  by (auto simp: add_exclusion_def Let_def)

lemma add_exclusion_distinct: "distinct out \<Longrightarrow> distinct (add_exclusion r out)"
  by (simp add: add_exclusion_def Let_def)

lemma event_names: "trim_space ''events'' = ''events''" "trim_space ''events.events.k8s.io'' = ''events.events.k8s.io''"
  by code_simp+

text \<open>The exclusions of a selection are its resources without spaces and repetitions, and where it names events
  in one of their two API groups, they name both.\<close>

theorem exclusions_complete:
  "distinct (expandScopedResourceExclusions rs) \<and>
   set (expandScopedResourceExclusions rs) = (trim_space ` set rs - {''''}) \<union>
     (if ''events'' \<in> set rs \<or> ''events.events.k8s.io'' \<in> set rs then {''events'', ''events.events.k8s.io''} else {})"
proof -
  define step where "step = (\<lambda>out resource. let out = add_exclusion resource out in
     if resource = ''events'' then add_exclusion ''events.events.k8s.io'' out
     else if resource = ''events.events.k8s.io'' then add_exclusion ''events'' out else out)"
  have d: "distinct (step out r)" if "distinct out" for out r
    using that by (simp add: step_def Let_def add_exclusion_distinct)
  have s: "set (step out r) = set out \<union> ({trim_space r} - {''''}) \<union>
      (if r = ''events'' \<or> r = ''events.events.k8s.io'' then {''events'', ''events.events.k8s.io''} else {})" for out r
    by (auto simp: step_def Let_def add_exclusion_set event_names)
  have "distinct (foldl step out rs) \<and> set (foldl step out rs) = set out \<union> (trim_space ` set rs - {''''}) \<union>
      (if ''events'' \<in> set rs \<or> ''events.events.k8s.io'' \<in> set rs then {''events'', ''events.events.k8s.io''} else {})"
    if "distinct out" for out using that
  proof (induction rs arbitrary: out)
    case (Cons r rs)
    from Cons.IH [OF d [OF Cons.prems]] show ?case by (auto simp: s)
  qed simp
  from this [of "[]"] show ?thesis by (simp add: expandScopedResourceExclusions_def step_def)
qed

section \<open>Restore modifications\<close>

lemma sortedMappingKeys_perm: "mset xs = mset ys \<Longrightarrow> sortedMappingKeys xs = sortedMappingKeys ys"
  unfolding sortedMappingKeys_def by (intro properties_for_sort) (simp_all add: mset_filter)

text \<open>The modifications of a restore do not depend on the order in which Go walks through the mappings of storage
  classes and images.\<close>

theorem modifier_deterministic:
  assumes "mset (rm_StorageClassMappings m) = mset (rm_StorageClassMappings m')"
    "mset (rm_ImageMappings m) = mset (rm_ImageMappings m')"
    "distinct (map fst (rm_StorageClassMappings m))" "distinct (map fst (rm_ImageMappings m))"
    "rm_Spec m = rm_Spec m'" "rm_Metadata m = rm_Metadata m'"
  shows "BuildRestoreResourceModifierConfigMap m = BuildRestoreResourceModifierConfigMap m'"
proof -
  have look: "map_of xs = map_of ys" if "mset xs = mset ys" "distinct (map fst xs)" for xs ys :: "(string \<times> string) list"
  proof -
    have "distinct (map fst ys)" using that by (metis mset_eq_imp_distinct_iff mset_map)
    moreover have "set xs = set ys" using that(1) by (metis set_mset_mset)
    ultimately show ?thesis using that(2) by (simp add: map_of_inject_set)
  qed
  show ?thesis using assms
    by (simp add: BuildRestoreResourceModifierConfigMap_def restoreResourceModifierYAML_def Let_def
        look [OF assms(1,3)] look [OF assms(2,4)] sortedMappingKeys_perm [OF assms(1)] sortedMappingKeys_perm [OF assms(2)])
qed

section \<open>Storage\<close>

definition known_config :: "(string \<times> string) list \<Rightarrow> bool" where
  "known_config config \<longleftrightarrow> distinct (map fst config) \<and>
     list_all (\<lambda>k. isVeleroBSLConfigKey k \<or> k = ''storageAccount'') (map fst config)"

lemma known_config_put: "known_config config \<Longrightarrow> isVeleroBSLConfigKey k \<Longrightarrow> known_config (mset_key k v config)"
proof -
  assume "known_config config" "isVeleroBSLConfigKey k"
  moreover have "set (map fst (mset_key k v config)) = insert k (set (map fst config))" by (simp add: keys_mset_key)
  ultimately show ?thesis unfolding known_config_def list_all_iff by (simp only: distinct_mset_key) blast
qed

lemma config_entry_known:
  assumes "known_config config"
  shows "known_config (config_entry config kv)"
proof -
  have path: "isVeleroBSLConfigKey ''s3ForcePathStyle''" by code_simp
  obtain key v where kv: "kv = (key, v)" by fastforce
  show ?thesis
  proof (cases v)
    case (AStr s)
    obtain mapped handled dropped override where m: "mapUIStorageConfig key s = (mapped, handled, dropped, override)"
      by (metis prod.collapse)
    then have "handled \<Longrightarrow> \<not> dropped \<Longrightarrow> isVeleroBSLConfigKey mapped"
      using path by (auto simp: mapUIStorageConfig_def Let_def split: if_splits)
    then show ?thesis using assms AStr m by (simp add: config_entry_def kv known_config_put)
  qed (use assms in \<open>simp_all add: config_entry_def kv\<close>)
qed

lemma storage_config_keys: "known_config (storage_config cmd)"
proof -
  have known: "isVeleroBSLConfigKey ''s3Url''" "isVeleroBSLConfigKey ''region''" "isVeleroBSLConfigKey ''insecureSkipTLSVerify''"
    "isVeleroBSLConfigKey ''checksumAlgorithm''" by code_simp+
  have "known_config (storage_base_config cmd)"
    using known by (auto simp: known_config_def storage_base_config_def Let_def split: option.splits if_splits)
  then have "known_config (foldl config_entry (storage_base_config cmd) kvs)" for kvs
    by (induction kvs rule: rev_induct) (simp_all add: config_entry_known)
  then show ?thesis using known
    by (simp add: storage_config_def applyS3VendorCompatibility_def applyHuaweiOBSCompatibility_def known_config_put)
qed

text \<open>The storage objects the agent builds fit together. The configuration of the location has only keys Velero
  knows, each once; where a secret is built, the location refers to it by name and key, it is in the same
  namespace, and its content is not empty.\<close>

theorem storage_manifests_consistent:
  assumes "BuildStorageManifests input = Inr m"
  shows "(let spec = lm_Spec (st_BackupStorageLocation m) in
      distinct (map fst (ls_Config spec)) \<and>
      list_all (\<lambda>k. isVeleroBSLConfigKey k \<or> k = ''storageAccount'') (map fst (ls_Config spec)) \<and>
      (case st_Secret m of None \<Rightarrow> True | Some secret \<Rightarrow>
        ls_Credential spec = Some (mm_Name (se_Metadata secret), ''cloud'') \<and>
        mm_Namespace (se_Metadata secret) = mm_Namespace (lm_Metadata (st_BackupStorageLocation m)) \<and>
        (\<exists>content. map_of (se_StringData secret) ''cloud'' = Some content \<and> content \<noteq> '''')))"
  using assms storage_config_keys [of "tb_Command input"] unfolding known_config_def
  by (auto simp: BuildStorageManifests_def BuildBackupStorageLocationManifest_def Let_def
      split: if_splits option.splits)

text \<open>Two fields of the user interface set the same key of the location, so that the style of the URL depends on
  the order in which Go walks through the configuration.\<close>

theorem storage_config_order:
  fixes cmd
  defines "style \<equiv> \<lambda>config. map_of (storage_config (cmd\<lparr>sy_Config := config\<rparr>)) ''s3ForcePathStyle''"
  shows "style [(''urlStyle'', AStr ''path''), (''url_style'', AStr ''virtual'')] = Some ''false'' \<and>
    style [(''url_style'', AStr ''virtual''), (''urlStyle'', AStr ''path'')] = Some ''true''"
proof -
  have lower: "mapUIStorageConfig ''urlStyle'' ''path'' = (''s3ForcePathStyle'', True, False, ''true'')"
    "mapUIStorageConfig ''url_style'' ''virtual'' = (''s3ForcePathStyle'', True, False, ''false'')" by code_simp+
  show ?thesis
    by (simp add: style_def storage_config_def config_entry_def lower applyS3VendorCompatibility_def
        applyHuaweiOBSCompatibility_def)
qed

section \<open>Concrete objects\<close>

definition sample_restore :: "(string \<times> string) list \<Rightarrow> RestoreManifest" where
  "sample_restore mapping = projr (BuildRestoreManifest \<lparr>rb_TaskID = ''t1'', rb_CommandID = ''k1'', rb_TaskType = ''drill'',
     rb_AgentNamespace = '''', rb_Command = \<lparr>rc_RestorePointID = ''p1'', rc_VeleroBackupName = ''b1'', rc_StorageRepo = '''',
       rc_SourceNamespace = ''shop'', rc_SourceNamespaces = [], rc_TargetNamespace = ''shop-drill'', rc_TargetNamespaces = [],
       rc_TargetMode = '''', rc_RestoreMode = ''full'', rc_ArtifactMode = '''', rc_ConflictPolicy = ''skip'',
       rc_IncludeClusterScoped = False, rc_UseTransforms = False, rc_TransformPreset = '''', rc_StorageProfileMode = '''',
       rc_AlternateProfileID = '''', rc_IncludedResources = [], rc_ExcludedResources = [], rc_StorageClassMappings = mapping,
       rc_ImageMappings = [], rc_ServiceNodePortMappings = [], rc_WaitForWorkloads = False, rc_RunValidation = False,
       rc_ForceStart = False, rc_ContentCatalogLoaded = False, rc_PersistentDataExpected = False,
       rc_ReadinessExpectationsKnown = False, rc_RuntimeWorkloadsExpected = False, rc_ExpectedPVCs = []\<rparr>\<rparr>)"

theorem modifier_deterministic_witness:
  "BuildRestoreResourceModifierConfigMap (sample_restore [(''slow'', ''fast''), (''local'', ''ceph'')]) =
   BuildRestoreResourceModifierConfigMap (sample_restore [(''local'', ''ceph''), (''slow'', ''fast'')])"
  by (rule modifier_deterministic)
    (simp_all add: sample_restore_def BuildRestoreManifest_def source_namespaces_def restore_mapping_def shouldPreserveNodePorts_def Let_def)

definition sample_storage_input :: StorageBuildInput where
  "sample_storage_input = \<lparr>tb_TaskID = ''t1'', tb_CommandID = ''k1'', tb_AgentNamespace = '''',
     tb_Command = \<lparr>sy_RepositoryID = ''s1'', sy_Name = ''Main Store'', sy_Type = ''S3'', sy_Endpoint = ''minio:9000'',
       sy_Bucket = ''backups'', sy_Region = '''', sy_TLSEnabled = False, sy_SecretRef = ''main-store'',
       sy_Credentials = Some \<lparr>cr_AccessKey = ''a'', cr_SecretKey = ''b'', cr_AccountName = '''', cr_AccountKey = '''',
         cr_ServiceAccountKey = ''''\<rparr>,
       sy_Config = [(''urlStyle'', AStr ''path''), (''color'', AStr ''blue'')]\<rparr>\<rparr>"

theorem storage_manifests_consistent_witness:
  "\<exists>secret. st_Secret (projr (BuildStorageManifests sample_storage_input)) = Some secret \<and>
     ls_Credential (lm_Spec (st_BackupStorageLocation (projr (BuildStorageManifests sample_storage_input)))) =
       Some (mm_Name (se_Metadata secret), ''cloud'')"
proof -
  let ?r = "BuildStorageManifests sample_storage_input"
  have "\<not> isl ?r" "st_Secret (projr ?r) \<noteq> None" by code_simp+
  then have run: "?r = Inr (projr ?r)" and "\<exists>secret. st_Secret (projr ?r) = Some secret" by simp_all
  then show ?thesis using storage_manifests_consistent [OF run] by (auto simp: Let_def)
qed

end
