(* ===== verification/Kube_Objects.thy ===== *)
theory Kube_Objects
  imports Velero_Facts
begin

text \<open>
  Objects of the Kubernetes API as the agent reads them: JSON objects behind the accessors of the package
  \<^verbatim>\<open>unstructured\<close>. The API itself is an argument of the definitions that use it: \<open>get_object\<close> reads an object
  by resource, namespace and name, \<open>list_objects\<close> the objects of a resource in a namespace. Errors of the API
  are values; that an object does not exist is told apart, as the code does.
\<close>

section \<open>Reading objects\<close>

datatype kube_error = KubeErrorf string | ApiError string | ApiNotFound

text \<open>The accessors of the package \<^verbatim>\<open>unstructured\<close>; what is missing or of another type reads as the zero value.\<close>

fun nested :: "any \<Rightarrow> string list \<Rightarrow> any option" where
  "nested v [] = Some v"
| "nested v (f # fs) = (case v of AMap m \<Rightarrow> (case map_of m f of None \<Rightarrow> None | Some w \<Rightarrow> nested w fs) | _ \<Rightarrow> None)"

definition NestedString :: "any \<Rightarrow> string list \<Rightarrow> string" where
  "NestedString obj path = (case nested obj path of Some (AStr s) \<Rightarrow> s | _ \<Rightarrow> '''')"

definition str_entry :: "string \<times> any \<Rightarrow> (string \<times> string) option" where
  "str_entry kv = (case snd kv of AStr s \<Rightarrow> Some (fst kv, s) | _ \<Rightarrow> None)"

definition NestedStringMap :: "any \<Rightarrow> string list \<Rightarrow> (string \<times> string) list" where
  "NestedStringMap obj path = (case nested obj path of
     Some (AMap m) \<Rightarrow> if list_all (\<lambda>kv. str_entry kv \<noteq> None) m then List.map_filter str_entry m else []
   | _ \<Rightarrow> [])"

definition sget :: "(string \<times> string) list \<Rightarrow> string \<Rightarrow> string" where
  "sget m k = (case map_of m k of None \<Rightarrow> '''' | Some v \<Rightarrow> v)"

type_synonym get_object = "string \<Rightarrow> string \<Rightarrow> string \<Rightarrow> kube_error + any"
type_synonym list_objects = "string \<Rightarrow> string \<Rightarrow> kube_error + any list"

section \<open>Strings\<close>

definition uniqueNonEmptyStrings :: "string list \<Rightarrow> string list" where
  "uniqueNonEmptyStrings values = sort (foldl (\<lambda>out v. let v = trim_space v in
     if v = '''' \<or> v \<in> set out then out else out @ [v]) [] values)"

lemma has_prefix_iff: "has_prefix p s \<longleftrightarrow> (\<exists>r. s = p @ r)"
  unfolding has_prefix_def by (metis append_eq_conv_conj append_take_drop_id)

lemma trim_space_id:
  assumes "s = '''' \<or> \<not> is_space (hd s) \<and> \<not> is_space (last s)"
  shows "trim_space s = s"
proof -
  have "dropWhile is_space s = s" "dropWhile is_space (rev s) = rev s"
    using assms by (auto simp: dropWhile_eq_self_iff hd_rev)
  then show ?thesis by (simp add: trim_space_def)
qed

lemma trim_space_idem: "trim_space (trim_space s) = trim_space s"
proof (rule trim_space_id)
  define w where "w = dropWhile is_space (rev (dropWhile is_space s))"
  have w: "trim_space s = rev w" by (simp add: w_def trim_space_def)
  have "\<not> is_space (hd w) \<and> \<not> is_space (last w)" if "w \<noteq> []"
  proof
    show "\<not> is_space (hd w)" using that unfolding w_def by (rule hd_dropWhile)
    have ne: "dropWhile is_space s \<noteq> []" using that unfolding w_def by (metis dropWhile.simps(1) rev.simps(1))
    have "last w = last (rev (dropWhile is_space s))"
      using that unfolding w_def by (metis last_appendR takeWhile_dropWhile_id)
    also have "\<dots> = hd (dropWhile is_space s)" using ne by (simp add: last_rev)
    finally show "\<not> is_space (last w)" using hd_dropWhile [OF ne] by simp
  qed
  then show "trim_space s = '''' \<or> \<not> is_space (hd (trim_space s)) \<and> \<not> is_space (last (trim_space s))"
    by (auto simp: w hd_rev last_rev)
qed

lemma trim_space_last: "trim_space s \<noteq> '''' \<Longrightarrow> \<not> is_space (last (trim_space s))"
  using hd_dropWhile [of is_space "rev (dropWhile is_space s)"] by (auto simp: trim_space_def last_rev)

lemma trim_space_subset: "c \<in> set (trim_space s) \<Longrightarrow> c \<in> set s"
  unfolding trim_space_def by (auto dest!: set_dropWhileD)

lemma unique_set: "set (uniqueNonEmptyStrings vs) = trim_space ` set vs - {''''}"
proof -
  have "set (foldl (\<lambda>out v. let v = trim_space v in if v = '''' \<or> v \<in> set out then out else out @ [v]) acc vs) =
      set acc \<union> (trim_space ` set vs - {''''})" for acc
    by (induction vs arbitrary: acc) (auto simp: Let_def)
  then show ?thesis by (simp add: uniqueNonEmptyStrings_def)
qed

end
