(* ===== verification/Agent_Status.thy ===== *)
theory Agent_Status
  imports Kube_Objects
begin

text \<open>
  What the agent reads back from the cluster (\<^verbatim>\<open>kube/status_reader.go\<close>): the progress of the volumes of a backup or a
  restore, the confirmation that a cancelled operation has stopped, and whether a restored namespace is
  ready. \<open>now\<close> is the time of the call. The objects shown beside the verdict (\<^verbatim>\<open>Objects\<close>, \<^verbatim>\<open>ImageEvents\<close>) are
  display only and left out. Byte counts are integers; their sums stay far below 63 bits.
\<close>

section \<open>Fields\<close>

definition stringField :: "gomap \<Rightarrow> string \<Rightarrow> string" where
  "stringField m key = any_str (mget m key)"

definition intField :: "gomap \<Rightarrow> string \<Rightarrow> int" where
  "intField m key = (case mget m key of ANum n \<Rightarrow> n | _ \<Rightarrow> 0)"

definition NestedInt64 :: "any \<Rightarrow> string list \<Rightarrow> int option" where
  "NestedInt64 obj path = (case nested obj path of Some (ANum n) \<Rightarrow> Some n | _ \<Rightarrow> None)"

definition int64FieldPath :: "any \<Rightarrow> string list \<Rightarrow> int" where
  "int64FieldPath obj path = (case NestedInt64 obj path of None \<Rightarrow> 0 | Some n \<Rightarrow> n)"

definition NestedSlice :: "any \<Rightarrow> string list \<Rightarrow> any list" where
  "NestedSlice obj path = (case nested obj path of Some (ASlice vs) \<Rightarrow> vs | _ \<Rightarrow> [])"

definition NestedMap :: "any \<Rightarrow> string list \<Rightarrow> gomap" where
  "NestedMap obj path = (case nested obj path of Some (AMap m) \<Rightarrow> m | _ \<Rightarrow> [])"

text \<open>A value asserted to be a map: another value is the nil map.\<close>

definition as_map :: "any \<Rightarrow> gomap" where
  "as_map v = (case v of AMap m \<Rightarrow> m | _ \<Rightarrow> [])"

definition nestedTime :: "any \<Rightarrow> string list \<Rightarrow> gtime option" where
  "nestedTime obj path = (let v = NestedString obj path in if v = '''' then None else parse_rfc3339nano v)"

definition GetName :: "any \<Rightarrow> string" where
  "GetName item = NestedString item [''metadata'', ''name'']"

definition GetLabels :: "any \<Rightarrow> (string \<times> string) list" where
  "GetLabels item = NestedStringMap item [''metadata'', ''labels'']"

definition GetCreationTimestamp :: "any \<Rightarrow> gtime" where
  "GetCreationTimestamp item = (case nestedTime item [''metadata'', ''creationTimestamp''] of None \<Rightarrow> 0 | Some t \<Rightarrow> t)"

definition quoted :: "string \<Rightarrow> string" where
  "quoted s = CHR 0x22 # s @ [CHR 0x22]"

section \<open>Progress of volumes\<close>

record VolumeProgressItem =
  vi_Volume :: string
  vi_Pod :: string
  vi_Namespace :: string
  vi_StartedAt :: string
  vi_Kind :: string
  vi_Name :: string
  vi_Phase :: string
  vi_BytesDone :: int
  vi_TotalBytes :: int
  vi_IncrementalBytes :: int
  vi_IncrementalKnown :: bool
  vi_KnownTotal :: bool
  vi_Message :: string
  vi_ErrorCode :: string
  vi_CreatedAt :: gtime
  vi_ElapsedSeconds :: int

record VolumeProgress =
  vp_DiscoveryComplete :: bool
  vp_DiscoveryCount :: int
  vp_Items :: "VolumeProgressItem list"
  vp_BytesDone :: int
  vp_TotalBytes :: int
  vp_IncrementalBytes :: int
  vp_IncrementalCount :: int
  vp_KnownTotal :: bool
  vp_AllTotalsKnown :: bool
  vp_KnownTotalCount :: int
  vp_UnknownTotalCount :: int
  vp_RunningCount :: int
  vp_FailedCount :: int
  vp_Completed :: int

definition zero_progress :: VolumeProgress where
  "zero_progress = \<lparr>vp_DiscoveryComplete = False, vp_DiscoveryCount = 0, vp_Items = [], vp_BytesDone = 0, vp_TotalBytes = 0,
     vp_IncrementalBytes = 0, vp_IncrementalCount = 0, vp_KnownTotal = False, vp_AllTotalsKnown = False,
     vp_KnownTotalCount = 0, vp_UnknownTotalCount = 0, vp_RunningCount = 0, vp_FailedCount = 0, vp_Completed = 0\<rparr>"

record volumeProgressResource =
  vr_Resource :: string
  vr_Kind :: string
  vr_Label :: string

definition restoreVolumeStartGrace :: int where
  "restoreVolumeStartGrace = 10 * durMinute"

definition restoreImagePullRetryWindow :: int where
  "restoreImagePullRetryWindow = 90 * durSecond"

definition restoreImagePullConfirmAge :: int where
  "restoreImagePullConfirmAge = 15 * durSecond"

definition volumeProgressBelongsTo :: "any \<Rightarrow> string \<Rightarrow> string \<Rightarrow> bool" where
  "volumeProgressBelongsTo item label ownerName \<longleftrightarrow>
     sget (GetLabels item) label = ownerName \<or> has_prefix (ownerName @ ''-'') (GetName item)"

definition volumeProgressFromItem :: "string \<Rightarrow> any \<Rightarrow> VolumeProgressItem" where
  "volumeProgressFromItem kind item =
     (let total = NestedInt64 item [''status'', ''progress'', ''totalBytes''];
          incremental = NestedInt64 item [''status'', ''incrementalBytes''];
          incrementalBytes = (case incremental of None \<Rightarrow> 0 | Some n \<Rightarrow> if n < 0 then 0 else n);
          phase = NestedString item [''status'', ''phase''];
          incrementalKnown = (incremental \<noteq> None \<or> phase = ''Completed'' \<and> (kind = ''DataUpload'' \<or> kind = ''PodVolumeBackup''));
          volume = NestedString item [''spec'', ''volume'']
      in \<lparr>vi_Volume = (if volume = '''' then NestedString item [''spec'', ''sourcePVC''] else volume),
          vi_Pod = NestedString item [''spec'', ''pod'', ''name''],
          vi_Namespace = (if volume = '''' then NestedString item [''spec'', ''sourceNamespace'']
            else NestedString item [''spec'', ''pod'', ''namespace'']),
          vi_StartedAt = NestedString item [''status'', ''startTimestamp''], vi_Kind = kind, vi_Name = GetName item, vi_Phase = phase,
          vi_BytesDone = int64FieldPath item [''status'', ''progress'', ''bytesDone''],
          vi_TotalBytes = (case total of None \<Rightarrow> 0 | Some n \<Rightarrow> n), vi_IncrementalBytes = incrementalBytes,
          vi_IncrementalKnown = incrementalKnown, vi_KnownTotal = (case total of None \<Rightarrow> False | Some n \<Rightarrow> n > 0),
          vi_Message = NestedString item [''status'', ''message''], vi_ErrorCode = '''', vi_CreatedAt = 0, vi_ElapsedSeconds = 0\<rparr>)"

definition podVolumeBackupTotalsBySnapshot :: "list_objects \<Rightarrow> string \<Rightarrow> (string \<times> int) list" where
  "podVolumeBackupTotalsBySnapshot listObjects namespace = (case listObjects ''podvolumebackups'' namespace of
     Inl _ \<Rightarrow> []
   | Inr items \<Rightarrow> foldl (\<lambda>totals item.
       let snapshotID = NestedString item [''status'', ''snapshotID''] in
       case NestedInt64 item [''status'', ''progress'', ''totalBytes''] of None \<Rightarrow> totals
       | Some totalBytes \<Rightarrow> if snapshotID \<noteq> '''' \<and> totalBytes > 0 then mset_key snapshotID totalBytes totals else totals) [] items)"

fun missing_claim :: "get_object \<Rightarrow> string \<Rightarrow> string \<Rightarrow> any list \<Rightarrow> string" where
  "missing_claim getObject podNamespace volumeName [] = ''''"
| "missing_claim getObject podNamespace volumeName (raw # rest) =
     (if stringField (as_map raw) ''name'' \<noteq> volumeName then missing_claim getObject podNamespace volumeName rest
      else let claimName = NestedString raw [''persistentVolumeClaim'', ''claimName''] in
        if claimName = '''' then ''''
        else (case getObject ''persistentvolumeclaims'' podNamespace claimName of
            Inl ApiNotFound \<Rightarrow> ''volume restore cannot start because persistent volume claim '' @ podNamespace @ ''/'' @ claimName @ '' does not exist''
          | _ \<Rightarrow> ''''))"

definition podVolumeRestoreDependencyFailure :: "get_object \<Rightarrow> any \<Rightarrow> string" where
  "podVolumeRestoreDependencyFailure getObject item =
     (let podNamespace = NestedString item [''spec'', ''pod'', ''namespace''];
          podName = NestedString item [''spec'', ''pod'', ''name'']; volumeName = NestedString item [''spec'', ''volume'']
      in if podNamespace = '''' \<or> podName = '''' \<or> volumeName = '''' then ''''
         else (case getObject ''pods'' podNamespace podName of Inl _ \<Rightarrow> ''''
           | Inr pod \<Rightarrow> missing_claim getObject podNamespace volumeName (NestedSlice pod [''spec'', ''volumes''])))"

text \<open>The total of a queued restore, taken from the backup of its snapshot.\<close>

definition with_snapshot_total :: "list_objects \<Rightarrow> string \<Rightarrow> string \<Rightarrow> any \<Rightarrow> VolumeProgressItem \<Rightarrow> VolumeProgressItem" where
  "with_snapshot_total listObjects namespace kind item progress =
     (if kind = ''PodVolumeRestore'' \<and> \<not> vi_KnownTotal progress then
        (case map_of (podVolumeBackupTotalsBySnapshot listObjects namespace) (NestedString item [''spec'', ''snapshotID'']) of
           None \<Rightarrow> progress
         | Some totalBytes \<Rightarrow> if totalBytes > 0 then progress\<lparr>vi_TotalBytes := totalBytes, vi_KnownTotal := True\<rparr> else progress)
      else progress)"

text \<open>One item of the loop of \<^verbatim>\<open>getVolumeProgress\<close>.\<close>

definition progress_of_item :: "gtime \<Rightarrow> list_objects \<Rightarrow> get_object \<Rightarrow> string \<Rightarrow> string \<Rightarrow> any \<Rightarrow> VolumeProgressItem" where
  "progress_of_item now listObjects getObject namespace kind item =
     (let progress = with_snapshot_total listObjects namespace kind item (volumeProgressFromItem kind item);
          age = now - GetCreationTimestamp item;
          progress = progress\<lparr>vi_CreatedAt := GetCreationTimestamp item, vi_ElapsedSeconds := (if age > 0 then age div durSecond else 0)\<rparr>
      in if kind = ''PodVolumeRestore'' \<and> vi_Phase progress = '''' \<and> age \<ge> restoreVolumeStartGrace
         then (let message = podVolumeRestoreDependencyFailure getObject item in
           if message \<noteq> '''' then progress\<lparr>vi_Phase := ''FailedValidation'', vi_Message := message,
             vi_ErrorCode := ''RESTORE_VOLUME_DEPENDENCY_MISSING''\<rparr> else progress)
         else progress)"

definition failed_phase :: "string \<Rightarrow> bool" where
  "failed_phase phase \<longleftrightarrow> phase \<in> {''Failed'', ''FailedValidation'', ''PartiallyFailed'', ''Canceled''}"

definition running_phase :: "string \<Rightarrow> bool" where
  "running_phase phase \<longleftrightarrow> phase \<in> {''InProgress'', ''Accepted'', ''Prepared'', ''New''}"

definition add_progress :: "VolumeProgress \<Rightarrow> VolumeProgressItem \<Rightarrow> VolumeProgress" where
  "add_progress result progress =
     (let result = result\<lparr>vp_Items := vp_Items result @ [progress], vp_BytesDone := vp_BytesDone result + vi_BytesDone progress\<rparr>;
          result = (if vi_IncrementalKnown progress
            then result\<lparr>vp_IncrementalBytes := vp_IncrementalBytes result + vi_IncrementalBytes progress,
              vp_IncrementalCount := vp_IncrementalCount result + 1\<rparr> else result);
          result = (if vi_KnownTotal progress
            then result\<lparr>vp_TotalBytes := vp_TotalBytes result + vi_TotalBytes progress, vp_KnownTotal := True,
              vp_KnownTotalCount := vp_KnownTotalCount result + 1\<rparr>
            else result\<lparr>vp_UnknownTotalCount := vp_UnknownTotalCount result + 1\<rparr>);
          phase = vi_Phase progress
      in if phase = ''Completed'' then result\<lparr>vp_Completed := vp_Completed result + 1\<rparr>
         else if failed_phase phase then result\<lparr>vp_FailedCount := vp_FailedCount result + 1\<rparr>
         else if running_phase phase then result\<lparr>vp_RunningCount := vp_RunningCount result + 1\<rparr>
         else result)"

text \<open>The items in the order they are read: by resource, those that belong to the owner; a list that fails is skipped.\<close>

definition owned_items ::
  "gtime \<Rightarrow> list_objects \<Rightarrow> get_object \<Rightarrow> string \<Rightarrow> string \<Rightarrow> volumeProgressResource list \<Rightarrow> VolumeProgressItem list" where
  "owned_items now listObjects getObject namespace ownerName resources = concat (map (\<lambda>resource.
     case listObjects (vr_Resource resource) namespace of Inl _ \<Rightarrow> []
     | Inr items \<Rightarrow> map (progress_of_item now listObjects getObject namespace (vr_Kind resource))
         (filter (\<lambda>item. volumeProgressBelongsTo item (vr_Label resource) ownerName) items)) resources)"

definition getVolumeProgress ::
  "gtime \<Rightarrow> list_objects \<Rightarrow> get_object \<Rightarrow> string \<Rightarrow> string \<Rightarrow> volumeProgressResource list \<Rightarrow> VolumeProgress" where
  "getVolumeProgress now listObjects getObject namespace ownerName resources =
     (if trim_space namespace = '''' \<or> trim_space ownerName = '''' then zero_progress
      else let result = foldl add_progress zero_progress (owned_items now listObjects getObject namespace ownerName resources)
        in result\<lparr>vp_AllTotalsKnown := (vp_Items result \<noteq> [] \<and> vp_UnknownTotalCount result = 0)\<rparr>)"

definition restore_resources :: "volumeProgressResource list" where
  "restore_resources =
     [\<lparr>vr_Resource = ''podvolumerestores'', vr_Kind = ''PodVolumeRestore'', vr_Label = ''velero.io/restore-name''\<rparr>,
      \<lparr>vr_Resource = ''datadownloads'', vr_Kind = ''DataDownload'', vr_Label = ''velero.io/restore-name''\<rparr>]"

definition GetRestoreVolumeProgress :: "gtime \<Rightarrow> list_objects \<Rightarrow> get_object \<Rightarrow> string \<Rightarrow> string \<Rightarrow> VolumeProgress" where
  "GetRestoreVolumeProgress now listObjects getObject namespace name =
     getVolumeProgress now listObjects getObject namespace name restore_resources"

definition backup_resources :: "volumeProgressResource list" where
  "backup_resources =
     [\<lparr>vr_Resource = ''podvolumebackups'', vr_Kind = ''PodVolumeBackup'', vr_Label = ''velero.io/backup-name''\<rparr>,
      \<lparr>vr_Resource = ''datauploads'', vr_Kind = ''DataUpload'', vr_Label = ''velero.io/backup-name''\<rparr>]"

text \<open>\<^verbatim>\<open>strconv.Atoi\<close>.\<close>

definition Atoi :: "string \<Rightarrow> int option" where
  "Atoi s = (let digits = (if s \<noteq> [] \<and> hd s \<in> {CHR ''-'', CHR ''+''} then tl s else s) in
     if digits = [] then None
     else (case read_digits digits of None \<Rightarrow> None
       | Some n \<Rightarrow> let v = (if hd s = CHR ''-'' then - n else n) in if wrap64 v = v then Some v else None))"

definition discovered_count :: "any \<Rightarrow> int option" where
  "discovered_count backup =
     (let uid = NestedString backup [''metadata'', ''uid''] in
      if uid = '''' then None
      else (case split_on CHR '':'' (sget (NestedStringMap backup [''metadata'', ''annotations'']) ''hypercdr.io/pod-volume-discovery'') of
          [owner, number] \<Rightarrow> if owner = uid then Atoi number else None
        | _ \<Rightarrow> None))"

definition GetBackupVolumeProgress :: "gtime \<Rightarrow> list_objects \<Rightarrow> get_object \<Rightarrow> string \<Rightarrow> string \<Rightarrow> VolumeProgress" where
  "GetBackupVolumeProgress now listObjects getObject namespace name =
     (if namespace = '''' \<or> name = '''' then zero_progress
      else let progress = getVolumeProgress now listObjects getObject namespace name backup_resources in
        (case getObject ''backups'' namespace name of Inl _ \<Rightarrow> progress
         | Inr backup \<Rightarrow> (case discovered_count backup of None \<Rightarrow> progress
           | Some number \<Rightarrow>
               if number \<ge> 0 \<and> int (length (vp_Items progress)) = number
               then progress\<lparr>vp_DiscoveryComplete := list_all (\<lambda>item. vi_Kind item = ''PodVolumeBackup'') (vp_Items progress),
                 vp_DiscoveryCount := number\<rparr>
               else progress)))"

section \<open>Cancelling\<close>

text \<open>
  The operations whose cancellation is requested, and the polling until none is running. \<open>patch\<close> gives the error
  of a request, if any; \<open>polls\<close> are the observations made, one per second, until the context ends.
\<close>

fun request_cancel :: "(string \<Rightarrow> kube_error option) \<Rightarrow> string list \<Rightarrow> string list \<times> kube_error option" where
  "request_cancel patch [] = ([], None)"
| "request_cancel patch (name # rest) = (case patch name of
     Some ApiNotFound \<Rightarrow> request_cancel patch rest
   | Some e \<Rightarrow> ([], Some e)
   | None \<Rightarrow> (case request_cancel patch rest of (requested, e) \<Rightarrow> (name # requested, e)))"

fun confirm_stopped :: "VolumeProgress list \<Rightarrow> kube_error + unit" where
  "confirm_stopped [] = Inl (KubeErrorf ''timed out confirming cancellation'')"
| "confirm_stopped (progress # rest) = (if vp_RunningCount progress = 0 then Inr () else confirm_stopped rest)"

definition cancel_targets :: "(any \<Rightarrow> bool) \<Rightarrow> string \<Rightarrow> string \<Rightarrow> (kube_error + any list) \<Rightarrow> kube_error + string list" where
  "cancel_targets eligible label ownerName listed = (case listed of
     Inl ApiNotFound \<Rightarrow> Inr []
   | Inl e \<Rightarrow> Inl e
   | Inr items \<Rightarrow> Inr (map GetName (filter (\<lambda>item. sget (GetLabels item) label = ownerName \<and> eligible item) items)))"

definition cancel_operations :: "(string \<Rightarrow> kube_error option) \<Rightarrow> kube_error + string list \<Rightarrow> VolumeProgress list \<Rightarrow> kube_error + unit" where
  "cancel_operations patch targets polls = (case targets of Inl e \<Rightarrow> Inl e
     | Inr names \<Rightarrow> (case request_cancel patch names of (_, Some e) \<Rightarrow> Inl e | (_, None) \<Rightarrow> confirm_stopped polls))"

definition CancelBackupVolumeOperations ::
  "list_objects \<Rightarrow> (string \<Rightarrow> kube_error option) \<Rightarrow> VolumeProgress list \<Rightarrow> string \<Rightarrow> string \<Rightarrow> kube_error + unit" where
  "CancelBackupVolumeOperations listObjects patch polls namespace name =
     cancel_operations patch (cancel_targets (\<lambda>item. NestedString item [''status'', ''phase''] \<in>
         {'''', ''New'', ''InProgress'', ''Accepted'', ''Prepared''})
       ''velero.io/backup-name'' name (listObjects ''datauploads'' namespace)) polls"

definition CancelRestoreVolumeOperations ::
  "list_objects \<Rightarrow> (string \<Rightarrow> kube_error option) \<Rightarrow> VolumeProgress list \<Rightarrow> string \<Rightarrow> string \<Rightarrow> kube_error + unit" where
  "CancelRestoreVolumeOperations listObjects patch polls namespace name =
     cancel_operations patch (cancel_targets (\<lambda>_. True) ''velero.io/restore-name'' name (listObjects ''datadownloads'' namespace)) polls"

section \<open>Readiness of a restored namespace\<close>

record ReadinessExpectations =
  re_Known :: bool
  re_RuntimeWorkloadsExpected :: bool
  re_PVCNames :: "string list"

record NamespaceReadiness =
  nr_Namespace :: string
  nr_NamespacePhase :: string
  nr_Ready :: bool
  nr_Message :: string
  nr_PodCount :: int
  nr_ReadyPodCount :: int
  nr_WorkloadCount :: int
  nr_ReadyWorkloads :: int
  nr_ServiceCount :: int
  nr_PVCCount :: int
  nr_ReadyPVCCount :: int
  nr_UnreadyPods :: "string list"
  nr_UnreadyWorkload :: "string list"
  nr_FailureCode :: string
  nr_FailureMessage :: string

definition zero_readiness :: "string \<Rightarrow> NamespaceReadiness" where
  "zero_readiness namespace = \<lparr>nr_Namespace = namespace, nr_NamespacePhase = '''', nr_Ready = False, nr_Message = '''',
     nr_PodCount = 0, nr_ReadyPodCount = 0, nr_WorkloadCount = 0, nr_ReadyWorkloads = 0, nr_ServiceCount = 0, nr_PVCCount = 0,
     nr_ReadyPVCCount = 0, nr_UnreadyPods = [], nr_UnreadyWorkload = [], nr_FailureCode = '''', nr_FailureMessage = ''''\<rparr>"

definition podAge :: "gtime \<Rightarrow> any \<Rightarrow> int" where
  "podAge now object = (case nestedTime object [''metadata'', ''creationTimestamp''] of None \<Rightarrow> 0 | Some createdAt \<Rightarrow> now - createdAt)"

definition deterministic_markers :: "string list" where
  "deterministic_markers = [''invalidimagename'', ''manifest unknown'', ''not found'', ''repository does not exist'',
     ''unauthorized'', ''authentication required'', ''pull access denied'', ''denied'', ''connection refused'', ''no such host'',
     ''network is unreachable'', ''certificate'', ''tls handshake'', ''unsupported platform'', ''no matching manifest'']"

definition imagePullFailureIsDeterministic :: "string \<Rightarrow> bool" where
  "imagePullFailureIsDeterministic message \<longleftrightarrow> list_ex (\<lambda>marker. contains marker (to_lower message)) deterministic_markers"

definition fatal_mount_event :: "any \<Rightarrow> bool" where
  "fatal_mount_event event =
     (let reason = NestedString event [''reason'']; lower = to_lower (NestedString event [''message'']) in
      (reason = ''FailedMount'' \<or> reason = ''FailedAttachVolume'') \<and> contains ''fsck'' lower \<and>
      (contains ''could not correct'' lower \<or> contains ''uncorrectable'' lower))"

definition persistentStorageFailureEventMessage :: "any list \<Rightarrow> string \<Rightarrow> string \<times> string" where
  "persistentStorageFailureEventMessage events podName = (case List.find fatal_mount_event events of
     None \<Rightarrow> ('''', '''')
   | Some event \<Rightarrow> (''RESTORE_WORKLOAD_VOLUME_MOUNT_FAILED'',
       ''restored pod '' @ podName @ '' cannot mount its persistent volume: '' @ NestedString event [''message'']))"

definition imagePullFailureEventMessage :: "any list \<Rightarrow> string" where
  "imagePullFailureEventMessage events = foldl (\<lambda>message event.
     let candidate = NestedString event [''message'']; lower = to_lower candidate in
     if \<not> contains ''failed to pull image'' lower \<and> \<not> contains ''failed to pull and unpack image'' lower then message
     else if length candidate > length message then candidate else message) '''' events"

text \<open>\<^verbatim>\<open>fmt.Sprint\<close> of a scalar; lists and maps do not occur in the fields read.\<close>

definition sprint :: "any \<Rightarrow> string" where
  "sprint v = (case v of AStr s \<Rightarrow> s | ANum n \<Rightarrow> show_int n | ABool b \<Rightarrow> if b then ''true'' else ''false'' | ANil \<Rightarrow> ''<nil>'' | _ \<Rightarrow> '''')"

fun join_with :: "string \<Rightarrow> string list \<Rightarrow> string" where
  "join_with sep [] = ''''"
| "join_with sep [s] = s"
| "join_with sep (s # t # rest) = s @ sep @ join_with sep (t # rest)"

fun firstStringField :: "gomap \<Rightarrow> string list \<Rightarrow> string" where
  "firstStringField m [] = ''''"
| "firstStringField m (key # keys) = (case mget m key of
     AStr s \<Rightarrow> if s \<noteq> '''' then s else firstStringField m keys
   | ASlice items \<Rightarrow> let parts = filter (\<lambda>p. p \<noteq> '''') (map (\<lambda>v. trim_space (sprint v)) items) in
       if parts \<noteq> [] then join_with ''; '' parts else firstStringField m keys
   | _ \<Rightarrow> firstStringField m keys)"

text \<open>The two messages of \<^verbatim>\<open>podTerminalReadinessFailure\<close>, and its loop over the container statuses.\<close>

definition start_failure_message :: "string \<Rightarrow> gomap \<Rightarrow> gomap \<Rightarrow> string" where
  "start_failure_message podName status waiting =
     (let image = stringField status ''image''; detail = stringField waiting ''message''
      in ''restored pod '' @ podName @ '' container '' @ stringField status ''name'' @ '' cannot start: '' @ stringField waiting ''reason'' @
         (if image \<noteq> '''' then '' (image '' @ image @ '')'' else '''') @ (if detail \<noteq> '''' then '': '' @ detail else ''''))"

definition crash_message :: "string \<Rightarrow> gomap \<Rightarrow> string" where
  "crash_message podName status =
     (let terminated = NestedMap (AMap status) [''lastState'', ''terminated'']; exitCode = intField terminated ''exitCode'';
          detail = firstStringField terminated [''message'', ''reason'']
      in ''restored pod '' @ podName @ '' container '' @ stringField status ''name'' @ '' is crash looping after '' @
         show_int (intField status ''restartCount'') @ '' restarts'' @
         (if exitCode \<noteq> 0 then '' (last exit code '' @ show_int exitCode @ '')'' else '''') @
         (if detail \<noteq> '''' then '': '' @ detail else ''''))"

fun status_failure :: "int \<Rightarrow> string \<Rightarrow> any list \<Rightarrow> string \<times> string" where
  "status_failure age podName [] = ('''', '''')"
| "status_failure age podName (raw # rest) =
     (let status = as_map raw; waiting = NestedMap (AMap status) [''state'', ''waiting'']; reason = stringField waiting ''reason'' in
      if reason \<in> {''ErrImagePull'', ''ImagePullBackOff'', ''InvalidImageName'', ''CreateContainerConfigError''} then
        (let message = start_failure_message podName status waiting in
         if age < restoreImagePullConfirmAge \<and> \<not> imagePullFailureIsDeterministic message then ('''', '''')
         else if age < restoreImagePullRetryWindow \<and> \<not> imagePullFailureIsDeterministic message then ('''', '''')
         else (''RESTORE_WORKLOAD_IMAGE_PULL_FAILED'', message))
      else if reason = ''CrashLoopBackOff'' then
        (if intField status ''restartCount'' < 3 then status_failure age podName rest
         else (''RESTORE_WORKLOAD_CRASH_LOOP'', crash_message podName status))
      else status_failure age podName rest)"

definition podTerminalReadinessFailure :: "gtime \<Rightarrow> any \<Rightarrow> string \<times> string" where
  "podTerminalReadinessFailure now object = status_failure (podAge now object) (NestedString object [''metadata'', ''name''])
     (NestedSlice object [''status'', ''initContainerStatuses''] @ NestedSlice object [''status'', ''containerStatuses''])"

definition isPodReady :: "any \<Rightarrow> bool" where
  "isPodReady object \<longleftrightarrow> list_ex (\<lambda>c. stringField (as_map c) ''type'' = ''Ready'' \<and> stringField (as_map c) ''status'' = ''True'')
     (NestedSlice object [''status'', ''conditions''])"

definition isWorkloadReady :: "string \<Rightarrow> any \<Rightarrow> int \<Rightarrow> bool" where
  "isWorkloadReady kind object desired =
     (if kind = ''daemonset''
      then int64FieldPath object [''status'', ''numberReady''] \<ge> desired \<and> int64FieldPath object [''status'', ''updatedNumberScheduled''] \<ge> desired
      else int64FieldPath object [''status'', ''readyReplicas''] \<ge> desired \<and> int64FieldPath object [''status'', ''availableReplicas''] \<ge> desired)"

text \<open>The events of one pod, chosen by the API with a field selector; an error reads as no events.\<close>

type_synonym pod_events = "string \<Rightarrow> any list"

text \<open>What is wrong with a pod: the code and message of the failure found, if any.\<close>

definition pod_failure :: "gtime \<Rightarrow> pod_events \<Rightarrow> any \<Rightarrow> (string \<times> string) option" where
  "pod_failure now events pod =
     (let name = GetName pod; imageDetail = imagePullFailureEventMessage (events name);
          (code, message) = podTerminalReadinessFailure now pod
      in if code \<noteq> '''' then
           (if code = ''RESTORE_WORKLOAD_IMAGE_PULL_FAILED'' \<and> imageDetail \<noteq> '''' \<and> \<not> contains imageDetail message
            then Some (code, message @ ''. Underlying kubelet error: '' @ imageDetail) else Some (code, message))
         else let message = ''restored pod '' @ name @ '' cannot pull its image: '' @ imageDetail in
           if imageDetail \<noteq> '''' \<and> (podAge now pod \<ge> restoreImagePullRetryWindow \<or>
               imagePullFailureIsDeterministic message \<and> podAge now pod \<ge> restoreImagePullConfirmAge)
           then Some (''RESTORE_WORKLOAD_IMAGE_PULL_FAILED'', message)
           else let (code, message) = persistentStorageFailureEventMessage (events name) name in
             if code \<noteq> '''' then Some (code, message) else None)"

definition pod_step :: "gtime \<Rightarrow> pod_events \<Rightarrow> NamespaceReadiness \<Rightarrow> any \<Rightarrow> NamespaceReadiness" where
  "pod_step now events result pod =
     (if NestedString pod [''status'', ''phase''] = ''Succeeded'' then result
      else let result = result\<lparr>nr_PodCount := nr_PodCount result + 1\<rparr> in
        (case pod_failure now events pod of
           Some (code, message) \<Rightarrow> result\<lparr>nr_FailureCode := code, nr_FailureMessage := message,
             nr_UnreadyPods := nr_UnreadyPods result @ [GetName pod]\<rparr>
         | None \<Rightarrow> if isPodReady pod then result\<lparr>nr_ReadyPodCount := nr_ReadyPodCount result + 1\<rparr>
             else result\<lparr>nr_UnreadyPods := nr_UnreadyPods result @ [GetName pod]\<rparr>))"

definition readPodReadiness ::
  "gtime \<Rightarrow> list_objects \<Rightarrow> pod_events \<Rightarrow> string \<Rightarrow> NamespaceReadiness \<Rightarrow> kube_error + NamespaceReadiness" where
  "readPodReadiness now listObjects events namespace result =
     res_bind (listObjects ''pods'' namespace) (\<lambda>pods. Inr (foldl (pod_step now events) result pods))"

definition desired_replicas :: "string \<Rightarrow> any \<Rightarrow> int" where
  "desired_replicas kind item = (if kind = ''daemonset'' then int64FieldPath item [''status'', ''desiredNumberScheduled'']
     else int64FieldPath item [''spec'', ''replicas''])"

definition workload_step :: "string \<Rightarrow> NamespaceReadiness \<Rightarrow> any \<Rightarrow> NamespaceReadiness" where
  "workload_step kind result item =
     (let desired = desired_replicas kind item in
      if desired = 0 then result
      else let result = result\<lparr>nr_WorkloadCount := nr_WorkloadCount result + 1\<rparr> in
        if isWorkloadReady kind item desired then result\<lparr>nr_ReadyWorkloads := nr_ReadyWorkloads result + 1\<rparr>
        else result\<lparr>nr_UnreadyWorkload := nr_UnreadyWorkload result @ [kind @ ''/'' @ GetName item]\<rparr>)"

definition workload_kinds :: "(string \<times> string) list" where
  "workload_kinds = [(''deployments'', ''deployment''), (''statefulsets'', ''statefulset''), (''daemonsets'', ''daemonset'')]"

definition readWorkloadReadiness :: "list_objects \<Rightarrow> string \<Rightarrow> NamespaceReadiness \<Rightarrow> kube_error + NamespaceReadiness" where
  "readWorkloadReadiness listObjects namespace result =
     res_fold (\<lambda>result (resource, kind). res_bind (listObjects resource namespace) (\<lambda>items.
       Inr (foldl (workload_step kind) result items))) result workload_kinds"

definition claim_step :: "get_object \<Rightarrow> string \<Rightarrow> NamespaceReadiness \<Rightarrow> string \<Rightarrow> kube_error + NamespaceReadiness" where
  "claim_step getObject namespace result name =
     (let result = result\<lparr>nr_PVCCount := nr_PVCCount result + 1\<rparr>;
          unready = (\<lambda>why. result\<lparr>nr_UnreadyWorkload := nr_UnreadyWorkload result @ [''PersistentVolumeClaim/'' @ name @ '' ('' @ why @ '')'']\<rparr>)
      in case getObject ''persistentvolumeclaims'' namespace name of
           Inl ApiNotFound \<Rightarrow> Inr (unready ''not restored'')
         | Inl e \<Rightarrow> Inl e
         | Inr pvc \<Rightarrow> let phase = NestedString pvc [''status'', ''phase''] in
             if phase = ''Bound'' then Inr (result\<lparr>nr_ReadyPVCCount := nr_ReadyPVCCount result + 1\<rparr>)
             else Inr (unready (if phase = '''' then ''Pending'' else phase)))"

definition readiness_verdict :: "string \<Rightarrow> ReadinessExpectations \<Rightarrow> NamespaceReadiness \<Rightarrow> NamespaceReadiness" where
  "readiness_verdict namespace expectations result =
     (if re_Known expectations \<and> \<not> re_RuntimeWorkloadsExpected expectations \<and> nr_UnreadyWorkload result = [] then
        result\<lparr>nr_Ready := True, nr_Message := ''restored namespace '' @ quoted namespace @
          '' has no runtime workloads to wait for; expected persistent volume claims are ready''\<rparr>
      else if nr_PodCount result = 0 \<and> nr_WorkloadCount result = 0 then
        result\<lparr>nr_Message := ''namespace '' @ quoted namespace @ '' has no restored pods or workloads yet''\<rparr>
      else if nr_UnreadyPods result \<noteq> [] then
        result\<lparr>nr_Message := ''waiting for restored pods to become ready: '' @ join_with '', '' (nr_UnreadyPods result)\<rparr>
      else if nr_UnreadyWorkload result \<noteq> [] then
        result\<lparr>nr_Message := ''waiting for restored workloads to become ready: '' @ join_with '', '' (nr_UnreadyWorkload result)\<rparr>
      else result\<lparr>nr_Ready := True, nr_Message := ''restored namespace '' @ quoted namespace @ '' is ready''\<rparr>)"

definition GetNamespaceReadiness ::
  "gtime \<Rightarrow> list_objects \<Rightarrow> get_object \<Rightarrow> pod_events \<Rightarrow> string \<Rightarrow> ReadinessExpectations \<Rightarrow> kube_error + NamespaceReadiness" where
  "GetNamespaceReadiness now listObjects getObject events namespace expectations =
     (if trim_space namespace = '''' then Inl (KubeErrorf ''namespace is required'')
      else res_bind (getObject ''namespaces'' '''' namespace) (\<lambda>ns.
        let result = (zero_readiness namespace)\<lparr>nr_NamespacePhase := NestedString ns [''status'', ''phase'']\<rparr> in
        if nr_NamespacePhase result \<noteq> ''Active''
        then Inr (result\<lparr>nr_Message := ''namespace '' @ quoted namespace @ '' is not active''\<rparr>)
        else res_bind (readPodReadiness now listObjects events namespace result) (\<lambda>result.
          res_bind (readWorkloadReadiness listObjects namespace result) (\<lambda>result.
          res_bind (res_fold (claim_step getObject namespace) result (re_PVCNames expectations)) (\<lambda>result.
          res_bind (listObjects ''services'' namespace) (\<lambda>services.
          let result = result\<lparr>nr_ServiceCount := int (length services), nr_UnreadyPods := sort (nr_UnreadyPods result),
                nr_UnreadyWorkload := sort (nr_UnreadyWorkload result)\<rparr>
          in Inr (readiness_verdict namespace expectations result)))))))"

section \<open>Properties of progress\<close>

lemma phases_disjoint: "\<not> failed_phase ''Completed''" "\<not> running_phase ''Completed''" "running_phase s \<Longrightarrow> \<not> failed_phase s"
  by (auto simp: failed_phase_def running_phase_def)

definition counted :: "(VolumeProgressItem \<Rightarrow> bool) \<Rightarrow> VolumeProgressItem list \<Rightarrow> int" where
  "counted P items = int (length (filter P items))"

lemma counted_simps [simp]:
  "counted P [] = 0" "counted P (xs @ [x]) = counted P xs + (if P x then 1 else 0)"
  by (simp_all add: counted_def)

lemma add_progress_fields:
  "vp_Items (add_progress r p) = vp_Items r @ [p]"
  "vp_BytesDone (add_progress r p) = vp_BytesDone r + vi_BytesDone p"
  "vp_TotalBytes (add_progress r p) = vp_TotalBytes r + (if vi_KnownTotal p then vi_TotalBytes p else 0)"
  "vp_IncrementalBytes (add_progress r p) = vp_IncrementalBytes r + (if vi_IncrementalKnown p then vi_IncrementalBytes p else 0)"
  "vp_KnownTotalCount (add_progress r p) = vp_KnownTotalCount r + (if vi_KnownTotal p then 1 else 0)"
  "vp_UnknownTotalCount (add_progress r p) = vp_UnknownTotalCount r + (if \<not> vi_KnownTotal p then 1 else 0)"
  "vp_Completed (add_progress r p) = vp_Completed r + (if vi_Phase p = ''Completed'' then 1 else 0)"
  "vp_FailedCount (add_progress r p) = vp_FailedCount r + (if failed_phase (vi_Phase p) then 1 else 0)"
  "vp_RunningCount (add_progress r p) = vp_RunningCount r + (if running_phase (vi_Phase p) then 1 else 0)"
  using phases_disjoint(1,2) phases_disjoint(3) [of "vi_Phase p"] by (auto simp: add_progress_def Let_def)

lemma folded_progress:
  fixes items
  defines "r \<equiv> foldl add_progress zero_progress items"
  shows "vp_Items r = items"
    "vp_BytesDone r = sum_list (map vi_BytesDone items)"
    "vp_TotalBytes r = sum_list (map vi_TotalBytes (filter vi_KnownTotal items))"
    "vp_IncrementalBytes r = sum_list (map vi_IncrementalBytes (filter vi_IncrementalKnown items))"
    "vp_KnownTotalCount r = counted vi_KnownTotal items"
    "vp_UnknownTotalCount r = counted (\<lambda>i. \<not> vi_KnownTotal i) items"
    "vp_Completed r = counted (\<lambda>i. vi_Phase i = ''Completed'') items"
    "vp_FailedCount r = counted (\<lambda>i. failed_phase (vi_Phase i)) items"
    "vp_RunningCount r = counted (\<lambda>i. running_phase (vi_Phase i)) items"
  unfolding r_def by (induction items rule: rev_induct; simp add: add_progress_fields zero_progress_def)+

lemma counted_zero: "counted P items = 0 \<longleftrightarrow> (\<forall>i \<in> set items. \<not> P i)"
  by (auto simp: counted_def filter_empty_conv)

lemma progress_fields:
  fixes now listObjects getObject resources
  assumes "trim_space namespace \<noteq> ''''" "trim_space owner \<noteq> ''''"
  defines "items \<equiv> owned_items now listObjects getObject namespace owner resources"
    and "p \<equiv> getVolumeProgress now listObjects getObject namespace owner resources"
  shows "vp_Items p = items" "vp_BytesDone p = sum_list (map vi_BytesDone items)"
    "vp_TotalBytes p = sum_list (map vi_TotalBytes (filter vi_KnownTotal items))"
    "vp_AllTotalsKnown p \<longleftrightarrow> items \<noteq> [] \<and> (\<forall>i \<in> set items. vi_KnownTotal i)"
    "vp_Completed p = counted (\<lambda>i. vi_Phase i = ''Completed'') items"
    "vp_FailedCount p = counted (\<lambda>i. failed_phase (vi_Phase i)) items"
    "vp_RunningCount p = counted (\<lambda>i. running_phase (vi_Phase i)) items"
    "vp_IncrementalBytes p = sum_list (map vi_IncrementalBytes (filter vi_IncrementalKnown items))"
  using assms(1,2) folded_progress [of items]
  by (simp_all add: p_def items_def [symmetric] getVolumeProgress_def Let_def counted_zero)

lemma counted_disjoint:
  assumes "\<And>i. \<not> (P i \<and> Q i)" "\<And>i. \<not> (P i \<and> R i)" "\<And>i. \<not> (Q i \<and> R i)"
  shows "counted P items + counted Q items + counted R items \<le> int (length items)"
proof (induction items rule: rev_induct)
  case (snoc x xs)
  then show ?case using assms [of x] by auto
qed simp

lemma known_total_positive:
  fixes now listObjects getObject namespace kind item
  defines "p \<equiv> progress_of_item now listObjects getObject namespace kind item"
  assumes "vi_KnownTotal p"
  shows "vi_TotalBytes p > 0"
proof -
  define q where "q = with_snapshot_total listObjects namespace kind item (volumeProgressFromItem kind item)"
  have q: "vi_KnownTotal p = vi_KnownTotal q" "vi_TotalBytes p = vi_TotalBytes q"
    unfolding p_def progress_of_item_def Let_def q_def [symmetric] by (simp_all split: if_split)
  have "vi_KnownTotal (volumeProgressFromItem kind item) \<Longrightarrow> vi_TotalBytes (volumeProgressFromItem kind item) > 0"
    by (simp add: volumeProgressFromItem_def Let_def split: option.splits)
  then have "vi_KnownTotal q \<Longrightarrow> vi_TotalBytes q > 0"
    unfolding q_def with_snapshot_total_def by (simp split: option.splits if_splits)
  then show ?thesis using assms q by simp
qed

text \<open>The progress of a backup or restore is exact: bytes are the sums over its volumes (totals and increments over those
  where they are known), the counts are the numbers of volumes in the phases, and a volume is in one of
  them at most. A known total is positive, and all totals are known only where there is a volume and every
  volume has one.\<close>

theorem volume_progress_exact:
  assumes "trim_space namespace \<noteq> ''''" "trim_space owner \<noteq> ''''"
    and "p = getVolumeProgress now listObjects getObject namespace owner resources"
    and "items = owned_items now listObjects getObject namespace owner resources"
  shows "vp_Items p = items \<and> vp_BytesDone p = sum_list (map vi_BytesDone items) \<and>
    vp_TotalBytes p = sum_list (map vi_TotalBytes (filter vi_KnownTotal items)) \<and>
    vp_IncrementalBytes p = sum_list (map vi_IncrementalBytes (filter vi_IncrementalKnown items)) \<and>
    vp_Completed p = counted (\<lambda>i. vi_Phase i = ''Completed'') items \<and>
    vp_FailedCount p = counted (\<lambda>i. failed_phase (vi_Phase i)) items \<and>
    vp_RunningCount p = counted (\<lambda>i. running_phase (vi_Phase i)) items \<and>
    vp_Completed p + vp_FailedCount p + vp_RunningCount p \<le> int (length items) \<and>
    (\<forall>i \<in> set items. vi_KnownTotal i \<longrightarrow> vi_TotalBytes i > 0) \<and>
    (vp_AllTotalsKnown p \<longleftrightarrow> items \<noteq> [] \<and> (\<forall>i \<in> set items. vi_KnownTotal i))"
proof -
  note f = progress_fields [OF assms(1,2), of now listObjects getObject resources, folded assms(3) assms(4)]
  have "\<forall>i \<in> set items. vi_KnownTotal i \<longrightarrow> vi_TotalBytes i > 0"
    unfolding assms(4) owned_items_def using known_total_positive by (auto split: sum.splits)
  moreover have "vp_Completed p + vp_FailedCount p + vp_RunningCount p \<le> int (length items)"
    unfolding f by (rule counted_disjoint) (use phases_disjoint in auto)
  ultimately show ?thesis using f by (intro conjI) simp_all
qed

lemma confirm_stopped_ok: "confirm_stopped polls = Inr () \<longleftrightarrow> (\<exists>p \<in> set polls. vp_RunningCount p = 0)"
  by (induction polls) auto

lemma cancel_operations_confirmed: "cancel_operations patch targets polls = Inr () \<Longrightarrow> \<exists>p \<in> set polls. vp_RunningCount p = 0"
  by (auto simp: cancel_operations_def confirm_stopped_ok [symmetric] split: sum.splits prod.splits option.splits)

text \<open>A cancellation of a restore is confirmed only after an observation in which no volume operation of the restore
  was new, accepted, prepared or in progress.\<close>

theorem cancel_confirmed:
  assumes "CancelRestoreVolumeOperations listObjects patch
      (map (\<lambda>(now, lst, get). GetRestoreVolumeProgress now lst get namespace name) observations) namespace name = Inr ()"
    and "trim_space namespace \<noteq> ''''" "trim_space name \<noteq> ''''"
  shows "\<exists>(now, lst, get) \<in> set observations.
    \<forall>i \<in> set (owned_items now lst get namespace name restore_resources). \<not> running_phase (vi_Phase i)"
proof -
  from cancel_operations_confirmed [OF assms(1) [unfolded CancelRestoreVolumeOperations_def]]
  obtain now lst get where "(now, lst, get) \<in> set observations" "vp_RunningCount (GetRestoreVolumeProgress now lst get namespace name) = 0"
    by auto
  then show ?thesis
    using progress_fields(7) [OF assms(2,3), of now lst get restore_resources] unfolding GetRestoreVolumeProgress_def
    by (auto simp: counted_zero intro!: bexI [of _ "(now, lst, get)"])
qed

text \<open>C36: Operations that are still being cancelled do not hold the confirmation up: where every operation of the restore
  is in Velero's phase \<^verbatim>\<open>Canceling\<close>, in which the node agent is still stopping, the cancellation is confirmed on the
  first observation.\<close>

theorem canceling_not_awaited:
  assumes "\<forall>i \<in> set (owned_items now listObjects getObject namespace name restore_resources). vi_Phase i = ''Canceling''"
    and "listObjects ''datadownloads'' namespace = Inr items" "\<forall>n. patch n = None"
    and "trim_space namespace \<noteq> ''''" "trim_space name \<noteq> ''''"
  shows "CancelRestoreVolumeOperations listObjects patch (GetRestoreVolumeProgress now listObjects getObject namespace name # later)
    namespace name = Inr ()"
proof -
  have "\<not> running_phase ''Canceling''" by (simp add: running_phase_def)
  then have "vp_RunningCount (GetRestoreVolumeProgress now listObjects getObject namespace name) = 0"
    using assms(1) unfolding GetRestoreVolumeProgress_def by (simp add: progress_fields(7) [OF assms(4,5)] counted_zero)
  moreover have "snd (request_cancel patch names) = None" for names
    using assms(3) by (induction names) (auto split: prod.splits)
  ultimately show ?thesis
    by (simp add: CancelRestoreVolumeOperations_def cancel_operations_def cancel_targets_def assms(2) prod.case_eq_if)
qed

section \<open>When a namespace is ready\<close>

definition live_pod :: "any \<Rightarrow> bool" where
  "live_pod pod \<longleftrightarrow> NestedString pod [''status'', ''phase''] \<noteq> ''Succeeded''"

definition pod_ok :: "gtime \<Rightarrow> pod_events \<Rightarrow> any \<Rightarrow> bool" where
  "pod_ok now events pod \<longleftrightarrow> pod_failure now events pod = None \<and> isPodReady pod"

definition workload_ok :: "string \<Rightarrow> any \<Rightarrow> bool" where
  "workload_ok kind item \<longleftrightarrow> isWorkloadReady kind item (desired_replicas kind item)"

lemma pod_step_fields:
  "nr_PodCount (pod_step now events r p) = nr_PodCount r + (if live_pod p then 1 else 0)"
  "nr_UnreadyPods (pod_step now events r p) = nr_UnreadyPods r @ (if live_pod p \<and> \<not> pod_ok now events p then [GetName p] else [])"
  "nr_WorkloadCount (pod_step now events r p) = nr_WorkloadCount r" "nr_UnreadyWorkload (pod_step now events r p) = nr_UnreadyWorkload r"
  "nr_Ready (pod_step now events r p) = nr_Ready r"
  by (auto simp: pod_step_def live_pod_def pod_ok_def Let_def split: option.splits)

lemma pods_fields:
  "nr_PodCount (foldl (pod_step now events) r pods) = nr_PodCount r + int (length (filter live_pod pods))"
  "nr_UnreadyPods (foldl (pod_step now events) r pods) =
     nr_UnreadyPods r @ map GetName (filter (\<lambda>p. live_pod p \<and> \<not> pod_ok now events p) pods)"
  "nr_WorkloadCount (foldl (pod_step now events) r pods) = nr_WorkloadCount r"
  "nr_UnreadyWorkload (foldl (pod_step now events) r pods) = nr_UnreadyWorkload r"
  "nr_Ready (foldl (pod_step now events) r pods) = nr_Ready r"
  by (induction pods arbitrary: r; simp add: pod_step_fields)+

lemma workload_step_fields:
  "nr_WorkloadCount (workload_step kind r w) = nr_WorkloadCount r + (if desired_replicas kind w \<noteq> 0 then 1 else 0)"
  "nr_UnreadyWorkload (workload_step kind r w) =
     nr_UnreadyWorkload r @ (if desired_replicas kind w \<noteq> 0 \<and> \<not> workload_ok kind w then [kind @ ''/'' @ GetName w] else [])"
  "nr_PodCount (workload_step kind r w) = nr_PodCount r" "nr_UnreadyPods (workload_step kind r w) = nr_UnreadyPods r"
  "nr_Ready (workload_step kind r w) = nr_Ready r"
  by (auto simp: workload_step_def workload_ok_def Let_def)

lemma workloads_fields:
  "nr_WorkloadCount (foldl (workload_step kind) r ws) = nr_WorkloadCount r + int (length (filter (\<lambda>w. desired_replicas kind w \<noteq> 0) ws))"
  "nr_UnreadyWorkload (foldl (workload_step kind) r ws) = [] \<longleftrightarrow>
     nr_UnreadyWorkload r = [] \<and> (\<forall>w \<in> set ws. desired_replicas kind w \<noteq> 0 \<longrightarrow> workload_ok kind w)"
  "nr_PodCount (foldl (workload_step kind) r ws) = nr_PodCount r" "nr_UnreadyPods (foldl (workload_step kind) r ws) = nr_UnreadyPods r"
  "nr_Ready (foldl (workload_step kind) r ws) = nr_Ready r"
  by (induction ws arbitrary: r; simp add: workload_step_fields; blast?)+

definition claim_ok :: "get_object \<Rightarrow> string \<Rightarrow> string \<Rightarrow> bool" where
  "claim_ok getObject namespace name = (case getObject ''persistentvolumeclaims'' namespace name of
     Inl _ \<Rightarrow> False | Inr pvc \<Rightarrow> NestedString pvc [''status'', ''phase''] = ''Bound'')"

lemma claim_step_fields:
  assumes "claim_step getObject namespace r name = Inr r'"
  shows "(nr_UnreadyWorkload r' = [] \<longleftrightarrow> nr_UnreadyWorkload r = [] \<and> claim_ok getObject namespace name) \<and>
    nr_PodCount r' = nr_PodCount r \<and> nr_UnreadyPods r' = nr_UnreadyPods r \<and> nr_WorkloadCount r' = nr_WorkloadCount r \<and>
    nr_Ready r' = nr_Ready r"
  using assms by (auto simp: claim_step_def claim_ok_def Let_def split: sum.splits kube_error.splits if_splits)

lemma claims_fields:
  assumes "res_fold (claim_step getObject namespace) r names = Inr r'"
  shows "(nr_UnreadyWorkload r' = [] \<longleftrightarrow> nr_UnreadyWorkload r = [] \<and> (\<forall>n \<in> set names. claim_ok getObject namespace n)) \<and>
    nr_PodCount r' = nr_PodCount r \<and> nr_UnreadyPods r' = nr_UnreadyPods r \<and> nr_WorkloadCount r' = nr_WorkloadCount r \<and>
    nr_Ready r' = nr_Ready r"
  using assms
proof (induction names arbitrary: r)
  case (Cons n names)
  then obtain q where q: "claim_step getObject namespace r n = Inr q" "res_fold (claim_step getObject namespace) q names = Inr r'"
    by (auto split: sum.splits)
  from claim_step_fields [OF q(1)] Cons.IH [OF q(2)] show ?case by auto
qed simp

text \<open>What the verdict looks at: the counts and lists the three reads leave.\<close>

lemma verdict_ready:
  "nr_Ready (readiness_verdict namespace e r) \<longleftrightarrow> nr_Ready r \<or> nr_UnreadyWorkload r = [] \<and>
     (re_Known e \<and> \<not> re_RuntimeWorkloadsExpected e \<or> \<not> (nr_PodCount r = 0 \<and> nr_WorkloadCount r = 0) \<and> nr_UnreadyPods r = [])"
  by (auto simp: readiness_verdict_def)

text \<open>C17: A restored namespace is reported ready exactly when it is. In an active namespace whose objects can be read,
  that is when every deployment, stateful set and daemon set that wants replicas has them, every expected
  volume claim exists and is bound, and, unless the backup is known to have no workloads, there is a pod
  or such a workload and every pod that has not finished is ready and has none of the known failures.\<close>

theorem namespace_ready_iff:
  assumes "GetNamespaceReadiness now listObjects getObject events namespace e = Inr r"
    and "getObject ''namespaces'' '''' namespace = Inr ns" "NestedString ns [''status'', ''phase''] = ''Active''"
    and "listObjects ''pods'' namespace = Inr pods" "listObjects ''deployments'' namespace = Inr deployments"
    and "listObjects ''statefulsets'' namespace = Inr statefulsets" "listObjects ''daemonsets'' namespace = Inr daemonsets"
    and "workloads = map (Pair ''deployment'') deployments @ map (Pair ''statefulset'') statefulsets @ map (Pair ''daemonset'') daemonsets"
  shows "nr_Ready r \<longleftrightarrow> (\<forall>(kind, w) \<in> set workloads. desired_replicas kind w = 0 \<or> workload_ok kind w) \<and>
    (\<forall>n \<in> set (re_PVCNames e). claim_ok getObject namespace n) \<and>
    (re_Known e \<and> \<not> re_RuntimeWorkloadsExpected e \<or>
     ((\<exists>p \<in> set pods. live_pod p) \<or> (\<exists>(kind, w) \<in> set workloads. desired_replicas kind w \<noteq> 0)) \<and>
     (\<forall>p \<in> set pods. live_pod p \<longrightarrow> pod_ok now events p))"
proof -
  define r0 where "r0 = (zero_readiness namespace)\<lparr>nr_NamespacePhase := NestedString ns [''status'', ''phase'']\<rparr>"
  define r1 where "r1 = foldl (pod_step now events) r0 pods"
  define r2 where "r2 = foldl (workload_step ''daemonset'') (foldl (workload_step ''statefulset'')
    (foldl (workload_step ''deployment'') r1 deployments) statefulsets) daemonsets"
  have r0: "nr_PodCount r0 = 0" "nr_UnreadyPods r0 = []" "nr_WorkloadCount r0 = 0" "nr_UnreadyWorkload r0 = []" "nr_Ready r0 = False"
    by (simp_all add: r0_def zero_readiness_def)
  have w: "readWorkloadReadiness listObjects namespace r1 = Inr r2"
    using assms(5-7) by (simp add: readWorkloadReadiness_def workload_kinds_def r2_def)
  have p: "readPodReadiness now listObjects events namespace r0 = Inr r1"
    using assms(4) by (simp add: readPodReadiness_def r1_def)
  have active: "nr_NamespacePhase r0 = ''Active''" "trim_space namespace \<noteq> ''''"
    using assms(1,3) by (auto simp: r0_def GetNamespaceReadiness_def)
  obtain r3 and services :: "any list" where r3: "res_fold (claim_step getObject namespace) r2 (re_PVCNames e) = Inr r3"
    and r: "r = readiness_verdict namespace e (r3\<lparr>nr_ServiceCount := int (length services), nr_UnreadyPods := sort (nr_UnreadyPods r3),
      nr_UnreadyWorkload := sort (nr_UnreadyWorkload r3)\<rparr>)"
    using assms(1) active [unfolded r0_def] p [unfolded r0_def] w
    by (auto simp: GetNamespaceReadiness_def assms(2) res_bind_Inr_iff Let_def)
  note fields = claims_fields [OF r3] r2_def workloads_fields r1_def pods_fields r0
  have sorted: "sort xs = [] \<longleftrightarrow> xs = []" for xs :: "string list" by (metis set_empty set_sort)
  have all: "(\<forall>(kind, w) \<in> set workloads. P kind w) \<longleftrightarrow> (\<forall>w \<in> set deployments. P ''deployment'' w) \<and>
      (\<forall>w \<in> set statefulsets. P ''statefulset'' w) \<and> (\<forall>w \<in> set daemonsets. P ''daemonset'' w)" for P
    by (auto simp: assms(8) ball_Un)
  have some: "(\<exists>(kind, w) \<in> set workloads. P kind w) \<longleftrightarrow> (\<exists>w \<in> set deployments. P ''deployment'' w) \<or>
      (\<exists>w \<in> set statefulsets. P ''statefulset'' w) \<or> (\<exists>w \<in> set daemonsets. P ''daemonset'' w)" for P
    by (auto simp: assms(8) bex_Un)
  have "nr_Ready r \<longleftrightarrow> nr_UnreadyWorkload r3 = [] \<and> (re_Known e \<and> \<not> re_RuntimeWorkloadsExpected e \<or>
      \<not> (nr_PodCount r3 = 0 \<and> nr_WorkloadCount r3 = 0) \<and> nr_UnreadyPods r3 = [])"
    unfolding r verdict_ready using fields by (simp add: sorted)
  moreover have "nr_UnreadyWorkload r3 = [] \<longleftrightarrow> (\<forall>(kind, w) \<in> set workloads. desired_replicas kind w = 0 \<or> workload_ok kind w) \<and>
      (\<forall>n \<in> set (re_PVCNames e). claim_ok getObject namespace n)"
    unfolding all using fields by (simp, blast)
  moreover have "nr_PodCount r3 = 0 \<longleftrightarrow> \<not> (\<exists>p \<in> set pods. live_pod p)" "nr_UnreadyPods r3 = [] \<longleftrightarrow> (\<forall>p \<in> set pods. live_pod p \<longrightarrow> pod_ok now events p)"
    using fields by (auto simp: filter_empty_conv)
  moreover have "nr_WorkloadCount r3 = 0 \<longleftrightarrow> \<not> (\<exists>(kind, w) \<in> set workloads. desired_replicas kind w \<noteq> 0)"
  proof -
    have sum3: "int a + int b + int c = 0 \<longleftrightarrow> a = 0 \<and> b = 0 \<and> c = 0" for a b c :: nat by linarith
    have "nr_WorkloadCount r3 = int (length (filter (\<lambda>w. desired_replicas ''deployment'' w \<noteq> 0) deployments)) +
        int (length (filter (\<lambda>w. desired_replicas ''statefulset'' w \<noteq> 0) statefulsets)) +
        int (length (filter (\<lambda>w. desired_replicas ''daemonset'' w \<noteq> 0) daemonsets))"
      using fields by simp
    then show ?thesis unfolding some by (simp only: sum3 length_0_conv filter_empty_conv) blast
  qed
  ultimately show ?thesis by blast
qed

section \<open>Concrete runs\<close>

definition kube_item :: "string \<Rightarrow> gomap \<Rightarrow> gomap \<Rightarrow> any" where
  "kube_item name spec status = AMap [(''metadata'', AMap [(''name'', AStr name),
     (''labels'', AMap [(''velero.io/restore-name'', AStr ''hcdr-restore-1'')])]), (''spec'', AMap spec), (''status'', AMap status)]"

definition demo_list :: "string \<Rightarrow> list_objects" where
  "demo_list phase resource namespace =
     (if resource = ''pods'' then Inr [kube_item ''web-1'' [] [(''conditions'', ASlice [AMap [(''type'', AStr ''Ready''), (''status'', AStr ''True'')]])]]
      else if resource = ''deployments'' then Inr [kube_item ''web'' [(''replicas'', ANum 1)] [(''readyReplicas'', ANum 1), (''availableReplicas'', ANum 1)]]
      else if resource = ''podvolumerestores'' then Inr [kube_item ''hcdr-restore-1-a'' [(''snapshotID'', AStr ''s1'')] [(''phase'', AStr phase)]]
      else if resource = ''podvolumebackups'' then Inr [kube_item ''b'' [] [(''snapshotID'', AStr ''s1''), (''progress'', AMap [(''totalBytes'', ANum 500)])]]
      else Inr [])"

definition demo_get :: get_object where
  "demo_get resource namespace name =
     (if resource = ''namespaces'' then Inr (kube_item name [] [(''phase'', AStr ''Active'')])
      else if resource = ''persistentvolumeclaims'' \<and> name = ''data'' then Inr (kube_item name [] [(''phase'', AStr ''Bound'')])
      else Inl ApiNotFound)"

definition demo_expectations :: "string \<Rightarrow> ReadinessExpectations" where
  "demo_expectations claim = \<lparr>re_Known = True, re_RuntimeWorkloadsExpected = True, re_PVCNames = [claim]\<rparr>"

theorem namespace_ready_iff_witness:
  "nr_Ready (projr (GetNamespaceReadiness 100 (demo_list ''New'') demo_get (\<lambda>_. []) ''shop'' (demo_expectations ''data''))) \<and>
   \<not> nr_Ready (projr (GetNamespaceReadiness 100 (demo_list ''New'') demo_get (\<lambda>_. []) ''shop'' (demo_expectations ''lost'')))"
proof -
  let ?run = "\<lambda>claim. GetNamespaceReadiness 100 (demo_list ''New'') demo_get (\<lambda>_. []) ''shop'' (demo_expectations claim)"
  have "\<not> isl (?run ''data'')" "\<not> isl (?run ''lost'')" by code_simp+
  then have run: "?run ''data'' = Inr (projr (?run ''data''))" "?run ''lost'' = Inr (projr (?run ''lost''))" by simp_all
  define pods where "pods = projr (demo_list ''New'' ''pods'' ''shop'')"
  define deps where "deps = projr (demo_list ''New'' ''deployments'' ''shop'')"
  have lists: "demo_list ''New'' ''pods'' ''shop'' = Inr pods" "demo_list ''New'' ''deployments'' ''shop'' = Inr deps"
    "demo_list ''New'' ''statefulsets'' ''shop'' = Inr []" "demo_list ''New'' ''daemonsets'' ''shop'' = Inr []"
    by (simp_all add: demo_list_def pods_def deps_def)
  have ns: "demo_get ''namespaces'' '''' ''shop'' = Inr (kube_item ''shop'' [] [(''phase'', AStr ''Active'')])"
    "NestedString (kube_item ''shop'' [] [(''phase'', AStr ''Active'')]) [''status'', ''phase''] = ''Active''" by code_simp+
  have claims: "claim_ok demo_get ''shop'' ''data''" "\<not> claim_ok demo_get ''shop'' ''lost''" by code_simp+
  have pod: "\<forall>p \<in> set pods. live_pod p \<and> pod_ok 100 (\<lambda>_. []) p" "pods \<noteq> []" unfolding pods_def by code_simp+
  have deployments: "\<forall>w \<in> set deps. workload_ok ''deployment'' w" unfolding deps_def by code_simp
  have names: "re_PVCNames (demo_expectations c) = [c]" for c by (simp add: demo_expectations_def)
  from namespace_ready_iff [OF run(1) ns lists refl] have "nr_Ready (projr (?run ''data''))"
    using claims pod deployments by (auto simp: names neq_Nil_conv)
  moreover from namespace_ready_iff [OF run(2) ns lists refl] have "\<not> nr_Ready (projr (?run ''lost''))"
    using claims by (simp add: names)
  ultimately show ?thesis by blast
qed

definition demo_progress :: "string \<Rightarrow> VolumeProgress" where
  "demo_progress phase = GetRestoreVolumeProgress 100 (demo_list phase) demo_get ''velero'' ''hcdr-restore-1''"

lemma demo_names: "trim_space ''velero'' \<noteq> ''''" "trim_space ''hcdr-restore-1'' \<noteq> ''''"
  by code_simp+

theorem volume_progress_exact_witness:
  "vp_TotalBytes (demo_progress ''InProgress'') = 500 \<and> vp_AllTotalsKnown (demo_progress ''InProgress'')"
proof -
  let ?items = "owned_items 100 (demo_list ''InProgress'') demo_get ''velero'' ''hcdr-restore-1'' restore_resources"
  have "map vi_TotalBytes (filter vi_KnownTotal ?items) = [500]" "list_all vi_KnownTotal ?items" "?items \<noteq> []" by code_simp+
  with volume_progress_exact [OF demo_names refl refl, of 100 "demo_list ''InProgress''" demo_get restore_resources]
  show ?thesis by (simp add: demo_progress_def GetRestoreVolumeProgress_def list_all_iff)
qed

theorem cancel_confirmed_witness:
  "list_ex (\<lambda>phase. \<not> running_phase phase) (map (\<lambda>phase. vi_Phase (hd (vp_Items (demo_progress phase)))) [''InProgress'', ''Canceled''])"
proof -
  define obs :: "(gtime \<times> list_objects \<times> get_object) list" where
    "obs = [(100, demo_list ''InProgress'', demo_get), (100, demo_list ''Canceled'', demo_get)]"
  have polls: "map (\<lambda>(now, lst, get). GetRestoreVolumeProgress now lst get ''velero'' ''hcdr-restore-1'') obs = map demo_progress [''InProgress'', ''Canceled'']"
    by (simp add: obs_def demo_progress_def)
  have "\<not> isl (CancelRestoreVolumeOperations (demo_list ''New'') (\<lambda>_. None) (map demo_progress [''InProgress'', ''Canceled'']) ''velero'' ''hcdr-restore-1'')"
    by code_simp
  then have run: "CancelRestoreVolumeOperations (demo_list ''New'') (\<lambda>_. None)
      (map (\<lambda>(now, lst, get). GetRestoreVolumeProgress now lst get ''velero'' ''hcdr-restore-1'') obs) ''velero'' ''hcdr-restore-1'' = Inr ()"
    unfolding polls by (cases "CancelRestoreVolumeOperations (demo_list ''New'') (\<lambda>_. None) (map demo_progress [''InProgress'', ''Canceled'']) ''velero'' ''hcdr-restore-1''") auto
  have ne: "vp_Items (demo_progress ''InProgress'') \<noteq> []" "vp_Items (demo_progress ''Canceled'') \<noteq> []" by code_simp+
  have items: "vp_Items (demo_progress phase) = owned_items 100 (demo_list phase) demo_get ''velero'' ''hcdr-restore-1'' restore_resources" for phase
    unfolding demo_progress_def GetRestoreVolumeProgress_def by (rule progress_fields(1) [OF demo_names])
  from cancel_confirmed [OF run demo_names] ne show ?thesis by (auto simp: obs_def items)
qed

theorem canceling_not_awaited_witness:
  "CancelRestoreVolumeOperations (demo_list ''Canceling'') (\<lambda>_. None) [demo_progress ''Canceling''] ''velero'' ''hcdr-restore-1'' = Inr () \<and>
   map vi_Phase (vp_Items (demo_progress ''Canceling'')) = [''Canceling'']"
proof -
  have "list_all (\<lambda>i. vi_Phase i = ''Canceling'')
      (owned_items 100 (demo_list ''Canceling'') demo_get ''velero'' ''hcdr-restore-1'' restore_resources)" by code_simp
  then have all: "\<forall>i \<in> set (owned_items 100 (demo_list ''Canceling'') demo_get ''velero'' ''hcdr-restore-1'' restore_resources). vi_Phase i = ''Canceling''"
    by (simp add: list_all_iff)
  have lst: "demo_list ''Canceling'' ''datadownloads'' ''velero'' = Inr []" by (simp add: demo_list_def)
  have patch: "\<forall>n. (\<lambda>_. None :: kube_error option) n = None" by simp
  have "map vi_Phase (vp_Items (demo_progress ''Canceling'')) = [''Canceling'']" by code_simp
  then show ?thesis
    using canceling_not_awaited [OF all lst patch demo_names, of "[]"] by (simp add: demo_progress_def)
qed

end
