(* ===== verification/Platform_Scheduler.thy ===== *)
theory Platform_Scheduler
  imports Policy_Schedule Store_Steps Kube_Names
begin

text \<open>
  The background scheduler of the platform (\<^verbatim>\<open>httpserver/scheduler.go\<close> with the helpers it calls): closing tasks
  that fell silent, finishing the cleanup of plans, keeping the schedule of every plan in line with its
  policy, and starting the backups that are due. Ticks run under a database lock, so a tick is a
  sequence of store operations. \<open>now\<close> is the time of the tick, \<open>clock\<close> the database's reading of the clock
  during it; \<open>newID\<close> gives the identifier of the event written for a task. Errors of the store end a step or
  skip a plan, as in the code; log lines are left out.
\<close>

section \<open>Statuses\<close>

definition isActiveTaskStatus :: "string \<Rightarrow> bool" where
  "isActiveTaskStatus status \<longleftrightarrow> to_lower status \<in>
     {''queued'', ''dispatched'', ''accepted'', ''running'', ''syncing'', ''finalizing'', ''canceling''}"

definition isCompletedTaskStatus :: "string \<Rightarrow> bool" where
  "isCompletedTaskStatus status \<longleftrightarrow> to_lower status \<in> {''succeeded'', ''completed'', ''success''}"

definition protectionPlanAllowsBackup :: "string \<Rightarrow> bool" where
  "protectionPlanAllowsBackup status \<longleftrightarrow> to_lower status \<in> {''active'', ''active_with_warning''}"

definition componentUpgradeVerificationTimeout :: int where
  "componentUpgradeVerificationTimeout = 10 * durMinute"

definition recoveryTaskInactivityTimeout :: int where
  "recoveryTaskInactivityTimeout = 15 * durMinute"

definition maintenanceTaskInactivityTimeout :: int where
  "maintenanceTaskInactivityTimeout = 35 * durMinute"

section \<open>Silent tasks\<close>

text \<open>The activity a status report left in the payload, where it is a time.\<close>

definition last_status_at :: "Task \<Rightarrow> gtime option" where
  "last_status_at task = (case mget (t_Payload task) ''lastStatusAt'' of
     AStr raw \<Rightarrow> parse_rfc3339nano raw | _ \<Rightarrow> None)"

definition maintenanceTaskTimedOut :: "Task \<Rightarrow> gtime \<Rightarrow> bool" where
  "maintenanceTaskTimedOut task now =
     (if t_Type task \<notin> {''protection-cleanup'', ''retention-cleanup'', ''plan-capacity''} \<or>
         \<not> isActiveTaskStatus (t_Status task) then False
      else
        let lastActivity = foldl (\<lambda>l candidate. if candidate > l then candidate else l) (t_CreatedAt task)
              [t_DispatchedAt task, t_AcceptedAt task, t_StartedAt task];
            lastActivity = (case last_status_at task of
              Some parsed \<Rightarrow> if parsed > lastActivity then parsed else lastActivity | None \<Rightarrow> lastActivity)
        in \<not> time_IsZero lastActivity \<and> \<not> now < lastActivity + maintenanceTaskInactivityTimeout)"

definition recoveryTaskTimedOut :: "Task \<Rightarrow> gtime \<Rightarrow> bool" where
  "recoveryTaskTimedOut task now =
     (if t_Type task \<notin> {''restore'', ''drill''} \<or> \<not> isActiveTaskStatus (t_Status task) then False
      else (case last_status_at task of None \<Rightarrow> False
        | Some lastActivity \<Rightarrow> \<not> now < lastActivity + recoveryTaskInactivityTimeout))"

definition componentUpgradeTimedOut :: "Task \<Rightarrow> gtime \<Rightarrow> bool" where
  "componentUpgradeTimedOut task now =
     (if t_Type task \<notin> {''agent-upgrade'', ''velero-upgrade''} \<or> \<not> isActiveTaskStatus (t_Status task) then False
      else
        let started = t_StartedAt task;
            started = (if time_IsZero started then t_AcceptedAt task else started);
            started = (if time_IsZero started then t_DispatchedAt task else started);
            started = (if time_IsZero started then t_CreatedAt task else started)
        in \<not> time_IsZero started \<and> \<not> now < started + componentUpgradeVerificationTimeout)"

definition failure_report :: "Task \<Rightarrow> string \<Rightarrow> string \<Rightarrow> TaskStatusInput" where
  "failure_report task code message = \<lparr>ts_TaskID = t_ID task, ts_RestorePointID = '''', ts_Status = ''failed'',
     ts_Progress = t_Progress task, ts_ErrorCode = code, ts_ErrorMessage = message, ts_Payload = [],
     ts_MarkAccepted = False, ts_MarkStarted = False, ts_MarkDone = True\<rparr>"

text \<open>
  One task of a reconcile loop. The event has no \<^verbatim>\<open>velero\<close> payload, so \<^verbatim>\<open>addTaskEventIfChanged\<close> always adds
  it; its error is ignored.
\<close>

definition expire_task ::
  "(Task \<Rightarrow> bool) \<Rightarrow> string \<Rightarrow> string \<Rightarrow> (Task \<Rightarrow> string) \<Rightarrow> (string \<Rightarrow> string) \<Rightarrow> gtime \<Rightarrow> Task \<Rightarrow> store_db \<Rightarrow> store_db" where
  "expire_task timedOut code reason message newID clock task db =
     (if \<not> timedOut task then db
      else (case UpdateTaskStatus db clock (failure_report task code (message task)) of
          (db', Inl _) \<Rightarrow> db'
        | (db', Inr _) \<Rightarrow> fst (AddTaskEvent (newID (t_ID task)) clock db'
            \<lparr>te_TaskID = t_ID task, te_Level = ''error'', te_Reason = reason, te_Message = message task, te_Payload = []\<rparr>)))"

definition expire_tasks ::
  "(Task \<Rightarrow> bool) \<Rightarrow> string \<Rightarrow> string \<Rightarrow> (Task \<Rightarrow> string) \<Rightarrow> (string \<Rightarrow> string) \<Rightarrow> gtime \<Rightarrow> store_db \<Rightarrow> store_db" where
  "expire_tasks timedOut code reason message newID clock db =
     fold (expire_task timedOut code reason message newID clock) (ListTasks db '''') db"

definition maintenance_message :: "Task \<Rightarrow> string" where
  "maintenance_message task =
     (if t_Type task = ''plan-capacity''
      then ''No capacity collection status was received from the cluster agent for 35 minutes. Previous capacity values are retained. Retry the refresh after checking the cluster agent.''
      else ''No cleanup status was received from the cluster agent for 35 minutes. The maintenance task was closed so it cannot indefinitely block cluster lifecycle operations. Review the task events and cluster resources before retrying.'')"

definition reconcileAbandonedMaintenanceTasks :: "(string \<Rightarrow> string) \<Rightarrow> gtime \<Rightarrow> gtime \<Rightarrow> store_db \<Rightarrow> store_db" where
  "reconcileAbandonedMaintenanceTasks newID clock now =
     expire_tasks (\<lambda>t. maintenanceTaskTimedOut t now) ''MAINTENANCE_STATUS_TIMEOUT'' ''maintenance_status_timeout''
       maintenance_message newID clock"

definition recovery_message :: string where
  "recovery_message = ''No restore status was received from the cluster agent for 15 minutes. The agent may have restarted or the Velero restore may no longer exist. Source data and backup data were preserved; check the agent and Velero logs, then retry the drill.''"

definition reconcileAbandonedRecoveryTasks :: "(string \<Rightarrow> string) \<Rightarrow> gtime \<Rightarrow> gtime \<Rightarrow> store_db \<Rightarrow> store_db" where
  "reconcileAbandonedRecoveryTasks newID clock now =
     expire_tasks (\<lambda>t. recoveryTaskTimedOut t now) ''RESTORE_STATUS_TIMEOUT'' ''restore_status_timeout''
       (\<lambda>_. recovery_message) newID clock"

definition upgrade_message :: "Task \<Rightarrow> string" where
  "upgrade_message task = (if t_Type task = ''velero-upgrade'' then ''Velero'' else ''Comm Agent'') @
     '' did not report the expected running image and version within 10 minutes. Check the workload rollout and image pull status in the managed cluster.''"

definition reconcileComponentUpgradeTimeouts :: "(string \<Rightarrow> string) \<Rightarrow> gtime \<Rightarrow> gtime \<Rightarrow> store_db \<Rightarrow> store_db" where
  "reconcileComponentUpgradeTimeouts newID clock now =
     expire_tasks (\<lambda>t. componentUpgradeTimedOut t now) ''UPGRADE_VERIFICATION_TIMEOUT'' ''verification_timeout''
       upgrade_message newID clock"

section \<open>Cleanup of plans\<close>

definition cleanup_mode :: "Task \<Rightarrow> string" where
  "cleanup_mode task = (let mode = any_str (mget (t_Payload task) ''cleanupMode'') in if mode = '''' then ''source'' else mode)"

text \<open>The task created last among those of one side, the first of them where two have the same time.\<close>

definition latest_task :: "Task list \<Rightarrow> Task option" where
  "latest_task ts = foldl (\<lambda>latest t. case latest of None \<Rightarrow> Some t
     | Some l \<Rightarrow> if t_CreatedAt t > t_CreatedAt l then Some t else Some l) None ts"

definition protectionCleanupTasksComplete :: "store_db \<Rightarrow> ProtectionPlan \<Rightarrow> string \<Rightarrow> bool" where
  "protectionCleanupTasksComplete db plan cleanupRunID =
     (let expectTarget = pl_TargetClusterID plan \<noteq> '''' \<and> pl_TargetClusterID plan \<noteq> pl_SourceClusterID plan;
          items = filter (\<lambda>t. t_ProtectionPlanID t = pl_ID plan \<and> t_Type t = ''protection-cleanup'' \<and>
            (cleanupRunID = '''' \<or> any_str (mget (t_Payload t) ''cleanupRunId'') = cleanupRunID)) (ListTasks db '''');
          source = filter (\<lambda>t. cleanup_mode t \<noteq> ''target'') items;
          target = filter (\<lambda>t. cleanup_mode t = ''target'') items;
          succeeded = (\<lambda>latest. case latest of None \<Rightarrow> False | Some t \<Rightarrow> t_Status t = ''succeeded'')
      in if cleanupRunID = ''''
         then succeeded (latest_task source) \<and> (\<not> expectTarget \<or> succeeded (latest_task target))
         else list_all (\<lambda>t. t_Status t = ''succeeded'') items \<and> source \<noteq> [] \<and> (\<not> expectTarget \<or> target \<noteq> []))"

definition reconcile_cleanup :: "gtime \<Rightarrow> gtime \<Rightarrow> ProtectionPlan \<Rightarrow> store_db \<Rightarrow> store_db" where
  "reconcile_cleanup clock now plan db =
     (if pl_Status plan \<noteq> ''cleanup_running'' then db
      else if protectionCleanupTasksComplete db plan '''' then
        (case CleanupProtectionPlanRecords db clock (pl_ID plan) of
           (db', Inl _) \<Rightarrow> fst (UpdateProtectionPlanStatus db' clock (pl_ID plan) ''cleanup_failed'')
         | (db', Inr _) \<Rightarrow> db')
      else if \<not> time_IsZero (pl_UpdatedAt plan) \<and> now > pl_UpdatedAt plan + 10 * durMinute
      then fst (UpdateProtectionPlanStatus db clock (pl_ID plan) ''cleanup_failed'')
      else db)"

definition reconcileProtectionCleanupPlans :: "gtime \<Rightarrow> gtime \<Rightarrow> store_db \<Rightarrow> store_db" where
  "reconcileProtectionCleanupPlans clock now db = fold (reconcile_cleanup clock now) (ListProtectionPlans db '''') db"

section \<open>Schedules\<close>

definition findPolicy :: "store_db \<Rightarrow> string \<Rightarrow> Policy option" where
  "findPolicy db policyID = List.find (\<lambda>p. p_ID p = policyID) (ListPolicies db)"

definition policyCron :: "Policy \<Rightarrow> store_error + string" where
  "policyCron policy =
     (let ty = p_ScheduleType policy; n = p_IntervalValue policy; u = to_lower (p_IntervalUnit policy);
          mm = show_int (clampMinute (p_Minute policy)); hh = show_int (clampHour (p_Hour policy))
      in if ty = ''interval'' then
           (if n \<le> 0 then Inl (Errorf ''interval policy value must be greater than zero'')
            else if u = ''minute'' \<or> u = ''minutes'' then
              (if n = 1 then Inr ''* * * * *''
               else if n > 59 then Inl (Errorf ''minute interval must be between 1 and 59'')
               else Inr (''*/'' @ show_int n @ '' * * * *''))
            else if u = ''hour'' \<or> u = ''hours'' \<or> u = '''' then
              (if n = 1 then Inr ''0 * * * *''
               else if n > 23 then Inl (Errorf ''hour interval must be between 1 and 23'')
               else Inr (''0 */'' @ show_int n @ '' * * *''))
            else Inl (Errorf (''unsupported interval unit: '' @ p_IntervalUnit policy)))
         else if ty = ''daily'' then Inr (mm @ '' '' @ hh @ '' * * *'')
         else if ty = ''weekly'' then Inr (mm @ '' '' @ hh @ '' * * '' @ show_int (clampWeekday (p_WeekDay policy)))
         else if ty = ''monthly'' then Inr (mm @ '' '' @ hh @ '' '' @ show_int (clampMonthDay (p_MonthDay policy)) @ '' * *'')
         else Inl (Errorf (''unsupported schedule type: '' @ ty)))"

definition protectionPlanSchedulePolicy :: "store_db \<Rightarrow> ProtectionPlan \<Rightarrow> store_error + Policy \<times> bool" where
  "protectionPlanSchedulePolicy db plan =
     (if pl_PolicyID plan = '''' then Inr (zero_policy, False)
      else (case findPolicy db (pl_PolicyID plan) of
          None \<Rightarrow> Inl (Errorf ''policy not found'')
        | Some policy \<Rightarrow>
          if p_Status policy \<noteq> ''active'' \<or> p_ScheduleType policy = ''manual'' then Inr (policy, False)
          else (case policyCron policy of Inl e \<Rightarrow> Inl e | Inr _ \<Rightarrow> Inr (policy, True))))"

definition reconcile_schedule :: "gtime \<Rightarrow> gtime \<Rightarrow> ProtectionPlan \<Rightarrow> store_db \<Rightarrow> store_db" where
  "reconcile_schedule clock now plan db =
     (if \<not> protectionPlanAllowsBackup (pl_Status plan) then db
      else (case protectionPlanSchedulePolicy db plan of
          Inl _ \<Rightarrow> db
        | Inr (policy, shouldSchedule) \<Rightarrow>
          if \<not> shouldSchedule then db
          else if (case GetProtectionPlanSchedule db (pl_ID plan) of None \<Rightarrow> False
              | Some schedule \<Rightarrow> ps_Enabled schedule \<and> ScheduleMatchesPolicy (ps_NextFireAt schedule) policy (Some time_UTC))
          then db
          else fst (UpsertProtectionPlanSchedule db clock \<lparr>psi_ProtectionPlanID = pl_ID plan,
            psi_NextFireAt = NextPolicyFireAtInLocation policy now (Some time_UTC), psi_Enabled = True\<rparr>)))"

definition reconcilePlatformSchedules :: "gtime \<Rightarrow> gtime \<Rightarrow> store_db \<Rightarrow> store_db" where
  "reconcilePlatformSchedules clock now db = fold (reconcile_schedule clock now) (ListProtectionPlans db '''') db"

section \<open>Backups that are due\<close>

text \<open>\<^verbatim>\<open>GetApplication\<close> as far as its callers look at it: the namespace.\<close>

definition application_namespace :: "store_db \<Rightarrow> string \<Rightarrow> string option" where
  "application_namespace db appID = map_option ap_Namespace (find_row ow_ID appID (db_applications db))"

definition resolve_app :: "store_db \<Rightarrow> string list \<times> string list \<Rightarrow> string \<Rightarrow> string list \<times> string list" where
  "resolve_app db = (\<lambda>(namespaces, resolved) appID.
     if appID = '''' \<or> appID \<in> set resolved then (namespaces, resolved)
     else (case application_namespace db appID of
         None \<Rightarrow> (namespaces, resolved)
       | Some ns \<Rightarrow> if ns = '''' then (namespaces, resolved)
           else (if ns \<in> set namespaces then namespaces else namespaces @ [ns], resolved @ [appID])))"

definition planSourceNamespaces :: "store_db \<Rightarrow> ProtectionPlan \<Rightarrow> store_error + string list \<times> string list" where
  "planSourceNamespaces db plan =
     (let appIDs = (if pl_AppIDs plan = [] \<and> pl_AppID plan \<noteq> '''' then [pl_AppID plan] else pl_AppIDs plan);
          (namespaces, resolved) = foldl (resolve_app db) ([], []) appIDs
      in if namespaces = [] then Inl (Errorf ''protection plan has no application namespaces'')
         else Inr (namespaces, resolved))"

text \<open>\<^verbatim>\<open>fmt.Sprint\<close> of a scalar; a namespace is a string.\<close>

definition taskPayloadString :: "gomap \<Rightarrow> string \<Rightarrow> string" where
  "taskPayloadString payload key = coalesce_str (jtext payload key) ''''"

definition findActiveBackupTask :: "store_db \<Rightarrow> string \<Rightarrow> string \<Rightarrow> string \<Rightarrow> string \<Rightarrow> Task option" where
  "findActiveBackupTask db clusterID protectionPlanID appID namespace =
     List.find (\<lambda>task. t_Type task = ''backup'' \<and> isActiveTaskStatus (t_Status task) \<and>
       time_IsZero (t_CompletedAt task) \<and>
       (protectionPlanID = '''' \<or> t_ProtectionPlanID task = protectionPlanID) \<and>
       (appID = '''' \<or> t_AppID task = '''' \<or> t_AppID task = appID) \<and>
       (let taskNamespace = taskPayloadString (t_Payload task) ''sourceNamespace''
        in namespace = '''' \<or> taskNamespace = '''' \<or> taskNamespace = namespace) \<and>
       (protectionPlanID \<noteq> '''' \<or> appID \<noteq> '''' \<or> namespace \<noteq> '''')) (ListTasks db clusterID)"

record backupTaskRequest =
  br_ClusterID :: string
  br_AppID :: string
  br_ProtectionPlanID :: string
  br_SourceNamespace :: string
  br_SourceNamespaces :: "string list"
  br_Scope :: string
  br_IncludedResources :: "string list"
  br_LabelSelector :: LabelSelector
  br_StorageRepo :: string
  br_ExcludedResources :: "string list"
  br_ResourceSelection :: ResourceSelection
  br_IncludeClusterResources :: bool
  br_Trigger :: string
  br_RequestedBy :: string

text \<open>The two structs of a request as JSON objects, by their tags.\<close>

definition nonempty_strs :: "string \<Rightarrow> string list \<Rightarrow> gomap" where
  "nonempty_strs k xs = (if xs = [] then [] else [(k, AStrs xs)])"

definition resource_selection_json :: "ResourceSelection \<Rightarrow> any" where
  "resource_selection_json r = AMap ((''mode'', AStr (rsel_Mode r)) #
     nonempty_strs ''namespaceScoped'' (rsel_NamespaceScoped r) @ nonempty_strs ''clusterScoped'' (rsel_ClusterScoped r))"

definition label_selector_json :: "LabelSelector \<Rightarrow> any" where
  "label_selector_json s = AMap (
     (if ls_MatchLabels s = [] then [] else [(''matchLabels'', AStrMap (ls_MatchLabels s))]) @
     (if ls_MatchExpressions s = [] then []
      else [(''matchExpressions'', ASlice (map (\<lambda>e. AMap ([(''key'', AStr (lse_Key e)), (''operator'', AStr (lse_Operator e))] @
        nonempty_strs ''values'' (lse_Values e))) (ls_MatchExpressions s)))]))"

definition backup_payload :: "backupTaskRequest \<Rightarrow> string \<Rightarrow> gomap" where
  "backup_payload body veleroBackupName =
     [(''sourceNamespace'', AStr (br_SourceNamespace body)), (''sourceNamespaces'', AStrs (br_SourceNamespaces body)),
      (''scope'', AStr (br_Scope body)), (''includedResources'', AStrs (br_IncludedResources body)),
      (''resourceSelection'', resource_selection_json (br_ResourceSelection body)),
      (''labelSelector'', label_selector_json (br_LabelSelector body)), (''storageRepo'', AStr (br_StorageRepo body)),
      (''excludedResources'', AStrs (br_ExcludedResources body)),
      (''includeClusterResources'', ABool (br_IncludeClusterResources body)),
      (''veleroBackupName'', AStr veleroBackupName), (''trigger'', AStr (br_Trigger body)),
      (''scheduled'', ABool (br_Trigger body = ''scheduled'')),
      (''requestedBy'', AStr (if trim_space (br_RequestedBy body) \<noteq> '''' then br_RequestedBy body else ''System''))]"

definition backup_task_input :: "backupTaskRequest \<Rightarrow> string \<Rightarrow> string \<Rightarrow> string \<Rightarrow> TaskInput" where
  "backup_task_input body appID commandID veleroBackupName = \<lparr>ti_TenantID = '''', ti_ClusterID = br_ClusterID body,
     ti_AppID = appID, ti_ProtectionPlanID = br_ProtectionPlanID body, ti_RestorePointID = '''', ti_Type = ''backup'',
     ti_Status = ''queued'', ti_CommandID = commandID, ti_Payload = backup_payload body veleroBackupName,
     ti_SuppressLatestPointer = False\<rparr>"

definition backup_app_id :: "store_db \<Rightarrow> backupTaskRequest \<Rightarrow> string \<Rightarrow> store_error + string" where
  "backup_app_id db body appID =
     (if br_ProtectionPlanID body = '''' then Inl (Errorf ''backup task requires protection plan id'')
      else res_bind (if appID \<noteq> '''' then Inr appID
        else (case GetProtectionPlan db (br_ProtectionPlanID body) of
            None \<Rightarrow> Inl (Errorf ''protection plan not found'')
          | Some plan \<Rightarrow> Inr (if pl_AppID plan = '''' \<and> length (pl_AppIDs plan) = 1 then hd (pl_AppIDs plan) else pl_AppID plan)))
        (\<lambda>appID. if appID = '''' then Inl (Errorf ''backup task requires application id'') else Inr appID))"

definition createPendingBackupTask ::
  "(string \<Rightarrow> location option) \<Rightarrow> string \<Rightarrow> string \<Rightarrow> gtime \<Rightarrow> store_db \<Rightarrow> backupTaskRequest \<Rightarrow> string \<Rightarrow>
     store_db \<times> (store_error + Task)" where
  "createPendingBackupTask LoadLocation taskID commandID clock db body appID =
     (case backup_app_id db body appID of Inl e \<Rightarrow> (db, Inl e)
      | Inr appID \<Rightarrow> CreateTask LoadLocation taskID clock db (backup_task_input body appID commandID
          (backupNameForPlan clock (br_ProtectionPlanID body) commandID (br_Trigger body))))"

definition first_string :: "string list \<Rightarrow> string" where
  "first_string xs = (case xs of [] \<Rightarrow> '''' | x # _ \<Rightarrow> x)"

definition scheduled_request :: "ProtectionPlan \<Rightarrow> string list \<Rightarrow> string list \<Rightarrow> string \<Rightarrow> backupTaskRequest" where
  "scheduled_request plan sourceNamespaces appIDs storageName =
     \<lparr>br_ClusterID = pl_SourceClusterID plan, br_AppID = first_string appIDs, br_ProtectionPlanID = pl_ID plan,
      br_SourceNamespace = first_string sourceNamespaces, br_SourceNamespaces = sourceNamespaces,
      br_Scope = pl_ScopeType plan, br_IncludedResources = pl_IncludedResources plan,
      br_LabelSelector = pl_LabelSelector plan, br_StorageRepo = storageName,
      br_ExcludedResources = pl_ExcludedResources plan, br_ResourceSelection = pl_ResourceSelection plan,
      br_IncludeClusterResources = False, br_Trigger = ''scheduled'', br_RequestedBy = ''''\<rparr>"

text \<open>The dispatch of the task runs in a worker of its own and is not part of the step.\<close>

definition createScheduledBackupTask ::
  "(string \<Rightarrow> location option) \<Rightarrow> string \<Rightarrow> string \<Rightarrow> string \<Rightarrow> gtime \<Rightarrow> store_db \<Rightarrow> ProtectionPlan \<Rightarrow> Policy \<Rightarrow> gtime \<Rightarrow>
     store_db \<times> (store_error + Task)" where
  "createScheduledBackupTask LoadLocation taskID commandID eventID clock db plan policy now =
     (case planSourceNamespaces db plan of Inl e \<Rightarrow> (db, Inl e)
      | Inr (sourceNamespaces, appIDs) \<Rightarrow>
        (case find_row ow_ID (pl_StorageRepoID plan) (db_repositories db) of
           None \<Rightarrow> (db, Inl (Errorf ''storage repository not found''))
         | Some repo \<Rightarrow>
           let storageName = storageDomainBSLName (sr_Name repo) (pl_SourceClusterID plan);
               request = scheduled_request plan sourceNamespaces appIDs storageName
           in (case createPendingBackupTask LoadLocation taskID commandID clock db request (br_AppID request) of
                (db', Inl e) \<Rightarrow> (db', Inl e)
              | (db', Inr task) \<Rightarrow>
                (fst (AddTaskEvent eventID clock db' \<lparr>te_TaskID = t_ID task, te_Level = ''info'',
                   te_Reason = ''scheduled_sync_created'', te_Message = ''Scheduled sync task created.'',
                   te_Payload = [(''policyId'', AStr (p_ID policy)), (''scheduledAt'', ATime now),
                     (''sourceNamespaces'', AStrs sourceNamespaces)]\<rparr>), Inr task))))"

definition mark_fired :: "gtime \<Rightarrow> gtime \<Rightarrow> string \<Rightarrow> gtime \<Rightarrow> store_db \<Rightarrow> store_db" where
  "mark_fired clock now planID nextFireAt db = fst (MarkProtectionPlanScheduleFired db clock
     \<lparr>psf_ProtectionPlanID = planID, psf_LastFiredAt = now, psf_NextFireAt = nextFireAt\<rparr>)"

definition fireProtectionPlanSchedule ::
  "(string \<Rightarrow> location option) \<Rightarrow> string \<Rightarrow> string \<Rightarrow> string \<Rightarrow> gtime \<Rightarrow> gtime \<Rightarrow> ProtectionPlanSchedule \<Rightarrow> store_db \<Rightarrow> store_db" where
  "fireProtectionPlanSchedule LoadLocation taskID commandID eventID clock now schedule db =
     (case GetProtectionPlan db (ps_ProtectionPlanID schedule) of
        None \<Rightarrow> DisableProtectionPlanSchedule db clock (ps_ProtectionPlanID schedule)
      | Some plan \<Rightarrow>
        (case protectionPlanSchedulePolicy db plan of Inl _ \<Rightarrow> db
         | Inr (policy, shouldSchedule) \<Rightarrow>
           if \<not> shouldSchedule \<or> \<not> protectionPlanAllowsBackup (pl_Status plan)
           then DisableProtectionPlanSchedule db clock (pl_ID plan)
           else let nextFireAt = NextPolicyFireAt policy now in
             (case findActiveBackupTask db (pl_SourceClusterID plan) (pl_ID plan) '''' '''' of
                Some existing \<Rightarrow>
                  fst (AddTaskEvent eventID clock (mark_fired clock now (pl_ID plan) nextFireAt db)
                    \<lparr>te_TaskID = t_ID existing, te_Level = ''info'', te_Reason = ''scheduled_sync_skipped'',
                     te_Message = ''Scheduled sync skipped because a backup is already running for this protection plan.'',
                     te_Payload = []\<rparr>)
              | None \<Rightarrow>
                (case createScheduledBackupTask LoadLocation taskID commandID eventID clock db plan policy now of
                   (db', Inl _) \<Rightarrow> db'
                 | (db', Inr _) \<Rightarrow> mark_fired clock now (pl_ID plan) nextFireAt db'))))"

text \<open>The request a user makes for a whole plan (\<^verbatim>\<open>backup_handlers.go\<close>), for comparison.\<close>

definition manual_plan_request :: "backupTaskRequest \<Rightarrow> ProtectionPlan \<Rightarrow> string list \<Rightarrow> string \<Rightarrow> backupTaskRequest" where
  "manual_plan_request body plan sourceNamespaces storageName = body\<lparr>br_ClusterID := pl_SourceClusterID plan,
     br_ProtectionPlanID := pl_ID plan, br_SourceNamespace := first_string sourceNamespaces,
     br_SourceNamespaces := sourceNamespaces, br_StorageRepo := storageName, br_Scope := pl_ScopeType plan,
     br_IncludedResources := pl_IncludedResources plan, br_LabelSelector := pl_LabelSelector plan,
     br_ExcludedResources := pl_ExcludedResources plan, br_IncludeClusterResources := pl_IncludeClusterScoped plan\<rparr>"

definition enableProtectionPlanSchedule :: "gtime \<Rightarrow> store_db \<Rightarrow> ProtectionPlan \<Rightarrow> Policy \<Rightarrow> store_db \<times> (store_error + unit)" where
  "enableProtectionPlanSchedule clock db plan policy =
     (case UpsertProtectionPlanSchedule db clock \<lparr>psi_ProtectionPlanID = pl_ID plan,
        psi_NextFireAt = NextPolicyFireAt policy clock, psi_Enabled = True\<rparr> of (db', r) \<Rightarrow> (db', map_sum id (\<lambda>_. ()) r))"

section \<open>Closing silent tasks\<close>

lemma finish_task_frame:
  "db_tasks (finish_task db clock planID taskID) = db_tasks db"
  "db_plans (finish_task db clock planID taskID) = db_plans db"
  by (simp_all add: finish_task_def retain_drilled_def release_reserved_def unlock_replaced_def split: option.splits)

lemma finish_task_reservations:
  assumes "rv \<in> set (db_reservations (finish_task db clock planID taskID))"
    "rv_State rv \<in> {''data_ready'', ''deleting'', ''published''}"
  shows "rv \<in> set (db_reservations db)"
proof -
  have "db_reservations (finish_task db clock planID taskID) = update_where
      (\<lambda>rv. rv_TaskID rv = taskID \<and> rv_State rv = ''reserved'' \<and> task_failed (unlock_replaced db taskID) taskID)
      (\<lambda>rv. rv\<lparr>rv_State := ''released'', rv_UpdatedAt := clock\<rparr>) (db_reservations db)"
    by (simp add: finish_task_def retain_drilled_def release_reserved_def unlock_replaced_def split: option.splits)
  with assms show ?thesis by (auto simp: update_where_def split: if_splits)
qed

text \<open>A task that can be closed: its plan can be locked, and no result of it is being published.\<close>

definition closable :: "store_db \<Rightarrow> Task \<Rightarrow> bool" where
  "closable db t \<longleftrightarrow> quotaPlanLock db (t_ProtectionPlanID t) = Inr () \<and> \<not> publishing db (t_ID t)"

lemma status_row_open: "t_CompletedAt (status_row r clock u) = 0 \<Longrightarrow> t_CompletedAt u = 0"
  by (simp add: status_row_def Let_def split: if_splits)

lemma update_failure:
  fixes code message
  assumes "distinct (map t_ID (db_tasks db))" "t \<in> set (db_tasks db)" "closable db t"
  defines "r \<equiv> failure_report t code message"
  obtains db' where "UpdateTaskStatus db clock r = (db', Inr (Some (status_row r clock t)))"
    "db_tasks db' = map (\<lambda>u. if t_ID u = t_ID t then status_row r clock u else u) (db_tasks db)"
    "db_plans db' = db_plans db"
    "\<And>k. publishing db' k \<Longrightarrow> publishing db k"
proof -
  have row: "find_row t_ID (t_ID t) (db_tasks db) = Some t"
    using find_row_unique [OF assms(1)] assms(2) by blast
  have nodefer: "defer_failure db r = r"
    using assms(3) by (simp add: defer_failure_def closable_def r_def failure_report_def)
  define d where "d = db\<lparr>db_tasks := update_where (\<lambda>u. t_ID u = t_ID t) (status_row r clock) (db_tasks db)\<rparr>"
  define db' where "db' = finish_task d clock (t_ProtectionPlanID t) (t_ID t)"
  have tasks: "db_tasks db' = map (\<lambda>u. if t_ID u = t_ID t then status_row r clock u else u) (db_tasks db)"
    by (simp add: db'_def finish_task_frame d_def update_where_def)
  have "distinct (map t_ID (db_tasks db'))" unfolding tasks
    using assms(1) by (simp add: comp_def if_distrib cong: if_cong)
  moreover have "status_row r clock t \<in> set (db_tasks db')" using assms(2) unfolding tasks by auto
  ultimately have "find_row t_ID (t_ID (status_row r clock t)) (db_tasks db') = Some (status_row r clock t)"
    by (simp add: find_row_unique)
  then have get: "getTask db' (t_ID t) = Some (status_row r clock t)" by (simp add: getTask_def)
  have upd: "UpdateTaskStatus db clock r = (db', Inr (Some (status_row r clock t)))"
    using row assms(3) nodefer get
    by (simp add: UpdateTaskStatus_def update_status_tx_def closable_def Let_def r_def failure_report_def
        d_def [symmetric, unfolded r_def failure_report_def] db'_def [symmetric])
  have plans: "db_plans db' = db_plans db" by (simp add: db'_def finish_task_frame d_def)
  have "publishing db k" if p: "publishing db' k" for k
  proof -
    from p obtain rv u where rv: "rv \<in> set (db_reservations db')" "rv_TaskID rv = k"
        "rv_State rv \<in> {''data_ready'', ''deleting'', ''published''}"
      and u: "u \<in> set (db_tasks db')" "t_ID u = k" "t_CompletedAt u = 0"
      unfolding publishing_def by blast
    have "rv \<in> set (db_reservations d)"
      using finish_task_reservations rv(1,3) unfolding db'_def by blast
    then have "rv \<in> set (db_reservations db)" by (simp add: d_def)
    moreover obtain u0 where u0: "u0 \<in> set (db_tasks db)" "u = (if t_ID u0 = t_ID t then status_row r clock u0 else u0)"
      using u(1) unfolding tasks set_map by blast
    moreover have "t_ID u0 = k" "t_CompletedAt u0 = 0"
      using u(2,3) u0(2) status_row_open by (auto split: if_splits)
    ultimately show ?thesis using rv unfolding publishing_def by blast
  qed
  with upd tasks plans show ?thesis by (rule that)
qed

lemma add_event_frame:
  "db_tasks (fst (AddTaskEvent newID now db ei)) = db_tasks db"
  "db_plans (fst (AddTaskEvent newID now db ei)) = db_plans db"
  "db_reservations (fst (AddTaskEvent newID now db ei)) = db_reservations db"
  "db_schedules (fst (AddTaskEvent newID now db ei)) = db_schedules db"
  by (simp_all add: AddTaskEvent_def res_bind_def res_guard_def)

lemma add_event_publishing [simp]: "publishing (fst (AddTaskEvent newID now db ei)) k = publishing db k"
  by (simp add: publishing_def add_event_frame)

lemma ListTasks_all: "ListTasks db '''' = rev (sort_key t_CreatedAt (db_tasks db))"
proof -
  have "filter (task_matches (empty_filter\<lparr>tf_ClusterID := ''''\<rparr>)) (db_tasks db) = db_tasks db"
    by (simp add: task_matches_def empty_filter_def payload_is_def)
  then show ?thesis by (simp add: ListTasks_def listTasks_def empty_filter_def)
qed

text \<open>The row a silent task ends with.\<close>

definition closed_as :: "Task \<Rightarrow> string \<Rightarrow> gtime \<Rightarrow> Task \<Rightarrow> bool" where
  "closed_as t code clock t' \<longleftrightarrow> t_ID t' = t_ID t \<and> t_Status t' = ''failed'' \<and> t_ErrorCode t' = code \<and> t_CompletedAt t' = clock"

text \<open>
  What the rows must satisfy for a loop to get through: distinct keys, and only backups may be locked or in
  publication.
\<close>

definition all_closable :: "store_db \<Rightarrow> bool" where
  "all_closable db \<longleftrightarrow> distinct (map t_ID (db_tasks db)) \<and> (\<forall>t \<in> set (db_tasks db). t_Type t \<noteq> ''backup'' \<longrightarrow> closable db t)"

lemma closable_row: "t_ID t' = t_ID t \<Longrightarrow> t_ProtectionPlanID t' = t_ProtectionPlanID t \<Longrightarrow> closable db t' = closable db t"
  by (simp add: closable_def)

lemma status_row_keys [simp]:
  "t_Type (status_row r clock t) = t_Type t" "t_ProtectionPlanID (status_row r clock t) = t_ProtectionPlanID t"
  by (simp_all add: status_row_def Let_def)

text \<open>
  What a reconcile loop needs to know of its test: it holds for active tasks that are no backups only. What it
  does then follows for all three loops.
\<close>

locale silent_tasks =
  fixes timedOut :: "Task \<Rightarrow> bool" and code reason :: string and message :: "Task \<Rightarrow> string"
  assumes only_active: "timedOut t \<Longrightarrow> isActiveTaskStatus (t_Status t)"
    and not_backup: "timedOut t \<Longrightarrow> t_Type t \<noteq> ''backup''"
begin

lemma expire_step:
  fixes newID clock t db
  defines "db' \<equiv> expire_task timedOut code reason message newID clock t db"
  assumes "distinct (map t_ID (db_tasks db))" "t \<in> set (db_tasks db)" "timedOut t \<Longrightarrow> closable db t"
  shows "db_tasks db' = map (\<lambda>u. if u = t \<and> timedOut t then status_row (failure_report u code (message u)) clock u else u)
      (db_tasks db)" (is ?tasks)
    and "db_plans db' = db_plans db" (is ?plans)
    and "\<And>k. publishing db' k \<Longrightarrow> publishing db k"
proof -
  have "?tasks \<and> ?plans \<and> (\<forall>k. publishing db' k \<longrightarrow> publishing db k)"
  proof (cases "timedOut t")
    case True
    obtain d where d: "UpdateTaskStatus db clock (failure_report t code (message t)) =
          (d, Inr (Some (status_row (failure_report t code (message t)) clock t)))"
        "db_tasks d = map (\<lambda>u. if t_ID u = t_ID t then status_row (failure_report t code (message t)) clock u else u) (db_tasks db)"
        "db_plans d = db_plans db" "\<And>k. publishing d k \<Longrightarrow> publishing db k"
      by (rule update_failure [OF assms(2,3) assms(4) [OF True]]) blast
    have one: "t_ID u = t_ID t \<longleftrightarrow> u = t" if "u \<in> set (db_tasks db)" for u
      using row_eq [OF assms(2) that assms(3)] by auto
    show ?thesis using d True one
      by (auto simp: db'_def expire_task_def add_event_frame cong: map_cong)
  qed (simp add: db'_def expire_task_def)
  then show ?tasks ?plans "\<And>k. publishing db' k \<Longrightarrow> publishing db k" by blast+
qed

lemma expire_fold:
  "distinct (map t_ID xs) \<Longrightarrow> set xs \<subseteq> set (db_tasks db) \<Longrightarrow> distinct (map t_ID (db_tasks db)) \<Longrightarrow>
   (\<And>t. t \<in> set xs \<Longrightarrow> timedOut t \<Longrightarrow> closable db t) \<Longrightarrow>
   db_tasks (fold (expire_task timedOut code reason message newID clock) xs db) =
     map (\<lambda>u. if u \<in> set xs \<and> timedOut u then status_row (failure_report u code (message u)) clock u else u) (db_tasks db) \<and>
   (\<forall>u. closable db u \<longrightarrow> closable (fold (expire_task timedOut code reason message newID clock) xs db) u)"
proof (induction xs arbitrary: db)
  case (Cons x xs)
  define db' where "db' = expire_task timedOut code reason message newID clock x db"
  define row where "row = (\<lambda>u. status_row (failure_report u code (message u)) clock u)"
  have id: "t_ID (row u) = t_ID u" for u by (simp add: row_def)
  have x: "x \<in> set (db_tasks db)" using Cons.prems(2) by simp
  have tasks: "db_tasks db' = map (\<lambda>u. if u = x \<and> timedOut x then row u else u) (db_tasks db)"
    unfolding row_def db'_def by (rule expire_step(1) [OF Cons.prems(3) x]) (use Cons.prems(4) in simp)
  have plans: "db_plans db' = db_plans db"
    unfolding db'_def by (rule expire_step(2) [OF Cons.prems(3) x]) (use Cons.prems(4) in simp)
  have pub: "publishing db k" if "publishing db' k" for k
    using expire_step(3) [OF Cons.prems(3) x, of newID clock k] that Cons.prems(4) unfolding db'_def by simp
  have other: "u \<noteq> x" "row x \<noteq> u" if "u \<in> set xs" for u
    using Cons.prems(1) that id [of x] by (auto, metis image_eqI)
  have ids: "map t_ID (db_tasks db') = map t_ID (db_tasks db)"
    unfolding tasks by (simp add: id)
  have sub: "set xs \<subseteq> set (db_tasks db')"
  proof
    fix u assume u: "u \<in> set xs"
    then have "u \<in> set (db_tasks db)" "u \<noteq> x" using Cons.prems(2) other(1) by auto
    then show "u \<in> set (db_tasks db')" unfolding tasks by force
  qed
  have clo: "closable db' u" if "closable db u" for u
    using that pub plans by (auto simp: closable_def quotaPlanLock_def)
  have rest: "db_tasks (fold (expire_task timedOut code reason message newID clock) xs db') =
      map (\<lambda>u. if u \<in> set xs \<and> timedOut u then row u else u) (db_tasks db') \<and>
      (\<forall>u. closable db' u \<longrightarrow> closable (fold (expire_task timedOut code reason message newID clock) xs db') u)"
    unfolding row_def by (rule Cons.IH) (use Cons.prems ids sub clo in auto)
  have "map (\<lambda>u. if u \<in> set xs \<and> timedOut u then row u else u) (db_tasks db') = map (\<lambda>u. if u \<in> set (x # xs) \<and> timedOut u then row u else u) (db_tasks db)"
    unfolding tasks using other by auto
  with rest clo show ?case by (simp add: db'_def row_def)
qed simp

lemma silent_closed:
  assumes "all_closable db"
  shows "db_tasks (expire_tasks timedOut code reason message newID clock db) =
      map (\<lambda>t. if timedOut t then status_row (failure_report t code (message t)) clock t else t) (db_tasks db)" (is ?tasks)
    and "all_closable (expire_tasks timedOut code reason message newID clock db)" (is ?ready)
proof -
  let ?db = "expire_tasks timedOut code reason message newID clock db"
  have "distinct (map t_ID (ListTasks db ''''))"
    using assms by (simp add: all_closable_def ListTasks_all distinct_map rev_map)
  then have "db_tasks ?db =
      map (\<lambda>t. if t \<in> set (ListTasks db '''') \<and> timedOut t then status_row (failure_report t code (message t)) clock t else t)
        (db_tasks db) \<and> (\<forall>u. closable db u \<longrightarrow> closable ?db u)"
    unfolding expire_tasks_def
    by (rule expire_fold) (use assms not_backup in \<open>auto simp: all_closable_def ListTasks_all\<close>)
  note fold = this
  then show tasks: ?tasks by (simp add: ListTasks_all cong: map_cong)
  define row where "row = (\<lambda>t. if timedOut t then status_row (failure_report t code (message t)) clock t else t)"
  have row: "t_ID (row t) = t_ID t" "t_Type (row t) = t_Type t" "t_ProtectionPlanID (row t) = t_ProtectionPlanID t" for t
    by (simp_all add: row_def)
  have "closable ?db (row t)" if "t \<in> set (db_tasks db)" "t_Type (row t) \<noteq> ''backup''" for t
    using that assms fold closable_row [of "row t" t] by (simp add: all_closable_def row)
  with assms show ?ready unfolding all_closable_def tasks row_def [symmetric] by (simp add: row comp_def)
qed

lemma closed_row: "t_CompletedAt t = 0 \<Longrightarrow> closed_as t code clock (status_row (failure_report t code (message t)) clock t)"
  by (simp add: closed_as_def status_row_def failure_report_def Let_def)

lemma kept_row:
  "t_CompletedAt t \<noteq> 0 \<Longrightarrow> t' = status_row (failure_report t code (message t)) clock t \<Longrightarrow>
   t_Status t' = t_Status t \<and> t_ErrorCode t' = t_ErrorCode t \<and> t_CompletedAt t' = t_CompletedAt t"
  by (simp add: status_row_def Let_def)

end

lemma timed_out_apart:
  "recoveryTaskTimedOut t now \<Longrightarrow> t_Type t' = t_Type t \<Longrightarrow> \<not> maintenanceTaskTimedOut t' now"
  "componentUpgradeTimedOut t now \<Longrightarrow> t_Type t' = t_Type t \<Longrightarrow> \<not> recoveryTaskTimedOut t' now"
  "componentUpgradeTimedOut t now \<Longrightarrow> t_Type t' = t_Type t \<Longrightarrow> \<not> maintenanceTaskTimedOut t' now"
  by (auto simp: recoveryTaskTimedOut_def maintenanceTaskTimedOut_def componentUpgradeTimedOut_def split: if_splits)

lemma timed_out_active:
  "recoveryTaskTimedOut t now \<Longrightarrow> isActiveTaskStatus (t_Status t)"
  "maintenanceTaskTimedOut t now \<Longrightarrow> isActiveTaskStatus (t_Status t)"
  "componentUpgradeTimedOut t now \<Longrightarrow> isActiveTaskStatus (t_Status t)"
  by (simp_all add: recoveryTaskTimedOut_def maintenanceTaskTimedOut_def componentUpgradeTimedOut_def split: if_splits)

lemma timed_out_no_backup:
  "recoveryTaskTimedOut t now \<Longrightarrow> t_Type t \<noteq> ''backup''"
  "maintenanceTaskTimedOut t now \<Longrightarrow> t_Type t \<noteq> ''backup''"
  "componentUpgradeTimedOut t now \<Longrightarrow> t_Type t \<noteq> ''backup''"
  by (auto simp: recoveryTaskTimedOut_def maintenanceTaskTimedOut_def componentUpgradeTimedOut_def split: if_splits)

interpretation recovery: silent_tasks "\<lambda>t. recoveryTaskTimedOut t now" "''RESTORE_STATUS_TIMEOUT''" "''restore_status_timeout''" "\<lambda>_. recovery_message"
  for now
  by unfold_locales (fact timed_out_active timed_out_no_backup)+

interpretation maintenance: silent_tasks "\<lambda>t. maintenanceTaskTimedOut t now" "''MAINTENANCE_STATUS_TIMEOUT''" "''maintenance_status_timeout''" maintenance_message
  for now
  by unfold_locales (fact timed_out_active timed_out_no_backup)+

interpretation upgrade: silent_tasks "\<lambda>t. componentUpgradeTimedOut t now" "''UPGRADE_VERIFICATION_TIMEOUT''" "''verification_timeout''" upgrade_message
  for now
  by unfold_locales (fact timed_out_active timed_out_no_backup)+

subsection \<open>When a task is overdue\<close>

text \<open>
  The three kinds of overdue task, with their times in minutes and without the code's tests. A recovery task counts from its
  last report and is never overdue without one; a maintenance task counts from its latest known time; an
  upgrade counts from the first of its start, acceptance, dispatch and creation that is known. Times are in
  nanoseconds, 0 for an unset one.
\<close>

definition minutes :: "int \<Rightarrow> int" where
  "minutes n = n * 60 * 1000000000"

definition open_task :: "Task \<Rightarrow> bool" where
  "open_task t \<longleftrightarrow> to_lower (t_Status t) \<in>
     {''queued'', ''dispatched'', ''accepted'', ''running'', ''syncing'', ''finalizing'', ''canceling''}"

definition last_report :: "Task \<Rightarrow> gtime set" where
  "last_report t = {x. \<exists>raw. mget (t_Payload t) ''lastStatusAt'' = AStr raw \<and> parse_rfc3339nano raw = Some x}"

definition overdue_recovery :: "gtime \<Rightarrow> Task \<Rightarrow> bool" where
  "overdue_recovery now t \<longleftrightarrow> t_Type t \<in> {''restore'', ''drill''} \<and> open_task t \<and> (\<exists>x \<in> last_report t. minutes 15 \<le> now - x)"

definition overdue_maintenance :: "gtime \<Rightarrow> Task \<Rightarrow> bool" where
  "overdue_maintenance now t \<longleftrightarrow> t_Type t \<in> {''protection-cleanup'', ''retention-cleanup'', ''plan-capacity''} \<and> open_task t \<and>
     (let known = {t_CreatedAt t, t_DispatchedAt t, t_AcceptedAt t, t_StartedAt t} \<union> last_report t
      in \<exists>x \<in> known. (\<forall>y \<in> known. y \<le> x) \<and> x \<noteq> 0 \<and> minutes 35 \<le> now - x)"

definition overdue_upgrade :: "gtime \<Rightarrow> Task \<Rightarrow> bool" where
  "overdue_upgrade now t \<longleftrightarrow> t_Type t \<in> {''agent-upgrade'', ''velero-upgrade''} \<and> open_task t \<and>
     (\<exists>x. List.find (\<lambda>x. x \<noteq> 0) [t_StartedAt t, t_AcceptedAt t, t_DispatchedAt t, t_CreatedAt t] = Some x \<and> minutes 10 \<le> now - x)"

lemma open_task_active: "open_task t \<longleftrightarrow> isActiveTaskStatus (t_Status t)"
  by (simp add: open_task_def isActiveTaskStatus_def)

lemma last_report_code: "last_report t = set_option (last_status_at t)"
  by (auto simp: last_report_def last_status_at_def split: any.splits)

lemma recovery_overdue: "recoveryTaskTimedOut t now \<longleftrightarrow> overdue_recovery now t"
  by (auto simp: recoveryTaskTimedOut_def overdue_recovery_def open_task_def isActiveTaskStatus_def last_report_code
      recoveryTaskInactivityTimeout_def minutes_def split: option.splits)

lemma upgrade_overdue: "componentUpgradeTimedOut t now \<longleftrightarrow> overdue_upgrade now t"
  by (auto simp: componentUpgradeTimedOut_def overdue_upgrade_def open_task_def isActiveTaskStatus_def time_IsZero_def
      componentUpgradeVerificationTimeout_def minutes_def Let_def)

lemma later_fold:
  fixes x :: int
  shows "foldl (\<lambda>l c. if c > l then c else l) x ys = Max (set (x # ys))"
proof -
  have "foldl (\<lambda>l c. if c > l then c else l) x ys = fold max ys x"
    by (induction ys arbitrary: x) (auto simp: max_def)
  then show ?thesis by (simp only: Max.set_eq_fold)
qed

lemma Max_witness: "finite A \<Longrightarrow> A \<noteq> {} \<Longrightarrow> P (Max A) \<longleftrightarrow> (\<exists>x \<in> A. (\<forall>y \<in> A. y \<le> x) \<and> P x)"
  by (metis Max_eqI Max_ge Max_in)

lemma maintenance_overdue: "maintenanceTaskTimedOut t now \<longleftrightarrow> overdue_maintenance now t"
proof -
  let ?known = "{t_CreatedAt t, t_DispatchedAt t, t_AcceptedAt t, t_StartedAt t} \<union> last_report t"
  have latest: "(case last_status_at t of None \<Rightarrow> l | Some parsed \<Rightarrow> if parsed > l then parsed else l) = Max ?known"
    if "l = foldl (\<lambda>l c. if c > l then c else l) (t_CreatedAt t) [t_DispatchedAt t, t_AcceptedAt t, t_StartedAt t]" for l
    unfolding that later_fold last_report_code by (cases "last_status_at t") (simp, simp add: max_def)
  have silence: "\<not> now < x + maintenanceTaskInactivityTimeout \<longleftrightarrow> minutes 35 \<le> now - x" for x
    by (auto simp: maintenanceTaskInactivityTimeout_def minutes_def)
  have finite: "finite ?known" and nonempty: "?known \<noteq> {}" by (simp_all add: last_report_code)
  have "maintenanceTaskTimedOut t now \<longleftrightarrow>
      t_Type t \<in> {''protection-cleanup'', ''retention-cleanup'', ''plan-capacity''} \<and> open_task t \<and>
      Max ?known \<noteq> 0 \<and> minutes 35 \<le> now - Max ?known"
    unfolding maintenanceTaskTimedOut_def Let_def latest [OF refl] open_task_active time_IsZero_def silence by argo
  also have "\<dots> \<longleftrightarrow> overdue_maintenance now t"
    unfolding overdue_maintenance_def Let_def
    using Max_witness [of ?known "\<lambda>x. x \<noteq> 0 \<and> minutes 35 \<le> now - x", OF finite nonempty] by argo
  finally show ?thesis .
qed

lemmas overdue = recovery_overdue maintenance_overdue upgrade_overdue

text \<open>What the three loops, one after the other, make of a row. Their tests exclude each other by the type of the task.\<close>

definition expired_row :: "(Task \<Rightarrow> bool) \<Rightarrow> string \<Rightarrow> (Task \<Rightarrow> string) \<Rightarrow> gtime \<Rightarrow> Task \<Rightarrow> Task" where
  "expired_row timedOut code message clock t = (if timedOut t then status_row (failure_report t code (message t)) clock t else t)"

definition upgrade_row :: "gtime \<Rightarrow> gtime \<Rightarrow> Task \<Rightarrow> Task" where
  "upgrade_row now = expired_row (\<lambda>t. componentUpgradeTimedOut t now) ''UPGRADE_VERIFICATION_TIMEOUT'' upgrade_message"

definition recovery_row :: "gtime \<Rightarrow> gtime \<Rightarrow> Task \<Rightarrow> Task" where
  "recovery_row now = expired_row (\<lambda>t. recoveryTaskTimedOut t now) ''RESTORE_STATUS_TIMEOUT'' (\<lambda>_. recovery_message)"

definition maintenance_row :: "gtime \<Rightarrow> gtime \<Rightarrow> Task \<Rightarrow> Task" where
  "maintenance_row now = expired_row (\<lambda>t. maintenanceTaskTimedOut t now) ''MAINTENANCE_STATUS_TIMEOUT'' maintenance_message"

lemmas loop_rows = upgrade_row_def recovery_row_def maintenance_row_def expired_row_def

lemma loop_row_keys [simp]:
  "t_ID (upgrade_row now c t) = t_ID t" "t_ID (recovery_row now c t) = t_ID t" "t_ID (maintenance_row now c t) = t_ID t"
  "t_Type (upgrade_row now c t) = t_Type t" "t_Type (recovery_row now c t) = t_Type t"
  by (simp_all add: loop_rows)

lemma loop_row_same:
  "\<not> componentUpgradeTimedOut t now \<Longrightarrow> upgrade_row now c t = t" "\<not> recoveryTaskTimedOut t now \<Longrightarrow> recovery_row now c t = t"
  "\<not> maintenanceTaskTimedOut t now \<Longrightarrow> maintenance_row now c t = t"
  by (simp_all add: loop_rows)

lemma tick_rows:
  assumes "all_closable db"
  shows "db_tasks (reconcileAbandonedMaintenanceTasks i3 c3 now (reconcileAbandonedRecoveryTasks i2 c2 now
      (reconcileComponentUpgradeTimeouts i1 c1 now db))) =
    map (maintenance_row now c3 \<circ> recovery_row now c2 \<circ> upgrade_row now c1) (db_tasks db)"
  unfolding reconcileAbandonedMaintenanceTasks_def reconcileAbandonedRecoveryTasks_def reconcileComponentUpgradeTimeouts_def
  using upgrade.silent_closed [OF assms, of now i1 c1] recovery.silent_closed [of _ now i2 c2] maintenance.silent_closed [of _ now i3 c3]
  by (simp add: loop_rows comp_def)

lemma tick_row:
  "maintenance_row now c3 (recovery_row now c2 (upgrade_row now c1 t)) =
    (if componentUpgradeTimedOut t now then upgrade_row now c1 t
     else if recoveryTaskTimedOut t now then recovery_row now c2 t else maintenance_row now c3 t)"
  using timed_out_apart(1) [of t now "recovery_row now c2 t"] timed_out_apart(2,3) [of t now "upgrade_row now c1 t"]
  by (simp add: loop_row_same)

lemma loop_row_closed:
  "componentUpgradeTimedOut t now \<Longrightarrow> t_CompletedAt t = 0 \<Longrightarrow> closed_as t ''UPGRADE_VERIFICATION_TIMEOUT'' c (upgrade_row now c t)"
  "recoveryTaskTimedOut t now \<Longrightarrow> t_CompletedAt t = 0 \<Longrightarrow> closed_as t ''RESTORE_STATUS_TIMEOUT'' c (recovery_row now c t)"
  "maintenanceTaskTimedOut t now \<Longrightarrow> t_CompletedAt t = 0 \<Longrightarrow> closed_as t ''MAINTENANCE_STATUS_TIMEOUT'' c (maintenance_row now c t)"
  by (simp_all add: loop_rows upgrade.closed_row recovery.closed_row maintenance.closed_row)

lemma loop_row_over:
  "t_CompletedAt t \<noteq> 0 \<Longrightarrow> t' \<in> {upgrade_row now c1 t, recovery_row now c2 t, maintenance_row now c3 t} \<Longrightarrow>
   t_Status t' = t_Status t \<and> t_ErrorCode t' = t_ErrorCode t \<and> t_CompletedAt t' = t_CompletedAt t"
  by (elim insertE emptyE) (simp_all add: loop_rows upgrade.kept_row [OF _ refl] recovery.kept_row [OF _ refl] maintenance.kept_row [OF _ refl])

text \<open>C26: Overdue tasks are closed. The first three steps of a tick close exactly the overdue tasks that are not over yet: an
  upgrade that was not verified within 10 minutes, a restore or drill whose last report is 15 minutes old,
  a cleanup or capacity task of which nothing has been heard for 35 minutes. Each ends as failed, with the
  code of its timeout and the time of the database. Every other row stays as it is (so do takeovers and
  restores that never reported), no row comes or goes, and a task that is over keeps its status, its code
  and its time in any case.\<close>

theorem silent_tasks_closed:
  assumes "all_closable db" "t \<in> set (db_tasks db)"
    and "after = reconcileAbandonedMaintenanceTasks i3 c3 now (reconcileAbandonedRecoveryTasks i2 c2 now
      (reconcileComponentUpgradeTimeouts i1 c1 now db))"
  shows "map t_ID (db_tasks after) = map t_ID (db_tasks db) \<and> (\<exists>t' \<in> set (db_tasks after). t_ID t' = t_ID t \<and>
    (if t_CompletedAt t \<noteq> 0 then t_Status t' = t_Status t \<and> t_ErrorCode t' = t_ErrorCode t \<and> t_CompletedAt t' = t_CompletedAt t
     else if overdue_upgrade now t then closed_as t ''UPGRADE_VERIFICATION_TIMEOUT'' c1 t'
     else if overdue_recovery now t then closed_as t ''RESTORE_STATUS_TIMEOUT'' c2 t'
     else overdue_maintenance now t \<longrightarrow> closed_as t ''MAINTENANCE_STATUS_TIMEOUT'' c3 t') \<and>
    (\<not> overdue_upgrade now t \<and> \<not> overdue_recovery now t \<and> \<not> overdue_maintenance now t \<longrightarrow> t' = t))"
proof -
  define t' where "t' = maintenance_row now c3 (recovery_row now c2 (upgrade_row now c1 t))"
  have ids: "map t_ID (db_tasks after) = map t_ID (db_tasks db)" and row: "t' \<in> set (db_tasks after)" and id: "t_ID t' = t_ID t"
    using assms(2) by (simp_all add: assms(3) tick_rows [OF assms(1)] t'_def)
  consider (upgrade) "componentUpgradeTimedOut t now" "t' = upgrade_row now c1 t"
    | (recovery) "\<not> componentUpgradeTimedOut t now" "recoveryTaskTimedOut t now" "t' = recovery_row now c2 t"
    | (other) "\<not> componentUpgradeTimedOut t now" "\<not> recoveryTaskTimedOut t now" "t' = maintenance_row now c3 t"
    unfolding t'_def tick_row by argo
  then show ?thesis
  proof cases
    case upgrade
    then show ?thesis using ids row id loop_row_closed(1) [of t now c1] loop_row_over [of t "upgrade_row now c1 t" now c1 c2 c3]
      by (intro conjI bexI [of _ t']) (simp_all add: overdue [symmetric])
  next
    case recovery
    then show ?thesis using ids row id loop_row_closed(2) [of t now c2] loop_row_over [of t "recovery_row now c2 t" now c1 c2 c3]
      by (intro conjI bexI [of _ t']) (simp_all add: overdue [symmetric])
  next
    case other
    then show ?thesis using ids row id loop_row_closed(3) [of t now c3] loop_row_over [of t "maintenance_row now c3 t" now c1 c2 c3]
      by (intro conjI bexI [of _ t']) (simp_all add: overdue [symmetric] loop_row_same(3))
  qed
qed

section \<open>Firing a schedule\<close>

lemma truncated_later: "nsPerSec \<le> d \<Longrightarrow> t < time_Truncate (t + d) durSecond"
proof -
  assume d: "nsPerSec \<le> d"
  have "(t + d) mod nsPerSec < nsPerSec" by simp
  with d show ?thesis unfolding time_Truncate_def by simp
qed

text \<open>A policy with a cron form moves forward: its interval is too short to wrap around.\<close>

lemma cron_next_later:
  assumes "policyCron policy = Inr c"
  shows "t < NextPolicyFireAt policy t"
proof (cases "p_ScheduleType policy = ''interval''")
  case True
  let ?n = "p_IntervalValue policy"
  have n: "0 < ?n" using assms True by (auto simp: policyCron_def Let_def split: if_splits)
  have lower: "to_lower ''minute'' = ''minute''" "to_lower ''minutes'' = ''minutes''" "to_lower ''hour'' = ''hour''"
    "to_lower ''hours'' = ''hours''" "to_lower '''' = ''''" by code_simp+
  consider (minutes) "p_IntervalUnit policy \<in> {''minute'', ''minutes''}"
    | (hours) "p_IntervalUnit policy \<in> {''hour'', ''hours'', ''''}"
    | (other) "p_IntervalUnit policy \<notin> {''minute'', ''minutes'', ''hour'', ''hours'', ''''}" by blast
  then show ?thesis
  proof cases
    case minutes
    then have "?n \<le> 59" using assms True by (auto simp: policyCron_def Let_def lower split: if_splits)
    then have "dur_mult ?n durMinute = ?n * durMinute" using n unfolding dur_mult_def by (intro wrap64_id) auto
    then have "NextPolicyFireAt policy t = time_Truncate (t + ?n * durMinute) durSecond"
      using True minutes n by (auto simp: NextPolicyFireAt_def NextPolicyFireAtInLocation_def Let_def)
    then show ?thesis using n by (simp add: truncated_later)
  next
    case hours
    then have "?n \<le> 23" using assms True by (auto simp: policyCron_def Let_def lower split: if_splits)
    then have "dur_mult ?n durHour = ?n * durHour" using n unfolding dur_mult_def by (intro wrap64_id) auto
    then have "NextPolicyFireAt policy t = time_Truncate (t + ?n * durHour) durSecond"
      using True hours n by (auto simp: NextPolicyFireAt_def NextPolicyFireAtInLocation_def Let_def)
    then show ?thesis using n by (simp add: truncated_later)
  next
    case other
    then have "NextPolicyFireAt policy t = time_Truncate (t + durHour) durSecond"
      using True by (auto simp: NextPolicyFireAt_def NextPolicyFireAtInLocation_def Let_def)
    then show ?thesis by (simp add: truncated_later)
  qed
next
  case False
  then have w: "wall_policy policy" using assms by (auto simp: policyCron_def Let_def split: if_splits)
  obtain n where "NextPolicyFireAt policy t = pc.wall policy n" "t < pc.wall policy n"
    using w by (rule next_is_wall)
  then show ?thesis by simp
qed

lemma cron_next_matches:
  assumes "policyCron policy = Inr c" "0 \<le> t"
  shows "ScheduleMatchesPolicy (NextPolicyFireAt policy t) policy (Some time_UTC)"
proof (cases "p_ScheduleType policy = ''interval''")
  case True
  then show ?thesis using cron_next_later [OF assms(1), of t] assms(2)
    by (simp add: ScheduleMatchesPolicy_def time_IsZero_def)
next
  case False
  then have w: "wall_policy policy" using assms by (auto simp: policyCron_def Let_def split: if_splits)
  obtain n where "NextPolicyFireAt policy t = pc.wall policy n" "fire_day policy n" "t < pc.wall policy n"
    using w by (rule next_is_wall)
  with assms(2) show ?thesis by (simp add: matches_fire_day [OF w])
qed

lemma schedulable_cron:
  "protectionPlanSchedulePolicy db plan = Inr (policy, True) \<Longrightarrow> \<exists>c. policyCron policy = Inr c"
  by (auto simp: protectionPlanSchedulePolicy_def split: if_splits option.splits sum.splits)

lemma mark_fired_rows:
  assumes "r \<in> set (db_schedules (mark_fired clock now planID next db))" "ps_ProtectionPlanID r = planID"
  shows "ps_LastFiredAt r = now \<and> ps_NextFireAt r = next"
proof -
  let ?f = "\<lambda>s. s\<lparr>ps_LastFiredAt := now, ps_NextFireAt := next, ps_UpdatedAt := clock\<rparr>"
  have "db_schedules (mark_fired clock now planID next db) = update_where (\<lambda>s. ps_ProtectionPlanID s = planID) ?f (db_schedules db)"
    by (simp add: mark_fired_def MarkProtectionPlanScheduleFired_def Let_def)
  then obtain s where "r = (if ps_ProtectionPlanID s = planID then ?f s else s)"
    using assms(1) by (simp only: update_where_def set_map) blast
  then show ?thesis using assms(2) by (cases "ps_ProtectionPlanID s = planID") simp_all
qed

lemma mark_fired_tasks [simp]: "db_tasks (mark_fired clock now planID next db) = db_tasks db"
  by (simp add: mark_fired_def MarkProtectionPlanScheduleFired_def Let_def)

lemma create_scheduled_error:
  "createScheduledBackupTask L taskID commandID eventID clock db plan policy now = (db', Inl e) \<Longrightarrow> db' = db"
proof -
  have tx: "d = db" if "run_tx db r = (d, Inl e)" for r :: "Task tx" and d
    using that by (simp add: run_tx_def split: sum.splits prod.splits)
  have pending: "d = db"
    if "createPendingBackupTask L taskID commandID clock db body appID = (d, Inl e)" for body appID d
    using that tx unfolding createPendingBackupTask_def CreateTask_def
    by (cases "backup_app_id db body appID") (auto dest: tx)
  assume run: "createScheduledBackupTask L taskID commandID eventID clock db plan policy now = (db', Inl e)"
  show "db' = db"
  proof (cases "planSourceNamespaces db plan")
    case (Inr sources)
    obtain namespaces appIDs where s: "sources = (namespaces, appIDs)" by fastforce
    show ?thesis
    proof (cases "find_row ow_ID (pl_StorageRepoID plan) (db_repositories db)")
      case (Some repo)
      define request where "request = scheduled_request plan namespaces appIDs (storageDomainBSLName (sr_Name repo) (pl_SourceClusterID plan))"
      obtain d r where r: "createPendingBackupTask L taskID commandID clock db request (br_AppID request) = (d, r)" by fastforce
      then show ?thesis using run Inr s Some pending [of request "br_AppID request" d]
        by (cases r) (simp_all add: createScheduledBackupTask_def Let_def flip: request_def)
    qed (use run Inr s in \<open>simp add: createScheduledBackupTask_def\<close>)
  qed (use run in \<open>simp add: createScheduledBackupTask_def\<close>)
qed

text \<open>C16: A schedule fires once. Whenever firing a due schedule creates a task, the plan exists and is active, its
  policy is active and has a schedule, no backup of the plan is running, and every schedule row of the plan
  records this tick as its last and a strictly later time as its next, so it is not due again.\<close>

theorem schedule_fires_once:
  assumes "fireProtectionPlanSchedule L taskID commandID eventID clock now schedule db = db'"
    and "db_tasks db' \<noteq> db_tasks db"
  shows "(\<exists>plan policy. GetProtectionPlan db (ps_ProtectionPlanID schedule) = Some plan \<and>
      protectionPlanAllowsBackup (pl_Status plan) \<and> protectionPlanSchedulePolicy db plan = Inr (policy, True) \<and>
      findActiveBackupTask db (pl_SourceClusterID plan) (pl_ID plan) '''' '''' = None) \<and>
    (\<forall>r \<in> set (db_schedules db'). ps_ProtectionPlanID r = ps_ProtectionPlanID schedule \<longrightarrow>
      ps_LastFiredAt r = now \<and> now < ps_NextFireAt r \<and> \<not> schedule_due db' now r)"
proof -
  have "\<exists>plan. GetProtectionPlan db (ps_ProtectionPlanID schedule) = Some plan"
    using assms by (auto simp: fireProtectionPlanSchedule_def DisableProtectionPlanSchedule_def split: option.splits)
  then obtain plan where plan: "GetProtectionPlan db (ps_ProtectionPlanID schedule) = Some plan" by blast
  then have planID: "pl_ID plan = ps_ProtectionPlanID schedule"
    by (auto simp: GetProtectionPlan_def with_schedule_def Let_def dest!: find_row_SomeD)
  obtain policy where policy: "protectionPlanSchedulePolicy db plan = Inr (policy, True)"
      and active: "protectionPlanAllowsBackup (pl_Status plan)"
    using assms plan by (auto simp: fireProtectionPlanSchedule_def DisableProtectionPlanSchedule_def split: sum.splits if_splits)
  have idle: "findActiveBackupTask db (pl_SourceClusterID plan) (pl_ID plan) '''' '''' = None"
    using assms plan policy active
    by (auto simp: fireProtectionPlanSchedule_def add_event_frame Let_def split: option.splits)
  obtain d task where d: "createScheduledBackupTask L taskID commandID eventID clock db plan policy now = (d, Inr task)"
      "db' = mark_fired clock now (pl_ID plan) (NextPolicyFireAt policy now) d"
    using assms plan policy active idle create_scheduled_error
    by (fastforce simp: fireProtectionPlanSchedule_def Let_def split: prod.splits sum.splits)
  obtain c where "policyCron policy = Inr c" using schedulable_cron [OF policy] by blast
  then have later: "now < NextPolicyFireAt policy now" by (rule cron_next_later)
  have "ps_LastFiredAt r = now \<and> now < ps_NextFireAt r \<and> \<not> schedule_due db' now r"
    if "r \<in> set (db_schedules db')" "ps_ProtectionPlanID r = ps_ProtectionPlanID schedule" for r
    using mark_fired_rows [of r clock now "pl_ID plan" "NextPolicyFireAt policy now" d] that d(2) planID later
    by (auto simp: schedule_due_def)
  with plan policy active idle show ?thesis by blast
qed

section \<open>Schedules follow policies\<close>

lemma find_row_update:
  assumes "key s' = k"
  shows "find_row key k' (update_where (\<lambda>s. key s = k) (\<lambda>_. s') rows) =
    (if k' = k \<and> find_row key k rows \<noteq> None then Some s' else find_row key k' rows)"
  using assms by (induction rows) (auto simp: find_row_def)

lemma find_row_append:
  "find_row key k (rows @ [r]) = (case find_row key k rows of None \<Rightarrow> (if key r = k then Some r else None) | Some s \<Rightarrow> Some s)"
  by (induction rows) (auto simp: find_row_def)

text \<open>Reading a plan's schedule after writing one.\<close>

lemma upsert_schedule_get:
  assumes "find_row pl_ID (psi_ProtectionPlanID i) (db_plans db) \<noteq> None"
  obtains s where "GetProtectionPlanSchedule (fst (UpsertProtectionPlanSchedule db clock i)) (psi_ProtectionPlanID i) = Some s"
    "ps_NextFireAt s = psi_NextFireAt i" "ps_Enabled s = psi_Enabled i"
proof (cases "find_row ps_ProtectionPlanID (psi_ProtectionPlanID i) (db_schedules db)")
  case None
  with assms show ?thesis
    by (intro that) (auto simp: UpsertProtectionPlanSchedule_def GetProtectionPlanSchedule_def Let_def find_row_append)
next
  case (Some s)
  then have "ps_ProtectionPlanID s = psi_ProtectionPlanID i" by (auto dest: find_row_SomeD)
  with Some show ?thesis
    by (intro that) (auto simp: UpsertProtectionPlanSchedule_def GetProtectionPlanSchedule_def Let_def find_row_update)
qed

lemma upsert_schedule_other:
  assumes "k \<noteq> psi_ProtectionPlanID i"
  shows "GetProtectionPlanSchedule (fst (UpsertProtectionPlanSchedule db clock i)) k = GetProtectionPlanSchedule db k"
proof (cases "find_row ps_ProtectionPlanID (psi_ProtectionPlanID i) (db_schedules db)")
  case None
  with assms show ?thesis
    by (auto simp: UpsertProtectionPlanSchedule_def GetProtectionPlanSchedule_def Let_def find_row_append split: option.splits)
next
  case (Some s)
  then have "ps_ProtectionPlanID s = psi_ProtectionPlanID i" by (auto dest: find_row_SomeD)
  with Some assms show ?thesis
    by (simp add: UpsertProtectionPlanSchedule_def GetProtectionPlanSchedule_def Let_def find_row_update)
qed

lemma upsert_schedule_frame: "\<exists>ss. fst (UpsertProtectionPlanSchedule db clock i) = db\<lparr>db_schedules := ss\<rparr>"
  by (cases "find_row ps_ProtectionPlanID (psi_ProtectionPlanID i) (db_schedules db)";
      cases "find_row pl_ID (psi_ProtectionPlanID i) (db_plans db)")
    (auto simp: UpsertProtectionPlanSchedule_def Let_def intro: exI [of _ "db_schedules db"])

lemma reconcile_schedule_frame: "\<exists>ss. reconcile_schedule clock now plan db = db\<lparr>db_schedules := ss\<rparr>"
proof -
  have "\<exists>ss. db = db\<lparr>db_schedules := ss\<rparr>" by (rule exI [of _ "db_schedules db"]) simp
  then show ?thesis
    unfolding reconcile_schedule_def using upsert_schedule_frame
    by (auto split: sum.split prod.split)
qed

lemma schedule_policy_frame:
  "protectionPlanSchedulePolicy (db\<lparr>db_schedules := ss\<rparr>) plan = protectionPlanSchedulePolicy db plan"
  "protectionPlanSchedulePolicy db (with_schedule db' plan) = protectionPlanSchedulePolicy db plan"
  by (simp_all add: protectionPlanSchedulePolicy_def findPolicy_def ListPolicies_def bound_apps_def with_schedule_def Let_def)

lemma with_schedule_simps [simp]:
  "pl_ID (with_schedule db p) = pl_ID p" "pl_Status (with_schedule db p) = pl_Status p"
  by (simp_all add: with_schedule_def Let_def)

definition in_line :: "store_db \<Rightarrow> string \<Rightarrow> Policy \<Rightarrow> bool" where
  "in_line db planID policy \<longleftrightarrow> (case GetProtectionPlanSchedule db planID of None \<Rightarrow> False
     | Some s \<Rightarrow> ps_Enabled s \<and> ScheduleMatchesPolicy (ps_NextFireAt s) policy (Some time_UTC))"

text \<open>What an active plan with a schedulable policy is.\<close>

definition scheduled_plan :: "store_db \<Rightarrow> ProtectionPlan \<Rightarrow> Policy \<Rightarrow> bool" where
  "scheduled_plan db plan policy \<longleftrightarrow> protectionPlanAllowsBackup (pl_Status plan) \<and>
     protectionPlanSchedulePolicy db plan = Inr (policy, True)"

lemma reconcile_own:
  assumes "scheduled_plan db plan policy" "find_row pl_ID (pl_ID plan) (db_plans db) \<noteq> None" "0 \<le> now"
  shows "in_line (reconcile_schedule clock now plan db) (pl_ID plan) policy"
proof (cases "in_line db (pl_ID plan) policy")
  case True
  then show ?thesis using assms(1) by (simp add: reconcile_schedule_def scheduled_plan_def in_line_def)
next
  case False
  define i where "i = \<lparr>psi_ProtectionPlanID = pl_ID plan,
    psi_NextFireAt = NextPolicyFireAtInLocation policy now (Some time_UTC), psi_Enabled = True\<rparr>"
  have step: "reconcile_schedule clock now plan db = fst (UpsertProtectionPlanSchedule db clock i)"
    using assms(1) False by (simp add: reconcile_schedule_def scheduled_plan_def in_line_def i_def)
  obtain s where s: "GetProtectionPlanSchedule (fst (UpsertProtectionPlanSchedule db clock i)) (psi_ProtectionPlanID i) = Some s"
      "ps_NextFireAt s = psi_NextFireAt i" "ps_Enabled s = psi_Enabled i"
    by (rule upsert_schedule_get [of i db clock]) (use assms(2) in \<open>auto simp: i_def\<close>)
  obtain c where "policyCron policy = Inr c"
    using assms(1) schedulable_cron unfolding scheduled_plan_def by blast
  then have "ScheduleMatchesPolicy (NextPolicyFireAtInLocation policy now (Some time_UTC)) policy (Some time_UTC)"
    using cron_next_matches [OF _ assms(3)] by (simp add: NextPolicyFireAt_def)
  with s show ?thesis unfolding step in_line_def i_def by simp
qed

lemma reconcile_other:
  "k \<noteq> pl_ID plan \<Longrightarrow> in_line (reconcile_schedule clock now plan db) k policy = in_line db k policy"
  by (auto simp: reconcile_schedule_def in_line_def upsert_schedule_other split: sum.split prod.split)

lemma reconcile_fold:
  "distinct (map pl_ID xs) \<Longrightarrow> plan \<in> set xs \<Longrightarrow> scheduled_plan db plan policy \<Longrightarrow>
   find_row pl_ID (pl_ID plan) (db_plans db) \<noteq> None \<Longrightarrow> 0 \<le> now \<Longrightarrow>
   in_line (fold (reconcile_schedule clock now) xs db) (pl_ID plan) policy"
proof (induction xs arbitrary: db)
  case (Cons x xs)
  obtain ss where ss: "reconcile_schedule clock now x db = db\<lparr>db_schedules := ss\<rparr>"
    using reconcile_schedule_frame by blast
  show ?case
  proof (cases "plan = x")
    case True
    have keep: "pl_ID plan \<notin> pl_ID ` set ys \<Longrightarrow> in_line (fold (reconcile_schedule clock now) ys d) (pl_ID plan) policy = in_line d (pl_ID plan) policy" for ys d
      by (induction ys arbitrary: d) (auto simp: reconcile_other)
    show ?thesis using Cons.prems reconcile_own [of db plan policy now clock] keep True by simp
  next
    case False
    have "scheduled_plan (db\<lparr>db_schedules := ss\<rparr>) plan policy"
      using Cons.prems(3) by (simp add: scheduled_plan_def schedule_policy_frame)
    then show ?thesis using Cons.IH [of "db\<lparr>db_schedules := ss\<rparr>"] Cons.prems False ss by simp
  qed
qed simp

text \<open>C15: Schedules follow policies. After a tick has gone over the schedules, every active plan whose policy is active
  and can be scheduled has an enabled schedule, and its next time is one the policy asks for: edits of the
  policy and lost or disabled schedule rows are repaired within one tick.\<close>

theorem schedules_follow_policies:
  assumes "distinct (map pl_ID (db_plans db))" "plan \<in> set (db_plans db)" "protectionPlanAllowsBackup (pl_Status plan)"
    and "protectionPlanSchedulePolicy db plan = Inr (policy, True)" "0 \<le> now"
  shows "\<exists>s. GetProtectionPlanSchedule (reconcilePlatformSchedules clock now db) (pl_ID plan) = Some s \<and> ps_Enabled s \<and>
    ScheduleMatchesPolicy (ps_NextFireAt s) policy (Some time_UTC)"
proof -
  let ?p = "with_schedule db plan"
  have "distinct (map pl_ID (ListProtectionPlans db ''''))"
    using assms(1) by (simp add: ListProtectionPlans_def distinct_map rev_map comp_def inj_on_def)
  moreover have "?p \<in> set (ListProtectionPlans db '''')" using assms(2) by (simp add: ListProtectionPlans_def)
  moreover have "scheduled_plan db ?p policy" using assms(3,4) by (simp add: scheduled_plan_def schedule_policy_frame)
  moreover have "find_row pl_ID (pl_ID ?p) (db_plans db) \<noteq> None" using assms(2) by (simp add: find_row_None) blast
  ultimately have "in_line (reconcilePlatformSchedules clock now db) (pl_ID ?p) policy"
    unfolding reconcilePlatformSchedules_def using assms(5) by (rule reconcile_fold)
  then show ?thesis by (auto simp: in_line_def split: option.splits)
qed

section \<open>Concrete runs\<close>

definition silent_drill :: Task where
  "silent_drill = \<lparr>t_ID = ''d1'', t_TenantID = ''t1'', t_ClusterID = ''c1'', t_AppID = ''a1'', t_ProtectionPlanID = ''plan1'',
     t_RestorePointID = '''', t_Type = ''drill'', t_Status = ''running'', t_Progress = 40, t_CommandID = '''',
     t_ErrorCode = '''', t_ErrorMessage = '''', t_Payload = [(''lastStatusAt'', AStr ''2026-03-01T10:00:00Z'')],
     t_CreatedAt = 1, t_DispatchedAt = 0, t_AcceptedAt = 0, t_StartedAt = 0, t_CompletedAt = 0\<rparr>"

definition silent_db :: store_db where
  "silent_db = sample_db\<lparr>db_tasks := [silent_drill]\<rparr>"

text \<open>Twenty minutes after the last report.\<close>

definition later_tick :: gtime where
  "later_tick = the (parse_rfc3339nano ''2026-03-01T10:20:00Z'')"

theorem silent_tasks_closed_witness:
  "(let after = reconcileAbandonedMaintenanceTasks id later_tick later_tick (reconcileAbandonedRecoveryTasks id later_tick later_tick
      (reconcileComponentUpgradeTimeouts id later_tick later_tick silent_db))
    in \<exists>t' \<in> set (db_tasks after). closed_as silent_drill ''RESTORE_STATUS_TIMEOUT'' later_tick t')"
proof -
  have "all_closable silent_db" by code_simp
  moreover have "silent_drill \<in> set (db_tasks silent_db)" by (simp add: silent_db_def)
  moreover have "recoveryTaskTimedOut silent_drill later_tick" by code_simp
  moreover have "\<not> componentUpgradeTimedOut silent_drill later_tick" by code_simp
  moreover have "t_CompletedAt silent_drill = 0" by (simp add: silent_drill_def)
  ultimately show ?thesis
    using silent_tasks_closed [OF _ _ refl, of silent_db silent_drill id later_tick later_tick id later_tick id later_tick]
    unfolding Let_def overdue by (metis (no_types, lifting))
qed

definition fired_db :: store_db where
  "fired_db = fireProtectionPlanSchedule utc_only ''bt1'' ''cmd-0001'' ''ev1'' 600 600 (hd (db_schedules sample_db)) sample_db"

theorem schedule_fires_once_witness:
  "map t_Status (db_tasks fired_db) = [''queued''] \<and> map ps_ProtectionPlanID (db_schedules fired_db) = [''plan1''] \<and>
   ps_LastFiredAt (hd (db_schedules fired_db)) = 600 \<and> \<not> schedule_due fired_db 600 (hd (db_schedules fired_db))"
proof -
  have tasks: "map t_Status (db_tasks fired_db) = [''queued'']" by code_simp
  moreover have plans: "map ps_ProtectionPlanID (db_schedules fired_db) = [''plan1'']" by code_simp
  moreover have "db_tasks fired_db \<noteq> db_tasks sample_db" using tasks by (auto simp: sample_db_def)
  moreover have "hd (db_schedules fired_db) \<in> set (db_schedules fired_db)"
    "ps_ProtectionPlanID (hd (db_schedules fired_db)) = ps_ProtectionPlanID (hd (db_schedules sample_db))"
    using plans by (cases "db_schedules fired_db", auto simp: sample_db_def)+
  ultimately show ?thesis
    using schedule_fires_once [OF fired_db_def [symmetric]] by blast
qed

theorem schedules_follow_policies_witness:
  "\<exists>s. GetProtectionPlanSchedule (reconcilePlatformSchedules 600 600 sample_db) ''plan1'' = Some s \<and> ps_Enabled s \<and>
    ps_NextFireAt s \<noteq> 500"
proof -
  obtain policy where p: "protectionPlanSchedulePolicy sample_db sample_plan = Inr (policy, True)"
    and wrong: "\<not> ScheduleMatchesPolicy 500 policy (Some time_UTC)"
    by (rule that [of "sample_policy_row\<lparr>p_BoundCount := 1\<rparr>"]) code_simp+
  have "distinct (map pl_ID (db_plans sample_db))" by code_simp
  moreover have "sample_plan \<in> set (db_plans sample_db)" by (simp add: sample_db_def)
  moreover have "protectionPlanAllowsBackup (pl_Status sample_plan)" by code_simp
  moreover have "(0::int) \<le> 600" "pl_ID sample_plan = ''plan1''" by (simp_all add: sample_plan_def)
  ultimately show ?thesis
    using schedules_follow_policies [of sample_db sample_plan policy 600 600] p wrong by auto
qed

text \<open>A plan's scheduled backups and the backups a user starts for it do not ask for the same data. The scheduled
  request never includes cluster resources, also for a plan that includes them; the user's request takes the
  flag of the plan but not its resource selection, so that the selection is the one of the request body
  (empty where the client sends none).\<close>

theorem plan_backups_differ:
  "mget (backup_payload (scheduled_request plan namespaces appIDs store) name) ''includeClusterResources'' = ABool False \<and>
   mget (backup_payload (scheduled_request plan namespaces appIDs store) name) ''resourceSelection'' =
     resource_selection_json (pl_ResourceSelection plan) \<and>
   mget (backup_payload (manual_plan_request body plan namespaces store) name) ''includeClusterResources'' =
     ABool (pl_IncludeClusterScoped plan) \<and>
   mget (backup_payload (manual_plan_request body plan namespaces store) name) ''resourceSelection'' =
     resource_selection_json (br_ResourceSelection body)"
  by (simp add: backup_payload_def scheduled_request_def manual_plan_request_def mget_def)

text \<open>The unit of an interval is checked in lower case but read as written: thirty \<^verbatim>\<open>Minutes\<close> is accepted as a
  half-hourly schedule and runs every hour.\<close>

lemma interval_unit_case:
  fixes t
  defines "policy \<equiv> zero_policy\<lparr>p_ScheduleType := ''interval'', p_IntervalValue := 30, p_IntervalUnit := ''Minutes''\<rparr>"
  shows "policyCron policy = Inr ''*/30 * * * *''" "NextPolicyFireAt policy t = time_Truncate (t + durHour) durSecond"
proof -
  show "policyCron policy = Inr ''*/30 * * * *''" unfolding policy_def by code_simp
  show "NextPolicyFireAt policy t = time_Truncate (t + durHour) durSecond"
    by (simp add: policy_def NextPolicyFireAt_def NextPolicyFireAtInLocation_def Let_def)
qed

end
