(* ===== verification/Task_Commands.thy ===== *)
theory Task_Commands
  imports Platform_Scheduler Velero_Facts Backup_Result
begin

text \<open>
  What a stored task becomes on the wire (\<^verbatim>\<open>httpserver/task_payload.go\<close> and the commands of \<^verbatim>\<open>task_dispatch.go\<close>): the
  payload of a task is read field by field, whether it is the map the handler built (a task is dispatched right
  after it was created) or the JSON object the store returned (it is dispatched again after the agent
  reconnected). A struct in a payload is the object its tags give; the branch of
  \<^verbatim>\<open>resourceSelectionPayload\<close> for the struct differs from the one for the object only for a mode of white space.
\<close>

section \<open>Fields of a payload\<close>

definition stringPayload :: "gomap \<Rightarrow> string \<Rightarrow> string" where
  "stringPayload payload key = any_str (mget payload key)"

definition boolPayload :: "gomap \<Rightarrow> string \<Rightarrow> bool" where
  "boolPayload payload key = any_bool (mget payload key)"

definition nonempty_str :: "any \<Rightarrow> string option" where
  "nonempty_str v = (case v of AStr s \<Rightarrow> if s \<noteq> '''' then Some s else None | _ \<Rightarrow> None)"

definition stringSlicePayload :: "gomap \<Rightarrow> string \<Rightarrow> string list" where
  "stringSlicePayload payload key = (case mget payload key of
     ASlice raw \<Rightarrow> List.map_filter nonempty_str raw
   | AStrs values \<Rightarrow> values
   | _ \<Rightarrow> [])"

definition firstNonEmptyString :: "string list \<Rightarrow> string" where
  "firstNonEmptyString values = (case List.find (\<lambda>v. trim_space v \<noteq> '''') values of None \<Rightarrow> '''' | Some v \<Rightarrow> v)"

definition resourceSelectionPayload :: "gomap \<Rightarrow> ResourceSelection" where
  "resourceSelectionPayload payload = (case mget payload ''resourceSelection'' of
     AMap raw \<Rightarrow> \<lparr>rsel_Mode = firstNonEmptyString [stringPayload raw ''mode'', ''all''],
       rsel_NamespaceScoped = stringSlicePayload raw ''namespaceScoped'',
       rsel_ClusterScoped = stringSlicePayload raw ''clusterScoped''\<rparr>
   | _ \<Rightarrow> \<lparr>rsel_Mode = ''all'', rsel_NamespaceScoped = [], rsel_ClusterScoped = []\<rparr>)"

text \<open>
  \<^verbatim>\<open>json.Unmarshal\<close> into a selector: null leaves the zero value, a value of another type is an error. Members
  are looked up by their exact names, which is how the platform writes them.
\<close>

definition empty_selector :: LabelSelector where
  "empty_selector = \<lparr>ls_MatchLabels = [], ls_MatchExpressions = []\<rparr>"

definition dec_text :: "any \<Rightarrow> string option" where
  "dec_text v = (case v of AStr s \<Rightarrow> Some s | ANil \<Rightarrow> Some '''' | _ \<Rightarrow> None)"

fun dec_all :: "(any \<Rightarrow> 'a option) \<Rightarrow> any list \<Rightarrow> 'a list option" where
  "dec_all f [] = Some []"
| "dec_all f (v # vs) = (case f v of None \<Rightarrow> None | Some a \<Rightarrow> map_option (Cons a) (dec_all f vs))"

definition dec_texts :: "any \<Rightarrow> string list option" where
  "dec_texts v = (case v of ASlice vs \<Rightarrow> dec_all dec_text vs | ANil \<Rightarrow> Some [] | _ \<Rightarrow> None)"

definition dec_expression :: "any \<Rightarrow> LabelSelectorExpression option" where
  "dec_expression v = (case v of ANil \<Rightarrow> Some \<lparr>lse_Key = '''', lse_Operator = '''', lse_Values = []\<rparr>
     | AMap m \<Rightarrow> (case (dec_text (mget m ''key''), dec_text (mget m ''operator''), dec_texts (mget m ''values'')) of
         (Some k, Some oper, Some vs) \<Rightarrow> Some \<lparr>lse_Key = k, lse_Operator = oper, lse_Values = vs\<rparr> | _ \<Rightarrow> None)
     | _ \<Rightarrow> None)"

definition dec_labels :: "any \<Rightarrow> (string \<times> string) list option" where
  "dec_labels v = (case v of AMap m \<Rightarrow> map_option (zip (map fst m)) (dec_all dec_text (map snd m))
     | ANil \<Rightarrow> Some [] | _ \<Rightarrow> None)"

definition dec_selector :: "any \<Rightarrow> LabelSelector option" where
  "dec_selector v = (case v of ANil \<Rightarrow> Some empty_selector
     | AMap m \<Rightarrow> (case (dec_labels (mget m ''matchLabels''),
           (case mget m ''matchExpressions'' of ASlice vs \<Rightarrow> dec_all dec_expression vs | ANil \<Rightarrow> Some [] | _ \<Rightarrow> None)) of
         (Some labels, Some exprs) \<Rightarrow> Some \<lparr>ls_MatchLabels = labels, ls_MatchExpressions = exprs\<rparr> | _ \<Rightarrow> None)
     | _ \<Rightarrow> None)"

definition labelSelectorPayload :: "gomap \<Rightarrow> LabelSelector" where
  "labelSelectorPayload payload =
     (case dec_selector (json_value (mget payload ''labelSelector'')) of None \<Rightarrow> empty_selector | Some s \<Rightarrow> s)"

definition stringMapPayload :: "gomap \<Rightarrow> string \<Rightarrow> (string \<times> string) list" where
  "stringMapPayload payload key = (case mget payload key of
     AMap raw \<Rightarrow> List.map_filter (\<lambda>(k, v). map_option (Pair k) (nonempty_str v)) raw
   | AStrMap typed \<Rightarrow> typed
   | _ \<Rightarrow> [])"

definition intMapPayload :: "gomap \<Rightarrow> string \<Rightarrow> (string \<times> int) list" where
  "intMapPayload payload key = (case mget payload key of
     AIntMap typed \<Rightarrow> typed
   | AMap raw \<Rightarrow> List.map_filter (\<lambda>(k, v). case v of ANum n \<Rightarrow> Some (k, n) | _ \<Rightarrow> None) raw
   | _ \<Rightarrow> [])"

section \<open>Commands\<close>

record RetentionRestorePoint =
  rrp_ID :: string
  rrp_VeleroBackupName :: string
  rrp_Namespace :: string

record RetentionCleanupCommand =
  rcc_PlanID :: string
  rcc_RestorePoints :: "RetentionRestorePoint list"

record ProtectionCleanupCommand =
  pcc_PlanID :: string
  pcc_CleanupMode :: string
  pcc_ScheduleName :: string
  pcc_BackupNamePrefix :: string
  pcc_Namespace :: string
  pcc_SourceNamespaces :: "string list"
  pcc_StorageRepo :: string
  pcc_CleanupObjectStorage :: bool
  pcc_RestorePoints :: "RetentionRestorePoint list"
  pcc_RestoreNames :: "string list"
  pcc_DrillNamespaces :: "string list"

record ControlPlaneHandoverCommand =
  cph_Action :: string
  cph_MigrationID :: string
  cph_TargetEndpoint :: string
  cph_TargetInstallToken :: string
  cph_RollbackDeadline :: gtime

record BackupCancelCommand =
  bcc_PlanID :: string
  bcc_TargetTaskID :: string
  bcc_VeleroBackupName :: string
  bcc_Reason :: string

definition retention_point :: "any \<Rightarrow> RetentionRestorePoint option" where
  "retention_point v = (case v of
     AMap m \<Rightarrow> (let point = \<lparr>rrp_ID = stringPayload m ''id'', rrp_VeleroBackupName = stringPayload m ''veleroBackupName'',
         rrp_Namespace = stringPayload m ''namespace''\<rparr>
       in if rrp_ID point \<noteq> '''' \<and> rrp_VeleroBackupName point \<noteq> '''' then Some point else None)
   | _ \<Rightarrow> None)"

text \<open>The typed slices of the source are slices of objects here.\<close>

definition retentionRestorePointsFromAny :: "any \<Rightarrow> RetentionRestorePoint list" where
  "retentionRestorePointsFromAny raw = (case raw of ASlice values \<Rightarrow> List.map_filter retention_point values | _ \<Rightarrow> [])"

definition retentionCleanupCommandFromPayload :: "gomap \<Rightarrow> RetentionCleanupCommand" where
  "retentionCleanupCommandFromPayload payload = \<lparr>rcc_PlanID = stringPayload payload ''planId'',
     rcc_RestorePoints = retentionRestorePointsFromAny (mget payload ''restorePoints'')\<rparr>"

definition protectionCleanupCommandFromPayload :: "gomap \<Rightarrow> ProtectionCleanupCommand" where
  "protectionCleanupCommandFromPayload payload = \<lparr>pcc_PlanID = stringPayload payload ''planId'',
     pcc_CleanupMode = stringPayload payload ''cleanupMode'', pcc_ScheduleName = stringPayload payload ''scheduleName'',
     pcc_BackupNamePrefix = stringPayload payload ''backupNamePrefix'', pcc_Namespace = stringPayload payload ''namespace'',
     pcc_SourceNamespaces = stringSlicePayload payload ''sourceNamespaces'', pcc_StorageRepo = stringPayload payload ''storageRepo'',
     pcc_CleanupObjectStorage = boolPayload payload ''cleanupObjectStorage'',
     pcc_RestorePoints = retentionRestorePointsFromAny (mget payload ''restorePoints''),
     pcc_RestoreNames = stringSlicePayload payload ''restoreNames'',
     pcc_DrillNamespaces = stringSlicePayload payload ''drillNamespaces''\<rparr>"

definition exclude_rule :: "any \<Rightarrow> ExcludeRule option" where
  "exclude_rule v = (case v of
     AMap m \<Rightarrow> (let rule = \<lparr>er_Group = stringPayload m ''group'', er_Resource = stringPayload m ''resource'',
         er_Name = stringPayload m ''name'', er_Version = stringPayload m ''version'', er_Labels = stringPayload m ''labels''\<rparr>
       in if er_Group rule = '''' \<and> er_Resource rule = '''' \<and> er_Name rule = '''' \<and> er_Version rule = '''' \<and> er_Labels rule = ''''
          then None else Some rule)
   | _ \<Rightarrow> None)"

definition excludeRulesPayload :: "gomap \<Rightarrow> ExcludeRule list" where
  "excludeRulesPayload payload = (case mget payload ''excludeRules'' of ASlice raw \<Rightarrow> List.map_filter exclude_rule raw | _ \<Rightarrow> [])"

definition defaultExcludedResources :: "string \<Rightarrow> ExcludeRule list" where
  "defaultExcludedResources sourceNamespace = []"

definition defaultExcludedResourcesForNamespaces :: "string list \<Rightarrow> ExcludeRule list" where
  "defaultExcludedResourcesForNamespaces sourceNamespaces =
     foldl (\<lambda>rules rule. if rule \<in> set rules then rules else rules @ [rule]) []
       (concat (map defaultExcludedResources sourceNamespaces))"

definition schedule_repo_name :: "store_db \<Rightarrow> gomap \<Rightarrow> store_error + string" where
  "schedule_repo_name db payload =
     (let repoName = stringPayload payload ''storageRepo''; repoID = stringPayload payload ''storageRepoId'' in
      if repoName \<noteq> '''' \<or> repoID = '''' then Inr repoName
      else (case find_row ow_ID repoID (db_repositories db) of
          None \<Rightarrow> Inl (Errorf ''storage repository not found'') | Some repo \<Rightarrow> Inr (sr_Name repo)))"

definition scheduleSyncCommandFromPayload :: "store_db \<Rightarrow> gomap \<Rightarrow> store_error + ScheduleSyncCommand" where
  "scheduleSyncCommandFromPayload db payload =
     res_bind (schedule_repo_name db payload) (\<lambda>repoName.
     let sourceNamespace = stringPayload payload ''sourceNamespace'';
         sourceNamespaces = source_namespaces (stringSlicePayload payload ''sourceNamespaces'') sourceNamespace;
         excludeRules = defaultExcludedResourcesForNamespaces sourceNamespaces @ excludeRulesPayload payload
     in Inr \<lparr>sc_PlanID = stringPayload payload ''planId'', sc_ScheduleName = stringPayload payload ''scheduleName'',
       sc_Cron = stringPayload payload ''cron'', sc_SourceNamespace = sourceNamespace, sc_SourceNamespaces = sourceNamespaces,
       sc_Scope = stringPayload payload ''scope'', sc_IncludedResources = stringSlicePayload payload ''includedResources'',
       sc_LabelSelector = '''', sc_Selector = labelSelectorPayload payload, sc_StorageRepo = repoName,
       sc_IncludeClusterResources = boolPayload payload ''includeClusterResources'', sc_ExcludeResources = excludeRules,
       sc_ResourceSelection = resourceSelectionPayload payload\<rparr>)"

text \<open>The commands \<^verbatim>\<open>buildStoredTaskDispatch\<close> builds in its branches for backups, cancellations and recoveries.\<close>

definition backup_command :: "Task \<Rightarrow> BackupCommand" where
  "backup_command task =
     (let payload = t_Payload task; sourceNamespace = stringPayload payload ''sourceNamespace'';
          sourceNamespaces = source_namespaces (stringSlicePayload payload ''sourceNamespaces'') sourceNamespace
      in \<lparr>bc_PlanID = t_ProtectionPlanID task, bc_Trigger = firstNonEmptyString [stringPayload payload ''trigger'', ''manual''],
        bc_SourceClusterID = t_ClusterID task, bc_SourceNamespace = sourceNamespace, bc_SourceNamespaces = sourceNamespaces,
        bc_VeleroBackupName = stringPayload payload ''veleroBackupName'', bc_Scope = stringPayload payload ''scope'',
        bc_IncludedResources = stringSlicePayload payload ''includedResources'', bc_LabelSelector = labelSelectorPayload payload,
        bc_StorageRepo = stringPayload payload ''storageRepo'',
        bc_IncludeClusterResources = boolPayload payload ''includeClusterResources'',
        bc_ExcludedResources = stringSlicePayload payload ''excludedResources'',
        bc_ResourceSelection = resourceSelectionPayload payload\<rparr>)"

definition backup_cancel_command :: "Task \<Rightarrow> build_error + BackupCancelCommand" where
  "backup_cancel_command task =
     (let payload = t_Payload task; targetTaskID = stringPayload payload ''targetTaskId'' in
      if targetTaskID = '''' then Inl (BuildError ''backup cancel target task id is required'')
      else Inr \<lparr>bcc_PlanID = firstNonEmptyString [stringPayload payload ''planId'', t_ProtectionPlanID task],
        bcc_TargetTaskID = targetTaskID, bcc_VeleroBackupName = stringPayload payload ''veleroBackupName'',
        bcc_Reason = firstNonEmptyString [stringPayload payload ''reason'', ''user_requested'']\<rparr>)"

definition restore_command :: "Task \<Rightarrow> RestoreCommand" where
  "restore_command task =
     (let payload = t_Payload task; sourceNamespace = stringPayload payload ''sourceNamespace'';
          sourceNamespaces = source_namespaces (stringSlicePayload payload ''sourceNamespaces'') sourceNamespace
      in \<lparr>rc_RestorePointID = stringPayload payload ''restorePointId'', rc_VeleroBackupName = stringPayload payload ''veleroBackupName'',
        rc_StorageRepo = stringPayload payload ''storageRepo'', rc_SourceNamespace = sourceNamespace,
        rc_SourceNamespaces = sourceNamespaces, rc_TargetNamespace = stringPayload payload ''targetNamespace'',
        rc_TargetNamespaces = stringMapPayload payload ''targetNamespaces'', rc_TargetMode = stringPayload payload ''targetMode'',
        rc_RestoreMode = stringPayload payload ''restoreMode'', rc_ArtifactMode = stringPayload payload ''artifactMode'',
        rc_ConflictPolicy = stringPayload payload ''conflictPolicy'',
        rc_IncludeClusterScoped = boolPayload payload ''includeClusterScoped'', rc_UseTransforms = boolPayload payload ''useTransforms'',
        rc_TransformPreset = stringPayload payload ''transformPreset'',
        rc_StorageProfileMode = stringPayload payload ''storageProfileMode'',
        rc_AlternateProfileID = stringPayload payload ''alternateProfileId'',
        rc_IncludedResources = stringSlicePayload payload ''includedResources'',
        rc_ExcludedResources = stringSlicePayload payload ''excludedResources'',
        rc_StorageClassMappings = stringMapPayload payload ''storageClassMappings'',
        rc_ImageMappings = stringMapPayload payload ''imageMappings'',
        rc_ServiceNodePortMappings = intMapPayload payload ''serviceNodePortMappings'',
        rc_WaitForWorkloads = boolPayload payload ''waitForWorkloads'', rc_RunValidation = boolPayload payload ''runValidation'',
        rc_ForceStart = boolPayload payload ''forceStart'', rc_ContentCatalogLoaded = boolPayload payload ''contentCatalogLoaded'',
        rc_PersistentDataExpected = boolPayload payload ''persistentDataExpected'',
        rc_ReadinessExpectationsKnown = boolPayload payload ''readinessExpectationsKnown'',
        rc_RuntimeWorkloadsExpected = boolPayload payload ''runtimeWorkloadsExpected'',
        rc_ExpectedPVCs = stringSlicePayload payload ''expectedPvcs''\<rparr>)"

definition retention_command :: "Task \<Rightarrow> build_error + RetentionCleanupCommand" where
  "retention_command task =
     (let command = retentionCleanupCommandFromPayload (t_Payload task) in
      if rcc_RestorePoints command = [] then Inl (BuildError ''retention cleanup has no restore points'') else Inr command)"

definition protection_command :: "Task \<Rightarrow> build_error + ProtectionCleanupCommand" where
  "protection_command task =
     (let command = protectionCleanupCommandFromPayload (t_Payload task) in
      if pcc_PlanID command = '''' then Inl (BuildError ''protection cleanup plan id is required'') else Inr command)"

definition handover_command :: "Task \<Rightarrow> build_error + ControlPlaneHandoverCommand" where
  "handover_command task = (let payload = t_Payload task in
     (case parse_rfc3339nano (stringPayload payload ''rollbackDeadline'') of
        None \<Rightarrow> Inl (BuildError ''control-plane handover rollback deadline is invalid'')
      | Some rollbackDeadline \<Rightarrow>
          let command = \<lparr>cph_Action = stringPayload payload ''action'', cph_MigrationID = stringPayload payload ''migrationId'',
            cph_TargetEndpoint = stringPayload payload ''targetEndpoint'',
            cph_TargetInstallToken = stringPayload payload ''targetInstallToken'', cph_RollbackDeadline = rollbackDeadline\<rparr>
          in if cph_Action command = '''' \<or> cph_MigrationID command = ''''
             then Inl (BuildError ''control-plane handover action and migration ID are required'') else Inr command))"

text \<open>The agent's side of a backup (\<^verbatim>\<open>executor/backup.go\<close>): what the executor hands to the builder.\<close>

definition executor_backup :: "gtime \<Rightarrow> string \<Rightarrow> string \<Rightarrow> string \<Rightarrow> BackupCommand option \<Rightarrow> build_error + BackupManifest" where
  "executor_backup now agentNamespace taskID commandID backup = (case backup of
     None \<Rightarrow> Inl (BuildError ''backup command is required'')
   | Some command \<Rightarrow> BuildBackupManifest now \<lparr>bi_TaskID = taskID, bi_CommandID = commandID, bi_SourceClusterID = '''',
       bi_AgentNamespace = agentNamespace, bi_Command = command\<rparr>)"

section \<open>Reading back what was written\<close>

definition clean :: "string list \<Rightarrow> string list" where
  "clean xs = filter (\<lambda>s. s \<noteq> '''') xs"

lemma slice_strs: "List.map_filter nonempty_str (map AStr xs) = clean xs"
  by (induction xs) (auto simp: clean_def nonempty_str_def List.map_filter_simps)



lemma json_nonempty_strs: "json_object (nonempty_strs k xs) = (if xs = [] then [] else [(k, ASlice (map AStr xs))])"
  by (simp add: nonempty_strs_def json_object_def)

lemma json_object_append: "json_object (a @ b) = json_object a @ json_object b"
  by (simp add: json_object_def)

lemma mget_append: "mget (a @ b) k = (if k \<in> fst ` set a then mget a k else mget b k)"
proof (induction a)
  case (Cons kv a)
  then show ?case by (cases kv) force
qed simp

lemma selection_read:
  "resourceSelectionPayload (json_object [(''resourceSelection'', resource_selection_json r)]) =
     \<lparr>rsel_Mode = firstNonEmptyString [rsel_Mode r, ''all''], rsel_NamespaceScoped = clean (rsel_NamespaceScoped r),
      rsel_ClusterScoped = clean (rsel_ClusterScoped r)\<rparr>"
  by (simp add: resourceSelectionPayload_def resource_selection_json_def json_value_map json_object_append json_nonempty_strs
      stringPayload_def any_str_def stringSlicePayload_def mget_append slice_strs clean_def del: json_value.simps(6))

lemma dec_all_texts: "dec_all dec_text (map AStr xs) = Some xs"
  by (induction xs) (simp_all add: dec_text_def)

lemma expression_read:
  "dec_expression (json_value (AMap ([(''key'', AStr (lse_Key e)), (''operator'', AStr (lse_Operator e))] @ nonempty_strs ''values'' (lse_Values e)))) = Some e"
  by (simp add: dec_expression_def json_value_map json_object_append json_nonempty_strs dec_text_def dec_texts_def
      dec_all_texts del: json_value.simps(6))

lemma expressions_read:
  "dec_all dec_expression (map (\<lambda>e. json_value (AMap ([(''key'', AStr (lse_Key e)), (''operator'', AStr (lse_Operator e))] @
     nonempty_strs ''values'' (lse_Values e)))) es) = Some es"
  by (induction es) (simp_all add: expression_read [unfolded append_Cons append_Nil] del: json_value.simps(6))

lemma labels_read: "dec_labels (json_value (AStrMap m)) = Some m"
proof -
  have "map snd (map (\<lambda>(k, s). (k, AStr s)) m) = map AStr (map snd m)" "map fst (map (\<lambda>(k, s). (k, AStr s)) m) = map fst m"
    by (auto simp: split_beta)
  then show ?thesis by (simp only: dec_labels_def json_value.simps any.case dec_all_texts option.map zip_map_fst_snd)
qed

lemma selector_read: "dec_selector (json_value (label_selector_json s)) = Some s"
proof -
  have none: "dec_labels ANil = Some []" by (simp add: dec_labels_def)
  show ?thesis
    using expressions_read [of "ls_MatchExpressions s"] labels_read [of "ls_MatchLabels s"] none
    by (cases "ls_MatchLabels s = []"; cases "ls_MatchExpressions s = []")
      (simp_all add: dec_selector_def label_selector_json_def json_value_map comp_def del: json_value.simps(3,6))
qed

text \<open>The command for a request; \<open>keep\<close> is what is read back of a list.\<close>

definition request_command :: "(string list \<Rightarrow> string list) \<Rightarrow> Task \<Rightarrow> backupTaskRequest \<Rightarrow> string \<Rightarrow> BackupCommand" where
  "request_command keep task body name = \<lparr>bc_PlanID = t_ProtectionPlanID task,
    bc_Trigger = firstNonEmptyString [br_Trigger body, ''manual''],
    bc_SourceClusterID = t_ClusterID task, bc_SourceNamespace = br_SourceNamespace body,
    bc_SourceNamespaces = source_namespaces (keep (br_SourceNamespaces body)) (br_SourceNamespace body),
    bc_VeleroBackupName = name, bc_Scope = br_Scope body, bc_IncludedResources = keep (br_IncludedResources body),
    bc_LabelSelector = br_LabelSelector body, bc_StorageRepo = br_StorageRepo body,
    bc_IncludeClusterResources = br_IncludeClusterResources body, bc_ExcludedResources = keep (br_ExcludedResources body),
    bc_ResourceSelection = \<lparr>rsel_Mode = firstNonEmptyString [rsel_Mode (br_ResourceSelection body), ''all''],
      rsel_NamespaceScoped = keep (rsel_NamespaceScoped (br_ResourceSelection body)),
      rsel_ClusterScoped = keep (rsel_ClusterScoped (br_ResourceSelection body))\<rparr>\<rparr>"

lemma stored_command:
  assumes "t_Payload task = json_object (backup_payload body name)"
  shows "backup_command task = request_command clean task body name"
proof -
  note get = mget_json_object
  have sel: "resourceSelectionPayload (json_object (backup_payload body name)) =
      resourceSelectionPayload (json_object [(''resourceSelection'', resource_selection_json (br_ResourceSelection body))])"
    by (simp add: resourceSelectionPayload_def get backup_payload_def)
  have lab: "labelSelectorPayload (json_object (backup_payload body name)) = br_LabelSelector body"
    by (simp add: labelSelectorPayload_def get backup_payload_def json_value_idem selector_read)
  show ?thesis unfolding backup_command_def request_command_def Let_def assms sel selection_read lab
    by (simp add: get backup_payload_def stringPayload_def boolPayload_def any_str_def any_bool_def stringSlicePayload_def
        slice_strs)
qed

lemma fresh_selection:
  "resourceSelectionPayload [(''resourceSelection'', resource_selection_json r)] =
     \<lparr>rsel_Mode = firstNonEmptyString [rsel_Mode r, ''all''], rsel_NamespaceScoped = rsel_NamespaceScoped r,
      rsel_ClusterScoped = rsel_ClusterScoped r\<rparr>"
  by (simp add: resourceSelectionPayload_def resource_selection_json_def nonempty_strs_def
      stringPayload_def any_str_def stringSlicePayload_def mget_append)

lemma fresh_command:
  assumes "t_Payload task = backup_payload body name"
  shows "backup_command task = request_command id task body name"
proof -
  have sel: "resourceSelectionPayload (backup_payload body name) =
      resourceSelectionPayload [(''resourceSelection'', resource_selection_json (br_ResourceSelection body))]"
    by (simp add: resourceSelectionPayload_def backup_payload_def)
  have lab: "labelSelectorPayload (backup_payload body name) = br_LabelSelector body"
    by (simp add: labelSelectorPayload_def backup_payload_def selector_read)
  show ?thesis unfolding backup_command_def request_command_def Let_def assms sel fresh_selection lab
    by (simp add: backup_payload_def stringPayload_def boolPayload_def any_str_def any_bool_def stringSlicePayload_def)
qed

text \<open>C24: Nothing of a backup request is lost between the handler that creates it and the command sent to the
  agent. From the payload as the handler built it the dispatcher reads the namespaces, resources, label
  selector, selection, storage location, flags and name of the request, with the defaults for trigger and
  mode; from the payload as the store returns it the same less empty strings.\<close>

theorem backup_command_roundtrip:
  "backup_command (task\<lparr>t_Payload := backup_payload body name\<rparr>) = request_command id task body name \<and>
   backup_command (task\<lparr>t_Payload := json_object (backup_payload body name)\<rparr>) = request_command clean task body name"
proof -
  have "request_command keep (task\<lparr>t_Payload := p\<rparr>) body name = request_command keep task body name" for keep p
    by (simp add: request_command_def)
  then show ?thesis
    using fresh_command [of "task\<lparr>t_Payload := backup_payload body name\<rparr>" body name]
      stored_command [of "task\<lparr>t_Payload := json_object (backup_payload body name)\<rparr>" body name] by simp
qed

section \<open>From a plan to a Velero backup\<close>

lemma reserved_task_payload:
  assumes "(if b then reserve_for_task L now db task else Inr (db, task)) = Inr (db', task')"
  shows "t_Payload task' = t_Payload task" "t_ClusterID task' = t_ClusterID task" "t_CommandID task' = t_CommandID task"
  using assms
  by (auto simp: reserve_for_task_def res_bind_Inr_iff fail_over_quota_def Let_def
      split: sum.splits store_error.splits if_splits)

lemma created_backup:
  assumes "CreateTask L newID now db (backup_task_input body appID commandID name) = (db', Inr task)"
  shows "t_Payload task = backup_payload body name" "t_ClusterID task = br_ClusterID body" "t_CommandID task = commandID"
    "t_ProtectionPlanID task = br_ProtectionPlanID body" "t_ID task = newID"
proof -
  let ?i = "task_defaults (backup_task_input body appID commandID name)"
  have ty: "ti_Type ?i = ''backup''" "ti_CommandID ?i = commandID" by (simp_all add: task_defaults_def backup_task_input_def)
  from assms have "create_task_tx L newID now db ?i = Inr (db', task)" by (simp add: CreateTask_Inr)
  then obtain tenantID payload d1 d2 where lock: "lock_recovery_point db ?i tenantID = Inr payload"
    and res: "(if ti_ProtectionPlanID ?i \<noteq> '''' \<and> \<not> ti_SuppressLatestPointer ?i
      then reserve_for_task L now d1 (new_task newID now tenantID ?i payload)
      else Inr (d1, new_task newID now tenantID ?i payload)) = Inr (d2, task)"
    by (rule create_task_cases)
  have "payload = ti_Payload ?i" using lock ty by (simp add: lock_recovery_point_def Let_def recovery_type_def)
  then show "t_Payload task = backup_payload body name" "t_ClusterID task = br_ClusterID body" "t_CommandID task = commandID"
    "t_ProtectionPlanID task = br_ProtectionPlanID body" "t_ID task = newID"
    using reserved_task_payload [OF res] created_task_fields [OF res] ty
    by (simp_all add: new_task_def backup_task_input_def)
qed

lemma resolved_nonempty:
  "'''' \<notin> set (fst acc) \<Longrightarrow> '''' \<notin> set (fst (foldl (resolve_app db) acc xs))"
proof (induction xs arbitrary: acc)
  case (Cons x xs)
  have "'''' \<notin> set (fst (resolve_app db acc x))"
    using Cons.prems by (cases acc) (auto simp: resolve_app_def split: option.splits)
  then show ?case using Cons.IH by simp
qed simp

lemma plan_namespaces:
  assumes "planSourceNamespaces db plan = Inr (nss, apps)"
  shows "nss \<noteq> []" "'''' \<notin> set nss" "clean nss = nss"
proof -
  let ?ids = "if pl_AppIDs plan = [] \<and> pl_AppID plan \<noteq> '''' then [pl_AppID plan] else pl_AppIDs plan"
  have n: "nss \<noteq> [] \<and> nss = fst (foldl (resolve_app db) ([], []) ?ids)"
    using assms by (cases "foldl (resolve_app db) ([], []) ?ids") (auto simp: planSourceNamespaces_def Let_def split: if_splits)
  show "nss \<noteq> []" by (rule n [THEN conjunct1])
  show e: "'''' \<notin> set nss" using n resolved_nonempty [of "([], [])" db ?ids] by simp
  show "clean nss = nss" unfolding clean_def by (rule filter_True) (use e in blast)
qed

lemma scheduled_task:
  assumes "createScheduledBackupTask L taskID commandID eventID clock db plan policy now = (db', Inr task)"
  obtains nss apps repo body where "planSourceNamespaces db plan = Inr (nss, apps)"
    "find_row ow_ID (pl_StorageRepoID plan) (db_repositories db) = Some repo"
    "body = scheduled_request plan nss apps (storageDomainBSLName (sr_Name repo) (pl_SourceClusterID plan))"
    "t_Payload task = backup_payload body (backupNameForPlan clock (pl_ID plan) commandID ''scheduled'')"
    "t_ClusterID task = pl_SourceClusterID plan" "t_CommandID task = commandID" "t_ID task = taskID"
    "t_ProtectionPlanID task = pl_ID plan"
proof -
  obtain nss apps repo where a: "planSourceNamespaces db plan = Inr (nss, apps)"
    "find_row ow_ID (pl_StorageRepoID plan) (db_repositories db) = Some repo"
    using assms by (auto simp: createScheduledBackupTask_def split: sum.splits option.splits)
  define body where "body = scheduled_request plan nss apps (storageDomainBSLName (sr_Name repo) (pl_SourceClusterID plan))"
  have f: "br_ProtectionPlanID body = pl_ID plan" "br_Trigger body = ''scheduled''" "br_ClusterID body = pl_SourceClusterID plan"
    by (simp_all add: body_def scheduled_request_def)
  obtain d where "createPendingBackupTask L taskID commandID clock db body (br_AppID body) = (d, Inr task)"
    using assms a by (auto simp: createScheduledBackupTask_def body_def Let_def split: prod.splits sum.splits)
  then obtain appID where "CreateTask L taskID clock db (backup_task_input body appID commandID
      (backupNameForPlan clock (pl_ID plan) commandID ''scheduled'')) = (d, Inr task)"
    by (auto simp: createPendingBackupTask_def f split: sum.splits)
  from created_backup [OF this] a body_def f show ?thesis by (intro that) simp_all
qed

lemma backup_name_nonempty: "backupNameForPlan now planID runID trigger \<noteq> ''''"
proof -
  define name where "name = full_name now planID runID trigger"
  have h: "name = CHR ''h'' # tl name" by (simp add: name_def full_name_def scheduleNameForPlan_def)
  then have "hd name \<in> set (take 63 name)" "hd name \<noteq> dash" by (cases name; simp add: dash_def)+
  then show ?thesis using trim_dashes_nonempty h
    by (metis backup_name_full list.distinct(1) name_def)
qed

lemma location_name_kept:
  assumes "length (sanitizeKubernetesName (trim_space clusterID)) \<le> 61"
    and "BuildBackupStorageLocationManifest input = Inr location" "sy_Name (tb_Command input) = storageDomainBSLName repoName clusterID"
  shows "mm_Name (lm_Metadata location) = storageDomainBSLName repoName clusterID"
proof -
  have "good_name (storageDomainBSLName repoName clusterID)"
    using bsl_name_valid [OF assms(1), of repoName] by (simp add: valid_label_iff)
  then show ?thesis using assms(2,3) sanitizeName_id
    by (auto simp: BuildBackupStorageLocationManifest_def Let_def split: if_splits)
qed

lemma command_manifest:
  assumes "backup_command task = request_command keep task body name" "keep nss = nss" "br_SourceNamespaces body = nss"
    and "nss \<noteq> []" "name \<noteq> ''''" "default_agent_namespace agentNamespace \<notin> set nss" "br_IncludeClusterResources body = False"
  shows "\<exists>m. executor_backup at agentNamespace taskID commandID (Some (backup_command task)) = Inr m \<and>
    mm_Name (bm_Metadata m) = name \<and> acceptable (bm_Metadata m) (bm_Spec m) \<and> bs_IncludedNamespaces (bm_Spec m) = nss \<and>
    bs_StorageLocation (bm_Spec m) = br_StorageRepo body \<and> bs_IncludeClusterResources (bm_Spec m) \<noteq> Some True \<and>
    bs_LabelSelector (bm_Spec m) = (if has_selector (br_LabelSelector body) then Some (br_LabelSelector body) else None)"
proof -
  define bi where "bi = \<lparr>bi_TaskID = taskID, bi_CommandID = commandID, bi_SourceClusterID = '''',
    bi_AgentNamespace = agentNamespace, bi_Command = backup_command task\<rparr>"
  have cmd: "bi_Command bi = request_command keep task body name" using assms(1) by (simp add: bi_def)
  have ns: "source_namespaces (bc_SourceNamespaces (bi_Command bi)) (bc_SourceNamespace (bi_Command bi)) = nss"
    using assms(2-4) by (simp add: cmd request_command_def source_namespaces_def)
  have fields: "bc_VeleroBackupName (bi_Command bi) = name" "bc_StorageRepo (bi_Command bi) = br_StorageRepo body"
    "bc_IncludeClusterResources (bi_Command bi) = False" "bc_LabelSelector (bi_Command bi) = br_LabelSelector body"
    using assms(7) by (simp_all add: cmd request_command_def)
  obtain m where m: "BuildBackupManifest at bi = Inr m" "mm_Name (bm_Metadata m) = name"
    using assms(4-6) by (auto simp: BuildBackupManifest_def Let_def ns fields bi_def [THEN arg_cong, of bi_AgentNamespace])
  have spec: "bm_Spec m = backup_spec (bi_Command bi) nss" using backup_built [OF m(1)] by (simp add: ns)
  have "acceptable (bm_Metadata m) (bm_Spec m)"
    using backup_built [OF m(1)] filters_exclusive(1) [of "bi_Command bi"] by (simp add: acceptable_def Let_def)
  moreover have "bs_StorageLocation (bm_Spec m) = br_StorageRepo body" "bs_IncludeClusterResources (bm_Spec m) \<noteq> Some True"
    "bs_LabelSelector (bm_Spec m) = (if has_selector (br_LabelSelector body) then Some (br_LabelSelector body) else None)"
    by (simp_all add: spec backup_spec_def Let_def fields)
  ultimately show ?thesis using m spec unfolding executor_backup_def by (auto simp: bi_def)
qed

text \<open>C10: From a plan to Velero. Once the scheduler has created a task for a plan, the agent builds a backup from it,
  whether it gets the task at once or from the store after a reconnect, unless the plan covers the agent's
  own namespace. The backup has the name the platform expects, covers exactly the namespaces of the plan's
  applications with the plan's label selector, never all cluster resources, is acceptable to Velero, and
  goes to the storage location the agent created for the plan's repository and cluster.\<close>

theorem scheduled_backup_manifest:
  assumes "createScheduledBackupTask L taskID commandID eventID clock db plan policy now = (db', Inr task)"
    and "planSourceNamespaces db plan = Inr (nss, apps)"
    and "find_row ow_ID (pl_StorageRepoID plan) (db_repositories db) = Some repo"
    and "default_agent_namespace agentNamespace \<notin> set nss"
    and "length (sanitizeKubernetesName (trim_space (pl_SourceClusterID plan))) \<le> 61"
    and "BuildBackupStorageLocationManifest input = Inr location"
    and "sy_Name (tb_Command input) = storageDomainBSLName (sr_Name repo) (pl_SourceClusterID plan)"
    and "sent = task \<or> sent = task\<lparr>t_Payload := json_object (t_Payload task)\<rparr>"
  shows "\<exists>m. executor_backup at agentNamespace (t_ID sent) (t_CommandID sent) (Some (backup_command sent)) = Inr m \<and>
    mm_Name (bm_Metadata m) = backupNameForPlan clock (pl_ID plan) commandID ''scheduled'' \<and>
    acceptable (bm_Metadata m) (bm_Spec m) \<and> bs_IncludedNamespaces (bm_Spec m) = nss \<and>
    bs_StorageLocation (bm_Spec m) = mm_Name (lm_Metadata location) \<and>
    bs_IncludeClusterResources (bm_Spec m) \<noteq> Some True \<and>
    bs_LabelSelector (bm_Spec m) = (if has_selector (pl_LabelSelector plan) then Some (pl_LabelSelector plan) else None)"
proof -
  define name where "name = backupNameForPlan clock (pl_ID plan) commandID ''scheduled''"
  define body where "body = scheduled_request plan nss apps (storageDomainBSLName (sr_Name repo) (pl_SourceClusterID plan))"
  have payload: "t_Payload task = backup_payload body name"
    by (rule scheduled_task [OF assms(1)]) (use assms(2,3) in \<open>simp add: body_def name_def\<close>)
  have "\<exists>keep. backup_command sent = request_command keep sent body name \<and> keep nss = nss"
    using assms(8) fresh_command [of sent body name] stored_command [of sent body name] payload plan_namespaces(3) [OF assms(2)]
    by (elim disjE) (auto intro: exI [of _ id] exI [of _ clean])
  moreover have "br_SourceNamespaces body = nss" "br_IncludeClusterResources body = False" "br_LabelSelector body = pl_LabelSelector plan"
    "br_StorageRepo body = mm_Name (lm_Metadata location)"
    using location_name_kept [OF assms(5-7)] by (simp_all add: body_def scheduled_request_def)
  moreover have "name \<noteq> ''''" unfolding name_def by (rule backup_name_nonempty)
  ultimately show ?thesis
    using command_manifest [of sent _ body name nss agentNamespace at "t_ID sent" "t_CommandID sent"]
      plan_namespaces(1) [OF assms(2)] assms(4) by (auto simp: name_def)
qed

definition sent_task :: Task where
  "sent_task = projr (snd (createScheduledBackupTask utc_only ''bt1'' ''cmd-0001'' ''ev1'' 600 sample_db sample_plan sample_policy_row 600))"

definition sample_location :: StorageBuildInput where
  "sample_location = \<lparr>tb_TaskID = ''t1'', tb_CommandID = ''k1'', tb_AgentNamespace = '''',
     tb_Command = \<lparr>sy_RepositoryID = ''s1'', sy_Name = ''main-store-c1'', sy_Type = ''s3'', sy_Endpoint = ''http://minio:9000'',
       sy_Bucket = ''backups'', sy_Region = '''', sy_TLSEnabled = False, sy_SecretRef = '''', sy_Credentials = None, sy_Config = []\<rparr>\<rparr>"

theorem scheduled_backup_manifest_witness:
  "\<exists>m. executor_backup 700 '''' ''bt1'' ''cmd-0001'' (Some (backup_command (sent_task\<lparr>t_Payload := json_object (t_Payload sent_task)\<rparr>))) = Inr m \<and>
    bs_IncludedNamespaces (bm_Spec m) = [''shop''] \<and> bs_StorageLocation (bm_Spec m) = ''main-store-c1''"
proof -
  let ?run = "createScheduledBackupTask utc_only ''bt1'' ''cmd-0001'' ''ev1'' 600 sample_db sample_plan sample_policy_row 600"
  have ok: "\<not> isl (snd ?run)" by code_simp
  have "?run = (fst ?run, snd ?run)" by simp
  also have "snd ?run = Inr sent_task" using ok by (simp add: sent_task_def)
  finally have run: "?run = (fst ?run, Inr sent_task)" .
  have ids: "t_ID sent_task = ''bt1'' \<and> t_CommandID sent_task = ''cmd-0001''" by code_simp
  have nss: "planSourceNamespaces sample_db sample_plan = Inr ([''shop''], [''a1''])" by code_simp
  have repo: "find_row ow_ID (pl_StorageRepoID sample_plan) (db_repositories sample_db) =
    Some \<lparr>ow_ID = ''s1'', ow_TenantID = ''t1'', sr_Name = ''Main Store''\<rparr>" by code_simp
  have agent: "default_agent_namespace '''' \<notin> set [''shop'']" by code_simp
  have len: "length (sanitizeKubernetesName (trim_space (pl_SourceClusterID sample_plan))) \<le> 61" by code_simp
  have "\<not> isl (BuildBackupStorageLocationManifest sample_location)" by code_simp
  then obtain location where loc: "BuildBackupStorageLocationManifest sample_location = Inr location"
    by (cases "BuildBackupStorageLocationManifest sample_location") auto
  have name: "sy_Name (tb_Command sample_location) =
    storageDomainBSLName (sr_Name \<lparr>ow_ID = ''s1'', ow_TenantID = ''t1'', sr_Name = ''Main Store''\<rparr>) (pl_SourceClusterID sample_plan)"
    by code_simp
  have "mm_Name (lm_Metadata location) = ''main-store-c1''"
    using location_name_kept [OF len loc name] name by (simp add: sample_location_def)
  then show ?thesis
    using scheduled_backup_manifest [OF run nss repo agent len loc name disjI2 [OF refl], of 700] ids by auto
qed

end
