(* ===== verification/Object_Storage.thy ===== *)
theory Object_Storage
  imports Kube_Objects
begin

text \<open>
  What the agent does in object storage (\<^verbatim>\<open>kube/backup_object_stats.go\<close> and \<^verbatim>\<open>plan_capacity.go\<close>): it finds the bucket and
  the credentials of a storage location, measures what a plan uses there and deletes the objects of plans
  that are cleaned up. The Kubernetes API and the object store are arguments: \<open>getObject\<close> reads an object by
  resource, namespace and name, \<open>connect\<close> makes a client for a location (its endpoint is not analysed here).
  A client lists the objects of a bucket under a prefix, perhaps breaking off with an error, and removes
  objects, perhaps failing. Buckets are the state. Sizes are integers; their sums stay far below 63 bits.
\<close>

section \<open>Storage locations and credentials\<close>

datatype BucketLookupType = BucketLookupAuto | BucketLookupDNS | BucketLookupPath

record credentialRef =
  cref_Name :: string
  cref_Key :: string

record s3Credentials =
  s3c_AccessKey :: string
  s3c_SecretKey :: string

record backupStorageLocationInfo =
  bsl_Bucket :: string
  bsl_Prefix :: string
  bsl_Endpoint :: string
  bsl_Region :: string
  bsl_Secure :: bool
  bsl_Credential :: credentialRef
  bsl_Provider :: string
  bsl_BucketLookup :: BucketLookupType

definition bucketLookupFromConfig :: "(string \<times> string) list \<Rightarrow> BucketLookupType" where
  "bucketLookupFromConfig config = (case map_of config ''s3ForcePathStyle'' of
     None \<Rightarrow> BucketLookupAuto
   | Some raw \<Rightarrow> let v = to_lower (trim_space raw) in
       if v = ''true'' then BucketLookupPath else if v = ''false'' then BucketLookupDNS else BucketLookupAuto)"

definition readBackupStorageLocation :: "get_object \<Rightarrow> string \<Rightarrow> string \<Rightarrow> kube_error + backupStorageLocationInfo" where
  "readBackupStorageLocation getObject namespace name =
     res_bind (getObject ''backupstoragelocations'' namespace name) (\<lambda>item.
     let config = NestedStringMap item [''spec'', ''config''];
         credentialKey = NestedString item [''spec'', ''credential'', ''key''];
         credentialKey = (if credentialKey = '''' then ''cloud'' else credentialKey);
         endpoint = sget config ''s3Url'';
         endpoint = (if endpoint = '''' then ''https://s3.amazonaws.com'' else endpoint)
     in Inr \<lparr>bsl_Bucket = NestedString item [''spec'', ''objectStorage'', ''bucket''],
       bsl_Prefix = NestedString item [''spec'', ''objectStorage'', ''prefix''], bsl_Endpoint = endpoint,
       bsl_Region = sget config ''region'', bsl_Secure = (\<not> equal_fold (sget config ''insecureSkipTLSVerify'') ''true''),
       bsl_Credential = \<lparr>cref_Name = NestedString item [''spec'', ''credential'', ''name''], cref_Key = credentialKey\<rparr>,
       bsl_Provider = NestedString item [''spec'', ''provider''], bsl_BucketLookup = bucketLookupFromConfig config\<rparr>)"

text \<open>\<^verbatim>\<open>base64.StdEncoding.DecodeString\<close>: line breaks are skipped, the padding is required.\<close>

definition b64_digit :: "char \<Rightarrow> nat option" where
  "b64_digit c = (let n = of_char c :: nat in
     if 65 \<le> n \<and> n \<le> 90 then Some (n - 65) else if 97 \<le> n \<and> n \<le> 122 then Some (n - 71)
     else if 48 \<le> n \<and> n \<le> 57 then Some (n + 4) else if n = 43 then Some 62 else if n = 47 then Some 63 else None)"

definition b64_pad :: char where
  "b64_pad = CHR ''=''"

fun b64_groups :: "string \<Rightarrow> string option" where
  "b64_groups [] = Some []"
| "b64_groups (a # b # c # d # rest) = (case (b64_digit a, b64_digit b) of
     (Some x, Some y) \<Rightarrow>
       if c = b64_pad then (if d = b64_pad \<and> rest = [] then Some [char_of (x * 4 + y div 16)] else None)
       else (case b64_digit c of None \<Rightarrow> None
         | Some z \<Rightarrow>
           if d = b64_pad then (if rest = [] then Some [char_of (x * 4 + y div 16), char_of (y mod 16 * 16 + z div 4)] else None)
           else (case (b64_digit d, b64_groups rest) of
               (Some w, Some out) \<Rightarrow>
                 Some (char_of (x * 4 + y div 16) # char_of (y mod 16 * 16 + z div 4) # char_of (z mod 4 * 64 + w) # out)
             | _ \<Rightarrow> None))
   | _ \<Rightarrow> None)"
| "b64_groups _ = None"

definition newline :: char where
  "newline = char_of (10::nat)"

definition b64_decode :: "string \<Rightarrow> string option" where
  "b64_decode s = b64_groups (filter (\<lambda>c. c \<noteq> newline \<and> c \<noteq> char_of (13::nat)) s)"

text \<open>One line of a credentials file; \<^verbatim>\<open>bufio.Scanner\<close> gives the lines of at most 64 KiB.\<close>

definition credentials_line :: "s3Credentials \<Rightarrow> string \<Rightarrow> s3Credentials" where
  "credentials_line creds text_line =
     (let line = trim_space text_line in
      if line = '''' \<or> has_prefix ''['' line \<or> has_prefix ''#'' line then creds
      else (case cut b64_pad line of None \<Rightarrow> creds
        | Some (key, v) \<Rightarrow>
          if trim_space key = ''aws_access_key_id'' then creds\<lparr>s3c_AccessKey := trim_space v\<rparr>
          else if trim_space key = ''aws_secret_access_key'' then creds\<lparr>s3c_SecretKey := trim_space v\<rparr>
          else creds))"

definition parseAWSCredentialsFile :: "string \<Rightarrow> s3Credentials" where
  "parseAWSCredentialsFile content =
     foldl credentials_line \<lparr>s3c_AccessKey = '''', s3c_SecretKey = ''''\<rparr> (split_on newline content)"

definition readS3Credentials :: "get_object \<Rightarrow> string \<Rightarrow> credentialRef \<Rightarrow> kube_error + s3Credentials" where
  "readS3Credentials getObject namespace ref =
     (if cref_Name ref = '''' then Inl (KubeErrorf ''backup storage location has no credential secret'')
      else res_bind (getObject ''secrets'' namespace (cref_Name ref)) (\<lambda>secret.
        let cloud = sget (NestedStringMap secret [''data'']) (cref_Key ref);
            cloud = (case b64_decode cloud of Some decoded \<Rightarrow> decoded | None \<Rightarrow> cloud);
            cloud = (if cloud = '''' then sget (NestedStringMap secret [''stringData'']) (cref_Key ref) else cloud);
            creds = parseAWSCredentialsFile cloud
        in if s3c_AccessKey creds = '''' \<or> s3c_SecretKey creds = ''''
           then Inl (KubeErrorf (''credential secret '' @ namespace @ ''/'' @ cref_Name ref @
             '' does not contain AWS access key and secret key''))
           else Inr creds))"

section \<open>Keys\<close>

definition slash :: char where
  "slash = CHR ''/''"

text \<open>The prefix of a location with its slash; the parts after it are never empty lists.\<close>

definition root_part :: "string \<Rightarrow> string" where
  "root_part rootPrefix = (let trimmed = trim_slashes rootPrefix in if trimmed = '''' then '''' else trimmed @ [slash])"

definition backupObjectPrefix :: "string \<Rightarrow> string \<Rightarrow> string" where
  "backupObjectPrefix rootPrefix name = root_part rootPrefix @ ''backups'' @ [slash] @ name @ [slash]"

definition backupVolumeInfoKey :: "string \<Rightarrow> string \<Rightarrow> string" where
  "backupVolumeInfoKey rootPrefix name = backupObjectPrefix rootPrefix name @ name @ ''-volumeinfo.json.gz''"

definition restoreResultsKey :: "string \<Rightarrow> string \<Rightarrow> string" where
  "restoreResultsKey rootPrefix name =
     root_part rootPrefix @ ''restores'' @ [slash] @ name @ [slash] @ ''restore-'' @ name @ ''-results.gz''"

definition restoreObjectPrefix :: "string \<Rightarrow> string \<Rightarrow> kube_error + string" where
  "restoreObjectPrefix rootPrefix name =
     (let name = trim_space name in
      if name = '''' \<or> slash \<in> set name \<or> name = ''.'' \<or> name = ''..''
      then Inl (KubeErrorf (''invalid restore name '' @ name))
      else Inr (root_part rootPrefix @ ''restores'' @ [slash] @ name @ [slash]))"

definition kopiaRepositoryPrefix :: "string \<Rightarrow> string \<Rightarrow> string" where
  "kopiaRepositoryPrefix rootPrefix namespace = root_part rootPrefix @ ''kopia'' @ [slash] @ namespace @ [slash]"

section \<open>Buckets\<close>

record bucket_object =
  bo_Key :: string
  bo_Size :: int

text \<open>A client: after how many objects the listing of a prefix fails, if it does, and which removals fail.\<close>

record object_client =
  oc_ListFails :: "string \<Rightarrow> nat option"
  oc_RemoveFails :: "string \<Rightarrow> bool"

type_synonym buckets = "string \<Rightarrow> bucket_object list"
type_synonym connect = "backupStorageLocationInfo \<Rightarrow> s3Credentials \<Rightarrow> kube_error + object_client"

definition ListObjects :: "object_client \<Rightarrow> bucket_object list \<Rightarrow> string \<Rightarrow> (kube_error + bucket_object) list" where
  "ListObjects client objects prefix =
     (let hits = filter (\<lambda>x. has_prefix prefix (bo_Key x)) objects in
      case oc_ListFails client prefix of None \<Rightarrow> map Inr hits
      | Some n \<Rightarrow> map Inr (take n hits) @ [Inl (ApiError ''list'')])"

text \<open>What every operation does first; \<open>what\<close> starts its message for other providers.\<close>

definition open_location ::
  "get_object \<Rightarrow> connect \<Rightarrow> string \<Rightarrow> string \<Rightarrow> string \<Rightarrow> kube_error + backupStorageLocationInfo \<times> object_client" where
  "open_location getObject connect what namespace storageLocation =
     res_bind (readBackupStorageLocation getObject namespace storageLocation) (\<lambda>bsl.
     if bsl_Provider bsl \<noteq> '''' \<and> bsl_Provider bsl \<noteq> ''aws''
     then Inl (KubeErrorf (what @ '' aws-compatible storage, got '' @ bsl_Provider bsl))
     else res_bind (readS3Credentials getObject namespace (bsl_Credential bsl)) (\<lambda>creds.
       res_bind (connect bsl creds) (\<lambda>client. Inr (bsl, client))))"

section \<open>Deleting\<close>

fun remove_listed ::
  "object_client \<Rightarrow> (kube_error + bucket_object) list \<Rightarrow> bucket_object list \<Rightarrow> int \<Rightarrow> bucket_object list \<times> (kube_error + int)" where
  "remove_listed client [] objects removed = (objects, Inr removed)"
| "remove_listed client (Inl e # rest) objects removed = (objects, Inl e)"
| "remove_listed client (Inr x # rest) objects removed =
     (if oc_RemoveFails client (bo_Key x) then (objects, Inl (ApiError ''remove''))
      else remove_listed client rest (filter (\<lambda>y. bo_Key y \<noteq> bo_Key x) objects) (removed + 1))"

definition removed_report :: "string \<Rightarrow> int \<Rightarrow> string" where
  "removed_report prefix removed = prefix @ '' ('' @ show_int removed @ '' objects)''"

definition DeleteBackupObjectsByNamePrefix ::
  "get_object \<Rightarrow> connect \<Rightarrow> buckets \<Rightarrow> string \<Rightarrow> string \<Rightarrow> string \<Rightarrow> buckets \<times> (kube_error + string list)" where
  "DeleteBackupObjectsByNamePrefix getObject connect buckets namespace storageLocation backupNamePrefix =
     (let backupNamePrefix = trim_space backupNamePrefix in
      if trim_space namespace = '''' \<or> trim_space storageLocation = '''' \<or> backupNamePrefix = '''' then (buckets, Inr [])
      else (case open_location getObject connect ''backup object cleanup only supports'' namespace storageLocation of
          Inl e \<Rightarrow> (buckets, Inl e)
        | Inr (bsl, client) \<Rightarrow>
          let prefix = butlast (backupObjectPrefix (bsl_Prefix bsl) backupNamePrefix);
              objects = buckets (bsl_Bucket bsl);
              (objects', r) = remove_listed client (ListObjects client objects prefix) objects 0
          in (buckets(bsl_Bucket bsl := objects'), map_sum id (\<lambda>n. [removed_report prefix n]) r)))"

text \<open>The loop over the prefixes of restores or repositories; a name that is refused ends it.\<close>

fun delete_prefixes ::
  "object_client \<Rightarrow> (kube_error + string) list \<Rightarrow> bucket_object list \<Rightarrow> string list \<Rightarrow>
     bucket_object list \<times> string list \<times> kube_error option" where
  "delete_prefixes client [] objects deleted = (objects, deleted, None)"
| "delete_prefixes client (Inl e # rest) objects deleted = (objects, deleted, Some e)"
| "delete_prefixes client (Inr prefix # rest) objects deleted =
     (case remove_listed client (ListObjects client objects prefix) objects 0 of
        (objects', Inl e) \<Rightarrow> (objects', deleted, Some e)
      | (objects', Inr removed) \<Rightarrow> delete_prefixes client rest objects' (deleted @ [removed_report prefix removed]))"

definition delete_in_location ::
  "kube_error + backupStorageLocationInfo \<times> object_client \<Rightarrow> (string \<Rightarrow> (kube_error + string) list) \<Rightarrow> buckets \<Rightarrow>
     buckets \<times> string list \<times> kube_error option" where
  "delete_in_location location prefixes buckets = (case location of
     Inl e \<Rightarrow> (buckets, [], Some e)
   | Inr (bsl, client) \<Rightarrow>
     (case delete_prefixes client (prefixes (bsl_Prefix bsl)) (buckets (bsl_Bucket bsl)) [] of
        (objects', deleted, err) \<Rightarrow> (buckets(bsl_Bucket bsl := objects'), deleted, err)))"

definition DeleteKopiaRepositories ::
  "get_object \<Rightarrow> connect \<Rightarrow> buckets \<Rightarrow> string \<Rightarrow> string \<Rightarrow> string list \<Rightarrow> buckets \<times> string list \<times> kube_error option" where
  "DeleteKopiaRepositories getObject connect buckets namespace storageLocation repositoryNamespaces =
     (if trim_space namespace = '''' \<or> trim_space storageLocation = '''' then (buckets, [], None)
      else delete_in_location (open_location getObject connect ''kopia repository cleanup only supports'' namespace storageLocation)
        (\<lambda>root. map (\<lambda>ns. Inr (kopiaRepositoryPrefix root ns)) (uniqueNonEmptyStrings repositoryNamespaces)) buckets)"

definition DeleteRestoreObjects ::
  "get_object \<Rightarrow> connect \<Rightarrow> buckets \<Rightarrow> string \<Rightarrow> string \<Rightarrow> string list \<Rightarrow> buckets \<times> string list \<times> kube_error option" where
  "DeleteRestoreObjects getObject connect buckets namespace storageLocation restoreNames =
     (if trim_space namespace = '''' \<or> trim_space storageLocation = '''' then (buckets, [], None)
      else let names = uniqueNonEmptyStrings restoreNames in
        if names = [] then (buckets, [], None)
        else delete_in_location (open_location getObject connect ''restore object cleanup only supports'' namespace storageLocation)
          (\<lambda>root. map (restoreObjectPrefix root) names) buckets)"

section \<open>Measuring\<close>

record BackupObjectStats =
  bos_MetadataPackageBytes :: int
  bos_ObjectCount :: int
  bos_Prefix :: string

record BackupVolumeInfoStats =
  bvi_VolumeBytes :: int
  bvi_VolumeCount :: int
  bvi_Key :: string
  bvi_Accurate :: bool

record PlanObjectStorageStats =
  pos_MetadataBytes :: int
  pos_KopiaBytes :: int
  pos_TotalBytes :: int
  pos_BackupObjectCount :: int
  pos_KopiaObjectCount :: int
  pos_BackupNamePrefix :: string
  pos_BackupPrefix :: string
  pos_KopiaPrefixes :: "string list"
  pos_KopiaNamespaces :: "string list"

definition zero_stats :: PlanObjectStorageStats where
  "zero_stats = \<lparr>pos_MetadataBytes = 0, pos_KopiaBytes = 0, pos_TotalBytes = 0, pos_BackupObjectCount = 0,
     pos_KopiaObjectCount = 0, pos_BackupNamePrefix = '''', pos_BackupPrefix = '''', pos_KopiaPrefixes = [],
     pos_KopiaNamespaces = []\<rparr>"

text \<open>The bytes and the number of listed objects, or the error that ended the listing.\<close>

fun measure_listed :: "(kube_error + bucket_object) list \<Rightarrow> int \<times> int \<Rightarrow> kube_error + int \<times> int" where
  "measure_listed [] acc = Inr acc"
| "measure_listed (Inl e # rest) acc = Inl e"
| "measure_listed (Inr x # rest) (bytes, n) = measure_listed rest (bytes + bo_Size x, n + 1)"

definition GetBackupObjectStats ::
  "get_object \<Rightarrow> connect \<Rightarrow> buckets \<Rightarrow> string \<Rightarrow> string \<Rightarrow> string \<Rightarrow> kube_error + BackupObjectStats" where
  "GetBackupObjectStats getObject connect buckets namespace storageLocation name =
     (if trim_space namespace = '''' \<or> trim_space storageLocation = '''' \<or> trim_space name = ''''
      then Inr \<lparr>bos_MetadataPackageBytes = 0, bos_ObjectCount = 0, bos_Prefix = ''''\<rparr>
      else res_bind (open_location getObject connect ''backup object stats only support'' namespace storageLocation) (\<lambda>(bsl, client).
        let prefix = backupObjectPrefix (bsl_Prefix bsl) name in
        res_bind (measure_listed (ListObjects client (buckets (bsl_Bucket bsl)) prefix) (0, 0)) (\<lambda>(bytes, n).
        Inr \<lparr>bos_MetadataPackageBytes = bytes, bos_ObjectCount = n, bos_Prefix = prefix\<rparr>)))"

text \<open>The loop over the repositories. \<open>repositories\<close> is the cache, \<open>None\<close> where the caller has none.\<close>

fun measure_repositories ::
  "object_client \<Rightarrow> bucket_object list \<Rightarrow> string \<Rightarrow> string \<Rightarrow> string list \<Rightarrow> PlanObjectStorageStats \<Rightarrow>
     (string \<times> PlanObjectStorageStats) list option \<Rightarrow>
     (string \<times> PlanObjectStorageStats) list option \<times> (kube_error + PlanObjectStorageStats)" where
  "measure_repositories client objects root storageLocation [] stats repositories = (repositories, Inr stats)"
| "measure_repositories client objects root storageLocation (repoNamespace # rest) stats repositories =
     (let prefix = kopiaRepositoryPrefix root repoNamespace;
          stats = stats\<lparr>pos_KopiaPrefixes := pos_KopiaPrefixes stats @ [prefix]\<rparr>;
          key = storageLocation @ [slash] @ prefix
      in case (case repositories of None \<Rightarrow> None | Some m \<Rightarrow> map_of m key) of
           Some cached \<Rightarrow> measure_repositories client objects root storageLocation rest
             (stats\<lparr>pos_KopiaBytes := pos_KopiaBytes stats + pos_KopiaBytes cached,
               pos_KopiaObjectCount := pos_KopiaObjectCount stats + pos_KopiaObjectCount cached\<rparr>) repositories
         | None \<Rightarrow> (case measure_listed (ListObjects client objects prefix) (0, 0) of
             Inl e \<Rightarrow> (repositories, Inl e)
           | Inr (bytes, n) \<Rightarrow> measure_repositories client objects root storageLocation rest
               (stats\<lparr>pos_KopiaBytes := pos_KopiaBytes stats + bytes, pos_KopiaObjectCount := pos_KopiaObjectCount stats + n\<rparr>)
               (map_option (mset_key key (zero_stats\<lparr>pos_KopiaBytes := bytes, pos_KopiaObjectCount := n\<rparr>)) repositories)))"

definition planObjectStorageStats ::
  "get_object \<Rightarrow> connect \<Rightarrow> buckets \<Rightarrow> string \<Rightarrow> string \<Rightarrow> string \<Rightarrow> string list \<Rightarrow>
     (string \<times> PlanObjectStorageStats) list option \<Rightarrow>
     (string \<times> PlanObjectStorageStats) list option \<times> (kube_error + PlanObjectStorageStats)" where
  "planObjectStorageStats getObject connect buckets namespace storageLocation backupNamePrefix repositoryNamespaces repositories =
     (let backupNamePrefix = trim_space backupNamePrefix in
      if trim_space namespace = '''' \<or> trim_space storageLocation = '''' \<or> backupNamePrefix = '''' then (repositories, Inr zero_stats)
      else (case open_location getObject connect ''plan object storage stats only support'' namespace storageLocation of
          Inl e \<Rightarrow> (repositories, Inl e)
        | Inr (bsl, client) \<Rightarrow>
          let objects = buckets (bsl_Bucket bsl);
              backupPrefix = butlast (backupObjectPrefix (bsl_Prefix bsl) backupNamePrefix);
              stats = zero_stats\<lparr>pos_BackupNamePrefix := backupNamePrefix, pos_BackupPrefix := backupPrefix,
                pos_KopiaNamespaces := uniqueNonEmptyStrings repositoryNamespaces\<rparr>
          in (case measure_listed (ListObjects client objects backupPrefix) (0, 0) of
               Inl e \<Rightarrow> (repositories, Inl e)
             | Inr (bytes, n) \<Rightarrow>
               (case measure_repositories client objects (bsl_Prefix bsl) storageLocation (pos_KopiaNamespaces stats)
                   (stats\<lparr>pos_MetadataBytes := bytes, pos_BackupObjectCount := n\<rparr>) repositories of
                  (repositories', Inl e) \<Rightarrow> (repositories', Inl e)
                | (repositories', Inr stats) \<Rightarrow>
                    (repositories', Inr (stats\<lparr>pos_TotalBytes := pos_MetadataBytes stats + pos_KopiaBytes stats\<rparr>))))))"

definition GetPlanObjectStorageStats ::
  "get_object \<Rightarrow> connect \<Rightarrow> buckets \<Rightarrow> string \<Rightarrow> string \<Rightarrow> string \<Rightarrow> string list \<Rightarrow> kube_error + PlanObjectStorageStats" where
  "GetPlanObjectStorageStats getObject connect buckets namespace storageLocation backupNamePrefix repositoryNamespaces =
     snd (planObjectStorageStats getObject connect buckets namespace storageLocation backupNamePrefix repositoryNamespaces None)"

record PlanCapacityTarget =
  pct_PlanID :: string
  pct_StorageLocation :: string
  pct_BackupNamePrefix :: string
  pct_Namespaces :: "string list"

text \<open>One result per plan; the time it was collected at is left out. A failed plan has zero statistics.\<close>

record PlanCapacityResult =
  pcr_PlanID :: string
  pcr_Result :: "kube_error + PlanObjectStorageStats"

fun collect_plans ::
  "get_object \<Rightarrow> connect \<Rightarrow> buckets \<Rightarrow> string \<Rightarrow> PlanCapacityTarget list \<Rightarrow> (string \<times> PlanObjectStorageStats) list option \<Rightarrow>
     PlanCapacityResult list" where
  "collect_plans getObject connect buckets namespace [] repositories = []"
| "collect_plans getObject connect buckets namespace (plan # plans) repositories =
     (case planObjectStorageStats getObject connect buckets namespace (pct_StorageLocation plan) (pct_BackupNamePrefix plan)
         (pct_Namespaces plan) repositories of
        (repositories', r) \<Rightarrow> \<lparr>pcr_PlanID = pct_PlanID plan, pcr_Result = r\<rparr> #
          collect_plans getObject connect buckets namespace plans repositories')"

definition CollectPlanCapacity ::
  "get_object \<Rightarrow> connect \<Rightarrow> buckets \<Rightarrow> string \<Rightarrow> PlanCapacityTarget list \<Rightarrow> PlanCapacityResult list" where
  "CollectPlanCapacity getObject connect buckets namespace plans =
     collect_plans getObject connect buckets namespace plans (Some [])"

section \<open>What is deleted\<close>

definition listed_keys :: "(kube_error + bucket_object) list \<Rightarrow> string set" where
  "listed_keys l = {bo_Key x | x. Inr x \<in> set l}"

lemma listed_prefix: "k \<in> listed_keys (ListObjects client objects prefix) \<Longrightarrow> has_prefix prefix k"
  by (auto simp: listed_keys_def ListObjects_def Let_def split: option.splits dest: in_set_takeD)

lemma listed_all:
  assumes "\<forall>x \<in> set (ListObjects client objects prefix). \<not> isl x" "y \<in> set objects" "has_prefix prefix (bo_Key y)"
  shows "bo_Key y \<in> listed_keys (ListObjects client objects prefix)"
  using assms by (auto simp: listed_keys_def ListObjects_def Let_def split: option.splits)

lemma remove_keeps:
  "y \<in> set objects \<Longrightarrow> bo_Key y \<notin> listed_keys l \<Longrightarrow> y \<in> set (fst (remove_listed client l objects n))"
  by (induction client l objects n rule: remove_listed.induct) (auto simp: listed_keys_def)

lemma remove_subset: "set (fst (remove_listed client l objects n)) \<subseteq> set objects"
  by (induction client l objects n rule: remove_listed.induct) auto

lemma remove_succeeds:
  "snd (remove_listed client l objects n) = Inr m \<Longrightarrow>
   (\<forall>x \<in> set l. \<not> isl x) \<and> m = n + int (length l) \<and>
   fst (remove_listed client l objects n) = filter (\<lambda>y. bo_Key y \<notin> listed_keys l) objects"
proof (induction client l objects n rule: remove_listed.induct)
  case (3 client x rest objects removed)
  then have "\<not> oc_RemoveFails client (bo_Key x)" by (auto split: if_splits)
  with 3 show ?case by (auto simp: listed_keys_def intro!: filter_cong)
qed (auto simp: listed_keys_def)

text \<open>
  What a deletion promises: \<open>run\<close> gives the objects left and whether it succeeded, \<open>scope\<close> the keys it may touch.
  It adds nothing, leaves what is out of scope, and on success leaves nothing that is in scope.
\<close>

locale confined_delete =
  fixes run :: "bucket_object list \<Rightarrow> bucket_object list \<times> bool"
    and scope :: "string \<Rightarrow> bool"
  assumes run_subset: "set (fst (run objects)) \<subseteq> set objects"
    and run_confined: "y \<in> set objects \<Longrightarrow> \<not> scope (bo_Key y) \<Longrightarrow> y \<in> set (fst (run objects))"
    and run_complete: "snd (run objects) \<Longrightarrow> y \<in> set (fst (run objects)) \<Longrightarrow> \<not> scope (bo_Key y)"
begin

lemma removed_in_scope: "y \<in> set objects \<Longrightarrow> y \<notin> set (fst (run objects)) \<Longrightarrow> scope (bo_Key y)"
  using run_confined by blast

lemma success_exact: "snd (run objects) \<Longrightarrow> set (fst (run objects)) = {y \<in> set objects. \<not> scope (bo_Key y)}"
  using run_subset run_confined run_complete by blast

end

definition prefix_run :: "object_client \<Rightarrow> string \<Rightarrow> bucket_object list \<Rightarrow> bucket_object list \<times> bool" where
  "prefix_run client prefix objects =
     (case remove_listed client (ListObjects client objects prefix) objects 0 of (left, r) \<Rightarrow> (left, \<not> isl r))"

lemma prefix_complete:
  assumes "snd (prefix_run client prefix objects)" "y \<in> set (fst (prefix_run client prefix objects))"
  shows "\<not> has_prefix prefix (bo_Key y)"
proof -
  define run where "run = remove_listed client (ListObjects client objects prefix) objects 0"
  obtain m where "snd run = Inr m"
    using assms(1) by (cases "snd run") (auto simp: prefix_run_def run_def split: prod.splits)
  from remove_succeeds [OF this [unfolded run_def]]
  have listed: "\<forall>x \<in> set (ListObjects client objects prefix). \<not> isl x"
    and rest: "fst run = filter (\<lambda>y. bo_Key y \<notin> listed_keys (ListObjects client objects prefix)) objects"
    by (auto simp: run_def)
  show ?thesis using listed_all [OF listed] assms(2) rest by (auto simp: prefix_run_def run_def split: prod.splits)
qed

interpretation prefix_delete: confined_delete "prefix_run client prefix" "has_prefix prefix" for client prefix
proof
  fix objects y
  show "set (fst (prefix_run client prefix objects)) \<subseteq> set objects"
    using remove_subset [of client "ListObjects client objects prefix" objects 0] by (auto simp: prefix_run_def split: prod.splits)
  show "y \<in> set (fst (prefix_run client prefix objects))" if "y \<in> set objects" "\<not> has_prefix prefix (bo_Key y)"
  proof -
    have "bo_Key y \<notin> listed_keys (ListObjects client objects prefix)" using that(2) listed_prefix by blast
    from remove_keeps [OF that(1) this, of client 0] show ?thesis by (auto simp: prefix_run_def split: prod.splits)
  qed
qed (rule prefix_complete)

text \<open>The keys of the backups of a plan, and what its purge removes.\<close>

lemma butlast_prefix: "butlast (backupObjectPrefix root name) = root_part root @ ''backups'' @ [slash] @ name"
  by (simp add: backupObjectPrefix_def butlast_append)

definition planned_key :: "string \<Rightarrow> string \<Rightarrow> string \<Rightarrow> bool" where
  "planned_key root planID key \<longleftrightarrow> (\<exists>now runID trigger objName.
     key = backupObjectPrefix root (backupNameForPlan now planID runID trigger) @ objName)"

lemma planned_prefix:
  assumes "length (planUUIDNoDash planID) = 32" "planned_key root planID key"
  obtains objName where "key = root_part root @ ''backups'' @ [slash] @ scheduleNameForPlan planID @ objName"
proof -
  obtain now runID trigger objName where k: "key = backupObjectPrefix root (backupNameForPlan now planID runID trigger) @ objName"
    using assms(2) by (auto simp: planned_key_def)
  have "backupNameForPlan now planID runID trigger = full_name now planID runID trigger"
    using full_name_length [OF assms(1), of now runID trigger] by (simp add: backup_name_full)
  then have "\<exists>rest. backupNameForPlan now planID runID trigger = scheduleNameForPlan planID @ rest"
    unfolding full_name_def by blast
  then obtain rest where n: "backupNameForPlan now planID runID trigger = scheduleNameForPlan planID @ rest" by blast
  show thesis using that [of "rest @ [slash] @ objName"] unfolding k n backupObjectPrefix_def by (simp only: append.assoc)
qed

lemma other_plan_key:
  assumes "length (planUUIDNoDash p) = 32" "length (planUUIDNoDash p') = 32" "planUUIDNoDash p \<noteq> planUUIDNoDash p'"
    and "planned_key root p' key"
  shows "\<not> has_prefix (butlast (backupObjectPrefix root (scheduleNameForPlan p))) key"
proof
  assume "has_prefix (butlast (backupObjectPrefix root (scheduleNameForPlan p))) key"
  then obtain r where r: "key = (root_part root @ ''backups'' @ [slash] @ scheduleNameForPlan p) @ r"
    unfolding has_prefix_iff butlast_prefix by blast
  obtain objName where "key = root_part root @ ''backups'' @ [slash] @ scheduleNameForPlan p' @ objName"
    by (rule planned_prefix [OF assms(2,4)])
  with r have "scheduleNameForPlan p @ r = scheduleNameForPlan p' @ objName" by simp
  then have "planUUIDNoDash p @ r = planUUIDNoDash p' @ objName" by (simp add: scheduleNameForPlan_def)
  then show False using assms(1-3) by (simp add: append_eq_append_conv)
qed

lemma schedule_name_trimmed:
  assumes "list_all alnum (planUUIDNoDash planID)"
  shows "trim_space (scheduleNameForPlan planID) = scheduleNameForPlan planID"
proof -
  have "planUUIDNoDash planID \<noteq> []" by (simp add: planUUIDNoDash_def Let_def)
  then have "last (scheduleNameForPlan planID) = last (planUUIDNoDash planID)" by (simp add: scheduleNameForPlan_def)
  moreover have "alnum (last (planUUIDNoDash planID))"
    using assms \<open>planUUIDNoDash planID \<noteq> []\<close> by (simp add: list_all_iff)
  then have "\<not> is_space (last (planUUIDNoDash planID))" by (auto simp: alnum_def is_space_def Let_def)
  moreover have "\<not> is_space CHR ''h''" by code_simp
  ultimately show ?thesis by (intro trim_space_id) (simp add: scheduleNameForPlan_def)
qed

lemma opened_location:
  "open_location getObject connect what namespace location = Inr (bsl, client) \<Longrightarrow>
   readBackupStorageLocation getObject namespace location = Inr bsl"
  by (auto simp: open_location_def res_bind_Inr_iff split: if_splits)

text \<open>
  Purging a plan. When the agent deletes the backup objects of a plan with a UUID, every object of every
  other plan's backups stays, in this and in all other buckets, however the deletion ends; and when it
  reports success, no object of the plan's own backups is left under the location's prefix.
\<close>

lemma purge_run:
  assumes "DeleteBackupObjectsByNamePrefix getObject connect buckets namespace location (scheduleNameForPlan p) = (buckets', r)"
    and "list_all alnum (planUUIDNoDash p)"
  shows "buckets' = buckets \<and> (isl r \<or> trim_space namespace = '''' \<or> trim_space location = '''') \<or>
    (\<exists>bsl client run. readBackupStorageLocation getObject namespace location = Inr bsl \<and>
      run = prefix_run client (butlast (backupObjectPrefix (bsl_Prefix bsl) (scheduleNameForPlan p))) (buckets (bsl_Bucket bsl)) \<and>
      buckets' = buckets(bsl_Bucket bsl := fst run) \<and> (\<not> isl r \<longrightarrow> snd run))"
proof (cases "trim_space namespace = '''' \<or> trim_space location = ''''")
  case False
  have ne: "scheduleNameForPlan p \<noteq> ''''" by (simp add: scheduleNameForPlan_def)
  note trimmed = schedule_name_trimmed [OF assms(2)]
  show ?thesis
  proof (cases "open_location getObject connect ''backup object cleanup only supports'' namespace location")
    case (Inl e)
    then show ?thesis using assms(1) False ne by (simp add: DeleteBackupObjectsByNamePrefix_def Let_def trimmed) auto
  next
    case (Inr l)
    obtain bsl client where l: "l = (bsl, client)" by (cases l)
    define run where "run = prefix_run client (butlast (backupObjectPrefix (bsl_Prefix bsl) (scheduleNameForPlan p))) (buckets (bsl_Bucket bsl))"
    have "buckets' = buckets(bsl_Bucket bsl := fst run)" "\<not> isl r \<longrightarrow> snd run"
      using assms(1) False ne Inr l
      by (auto simp: DeleteBackupObjectsByNamePrefix_def Let_def trimmed run_def prefix_run_def isl_map_sum split: prod.splits)
    then show ?thesis using opened_location [OF Inr [unfolded l]] run_def by blast
  qed
qed (use assms(1) in \<open>auto simp: DeleteBackupObjectsByNamePrefix_def Let_def\<close>)

lemma purge_scope:
  assumes "DeleteBackupObjectsByNamePrefix getObject connect buckets namespace location (scheduleNameForPlan p) = (buckets', r)"
    and "list_all alnum (planUUIDNoDash p)" "y \<in> set (buckets b)" "y \<notin> set (buckets' b)"
  shows "\<exists>bsl. readBackupStorageLocation getObject namespace location = Inr bsl \<and> b = bsl_Bucket bsl \<and>
    has_prefix (butlast (backupObjectPrefix (bsl_Prefix bsl) (scheduleNameForPlan p))) (bo_Key y)"
proof -
  obtain bsl client where "readBackupStorageLocation getObject namespace location = Inr bsl"
    and b': "buckets' = buckets(bsl_Bucket bsl := fst (prefix_run client
      (butlast (backupObjectPrefix (bsl_Prefix bsl) (scheduleNameForPlan p))) (buckets (bsl_Bucket bsl))))"
    using purge_run [OF assms(1,2)] assms(3,4) by auto
  moreover have "b = bsl_Bucket bsl" using assms(3,4) b' by (auto split: if_splits)
  ultimately show ?thesis using prefix_delete.removed_in_scope assms(3,4) by auto
qed

lemma purge_complete:
  assumes "DeleteBackupObjectsByNamePrefix getObject connect buckets namespace location (scheduleNameForPlan p) = (buckets', Inr report)"
    and "length (planUUIDNoDash p) = 32" "list_all alnum (planUUIDNoDash p)"
    and "trim_space namespace \<noteq> ''''" "trim_space location \<noteq> ''''" "readBackupStorageLocation getObject namespace location = Inr bsl"
    and "y \<in> set (buckets' (bsl_Bucket bsl))"
  shows "\<not> planned_key (bsl_Prefix bsl) p (bo_Key y)"
proof
  assume "planned_key (bsl_Prefix bsl) p (bo_Key y)"
  then obtain objName where "bo_Key y = root_part (bsl_Prefix bsl) @ ''backups'' @ [slash] @ scheduleNameForPlan p @ objName"
    by (rule planned_prefix [OF assms(2)])
  then have "has_prefix (butlast (backupObjectPrefix (bsl_Prefix bsl) (scheduleNameForPlan p))) (bo_Key y)"
    unfolding butlast_prefix has_prefix_iff by simp
  then show False using purge_run [OF assms(1,3)] assms(4-7) prefix_delete.run_complete by auto
qed

lemma purge_only_removes:
  assumes "DeleteBackupObjectsByNamePrefix getObject connect buckets namespace location name = (buckets', r)"
  shows "set (buckets' b) \<subseteq> set (buckets b)"
  using assms remove_subset
  by (auto simp: DeleteBackupObjectsByNamePrefix_def Let_def split: if_splits sum.splits prod.splits) (metis fst_conv subsetD)+

lemma delete_keeps:
  "y \<in> set objects \<Longrightarrow> (\<And>prefix. Inr prefix \<in> set ps \<Longrightarrow> \<not> has_prefix prefix (bo_Key y)) \<Longrightarrow>
   y \<in> set (fst (delete_prefixes client ps objects deleted))"
proof (induction client ps objects deleted rule: delete_prefixes.induct)
  case (3 client prefix rest objects deleted)
  have "\<not> has_prefix prefix (bo_Key y)" by (rule "3.prems"(2)) simp
  then have "bo_Key y \<notin> listed_keys (ListObjects client objects prefix)" using listed_prefix by blast
  with "3.prems"(1) have kept: "y \<in> set (fst (remove_listed client (ListObjects client objects prefix) objects 0))"
    by (rule remove_keeps)
  show ?case
  proof (cases "remove_listed client (ListObjects client objects prefix) objects 0")
    case (Pair objects' r)
    then show ?thesis using kept "3.IH" "3.prems"(2) by (cases r) auto
  qed
qed simp_all

lemma delete_subset: "set (fst (delete_prefixes client ps objects deleted)) \<subseteq> set objects"
proof (induction client ps objects deleted rule: delete_prefixes.induct)
  case (3 client prefix rest objects deleted)
  then show ?case
    using remove_subset [of client "ListObjects client objects prefix" objects 0] by (fastforce split: prod.splits sum.splits)
qed simp_all

lemma delete_complete:
  "snd (snd (delete_prefixes client ps objects deleted)) = None \<Longrightarrow> y \<in> set (fst (delete_prefixes client ps objects deleted)) \<Longrightarrow>
   Inr prefix \<in> set ps \<Longrightarrow> \<not> has_prefix prefix (bo_Key y)"
proof (induction client ps objects deleted rule: delete_prefixes.induct)
  case (3 client p rest objects deleted)
  define run where "run = remove_listed client (ListObjects client objects p) objects 0"
  obtain objects' m where run: "run = (objects', Inr m)"
    using "3.prems"(1) by (cases run; cases "snd run") (auto simp: run_def)
  then have next_step: "delete_prefixes client (Inr p # rest) objects deleted =
      delete_prefixes client rest objects' (deleted @ [removed_report p m])" by (simp add: run_def)
  show ?case
  proof (cases "Inr prefix \<in> set rest")
    case True
    then show ?thesis using "3.IH" "3.prems"(1,2) next_step run by (simp add: run_def)
  next
    case False
    then have p: "prefix = p" using "3.prems"(3) by simp
    from remove_succeeds [of client "ListObjects client objects p" objects 0 m] run
    have listed: "\<forall>x \<in> set (ListObjects client objects p). \<not> isl x"
      and rest: "objects' = filter (\<lambda>y. bo_Key y \<notin> listed_keys (ListObjects client objects p)) objects"
      by (simp_all add: run_def)
    have "y \<in> set objects'" using "3.prems"(2) delete_subset next_step by fastforce
    then show ?thesis using listed_all [OF listed] rest p by auto
  qed
qed simp_all

lemma delete_valid: "snd (snd (delete_prefixes client ps objects deleted)) = None \<Longrightarrow> p \<in> set ps \<Longrightarrow> \<not> isl p"
  by (induction client ps objects deleted rule: delete_prefixes.induct) (auto split: prod.splits sum.splits)

definition prefixes_run :: "object_client \<Rightarrow> (kube_error + string) list \<Rightarrow> bucket_object list \<Rightarrow> bucket_object list \<times> bool" where
  "prefixes_run client ps objects = (case delete_prefixes client ps objects [] of (left, _, err) \<Rightarrow> (left, err = None))"

interpretation prefixes_delete: confined_delete "prefixes_run client ps" "\<lambda>key. \<exists>prefix. Inr prefix \<in> set ps \<and> has_prefix prefix key" for client ps
proof
  fix objects y
  show "set (fst (prefixes_run client ps objects)) \<subseteq> set objects"
    using delete_subset [of client ps objects "[]"] by (auto simp: prefixes_run_def split: prod.splits)
  show "y \<in> set (fst (prefixes_run client ps objects))"
    if "y \<in> set objects" "\<not> (\<exists>prefix. Inr prefix \<in> set ps \<and> has_prefix prefix (bo_Key y))"
    using delete_keeps [of y objects ps client "[]"] that by (auto simp: prefixes_run_def split: prod.split)
  show "\<not> (\<exists>prefix. Inr prefix \<in> set ps \<and> has_prefix prefix (bo_Key y))"
    if "snd (prefixes_run client ps objects)" "y \<in> set (fst (prefixes_run client ps objects))"
    using delete_complete [of client ps objects "[]" y] that by (auto simp: prefixes_run_def split: prod.splits)
qed

lemma deletion_opened:
  assumes "delete_in_location (Inr (bsl, client)) prefixes buckets = (buckets', deleted, err)"
  defines "d \<equiv> prefixes_run client (prefixes (bsl_Prefix bsl)) (buckets (bsl_Bucket bsl))"
  shows "buckets' = buckets(bsl_Bucket bsl := fst d)" "err = None \<longleftrightarrow> snd d"
  using assms(1) by (auto simp: d_def delete_in_location_def prefixes_run_def split: prod.splits)

lemma deletion_closed: "delete_in_location (Inl e) prefixes buckets = (buckets, [], Some e)"
  by (simp add: delete_in_location_def)

lemma deleted_scope:
  assumes "delete_in_location location prefixes buckets = (buckets', deleted, err)" "y \<in> set (buckets b)" "y \<notin> set (buckets' b)"
  obtains bsl client prefix where "location = Inr (bsl, client)" "b = bsl_Bucket bsl" "Inr prefix \<in> set (prefixes (bsl_Prefix bsl))"
    "has_prefix prefix (bo_Key y)"
proof -
  obtain bsl client where l: "location = Inr (bsl, client)"
    using assms by (cases location) (auto simp: deletion_closed)
  note d = deletion_opened(1) [OF assms(1) [unfolded l]]
  have b: "b = bsl_Bucket bsl" using assms(2,3) by (auto simp: d split: if_splits)
  then show thesis
    using prefixes_delete.removed_in_scope [of y "buckets b" client "prefixes (bsl_Prefix bsl)"] assms(2,3) that [OF l b] d by auto
qed

lemma deleted_all:
  assumes "delete_in_location (Inr (bsl, client)) prefixes buckets = (buckets', deleted, None)"
    and "y \<in> set (buckets' (bsl_Bucket bsl))" "Inr prefix \<in> set (prefixes (bsl_Prefix bsl))"
  shows "\<not> has_prefix prefix (bo_Key y)"
  using prefixes_delete.run_complete [of client "prefixes (bsl_Prefix bsl)" "buckets (bsl_Bucket bsl)" y] assms(2,3)
    deletion_opened [OF assms(1)] by auto

lemma deleted_valid:
  assumes "delete_in_location (Inr (bsl, client)) prefixes buckets = (buckets', deleted, None)" "p \<in> set (prefixes (bsl_Prefix bsl))"
  shows "\<not> isl p"
  using assms delete_valid [of client "prefixes (bsl_Prefix bsl)" "buckets (bsl_Bucket bsl)" "[]" p]
  by (auto simp: delete_in_location_def split: prod.splits)

lemma delete_only_removes:
  assumes "delete_in_location location prefixes buckets = (buckets', deleted, err)"
  shows "set (buckets' b) \<subseteq> set (buckets b)"
proof (cases location)
  case (Inl e)
  then show ?thesis using assms by (simp add: deletion_closed)
next
  case (Inr l)
  obtain bsl client where l: "l = (bsl, client)" by (cases l)
  show ?thesis
    unfolding deletion_opened(1) [OF assms [unfolded Inr l]]
    using prefixes_delete.run_subset [of client "prefixes (bsl_Prefix bsl)" "buckets (bsl_Bucket bsl)"] by auto
qed

definition restore_name_ok :: "string \<Rightarrow> bool" where
  "restore_name_ok n \<longleftrightarrow> n \<noteq> '''' \<and> slash \<notin> set n \<and> n \<noteq> ''.'' \<and> n \<noteq> ''..''"

text \<open>
  What the cleanup of restores and repositories may touch: an object that disappears, however the deletion
  ends, lies in the directory of one of the named restores, whose name is one path component, or in the
  Kopia repository of one of the named namespaces, under the prefix of the location.
\<close>

lemma restores_scope:
  assumes "DeleteRestoreObjects getObject connect buckets namespace location restoreNames = (buckets', deleted, err)"
    and "y \<in> set (buckets b)" "y \<notin> set (buckets' b)"
  obtains bsl n where "readBackupStorageLocation getObject namespace location = Inr bsl" "b = bsl_Bucket bsl"
    "n \<in> trim_space ` set restoreNames" "restore_name_ok n"
    "has_prefix (root_part (bsl_Prefix bsl) @ ''restores'' @ [slash] @ n @ [slash]) (bo_Key y)"
proof -
  from assms have "delete_in_location (open_location getObject connect ''restore object cleanup only supports'' namespace location)
      (\<lambda>root. map (restoreObjectPrefix root) (uniqueNonEmptyStrings restoreNames)) buckets = (buckets', deleted, err)"
    by (auto simp: DeleteRestoreObjects_def Let_def split: if_splits)
  then obtain bsl client prefix where o: "open_location getObject connect ''restore object cleanup only supports'' namespace location = Inr (bsl, client)"
      "b = bsl_Bucket bsl" and p: "Inr prefix \<in> set (map (restoreObjectPrefix (bsl_Prefix bsl)) (uniqueNonEmptyStrings restoreNames))"
      "has_prefix prefix (bo_Key y)"
    by (rule deleted_scope [where y = y and b = b]) (use assms(2,3) in auto)
  then obtain n where u: "n \<in> set (uniqueNonEmptyStrings restoreNames)" "Inr prefix = restoreObjectPrefix (bsl_Prefix bsl) n"
    unfolding set_map by blast
  have n: "n \<in> trim_space ` set restoreNames" "restoreObjectPrefix (bsl_Prefix bsl) n = Inr prefix" "trim_space n = n"
    using u unfolding unique_set by (auto simp: trim_space_idem)
  then have "restore_name_ok n" "prefix = root_part (bsl_Prefix bsl) @ ''restores'' @ [slash] @ n @ [slash]"
    by (auto simp: restoreObjectPrefix_def restore_name_ok_def Let_def split: if_splits)
  with n(1) p(2) show thesis using that opened_location [OF o(1)] o(2) by blast
qed

lemma kopia_scope:
  assumes "DeleteKopiaRepositories getObject connect buckets namespace location namespaces = (buckets', deleted, err)"
    and "y \<in> set (buckets b)" "y \<notin> set (buckets' b)"
  obtains bsl n where "readBackupStorageLocation getObject namespace location = Inr bsl" "b = bsl_Bucket bsl"
    "n \<in> trim_space ` set namespaces" "n \<noteq> ''''" "has_prefix (kopiaRepositoryPrefix (bsl_Prefix bsl) n) (bo_Key y)"
proof -
  from assms have "delete_in_location (open_location getObject connect ''kopia repository cleanup only supports'' namespace location)
      (\<lambda>root. map (\<lambda>ns. Inr (kopiaRepositoryPrefix root ns)) (uniqueNonEmptyStrings namespaces)) buckets = (buckets', deleted, err)"
    by (auto simp: DeleteKopiaRepositories_def split: if_splits)
  then obtain bsl client prefix where o: "open_location getObject connect ''kopia repository cleanup only supports'' namespace location = Inr (bsl, client)"
      "b = bsl_Bucket bsl" and p: "Inr prefix \<in> set (map (\<lambda>ns. Inr (kopiaRepositoryPrefix (bsl_Prefix bsl) ns) :: kube_error + string) (uniqueNonEmptyStrings namespaces))"
      "has_prefix prefix (bo_Key y)"
    by (rule deleted_scope [where y = y and b = b]) (use assms(2,3) in auto)
  then obtain n where "n \<in> set (uniqueNonEmptyStrings namespaces)" "prefix = kopiaRepositoryPrefix (bsl_Prefix bsl) n" by auto
  then show thesis using that [OF opened_location [OF o(1)] o(2)] p(2) unfolding unique_set by blast
qed

section \<open>Credentials\<close>

lemma split_line: "newline \<notin> set l \<Longrightarrow> split_on newline (l @ newline # s) = l # split_on newline s"
  by (induction l) auto

lemma split_unlines: "\<forall>l \<in> set ls. newline \<notin> set l \<Longrightarrow> split_on newline (unlines ls) = ls @ ['''']"
proof (induction ls)
  case (Cons l ls)
  have nl: "CHR 0x0A = newline" unfolding newline_def by code_simp
  show ?case using Cons split_line [of l "unlines ls"] by (simp add: unlines_def nl)
qed (simp add: unlines_def)

text \<open>A value the file can carry: one line, without white space at its ends.\<close>

definition file_value :: "string \<Rightarrow> bool" where
  "file_value v \<longleftrightarrow> newline \<notin> set v \<and> trim_space v = v"

lemma cut_first: "c \<notin> set k \<Longrightarrow> cut c (k @ c # v) = Some (k, v)"
  by (induction k) (auto simp: cut_def split: list.splits)

lemma key_line:
  assumes "file_value v"
  shows "credentials_line creds (''aws_access_key_id='' @ v) = creds\<lparr>s3c_AccessKey := v\<rparr>"
    and "credentials_line creds (''aws_secret_access_key='' @ v) = creds\<lparr>s3c_SecretKey := v\<rparr>"
proof -
  have eq: "b64_pad # v = ''='' @ v" by (simp add: b64_pad_def)
  have v: "trim_space v = v" using assms by (simp add: file_value_def)
  have sp: "\<not> is_space CHR ''a''" "\<not> is_space b64_pad" by code_simp+
  have last: "v \<noteq> [] \<Longrightarrow> \<not> is_space (last v)"
    using trim_space_last [of v] v by simp
  have trimmed: "trim_space (k @ b64_pad # v) = k @ b64_pad # v" if "k \<noteq> []" "hd k = CHR ''a''" for k
    using that sp last by (intro trim_space_id) auto
  have "trim_space ''aws_access_key_id'' = ''aws_access_key_id''" "trim_space ''aws_secret_access_key'' = ''aws_secret_access_key''"
    "b64_pad \<notin> set ''aws_access_key_id''" "b64_pad \<notin> set ''aws_secret_access_key''" by code_simp+
  then show "credentials_line creds (''aws_access_key_id='' @ v) = creds\<lparr>s3c_AccessKey := v\<rparr>"
    "credentials_line creds (''aws_secret_access_key='' @ v) = creds\<lparr>s3c_SecretKey := v\<rparr>"
    using trimmed [of "''aws_access_key_id''"] cut_first [of b64_pad "''aws_access_key_id''" v]
      trimmed [of "''aws_secret_access_key''"] cut_first [of b64_pad "''aws_secret_access_key''" v] v
    by (simp_all add: credentials_line_def Let_def has_prefix_def b64_pad_def)
qed

text \<open>The credentials file the agent writes into the secret of a location is read back as it was written: for keys
  of one line without white space at their ends, parsing the file gives the two keys again.\<close>

theorem aws_credentials_roundtrip:
  assumes "file_value accessKey" "file_value secretKey"
  shows "parseAWSCredentialsFile (awsCredentialsFile accessKey secretKey) =
    \<lparr>s3c_AccessKey = accessKey, s3c_SecretKey = secretKey\<rparr>"
proof (cases "accessKey = '''' \<and> secretKey = ''''")
  case True
  then show ?thesis by (simp add: awsCredentialsFile_def parseAWSCredentialsFile_def credentials_line_def)
next
  case False
  have nl: "newline \<notin> set ''aws_access_key_id=''" "newline \<notin> set ''aws_secret_access_key=''" "newline \<notin> set ''[default]''"
    by code_simp+
  have skip: "credentials_line c ''[default]'' = c" "credentials_line c '''' = c" for c
  proof -
    have "trim_space ''[default]'' = ''[default]''" by code_simp
    then show "credentials_line c ''[default]'' = c" by (simp add: credentials_line_def has_prefix_def)
  qed (simp add: credentials_line_def)
  have "split_on newline (awsCredentialsFile accessKey secretKey) =
      [''[default]'', ''aws_access_key_id='' @ accessKey, ''aws_secret_access_key='' @ secretKey] @ ['''']"
    unfolding awsCredentialsFile_def using False nl assms
    by (subst split_unlines [symmetric]) (auto simp: file_value_def)
  then show ?thesis
    by (simp add: parseAWSCredentialsFile_def skip key_line [OF assms(1)] key_line [OF assms(2)] del: append_Cons)
qed

section \<open>The cache of a collection\<close>

lemma location_key:
  assumes "slash \<notin> set loc" "slash \<notin> set loc'" "loc @ [slash] @ p = loc' @ [slash] @ p'"
  shows "loc = loc' \<and> p = p'"
proof -
  have "takeWhile (\<lambda>c. c \<noteq> slash) (loc @ slash # p) = loc" "takeWhile (\<lambda>c. c \<noteq> slash) (loc' @ slash # p') = loc'"
    using assms(1,2) by (auto simp: takeWhile_append)
  with assms(3) show ?thesis by auto
qed

text \<open>
  Every entry of the cache is what a new listing would give; \<open>location\<close> is how a location is opened, which
  does not depend on the plan.
\<close>

definition cache_exact ::
  "(string \<Rightarrow> kube_error + backupStorageLocationInfo \<times> object_client) \<Rightarrow> buckets \<Rightarrow> (string \<times> PlanObjectStorageStats) list \<Rightarrow> bool" where
  "cache_exact location buckets m \<longleftrightarrow> (\<forall>loc prefix s bsl client. slash \<notin> set loc \<longrightarrow>
     map_of m (loc @ [slash] @ prefix) = Some s \<longrightarrow> location loc = Inr (bsl, client) \<longrightarrow>
     measure_listed (ListObjects client (buckets (bsl_Bucket bsl)) prefix) (0, 0) = Inr (pos_KopiaBytes s, pos_KopiaObjectCount s))"

lemma cache_exact_put:
  assumes "cache_exact location buckets m" "slash \<notin> set loc" "location loc = Inr (bsl, client)"
    and "measure_listed (ListObjects client (buckets (bsl_Bucket bsl)) prefix) (0, 0) = Inr (bytes, n)"
  shows "cache_exact location buckets (mset_key (loc @ [slash] @ prefix) (zero_stats\<lparr>pos_KopiaBytes := bytes, pos_KopiaObjectCount := n\<rparr>) m)"
  unfolding cache_exact_def
proof (intro allI impI)
  fix loc' prefix' s bsl' client'
  assume a: "slash \<notin> set loc'" "location loc' = Inr (bsl', client')"
    "map_of (mset_key (loc @ [slash] @ prefix) (zero_stats\<lparr>pos_KopiaBytes := bytes, pos_KopiaObjectCount := n\<rparr>) m) (loc' @ [slash] @ prefix') = Some s"
  show "measure_listed (ListObjects client' (buckets (bsl_Bucket bsl')) prefix') (0, 0) = Inr (pos_KopiaBytes s, pos_KopiaObjectCount s)"
  proof (cases "loc' @ [slash] @ prefix' = loc @ [slash] @ prefix")
    case True
    with location_key a(1) assms(2) have "loc' = loc" "prefix' = prefix" by blast+
    with a(2,3) assms(3,4) show ?thesis by (auto simp: map_of_mset_key)
  next
    case False
    with a show ?thesis using assms(1) by (auto simp: cache_exact_def map_of_mset_key)
  qed
qed

lemma measure_cached:
  assumes "location loc = Inr (bsl, client)" "slash \<notin> set loc" "cache_exact location buckets m"
  shows "snd (measure_repositories client (buckets (bsl_Bucket bsl)) root loc nss stats (Some m)) =
      snd (measure_repositories client (buckets (bsl_Bucket bsl)) root loc nss stats None) \<and>
    (\<exists>m'. fst (measure_repositories client (buckets (bsl_Bucket bsl)) root loc nss stats (Some m)) = Some m' \<and>
      cache_exact location buckets m')"
  using assms(3)
proof (induction nss arbitrary: stats m)
  case (Cons ns nss)
  define prefix where "prefix = kopiaRepositoryPrefix root ns"
  define objects where "objects = buckets (bsl_Bucket bsl)"
  show ?case
  proof (cases "map_of m (loc @ [slash] @ prefix)")
    case (Some s)
    have "measure_listed (ListObjects client objects prefix) (0, 0) = Inr (pos_KopiaBytes s, pos_KopiaObjectCount s)"
      using Cons.prems assms(1,2) Some unfolding cache_exact_def objects_def by blast
    then show ?thesis using Cons.IH [OF Cons.prems] Some
      by (simp add: Let_def prefix_def [symmetric] objects_def [symmetric])
  next
    case None
    show ?thesis
    proof (cases "measure_listed (ListObjects client objects prefix) (0, 0)")
      case (Inl e)
      then show ?thesis using None Cons.prems by (simp add: Let_def prefix_def [symmetric] objects_def [symmetric])
    next
      case (Inr r)
      obtain bytes n where r: "r = (bytes, n)" by (cases r)
      have "cache_exact location buckets (mset_key (loc @ [slash] @ prefix) (zero_stats\<lparr>pos_KopiaBytes := bytes, pos_KopiaObjectCount := n\<rparr>) m)"
        by (rule cache_exact_put [OF Cons.prems assms(2,1)]) (use Inr r objects_def in simp)
      from Cons.IH [OF this] show ?thesis using None Inr r
        by (simp add: Let_def prefix_def [symmetric] objects_def [symmetric])
    qed
  qed
qed simp

lemma stats_cached:
  fixes getObject connect namespace
  defines "location \<equiv> open_location getObject connect ''plan object storage stats only support'' namespace"
  assumes "slash \<notin> set loc" "cache_exact location buckets m"
  obtains m' where "planObjectStorageStats getObject connect buckets namespace loc name nss (Some m) =
      (Some m', GetPlanObjectStorageStats getObject connect buckets namespace loc name nss)" "cache_exact location buckets m'"
proof -
  consider (blank) "trim_space namespace = '''' \<or> trim_space loc = '''' \<or> trim_space name = ''''"
    | (closed) e where "location loc = Inl e" "\<not> (trim_space namespace = '''' \<or> trim_space loc = '''' \<or> trim_space name = '''')"
    | (opened) bsl client where "location loc = Inr (bsl, client)" "\<not> (trim_space namespace = '''' \<or> trim_space loc = '''' \<or> trim_space name = '''')"
    by (cases "location loc") auto
  then show thesis
  proof cases
    case opened
    let ?objects = "buckets (bsl_Bucket bsl)"
    let ?stats = "zero_stats\<lparr>pos_BackupNamePrefix := trim_space name,
      pos_BackupPrefix := butlast (backupObjectPrefix (bsl_Prefix bsl) (trim_space name)), pos_KopiaNamespaces := uniqueNonEmptyStrings nss\<rparr>"
    show thesis
    proof (cases "measure_listed (ListObjects client ?objects (butlast (backupObjectPrefix (bsl_Prefix bsl) (trim_space name)))) (0, 0)")
      case (Inl e)
      then show thesis using opened assms(3)
        by (intro that [of m]) (auto simp: planObjectStorageStats_def GetPlanObjectStorageStats_def location_def Let_def)
    next
      case (Inr r)
      obtain bytes n where r: "r = (bytes, n)" by (cases r)
      let ?run = "measure_repositories client ?objects (bsl_Prefix bsl) loc (uniqueNonEmptyStrings nss)
        (?stats\<lparr>pos_MetadataBytes := bytes, pos_BackupObjectCount := n\<rparr>)"
      from measure_cached [OF opened(1) assms(2,3), of "bsl_Prefix bsl" "uniqueNonEmptyStrings nss"
          "?stats\<lparr>pos_MetadataBytes := bytes, pos_BackupObjectCount := n\<rparr>"]
      obtain m' where m': "fst (?run (Some m)) = Some m'" "snd (?run (Some m)) = snd (?run None)" "cache_exact location buckets m'"
        by blast
      show thesis
        by (rule that [OF _ m'(3)])
          (use Inr r opened m'(1,2) in \<open>cases "?run (Some m)"; cases "?run None"; cases "snd (?run None)";
            simp add: planObjectStorageStats_def GetPlanObjectStorageStats_def location_def Let_def\<close>)
    qed
  qed (use assms(3) in \<open>auto intro!: that [of m] simp: planObjectStorageStats_def GetPlanObjectStorageStats_def location_def Let_def\<close>)
qed

text \<open>C21: Collecting the capacity of many plans with a shared cache of repositories gives every plan what measuring it
  alone would give: repositories several plans use are listed once and counted for each of them, and a plan
  that fails does not disturb the others.\<close>

theorem capacity_cache_exact:
  assumes "\<forall>plan \<in> set plans. slash \<notin> set (pct_StorageLocation plan)"
  shows "CollectPlanCapacity getObject connect buckets namespace plans = map (\<lambda>plan. \<lparr>pcr_PlanID = pct_PlanID plan,
    pcr_Result = GetPlanObjectStorageStats getObject connect buckets namespace (pct_StorageLocation plan) (pct_BackupNamePrefix plan)
      (pct_Namespaces plan)\<rparr>) plans"
proof -
  define location where "location = open_location getObject connect ''plan object storage stats only support'' namespace"
  have "collect_plans getObject connect buckets namespace plans (Some m) = map (\<lambda>plan. \<lparr>pcr_PlanID = pct_PlanID plan,
    pcr_Result = GetPlanObjectStorageStats getObject connect buckets namespace (pct_StorageLocation plan) (pct_BackupNamePrefix plan)
      (pct_Namespaces plan)\<rparr>) plans" if "cache_exact location buckets m" for m
    using assms that
  proof (induction plans arbitrary: m)
    case (Cons plan plans)
    obtain m' where "planObjectStorageStats getObject connect buckets namespace (pct_StorageLocation plan) (pct_BackupNamePrefix plan)
        (pct_Namespaces plan) (Some m) = (Some m', GetPlanObjectStorageStats getObject connect buckets namespace
          (pct_StorageLocation plan) (pct_BackupNamePrefix plan) (pct_Namespaces plan))" "cache_exact location buckets m'"
      unfolding location_def
      by (rule stats_cached [of "pct_StorageLocation plan"]) (use Cons.prems in \<open>auto simp: location_def\<close>)
    then show ?case using Cons.IH Cons.prems(1) by simp
  qed simp
  moreover have "cache_exact location buckets []" by (simp add: cache_exact_def)
  ultimately show ?thesis by (simp add: CollectPlanCapacity_def)
qed

section \<open>Concrete runs\<close>

definition sample_get :: get_object where
  "sample_get resource namespace name =
     (if resource = ''backupstoragelocations'' then Inr (AMap [(''spec'', AMap [(''provider'', AStr ''aws''),
        (''objectStorage'', AMap [(''bucket'', AStr ''backups''), (''prefix'', AStr ''t1/c1'')]),
        (''credential'', AMap [(''name'', AStr ''creds'')])])])
      else Inr (AMap [(''stringData'', AMap [(''cloud'', AStr (awsCredentialsFile ''ak'' ''sk''))])]))"

definition sample_connect :: connect where
  "sample_connect bsl creds = Inr \<lparr>oc_ListFails = (\<lambda>_. None), oc_RemoveFails = (\<lambda>_. False)\<rparr>"

definition plan_a :: string where
  "plan_a = ''8c1f2a34-5b6c-4d7e-8f90-123456789abc''"

definition plan_b :: string where
  "plan_b = ''8c1f2a34-5b6c-4d7e-8f90-123456789abd''"

definition object_of :: "string \<Rightarrow> bucket_object" where
  "object_of plan = \<lparr>bo_Key = backupObjectPrefix ''t1/c1'' (backupNameForPlan 0 plan ''r1'' ''scheduled'') @ ''velero-backup.json'', bo_Size = 10\<rparr>"

definition kopia_object :: bucket_object where
  "kopia_object = \<lparr>bo_Key = ''t1/c1/kopia/shop/p1'', bo_Size = 7\<rparr>"

definition sample_buckets :: buckets where
  "sample_buckets = (\<lambda>_. [])(''backups'' := [object_of plan_a, object_of plan_b, kopia_object])"

definition sample_opened :: "string \<Rightarrow> kube_error + backupStorageLocationInfo \<times> object_client" where
  "sample_opened what = open_location sample_get sample_connect what ''velero'' ''main-c1''"

lemma sample_open:
  "sample_opened what = Inr (\<lparr>bsl_Bucket = ''backups'', bsl_Prefix = ''t1/c1'', bsl_Endpoint = ''https://s3.amazonaws.com'',
     bsl_Region = '''', bsl_Secure = True, bsl_Credential = \<lparr>cref_Name = ''creds'', cref_Key = ''cloud''\<rparr>,
     bsl_Provider = ''aws'', bsl_BucketLookup = BucketLookupAuto\<rparr>, \<lparr>oc_ListFails = (\<lambda>_. None), oc_RemoveFails = (\<lambda>_. False)\<rparr>)"
proof -
  have "readBackupStorageLocation sample_get ''velero'' ''main-c1'' = Inr \<lparr>bsl_Bucket = ''backups'', bsl_Prefix = ''t1/c1'',
      bsl_Endpoint = ''https://s3.amazonaws.com'', bsl_Region = '''', bsl_Secure = True,
      bsl_Credential = \<lparr>cref_Name = ''creds'', cref_Key = ''cloud''\<rparr>, bsl_Provider = ''aws'', bsl_BucketLookup = BucketLookupAuto\<rparr>"
    by code_simp
  moreover have "\<not> isl (readS3Credentials sample_get ''velero'' \<lparr>cref_Name = ''creds'', cref_Key = ''cloud''\<rparr>)" by code_simp
  then obtain c where "readS3Credentials sample_get ''velero'' \<lparr>cref_Name = ''creds'', cref_Key = ''cloud''\<rparr> = Inr c"
    by (cases "readS3Credentials sample_get ''velero'' \<lparr>cref_Name = ''creds'', cref_Key = ''cloud''\<rparr>") auto
  ultimately show ?thesis by (simp add: sample_opened_def open_location_def sample_connect_def)
qed

theorem aws_credentials_roundtrip_witness:
  "parseAWSCredentialsFile (awsCredentialsFile ''AKIA'' ''s=cret/+'') = \<lparr>s3c_AccessKey = ''AKIA'', s3c_SecretKey = ''s=cret/+''\<rparr>"
  by (rule aws_credentials_roundtrip; code_simp)

theorem capacity_cache_exact_witness:
  "map pcr_Result (CollectPlanCapacity sample_get sample_connect sample_buckets ''velero''
     [\<lparr>pct_PlanID = plan_a, pct_StorageLocation = ''main-c1'', pct_BackupNamePrefix = scheduleNameForPlan plan_a, pct_Namespaces = [''shop'']\<rparr>,
      \<lparr>pct_PlanID = plan_b, pct_StorageLocation = ''main-c1'', pct_BackupNamePrefix = scheduleNameForPlan plan_b, pct_Namespaces = [''shop'']\<rparr>]) =
   [GetPlanObjectStorageStats sample_get sample_connect sample_buckets ''velero'' ''main-c1'' (scheduleNameForPlan plan_a) [''shop''],
    GetPlanObjectStorageStats sample_get sample_connect sample_buckets ''velero'' ''main-c1'' (scheduleNameForPlan plan_b) [''shop'']]"
proof -
  let ?plans = "[\<lparr>pct_PlanID = plan_a, pct_StorageLocation = ''main-c1'', pct_BackupNamePrefix = scheduleNameForPlan plan_a, pct_Namespaces = [''shop'']\<rparr>,
      \<lparr>pct_PlanID = plan_b, pct_StorageLocation = ''main-c1'', pct_BackupNamePrefix = scheduleNameForPlan plan_b, pct_Namespaces = [''shop'']\<rparr>]"
  have "\<forall>plan \<in> set ?plans. slash \<notin> set (pct_StorageLocation plan)" by (simp add: slash_def)
  from capacity_cache_exact [OF this] show ?thesis by simp
qed

end
