(* ===== verification/Protection_Cleanup.thy ===== *)
theory Protection_Cleanup
  imports Task_Commands Object_Storage
begin

text \<open>
  The cleanup of a protection plan from end to end: the payload the platform stores (\<^verbatim>\<open>createProtectionCleanupTask\<close> of
  \<^verbatim>\<open>backup_events.go\<close>), the command it becomes, and what the agent then deletes in object storage and, for a drill,
  which namespaces it deletes (\<^verbatim>\<open>executeProtectionCleanupTask\<close> of \<^verbatim>\<open>wsclient/client.go\<close>). The deletion of Velero's
  custom resources (backups, restores and repositories) is left to the Kubernetes API; that it succeeds or fails is an argument.
\<close>

section \<open>The command\<close>

text \<open>The payload for the source cluster; \<open>dataNamespace\<close> is where the cluster runs Velero.\<close>

definition source_cleanup_payload ::
  "string \<Rightarrow> string \<Rightarrow> string list \<Rightarrow> string \<Rightarrow> string \<Rightarrow> gomap list \<Rightarrow> string list \<Rightarrow> ProtectionPlan \<Rightarrow> gomap" where
  "source_cleanup_payload cleanupRunID dataNamespace sourceNamespaces storageName repoName restorePoints restoreNames plan =
     [(''planId'', AStr (pl_ID plan)), (''cleanupRunId'', AStr cleanupRunID), (''cleanupMode'', AStr ''source''),
      (''scheduleName'', AStr (scheduleNameForPlan (pl_ID plan))), (''backupNamePrefix'', AStr (scheduleNameForPlan (pl_ID plan))),
      (''namespace'', AStr dataNamespace), (''sourceNamespaces'', AStrs sourceNamespaces), (''storageRepo'', AStr storageName),
      (''storageRepoDisplayName'', AStr repoName), (''sourceClusterId'', AStr (pl_SourceClusterID plan)),
      (''objectPrefix'', AStr (storageDomainPrefix (pl_TenantID plan) (pl_SourceClusterID plan))),
      (''cleanupObjectStorage'', ABool True), (''restorePoints'', ASlice (map AMap restorePoints)), (''restoreNames'', AStrs restoreNames)]"

section \<open>Retries\<close>

definition error_text :: "kube_error \<Rightarrow> string" where
  "error_text e = (case e of KubeErrorf s \<Rightarrow> s | ApiError s \<Rightarrow> s | ApiNotFound \<Rightarrow> ''not found'')"

definition uncertain_needles :: "string list" where
  "uncertain_needles = [''etcdserver: request timed out'', ''request timed out'', ''resource quota evaluation timed out'',
     ''context deadline exceeded'', ''connect: connection refused'', ''http2: server sent goaway'', ''unexpected eof'', ''timeout'',
     ''temporarily unavailable'', ''connection reset'']"

definition isUncertainKubernetesSubmitError :: "kube_error \<Rightarrow> bool" where
  "isUncertainKubernetesSubmitError err \<longleftrightarrow> list_ex (\<lambda>needle. contains needle (to_lower (error_text err))) uncertain_needles"

text \<open>
  \<open>fn attempt\<close> is the operation at an attempt, on the state the previous attempts left; the fifth argument is how
  many attempts may follow.
  The agent's context does not end.
\<close>

definition retries_exhausted :: "string \<Rightarrow> nat \<Rightarrow> kube_error \<Rightarrow> kube_error" where
  "retries_exhausted operation retryCount err = KubeErrorf (operation @
     '' failed because the Kubernetes API remained temporarily unavailable after '' @ show_nat retryCount @ '' retries: '' @ error_text err)"

fun retryProtectionCleanup ::
  "string \<Rightarrow> nat \<Rightarrow> (nat \<Rightarrow> 's \<Rightarrow> 's \<times> 'r \<times> kube_error option) \<Rightarrow> nat \<Rightarrow> nat \<Rightarrow> 's \<Rightarrow> 's \<times> 'r \<times> kube_error option" where
  "retryProtectionCleanup operation retryCount fn attempt 0 s = (case fn attempt s of
     (s', result, None) \<Rightarrow> (s', result, None)
   | (s', result, Some err) \<Rightarrow> (s', result,
       Some (if isUncertainKubernetesSubmitError err then retries_exhausted operation retryCount err else err)))"
| "retryProtectionCleanup operation retryCount fn attempt (Suc k) s = (case fn attempt s of
     (s', result, None) \<Rightarrow> (s', result, None)
   | (s', result, Some err) \<Rightarrow>
     if isUncertainKubernetesSubmitError err then retryProtectionCleanup operation retryCount fn (attempt + 1) k s'
     else (s', result, Some err))"

section \<open>Object storage\<close>

text \<open>
  The part of \<^verbatim>\<open>executeProtectionCleanupTask\<close> that deletes objects, with the code of the failure it reports, if any.
  \<open>connect\<close> is the client of an attempt: the object store may answer differently each time. \<open>artifactsDeleted\<close> and
  \<open>repositoriesDeleted\<close> are whether the API deletes the backups by prefix and the backup repositories before it.
\<close>

definition cleanup_objects ::
  "bool \<Rightarrow> bool \<Rightarrow> get_object \<Rightarrow> (nat \<Rightarrow> connect) \<Rightarrow> string \<Rightarrow> ProtectionCleanupCommand \<Rightarrow> buckets \<Rightarrow> buckets \<times> string option" where
  "cleanup_objects artifactsDeleted repositoriesDeleted getObject connect agentNamespace cmd buckets =
     (let namespace = (if pcc_Namespace cmd = '''' then agentNamespace else pcc_Namespace cmd) in
      if pcc_StorageRepo cmd = '''' \<or> pcc_SourceNamespaces cmd = [] then (buckets, None)
      else if \<not> artifactsDeleted then (buckets, Some ''PROTECTION_CLEANUP_PREFIX_CR_DELETE_FAILED'')
      else if \<not> repositoriesDeleted then (buckets, Some ''PROTECTION_CLEANUP_REPOSITORY_DELETE_FAILED'')
      else if \<not> pcc_CleanupObjectStorage cmd then (buckets, None)
      else (case DeleteBackupObjectsByNamePrefix getObject (connect 0) buckets namespace (pcc_StorageRepo cmd) (pcc_BackupNamePrefix cmd) of
          (b1, Inl _) \<Rightarrow> (b1, Some ''PROTECTION_CLEANUP_BACKUP_OBJECT_DELETE_FAILED'')
        | (b1, Inr _) \<Rightarrow>
          (case retryProtectionCleanup ''restore objects'' 3 (\<lambda>attempt b. DeleteRestoreObjects getObject (connect attempt) b namespace
              (pcc_StorageRepo cmd) (pcc_RestoreNames cmd)) 0 3 b1 of
             (b2, _, Some _) \<Rightarrow> (b2, Some ''PROTECTION_CLEANUP_RESTORE_OBJECT_DELETE_FAILED'')
           | (b2, _, None) \<Rightarrow>
             (case DeleteKopiaRepositories getObject (connect 0) b2 namespace (pcc_StorageRepo cmd) (pcc_SourceNamespaces cmd) of
                (b3, _, Some _) \<Rightarrow> (b3, Some ''PROTECTION_CLEANUP_KOPIA_DELETE_FAILED'')
              | (b3, _, None) \<Rightarrow> (b3, None)))))"

section \<open>Drills\<close>

text \<open>The loop over the namespaces of a drill: those deleted and the code of the failure; \<open>deletable\<close> is whether a deletion succeeds.\<close>

fun delete_drill_namespaces :: "(string \<Rightarrow> bool) \<Rightarrow> string \<Rightarrow> string list \<Rightarrow> string list \<Rightarrow> string list \<times> string option" where
  "delete_drill_namespaces deletable namespace sourceNamespaces [] = ([], None)"
| "delete_drill_namespaces deletable namespace sourceNamespaces (target # rest) =
     (let targetNamespace = trim_space target in
      if targetNamespace = '''' \<or> targetNamespace = namespace \<or> targetNamespace \<in> set sourceNamespaces
      then ([], Some ''DRILL_CLEANUP_TARGET_UNSAFE'')
      else if \<not> deletable targetNamespace then ([], Some ''DRILL_NAMESPACE_DELETE_FAILED'')
      else (case delete_drill_namespaces deletable namespace sourceNamespaces rest of (deleted, failure) \<Rightarrow> (targetNamespace # deleted, failure)))"

definition uniqueStrings :: "string list \<Rightarrow> string list" where
  "uniqueStrings values = foldl (\<lambda>out v. let v = trim_space v in if v = '''' \<or> v \<in> set out then out else out @ [v]) [] values"

fun delete_drill_restores :: "(string \<Rightarrow> bool) \<Rightarrow> string list \<Rightarrow> string list \<times> string option" where
  "delete_drill_restores deletable [] = ([], None)"
| "delete_drill_restores deletable (name # rest) =
     (if \<not> deletable name then ([], Some ''DRILL_RESTORE_DELETE_FAILED'')
      else (case delete_drill_restores deletable rest of (deleted, failure) \<Rightarrow> (name # deleted, failure)))"

text \<open>
  The part of \<^verbatim>\<open>executeProtectionCleanupTask\<close> for drills: the restores and the namespaces it deletes and the failure it
  reports; \<open>restoreDeletable\<close> and \<open>namespaceDeletable\<close> are the answers of the API.
\<close>

definition drill_cleanup ::
  "(string \<Rightarrow> bool) \<Rightarrow> (string \<Rightarrow> bool) \<Rightarrow> string \<Rightarrow> ProtectionCleanupCommand \<Rightarrow> string list \<times> string list \<times> string option" where
  "drill_cleanup restoreDeletable namespaceDeletable agentNamespace cmd =
     (let namespace = (if pcc_Namespace cmd = '''' then agentNamespace else pcc_Namespace cmd) in
      if pcc_DrillNamespaces cmd = [] then ([], [], Some ''DRILL_CLEANUP_TARGET_REQUIRED'')
      else (case delete_drill_restores restoreDeletable (uniqueStrings (pcc_RestoreNames cmd)) of
          (restores, Some failure) \<Rightarrow> (restores, [], Some failure)
        | (restores, None) \<Rightarrow>
          (restores, delete_drill_namespaces namespaceDeletable namespace (pcc_SourceNamespaces cmd) (pcc_DrillNamespaces cmd))))"

section \<open>Properties\<close>

text \<open>C20: Cleaning up a drill deletes only the drill's own namespaces: never the namespace the command names (that of the
  agent where it names none), never a source namespace, never an empty name, whatever the command asks for;
  it stops at the first such request, and it deletes a namespace only after all restores of the drill are
  gone. When it reports no failure, all namespaces of the drill are deleted.\<close>

theorem drill_cleanup_safe:
  assumes "drill_cleanup restoreDeletable deletable agentNamespace cmd = (restores, deleted, failure)"
  shows "set deleted \<subseteq> trim_space ` set (pcc_DrillNamespaces cmd) \<and> '''' \<notin> set deleted \<and>
    (if pcc_Namespace cmd = '''' then agentNamespace else pcc_Namespace cmd) \<notin> set deleted \<and>
    set deleted \<inter> set (pcc_SourceNamespaces cmd) = {} \<and>
    (deleted \<noteq> [] \<longrightarrow> restores = uniqueStrings (pcc_RestoreNames cmd)) \<and>
    (failure = None \<longrightarrow> set deleted = trim_space ` set (pcc_DrillNamespaces cmd))"
proof -
  have "failure = None \<Longrightarrow> restores = names" if "delete_drill_restores restoreDeletable names = (restores, failure)" for names restores failure
    using that by (induction names arbitrary: restores) (auto split: if_splits prod.splits)
  moreover
  have "delete_drill_namespaces deletable ns sources targets = (deleted, failure) \<Longrightarrow>
      set deleted \<subseteq> trim_space ` set targets \<and> '''' \<notin> set deleted \<and> ns \<notin> set deleted \<and> set deleted \<inter> set sources = {} \<and>
      (failure = None \<longrightarrow> set deleted = trim_space ` set targets)" for ns sources targets deleted
  proof (induction targets arbitrary: deleted)
    case (Cons t targets)
    then show ?case by (auto simp: Let_def split: if_splits prod.splits)
  qed auto
  ultimately show ?thesis using assms by (auto simp: drill_cleanup_def Let_def split: if_splits prod.splits option.splits)
qed


text \<open>The command read from the stored payload.\<close>

lemma cleanup_command:
  fixes runID dataNamespace sourceNamespaces storageName repoName points restoreNames plan
  defines "cmd \<equiv> protectionCleanupCommandFromPayload
    (json_object (source_cleanup_payload runID dataNamespace sourceNamespaces storageName repoName points restoreNames plan))"
  shows "pcc_BackupNamePrefix cmd = scheduleNameForPlan (pl_ID plan)" "pcc_Namespace cmd = dataNamespace"
    "pcc_StorageRepo cmd = storageName" "pcc_CleanupObjectStorage cmd" "pcc_SourceNamespaces cmd = clean sourceNamespaces"
    "pcc_RestoreNames cmd = clean restoreNames" "pcc_PlanID cmd = pl_ID plan"
  unfolding cmd_def protectionCleanupCommandFromPayload_def source_cleanup_payload_def
  by (simp_all add: mget_json_object stringPayload_def boolPayload_def any_str_def any_bool_def stringSlicePayload_def slice_strs)

text \<open>An object that a sequence of deletions keeps when each of them keeps it.\<close>

lemma retry_keeps:
  assumes "\<And>attempt s. P s \<Longrightarrow> P (fst (fn attempt s))" "P s"
  shows "P (fst (retryProtectionCleanup operation n fn attempt k s))"
  using assms(2)
proof (induction k arbitrary: attempt s)
  case 0
  then show ?case using assms(1) [OF 0, of attempt] by (auto split: prod.splits option.splits)
next
  case (Suc k)
  then show ?case using assms(1) [OF Suc.prems, of attempt] by (auto split: prod.splits option.splits)
qed

lemma retry_success:
  "retryProtectionCleanup operation n fn attempt k s = (s', result, None) \<Longrightarrow> \<exists>attempt s. fn attempt s = (s', result, None)"
proof (induction k arbitrary: attempt s)
  case 0
  then show ?case by (auto split: prod.splits option.splits if_splits)
next
  case (Suc k)
  then show ?case by (cases "fn attempt s") (auto split: option.splits if_splits)
qed

text \<open>
  The objects of others under the prefix of a location: the backups of another plan, the directories of restores and the
  repositories of namespaces that are not named.
\<close>

definition in_folder :: "string \<Rightarrow> string \<Rightarrow> string \<Rightarrow> string \<Rightarrow> bool" where
  "in_folder root folder name key \<longleftrightarrow> (\<exists>rest. key = root_part root @ folder @ [slash] @ name @ [slash] @ rest)"

definition of_others :: "string \<Rightarrow> string \<Rightarrow> string list \<Rightarrow> string list \<Rightarrow> string \<Rightarrow> bool" where
  "of_others root plan restores namespaces key \<longleftrightarrow> planned_key root plan key \<or>
     (\<exists>n. slash \<notin> set n \<and> n \<notin> trim_space ` set restores \<and> in_folder root ''restores'' n key) \<or>
     (\<exists>n. slash \<notin> set n \<and> n \<notin> trim_space ` set namespaces \<and> in_folder root ''kopia'' n key)"

lemma folder_prefix: "has_prefix (root_part root @ folder @ [slash] @ n @ [slash]) key \<longleftrightarrow> in_folder root folder n key"
  by (auto simp: has_prefix_iff in_folder_def)

lemma folder_unique:
  assumes "in_folder root folder n key" "in_folder root folder m key" "slash \<notin> set n" "slash \<notin> set m"
  shows "n = m"
proof -
  from assms(1,2) obtain r r' where "n @ slash # r = m @ slash # r'" by (auto simp: in_folder_def)
  then have "takeWhile (\<lambda>c. c \<noteq> slash) (n @ slash # r) = takeWhile (\<lambda>c. c \<noteq> slash) (m @ slash # r')" by simp
  moreover have "takeWhile (\<lambda>c. c \<noteq> slash) (x @ slash # y) = x" if "slash \<notin> set x" for x y
    using that by (subst takeWhile_append2) auto
  ultimately show ?thesis using assms(3,4) by simp
qed

lemma folders_differ:
  "in_folder root ''restores'' n key \<Longrightarrow> \<not> in_folder root ''kopia'' m key"
  "in_folder root folder n key \<Longrightarrow> folder \<in> {''restores'', ''kopia''} \<Longrightarrow> \<not> has_prefix (root_part root @ ''backups'' @ [slash] @ x) key"
  "planned_key root p key \<Longrightarrow> folder \<in> {''restores'', ''kopia''} \<Longrightarrow> \<not> in_folder root folder n key"
  by (auto simp: in_folder_def has_prefix_iff planned_key_def backupObjectPrefix_def)

lemma others_out_of_scope:
  assumes "of_others root p' restores namespaces key"
  shows "n \<in> trim_space ` set restores \<Longrightarrow> slash \<notin> set n \<Longrightarrow> \<not> in_folder root ''restores'' n key"
    and "n \<in> trim_space ` set namespaces \<Longrightarrow> slash \<notin> set n \<Longrightarrow> \<not> in_folder root ''kopia'' n key"
    and "length (planUUIDNoDash p) = 32 \<Longrightarrow> length (planUUIDNoDash p') = 32 \<Longrightarrow> planUUIDNoDash p \<noteq> planUUIDNoDash p' \<Longrightarrow>
      \<not> has_prefix (butlast (backupObjectPrefix root (scheduleNameForPlan p))) key"
proof -
  have kinds: "''restores'' \<in> {''restores'', ''kopia''}" "''kopia'' \<in> {''restores'', ''kopia''}" by simp_all
  from assms consider (backup) "planned_key root p' key"
    | (restore) m where "slash \<notin> set m" "m \<notin> trim_space ` set restores" "in_folder root ''restores'' m key"
    | (kopia) m where "slash \<notin> set m" "m \<notin> trim_space ` set namespaces" "in_folder root ''kopia'' m key"
    unfolding of_others_def by (elim disjE exE conjE)
  note cases' = this
  show "\<not> in_folder root ''restores'' n key" if "n \<in> trim_space ` set restores" "slash \<notin> set n"
    using cases' by cases (metis folders_differ(3) kinds(1), metis folder_unique that, metis folders_differ(1))
  show "\<not> in_folder root ''kopia'' n key" if "n \<in> trim_space ` set namespaces" "slash \<notin> set n"
    using cases' by cases (metis folders_differ(3) kinds(2), metis folders_differ(1), metis folder_unique that)
  show "\<not> has_prefix (butlast (backupObjectPrefix root (scheduleNameForPlan p))) key"
    if "length (planUUIDNoDash p) = 32" "length (planUUIDNoDash p') = 32" "planUUIDNoDash p \<noteq> planUUIDNoDash p'"
    using cases'
  proof cases
    case backup
    show ?thesis by (rule other_plan_key [OF that backup])
  qed (unfold butlast_prefix, (rule folders_differ(2), assumption, rule kinds)+)
qed

text \<open>None of the three deletions touches what belongs to others.\<close>

lemma backups_spare:
  assumes "DeleteBackupObjectsByNamePrefix getObject connect buckets namespace location (scheduleNameForPlan p) = (buckets', r)"
    and "length (planUUIDNoDash p) = 32" "list_all alnum (planUUIDNoDash p)" "length (planUUIDNoDash p') = 32"
    and "planUUIDNoDash p \<noteq> planUUIDNoDash p'" "readBackupStorageLocation getObject namespace location = Inr bsl"
    and "y \<in> set (buckets b)" "b \<noteq> bsl_Bucket bsl \<or> of_others (bsl_Prefix bsl) p' restores namespaces (bo_Key y)"
  shows "y \<in> set (buckets' b)"
proof (rule ccontr)
  assume "y \<notin> set (buckets' b)"
  with purge_scope [OF assms(1,3,7)] assms(6) have "b = bsl_Bucket bsl"
    "has_prefix (butlast (backupObjectPrefix (bsl_Prefix bsl) (scheduleNameForPlan p))) (bo_Key y)" by auto
  with assms(8) others_out_of_scope(3) [OF _ assms(2,4,5)] show False by blast
qed

lemma restores_spare:
  assumes "DeleteRestoreObjects getObject connect buckets namespace location restores = (buckets', deleted, err)"
    and "readBackupStorageLocation getObject namespace location = Inr bsl"
    and "y \<in> set (buckets b)" "b \<noteq> bsl_Bucket bsl \<or> of_others (bsl_Prefix bsl) p restores namespaces (bo_Key y)"
  shows "y \<in> set (buckets' b)"
proof (rule ccontr)
  assume "y \<notin> set (buckets' b)"
  with restores_scope [OF assms(1,3)] assms(2) obtain n where
    "b = bsl_Bucket bsl" "n \<in> trim_space ` set restores" "restore_name_ok n" "in_folder (bsl_Prefix bsl) ''restores'' n (bo_Key y)"
    unfolding folder_prefix by (metis sum.inject(2))
  with assms(4) others_out_of_scope(1) show False unfolding restore_name_ok_def by metis
qed

lemma kopia_spare:
  assumes "DeleteKopiaRepositories getObject connect buckets namespace location namespaces = (buckets', deleted, err)"
    and "readBackupStorageLocation getObject namespace location = Inr bsl" "\<forall>n \<in> set namespaces. slash \<notin> set n"
    and "y \<in> set (buckets b)" "b \<noteq> bsl_Bucket bsl \<or> of_others (bsl_Prefix bsl) p restores namespaces (bo_Key y)"
  shows "y \<in> set (buckets' b)"
proof (rule ccontr)
  assume "y \<notin> set (buckets' b)"
  with kopia_scope [OF assms(1,4)] assms(2) obtain n where
    n: "b = bsl_Bucket bsl" "n \<in> trim_space ` set namespaces" "in_folder (bsl_Prefix bsl) ''kopia'' n (bo_Key y)"
    unfolding kopiaRepositoryPrefix_def folder_prefix by (metis sum.inject(2))
  have "slash \<notin> set n" using n(2) assms(3) trim_space_subset by blast
  with n assms(5) others_out_of_scope(2) show False by metis
qed

lemma restores_only_remove:
  "DeleteRestoreObjects getObject connect buckets namespace location restoreNames = (buckets', deleted, err) \<Longrightarrow>
   set (buckets' b) \<subseteq> set (buckets b)"
  using delete_only_removes by (auto simp: DeleteRestoreObjects_def Let_def split: if_splits)

lemma kopia_only_removes:
  "DeleteKopiaRepositories getObject connect buckets namespace location namespaces = (buckets', deleted, err) \<Longrightarrow>
   set (buckets' b) \<subseteq> set (buckets b)"
  using delete_only_removes by (auto simp: DeleteKopiaRepositories_def split: if_splits)

lemma kopia_complete:
  assumes "DeleteKopiaRepositories getObject connect buckets namespace location namespaces = (buckets', deleted, None)"
    and "trim_space namespace \<noteq> ''''" "trim_space location \<noteq> ''''" "readBackupStorageLocation getObject namespace location = Inr bsl"
    and "y \<in> set (buckets' (bsl_Bucket bsl))" "n \<in> set namespaces" "trim_space n \<noteq> ''''"
  shows "\<not> in_folder (bsl_Prefix bsl) ''kopia'' (trim_space n) (bo_Key y)"
proof -
  let ?location = "open_location getObject connect ''kopia repository cleanup only supports'' namespace location"
  let ?prefixes = "\<lambda>root. map (\<lambda>ns. Inr (kopiaRepositoryPrefix root ns) :: kube_error + string) (uniqueNonEmptyStrings namespaces)"
  have run: "delete_in_location ?location ?prefixes buckets = (buckets', deleted, None)"
    using assms(1-3) by (simp add: DeleteKopiaRepositories_def)
  then obtain client where l: "?location = Inr (bsl, client)"
    using opened_location [of getObject connect _ namespace location] assms(4)
    by (cases ?location) (auto simp: deletion_closed)
  show ?thesis unfolding folder_prefix [symmetric] kopiaRepositoryPrefix_def [symmetric]
    by (rule deleted_all [OF run [unfolded l] assms(5)]) (use assms(6,7) in \<open>auto simp: unique_set\<close>)
qed

lemma restores_complete:
  assumes "DeleteRestoreObjects getObject connect buckets namespace location restores = (buckets', deleted, None)"
    and "trim_space namespace \<noteq> ''''" "trim_space location \<noteq> ''''" "readBackupStorageLocation getObject namespace location = Inr bsl"
    and "y \<in> set (buckets' (bsl_Bucket bsl))" "n \<in> set restores" "trim_space n \<noteq> ''''"
  shows "\<not> in_folder (bsl_Prefix bsl) ''restores'' (trim_space n) (bo_Key y)"
proof -
  let ?location = "open_location getObject connect ''restore object cleanup only supports'' namespace location"
  let ?prefixes = "\<lambda>root. map (restoreObjectPrefix root) (uniqueNonEmptyStrings restores)"
  have n: "trim_space n \<in> set (uniqueNonEmptyStrings restores)" using assms(6,7) by (simp add: unique_set)
  then have "uniqueNonEmptyStrings restores \<noteq> []" by auto
  then have run: "delete_in_location ?location ?prefixes buckets = (buckets', deleted, None)"
    using assms(1-3) by (simp add: DeleteRestoreObjects_def Let_def)
  then obtain client where l: "?location = Inr (bsl, client)"
    using opened_location [of getObject connect _ namespace location] assms(4) by (cases ?location) (auto simp: deletion_closed)
  have "\<not> isl (restoreObjectPrefix (bsl_Prefix bsl) (trim_space n))"
    by (rule deleted_valid [OF run [unfolded l]]) (use n in auto)
  then have prefix: "restoreObjectPrefix (bsl_Prefix bsl) (trim_space n) = Inr (root_part (bsl_Prefix bsl) @ ''restores'' @ [slash] @ trim_space n @ [slash])"
    by (auto simp: restoreObjectPrefix_def Let_def trim_space_idem split: if_splits)
  show ?thesis unfolding folder_prefix [symmetric]
    by (rule deleted_all [OF run [unfolded l] assms(5)]) (use n prefix in \<open>auto intro: rev_image_eqI\<close>)
qed

lemma cleanup_steps:
  assumes "cleanup_objects artifactsDeleted repositoriesDeleted getObject connect agentNamespace cmd buckets = (buckets', failure)"
    and "pcc_Namespace cmd = namespace" "namespace \<noteq> ''''" "pcc_StorageRepo cmd = location" "location \<noteq> ''''" "pcc_SourceNamespaces cmd \<noteq> []"
    and "pcc_CleanupObjectStorage cmd"
  obtains b1 r1 b2 where
    "DeleteBackupObjectsByNamePrefix getObject (connect 0) buckets namespace location (pcc_BackupNamePrefix cmd) = (b1, r1)"
    "b2 = fst (retryProtectionCleanup ''restore objects'' 3 (\<lambda>attempt b. DeleteRestoreObjects getObject (connect attempt) b namespace
      location (pcc_RestoreNames cmd)) 0 3 b1)"
    "failure \<noteq> None \<and> (buckets' = buckets \<or> buckets' = b1 \<or> buckets' = b2) \<or>
     \<not> isl r1 \<and> (failure = None \<longrightarrow> snd (snd (retryProtectionCleanup ''restore objects'' 3 (\<lambda>attempt b. DeleteRestoreObjects getObject (connect attempt) b namespace
      location (pcc_RestoreNames cmd)) 0 3 b1)) = None) \<and> (\<exists>deleted err. DeleteKopiaRepositories getObject (connect 0) b2 namespace location (pcc_SourceNamespaces cmd) =
        (buckets', deleted, err) \<and> (failure = None \<longrightarrow> err = None))"
proof -
  obtain b1 r1 where d: "DeleteBackupObjectsByNamePrefix getObject (connect 0) buckets namespace location (pcc_BackupNamePrefix cmd) = (b1, r1)"
    by (rule prod.exhaust)
  let ?r = "retryProtectionCleanup ''restore objects'' 3 (\<lambda>attempt b. DeleteRestoreObjects getObject (connect attempt) b namespace
      location (pcc_RestoreNames cmd)) 0 3 b1"
  obtain b2 d2 e2 where r: "?r = (b2, d2, e2)" by (rule prod_cases3)
  show thesis
    by (rule that [OF d refl])
      (use assms d r in \<open>auto simp: cleanup_objects_def Let_def split: if_splits sum.splits prod.splits option.splits\<close>)
qed

lemma retried_removes:
  "set (fst (retryProtectionCleanup operation k (\<lambda>attempt b. DeleteRestoreObjects getObject (connect attempt) b namespace location names) i n b1) b) \<subseteq> set (b1 b)"
proof (rule retry_keeps [where P = "\<lambda>s. set (s b) \<subseteq> set (b1 b)"])
  fix attempt s assume s: "set (s b) \<subseteq> set (b1 b)"
  let ?d = "DeleteRestoreObjects getObject (connect attempt) s namespace location names"
  have "?d = (fst ?d, fst (snd ?d), snd (snd ?d))" by simp
  from restores_only_remove [OF this] s show "set (fst ?d b) \<subseteq> set (b1 b)" by blast
qed simp

lemma of_others_clean: "of_others root p restores sources key \<Longrightarrow> of_others root p (clean restores) (clean sources) key"
  unfolding of_others_def clean_def by (elim disjE exE conjE) (auto 0 3)

lemma spared_throughout:
  assumes "DeleteBackupObjectsByNamePrefix getObject (connect 0) buckets namespace location (scheduleNameForPlan p) = (b1, r1)"
    and "length (planUUIDNoDash p) = 32" "list_all alnum (planUUIDNoDash p)" "length (planUUIDNoDash p') = 32"
    and "planUUIDNoDash p \<noteq> planUUIDNoDash p'" "readBackupStorageLocation getObject namespace location = Inr bsl"
    and b2: "b2 = fst (retryProtectionCleanup operation k
      (\<lambda>attempt b. DeleteRestoreObjects getObject (connect attempt) b namespace location (clean restores)) i n b1)"
    and y: "y \<in> set (buckets b)" "b \<noteq> bsl_Bucket bsl \<or> of_others (bsl_Prefix bsl) p' restores sources (bo_Key y)"
    and "\<forall>n \<in> set sources. slash \<notin> set n"
  shows "y \<in> set (b1 b)" "y \<in> set (b2 b)"
    "DeleteKopiaRepositories getObject (connect 0) b2 namespace location (clean sources) = (b3, deleted, err) \<Longrightarrow> y \<in> set (b3 b)"
proof -
  have y': "b \<noteq> bsl_Bucket bsl \<or> of_others (bsl_Prefix bsl) p' (clean restores) (clean sources) (bo_Key y)"
    using y(2) of_others_clean by blast
  show k1: "y \<in> set (b1 b)" by (rule backups_spare [OF assms(1-6) y])
  show k2: "y \<in> set (b2 b)" unfolding b2
  proof (rule retry_keeps [where P = "\<lambda>s. y \<in> set (s b)"])
    fix attempt s assume s: "y \<in> set (s b)"
    let ?d = "DeleteRestoreObjects getObject (connect attempt) s namespace location (clean restores)"
    have "?d = (fst ?d, fst (snd ?d), snd (snd ?d))" by simp
    from restores_spare [OF this assms(6) s y'] show "y \<in> set (fst ?d b)" .
  qed (rule k1)
  assume "DeleteKopiaRepositories getObject (connect 0) b2 namespace location (clean sources) = (b3, deleted, err)"
  from kopia_spare [OF this assms(6) _ k2 y'] assms(10) show "y \<in> set (b3 b)" by (simp add: clean_def)
qed

text \<open>C5: Deleting a plan spares the others. The agent, given the command for the cleanup of a plan with a UUID as it is
  read from the store, keeps everything in other buckets and, in the location of the plan, every object of
  another plan's backups, of restores that the command does not name and of the Kopia repositories of
  namespaces that are not the plan's, at whatever point and however often the object store fails. When it
  reports no failure, the location has no object left of the plan's backups, of its restores or of the
  repositories of its namespaces.\<close>

theorem cleanup_spares_other_plans:
  assumes "cmd = protectionCleanupCommandFromPayload
      (json_object (source_cleanup_payload runID dataNamespace sources storageName repoName points restores plan))"
    and "length (planUUIDNoDash (pl_ID plan)) = 32" "list_all alnum (planUUIDNoDash (pl_ID plan))"
    and "length (planUUIDNoDash other) = 32" "planUUIDNoDash (pl_ID plan) \<noteq> planUUIDNoDash other"
    and "trim_space dataNamespace \<noteq> ''''" "trim_space storageName \<noteq> ''''" "clean sources \<noteq> []" "\<forall>n \<in> set sources. slash \<notin> set n"
    and "readBackupStorageLocation getObject dataNamespace storageName = Inr bsl"
    and "cleanup_objects artifactsDeleted repositoriesDeleted getObject connect agentNamespace cmd buckets = (buckets', failure)"
  shows "(\<forall>b. \<forall>y \<in> set (buckets b). b \<noteq> bsl_Bucket bsl \<or> of_others (bsl_Prefix bsl) other restores sources (bo_Key y) \<longrightarrow> y \<in> set (buckets' b)) \<and>
    (failure = None \<longrightarrow> (\<forall>y \<in> set (buckets' (bsl_Bucket bsl)). \<not> planned_key (bsl_Prefix bsl) (pl_ID plan) (bo_Key y) \<and>
      (\<forall>n \<in> set restores. trim_space n \<noteq> '''' \<longrightarrow> \<not> in_folder (bsl_Prefix bsl) ''restores'' (trim_space n) (bo_Key y)) \<and>
      (\<forall>n \<in> set sources. trim_space n \<noteq> '''' \<longrightarrow> \<not> in_folder (bsl_Prefix bsl) ''kopia'' (trim_space n) (bo_Key y))))"
proof -
  note cmd = cleanup_command [of runID dataNamespace sources storageName repoName points restores plan, folded assms(1)]
  have ne: "dataNamespace \<noteq> ''''" "storageName \<noteq> ''''" using assms(6,7) by auto
  let ?restores = "\<lambda>attempt b. DeleteRestoreObjects getObject (connect attempt) b dataNamespace storageName (clean restores)"
  obtain b1 r1 b2 where
    d1: "DeleteBackupObjectsByNamePrefix getObject (connect 0) buckets dataNamespace storageName (scheduleNameForPlan (pl_ID plan)) = (b1, r1)"
    and b2: "b2 = fst (retryProtectionCleanup ''restore objects'' 3 ?restores 0 3 b1)"
    and step: "failure \<noteq> None \<and> (buckets' = buckets \<or> buckets' = b1 \<or> buckets' = b2) \<or>
     \<not> isl r1 \<and> (failure = None \<longrightarrow> snd (snd (retryProtectionCleanup ''restore objects'' 3 ?restores 0 3 b1)) = None) \<and>
     (\<exists>deleted err. DeleteKopiaRepositories getObject (connect 0) b2 dataNamespace storageName (clean sources) =
        (buckets', deleted, err) \<and> (failure = None \<longrightarrow> err = None))"
    using cleanup_steps [OF assms(11) cmd(2) ne(1) cmd(3) ne(2) _ cmd(4)] assms(8) unfolding cmd(1,5,6) by metis
  have "y \<in> set (buckets' b)"
    if y: "y \<in> set (buckets b)" "b \<noteq> bsl_Bucket bsl \<or> of_others (bsl_Prefix bsl) other restores sources (bo_Key y)" for y b
    using spared_throughout [OF d1 assms(2-5,10) b2 y assms(9)] step y(1) by auto
  moreover have "\<not> planned_key (bsl_Prefix bsl) (pl_ID plan) (bo_Key y) \<and>
      (\<forall>n \<in> set restores. trim_space n \<noteq> '''' \<longrightarrow> \<not> in_folder (bsl_Prefix bsl) ''restores'' (trim_space n) (bo_Key y)) \<and>
      (\<forall>n \<in> set sources. trim_space n \<noteq> '''' \<longrightarrow> \<not> in_folder (bsl_Prefix bsl) ''kopia'' (trim_space n) (bo_Key y))"
    if fin: "failure = None" "y \<in> set (buckets' (bsl_Bucket bsl))" for y
  proof -
    obtain deleted report where d3: "DeleteKopiaRepositories getObject (connect 0) b2 dataNamespace storageName (clean sources) = (buckets', deleted, None)"
      and r1: "r1 = Inr report" and r2: "snd (snd (retryProtectionCleanup ''restore objects'' 3 ?restores 0 3 b1)) = None"
      using step fin(1) by (cases r1) auto
    obtain attempt s result where d2: "?restores attempt s = (b2, result, None)"
      using retry_success [of "''restore objects''" 3 ?restores 0 3 b1 b2] r2 b2 by (metis prod.collapse)
    have y: "y \<in> set (b2 (bsl_Bucket bsl))" using kopia_only_removes [OF d3] fin(2) by blast
    then have "y \<in> set (b1 (bsl_Bucket bsl))" using retried_removes unfolding b2 by blast
    then have "\<not> planned_key (bsl_Prefix bsl) (pl_ID plan) (bo_Key y)"
      by (rule purge_complete [OF d1 [unfolded r1] assms(2,3,6,7,10)])
    moreover have "n \<in> set (clean xs)" if "n \<in> set xs" "trim_space n \<noteq> ''''" for n xs using that by (auto simp: clean_def)
    ultimately show ?thesis
      using kopia_complete [OF d3 assms(6,7,10) fin(2)] restores_complete [OF d2 assms(6,7,10) y] by blast
  qed
  ultimately show ?thesis by blast
qed

section \<open>Concrete runs\<close>

definition sample_cleanup :: ProtectionCleanupCommand where
  "sample_cleanup = protectionCleanupCommandFromPayload (json_object (source_cleanup_payload ''run1'' ''velero'' [''shop''] ''main-c1'' ''Main Store''
     [] [''hcdr-restore-1''] (sample_plan\<lparr>pl_ID := plan_a\<rparr>)))"

definition cleaned :: "buckets \<times> string option" where
  "cleaned = cleanup_objects True True sample_get (\<lambda>_. sample_connect) ''hypercdr-agent'' sample_cleanup sample_buckets"

theorem cleanup_spares_other_plans_witness:
  "object_of plan_b \<in> set (fst cleaned ''backups'') \<and> object_of plan_a \<notin> set (fst cleaned ''backups'') \<and>
   kopia_object \<notin> set (fst cleaned ''backups'')"
proof -
  have ids: "length (planUUIDNoDash (pl_ID (sample_plan\<lparr>pl_ID := plan_a\<rparr>))) = 32" "list_all alnum (planUUIDNoDash (pl_ID (sample_plan\<lparr>pl_ID := plan_a\<rparr>)))"
    "length (planUUIDNoDash plan_b) = 32" "planUUIDNoDash (pl_ID (sample_plan\<lparr>pl_ID := plan_a\<rparr>)) \<noteq> planUUIDNoDash plan_b" by code_simp+
  have names: "trim_space ''velero'' \<noteq> ''''" "trim_space ''main-c1'' \<noteq> ''''" "clean [''shop''] \<noteq> []" "\<forall>n \<in> set [''shop'']. slash \<notin> set n" by code_simp+
  have run: "cleanup_objects True True sample_get (\<lambda>_. sample_connect) ''hypercdr-agent'' sample_cleanup sample_buckets = (fst cleaned, snd cleaned)"
    by (simp add: cleaned_def)
  have ok: "snd cleaned = None" by code_simp
  have planned: "planned_key ''t1/c1'' plan (bo_Key (object_of plan))" for plan
    unfolding planned_key_def object_of_def bucket_object.simps by blast
  have kopia: "in_folder ''t1/c1'' ''kopia'' (trim_space ''shop'') (bo_Key kopia_object)" "trim_space ''shop'' \<noteq> ''''"
    unfolding folder_prefix [symmetric] by code_simp+
  have here: "object_of plan_b \<in> set (sample_buckets ''backups'')" by (simp add: sample_buckets_def)
  have other: "of_others ''t1/c1'' plan_b [''hcdr-restore-1''] [''shop''] (bo_Key (object_of plan_b))"
    using planned [of plan_b] by (simp add: of_others_def)
  from cleanup_spares_other_plans [OF sample_cleanup_def ids names opened_location [OF sample_open [unfolded sample_opened_def]] run] here ok planned [of plan_a] kopia other
  show ?thesis by auto
qed

theorem drill_cleanup_safe_witness:
  "let cmd = sample_cleanup\<lparr>pcc_DrillNamespaces := [''drill-shop'', ''shop'']\<rparr>; run = drill_cleanup (\<lambda>_. True) (\<lambda>_. True) ''hypercdr-agent'' cmd
   in run = ([''hcdr-restore-1''], [''drill-shop''], Some ''DRILL_CLEANUP_TARGET_UNSAFE'') \<and> set (fst (snd run)) \<inter> set (pcc_SourceNamespaces cmd) = {}"
proof -
  define cmd where "cmd = sample_cleanup\<lparr>pcc_DrillNamespaces := [''drill-shop'', ''shop'']\<rparr>"
  have run: "drill_cleanup (\<lambda>_. True) (\<lambda>_. True) ''hypercdr-agent'' cmd =
      ([''hcdr-restore-1''], [''drill-shop''], Some ''DRILL_CLEANUP_TARGET_UNSAFE'')"
    unfolding cmd_def by code_simp
  from drill_cleanup_safe [OF run] run show ?thesis by (simp add: cmd_def Let_def)
qed


end
