(* ===== verification/Control_Plane_Handover.thy ===== *)
theory Control_Plane_Handover
  imports Task_Commands Kube_Objects "HOL-Library.AList"
begin

text \<open>
  Moving an agent from one control plane to another (\<^verbatim>\<open>kube/control_plane_handover.go\<close>, \<^verbatim>\<open>credential_store.go\<close>, and how
  \<^verbatim>\<open>cmd/comm-agent/main.go\<close>, \<^verbatim>\<open>config.go\<close> and \<^verbatim>\<open>client.go\<close> use them). The state is what the agent keeps in its cluster: the
  bootstrap secret its environment comes from, the secret with its credential, the secret with the material
  for a rollback, and the deployment, whose restarts are recorded. Every call to the API can fail. A call that
  changes something may be refused, or take effect although its answer is lost.
\<close>

section \<open>The cluster\<close>

record ControlPlaneHandoverInput =
  hi_MigrationID :: string
  hi_Namespace :: string
  hi_PreviousEndpoint :: string
  hi_PreviousClusterID :: string
  hi_PreviousCredential :: string
  hi_TargetEndpoint :: string
  hi_TargetInstallToken :: string
  hi_RollbackDeadline :: gtime

record ControlPlaneHandoverState =
  hs_MigrationID :: string
  hs_Status :: string
  hs_PreviousEndpoint :: string
  hs_PreviousClusterID :: string
  hs_PreviousCredential :: string
  hs_TargetEndpoint :: string
  hs_TargetInstallToken :: string
  hs_RollbackDeadline :: gtime

record AgentCredential =
  ac_ClusterID :: string
  ac_Credential :: string

text \<open>
  The objects of a namespace; \<^const>\<open>None\<close> is an object that does not exist, \<open>Some None\<close> a handover secret that does not decode.
  The deployment is the list of the reasons it was restarted for.
\<close>

record agent_objects =
  ao_Handover :: "ControlPlaneHandoverState option option"
  ao_Bootstrap :: "(string \<times> string) list option"
  ao_Credential :: "(string \<times> string) list option"
  ao_Deployment :: "string list option"

type_synonym cluster = "string \<Rightarrow> agent_objects"

datatype fault = Refused string | Unanswered string

type_synonym faults = "nat \<Rightarrow> fault option"

abbreviation no_faults :: faults where
  "no_faults \<equiv> \<lambda>_. None"

definition fault_error :: "fault \<Rightarrow> kube_error" where
  "fault_error f = (case f of Refused e \<Rightarrow> ApiError e | Unanswered e \<Rightarrow> ApiError e)"

text \<open>A call that changes the objects of a namespace; the number is the place of the call in the operation.\<close>

definition write_objects :: "faults \<Rightarrow> nat \<Rightarrow> string \<Rightarrow> (agent_objects \<Rightarrow> agent_objects) \<Rightarrow> cluster \<Rightarrow> cluster \<times> kube_error option" where
  "write_objects fault i ns change c = (case fault i of
     None \<Rightarrow> (c(ns := change (c ns)), None)
   | Some (Refused e) \<Rightarrow> (c, Some (ApiError e))
   | Some (Unanswered e) \<Rightarrow> (c(ns := change (c ns)), Some (ApiError e)))"

definition canonicalNamespace :: "string \<Rightarrow> string" where
  "canonicalNamespace ns = (if ns = '''' then ''hypercdr-agent'' else ns)"

section \<open>The handover manager\<close>

text \<open>\<^verbatim>\<open>load\<close> is one call, \<^verbatim>\<open>save\<close>, \<^verbatim>\<open>writeBootstrap\<close> and \<^verbatim>\<open>Save\<close> are two: they read before they write.\<close>

definition handover_load :: "faults \<Rightarrow> nat \<Rightarrow> string \<Rightarrow> cluster \<Rightarrow> kube_error + ControlPlaneHandoverState" where
  "handover_load fault i ns c = (case fault i of Some f \<Rightarrow> Inl (fault_error f)
     | None \<Rightarrow> (case ao_Handover (c ns) of None \<Rightarrow> Inl ApiNotFound
         | Some None \<Rightarrow> Inl (KubeErrorf ''decode handover state'')
         | Some (Some state) \<Rightarrow> Inr state))"

definition handover_save :: "faults \<Rightarrow> nat \<Rightarrow> string \<Rightarrow> ControlPlaneHandoverState \<Rightarrow> cluster \<Rightarrow> cluster \<times> kube_error option" where
  "handover_save fault i ns state c = (case fault i of Some f \<Rightarrow> (c, Some (fault_error f))
     | None \<Rightarrow> write_objects fault (i + 1) ns (\<lambda>o'. o'\<lparr>ao_Handover := Some (Some state)\<rparr>) c)"

definition requireState :: "faults \<Rightarrow> nat \<Rightarrow> string \<Rightarrow> string \<Rightarrow> cluster \<Rightarrow> kube_error + ControlPlaneHandoverState" where
  "requireState fault i ns migrationID c = (case handover_load fault i (canonicalNamespace ns) c of
     Inl e \<Rightarrow> Inl e
   | Inr state \<Rightarrow> if hs_MigrationID state \<noteq> migrationID
       then Inl (KubeErrorf (''active handover '' @ hs_MigrationID state @ '' does not match '' @ migrationID)) else Inr state)"

definition writeBootstrap :: "faults \<Rightarrow> nat \<Rightarrow> string \<Rightarrow> string \<Rightarrow> string \<Rightarrow> cluster \<Rightarrow> cluster \<times> kube_error option" where
  "writeBootstrap fault i ns endpoint token c = (case fault i of Some f \<Rightarrow> (c, Some (fault_error f))
     | None \<Rightarrow> (case ao_Bootstrap (c ns) of None \<Rightarrow> (c, Some ApiNotFound)
         | Some data \<Rightarrow> write_objects fault (i + 1) ns (\<lambda>o'. o'\<lparr>ao_Bootstrap :=
             Some (AList.update ''HCDR_INSTALL_TOKEN'' token (AList.update ''HCDR_PLATFORM_ENDPOINT'' endpoint data))\<rparr>) c))"

definition credential_save :: "faults \<Rightarrow> nat \<Rightarrow> string \<Rightarrow> AgentCredential \<Rightarrow> cluster \<Rightarrow> cluster \<times> kube_error option" where
  "credential_save fault i ns credential c = (case fault i of Some f \<Rightarrow> (c, Some (fault_error f))
     | None \<Rightarrow> write_objects fault (i + 1) ns (\<lambda>o'. o'\<lparr>ao_Credential := Some (
         AList.update ''HCDR_AGENT_CREDENTIAL'' (ac_Credential credential)
           (AList.update ''HCDR_CLUSTER_ID'' (ac_ClusterID credential)
             (case ao_Credential o' of None \<Rightarrow> [] | Some data \<Rightarrow> data)))\<rparr>) c)"

definition writeCredential :: "faults \<Rightarrow> nat \<Rightarrow> string \<Rightarrow> string \<Rightarrow> string \<Rightarrow> cluster \<Rightarrow> cluster \<times> kube_error option" where
  "writeCredential fault i ns clusterID credential c =
     credential_save fault i ns \<lparr>ac_ClusterID = clusterID, ac_Credential = credential\<rparr> c"

definition handover_restart :: "faults \<Rightarrow> nat \<Rightarrow> string \<Rightarrow> string \<Rightarrow> cluster \<Rightarrow> cluster \<times> kube_error option" where
  "handover_restart fault i ns reason c =
     (if fault i = None \<and> ao_Deployment (c ns) = None then (c, Some ApiNotFound)
      else write_objects fault i ns (\<lambda>o'. o'\<lparr>ao_Deployment := map_option (\<lambda>rs. rs @ [reason]) (ao_Deployment o')\<rparr>) c)"

text \<open>Deleting an object that does not exist is no error.\<close>

definition delete_handover :: "faults \<Rightarrow> nat \<Rightarrow> string \<Rightarrow> cluster \<Rightarrow> cluster \<times> kube_error option" where
  "delete_handover fault i ns c = write_objects fault i ns (\<lambda>o'. o'\<lparr>ao_Handover := None\<rparr>) c"

definition delete_credential :: "faults \<Rightarrow> nat \<Rightarrow> string \<Rightarrow> cluster \<Rightarrow> cluster \<times> kube_error option" where
  "delete_credential fault i ns c = write_objects fault i ns (\<lambda>o'. o'\<lparr>ao_Credential := None\<rparr>) c"

text \<open>Calls in a row: the first that fails ends the operation.\<close>

fun in_turn :: "(cluster \<Rightarrow> cluster \<times> kube_error option) list \<Rightarrow> cluster \<Rightarrow> cluster \<times> kube_error option" where
  "in_turn [] c = (c, None)"
| "in_turn (call # calls) c = (case call c of (c', None) \<Rightarrow> in_turn calls c' | (c', Some e) \<Rightarrow> (c', Some e))"

definition validateHandoverEndpoint :: "(string \<Rightarrow> (string \<times> string) option) \<Rightarrow> string \<Rightarrow> bool" where
  "validateHandoverEndpoint urlParse raw = (case urlParse (trim_space raw) of None \<Rightarrow> False
     | Some (scheme, host) \<Rightarrow> host \<noteq> '''' \<and> (scheme = ''ws'' \<or> scheme = ''wss''))"

definition prepared_state :: "ControlPlaneHandoverInput \<Rightarrow> ControlPlaneHandoverState" where
  "prepared_state input = \<lparr>hs_MigrationID = hi_MigrationID input, hs_Status = ''prepared'',
     hs_PreviousEndpoint = hi_PreviousEndpoint input, hs_PreviousClusterID = hi_PreviousClusterID input,
     hs_PreviousCredential = hi_PreviousCredential input, hs_TargetEndpoint = hi_TargetEndpoint input,
     hs_TargetInstallToken = hi_TargetInstallToken input, hs_RollbackDeadline = hi_RollbackDeadline input\<rparr>"

text \<open>Whether a handover under way stands against a new one; the same one may be prepared again.\<close>

definition other_handover :: "faults \<Rightarrow> nat \<Rightarrow> string \<Rightarrow> string \<Rightarrow> cluster \<Rightarrow> kube_error option" where
  "other_handover fault i ns migrationID c = (case handover_load fault i ns c of
     Inr existing \<Rightarrow> if hs_MigrationID existing \<noteq> migrationID
       then Some (KubeErrorf (''handover '' @ hs_MigrationID existing @ '' is already active'')) else None
   | Inl e \<Rightarrow> if e = ApiNotFound then None else Some e)"

definition Prepare ::
  "(string \<Rightarrow> (string \<times> string) option) \<Rightarrow> faults \<Rightarrow> gtime \<Rightarrow> ControlPlaneHandoverInput \<Rightarrow> cluster \<Rightarrow> cluster \<times> kube_error option" where
  "Prepare urlParse fault now input c =
     (let ns = canonicalNamespace (hi_Namespace input) in
      if trim_space (hi_MigrationID input) = '''' then (c, Some (KubeErrorf ''migration ID is required''))
      else if ns \<noteq> ''hypercdr-agent'' then (c, Some (KubeErrorf ''control-plane handover requires the canonical hypercdr-agent namespace''))
      else if \<not> validateHandoverEndpoint urlParse (hi_TargetEndpoint input) then (c, Some (KubeErrorf ''target endpoint must be a ws or wss URL''))
      else if trim_space (hi_TargetInstallToken input) = '''' then (c, Some (KubeErrorf ''target install token is required''))
      else if hi_RollbackDeadline input = 0 \<or> \<not> hi_RollbackDeadline input > now
        then (c, Some (KubeErrorf ''rollback deadline must be in the future''))
      else if fault 0 \<noteq> None \<or> ao_Deployment (c ns) = None then (c, Some (KubeErrorf ''read comm-agent deployment''))
      else (case other_handover fault 1 ns (hi_MigrationID input) c of Some e \<Rightarrow> (c, Some e)
        | None \<Rightarrow> in_turn
          [handover_save fault 2 ns (prepared_state input),
           writeBootstrap fault 4 ns (hi_TargetEndpoint input) (hi_TargetInstallToken input),
           delete_credential fault 6 ns,
           handover_restart fault 7 ns (''prepare-'' @ hi_MigrationID input)] c))"

definition Confirm :: "faults \<Rightarrow> string \<Rightarrow> string \<Rightarrow> cluster \<Rightarrow> cluster \<times> kube_error option" where
  "Confirm fault ns migrationID c = (case requireState fault 0 ns migrationID c of
     Inl e \<Rightarrow> (c, Some e)
   | Inr state \<Rightarrow> handover_save fault 1 (canonicalNamespace ns) (state\<lparr>hs_Status := ''target-confirmed''\<rparr>) c)"

definition Rollback :: "faults \<Rightarrow> string \<Rightarrow> string \<Rightarrow> cluster \<Rightarrow> cluster \<times> kube_error option" where
  "Rollback fault ns migrationID c =
     (let ns = canonicalNamespace ns in
      case requireState fault 0 ns migrationID c of
        Inl e \<Rightarrow> (c, Some e)
      | Inr state \<Rightarrow> in_turn
          [writeBootstrap fault 1 ns (hs_PreviousEndpoint state) '''',
           writeCredential fault 3 ns (hs_PreviousClusterID state) (hs_PreviousCredential state),
           delete_handover fault 5 ns,
           handover_restart fault 6 ns (''rollback-'' @ migrationID)] c)"

definition Commit :: "faults \<Rightarrow> string \<Rightarrow> string \<Rightarrow> cluster \<Rightarrow> cluster \<times> kube_error option" where
  "Commit fault ns migrationID c =
     (let ns = canonicalNamespace ns in
      case requireState fault 0 ns migrationID c of
        Inl e \<Rightarrow> (c, Some e)
      | Inr state \<Rightarrow>
          if hs_Status state \<noteq> ''target-confirmed'' then
            if hs_Status state = ''committed'' then (c, None)
            else (c, Some (KubeErrorf (''handover is '' @ hs_Status state @ '', not target-confirmed'')))
          else handover_save fault 1 ns (state\<lparr>hs_Status := ''committed''\<rparr>) c)"

definition Cleanup :: "faults \<Rightarrow> string \<Rightarrow> string \<Rightarrow> cluster \<Rightarrow> cluster \<times> kube_error option" where
  "Cleanup fault ns migrationID c =
     (let ns = canonicalNamespace ns in
      case requireState fault 0 ns migrationID c of
        Inl e \<Rightarrow> (c, if e = ApiNotFound then None else Some e)
      | Inr state \<Rightarrow>
          if hs_Status state \<noteq> ''committed'' then (c, Some (KubeErrorf (''handover is '' @ hs_Status state @ '', not committed'')))
          else delete_handover fault 1 ns c)"

text \<open>The result tells whether a rollback was started, and its error.\<close>

definition RollbackExpired :: "faults \<Rightarrow> string \<Rightarrow> gtime \<Rightarrow> cluster \<Rightarrow> cluster \<times> bool \<times> kube_error option" where
  "RollbackExpired fault ns now c =
     (let ns = canonicalNamespace ns in
      case handover_load fault 0 ns c of
        Inl e \<Rightarrow> (c, False, if e = ApiNotFound then None else Some e)
      | Inr state \<Rightarrow>
          if now < hs_RollbackDeadline state then (c, False, None)
          else if hs_Status state = ''committed'' then (c, False, None)
          else (case Rollback (\<lambda>i. fault (Suc i)) ns (hs_MigrationID state) c of (c', e) \<Rightarrow> (c', True, e)))"

section \<open>The agent\<close>

text \<open>The part of the configuration that decides where the agent connects and as whom.\<close>

record agent_config =
  cf_Namespace :: string
  cf_PlatformEndpoint :: string
  cf_PlatformPublicEndpoint :: string
  cf_PlatformPrivateEndpoint :: string
  cf_InstallToken :: string
  cf_ClusterID :: string
  cf_AgentCredential :: string

definition getEnv :: "(string \<times> string) list \<Rightarrow> string \<Rightarrow> string \<Rightarrow> string" where
  "getEnv env key fallback = (let v = trim_space (sget env key) in if v = '''' then fallback else v)"

definition config_Load :: "(string \<times> string) list \<Rightarrow> string \<Rightarrow> agent_config" where
  "config_Load env ns = \<lparr>cf_Namespace = (if trim_space ns = '''' then ''hypercdr-agent'' else trim_space ns),
     cf_PlatformEndpoint = getEnv env ''HCDR_PLATFORM_ENDPOINT'' ''ws://127.0.0.1:8080/ws/agent'',
     cf_PlatformPublicEndpoint = sget env ''HCDR_PLATFORM_PUBLIC_ENDPOINT'',
     cf_PlatformPrivateEndpoint = sget env ''HCDR_PLATFORM_PRIVATE_ENDPOINT'',
     cf_InstallToken = sget env ''HCDR_INSTALL_TOKEN'', cf_ClusterID = sget env ''HCDR_CLUSTER_ID'',
     cf_AgentCredential = sget env ''HCDR_AGENT_CREDENTIAL''\<rparr>"

definition credential_Load :: "agent_objects \<Rightarrow> AgentCredential option" where
  "credential_Load o' = (case ao_Credential o' of None \<Rightarrow> None
     | Some data \<Rightarrow> let clusterID = sget data ''HCDR_CLUSTER_ID''; credential = sget data ''HCDR_AGENT_CREDENTIAL'' in
         if clusterID = '''' \<or> credential = '''' then None else Some \<lparr>ac_ClusterID = clusterID, ac_Credential = credential\<rparr>)"

text \<open>
  The configuration of a pod that starts: its environment is the bootstrap secret, and it waits until the secret with
  the credential can be read.
\<close>

definition agent_start :: "string \<Rightarrow> agent_objects \<Rightarrow> agent_config" where
  "agent_start ns o' =
     (let cfg = config_Load (case ao_Bootstrap o' of None \<Rightarrow> [] | Some data \<Rightarrow> data) ns in
      case credential_Load o' of None \<Rightarrow> cfg
      | Some saved \<Rightarrow> cfg\<lparr>cf_ClusterID := ac_ClusterID saved, cf_AgentCredential := ac_Credential saved, cf_InstallToken := ''''\<rparr>)"

definition orderedPlatformEndpoints :: "agent_config \<Rightarrow> string list" where
  "orderedPlatformEndpoints cfg = foldl (\<lambda>result v. let v = trim_space v in if v = '''' \<or> v \<in> set result then result else result @ [v])
     [] [cf_PlatformEndpoint cfg, cf_PlatformPublicEndpoint cfg, cf_PlatformPrivateEndpoint cfg]"

definition pinPlatformEndpoint :: "string \<Rightarrow> agent_config \<Rightarrow> agent_config" where
  "pinPlatformEndpoint endpoint cfg = cfg\<lparr>cf_PlatformEndpoint := trim_space endpoint, cf_PlatformPublicEndpoint := '''', cf_PlatformPrivateEndpoint := ''''\<rparr>"

text \<open>A registration that is accepted; \<open>dial\<close> is which endpoints can be reached.\<close>

definition agent_Register :: "(string \<Rightarrow> bool) \<Rightarrow> AgentCredential \<Rightarrow> agent_config \<Rightarrow> agent_config option" where
  "agent_Register dial accepted cfg =
     (if cf_AgentCredential cfg = '''' \<and> cf_InstallToken cfg = '''' then None
      else if cf_AgentCredential cfg \<noteq> '''' \<and> cf_ClusterID cfg = '''' then None
      else (case List.find dial (orderedPlatformEndpoints cfg) of None \<Rightarrow> None
        | Some endpoint \<Rightarrow> Some ((pinPlatformEndpoint endpoint cfg)\<lparr>cf_ClusterID := ac_ClusterID accepted,
            cf_AgentCredential := ac_Credential accepted, cf_InstallToken := ''''\<rparr>)))"

text \<open>The task: \<^const>\<open>None\<close> in the result is a completed task, otherwise the code of its failure.\<close>

definition handover_action ::
  "(string \<Rightarrow> (string \<times> string) option) \<Rightarrow> faults \<Rightarrow> gtime \<Rightarrow> agent_config \<Rightarrow> ControlPlaneHandoverCommand \<Rightarrow> cluster \<Rightarrow> cluster \<times> kube_error option" where
  "handover_action urlParse fault now cfg command c =
     (let ns = cf_Namespace cfg; m = cph_MigrationID command; action = cph_Action command in
      if action = ''prepare'' then Prepare urlParse fault now \<lparr>hi_MigrationID = m, hi_Namespace = ns,
        hi_PreviousEndpoint = cf_PlatformEndpoint cfg, hi_PreviousClusterID = cf_ClusterID cfg,
        hi_PreviousCredential = cf_AgentCredential cfg, hi_TargetEndpoint = cph_TargetEndpoint command,
        hi_TargetInstallToken = cph_TargetInstallToken command, hi_RollbackDeadline = cph_RollbackDeadline command\<rparr> c
      else if action = ''confirm'' then Confirm fault ns m c
      else if action = ''rollback'' then Rollback fault ns m c
      else if action = ''commit'' then Commit fault ns m c
      else if action = ''cleanup'' then Cleanup fault ns m c
      else (c, Some (KubeErrorf (''unsupported handover action '' @ action))))"

definition executeControlPlaneHandoverTask ::
  "(string \<Rightarrow> (string \<times> string) option) \<Rightarrow> faults \<Rightarrow> gtime \<Rightarrow> agent_config \<Rightarrow> ControlPlaneHandoverCommand option \<Rightarrow> cluster \<Rightarrow> cluster \<times> string option" where
  "executeControlPlaneHandoverTask urlParse fault now cfg command c = (case command of
     None \<Rightarrow> (c, Some ''HANDOVER_COMMAND_INVALID'')
   | Some command \<Rightarrow>
       if trim_space (cph_MigrationID command) = '''' then (c, Some ''HANDOVER_COMMAND_INVALID'')
       else (case handover_action urlParse fault now cfg command c of
           (c', None) \<Rightarrow> (c', None)
         | (c', Some _) \<Rightarrow> (c', Some ''CONTROL_PLANE_HANDOVER_FAILED'')))"

section \<open>Runs\<close>

text \<open>
  What can happen to an agent: a task, a tick of \<^verbatim>\<open>watchHandoverDeadline\<close> (or its check at the start), a new pod, and a
  registration, after which the credential is written to its secret.
  Events follow one another: in the code the credential is written by a goroutine of its own
  (\<^verbatim>\<open>persistCredentialWithRetry\<close>), whose overlap with another event is not modelled.
\<close>

datatype handover_event =
    HandoverTask faults gtime "ControlPlaneHandoverCommand option"
  | DeadlineTick faults gtime
  | PodRestart
  | Registered "string \<Rightarrow> bool" AgentCredential faults

fun handover_step :: "(string \<Rightarrow> (string \<times> string) option) \<Rightarrow> handover_event \<Rightarrow> cluster \<times> agent_config \<Rightarrow> cluster \<times> agent_config" where
  "handover_step urlParse (HandoverTask fault now command) (c, cfg) = (fst (executeControlPlaneHandoverTask urlParse fault now cfg command c), cfg)"
| "handover_step urlParse (DeadlineTick fault now) (c, cfg) = (fst (RollbackExpired fault (cf_Namespace cfg) now c), cfg)"
| "handover_step urlParse PodRestart (c, cfg) = (c, agent_start (cf_Namespace cfg) (c (cf_Namespace cfg)))"
| "handover_step urlParse (Registered dial accepted fault) (c, cfg) = (case agent_Register dial accepted cfg of
     None \<Rightarrow> (c, cfg)
   | Some cfg' \<Rightarrow> (fst (credential_save fault 0 (cf_Namespace cfg') accepted c), cfg'))"

definition handover_run :: "(string \<Rightarrow> (string \<times> string) option) \<Rightarrow> handover_event list \<Rightarrow> cluster \<times> agent_config \<Rightarrow> cluster \<times> agent_config" where
  "handover_run urlParse events s = fold (handover_step urlParse) events s"

section \<open>What the calls keep\<close>

text \<open>A relation between clusters that every call of a sequence and every event of a run keeps.\<close>

locale kept =
  fixes R :: "cluster \<Rightarrow> cluster \<Rightarrow> bool"
  assumes kept_refl: "R c c"
    and kept_trans: "R c c' \<Longrightarrow> R c' c'' \<Longrightarrow> R c c''"
begin

lemma in_turn_kept:
  assumes "\<And>call c. call \<in> set calls \<Longrightarrow> R c (fst (call c))"
  shows "R c (fst (in_turn calls c))"
  using assms
proof (induction calls arbitrary: c)
  case (Cons call calls)
  obtain c' e where call: "call c = (c', e)" by (rule prod.exhaust)
  have "R c c'" using Cons.prems [of call c] call by simp
  moreover have "R c' (fst (in_turn calls c'))" using Cons by simp
  ultimately show ?case by (cases e) (auto simp: call intro: kept_trans)
qed (simp add: kept_refl)

lemma run_kept:
  assumes "\<And>event s. P event \<Longrightarrow> R (fst s) (fst (handover_step urlParse event s))" "list_all P events"
  shows "R (fst s) (fst (handover_run urlParse events s))"
  using assms(2)
proof (induction events arbitrary: s)
  case (Cons event events)
  then have "R (fst s) (fst (handover_step urlParse event s))"
    "R (fst (handover_step urlParse event s)) (fst (handover_run urlParse events (handover_step urlParse event s)))"
    using assms(1) by auto
  then show ?case by (auto simp: handover_run_def intro: kept_trans)
qed (simp add: handover_run_def kept_refl)

end

text \<open>What a rollback needs: the material up to its status, or none, and the objects it writes to.\<close>

definition material :: "ControlPlaneHandoverState \<Rightarrow> ControlPlaneHandoverState" where
  "material state = state\<lparr>hs_Status := ''''\<rparr>"

definition later_objects :: "agent_objects \<Rightarrow> agent_objects \<Rightarrow> bool" where
  "later_objects o1 o2 \<longleftrightarrow>
     (ao_Handover o2 = None \<or> map_option (map_option material) (ao_Handover o2) = map_option (map_option material) (ao_Handover o1)) \<and>
     (ao_Bootstrap o2 = None \<longrightarrow> ao_Bootstrap o1 = None) \<and> (ao_Deployment o2 = None \<longrightarrow> ao_Deployment o1 = None)"

lemma later_refl [simp]: "later_objects o' o'"
  by (simp add: later_objects_def)

lemma later_trans: "later_objects o1 o2 \<Longrightarrow> later_objects o2 o3 \<Longrightarrow> later_objects o1 o3"
  unfolding later_objects_def by (metis option.map_disc_iff)

interpretation material: kept "\<lambda>c c'. \<forall>ns. later_objects (c ns) (c' ns)"
  by unfold_locales (auto intro: later_trans)

lemma later_updates [simp]:
  "later_objects o' (o'\<lparr>ao_Bootstrap := Some data\<rparr>)" "later_objects o' (o'\<lparr>ao_Credential := credential\<rparr>)"
  "later_objects o' (o'\<lparr>ao_Handover := None\<rparr>)" "later_objects o' (o'\<lparr>ao_Deployment := map_option f (ao_Deployment o')\<rparr>)"
  by (auto simp: later_objects_def)

lemma write_later:
  assumes "later_objects (c ns) (change (c ns))"
  shows "later_objects (c n) (fst (write_objects fault i ns change c) n)"
  using assms by (simp add: write_objects_def split: option.splits fault.splits)

lemma calls_later:
  "later_objects (c n) (fst (writeBootstrap fault i ns endpoint token c) n)"
  "later_objects (c n) (fst (credential_save fault i ns saved c) n)"
  "later_objects (c n) (fst (writeCredential fault i ns clusterID credential c) n)"
  "later_objects (c n) (fst (delete_handover fault i ns c) n)"
  "later_objects (c n) (fst (delete_credential fault i ns c) n)"
  "later_objects (c n) (fst (handover_restart fault i ns reason c) n)"
  by (simp_all add: writeBootstrap_def writeCredential_def credential_save_def delete_handover_def delete_credential_def
      handover_restart_def write_later split: option.splits)

lemma save_later:
  assumes "handover_load fault' j ns c = Inr state"
  shows "later_objects (c n) (fst (handover_save fault i ns (state\<lparr>hs_Status := status\<rparr>) c) n)"
proof -
  have "later_objects (c ns) ((c ns)\<lparr>ao_Handover := Some (Some (state\<lparr>hs_Status := status\<rparr>))\<rparr>)"
    using assms by (auto simp: handover_load_def later_objects_def material_def split: option.splits)
  then show ?thesis by (auto simp: handover_save_def split: option.splits intro!: write_later)
qed

lemma in_turn_later:
  assumes "list_all (\<lambda>call. \<forall>c n. later_objects (c n) (fst (call c) n)) calls"
  shows "later_objects (c n) (fst (in_turn calls c) n)"
  using material.in_turn_kept [of calls c] assms by (auto simp: list_all_iff)

lemma canonical_idem [simp]: "canonicalNamespace (canonicalNamespace ns) = canonicalNamespace ns"
  by (simp add: canonicalNamespace_def)

lemma required_loaded: "requireState fault i ns m c = Inr state \<Longrightarrow> handover_load fault i (canonicalNamespace ns) c = Inr state \<and> hs_MigrationID state = m"
  by (auto simp: requireState_def split: sum.splits if_splits)

lemma operations_later:
  "later_objects (c n) (fst (Confirm fault ns m c) n)"
  "later_objects (c n) (fst (Commit fault ns m c) n)"
  "later_objects (c n) (fst (Cleanup fault ns m c) n)"
  "later_objects (c n) (fst (Rollback fault ns m c) n)"
  "later_objects (c n) (fst (RollbackExpired fault ns now c) n)"
proof -
  show "later_objects (c n) (fst (Confirm fault ns m c) n)"
    by (auto simp: Confirm_def dest: required_loaded intro: save_later split: sum.splits)
  show "later_objects (c n) (fst (Commit fault ns m c) n)"
    by (auto simp: Commit_def Let_def dest!: required_loaded intro: save_later split: sum.splits)
  show "later_objects (c n) (fst (Cleanup fault ns m c) n)"
    by (simp add: Cleanup_def Let_def calls_later split: sum.splits)
  have r: "later_objects (c n) (fst (Rollback fault ns m c) n)" for fault ns m
  proof (cases "requireState fault 0 (canonicalNamespace ns) m c")
    case (Inr state)
    show ?thesis unfolding Rollback_def Let_def Inr sum.case by (rule in_turn_later) (simp add: calls_later)
  qed (simp add: Rollback_def Let_def)
  show "later_objects (c n) (fst (Rollback fault ns m c) n)" by (rule r)
  show "later_objects (c n) (fst (RollbackExpired fault ns now c) n)"
    using r [of "\<lambda>i. fault (Suc i)"] by (simp add: RollbackExpired_def Let_def case_prod_beta split: sum.splits)
qed

definition prepares :: "handover_event \<Rightarrow> bool" where
  "prepares event = (case event of HandoverTask _ _ (Some command) \<Rightarrow> cph_Action command = ''prepare'' | _ \<Rightarrow> False)"

lemma action_later:
  assumes "cph_Action command \<noteq> ''prepare''"
  shows "later_objects (c n) (fst (handover_action urlParse fault now cfg command c) n)"
  using assms by (simp add: handover_action_def Let_def operations_later)

lemma task_action:
  "fst (executeControlPlaneHandoverTask urlParse fault now cfg command c) = (case command of None \<Rightarrow> c
     | Some cmd \<Rightarrow> if trim_space (cph_MigrationID cmd) = '''' then c else fst (handover_action urlParse fault now cfg cmd c))"
  by (auto simp: executeControlPlaneHandoverTask_def split: option.splits prod.splits)

lemma step_later:
  assumes "\<not> prepares event"
  shows "later_objects (fst s n) (fst (handover_step urlParse event s) n)"
proof (cases s)
  case (Pair c cfg)
  show ?thesis unfolding Pair
  proof (cases event)
    case (HandoverTask fault now command)
    then show "later_objects (fst (c, cfg) n) (fst (handover_step urlParse event (c, cfg)) n)"
      using assms by (auto simp: task_action prepares_def action_later split: option.splits)
  qed (auto simp: operations_later calls_later split: option.splits)
qed

section \<open>Where the agent connects\<close>

text \<open>The agent connects to an endpoint as a cluster it is registered as.\<close>

definition connects_as :: "string \<Rightarrow> string \<Rightarrow> string \<Rightarrow> agent_config \<Rightarrow> bool" where
  "connects_as endpoint clusterID credential cfg \<longleftrightarrow> cf_PlatformEndpoint cfg = endpoint \<and> cf_InstallToken cfg = '''' \<and>
     cf_ClusterID cfg = clusterID \<and> cf_AgentCredential cfg = credential"

definition connects_back :: "ControlPlaneHandoverState \<Rightarrow> string \<Rightarrow> agent_objects \<Rightarrow> bool" where
  "connects_back state ns o' \<longleftrightarrow>
     connects_as (trim_space (hs_PreviousEndpoint state)) (hs_PreviousClusterID state) (hs_PreviousCredential state) (agent_start ns o')"

text \<open>A connection that can be taken up again.\<close>

definition usable :: "ControlPlaneHandoverState \<Rightarrow> bool" where
  "usable state \<longleftrightarrow> trim_space (hs_PreviousEndpoint state) \<noteq> '''' \<and> hs_PreviousClusterID state \<noteq> '''' \<and> hs_PreviousCredential state \<noteq> ''''"

lemma sget_update: "sget (AList.update k v al) k' = (if k' = k then v else sget al k')"
  by (simp add: sget_def update_conv')

text \<open>The two secrets as a rollback writes them.\<close>

definition bootstrap_back :: "ControlPlaneHandoverState \<Rightarrow> agent_objects \<Rightarrow> bool" where
  "bootstrap_back state o' \<longleftrightarrow> (\<exists>data. ao_Bootstrap o' = Some data \<and>
     sget data ''HCDR_PLATFORM_ENDPOINT'' = hs_PreviousEndpoint state \<and> sget data ''HCDR_INSTALL_TOKEN'' = '''')"

definition credential_back :: "ControlPlaneHandoverState \<Rightarrow> agent_objects \<Rightarrow> bool" where
  "credential_back state o' \<longleftrightarrow> (\<exists>data. ao_Credential o' = Some data \<and>
     sget data ''HCDR_CLUSTER_ID'' = hs_PreviousClusterID state \<and> sget data ''HCDR_AGENT_CREDENTIAL'' = hs_PreviousCredential state)"

lemma written_back:
  assumes "usable state" "bootstrap_back state o'" "credential_back state o'"
  shows "connects_back state ns o'"
  using assms by (auto simp: connects_back_def connects_as_def usable_def agent_start_def credential_Load_def config_Load_def getEnv_def
      bootstrap_back_def credential_back_def Let_def)

text \<open>A handover under way, with the objects a rollback writes to.\<close>

definition pending :: "ControlPlaneHandoverState \<Rightarrow> agent_objects \<Rightarrow> bool" where
  "pending state o' \<longleftrightarrow> ao_Handover o' = Some (Some state) \<and> ao_Bootstrap o' \<noteq> None \<and> ao_Deployment o' \<noteq> None"

lemma write_cases:
  "write_objects fault i ns change c = (c', e) \<Longrightarrow> c' ns = change (c ns) \<or> c' ns = c ns \<and> e \<noteq> None"
  by (auto simp: write_objects_def split: option.splits fault.splits)

lemma bootstrap_outcome:
  assumes "writeBootstrap fault i ns (hs_PreviousEndpoint state) '''' c = (c', e)" "pending state (c ns)"
  shows "pending state (c' ns) \<and> (e = None \<longrightarrow> bootstrap_back state (c' ns))"
  using assms by (auto simp: writeBootstrap_def pending_def bootstrap_back_def sget_update dest!: write_cases split: option.splits)

lemma credential_outcome:
  assumes "writeCredential fault i ns (hs_PreviousClusterID state) (hs_PreviousCredential state) c = (c', e)"
    and "pending state (c ns)" "bootstrap_back state (c ns)"
  shows "pending state (c' ns) \<and> bootstrap_back state (c' ns) \<and> (e = None \<longrightarrow> credential_back state (c' ns))"
  using assms by (auto simp: writeCredential_def credential_save_def pending_def bootstrap_back_def credential_back_def sget_update
      dest!: write_cases split: option.splits)

lemma delete_outcome:
  assumes "delete_handover fault i ns c = (c', e)" "pending state (c ns)" "bootstrap_back state (c ns)" "credential_back state (c ns)"
  shows "(e \<noteq> None \<and> pending state (c' ns) \<or> ao_Handover (c' ns) = None \<and> ao_Deployment (c' ns) \<noteq> None) \<and>
    bootstrap_back state (c' ns) \<and> credential_back state (c' ns)"
  using assms by (auto simp: delete_handover_def pending_def bootstrap_back_def credential_back_def dest!: write_cases)

lemma restart_outcome:
  assumes "handover_restart fault i ns reason c = (c', e)" "bootstrap_back state (c ns)" "credential_back state (c ns)"
  shows "ao_Handover (c' ns) = ao_Handover (c ns) \<and> bootstrap_back state (c' ns) \<and> credential_back state (c' ns)"
  using assms by (auto simp: handover_restart_def bootstrap_back_def credential_back_def dest!: write_cases split: if_splits)

lemma in_turn_steps:
  assumes "a c = (c1, e1)" "b c1 = (c2, e2)" "d c2 = (c3, e3)" "r c3 = (c4, e4)"
  shows "fst (in_turn [a, b, d, r] c) = (if e1 \<noteq> None then c1 else if e2 \<noteq> None then c2 else if e3 \<noteq> None then c3 else c4)"
  using assms by (auto split: option.splits)

text \<open>A rollback either leaves the material or has restored the connection: it deletes the material last.\<close>

definition settled :: "ControlPlaneHandoverState \<Rightarrow> string \<Rightarrow> agent_objects \<Rightarrow> bool" where
  "settled state ns o' \<longleftrightarrow> ao_Handover o' = None \<and> connects_back state ns o'"

lemma rollback_outcome:
  assumes "pending state (c ns)" "usable state" "canonicalNamespace ns = ns" "Rollback fault ns (hs_MigrationID state) c = (c', e)"
  shows "pending state (c' ns) \<or> settled state ns (c' ns)"
proof (cases "fault 0")
  case None
  with assms have run: "in_turn [writeBootstrap fault 1 ns (hs_PreviousEndpoint state) '''',
      writeCredential fault 3 ns (hs_PreviousClusterID state) (hs_PreviousCredential state), delete_handover fault 5 ns,
      handover_restart fault 6 ns (''rollback-'' @ hs_MigrationID state)] c = (c', e)"
    by (simp add: Rollback_def Let_def requireState_def handover_load_def pending_def del: in_turn.simps)
  obtain c1 e1 where b: "writeBootstrap fault 1 ns (hs_PreviousEndpoint state) '''' c = (c1, e1)" by (rule prod.exhaust)
  obtain c2 e2 where w: "writeCredential fault 3 ns (hs_PreviousClusterID state) (hs_PreviousCredential state) c1 = (c2, e2)" by (rule prod.exhaust)
  obtain c3 e3 where d: "delete_handover fault 5 ns c2 = (c3, e3)" by (rule prod.exhaust)
  obtain c4 e4 where r: "handover_restart fault 6 ns (''rollback-'' @ hs_MigrationID state) c3 = (c4, e4)" by (rule prod.exhaust)
  note o1 = bootstrap_outcome [OF b assms(1)]
  have "fst (c', e) = (if e1 \<noteq> None then c1 else if e2 \<noteq> None then c2 else if e3 \<noteq> None then c3 else c4)"
    unfolding run [symmetric] by (rule in_turn_steps) (rule b w d r)+
  then have c': "c' = (if e1 \<noteq> None then c1 else if e2 \<noteq> None then c2 else if e3 \<noteq> None then c3 else c4)" by simp
  show ?thesis
  proof (cases "e1 = None \<and> e2 = None")
    case True
    then have p2: "pending state (c2 ns)" "bootstrap_back state (c2 ns)" "credential_back state (c2 ns)"
      using o1 credential_outcome [OF w] by auto
    note o3 = delete_outcome [OF d p2]
    have o4: "ao_Handover (c4 ns) = ao_Handover (c3 ns)" "bootstrap_back state (c4 ns)" "credential_back state (c4 ns)"
      using restart_outcome [OF r] o3 by auto
    show ?thesis using c' True o3 o4 written_back [OF assms(2)] by (auto simp: settled_def)
  next
    case False
    then show ?thesis using c' o1 credential_outcome [OF w] by auto
  qed
qed (use assms in \<open>simp add: Rollback_def Let_def requireState_def handover_load_def\<close>)

lemma rollback_succeeds:
  assumes "pending state (c ns)" "usable state" "canonicalNamespace ns = ns"
  shows "\<exists>c'. Rollback no_faults ns (hs_MigrationID state) c = (c', None) \<and> settled state ns (c' ns) \<and>
    ao_Deployment (c' ns) = map_option (\<lambda>rs. rs @ [''rollback-'' @ hs_MigrationID state]) (ao_Deployment (c ns))"
proof -
  obtain data rs where o': "ao_Handover (c ns) = Some (Some state)" "ao_Bootstrap (c ns) = Some data" "ao_Deployment (c ns) = Some rs"
    using assms(1) by (auto simp: pending_def)
  obtain c' e where r: "Rollback no_faults ns (hs_MigrationID state) c = (c', e)" by (rule prod.exhaust)
  then have "e = None \<and> ao_Handover (c' ns) = None \<and> ao_Deployment (c' ns) = Some (rs @ [''rollback-'' @ hs_MigrationID state])"
    using o' assms(3) by (auto simp: Rollback_def Let_def requireState_def handover_load_def writeBootstrap_def writeCredential_def
        credential_save_def delete_handover_def handover_restart_def write_objects_def)
  then show ?thesis using r rollback_outcome [OF assms r] o' by (auto simp: pending_def settled_def)
qed

section \<open>Properties\<close>

text \<open>The calls of a preparation after the first keep the material it saved.\<close>

interpretation pending: kept "\<lambda>c c'. \<forall>state ns. pending state (c ns) \<longrightarrow> pending state (c' ns)"
  by unfold_locales auto

lemma calls_pending:
  assumes "pending state (c n)"
  shows "pending state (fst (writeBootstrap fault i ns endpoint token c) n)" "pending state (fst (delete_credential fault i ns c) n)"
    "pending state (fst (handover_restart fault i ns reason c) n)"
  using assms by (auto simp: writeBootstrap_def delete_credential_def handover_restart_def write_objects_def pending_def
      split: option.splits fault.splits)

lemma prepare_saves:
  assumes "Prepare urlParse fault now input c = (c', e)" "ns = ''hypercdr-agent''"
    and "ao_Handover (c ns) = None" "ao_Bootstrap (c ns) \<noteq> None" "ao_Handover (c' ns) \<noteq> None"
  shows "pending (prepared_state input) (c' ns)"
proof -
  let ?rest = "[writeBootstrap fault 4 ns (hi_TargetEndpoint input) (hi_TargetInstallToken input), delete_credential fault 6 ns,
           handover_restart fault 7 ns (''prepare-'' @ hi_MigrationID input)]"
  have "c' \<noteq> c" using assms(3,5) by auto
  then have d: "ao_Deployment (c ns) \<noteq> None"
    and run: "in_turn (handover_save fault 2 ns (prepared_state input) # ?rest) c = (c', e)"
    using assms(1,2) by (auto simp: Prepare_def Let_def simp del: in_turn.simps split: if_splits option.splits)
  obtain c1 e1 where s: "handover_save fault 2 ns (prepared_state input) c = (c1, e1)" by (rule prod.exhaust)
  have c1: "pending (prepared_state input) (c1 ns) \<or> c1 ns = c ns \<and> e1 \<noteq> None"
    using s d assms(4) by (auto simp: handover_save_def pending_def dest!: write_cases split: option.splits)
  show ?thesis
  proof (cases e1)
    case None
    then have "c' = fst (in_turn ?rest c1)" using run s by (simp only: in_turn.simps option.case prod.case) simp
    moreover have "pending (prepared_state input) (fst (in_turn ?rest c1) ns)"
      by (rule pending.in_turn_kept [rule_format]) (use c1 None calls_pending in auto)
    ultimately show ?thesis by simp
  next
    case (Some e')
    then have "c' = c1" using run s by simp
    then show ?thesis using c1 assms(3,5) by auto
  qed
qed

text \<open>C6: A handover can be undone until its material is removed. After a preparation, complete or broken off at any
  call, and whatever happens to the agent then except another preparation (confirmation, commitment, failed
  rollbacks, restarts of the pod, registrations at the new control plane, calls that fail or whose answer is
  lost), as long as the material is there a rollback succeeds where the API answers: the agent then starts
  with the endpoint, the cluster and the credential it had before, and the material is gone.\<close>

theorem handover_reversible:
  assumes "Prepare urlParse fault now input c0 = (c1, err)" "ns = ''hypercdr-agent''"
    and "ao_Handover (c0 ns) = None" "ao_Bootstrap (c0 ns) \<noteq> None" "usable (prepared_state input)"
    and "list_all (\<lambda>event. \<not> prepares event) events" "handover_run urlParse events (c1, cfg) = (c2, cfg2)"
    and "ao_Handover (c2 ns) \<noteq> None"
  shows "\<exists>c3. Rollback no_faults ns (hi_MigrationID input) c2 = (c3, None) \<and> ao_Handover (c3 ns) = None \<and>
    connects_as (trim_space (hi_PreviousEndpoint input)) (hi_PreviousClusterID input) (hi_PreviousCredential input) (agent_start ns (c3 ns))"
proof -
  have later: "later_objects (c1 ns) (c2 ns)"
    using material.run_kept [of "\<lambda>event. \<not> prepares event" urlParse events "(c1, cfg)"] step_later assms(6,7) by auto
  then have "ao_Handover (c1 ns) \<noteq> None" using assms(8) unfolding later_objects_def by (metis option.map_disc_iff)
  then have p: "pending (prepared_state input) (c1 ns)" using prepare_saves [OF assms(1-4)] by blast
  with later assms(8) obtain state where state: "ao_Handover (c2 ns) = Some (Some state)" "material state = material (prepared_state input)"
    by (auto simp: later_objects_def pending_def)
  have eqs: "hs_MigrationID state = hi_MigrationID input" "hs_PreviousEndpoint state = hi_PreviousEndpoint input"
    "hs_PreviousClusterID state = hi_PreviousClusterID input" "hs_PreviousCredential state = hi_PreviousCredential input"
    using state(2) by (cases state; simp add: material_def prepared_state_def)+
  have "pending state (c2 ns)" using p later state(1) by (auto simp: later_objects_def pending_def)
  moreover have "usable state" using assms(5) eqs by (simp add: usable_def prepared_state_def)
  moreover have "canonicalNamespace ns = ns" using assms(2) by (simp add: canonicalNamespace_def)
  ultimately show ?thesis using rollback_succeeds [of state c2 ns] eqs by (auto simp: settled_def connects_back_def)
qed

text \<open>A tick after the deadline, for a handover that is not committed.\<close>

lemma tick_outcome:
  assumes "pending state (c ns) \<or> settled state ns (c ns)" "usable state" "canonicalNamespace ns = ns"
    and "hs_Status state \<noteq> ''committed''" "hs_RollbackDeadline state \<le> now"
  shows "pending state (fst (RollbackExpired fault ns now c) ns) \<or> settled state ns (fst (RollbackExpired fault ns now c) ns)"
    and "settled state ns (fst (RollbackExpired no_faults ns now c) ns)"
proof -
  have idle: "fst (RollbackExpired fault ns now c) = c" if "ao_Handover (c ns) = None" for fault
    using that assms(3) by (auto simp: RollbackExpired_def Let_def handover_load_def split: option.splits)
  have roll: "fst (RollbackExpired fault ns now c) = (if fault 0 = None then fst (Rollback (\<lambda>i. fault (Suc i)) ns (hs_MigrationID state) c) else c)"
    if "pending state (c ns)" for fault
    using that assms(3-5) by (auto simp: RollbackExpired_def Let_def handover_load_def pending_def split: option.splits prod.splits)
  show "pending state (fst (RollbackExpired fault ns now c) ns) \<or> settled state ns (fst (RollbackExpired fault ns now c) ns)"
  proof (cases "pending state (c ns)")
    case True
    obtain c1 e where r: "Rollback (\<lambda>i. fault (Suc i)) ns (hs_MigrationID state) c = (c1, e)" by (rule prod.exhaust)
    show ?thesis using rollback_outcome [where c = c and ns = ns, OF True assms(2,3) r] True by (simp add: roll r)
  next
    case False
    then show ?thesis using assms(1) by (simp add: idle settled_def)
  qed
  show "settled state ns (fst (RollbackExpired no_faults ns now c) ns)"
  proof (cases "pending state (c ns)")
    case True
    then show ?thesis using rollback_succeeds [where c = c and ns = ns, OF True assms(2,3)] by (auto simp: roll)
  next
    case False
    then show ?thesis using assms(1) by (simp add: idle settled_def)
  qed
qed

text \<open>
  A rollback that loses neither the answer to the deletion of the material nor the restart restarts the deployment once the
  material is gone.
\<close>

definition restarted :: "ControlPlaneHandoverState \<Rightarrow> agent_objects \<Rightarrow> bool" where
  "restarted state o' \<longleftrightarrow> (\<exists>rs. ao_Deployment o' = Some (rs @ [''rollback-'' @ hs_MigrationID state]))"

definition reaches_restart :: "faults \<Rightarrow> bool" where
  "reaches_restart fault \<longleftrightarrow> fault 7 = None \<and> (\<forall>e. fault 6 \<noteq> Some (Unanswered e))"

lemma rollback_restarts:
  assumes "pending state (c ns)" "canonicalNamespace ns = ns" "Rollback fault ns (hs_MigrationID state) c = (c', e)" "ao_Handover (c' ns) = None"
    and "fault 6 = None" "\<And>e. fault 5 \<noteq> Some (Unanswered e)"
  shows "restarted state (c' ns)"
proof -
  obtain data rs where o': "ao_Handover (c ns) = Some (Some state)" "ao_Bootstrap (c ns) = Some data" "ao_Deployment (c ns) = Some rs"
    using assms(1) by (auto simp: pending_def)
  obtain c1 e1 where b: "writeBootstrap fault 1 ns (hs_PreviousEndpoint state) '''' c = (c1, e1)" by (rule prod.exhaust)
  obtain c2 e2 where w: "writeCredential fault 3 ns (hs_PreviousClusterID state) (hs_PreviousCredential state) c1 = (c2, e2)" by (rule prod.exhaust)
  obtain c3 e3 where d: "delete_handover fault 5 ns c2 = (c3, e3)" by (rule prod.exhaust)
  obtain c4 e4 where r: "handover_restart fault 6 ns (''rollback-'' @ hs_MigrationID state) c3 = (c4, e4)" by (rule prod.exhaust)
  have k1: "ao_Handover (c1 ns) = Some (Some state) \<and> ao_Deployment (c1 ns) = Some rs"
    using b o' by (auto simp: writeBootstrap_def dest!: write_cases split: if_splits option.splits)
  have k2: "ao_Handover (c2 ns) = Some (Some state) \<and> ao_Deployment (c2 ns) = Some rs"
    using w k1 by (auto simp: writeCredential_def credential_save_def dest!: write_cases split: if_splits option.splits)
  have k3: "ao_Deployment (c3 ns) = Some rs \<and> (ao_Handover (c3 ns) = None \<longrightarrow> e3 = None)"
    using d k2 assms(6) by (auto simp: delete_handover_def write_objects_def split: option.splits fault.splits)
  have "(c', e) = (if fault 0 \<noteq> None then (c, e) else if e1 \<noteq> None then (c1, e1) else if e2 \<noteq> None then (c2, e2) else if e3 \<noteq> None then (c3, e3)
      else (c4, e4))"
    using assms(2,3) o' b w d r by (auto simp: Rollback_def Let_def requireState_def handover_load_def split: option.splits)
  moreover have "ao_Deployment (c4 ns) = Some (rs @ [''rollback-'' @ hs_MigrationID state])"
    using r k3 assms(5) by (auto simp: handover_restart_def write_objects_def split: if_splits)
  ultimately show ?thesis using assms(4) o' k1 k2 k3 by (auto simp: restarted_def split: if_splits)
qed

lemma tick_restarts:
  assumes "pending state (c ns) \<or> ao_Handover (c ns) = None \<and> restarted state (c ns)" "canonicalNamespace ns = ns"
    and "hs_Status state \<noteq> ''committed''" "hs_RollbackDeadline state \<le> now" "reaches_restart fault"
    and "ao_Handover (fst (RollbackExpired fault ns now c) ns) = None"
  shows "restarted state (fst (RollbackExpired fault ns now c) ns)"
proof (cases "pending state (c ns)")
  case True
  obtain c1 e where r: "Rollback (\<lambda>i. fault (Suc i)) ns (hs_MigrationID state) c = (c1, e)" by (rule prod.exhaust)
  have "fst (RollbackExpired fault ns now c) = (if fault 0 = None then c1 else c)"
    using True assms(2-4) r by (auto simp: RollbackExpired_def Let_def handover_load_def pending_def split: option.splits prod.splits)
  moreover have "ao_Handover (c ns) \<noteq> None" using True by (simp add: pending_def)
  ultimately show ?thesis using assms(6) rollback_restarts [OF True assms(2) r] assms(5) by (auto simp: reaches_restart_def split: if_splits)
next
  case False
  then have "fst (RollbackExpired fault ns now c) = c"
    using assms(1,2) by (auto simp: RollbackExpired_def Let_def handover_load_def split: option.splits)
  then show ?thesis using False assms(1) by simp
qed

text \<open>The state after any number of checks past the deadline.\<close>

lemma ticks_outcome:
  assumes "pending state (c ns) \<or> settled state ns (c ns)" "usable state" "hs_Status state \<noteq> ''committed''" "cf_Namespace cfg = ns"
    and "canonicalNamespace ns = ns" "list_all (\<lambda>(fault, now). hs_RollbackDeadline state \<le> now) ticks"
  shows "\<exists>c1. handover_run urlParse (map (\<lambda>(fault, now). DeadlineTick fault now) ticks) (c, cfg) = (c1, cfg) \<and>
    (pending state (c1 ns) \<or> settled state ns (c1 ns)) \<and>
    (list_all (\<lambda>(fault, now). reaches_restart fault) ticks \<and> (pending state (c ns) \<or> restarted state (c ns)) \<longrightarrow>
      pending state (c1 ns) \<or> restarted state (c1 ns))"
  using assms(1,6)
proof (induction ticks arbitrary: c)
  case (Cons tick ticks)
  obtain fault t where tick: "tick = (fault, t)" by (rule prod.exhaust)
  define c2 where "c2 = fst (RollbackExpired fault ns t c)"
  have late: "hs_RollbackDeadline state \<le> t" "list_all (\<lambda>(fault, now). hs_RollbackDeadline state \<le> now) ticks" using Cons.prems(2) tick by auto
  have o2: "pending state (c2 ns) \<or> settled state ns (c2 ns)" unfolding c2_def
    by (rule tick_outcome(1)) (use assms(2,3,5) Cons.prems late in auto)
  have r2: "pending state (c2 ns) \<or> restarted state (c2 ns)"
    if "reaches_restart fault" "pending state (c ns) \<or> restarted state (c ns)"
  proof (cases "pending state (c2 ns)")
    case False
    then have "ao_Handover (c2 ns) = None" using o2 by (simp add: settled_def)
    then have "restarted state (c2 ns)" unfolding c2_def
      by (intro tick_restarts) (use that Cons.prems(1) assms(3,5) late in \<open>auto simp: settled_def\<close>)
    then show ?thesis ..
  qed simp
  from Cons.IH [where c = c2, OF o2 late(2)] obtain c1 where
    "handover_run urlParse (map (\<lambda>(fault, now). DeadlineTick fault now) ticks) (c2, cfg) = (c1, cfg)"
    "pending state (c1 ns) \<or> settled state ns (c1 ns)"
    "list_all (\<lambda>(fault, now). reaches_restart fault) ticks \<and> (pending state (c2 ns) \<or> restarted state (c2 ns)) \<longrightarrow> pending state (c1 ns) \<or> restarted state (c1 ns)"
    by blast
  then show ?case using r2 by (intro exI [of _ c1]) (auto simp: handover_run_def tick c2_def assms(4))
qed (simp add: handover_run_def)

text \<open>C7: The deadline is kept. For a handover that is not committed in time, once a check after the deadline finds the API
  answering, the agent's secrets are those of its old control plane and the material is gone, however many
  earlier checks failed and wherever they broke off. If no earlier check failed at its last call, the
  restart, or lost the answer to the one before, the deletion of the material, the deployment has been
  restarted for the rollback, so that the running agent takes up its old connection; after such a failure it
  is not (\<open>rollback_restart_lost\<close>).\<close>

theorem deadline_enforced:
  assumes "pending state (c ns)" "usable state" "hs_Status state \<noteq> ''committed''"
    and "cf_Namespace cfg = ns" "canonicalNamespace ns = ns"
    and "list_all (\<lambda>(fault, now). hs_RollbackDeadline state \<le> now) ticks" "hs_RollbackDeadline state \<le> now"
    and "handover_run urlParse (map (\<lambda>(fault, now). DeadlineTick fault now) ticks @ [DeadlineTick no_faults now]) (c, cfg) = (c', cfg')"
  shows "ao_Handover (c' ns) = None \<and>
    connects_as (trim_space (hs_PreviousEndpoint state)) (hs_PreviousClusterID state) (hs_PreviousCredential state) (agent_start ns (c' ns)) \<and>
    ((\<forall>(fault, now) \<in> set ticks. fault 7 = None \<and> (\<forall>e. fault 6 \<noteq> Some (Unanswered e))) \<longrightarrow>
      (\<exists>rs. ao_Deployment (c' ns) = Some (rs @ [''rollback-'' @ hs_MigrationID state])))"
proof -
  obtain c1 where c1: "handover_run urlParse (map (\<lambda>(fault, now). DeadlineTick fault now) ticks) (c, cfg) = (c1, cfg)"
    "pending state (c1 ns) \<or> settled state ns (c1 ns)"
    "list_all (\<lambda>(fault, now). reaches_restart fault) ticks \<and> (pending state (c ns) \<or> restarted state (c ns)) \<longrightarrow> pending state (c1 ns) \<or> restarted state (c1 ns)"
    using ticks_outcome [where c = c and ns = ns and urlParse = urlParse, OF _ assms(2-6)] assms(1) by blast
  have c': "c' = fst (RollbackExpired no_faults ns now c1)" using assms(4,8) c1(1) by (simp add: handover_run_def)
  note final = tick_outcome(2) [where c = c1 and ns = ns, OF c1(2) assms(2,5,3,7), folded c']
  have "restarted state (c' ns)" if "list_all (\<lambda>(fault, now). reaches_restart fault) ticks"
    unfolding c' by (rule tick_restarts)
      (use that c1(2,3) assms(1,3,5,7) final in \<open>auto simp: c' settled_def reaches_restart_def\<close>)
  then show ?thesis using final by (simp add: settled_def connects_back_def restarted_def reaches_restart_def list_all_iff)
qed

text \<open>What a committed handover keeps: its state or nothing, and the bootstrap secret.\<close>

definition reopens :: "handover_event \<Rightarrow> bool" where
  "reopens event = (case event of HandoverTask _ _ (Some command) \<Rightarrow> cph_Action command \<in> {''prepare'', ''confirm'', ''rollback''} | _ \<Rightarrow> False)"

definition closed_handover :: "agent_objects \<Rightarrow> bool" where
  "closed_handover o' \<longleftrightarrow> (case ao_Handover o' of None \<Rightarrow> True | Some None \<Rightarrow> False | Some (Some state) \<Rightarrow> hs_Status state = ''committed'')"

definition protected_objects :: "agent_objects \<Rightarrow> agent_objects \<Rightarrow> bool" where
  "protected_objects o1 o2 \<longleftrightarrow> (closed_handover o1 \<longrightarrow>
     ao_Bootstrap o2 = ao_Bootstrap o1 \<and> (ao_Handover o2 = None \<or> ao_Handover o2 = ao_Handover o1))"

lemma protected_closed: "protected_objects o1 o2 \<Longrightarrow> closed_handover o1 \<Longrightarrow> closed_handover o2"
  by (auto simp: protected_objects_def closed_handover_def)

interpretation closed: kept "\<lambda>c c'. \<forall>ns. protected_objects (c ns) (c' ns)"
  using protected_closed by unfold_locales (auto simp: protected_objects_def, (metis protected_closed protected_objects_def)+)

interpretation elsewhere: kept "\<lambda>c c'. \<forall>n. n \<noteq> ns \<longrightarrow> c' n = c n" for ns
  by unfold_locales auto

lemma calls_elsewhere:
  assumes "n \<noteq> ns"
  shows "fst (writeBootstrap fault i ns endpoint token c) n = c n" "fst (writeCredential fault i ns clusterID credential c) n = c n"
    "fst (credential_save fault i ns saved c) n = c n" "fst (delete_handover fault i ns c) n = c n"
    "fst (handover_restart fault i ns reason c) n = c n" "fst (handover_save fault i ns state c) n = c n"
  using assms by (auto simp: writeBootstrap_def writeCredential_def credential_save_def delete_handover_def handover_restart_def handover_save_def
      write_objects_def split: option.splits fault.splits)

lemma rollback_elsewhere:
  assumes "n \<noteq> canonicalNamespace ns"
  shows "fst (Rollback fault ns m c) n = c n"
proof (cases "requireState fault 0 (canonicalNamespace ns) m c")
  case (Inr state)
  show ?thesis unfolding Rollback_def Let_def Inr sum.case
    by (rule elsewhere.in_turn_kept [rule_format, OF _ assms]) (auto simp: calls_elsewhere)
qed (simp add: Rollback_def Let_def)

lemma operations_closed:
  "protected_objects (c n) (fst (Commit fault ns m c) n)"
  "protected_objects (c n) (fst (Cleanup fault ns m c) n)"
  "protected_objects (c n) (fst (RollbackExpired fault ns now c) n)"
  "protected_objects (c n) (fst (credential_save fault i ns saved c) n)"
proof -
  show "protected_objects (c n) (fst (Commit fault ns m c) n)"
    by (cases "n = canonicalNamespace ns") (auto simp: Commit_def Let_def requireState_def handover_load_def calls_elsewhere
        protected_objects_def closed_handover_def split: option.splits sum.splits if_splits)
  show "protected_objects (c n) (fst (Cleanup fault ns m c) n)"
    by (auto simp: Cleanup_def Let_def delete_handover_def write_objects_def protected_objects_def
        split: option.splits sum.splits if_splits fault.splits)
  show "protected_objects (c n) (fst (RollbackExpired fault ns now c) n)"
    by (cases "n = canonicalNamespace ns") (auto simp: RollbackExpired_def Let_def handover_load_def rollback_elsewhere case_prod_beta
        protected_objects_def closed_handover_def split: option.splits sum.splits if_splits)
  show "protected_objects (c n) (fst (credential_save fault i ns saved c) n)"
    by (auto simp: credential_save_def write_objects_def protected_objects_def split: option.splits fault.splits)
qed

lemma step_closed:
  assumes "\<not> reopens event"
  shows "protected_objects (fst s n) (fst (handover_step urlParse event s) n)"
proof (cases s)
  case (Pair c cfg)
  have same: "protected_objects o' o'" for o' by (simp add: protected_objects_def)
  show ?thesis unfolding Pair
  proof (cases event)
    case (HandoverTask fault now command)
    then show "protected_objects (fst (c, cfg) n) (fst (handover_step urlParse event (c, cfg)) n)"
      using assms by (auto simp: task_action reopens_def handover_action_def Let_def same operations_closed split: option.splits)
  qed (auto simp: operations_closed same split: option.splits)
qed

text \<open>C8: A commitment holds. Once a handover is committed, no check of the deadline and nothing else that happens to the agent
  takes it back, unless the platform itself sends another preparation, confirmation or rollback: the bootstrap
  secret stays as it is, and the handover is committed until it is cleaned up.\<close>

theorem commitment_holds:
  assumes "ao_Handover (c ns) = Some (Some state)" "hs_Status state = ''committed''"
    and "list_all (\<lambda>event. \<not> reopens event) events" "handover_run urlParse events (c, cfg) = (c', cfg')"
  shows "ao_Bootstrap (c' ns) = ao_Bootstrap (c ns) \<and> (ao_Handover (c' ns) = None \<or> ao_Handover (c' ns) = Some (Some state))"
proof -
  have "protected_objects (c ns) (c' ns)"
    using closed.run_kept [of "\<lambda>event. \<not> reopens event" urlParse events "(c, cfg)"] step_closed assms(3,4) by auto
  then show ?thesis using assms(1,2) by (simp add: protected_objects_def closed_handover_def)
qed

text \<open>C38: A confirmation that arrives again after the commitment takes the commitment back: the next check after the deadline
  returns the agent to its old control plane.\<close>

theorem late_confirmation_revokes:
  assumes "pending state (c ns)" "usable state" "hs_Status state = ''committed''" "hs_RollbackDeadline state \<le> now"
    and "canonicalNamespace ns = ns" "Confirm no_faults ns (hs_MigrationID state) c = (c1, err)"
    and "RollbackExpired no_faults ns now c1 = (c2, rolledBack, err2)"
  shows "err = None \<and> rolledBack \<and>
    connects_as (trim_space (hs_PreviousEndpoint state)) (hs_PreviousClusterID state) (hs_PreviousCredential state) (agent_start ns (c2 ns))"
proof -
  let ?state = "state\<lparr>hs_Status := ''target-confirmed''\<rparr>"
  have c1: "err = None \<and> pending ?state (c1 ns)"
    using assms(1,5,6) by (auto simp: Confirm_def requireState_def handover_load_def handover_save_def write_objects_def pending_def)
  have "settled ?state ns (fst (RollbackExpired no_faults ns now c1) ns)"
    by (rule tick_outcome(2)) (use c1 assms(2,4,5) in \<open>auto simp: usable_def\<close>)
  moreover have rolledBack
    using c1 assms(4,5,7) by (auto simp: RollbackExpired_def Let_def handover_load_def pending_def split: prod.splits)
  ultimately show ?thesis using c1 assms(7) by (simp add: settled_def connects_back_def)
qed

text \<open>A restart that fails at the end of a rollback is not tried again. The material is deleted before the deployment is
  restarted, so a check that fails at the restart leaves nothing for the next ones to do, and the pod keeps
  running with the configuration of the new control plane.\<close>

theorem rollback_restart_lost:
  assumes "pending state (c ns)" "hs_Status state \<noteq> ''committed''" "hs_RollbackDeadline state \<le> now" "canonicalNamespace ns = ns"
    and "RollbackExpired (no_faults(7 := Some (Refused e))) ns now c = (c1, rolledBack, err)"
  shows "err = Some (ApiError e) \<and> ao_Deployment (c1 ns) = ao_Deployment (c ns) \<and> (\<forall>fault now'. fst (RollbackExpired fault ns now' c1) = c1)"
proof -
  obtain data rs where o': "ao_Handover (c ns) = Some (Some state)" "ao_Bootstrap (c ns) = Some data" "ao_Deployment (c ns) = Some rs"
    using assms(1) by (auto simp: pending_def)
  have c1: "err = Some (ApiError e) \<and> ao_Deployment (c1 ns) = Some rs \<and> ao_Handover (c1 ns) = None"
    using o' assms(2-5) by (auto simp: RollbackExpired_def Rollback_def Let_def requireState_def handover_load_def writeBootstrap_def writeCredential_def
        credential_save_def delete_handover_def handover_restart_def write_objects_def)
  then have "fst (RollbackExpired fault ns now' c1) = c1" for fault now'
    using assms(4) by (auto simp: RollbackExpired_def Let_def handover_load_def split: option.splits)
  then show ?thesis using c1 o' by simp
qed

text \<open>After a preparation the fallback endpoints of the old control plane stay in the bootstrap secret: where only the old
  control plane can be reached, the agent registers there, with the token for the new one.\<close>

lemma prepared_secrets:
  assumes "Prepare urlParse fault now input c = (c1, None)" "ns = ''hypercdr-agent''" "ao_Bootstrap (c ns) = Some data"
  shows "trim_space (hi_TargetInstallToken input) \<noteq> '''' \<and> ao_Credential (c1 ns) = None \<and>
    ao_Bootstrap (c1 ns) = Some (AList.update ''HCDR_INSTALL_TOKEN'' (hi_TargetInstallToken input)
      (AList.update ''HCDR_PLATFORM_ENDPOINT'' (hi_TargetEndpoint input) data))"
  using assms by (auto simp: Prepare_def Let_def handover_save_def writeBootstrap_def delete_credential_def handover_restart_def write_objects_def
      split: if_splits option.splits fault.splits prod.splits)

lemma find_only: "public \<in> set xs \<Longrightarrow> List.find (\<lambda>x. x = public) xs = Some public"
  by (induction xs) auto

theorem old_fallback_stays:
  assumes "Prepare urlParse fault now input c = (c1, None)" "ns = ''hypercdr-agent''" "ao_Bootstrap (c ns) = Some data"
    and "trim_space (sget data ''HCDR_PLATFORM_PUBLIC_ENDPOINT'') = public" "public \<noteq> ''''" "sget data ''HCDR_AGENT_CREDENTIAL'' = ''''"
  shows "map_option cf_PlatformEndpoint (agent_Register (\<lambda>endpoint. endpoint = public) accepted (agent_start ns (c1 ns))) = Some (trim_space public)"
proof -
  define cfg where "cfg = agent_start ns (c1 ns)"
  have cfg: "cf_PlatformPublicEndpoint cfg = sget data ''HCDR_PLATFORM_PUBLIC_ENDPOINT''" "cf_InstallToken cfg \<noteq> ''''" "cf_AgentCredential cfg = ''''"
    using prepared_secrets [OF assms(1-3)] assms(6)
    by (auto simp: cfg_def agent_start_def credential_Load_def config_Load_def Let_def sget_update)
  have "public \<in> set (orderedPlatformEndpoints cfg)"
    using assms(4,5) cfg(1) by (auto simp: orderedPlatformEndpoints_def Let_def)
  from find_only [OF this] show ?thesis
    using cfg(2,3) by (simp add: agent_Register_def pinPlatformEndpoint_def cfg_def [symmetric])
qed

section \<open>A concrete run\<close>

definition sample_url :: "string \<Rightarrow> (string \<times> string) option" where
  "sample_url raw = (if has_prefix ''wss://'' raw then Some (''wss'', drop 6 raw) else None)"

definition sample_handover :: ControlPlaneHandoverInput where
  "sample_handover = \<lparr>hi_MigrationID = ''m1'', hi_Namespace = '''', hi_PreviousEndpoint = ''wss://old/ws'', hi_PreviousClusterID = ''c1'',
     hi_PreviousCredential = ''secret'', hi_TargetEndpoint = ''wss://new/ws'', hi_TargetInstallToken = ''token'', hi_RollbackDeadline = 100\<rparr>"

definition sample_cluster :: cluster where
  "sample_cluster = (\<lambda>_. \<lparr>ao_Handover = None, ao_Bootstrap = Some [(''HCDR_PLATFORM_ENDPOINT'', ''wss://old/ws'')],
     ao_Credential = Some [(''HCDR_CLUSTER_ID'', ''c1''), (''HCDR_AGENT_CREDENTIAL'', ''secret'')], ao_Deployment = Some []\<rparr>)"

definition sample_agent :: agent_config where
  "sample_agent = agent_start ''hypercdr-agent'' (sample_cluster ''hypercdr-agent'')"

definition sample_prepared :: cluster where
  "sample_prepared = fst (Prepare sample_url no_faults 10 sample_handover sample_cluster)"

definition sample_task :: "string \<Rightarrow> handover_event" where
  "sample_task action = HandoverTask no_faults 20 (Some \<lparr>cph_Action = action, cph_MigrationID = ''m1'', cph_TargetEndpoint = '''',
     cph_TargetInstallToken = '''', cph_RollbackDeadline = 0\<rparr>)"

text \<open>The pod restarts, registers at the new control plane, is confirmed, and a rollback fails when it writes the credential.\<close>

definition sample_events :: "handover_event list" where
  "sample_events = [PodRestart, Registered (\<lambda>_. True) \<lparr>ac_ClusterID = ''n1'', ac_Credential = ''other''\<rparr> no_faults, sample_task ''confirm'',
     DeadlineTick (no_faults(5 := Some (Unanswered ''timeout''))) 120]"

definition sample_after :: "cluster \<times> agent_config" where
  "sample_after = handover_run sample_url sample_events (sample_prepared, sample_agent)"

theorem handover_reversible_witness:
  "cf_PlatformEndpoint (snd sample_after) = ''wss://new/ws'' \<and>
   (\<exists>c3. Rollback no_faults ''hypercdr-agent'' ''m1'' (fst sample_after) = (c3, None) \<and>
      connects_as ''wss://old/ws'' ''c1'' ''secret'' (agent_start ''hypercdr-agent'' (c3 ''hypercdr-agent'')))"
proof -
  have prepare: "Prepare sample_url no_faults 10 sample_handover sample_cluster = (sample_prepared, snd (Prepare sample_url no_faults 10 sample_handover sample_cluster))"
    by (simp add: sample_prepared_def)
  have run: "handover_run sample_url sample_events (sample_prepared, sample_agent) = (fst sample_after, snd sample_after)"
    by (simp add: sample_after_def)
  have fresh: "ao_Handover (sample_cluster ''hypercdr-agent'') = None" "ao_Bootstrap (sample_cluster ''hypercdr-agent'') \<noteq> None"
    by (simp_all add: sample_cluster_def)
  have usable: "usable (prepared_state sample_handover)" by code_simp
  have quiet: "list_all (\<lambda>event. \<not> prepares event) sample_events" by (simp add: sample_events_def prepares_def sample_task_def)
  have there: "ao_Handover (fst sample_after ''hypercdr-agent'') \<noteq> None" by code_simp
  have endpoint: "cf_PlatformEndpoint (snd sample_after) = ''wss://new/ws''" by code_simp
  have names: "hi_MigrationID sample_handover = ''m1''" "trim_space (hi_PreviousEndpoint sample_handover) = ''wss://old/ws''"
    "hi_PreviousClusterID sample_handover = ''c1''" "hi_PreviousCredential sample_handover = ''secret''" by code_simp+
  from handover_reversible [OF prepare refl fresh usable quiet run there] endpoint show ?thesis unfolding names by blast
qed

abbreviation agent_ns :: string where
  "agent_ns \<equiv> ''hypercdr-agent''"

lemma sample_pending: "pending (prepared_state sample_handover) (sample_prepared agent_ns)"
  unfolding pending_def by code_simp

lemma sample_usable: "usable (prepared_state sample_handover)"
  by code_simp

lemma sample_namespace: "canonicalNamespace agent_ns = agent_ns"
  by code_simp

definition sample_ticks :: "(faults \<times> gtime) list" where
  "sample_ticks = [(no_faults(5 := Some (Unanswered ''timeout'')), 100), (no_faults(2 := Some (Refused ''quota'')), 110)]"

definition sample_expired :: "cluster \<times> agent_config" where
  "sample_expired = handover_run sample_url (map (\<lambda>(fault, now). DeadlineTick fault now) sample_ticks @ [DeadlineTick no_faults 120])
     (sample_prepared, sample_agent)"

theorem deadline_enforced_witness:
  "ao_Handover (fst sample_expired agent_ns) = None \<and>
   connects_as ''wss://old/ws'' ''c1'' ''secret'' (agent_start agent_ns (fst sample_expired agent_ns)) \<and>
   (\<exists>rs. ao_Deployment (fst sample_expired agent_ns) = Some (rs @ [''rollback-m1'']))"
proof -
  have run: "handover_run sample_url (map (\<lambda>(fault, now). DeadlineTick fault now) sample_ticks @ [DeadlineTick no_faults 120])
      (sample_prepared, sample_agent) = (fst sample_expired, snd sample_expired)" by (simp add: sample_expired_def)
  have open_: "hs_Status (prepared_state sample_handover) \<noteq> ''committed''" "cf_Namespace sample_agent = agent_ns" by code_simp+
  have late: "list_all (\<lambda>(fault, now). hs_RollbackDeadline (prepared_state sample_handover) \<le> now) sample_ticks"
    "hs_RollbackDeadline (prepared_state sample_handover) \<le> 120" by (simp_all add: sample_ticks_def prepared_state_def sample_handover_def)
  have names: "trim_space (hs_PreviousEndpoint (prepared_state sample_handover)) = ''wss://old/ws''"
    "hs_PreviousClusterID (prepared_state sample_handover) = ''c1''" "hs_PreviousCredential (prepared_state sample_handover) = ''secret''" by code_simp+
  have m: "''rollback-'' @ hs_MigrationID (prepared_state sample_handover) = ''rollback-m1''" by code_simp
  have reach: "\<forall>(fault, now) \<in> set sample_ticks. fault 7 = None \<and> (\<forall>e. fault 6 \<noteq> Some (Unanswered e))" by (simp add: sample_ticks_def)
  from deadline_enforced [OF sample_pending sample_usable open_ sample_namespace late run] reach show ?thesis unfolding names m by blast
qed

definition sample_committed :: cluster where
  "sample_committed = fst (Commit no_faults agent_ns ''m1'' (fst (Confirm no_faults agent_ns ''m1'' sample_prepared)))"

definition sample_state :: ControlPlaneHandoverState where
  "sample_state = (prepared_state sample_handover)\<lparr>hs_Status := ''committed''\<rparr>"

lemma sample_commit: "ao_Handover (sample_committed agent_ns) = Some (Some sample_state)" "pending sample_state (sample_committed agent_ns)"
  "usable sample_state" "hs_Status sample_state = ''committed''"
  unfolding pending_def by code_simp+

definition sample_watch :: "handover_event list" where
  "sample_watch = [DeadlineTick no_faults 120, PodRestart, sample_task ''commit'', DeadlineTick no_faults 130, sample_task ''cleanup'', DeadlineTick no_faults 140]"

definition sample_final :: "cluster \<times> agent_config" where
  "sample_final = handover_run sample_url sample_watch (sample_committed, sample_agent)"

theorem commitment_holds_witness:
  "ao_Bootstrap (fst sample_final agent_ns) = ao_Bootstrap (sample_committed agent_ns) \<and> ao_Handover (fst sample_final agent_ns) = None"
proof -
  have run: "handover_run sample_url sample_watch (sample_committed, sample_agent) = (fst sample_final, snd sample_final)" by (simp add: sample_final_def)
  have quiet: "list_all (\<lambda>event. \<not> reopens event) sample_watch" by (simp add: sample_watch_def reopens_def sample_task_def)
  have "ao_Handover (fst sample_final agent_ns) = None" by code_simp
  with commitment_holds [where c = sample_committed and ns = agent_ns, OF sample_commit(1,4) quiet run] show ?thesis by blast
qed

theorem late_confirmation_revokes_witness:
  "let c1 = fst (Confirm no_faults agent_ns ''m1'' sample_committed); c2 = fst (RollbackExpired no_faults agent_ns 120 c1)
   in connects_as ''wss://old/ws'' ''c1'' ''secret'' (agent_start agent_ns (c2 agent_ns))"
proof -
  obtain c1 err where c1: "Confirm no_faults agent_ns (hs_MigrationID sample_state) sample_committed = (c1, err)" by (rule prod.exhaust)
  obtain c2 rolledBack err2 where c2: "RollbackExpired no_faults agent_ns 120 c1 = (c2, rolledBack, err2)" by (rule prod_cases3)
  have due: "hs_RollbackDeadline sample_state \<le> 120" by (simp add: sample_state_def prepared_state_def sample_handover_def)
  have names: "hs_MigrationID sample_state = ''m1''" "trim_space (hs_PreviousEndpoint sample_state) = ''wss://old/ws''"
    "hs_PreviousClusterID sample_state = ''c1''" "hs_PreviousCredential sample_state = ''secret''" by code_simp+
  have "fst (Confirm no_faults agent_ns ''m1'' sample_committed) = c1" "fst (RollbackExpired no_faults agent_ns 120 c1) = c2"
    using c1 c2 by (simp_all add: names(1))
  with late_confirmation_revokes [where c = sample_committed and ns = agent_ns,
      OF sample_commit(2-4) due sample_namespace c1 c2] show ?thesis unfolding names Let_def by simp
qed

theorem rollback_restart_lost_witness:
  "let c1 = fst (RollbackExpired (no_faults(7 := Some (Refused ''down''))) agent_ns 120 sample_prepared)
   in ao_Deployment (c1 agent_ns) = Some [''prepare-m1''] \<and> fst (RollbackExpired no_faults agent_ns 130 c1) = c1"
proof -
  obtain c1 rolledBack err where c1: "RollbackExpired (no_faults(7 := Some (Refused ''down''))) agent_ns 120 sample_prepared = (c1, rolledBack, err)"
    by (rule prod_cases3)
  have due: "hs_Status (prepared_state sample_handover) \<noteq> ''committed''" "hs_RollbackDeadline (prepared_state sample_handover) \<le> 120"
    by (simp_all add: prepared_state_def sample_handover_def)
  have restarts: "ao_Deployment (sample_prepared agent_ns) = Some [''prepare-m1'']" by code_simp
  from rollback_restart_lost [where c = sample_prepared and ns = agent_ns, OF sample_pending due sample_namespace c1] restarts
  show ?thesis by (simp add: c1)
qed

end
