(* ===== verification/Velero_Cleanup.thy ===== *)
theory Velero_Cleanup
  imports Agent_Status Protection_Cleanup
begin

text \<open>
  Deleting Velero's objects (\<^verbatim>\<open>kube/dynamic_applier.go\<close>) and submitting a restore (\<^verbatim>\<open>executor/restore.go\<close>). The state is what the
  namespace of the agent has of each resource. \<open>listFault\<close> and \<open>deleteFault\<close> are the errors of the API: for a resource when
  it is listed, for a resource and a name when an object is deleted. An object the API does not find is gone.
\<close>

section \<open>Deleting what matches\<close>

type_synonym velero_objects = "string \<Rightarrow> any list"

fun delete_listed :: "(string \<Rightarrow> kube_error option) \<Rightarrow> (any \<Rightarrow> bool) \<Rightarrow> any list \<Rightarrow> string list \<times> kube_error option" where
  "delete_listed deleteFault match [] = ([], None)"
| "delete_listed deleteFault match (item # rest) =
     (if \<not> match item \<or> GetName item = '''' then delete_listed deleteFault match rest
      else if deleteFault (GetName item) \<notin> {None, Some ApiNotFound} then ([], deleteFault (GetName item))
      else (case delete_listed deleteFault match rest of (deleted, err) \<Rightarrow> (GetName item # deleted, err)))"

definition without :: "string \<Rightarrow> string list \<Rightarrow> velero_objects \<Rightarrow> velero_objects" where
  "without resource names objs = objs(resource := filter (\<lambda>item. GetName item \<notin> set names) (objs resource))"

definition deleteMatchingVeleroObjectsVersion ::
  "(string \<Rightarrow> kube_error option) \<Rightarrow> (string \<Rightarrow> string \<Rightarrow> kube_error option) \<Rightarrow> string \<Rightarrow> (any \<Rightarrow> bool) \<Rightarrow> velero_objects \<Rightarrow>
     velero_objects \<times> string list \<times> kube_error option" where
  "deleteMatchingVeleroObjectsVersion listFault deleteFault resource match objs = (case listFault resource of
     Some e \<Rightarrow> (objs, [], if e = ApiNotFound then None else Some e)
   | None \<Rightarrow> (case delete_listed (deleteFault resource) match (objs resource) of
       (deleted, err) \<Rightarrow> (without resource deleted objs, if err = None then sort deleted else deleted, err)))"

definition itemLabelInSet :: "any \<Rightarrow> string \<Rightarrow> string set \<Rightarrow> bool" where
  "itemLabelInSet item label values \<longleftrightarrow> (let v = sget (GetLabels item) label in v \<noteq> '''' \<and> v \<in> values)"

definition matchesAnyRestoreName :: "any \<Rightarrow> string set \<Rightarrow> bool" where
  "matchesAnyRestoreName item restoreNames \<longleftrightarrow> (let v = sget (GetLabels item) ''velero.io/restore-name'' in v \<noteq> '''' \<and> v \<in> restoreNames)"

definition restoreMatchesAnyBackup :: "any \<Rightarrow> string set \<Rightarrow> bool" where
  "restoreMatchesAnyBackup item backupNames \<longleftrightarrow> (let backupName = NestedString item [''spec'', ''backupName''] in
     if backupName \<noteq> '''' then backupName \<in> backupNames else itemLabelInSet item ''velero.io/backup-name'' backupNames)"

text \<open>The table of targets, each with its key in the report, its resource and what matches.\<close>

fun delete_targets ::
  "(string \<Rightarrow> kube_error option) \<Rightarrow> (string \<Rightarrow> string \<Rightarrow> kube_error option) \<Rightarrow> (string \<times> string \<times> (any \<Rightarrow> bool)) list \<Rightarrow> velero_objects \<Rightarrow>
     velero_objects \<times> (string \<times> string list) list \<times> kube_error option" where
  "delete_targets listFault deleteFault [] objs = (objs, [], None)"
| "delete_targets listFault deleteFault ((key, resource, match) # targets) objs =
     (case deleteMatchingVeleroObjectsVersion listFault deleteFault resource match objs of
        (objs', _, Some e) \<Rightarrow> (objs', [], Some e)
      | (objs', names, None) \<Rightarrow> (case delete_targets listFault deleteFault targets objs' of
          (objs'', deleted, err) \<Rightarrow> (objs'', (key, names) # deleted, err)))"

definition backup_targets :: "string set \<Rightarrow> (string \<times> string \<times> (any \<Rightarrow> bool)) list" where
  "backup_targets backupSet =
     [(''restores'', ''restores'', \<lambda>item. restoreMatchesAnyBackup item backupSet),
      (''podVolumeBackups'', ''podvolumebackups'', \<lambda>item. itemLabelInSet item ''velero.io/backup-name'' backupSet),
      (''dataUploads'', ''datauploads'', \<lambda>item. itemLabelInSet item ''velero.io/backup-name'' backupSet),
      (''backups'', ''backups'', \<lambda>item. GetName item \<in> backupSet)]"

definition restore_targets :: "string set \<Rightarrow> (string \<times> string \<times> (any \<Rightarrow> bool)) list" where
  "restore_targets restoreSet =
     [(''podVolumeRestores'', ''podvolumerestores'', \<lambda>item. matchesAnyRestoreName item restoreSet),
      (''dataDownloads'', ''datadownloads'', \<lambda>item. matchesAnyRestoreName item restoreSet)]"

definition found_restores :: "(string \<times> string list) list \<Rightarrow> string list" where
  "found_restores deleted = (case map_of deleted ''restores'' of None \<Rightarrow> [] | Some names \<Rightarrow> names)"

definition DeleteVeleroBackupArtifacts ::
  "(string \<Rightarrow> kube_error option) \<Rightarrow> (string \<Rightarrow> string \<Rightarrow> kube_error option) \<Rightarrow> string \<Rightarrow> string list \<Rightarrow> velero_objects \<Rightarrow>
     velero_objects \<times> (string \<times> string list) list \<times> kube_error option" where
  "DeleteVeleroBackupArtifacts listFault deleteFault agentNamespace backupNames objs =
     (let backupSet = set (filter (\<lambda>name. name \<noteq> '''') (map trim_space backupNames)) in
      if agentNamespace = '''' \<or> backupSet = {} then (objs, [], None)
      else (case delete_targets listFault deleteFault (backup_targets backupSet) objs of
          (objs', deleted, Some e) \<Rightarrow> (objs', deleted, Some e)
        | (objs', deleted, None) \<Rightarrow>
          if found_restores deleted = [] then (objs', deleted, None)
          else (case delete_targets listFault deleteFault (restore_targets (set (found_restores deleted))) objs' of
              (objs'', deleted', err) \<Rightarrow> (objs'', deleted @ deleted', err))))"

definition DeleteVeleroBackupArtifactsByNamePrefix ::
  "(string \<Rightarrow> kube_error option) \<Rightarrow> (string \<Rightarrow> string \<Rightarrow> kube_error option) \<Rightarrow> string \<Rightarrow> string \<Rightarrow> velero_objects \<Rightarrow>
     velero_objects \<times> (string \<times> string list) list \<times> kube_error option" where
  "DeleteVeleroBackupArtifactsByNamePrefix listFault deleteFault agentNamespace backupNamePrefix objs =
     (let backupNamePrefix = trim_space backupNamePrefix in
      if agentNamespace = '''' \<or> backupNamePrefix = '''' then (objs, [], None)
      else (case listFault ''backups'' of
          Some e \<Rightarrow> (objs, [], if e = ApiNotFound then None else Some e)
        | None \<Rightarrow> DeleteVeleroBackupArtifacts listFault deleteFault agentNamespace
            (filter (\<lambda>name. name \<noteq> '''' \<and> has_prefix backupNamePrefix name) (map GetName (objs ''backups''))) objs))"

definition backupRepositoryName :: "string \<Rightarrow> string \<Rightarrow> string" where
  "backupRepositoryName namespace storageLocation =
     (if trim_space namespace = '''' \<or> trim_space storageLocation = '''' then ''''
      else trim_space namespace @ ''-'' @ trim_space storageLocation @ ''-kopia'')"

fun delete_repositories :: "(string \<Rightarrow> string \<Rightarrow> kube_error option) \<Rightarrow> string list \<Rightarrow> velero_objects \<Rightarrow> velero_objects \<times> string list \<times> kube_error option" where
  "delete_repositories deleteFault [] objs = (objs, [], None)"
| "delete_repositories deleteFault (name # names) objs =
     (if name = '''' then delete_repositories deleteFault names objs
      else if deleteFault ''backuprepositories'' name \<notin> {None, Some ApiNotFound} then (objs, [], deleteFault ''backuprepositories'' name)
      else (case delete_repositories deleteFault names (without ''backuprepositories'' [name] objs) of
          (objs', deleted, err) \<Rightarrow> (objs', name # deleted, err)))"

definition DeleteBackupRepositories ::
  "(string \<Rightarrow> string \<Rightarrow> kube_error option) \<Rightarrow> string \<Rightarrow> string \<Rightarrow> string list \<Rightarrow> velero_objects \<Rightarrow> velero_objects \<times> string list \<times> kube_error option" where
  "DeleteBackupRepositories deleteFault agentNamespace storageLocation namespaces objs =
     (let names = map (\<lambda>ns. backupRepositoryName ns storageLocation) (uniqueNonEmptyStrings namespaces) in
      if agentNamespace = '''' \<and> filter (\<lambda>name. name \<noteq> '''') names \<noteq> []
      then (objs, [], Some (KubeErrorf ''BackupRepository requires metadata.namespace''))
      else delete_repositories deleteFault names objs)"

section \<open>Stale restores\<close>

definition spec_of :: "any \<Rightarrow> gomap option" where
  "spec_of item = (case item of AMap m \<Rightarrow> (case map_of m ''spec'' of Some (AMap spec) \<Rightarrow> Some spec | _ \<Rightarrow> None) | _ \<Rightarrow> None)"

definition namespaceIncluded :: "gomap option \<Rightarrow> string \<Rightarrow> bool" where
  "namespaceIncluded spec sourceNamespace = (case spec of None \<Rightarrow> False
     | Some m \<Rightarrow> (case map_of m ''includedNamespaces'' of
         Some (ASlice vs) \<Rightarrow> list_ex (\<lambda>v. (case v of AStr s \<Rightarrow> s | _ \<Rightarrow> '''') = sourceNamespace) vs
       | _ \<Rightarrow> False))"

definition restoreSpecTargetsNamespace :: "gomap option \<Rightarrow> string \<Rightarrow> string \<Rightarrow> bool" where
  "restoreSpecTargetsNamespace spec sourceNamespace targetNamespace =
     (if targetNamespace = '''' then True
      else (case (case spec of None \<Rightarrow> None | Some m \<Rightarrow> (case map_of m ''namespaceMapping'' of Some (AMap mapping) \<Rightarrow> Some mapping | _ \<Rightarrow> None)) of
          None \<Rightarrow> targetNamespace = sourceNamespace
        | Some mapping \<Rightarrow> (let mappedTarget = (case map_of mapping sourceNamespace of Some (AStr s) \<Rightarrow> s | _ \<Rightarrow> '''') in
            (if mappedTarget = '''' then sourceNamespace else mappedTarget) = targetNamespace)))"

definition matchesRestoreCleanupTarget :: "any \<Rightarrow> string \<Rightarrow> string \<Rightarrow> bool" where
  "matchesRestoreCleanupTarget item sourceNamespace targetNamespace =
     (let labels = GetLabels item; labelTarget = sget labels ''hypercdr.io/target-namespace'';
          labelTarget = (if labelTarget = '''' then sourceNamespace else labelTarget) in
      if sget labels ''hypercdr.io/source-namespace'' = sourceNamespace \<and> (targetNamespace = '''' \<or> labelTarget = targetNamespace) then True
      else if has_prefix (''hcdr-restore-'' @ sourceNamespace @ ''-'') (GetName item) \<and>
        restoreSpecTargetsNamespace (spec_of item) sourceNamespace targetNamespace then True
      else namespaceIncluded (spec_of item) sourceNamespace \<and> restoreSpecTargetsNamespace (spec_of item) sourceNamespace targetNamespace)"

definition matchesPodVolumeRestoreCleanupTarget :: "any \<Rightarrow> string set \<Rightarrow> bool" where
  "matchesPodVolumeRestoreCleanupTarget item restoreNames =
     (let restoreName = sget (GetLabels item) ''velero.io/restore-name'' in
      if restoreName \<noteq> '''' then restoreName \<in> restoreNames
      else (\<exists>n \<in> restoreNames. has_prefix (n @ ''-'') (GetName item)))"

definition deleteMatchingRestores ::
  "(string \<Rightarrow> kube_error option) \<Rightarrow> (string \<Rightarrow> string \<Rightarrow> kube_error option) \<Rightarrow> string \<Rightarrow> string \<Rightarrow> string \<Rightarrow> velero_objects \<Rightarrow>
     velero_objects \<times> (kube_error + string list)" where
  "deleteMatchingRestores listFault deleteFault sourceNamespace targetNamespace currentRestoreName objs = (case listFault ''restores'' of
     Some e \<Rightarrow> (objs, Inl e)
   | None \<Rightarrow> (case delete_listed (deleteFault ''restores'')
         (\<lambda>item. GetName item \<noteq> currentRestoreName \<and> matchesRestoreCleanupTarget item sourceNamespace targetNamespace) (objs ''restores'') of
       (deleted, Some e) \<Rightarrow> (without ''restores'' deleted objs, Inl e)
     | (deleted, None) \<Rightarrow> (without ''restores'' deleted objs, Inr deleted)))"

text \<open>\<^verbatim>\<open>deleteMatchingPodVolumeRestores\<close> and \<^verbatim>\<open>deleteMatchingDataDownloads\<close>.\<close>

definition delete_restore_volumes ::
  "(string \<Rightarrow> kube_error option) \<Rightarrow> (string \<Rightarrow> string \<Rightarrow> kube_error option) \<Rightarrow> string \<Rightarrow> string set \<Rightarrow> velero_objects \<Rightarrow> velero_objects \<times> kube_error option" where
  "delete_restore_volumes listFault deleteFault resource restoreNames objs =
     (if restoreNames = {} then (objs, None)
      else (case listFault resource of
          Some e \<Rightarrow> (objs, if e = ApiNotFound then None else Some e)
        | None \<Rightarrow> (case delete_listed (deleteFault resource) (\<lambda>item. matchesPodVolumeRestoreCleanupTarget item restoreNames) (objs resource) of
            (deleted, err) \<Rightarrow> (without resource deleted objs, err))))"

text \<open>Reading the restores in the order Go walks through their names; an object that does not exist is not found.\<close>

fun restores_left :: "(string \<Rightarrow> kube_error option) \<Rightarrow> any list \<Rightarrow> string list \<Rightarrow> kube_error + bool" where
  "restores_left getFault items [] = Inr False"
| "restores_left getFault items (name # names) = (case getFault name of
     Some e \<Rightarrow> if e = ApiNotFound then restores_left getFault items names else Inl e
   | None \<Rightarrow> if list_ex (\<lambda>item. GetName item = name) items then Inr True else restores_left getFault items names)"

definition restoreCleanupPending ::
  "(string \<Rightarrow> kube_error option) \<Rightarrow> (string \<Rightarrow> kube_error option) \<Rightarrow> string list \<Rightarrow> velero_objects \<Rightarrow> kube_error + bool" where
  "restoreCleanupPending getFault listFault restoreNames objs = (case restores_left getFault (objs ''restores'') restoreNames of
     Inl e \<Rightarrow> Inl e
   | Inr True \<Rightarrow> Inr True
   | Inr False \<Rightarrow> (case listFault ''podvolumerestores'' of
       Some e \<Rightarrow> if e = ApiNotFound then Inr False else Inl e
     | None \<Rightarrow>
       if list_ex (\<lambda>item. matchesPodVolumeRestoreCleanupTarget item (set restoreNames)) (objs ''podvolumerestores'') then Inr True
       else (case listFault ''datadownloads'' of
           Some e \<Rightarrow> if e = ApiNotFound then Inr False else Inl e
         | None \<Rightarrow> Inr (list_ex (\<lambda>item. matchesPodVolumeRestoreCleanupTarget item (set restoreNames)) (objs ''datadownloads'')))))"

text \<open>The wait looks at the namespace every two seconds: at each observation until the deadline, with the errors of the API then.\<close>

type_synonym observation = "(string \<Rightarrow> kube_error option) \<times> (string \<Rightarrow> kube_error option) \<times> velero_objects"

fun poll_cleanup :: "string list \<Rightarrow> observation list \<Rightarrow> kube_error option" where
  "poll_cleanup restoreNames [] = Some (KubeErrorf ''timed out waiting for stale restore state to be deleted'')"
| "poll_cleanup restoreNames ((getFault, listFault, objs) # observations) = (case restoreCleanupPending getFault listFault restoreNames objs of
     Inl e \<Rightarrow> Some e
   | Inr True \<Rightarrow> poll_cleanup restoreNames observations
   | Inr False \<Rightarrow> None)"

definition waitForRestoreStateCleanup :: "string list \<Rightarrow> observation list \<Rightarrow> kube_error option" where
  "waitForRestoreStateCleanup restoreNames observations = (if restoreNames = [] then None else poll_cleanup restoreNames observations)"

definition CleanupStaleRestoreState ::
  "(string \<Rightarrow> kube_error option) \<Rightarrow> (string \<Rightarrow> string \<Rightarrow> kube_error option) \<Rightarrow> observation list \<Rightarrow>
     string \<Rightarrow> string \<Rightarrow> string \<Rightarrow> string \<Rightarrow> velero_objects \<Rightarrow> velero_objects \<times> kube_error option" where
  "CleanupStaleRestoreState listFault deleteFault observations agentNamespace sourceNamespace targetNamespace currentRestoreName objs =
     (if agentNamespace = '''' then (objs, Some (KubeErrorf ''agent namespace is required''))
      else if sourceNamespace = '''' then (objs, Some (KubeErrorf ''source namespace is required''))
      else (case deleteMatchingRestores listFault deleteFault sourceNamespace targetNamespace currentRestoreName objs of
          (objs1, Inl e) \<Rightarrow> (objs1, Some e)
        | (objs1, Inr restoreNames) \<Rightarrow> (case delete_restore_volumes listFault deleteFault ''podvolumerestores'' (set restoreNames) objs1 of
            (objs2, Some e) \<Rightarrow> (objs2, Some e)
          | (objs2, None) \<Rightarrow> (case delete_restore_volumes listFault deleteFault ''datadownloads'' (set restoreNames) objs2 of
              (objs3, Some e) \<Rightarrow> (objs3, Some e)
            | (objs3, None) \<Rightarrow> (objs3, waitForRestoreStateCleanup restoreNames observations)))))"

section \<open>Submitting a restore\<close>

text \<open>The calls of \<^verbatim>\<open>SubmitRestore\<close> in order; \<open>outcome\<close> is how each of them ends. The applier supports all of them.\<close>

datatype restore_call =
    WaitForVeleroBackup string string
  | CleanupStale string string string string
  | ReplaceNamespaceAndWait string
  | ApplyModifier string
  | WaitForResourceModifier string
  | ApplyRestore string

fun calls_in_turn :: "(restore_call \<Rightarrow> kube_error option) \<Rightarrow> restore_call list \<Rightarrow> restore_call list \<times> kube_error option" where
  "calls_in_turn outcome [] = ([], None)"
| "calls_in_turn outcome (call # calls) = (case outcome call of
     Some e \<Rightarrow> ([call], Some e)
   | None \<Rightarrow> (case calls_in_turn outcome calls of (made, err) \<Rightarrow> (call # made, err)))"

definition firstIncludedNamespace :: "RestoreManifest \<Rightarrow> string" where
  "firstIncludedNamespace manifest = (case rs_IncludedNamespaces (rm_Spec manifest) of [] \<Rightarrow> '''' | ns # _ \<Rightarrow> ns)"

definition replace_refused :: "string \<Rightarrow> RestoreManifest \<Rightarrow> kube_error option" where
  "replace_refused agentNamespace manifest =
     (let targetNamespace = sget (mm_Labels (rm_Metadata manifest)) ''hypercdr.io/target-namespace'' in
      if targetNamespace = '''' then Some (KubeErrorf ''target namespace is required for namespace replacement'')
      else if targetNamespace = mm_Namespace (rm_Metadata manifest) \<or> targetNamespace = agentNamespace
      then Some (KubeErrorf ''refusing to replace agent namespace'') else None)"

definition submit_calls :: "RestoreManifest \<Rightarrow> restore_call list" where
  "submit_calls manifest = (let modifier = mm_Name (cm_Metadata (BuildRestoreResourceModifierConfigMap manifest)) in
     [ApplyModifier modifier, WaitForResourceModifier modifier, ApplyRestore (mm_Name (rm_Metadata manifest))])"

definition replace_calls :: "RestoreManifest \<Rightarrow> restore_call list" where
  "replace_calls manifest = (let target = sget (mm_Labels (rm_Metadata manifest)) ''hypercdr.io/target-namespace'' in
     [CleanupStale (mm_Namespace (rm_Metadata manifest)) (firstIncludedNamespace manifest) target (mm_Name (rm_Metadata manifest)),
      ReplaceNamespaceAndWait target])"

definition SubmitRestore :: "(restore_call \<Rightarrow> kube_error option) \<Rightarrow> string \<Rightarrow> RestoreManifest \<Rightarrow> restore_call list \<times> kube_error option" where
  "SubmitRestore outcome agentNamespace manifest =
     (let wait = WaitForVeleroBackup (mm_Namespace (rm_Metadata manifest)) (rs_BackupName (rm_Spec manifest));
          replace = (sget (mm_Labels (rm_Metadata manifest)) ''hypercdr.io/conflict-policy'' = ''replace'') in
      if sget (mm_Labels (rm_Metadata manifest)) ''hypercdr.io/restore-mode'' = ''dataOnly''
      then ([], Some (KubeErrorf ''data-only restore executor is not enabled''))
      else if replace \<and> outcome wait = None \<and> replace_refused agentNamespace manifest \<noteq> None
      then ([wait], replace_refused agentNamespace manifest)
      else calls_in_turn outcome (wait # (if replace then replace_calls manifest else []) @ submit_calls manifest))"

section \<open>What a deletion removes\<close>

lemma listed_matches:
  "n \<in> set (fst (delete_listed fault match items)) \<Longrightarrow> n \<noteq> '''' \<and> (\<exists>item \<in> set items. match item \<and> GetName item = n)"
  by (induction items) (auto split: if_splits prod.splits)

lemma listed_complete:
  assumes "snd (delete_listed fault match items) = None" "item \<in> set items" "match item" "GetName item \<noteq> ''''"
  shows "GetName item \<in> set (fst (delete_listed fault match items))"
  using assms by (induction items) (auto split: if_splits prod.splits)

lemma without_subset: "set (without resource names objs r) \<subseteq> set (objs r)"
  by (auto simp: without_def)

text \<open>
  A deletion only removes, and what it removes of a resource has the name of something that matches. Within a
  namespace names of a resource are unique, so that what is removed matches.
\<close>

definition removes :: "(string \<Rightarrow> any \<Rightarrow> bool) \<Rightarrow> velero_objects \<Rightarrow> velero_objects \<Rightarrow> bool" where
  "removes match objs objs' \<longleftrightarrow> (\<forall>r. set (objs' r) \<subseteq> set (objs r) \<and>
     (\<forall>y \<in> set (objs r) - set (objs' r). \<exists>item \<in> set (objs r). match r item \<and> GetName item = GetName y))"

lemma removes_refl [simp]: "removes match objs objs"
  by (simp add: removes_def)

lemma removes_trans:
  assumes "removes match objs objs'" "removes match objs' objs''"
  shows "removes match objs objs''"
  unfolding removes_def
proof (intro allI conjI ballI)
  fix r
  show "set (objs'' r) \<subseteq> set (objs r)" using assms unfolding removes_def by blast
  fix y assume y: "y \<in> set (objs r) - set (objs'' r)"
  show "\<exists>item \<in> set (objs r). match r item \<and> GetName item = GetName y"
  proof (cases "y \<in> set (objs' r)")
    case True
    then show ?thesis using assms y unfolding removes_def by blast
  next
    case False
    then show ?thesis using assms(1) y unfolding removes_def by blast
  qed
qed

lemma removes_mono: "removes match objs objs' \<Longrightarrow> (\<And>r item. match r item \<Longrightarrow> match' r item) \<Longrightarrow> removes match' objs objs'"
  unfolding removes_def by blast

lemma removed_matches:
  assumes "removes match objs objs'" "inj_on GetName (set (objs r))" "y \<in> set (objs r)" "y \<notin> set (objs' r)"
  shows "match r y"
  using assms unfolding removes_def by (metis DiffI inj_onD)

lemma matching_removes:
  assumes "deleteMatchingVeleroObjectsVersion listFault deleteFault resource match objs = (objs', names, err)"
  shows "removes (\<lambda>r item. r = resource \<and> match item) objs objs'"
    and "n \<in> set names \<Longrightarrow> n \<noteq> '''' \<and> (\<exists>item \<in> set (objs resource). match item \<and> GetName item = n)"
    and "err = None \<Longrightarrow> listFault resource = None \<Longrightarrow> y \<in> set (objs' resource) \<Longrightarrow> GetName y \<noteq> '''' \<Longrightarrow> \<not> match y"
    and "err = None \<Longrightarrow> listFault resource = None \<Longrightarrow> y \<in> set (objs resource) \<Longrightarrow> GetName y \<noteq> '''' \<Longrightarrow> match y \<Longrightarrow> GetName y \<in> set names"
proof -
  obtain deleted e where d: "delete_listed (deleteFault resource) match (objs resource) = (deleted, e)" by (rule prod.exhaust)
  note found = listed_matches [of _ "deleteFault resource" match "objs resource", unfolded d fst_conv]
  have "removes (\<lambda>r item. r = resource \<and> match item) objs (without resource deleted objs)"
    using found by (auto simp: without_def removes_def)
  then show "removes (\<lambda>r item. r = resource \<and> match item) objs objs'"
    using assms d by (auto simp: deleteMatchingVeleroObjectsVersion_def split: option.splits)
  show "n \<in> set names \<Longrightarrow> n \<noteq> '''' \<and> (\<exists>item \<in> set (objs resource). match item \<and> GetName item = n)"
    using assms d found [of n] by (auto simp: deleteMatchingVeleroObjectsVersion_def split: option.splits if_splits)
  note all = listed_complete [of "deleteFault resource" match "objs resource", unfolded d fst_conv snd_conv]
  show "err = None \<Longrightarrow> listFault resource = None \<Longrightarrow> y \<in> set (objs' resource) \<Longrightarrow> GetName y \<noteq> '''' \<Longrightarrow> \<not> match y"
    using assms d all by (auto simp: deleteMatchingVeleroObjectsVersion_def without_def)
  show "err = None \<Longrightarrow> listFault resource = None \<Longrightarrow> y \<in> set (objs resource) \<Longrightarrow> GetName y \<noteq> '''' \<Longrightarrow> match y \<Longrightarrow> GetName y \<in> set names"
    using assms d all by (auto simp: deleteMatchingVeleroObjectsVersion_def)
qed

definition target_matches :: "(string \<times> string \<times> (any \<Rightarrow> bool)) list \<Rightarrow> string \<Rightarrow> any \<Rightarrow> bool" where
  "target_matches targets r item \<longleftrightarrow> (\<exists>(key, resource, match) \<in> set targets. r = resource \<and> match item)"

lemma targets_remove:
  "delete_targets listFault deleteFault targets objs = (objs', deleted, err) \<Longrightarrow> removes (target_matches targets) objs objs'"
proof (induction targets arbitrary: objs objs' deleted err)
  case (Cons t targets)
  obtain key resource match where t: "t = (key, resource, match)" by (rule prod_cases3)
  obtain objs1 names e where d: "deleteMatchingVeleroObjectsVersion listFault deleteFault resource match objs = (objs1, names, e)" by (rule prod_cases3)
  have first: "removes (target_matches (t # targets)) objs objs1"
    by (rule removes_mono [OF matching_removes(1) [OF d]]) (auto simp: t target_matches_def)
  show ?case
  proof (cases e)
    case None
    obtain objs2 deleted2 e2 where rest: "delete_targets listFault deleteFault targets objs1 = (objs2, deleted2, e2)" by (rule prod_cases3)
    have "removes (target_matches (t # targets)) objs1 objs2"
      by (rule removes_mono [OF Cons.IH [OF rest]]) (auto simp: target_matches_def)
    then show ?thesis using removes_trans [OF first] Cons.prems d rest None by (simp add: t)
  qed (use first Cons.prems d in \<open>simp add: t\<close>)
qed simp

lemma targets_complete:
  assumes "delete_targets listFault deleteFault targets objs = (objs', deleted, None)" "(key, r, match) \<in> set targets" "listFault r = None"
    and "y \<in> set (objs' r)" "GetName y \<noteq> ''''"
  shows "\<not> match y"
  using assms
proof (induction targets arbitrary: objs deleted)
  case (Cons t targets)
  obtain k resource m where t: "t = (k, resource, m)" by (rule prod_cases3)
  obtain objs1 names e where d: "deleteMatchingVeleroObjectsVersion listFault deleteFault resource m objs = (objs1, names, e)" by (rule prod_cases3)
  from Cons.prems(1) d obtain deleted2 where e: "e = None" and rest: "delete_targets listFault deleteFault targets objs1 = (objs', deleted2, None)"
    by (auto simp: t split: option.splits prod.splits)
  show ?case
  proof (cases "(key, r, match) = t")
    case True
    have "y \<in> set (objs1 r)" using targets_remove [OF rest] Cons.prems(4) unfolding removes_def by blast
    then show ?thesis using matching_removes(3) [OF d] e True Cons.prems(3,5) by (auto simp: t)
  next
    case False
    then show ?thesis using Cons.IH [OF rest] Cons.prems(2-5) by auto
  qed
qed simp

text \<open>The backup an object belongs to; volumes of a restore belong to the backup of the restore they name.\<close>

definition restore_backup :: "any \<Rightarrow> string" where
  "restore_backup item = (let b = NestedString item [''spec'', ''backupName''] in
     if b \<noteq> '''' then b else sget (GetLabels item) ''velero.io/backup-name'')"

definition backup_of :: "velero_objects \<Rightarrow> string \<Rightarrow> any \<Rightarrow> string" where
  "backup_of objs r item =
     (if r = ''backups'' then GetName item
      else if r = ''podvolumebackups'' \<or> r = ''datauploads'' then sget (GetLabels item) ''velero.io/backup-name''
      else if r = ''restores'' then restore_backup item
      else if r = ''podvolumerestores'' \<or> r = ''datadownloads'' then
        (case List.find (\<lambda>restore. GetName restore = sget (GetLabels item) ''velero.io/restore-name'') (objs ''restores'') of
           None \<Rightarrow> '''' | Some restore \<Rightarrow> restore_backup restore)
      else '''')"

lemma find_named:
  assumes "restore \<in> set items" "inj_on GetName (set items)" "GetName restore = n"
  shows "List.find (\<lambda>item. GetName item = n) items = Some restore"
  using assms by (induction items) (auto simp: inj_on_def)

lemma restore_matches: "'''' \<notin> B \<Longrightarrow> restoreMatchesAnyBackup item B \<longleftrightarrow> restore_backup item \<in> B"
  by (auto simp: restoreMatchesAnyBackup_def restore_backup_def itemLabelInSet_def Let_def)

lemma first_phase: "'''' \<notin> B \<Longrightarrow> target_matches (backup_targets B) r item \<Longrightarrow> backup_of objs r item \<in> B"
  by (auto simp: target_matches_def backup_targets_def backup_of_def itemLabelInSet_def restore_matches Let_def)

lemma second_phase:
  assumes "target_matches (restore_targets R) r item" "\<And>n. n \<in> R \<Longrightarrow> \<exists>restore \<in> set (objs ''restores''). restore_backup restore \<in> B \<and> GetName restore = n"
    and "inj_on GetName (set (objs ''restores''))"
  shows "backup_of objs r item \<in> B"
proof -
  define n where "n = sget (GetLabels item) ''velero.io/restore-name''"
  have r: "r = ''podvolumerestores'' \<or> r = ''datadownloads''" and "n \<in> R"
    using assms(1) by (auto simp: target_matches_def restore_targets_def matchesAnyRestoreName_def n_def Let_def)
  with assms(2) obtain restore where "restore \<in> set (objs ''restores'')" "restore_backup restore \<in> B" "GetName restore = n" by blast
  then have "List.find (\<lambda>restore. GetName restore = n) (objs ''restores'') = Some restore" by (intro find_named assms(3))
  then show ?thesis using r \<open>restore_backup restore \<in> B\<close> by (auto simp: backup_of_def n_def)
qed

text \<open>The restores found in the first phase, and how the two phases follow each other.\<close>

lemma deleted_restores:
  assumes "delete_targets listFault deleteFault (backup_targets B) objs = (objs', deleted, None)" "'''' \<notin> B"
  shows "n \<in> set (found_restores deleted) \<Longrightarrow> \<exists>restore \<in> set (objs ''restores''). restore_backup restore \<in> B \<and> GetName restore = n"
    and "listFault ''restores'' = None \<Longrightarrow> restore \<in> set (objs ''restores'') \<Longrightarrow> GetName restore \<noteq> '''' \<Longrightarrow>
       restore_backup restore \<in> B \<Longrightarrow> GetName restore \<in> set (found_restores deleted)"
proof -
  let ?match = "\<lambda>item. restoreMatchesAnyBackup item B"
  obtain objs1 names e where d: "deleteMatchingVeleroObjectsVersion listFault deleteFault ''restores'' ?match objs = (objs1, names, e)" by (rule prod_cases3)
  have e: "e = None" "found_restores deleted = names"
    using assms(1) d by (auto simp: backup_targets_def found_restores_def split: option.splits prod.splits)
  show "n \<in> set (found_restores deleted) \<Longrightarrow> \<exists>restore \<in> set (objs ''restores''). restore_backup restore \<in> B \<and> GetName restore = n"
    using matching_removes(2) [OF d, of n] assms(2) by (auto simp: e(2) restore_matches)
  show "listFault ''restores'' = None \<Longrightarrow> restore \<in> set (objs ''restores'') \<Longrightarrow> GetName restore \<noteq> '''' \<Longrightarrow>
       restore_backup restore \<in> B \<Longrightarrow> GetName restore \<in> set (found_restores deleted)"
    using matching_removes(4) [OF d e(1), of restore] assms(2) by (simp add: e(2) restore_matches)
qed

lemma artifact_phases:
  assumes "DeleteVeleroBackupArtifacts listFault deleteFault agentNamespace names objs = (objs', deleted, err)"
    and "delete_targets listFault deleteFault (backup_targets (trim_space ` set names - {''''})) objs = (objs1, deleted1, e1)"
  shows "objs' = objs \<and> (agentNamespace = '''' \<or> trim_space ` set names - {''''} = {}) \<or>
    objs' = objs1 \<and> err = e1 \<and> (e1 \<noteq> None \<or> found_restores deleted1 = []) \<or>
    e1 = None \<and> (\<exists>d. delete_targets listFault deleteFault (restore_targets (set (found_restores deleted1))) objs1 = (objs', d, err))"
proof -
  define B where "B = trim_space ` set names - {''''}"
  have B: "set (filter (\<lambda>name. name \<noteq> '''') (map trim_space names)) = B" by (auto simp: B_def)
  obtain objs2 d2 e2 where two: "delete_targets listFault deleteFault (restore_targets (set (found_restores deleted1))) objs1 = (objs2, d2, e2)"
    by (rule prod_cases3)
  show ?thesis using assms two unfolding B_def [symmetric] DeleteVeleroBackupArtifacts_def B Let_def
    by (cases e1) (auto split: if_splits)
qed

definition volume_resources :: "string set" where
  "volume_resources = {''backups'', ''podvolumebackups'', ''datauploads'', ''restores'', ''podvolumerestores'', ''datadownloads''}"

text \<open>What the API sees to: every object has a name, and no two objects of a resource have the same.\<close>

definition well_named :: "velero_objects \<Rightarrow> bool" where
  "well_named objs \<longleftrightarrow> (\<forall>r. inj_on GetName (set (objs r)) \<and> '''' \<notin> GetName ` set (objs r))"

lemma artifacts_removed:
  assumes "DeleteVeleroBackupArtifacts listFault deleteFault agentNamespace names objs = (objs', deleted, err)" "well_named objs"
    and "y \<in> set (objs r)" "y \<notin> set (objs' r)"
  shows "backup_of objs r y \<in> trim_space ` set names - {''''}" (is "_ \<in> ?B")
proof -
  have inj: "inj_on GetName (set (objs r))" for r using assms(2) by (simp add: well_named_def)
  obtain objs1 deleted1 e1 where one: "delete_targets listFault deleteFault (backup_targets ?B) objs = (objs1, deleted1, e1)" by (rule prod_cases3)
  show ?thesis
  proof (cases "y \<in> set (objs1 r)")
    case True
    with artifact_phases [OF assms(1) one] assms(3,4) obtain d where e1: "e1 = None"
      and two: "delete_targets listFault deleteFault (restore_targets (set (found_restores deleted1))) objs1 = (objs', d, err)" by blast
    have "inj_on GetName (set (objs1 r))"
      by (rule inj_on_subset [OF inj [of r]]) (use targets_remove [OF one] in \<open>auto simp: removes_def\<close>)
    from removed_matches [OF targets_remove [OF two] this True assms(4)]
    show ?thesis by (rule second_phase) (use deleted_restores(1) [OF one [unfolded e1]] inj in auto)
  next
    case False
    show ?thesis by (rule first_phase [OF _ removed_matches [OF targets_remove [OF one] inj assms(3) False]]) simp
  qed
qed

lemma first_phase_all:
  assumes "'''' \<notin> B" "r \<in> volume_resources" "\<not> (r = ''podvolumerestores'' \<or> r = ''datadownloads'')" "backup_of objs r y \<in> B"
  shows "target_matches (backup_targets B) r y"
proof -
  have label: "itemLabelInSet y l B \<longleftrightarrow> sget (GetLabels y) l \<in> B" for l using assms(1) by (auto simp: itemLabelInSet_def Let_def)
  from assms(2,3) consider "r = ''backups''" | "r = ''restores''" | "r = ''podvolumebackups''" | "r = ''datauploads''"
    unfolding volume_resources_def insert_iff empty_iff by argo
  then show ?thesis using assms(4) unfolding target_matches_def backup_targets_def
    by cases (simp_all add: backup_of_def label restore_matches assms(1))
qed

lemma artifacts_complete:
  assumes "DeleteVeleroBackupArtifacts (\<lambda>_. None) deleteFault agentNamespace names objs = (objs', deleted, None)" "agentNamespace \<noteq> ''''"
    and "r \<in> volume_resources" "y \<in> set (objs' r)" "well_named objs"
  shows "backup_of objs r y \<notin> trim_space ` set names - {''''}" (is "_ \<notin> ?B")
proof
  have named: "GetName item \<noteq> ''''" if "item \<in> set (objs r)" for item r
    using assms(5) that unfolding well_named_def by (metis image_eqI)
  assume y: "backup_of objs r y \<in> ?B"
  obtain objs1 deleted1 e1 where one: "delete_targets (\<lambda>_. None) deleteFault (backup_targets ?B) objs = (objs1, deleted1, e1)" by (rule prod_cases3)
  note phases = artifact_phases [OF assms(1) one]
  have e1: "e1 = None" using phases assms(2) y by blast
  have left: "y \<in> set (objs1 r)"
    using phases assms(2,4) y targets_remove [of "\<lambda>_. None" deleteFault _ objs1 objs'] unfolding removes_def by blast
  have ne: "GetName y \<noteq> ''''" using named left targets_remove [OF one] unfolding removes_def by blast
  have gone: "\<not> match y" if "(key, r, match) \<in> set (backup_targets ?B)" for key match
    using targets_complete [OF one [unfolded e1] that refl left ne] .
  show False
  proof (cases "r = ''podvolumerestores'' \<or> r = ''datadownloads''")
    case True
    define n where "n = sget (GetLabels y) ''velero.io/restore-name''"
    from True y obtain restore where f: "List.find (\<lambda>restore. GetName restore = n) (objs ''restores'') = Some restore" "restore_backup restore \<in> ?B"
      by (auto simp: backup_of_def n_def split: option.splits)
    then have restore: "restore \<in> set (objs ''restores'')" "GetName restore = n" by (auto simp: find_Some_iff)
    have found: "n \<in> set (found_restores deleted1)"
      using deleted_restores(2) [OF one [unfolded e1] _ refl restore(1)] f(2) restore(2) named [OF restore(1)] by simp
    with phases assms(2) y obtain d where
      two: "delete_targets (\<lambda>_. None) deleteFault (restore_targets (set (found_restores deleted1))) objs1 = (objs', d, None)" by auto
    have "\<not> matchesAnyRestoreName y (set (found_restores deleted1))"
      by (rule targets_complete [OF two _ refl assms(4) ne, where key = "if r = ''datadownloads'' then ''dataDownloads'' else ''podVolumeRestores''"])
        (use True in \<open>auto simp: restore_targets_def\<close>)
    then show False using found named [OF restore(1)] restore(2) by (simp add: matchesAnyRestoreName_def n_def Let_def)
  next
    case False
    with first_phase_all [OF _ assms(3) _ y] have "target_matches (backup_targets ?B) r y" by blast
    then show False using gone unfolding target_matches_def by blast
  qed
qed

text \<open>Where no call fails no error is returned, and a resource that is no target stays as it is.\<close>

lemma no_fault_listed: "snd (delete_listed (\<lambda>_. None) match items) = None"
  by (induction items) (auto split: prod.splits)

lemma no_fault_targets:
  "(\<And>key r match. (key, r, match) \<in> set targets \<Longrightarrow> listFault r = None) \<Longrightarrow> snd (snd (delete_targets listFault (\<lambda>_ _. None) targets objs)) = None"
proof (induction targets arbitrary: objs)
  case (Cons t targets)
  obtain key r match where t: "t = (key, r, match)" by (rule prod_cases3)
  obtain names err where d: "delete_listed (\<lambda>_. None) match (objs r) = (names, err)" by (rule prod.exhaust)
  have "listFault r = None" by (rule Cons.prems [of key r match]) (simp add: t)
  moreover have "err = None" using no_fault_listed [of match "objs r"] d by simp
  ultimately have "deleteMatchingVeleroObjectsVersion listFault (\<lambda>_ _. None) r match objs = (without r names objs, sort names, None)"
    using d by (simp add: deleteMatchingVeleroObjectsVersion_def)
  moreover obtain objs2 deleted2 e2 where rest: "delete_targets listFault (\<lambda>_ _. None) targets (without r names objs) = (objs2, deleted2, e2)"
    by (rule prod_cases3)
  moreover have "e2 = None" using Cons.IH [of "without r names objs"] Cons.prems rest by force
  ultimately show ?case by (simp add: t)
qed simp

lemma targets_frame:
  "delete_targets listFault deleteFault targets objs = (objs', deleted, err) \<Longrightarrow> (\<And>key match. (key, r, match) \<notin> set targets) \<Longrightarrow> objs' r = objs r"
proof (induction targets arbitrary: objs objs' deleted err)
  case (Cons t targets)
  obtain key resource match where t: "t = (key, resource, match)" by (rule prod_cases3)
  obtain objs1 names e where d: "deleteMatchingVeleroObjectsVersion listFault deleteFault resource match objs = (objs1, names, e)" by (rule prod_cases3)
  have "resource \<noteq> r" using Cons.prems(2) [of key match] t by auto
  then have same: "objs1 r = objs r" using d
    by (auto simp: deleteMatchingVeleroObjectsVersion_def without_def split: option.splits prod.splits)
  obtain objs2 deleted2 e2 where rest: "delete_targets listFault deleteFault targets objs1 = (objs2, deleted2, e2)" by (rule prod_cases3)
  have "objs2 r = objs1 r" by (rule Cons.IH [OF rest]) (use Cons.prems(2) in auto)
  then show ?case using Cons.prems(1) d rest same by (cases e) (auto simp: t)
qed simp

section \<open>Properties\<close>

lemma plan_prefix:
  assumes "length (planUUIDNoDash p) = 32" "length (planUUIDNoDash p') = 32" "planUUIDNoDash p \<noteq> planUUIDNoDash p'"
  shows "\<not> has_prefix (scheduleNameForPlan p) (backupNameForPlan now p' runID trigger)"
proof
  assume "has_prefix (scheduleNameForPlan p) (backupNameForPlan now p' runID trigger)"
  then obtain r where r: "backupNameForPlan now p' runID trigger = scheduleNameForPlan p @ r" by (auto simp: has_prefix_iff)
  have "backupNameForPlan now p' runID trigger = full_name now p' runID trigger"
    using full_name_length [OF assms(2), of now runID trigger] by (simp add: backup_name_full)
  then obtain rest where "scheduleNameForPlan p @ r = scheduleNameForPlan p' @ rest" unfolding r full_name_def by metis
  then have "planUUIDNoDash p @ r = planUUIDNoDash p' @ rest" by (simp add: scheduleNameForPlan_def)
  then show False using assms by (simp add: append_eq_append_conv)
qed

text \<open>C9: Deleting the Velero objects of a plan spares the others. Whatever calls fail, the agent keeps every backup of another
  plan, every restore made from it and the objects of the volumes of both. When all calls succeed, nothing is
  left that belongs to a backup of the plan that was there when the deletion began; what belongs to backups
  that were already gone is not found and stays, as shown below.\<close>

theorem plan_artifacts_exact:
  assumes "DeleteVeleroBackupArtifactsByNamePrefix listFault deleteFault agentNamespace (scheduleNameForPlan p) objs = (objs', deleted, err)"
    and "well_named objs" "\<forall>item \<in> set (objs ''backups''). trim_space (GetName item) = GetName item"
    and "length (planUUIDNoDash p) = 32" "list_all alnum (planUUIDNoDash p)" "length (planUUIDNoDash p') = 32"
    and "planUUIDNoDash p \<noteq> planUUIDNoDash p'" "agentNamespace \<noteq> ''''"
  shows "(\<forall>r. \<forall>y \<in> set (objs r). (\<exists>now runID trigger. backup_of objs r y = backupNameForPlan now p' runID trigger) \<longrightarrow> y \<in> set (objs' r)) \<and>
    (err = None \<and> listFault = (\<lambda>_. None) \<longrightarrow> (\<forall>r \<in> volume_resources. \<forall>y \<in> set (objs' r).
       \<not> (backup_of objs r y \<in> GetName ` set (objs ''backups'') \<and> has_prefix (scheduleNameForPlan p) (backup_of objs r y))))"
proof -
  define names where "names = filter (\<lambda>name. name \<noteq> '''' \<and> has_prefix (scheduleNameForPlan p) name) (map GetName (objs ''backups''))"
  have trimmed: "trim_space (scheduleNameForPlan p) = scheduleNameForPlan p" by (rule schedule_name_trimmed [OF assms(5)])
  have ne: "scheduleNameForPlan p \<noteq> ''''" by (simp add: scheduleNameForPlan_def)
  have B: "trim_space ` set names - {''''} = {n \<in> GetName ` set (objs ''backups''). n \<noteq> '''' \<and> has_prefix (scheduleNameForPlan p) n}"
  proof -
    have t: "trim_space n = n" if "n \<in> set names" for n using that assms(3) by (auto simp: names_def)
    have "trim_space ` set names = set names" by (simp add: t cong: image_cong)
    then show ?thesis by (auto simp: names_def)
  qed
  have run: "objs' = objs \<and> listFault ''backups'' \<noteq> None \<or>
      DeleteVeleroBackupArtifacts listFault deleteFault agentNamespace names objs = (objs', deleted, err)"
    using assms(1,8) ne by (auto simp: DeleteVeleroBackupArtifactsByNamePrefix_def trimmed names_def Let_def split: option.splits)
  have "y \<in> set (objs' r)" if "y \<in> set (objs r)" "backup_of objs r y = backupNameForPlan now p' runID trigger" for r y now runID trigger
  proof (rule ccontr)
    assume y: "y \<notin> set (objs' r)"
    with run that(1) have "DeleteVeleroBackupArtifacts listFault deleteFault agentNamespace names objs = (objs', deleted, err)" by blast
    from artifacts_removed [OF this assms(2) that(1) y] have "has_prefix (scheduleNameForPlan p) (backup_of objs r y)" unfolding B by simp
    then show False using plan_prefix [OF assms(4,6,7)] that(2) by simp
  qed
  moreover have "\<not> (backup_of objs r y \<in> GetName ` set (objs ''backups'') \<and> has_prefix (scheduleNameForPlan p) (backup_of objs r y))"
    if "err = None" "listFault = (\<lambda>_. None)" "r \<in> volume_resources" "y \<in> set (objs' r)" for r y
  proof -
    have "backup_of objs r y \<notin> trim_space ` set names - {''''}"
      by (rule artifacts_complete [where deleteFault = deleteFault and objs' = objs', OF _ assms(8) that(3,4) assms(2)]) (use run that(1,2) in auto)
    then have "n = ''''" if "n = backup_of objs r y" "n \<in> GetName ` set (objs ''backups'')" "has_prefix (scheduleNameForPlan p) n" for n
      using that unfolding B by simp
    moreover have "'''' \<notin> GetName ` set (objs ''backups'')" using assms(2) unfolding well_named_def by (elim allE conjE)
    ultimately show ?thesis by metis
  qed
  ultimately show ?thesis by blast
qed

text \<open>C39: A repeated deletion forgets what the first one left. The backups of a plan are deleted before the volume objects
  of their restores. Where the latter fails, repeating the call finds no backup, reports success and leaves
  the volume objects of the plan's restores behind.\<close>

theorem orphans_survive_retry:
  assumes "restore \<in> set (objs ''restores'')" "GetName restore \<noteq> ''''" "restore_backup restore = b" "b \<in> GetName ` set (objs ''backups'')"
    and "has_prefix prefix b" "trim_space prefix = prefix" "prefix \<noteq> ''''" "agentNamespace \<noteq> ''''" "e \<noteq> ApiNotFound"
    and "\<forall>item \<in> set (objs ''backups''). GetName item \<noteq> '''' \<and> trim_space (GetName item) = GetName item"
    and "y \<in> set (objs ''podvolumerestores'')" "sget (GetLabels y) ''velero.io/restore-name'' = GetName restore"
    and "first = DeleteVeleroBackupArtifactsByNamePrefix ((\<lambda>_. None)(''podvolumerestores'' := Some e)) (\<lambda>_ _. None) agentNamespace prefix objs"
    and "second = DeleteVeleroBackupArtifactsByNamePrefix (\<lambda>_. None) (\<lambda>_ _. None) agentNamespace prefix (fst first)"
  shows "snd (snd first) = Some e \<and> snd (snd second) = None \<and> y \<in> set (fst second ''podvolumerestores'')"
proof -
  define lf where "lf = (\<lambda>_ :: string. None :: kube_error option)(''podvolumerestores'' := Some e)"
  define names where "names = filter (\<lambda>name. name \<noteq> '''' \<and> has_prefix prefix name) (map GetName (objs ''backups''))"
  define L where "L = filter (\<lambda>name. name \<noteq> '''') (map trim_space names)"
  define B where "B = set L"
  have lf: "lf r = (if r = ''podvolumerestores'' then Some e else None)" for r by (simp add: lf_def)
  have t: "trim_space n = n" if "n \<in> set names" for n using that assms(10) by (auto simp: names_def)
  have B: "n \<in> B \<longleftrightarrow> n \<in> GetName ` set (objs ''backups'') \<and> n \<noteq> '''' \<and> has_prefix prefix n" for n
    unfolding B_def L_def using t by (force simp: names_def)
  have b: "b \<in> B" using assms(4,5,10) unfolding B by auto
  obtain objs1 deleted1 e1 where one: "delete_targets lf (\<lambda>_ _. None) (backup_targets B) objs = (objs1, deleted1, e1)" by (rule prod_cases3)
  have "snd (snd (delete_targets lf (\<lambda>_ _. None) (backup_targets B) objs)) = None"
    by (rule no_fault_targets) (auto simp: lf backup_targets_def)
  then have e1: "e1 = None" using one by simp
  have found: "GetName restore \<in> set (found_restores deleted1)"
    by (rule deleted_restores(2) [OF one [unfolded e1]]) (use b assms(1-3) in \<open>auto simp: lf B\<close>)
  have kept: "objs1 ''podvolumerestores'' = objs ''podvolumerestores''"
    by (rule targets_frame [OF one]) (simp add: backup_targets_def)
  have two: "delete_targets lf (\<lambda>_ _. None) (restore_targets (set (found_restores deleted1))) objs1 = (objs1, [], Some e)"
    by (simp add: restore_targets_def deleteMatchingVeleroObjectsVersion_def lf assms(9))
  have "B \<noteq> {}" "L \<noteq> []" "found_restores deleted1 \<noteq> []" using b found by (auto simp: B_def)
  then have first: "first = (objs1, deleted1, Some e)"
    unfolding assms(13) lf_def [symmetric] DeleteVeleroBackupArtifactsByNamePrefix_def DeleteVeleroBackupArtifacts_def assms(6) Let_def
    using assms(7,8) one e1 two by (simp add: lf names_def [symmetric] L_def [symmetric] B_def [symmetric])
  have gone: "\<not> has_prefix prefix (GetName item)" if "item \<in> set (objs1 ''backups'')" for item
  proof -
    have item: "item \<in> set (objs ''backups'')" using targets_remove [OF one] that unfolding removes_def by blast
    then have "GetName item \<notin> B"
      using targets_complete [OF one [unfolded e1], of "''backups''" "''backups''" "\<lambda>item. GetName item \<in> B" item] that assms(10)
      by (simp add: backup_targets_def lf)
    then show ?thesis using item assms(10) unfolding B by blast
  qed
  have none: "filter (\<lambda>name. name \<noteq> '''' \<and> has_prefix prefix name) (map GetName (objs1 ''backups'')) = []"
    using gone by (auto simp: filter_empty_conv)
  have "second = (objs1, [], None)"
    unfolding assms(14) first fst_conv DeleteVeleroBackupArtifactsByNamePrefix_def assms(6) Let_def
    using assms(7,8) by (simp add: none DeleteVeleroBackupArtifacts_def)
  then show ?thesis using first kept assms(11) by simp
qed

lemma restore_name_prefix:
  assumes "sanitizeName (ns @ ''-'' @ rest) = ns @ ''-'' @ rest" "length ns \<le> 49"
  shows "has_prefix (''hcdr-restore-'' @ ns @ ''-'') (restoreName (ns @ ''-'' @ rest) taskID)"
proof -
  define p where "p = ''hcdr-restore-'' @ ns @ ''-''"
  have p: "length p \<le> 63" using assms(2) by (simp add: p_def)
  have "take 63 (p @ xs) = p @ take (63 - length p) xs" for xs by (simp only: take_append take_all [OF p])
  moreover have "restoreName (ns @ ''-'' @ rest) taskID = take 63 (p @ rest @ ''-'' @ sanitizeTaskID taskID)"
    unfolding restoreName_def assms(1) Let_def by (simp add: p_def)
  ultimately show ?thesis by (auto simp: has_prefix_iff p_def)
qed

text \<open>C40: Replacing a namespace deletes the restores of its neighbours. The names of restores do not tell where the namespace ends
  and what follows begins, and the cleanup before a replacement goes by the name: a running restore of a
  namespace such as \<^verbatim>\<open>shop-eu\<close> into itself is deleted when \<^verbatim>\<open>shop\<close> is replaced, although its labels and its
  specification name the other namespace only.\<close>

theorem stale_cleanup_hits_neighbour:
  assumes "restore \<in> set (objs ''restores'')" "GetName restore = restoreName (ns @ ''-'' @ rest) taskID" "GetName restore \<noteq> currentRestoreName"
    and "spec_of restore = Some spec" "map_of spec ''namespaceMapping'' = None"
    and "sanitizeName (ns @ ''-'' @ rest) = ns @ ''-'' @ rest" "length ns \<le> 49" "ns \<noteq> ''''" "agentNamespace \<noteq> ''''"
  shows "restore \<notin> set (fst (CleanupStaleRestoreState (\<lambda>_. None) (\<lambda>_ _. None) observations agentNamespace ns ns currentRestoreName objs) ''restores'')"
proof -
  let ?match = "\<lambda>item. GetName item \<noteq> currentRestoreName \<and> matchesRestoreCleanupTarget item ns ns"
  define names where "names = fst (delete_listed (\<lambda>_. None) ?match (objs ''restores''))"
  have no_fault: "delete_listed (\<lambda>_. None) m items = (fst (delete_listed (\<lambda>_. None) m items), None)" for m items
    by (induction items) (auto split: prod.splits)
  have "restoreSpecTargetsNamespace (spec_of restore) ns ns" using assms(4,5) by (simp add: restoreSpecTargetsNamespace_def)
  then have "?match restore"
    using restore_name_prefix [OF assms(6,7), of taskID] assms(2,3) by (simp add: matchesRestoreCleanupTarget_def Let_def)
  moreover have "GetName restore \<noteq> ''''" using restore_name_prefix [OF assms(6,7), of taskID, folded assms(2)] 
    by (cases "GetName restore") (simp_all add: has_prefix_iff)
  ultimately have "GetName restore \<in> set names" 
    unfolding names_def by (rule listed_complete [OF arg_cong [OF no_fault, of snd, unfolded snd_conv] assms(1)])
  then have gone: "restore \<notin> set (without ''restores'' names objs ''restores'')" by (simp add: without_def)
  have first: "deleteMatchingRestores (\<lambda>_. None) (\<lambda>_ _. None) ns ns currentRestoreName objs = (without ''restores'' names objs, Inr names)"
    using no_fault [of ?match "objs ''restores''", folded names_def] by (simp add: deleteMatchingRestores_def)
  have volumes: "fst (delete_restore_volumes (\<lambda>_. None) (\<lambda>_ _. None) r R objs1) ''restores'' = objs1 ''restores''" if "r \<noteq> ''restores''" for r R objs1
    using that by (simp add: delete_restore_volumes_def without_def split: prod.splits)
  obtain objs1 e1 where v1: "delete_restore_volumes (\<lambda>_. None) (\<lambda>_ _. None) ''podvolumerestores'' (set names) (without ''restores'' names objs) = (objs1, e1)"
    by (rule prod.exhaust)
  obtain objs2 e2 where v2: "delete_restore_volumes (\<lambda>_. None) (\<lambda>_ _. None) ''datadownloads'' (set names) objs1 = (objs2, e2)" by (rule prod.exhaust)
  have "restore \<notin> set (objs1 ''restores'')" "objs2 ''restores'' = objs1 ''restores''"
    using gone volumes [of "''podvolumerestores''" "set names" "without ''restores'' names objs"] volumes [of "''datadownloads''" "set names" objs1] v1 v2 by simp_all
  then show ?thesis using assms(8,9) v1 v2 by (cases e1; cases e2) (simp_all add: CleanupStaleRestoreState_def first)
qed

lemma built_restore:
  assumes "BuildRestoreManifest input = Inr manifest"
  shows "sget (mm_Labels (rm_Metadata manifest)) ''hypercdr.io/target-namespace'' = rc_TargetNamespace (rb_Command input)"
    "sget (mm_Labels (rm_Metadata manifest)) ''hypercdr.io/conflict-policy'' = rc_ConflictPolicy (rb_Command input)"
    "rs_BackupName (rm_Spec manifest) = rc_VeleroBackupName (rb_Command input)"
    "firstIncludedNamespace manifest = hd (rs_IncludedNamespaces (rm_Spec manifest))"
  using assms by (auto simp: BuildRestoreManifest_def firstIncludedNamespace_def Let_def sget_def split: if_splits list.splits)

text \<open>C19: A restore is submitted in a safe order. A namespace is deleted only when the command asks for its replacement, it is the target of
  the command, not the namespace of the agent or of Velero, the backup is there and stale restores are
  gone. The Restore object is the last call and comes after the modifier it refers to is in place; nothing
  before it failed. A submission without error has created it.\<close>

theorem restore_submission_safe:
  assumes "BuildRestoreManifest input = Inr manifest" "SubmitRestore outcome agentNamespace manifest = (calls, err)"
  shows "(\<forall>ns. ReplaceNamespaceAndWait ns \<in> set calls \<longrightarrow> rc_ConflictPolicy (rb_Command input) = ''replace'' \<and> ns = rc_TargetNamespace (rb_Command input) \<and>
      ns \<notin> {'''', agentNamespace, mm_Namespace (rm_Metadata manifest)} \<and>
      outcome (WaitForVeleroBackup (mm_Namespace (rm_Metadata manifest)) (rc_VeleroBackupName (rb_Command input))) = None \<and>
      outcome (CleanupStale (mm_Namespace (rm_Metadata manifest)) (hd (rs_IncludedNamespaces (rm_Spec manifest))) ns (mm_Name (rm_Metadata manifest))) = None) \<and>
    (\<forall>n. ApplyRestore n \<in> set calls \<longrightarrow> n = mm_Name (rm_Metadata manifest) \<and> last calls = ApplyRestore n \<and>
      (\<forall>call \<in> set (butlast calls). outcome call = None) \<and> WaitForResourceModifier (resourceModifierName n) \<in> set (butlast calls) \<and>
      (rc_ConflictPolicy (rb_Command input) = ''replace'' \<longrightarrow> ReplaceNamespaceAndWait (rc_TargetNamespace (rb_Command input)) \<in> set (butlast calls))) \<and>
    (err = None \<longrightarrow> ApplyRestore (mm_Name (rm_Metadata manifest)) \<in> set calls)"
proof -
  define target where "target = rc_TargetNamespace (rb_Command input)"
  note m = built_restore [OF assms(1), folded target_def]
  have rest: "submit_calls manifest = [ApplyModifier (resourceModifierName (mm_Name (rm_Metadata manifest))),
      WaitForResourceModifier (resourceModifierName (mm_Name (rm_Metadata manifest))), ApplyRestore (mm_Name (rm_Metadata manifest))]"
    by (simp add: submit_calls_def BuildRestoreResourceModifierConfigMap_def Let_def)
  have refused: "replace_refused agentNamespace manifest = None \<Longrightarrow> target \<notin> {'''', agentNamespace, mm_Namespace (rm_Metadata manifest)}"
    by (auto simp: replace_refused_def m Let_def split: if_splits)
  show ?thesis using assms(2) refused unfolding target_def [symmetric]
    unfolding SubmitRestore_def replace_calls_def rest m Let_def
    by (cases "rc_ConflictPolicy (rb_Command input) = ''replace''") (auto split: if_splits option.splits)
qed

section \<open>Concrete runs\<close>

lemma well_named_update: "well_named objs \<Longrightarrow> distinct (map GetName xs) \<Longrightarrow> '''' \<notin> set (map GetName xs) \<Longrightarrow> well_named (objs(r := xs))"
  by (simp add: well_named_def distinct_map)

definition velero_item :: "string \<Rightarrow> (string \<times> string) list \<Rightarrow> gomap \<Rightarrow> any" where
  "velero_item name labels spec = AMap [(''metadata'', AMap [(''name'', AStr name), (''labels'', AMap (map (\<lambda>(k, v). (k, AStr v)) labels))]), (''spec'', AMap spec)]"

definition backup_a :: string where
  "backup_a = ''hcdr-8c1f2a345b6c4d7e8f90123456789abc-m-00010101000000-run1''"

definition backup_b :: string where
  "backup_b = ''hcdr-8c1f2a345b6c4d7e8f90123456789abd-m-00010101000000-run1''"

definition neighbour :: any where
  "neighbour = velero_item ''hcdr-restore-shop-eu-2'' [] [(''backupName'', AStr backup_b), (''includedNamespaces'', ASlice [AStr ''shop-eu''])]"

definition sample_velero :: velero_objects where
  "sample_velero = (\<lambda>_. [])
     (''backups'' := [velero_item backup_a [] [], velero_item backup_b [] []],
      ''restores'' := [velero_item ''hcdr-restore-shop-1'' [] [(''backupName'', AStr backup_a)], neighbour],
      ''datadownloads'' := [velero_item ''d1'' [(''velero.io/restore-name'', ''hcdr-restore-shop-1'')] [],
        velero_item ''d2'' [(''velero.io/restore-name'', ''hcdr-restore-shop-eu-2'')] []])"

definition sample_deleted :: "velero_objects \<times> (string \<times> string list) list \<times> kube_error option" where
  "sample_deleted = DeleteVeleroBackupArtifactsByNamePrefix (\<lambda>_. None) (\<lambda>_ _. None) ''hypercdr-agent'' (scheduleNameForPlan plan_a) sample_velero"

theorem plan_artifacts_exact_witness:
  "velero_item backup_b [] [] \<in> set (fst sample_deleted ''backups'') \<and>
   velero_item backup_a [] [] \<notin> set (fst sample_deleted ''backups'') \<and>
   velero_item ''d1'' [(''velero.io/restore-name'', ''hcdr-restore-shop-1'')] [] \<notin> set (fst sample_deleted ''datadownloads'')"
proof -
  have run: "DeleteVeleroBackupArtifactsByNamePrefix (\<lambda>_. None) (\<lambda>_ _. None) ''hypercdr-agent'' (scheduleNameForPlan plan_a) sample_velero =
      (fst sample_deleted, fst (snd sample_deleted), snd (snd sample_deleted))" by (simp add: sample_deleted_def)
  have named: "well_named sample_velero" unfolding sample_velero_def by (intro well_named_update) (simp add: well_named_def, code_simp+)
  have trimmed: "\<forall>item \<in> set (sample_velero ''backups''). trim_space (GetName item) = GetName item" by code_simp
  have ids: "length (planUUIDNoDash plan_a) = 32" "list_all alnum (planUUIDNoDash plan_a)" "length (planUUIDNoDash plan_b) = 32" "planUUIDNoDash plan_a \<noteq> planUUIDNoDash plan_b" by code_simp+
  have ok: "snd (snd sample_deleted) = None" by code_simp
  have b: "velero_item backup_b [] [] \<in> set (sample_velero ''backups'')"
    "backup_of sample_velero ''backups'' (velero_item backup_b [] []) = backupNameForPlan 0 plan_b ''run1'' ''manual''" by code_simp+
  have a: "backup_of sample_velero ''backups'' (velero_item backup_a [] []) \<in> GetName ` set (sample_velero ''backups'')"
    "has_prefix (scheduleNameForPlan plan_a) (backup_of sample_velero ''backups'' (velero_item backup_a [] []))"
    "backup_of sample_velero ''datadownloads'' (velero_item ''d1'' [(''velero.io/restore-name'', ''hcdr-restore-shop-1'')] []) \<in> GetName ` set (sample_velero ''backups'')"
    "has_prefix (scheduleNameForPlan plan_a) (backup_of sample_velero ''datadownloads'' (velero_item ''d1'' [(''velero.io/restore-name'', ''hcdr-restore-shop-1'')] []))" by code_simp+
  have r: "''backups'' \<in> volume_resources" "''datadownloads'' \<in> volume_resources" by (simp_all add: volume_resources_def)
  note exact = plan_artifacts_exact [OF run named trimmed ids(1-4) list.distinct(2)]
  from exact b have "velero_item backup_b [] [] \<in> set (fst sample_deleted ''backups'')" by metis
  moreover have "\<not> (backup_of sample_velero r y \<in> GetName ` set (sample_velero ''backups'') \<and> has_prefix (scheduleNameForPlan plan_a) (backup_of sample_velero r y))"
    if "r \<in> volume_resources" "y \<in> set (fst sample_deleted r)" for r y
    using conjunct2 [OF exact] ok that by simp
  ultimately show ?thesis using a r by (intro conjI notI) simp_all
qed

theorem stale_cleanup_hits_neighbour_witness:
  "let objs = fst (CleanupStaleRestoreState (\<lambda>_. None) (\<lambda>_ _. None) [] ''hypercdr-agent'' ''shop'' ''shop'' ''hcdr-restore-shop-3'' sample_velero) in
   GetName neighbour = ''hcdr-restore-shop-eu-2'' \<and> neighbour \<in> set (sample_velero ''restores'') \<and> neighbour \<notin> set (objs ''restores'')"
proof -
  have here: "neighbour \<in> set (sample_velero ''restores'')" "GetName neighbour = ''hcdr-restore-shop-eu-2''" by code_simp+
  have name: "GetName neighbour = restoreName (''shop'' @ ''-'' @ ''eu'') ''2''" "GetName neighbour \<noteq> ''hcdr-restore-shop-3''" by code_simp+
  have spec: "spec_of neighbour = Some [(''backupName'', AStr backup_b), (''includedNamespaces'', ASlice [AStr ''shop-eu''])]"
    by (simp add: spec_of_def neighbour_def velero_item_def)
  have rest: "sanitizeName (''shop'' @ ''-'' @ ''eu'') = ''shop'' @ ''-'' @ ''eu''"
    "map_of [(''backupName'', AStr backup_b), (''includedNamespaces'', ASlice [AStr ''shop-eu''])] ''namespaceMapping'' = None"
    "length ''shop'' \<le> 49" "''shop'' \<noteq> ''''" "''hypercdr-agent'' \<noteq> ''''" by code_simp+
  from stale_cleanup_hits_neighbour [where objs = sample_velero and ns = "''shop''" and rest = "''eu''" and observations = "[]", OF here(1) name spec rest(2,1,3-5)] here show ?thesis by (simp add: Let_def)
qed

definition sample_replace :: RestoreBuildInput where
  "sample_replace = \<lparr>rb_TaskID = ''t1'', rb_CommandID = ''k1'', rb_TaskType = ''restore'', rb_AgentNamespace = '''',
     rb_Command = \<lparr>rc_RestorePointID = ''p1'', rc_VeleroBackupName = ''b1'', rc_StorageRepo = '''',
       rc_SourceNamespace = ''shop'', rc_SourceNamespaces = [], rc_TargetNamespace = ''shop-new'', rc_TargetNamespaces = [],
       rc_TargetMode = '''', rc_RestoreMode = ''full'', rc_ArtifactMode = '''', rc_ConflictPolicy = ''replace'',
       rc_IncludeClusterScoped = False, rc_UseTransforms = False, rc_TransformPreset = '''', rc_StorageProfileMode = '''',
       rc_AlternateProfileID = '''', rc_IncludedResources = [], rc_ExcludedResources = [], rc_StorageClassMappings = [],
       rc_ImageMappings = [], rc_ServiceNodePortMappings = [], rc_WaitForWorkloads = False, rc_RunValidation = False,
       rc_ForceStart = False, rc_ContentCatalogLoaded = False, rc_PersistentDataExpected = False,
       rc_ReadinessExpectationsKnown = False, rc_RuntimeWorkloadsExpected = False, rc_ExpectedPVCs = []\<rparr>\<rparr>"

theorem restore_submission_safe_witness:
  "let calls = fst (SubmitRestore (\<lambda>_. None) ''hypercdr-agent'' (projr (BuildRestoreManifest sample_replace))) in
   ReplaceNamespaceAndWait ''shop-new'' \<in> set calls \<and> last calls = ApplyRestore ''hcdr-restore-shop-t1''"
proof -
  define manifest where "manifest = projr (BuildRestoreManifest sample_replace)"
  define run where "run = SubmitRestore (\<lambda>_. None) ''hypercdr-agent'' manifest"
  have built: "BuildRestoreManifest sample_replace = Inr manifest" unfolding manifest_def by code_simp
  have ok: "snd run = None" "mm_Name (rm_Metadata manifest) = ''hcdr-restore-shop-t1''" "rc_ConflictPolicy (rb_Command sample_replace) = ''replace''"
    "rc_TargetNamespace (rb_Command sample_replace) = ''shop-new''" unfolding run_def manifest_def by code_simp+
  have "SubmitRestore (\<lambda>_. None) ''hypercdr-agent'' manifest = (fst run, snd run)" by (simp add: run_def)
  note safe = restore_submission_safe [OF built this]
  have "last (fst run) = ApplyRestore n \<and> ReplaceNamespaceAndWait ''shop-new'' \<in> set (butlast (fst run))" if "ApplyRestore n \<in> set (fst run)" for n
    using conjunct1 [OF conjunct2 [OF safe]] that ok by simp
  moreover have "ApplyRestore ''hcdr-restore-shop-t1'' \<in> set (fst run)" using conjunct2 [OF conjunct2 [OF safe]] ok by simp
  ultimately have "last (fst run) = ApplyRestore ''hcdr-restore-shop-t1''" "ReplaceNamespaceAndWait ''shop-new'' \<in> set (butlast (fst run))" by simp_all
  then show ?thesis by (auto simp: run_def manifest_def Let_def dest: in_set_butlastD)
qed

definition orphaned :: "velero_objects \<Rightarrow> velero_objects" where
  "orphaned objs = objs(''podvolumerestores'' := [velero_item ''v1'' [(''velero.io/restore-name'', ''hcdr-restore-shop-1'')] []])"

theorem orphans_survive_retry_witness:
  "let first = DeleteVeleroBackupArtifactsByNamePrefix ((\<lambda>_. None)(''podvolumerestores'' := Some (ApiError ''timeout''))) (\<lambda>_ _. None) ''hypercdr-agent''
       (scheduleNameForPlan plan_a) (orphaned sample_velero);
     second = DeleteVeleroBackupArtifactsByNamePrefix (\<lambda>_. None) (\<lambda>_ _. None) ''hypercdr-agent'' (scheduleNameForPlan plan_a) (fst first) in
   snd (snd first) = Some (ApiError ''timeout'') \<and> snd (snd second) = None \<and>
   velero_item ''v1'' [(''velero.io/restore-name'', ''hcdr-restore-shop-1'')] [] \<in> set (fst second ''podvolumerestores'')"
proof -
  let ?restore = "velero_item ''hcdr-restore-shop-1'' [] [(''backupName'', AStr backup_a)]"
  let ?y = "velero_item ''v1'' [(''velero.io/restore-name'', ''hcdr-restore-shop-1'')] []"
  have r: "?restore \<in> set (orphaned sample_velero ''restores'')" "GetName ?restore \<noteq> ''''" "restore_backup ?restore = backup_a"
    "backup_a \<in> GetName ` set (orphaned sample_velero ''backups'')" by code_simp+
  have p: "has_prefix (scheduleNameForPlan plan_a) backup_a" "trim_space (scheduleNameForPlan plan_a) = scheduleNameForPlan plan_a"
    "scheduleNameForPlan plan_a \<noteq> ''''" "''hypercdr-agent'' \<noteq> ''''" by code_simp+
  have n: "\<forall>item \<in> set (orphaned sample_velero ''backups''). GetName item \<noteq> '''' \<and> trim_space (GetName item) = GetName item" by code_simp
  have y: "?y \<in> set (orphaned sample_velero ''podvolumerestores'')" "sget (GetLabels ?y) ''velero.io/restore-name'' = GetName ?restore" by code_simp+
  have e: "ApiError ''timeout'' \<noteq> ApiNotFound" by simp
  show ?thesis unfolding Let_def
    by (rule orphans_survive_retry [where objs = "orphaned sample_velero" and restore = ?restore and b = backup_a, OF r p e n y refl refl])
qed

end
